(* ===== verification/Prelude.thy ===== *)
theory Prelude
  imports
    Complex_Main
    "HOL-Library.Word"
    "HOL-Library.List_Lexorder"
    "HOL-Library.Char_ord"
    "HOL-Library.Product_Lexorder"
begin

text \<open>
  Shared ground of the development: the machine integers, the string and number primitives of
  the Rust standard library the sources use, the list idioms (\<open>iter_mut().find\<close>, loops with an
  early return, \<open>Vec::remove\<close>), the upsert interface, and the environment record that carries the
  operations of third-party crates (\<open>rust_decimal\<close>, \<open>chrono\<close>) as parameters of the model.
\<close>

named_theorems string_simps \<open>evaluation of string primitives\<close>
named_theorems accum_intros \<open>invariants of loops over a mutable vector\<close>

type_synonym u32 = "32 word"
type_synonym u64 = "64 word"
type_synonym datetime = int
type_synonym 'a result = "string + 'a"

subsection \<open>Third-party operations as parameters\<close>

text \<open>
  A \<open>rust_decimal::Decimal\<close> is represented by the rational number it denotes, so its equality and
  order are those of the rationals. Its arithmetic rounds to 28 significant digits; the four
  operations, \<open>round_dp\<close>, \<open>floor\<close>, \<open>parse::<Decimal>\<close> and \<open>normalize().to_string()\<close> are therefore
  parameters. \<open>utc_now n\<close> is the instant \<open>Utc::now()\<close> returns when the event at position \<open>n\<close> of an
  event log is appended, \<open>millis_opt\<close> is \<open>Utc.timestamp_millis_opt(..).single()\<close>, and \<open>close_hash\<close>
  is the value of the standard \<open>DefaultHasher\<close>, whose algorithm the library leaves unspecified.
\<close>

type_synonym decimal = rat

record env =
  d_add :: "decimal \<Rightarrow> decimal \<Rightarrow> decimal"
  d_sub :: "decimal \<Rightarrow> decimal \<Rightarrow> decimal"
  d_mul :: "decimal \<Rightarrow> decimal \<Rightarrow> decimal"
  d_div :: "decimal \<Rightarrow> decimal \<Rightarrow> decimal"
  d_round_dp :: "decimal \<Rightarrow> nat \<Rightarrow> decimal"
  d_floor :: "decimal \<Rightarrow> decimal"
  d_parse :: "string \<Rightarrow> decimal option"
  d_show :: "decimal \<Rightarrow> string"
  utc_now :: "nat \<Rightarrow> datetime"
  millis_opt :: "int \<Rightarrow> datetime option"
  close_hash :: "string \<Rightarrow> nat \<Rightarrow> u64"

definition d_of_u32 :: "u32 \<Rightarrow> decimal" where
  "d_of_u32 n = of_nat (unat n)"

lemma d_of_u32_nonneg [simp]: "0 \<le> d_of_u32 n"
  unfolding d_of_u32_def by (rule of_nat_0_le_iff)

subsection \<open>Results with an early return\<close>

definition bind_res :: "'a result \<Rightarrow> ('a \<Rightarrow> 'b result) \<Rightarrow> 'b result" where
  "bind_res r f = (case r of Inl e \<Rightarrow> Inl e | Inr x \<Rightarrow> f x)"

lemma bind_res_simps [simp]:
  "bind_res (Inl e) f = Inl e"
  "bind_res (Inr x) f = f x"
  by (simp_all add: bind_res_def)

lemma bind_res_eq_Inr: "bind_res r f = Inr y \<longleftrightarrow> (\<exists>x. r = Inr x \<and> f x = Inr y)"
  by (cases r) simp_all

text \<open>A \<open>for\<close> loop whose body may return an error.\<close>

fun fold_res :: "('a \<Rightarrow> 's \<Rightarrow> 's result) \<Rightarrow> 'a list \<Rightarrow> 's \<Rightarrow> 's result" where
  "fold_res f [] s = Inr s"
| "fold_res f (x # xs) s = bind_res (f x s) (fold_res f xs)"

text \<open>\<open>collect::<Result<Vec<_>, E>>()\<close>.\<close>

fun collect_res :: "'a result list \<Rightarrow> 'a list result" where
  "collect_res [] = Inr []"
| "collect_res (r # rs) = bind_res r (\<lambda>x. bind_res (collect_res rs) (\<lambda>xs. Inr (x # xs)))"

text \<open>Methods \<open>fn f(&mut self, ..) -> Result<T, E>\<close>: the state is returned on the error path too,
  because the fields written before an early return keep their values.\<close>

type_synonym ('s, 'a) stateful = "'s \<Rightarrow> 'a result \<times> 's"

definition ret :: "'a \<Rightarrow> ('s, 'a) stateful" where
  "ret x s = (Inr x, s)"

definition fail :: "string \<Rightarrow> ('s, 'a) stateful" where
  "fail e s = (Inl e, s)"

definition andthen :: "('s, 'a) stateful \<Rightarrow> ('a \<Rightarrow> ('s, 'b) stateful) \<Rightarrow> ('s, 'b) stateful" where
  "andthen m f s = (case m s of (Inl e, s') \<Rightarrow> (Inl e, s') | (Inr x, s') \<Rightarrow> f x s')"

fun for_each :: "('a \<Rightarrow> ('s, unit) stateful) \<Rightarrow> 'a list \<Rightarrow> ('s, unit) stateful" where
  "for_each f [] s = (Inr (), s)"
| "for_each f (x # xs) s = (case f x s of (Inl e, s') \<Rightarrow> (Inl e, s') | (Inr _, s') \<Rightarrow> for_each f xs s')"

lemma stateful_simps [simp]:
  "ret x s = (Inr x, s)"
  "fail e s = (Inl e, s)"
  by (simp_all add: ret_def fail_def)

lemma andthen_state:
  assumes "I (snd (m s))" and "\<And>x s'. m s = (Inr x, s') \<Longrightarrow> I s' \<Longrightarrow> I (snd (f x s'))"
  shows "I (snd (andthen m f s))"
  using assms by (cases "m s"; cases "fst (m s)") (auto simp: andthen_def)

subsection \<open>List idioms\<close>

text \<open>\<open>iter_mut().find(P)\<close> followed by an update of the element found.\<close>

fun update_first :: "('a \<Rightarrow> bool) \<Rightarrow> ('a \<Rightarrow> 'a) \<Rightarrow> 'a list \<Rightarrow> 'a list" where
  "update_first P f [] = []"
| "update_first P f (x # xs) = (if P x then f x # xs else x # update_first P f xs)"

text \<open>\<open>iter().position(P)\<close> and \<open>iter().rposition(P)\<close>.\<close>

fun find_index :: "('a \<Rightarrow> bool) \<Rightarrow> 'a list \<Rightarrow> nat option" where
  "find_index P [] = None"
| "find_index P (x # xs) = (if P x then Some 0 else map_option Suc (find_index P xs))"

definition rposition :: "('a \<Rightarrow> bool) \<Rightarrow> 'a list \<Rightarrow> nat option" where
  "rposition P xs = map_option (\<lambda>i. length xs - Suc i) (find_index P (rev xs))"

text \<open>\<open>iter().find_map(f)\<close>.\<close>

fun find_map :: "('a \<Rightarrow> 'b option) \<Rightarrow> 'a list \<Rightarrow> 'b option" where
  "find_map f [] = None"
| "find_map f (x # xs) = (case f x of None \<Rightarrow> find_map f xs | Some y \<Rightarrow> Some y)"

text \<open>\<open>windows(2).any(R)\<close>.\<close>

fun any_window :: "('a \<Rightarrow> 'a \<Rightarrow> bool) \<Rightarrow> 'a list \<Rightarrow> bool" where
  "any_window R (x # y # zs) = (R x y \<or> any_window R (y # zs))"
| "any_window R xs = False"

text \<open>\<open>Vec::remove(i)\<close> for \<open>i\<close> in range, \<open>Vec::get(i)\<close>.\<close>

definition remove_nth :: "nat \<Rightarrow> 'a list \<Rightarrow> 'a list" where
  "remove_nth i xs = take i xs @ drop (Suc i) xs"

definition vec_get :: "'a list \<Rightarrow> nat \<Rightarrow> 'a option" where
  "vec_get xs i = (if i < length xs then Some (xs ! i) else None)"

text \<open>\<open>for x in &mut xs\<close> with a body that also updates a state \<open>s\<close>.\<close>

fun map_accum :: "('s \<Rightarrow> 'a \<Rightarrow> 's \<times> 'a) \<Rightarrow> 's \<Rightarrow> 'a list \<Rightarrow> 's \<times> 'a list" where
  "map_accum f s [] = (s, [])"
| "map_accum f s (x # xs) =
     (let (s', y) = f s x; (s'', ys) = map_accum f s' xs in (s'', y # ys))"

definition upsert :: "('a \<Rightarrow> bool) \<Rightarrow> ('a \<Rightarrow> 'a) \<Rightarrow> 'a \<Rightarrow> 'a list \<Rightarrow> 'a list" where
  "upsert P f new xs = (if list_ex P xs then update_first P f xs else xs @ [new])"

subsection \<open>Facts about the list idioms\<close>

lemma length_update_first [simp]: "length (update_first P f xs) = length xs"
  by (induction xs) auto

lemma map_update_first: "(\<And>x. key (f x) = key x) \<Longrightarrow> map key (update_first P f xs) = map key xs"
  by (induction xs) auto

lemma update_first_none [simp]: "\<not> list_ex P xs \<Longrightarrow> update_first P f xs = xs"
  by (induction xs) auto

lemma set_update_first: "x \<in> set (update_first P f xs) \<Longrightarrow> x \<in> set xs \<or> (\<exists>y \<in> set xs. P y \<and> x = f y)"
  by (induction xs) (auto split: if_splits)

lemma find_eq_None_iff: "find P xs = None \<longleftrightarrow> \<not> list_ex P xs"
  by (auto simp: find_None_iff list_ex_iff)

lemma update_first_set: "list_ex P xs \<Longrightarrow> \<exists>y \<in> set xs. P y \<and> f y \<in> set (update_first P f xs)"
  by (induction xs) auto

lemma any_window_iff: "transp R \<Longrightarrow> \<not> any_window (\<lambda>x y. \<not> R x y) xs \<longleftrightarrow> sorted_wrt R xs"
proof (induction xs rule: induct_list012)
  case (3 x y zs)
  then have "\<not> any_window (\<lambda>x y. \<not> R x y) (x # y # zs) \<longleftrightarrow> R x y \<and> sorted_wrt R (y # zs)"
    by simp
  also have "\<dots> \<longleftrightarrow> sorted_wrt R (x # y # zs)"
    using "3.prems" by (auto dest: transpD)
  finally show ?case .
qed simp_all

lemma find_index_Some:
  "find_index P xs = Some i \<Longrightarrow> i < length xs \<and> P (xs ! i) \<and> (\<forall>j < i. \<not> P (xs ! j))"
proof (induction xs arbitrary: i)
  case (Cons x xs)
  show ?case
  proof (cases "P x")
    case False
    then obtain i' where i': "find_index P xs = Some i'" and i: "i = Suc i'"
      using Cons.prems by auto
    then show ?thesis using Cons.IH [OF i'] False
      by (auto simp: less_Suc_eq_0_disj nth_Cons')
  qed (use Cons.prems in auto)
qed simp

lemma find_index_None: "find_index P xs = None \<longleftrightarrow> \<not> list_ex P xs"
  by (induction xs) auto

lemma map_accum_Cons:
  "map_accum f s (x # xs) =
     (fst (map_accum f (fst (f s x)) xs), snd (f s x) # snd (map_accum f (fst (f s x)) xs))"
  by (simp add: case_prod_beta Let_def)

declare map_accum.simps(2) [simp del]

lemma length_map_accum [simp]: "length (snd (map_accum f s xs)) = length xs"
  by (induction xs arbitrary: s) (simp_all add: map_accum_Cons)

lemma map_accum_inv [accum_intros]:
  assumes "\<And>s x. I s \<Longrightarrow> x \<in> set xs \<Longrightarrow> I (fst (f s x))" and "I s"
  shows "I (fst (map_accum f s xs))"
  using assms
proof (induction xs arbitrary: s)
  case (Cons x xs)
  then have "I (fst (f s x))" by simp
  then have "I (fst (map_accum f (fst (f s x)) xs))"
    using Cons.IH Cons.prems(1) by simp
  then show ?case by (simp add: map_accum_Cons)
qed simp

lemma map_accum_all2 [accum_intros]:
  assumes "\<And>s x. x \<in> set xs \<Longrightarrow> R x (snd (f s x))"
  shows "list_all2 R xs (snd (map_accum f s xs))"
  using assms
proof (induction xs arbitrary: s)
  case (Cons x xs)
  then have "list_all2 R xs (snd (map_accum f (fst (f s x)) xs))" by simp
  moreover have "R x (snd (f s x))" using Cons.prems by simp
  ultimately show ?case by (simp add: map_accum_Cons)
qed simp

lemma length_remove_nth: "i < length xs \<Longrightarrow> length (remove_nth i xs) = length xs - 1"
  by (simp add: remove_nth_def)

lemma set_remove_nth: "set (remove_nth i xs) \<subseteq> set xs"
  by (auto simp: remove_nth_def dest: in_set_takeD in_set_dropD)

lemma map_remove_nth: "map f (remove_nth i xs) = remove_nth i (map f xs)"
  by (simp add: remove_nth_def take_map drop_map)

lemma distinct_remove_nth: "distinct xs \<Longrightarrow> distinct (remove_nth i xs)"
  using set_take_disj_set_drop_if_distinct [of xs i "Suc i"] by (simp add: remove_nth_def)

lemma set_upsert:
  "x \<in> set (upsert P f new xs) \<Longrightarrow> x \<in> set xs \<or> x = new \<or> (\<exists>y \<in> set xs. P y \<and> x = f y)"
  unfolding upsert_def by (auto split: if_splits dest: set_update_first)

lemma upsert_selected: "\<exists>x \<in> set (upsert P f new xs). x = new \<or> (\<exists>y \<in> set xs. P y \<and> x = f y)"
  using update_first_set [of P xs f] by (auto simp: upsert_def)

lemma upsert_exists:
  "Q new \<Longrightarrow> (\<And>y. P y \<Longrightarrow> Q (f y)) \<Longrightarrow> \<exists>x \<in> set (upsert P f new xs). Q x"
  using upsert_selected [of P f new xs] by blast

lemma distinct_map_sort_key: "distinct (map f (sort_key k xs)) \<longleftrightarrow> distinct (map f xs)"
  by (metis distinct_map distinct_sort set_sort)

subsection \<open>The upsert interface\<close>

text \<open>
  Several components keep a vector of orders with one order per key and write to it by "find the
  order with this key and update it, else push a new one". The law the callers rely on is that
  the selector selects exactly the key, and that the update keeps it.
\<close>

locale keyed_upsert =
  fixes ok :: "'a \<Rightarrow> bool" and key :: "'a \<Rightarrow> 'k" and k :: 'k
    and P :: "'a \<Rightarrow> bool" and f :: "'a \<Rightarrow> 'a" and new :: 'a
  assumes selects: "ok x \<Longrightarrow> P x \<longleftrightarrow> key x = k"
    and keeps: "ok x \<Longrightarrow> P x \<Longrightarrow> key (f x) = key x \<and> ok (f x)"
    and new_key: "key new = k" and new_ok: "ok new"
begin

lemma ok_upsert: "list_all ok xs \<Longrightarrow> list_all ok (upsert P f new xs)"
  by (auto simp: list_all_iff new_ok keeps dest!: set_upsert)

lemma keys_update_first: "list_all ok xs \<Longrightarrow> map key (update_first P f xs) = map key xs"
  by (induction xs) (auto simp: keeps)

lemma keys_upsert:
  assumes "list_all ok xs"
  shows "map key (upsert P f new xs) = (if k \<in> key ` set xs then map key xs else map key xs @ [k])"
proof -
  have "list_ex P xs \<longleftrightarrow> k \<in> key ` set xs"
    using assms by (auto simp: list_ex_iff list_all_iff selects image_iff)
  then show ?thesis
    by (simp add: upsert_def keys_update_first [OF assms] new_key)
qed

lemma distinct_upsert:
  "list_all ok xs \<Longrightarrow> distinct (map key xs) \<Longrightarrow> distinct (map key (upsert P f new xs))"
  by (simp add: keys_upsert)

lemma key_in_upsert: "list_all ok xs \<Longrightarrow> k \<in> key ` set (upsert P f new xs)"
proof -
  assume "list_all ok xs"
  then have "k \<in> set (map key (upsert P f new xs))"
    by (simp only: keys_upsert) auto
  then show ?thesis by simp
qed

lemma find_upsert:
  assumes "list_all ok xs"
  shows "find P (upsert P f new xs) = Some (case find P xs of None \<Rightarrow> new | Some x \<Rightarrow> f x)"
proof (cases "list_ex P xs")
  case True
  then have "find P (update_first P f xs) = Some (case find P xs of None \<Rightarrow> new | Some x \<Rightarrow> f x)"
    using assms by (induction xs) (auto simp: selects keeps)
  with True show ?thesis by (simp add: upsert_def)
next
  case False
  moreover have "P new" by (simp add: selects new_ok new_key)
  ultimately have "find P (xs @ [new]) = Some new"
    by (induction xs) auto
  with False show ?thesis by (simp add: upsert_def find_eq_None_iff [THEN iffD2])
qed

lemma in_upsert_other:
  assumes "list_all ok xs" and "key x \<noteq> k"
  shows "x \<in> set (upsert P f new xs) \<longleftrightarrow> x \<in> set xs"
proof -
  have "x \<in> set (update_first P f xs) \<longleftrightarrow> x \<in> set xs"
    using assms by (induction xs) (auto simp: selects keeps)
  moreover have "x \<noteq> new" using assms(2) new_key by blast
  ultimately show ?thesis by (simp add: upsert_def)
qed

end

subsection \<open>Laws of decimal arithmetic\<close>

text \<open>
  What the sources rely on of \<open>rust_decimal\<close>: every operation returns the exact result rounded to
  a representable number by a monotone rounding that keeps representable numbers. Overflow, which
  makes the crate panic, is outside these laws.
\<close>

locale rounded_decimal =
  fixes E :: env and rep :: "decimal \<Rightarrow> bool" and rnd :: "decimal \<Rightarrow> decimal"
  assumes add: "d_add E x y = rnd (x + y)"
    and sub: "d_sub E x y = rnd (x - y)"
    and mul: "d_mul E x y = rnd (x * y)"
    and div: "y \<noteq> 0 \<Longrightarrow> d_div E x y = rnd (x / y)"
    and rnd_mono: "x \<le> y \<Longrightarrow> rnd x \<le> rnd y"
    and rnd_rep: "rep x \<Longrightarrow> rnd x = x"
    and rep_rnd: "rep (rnd x)"
    and rep_nat: "n < 2 ^ 64 \<Longrightarrow> rep (of_nat n)"
begin

lemma rep_zero: "rep 0"
  using rep_nat [of 0] by simp

lemma rep_one: "rep 1"
  using rep_nat [of 1] by simp

lemma rnd_nonneg: "0 \<le> x \<Longrightarrow> 0 \<le> rnd x"
  using rnd_mono [of 0 x] rnd_rep [OF rep_zero] by simp

lemma rnd_nonpos: "x \<le> 0 \<Longrightarrow> rnd x \<le> 0"
  using rnd_mono [of x 0] rnd_rep [OF rep_zero] by simp

lemma le_rnd: "rep x \<Longrightarrow> x \<le> y \<Longrightarrow> x \<le> rnd y"
  using rnd_mono [of x y] rnd_rep by simp

lemma rnd_le: "rep y \<Longrightarrow> x \<le> y \<Longrightarrow> rnd x \<le> y"
  using rnd_mono [of x y] rnd_rep by simp

end

text \<open>
  An idealisation and not a law of the crate: arithmetic in which no operation rounds. It serves
  lemmas that compare code with the intended rational values.
\<close>

locale exact_decimal =
  fixes E :: env
  assumes exact_add: "d_add E x y = x + y"
    and exact_sub: "d_sub E x y = x - y"
    and exact_mul: "d_mul E x y = x * y"
    and exact_div: "y \<noteq> 0 \<Longrightarrow> d_div E x y = x / y"

sublocale exact_decimal \<subseteq> rounded_decimal E "\<lambda>_. True" "\<lambda>x. x"
  by unfold_locales (simp_all add: exact_add exact_sub exact_mul exact_div)

text \<open>
  \<open>round_dp(n)\<close>: the result has at most \<open>n\<close> decimal places, and a number that has no more is kept.
\<close>

definition has_dp :: "nat \<Rightarrow> decimal \<Rightarrow> bool" where
  "has_dp n x \<longleftrightarrow> x * 10 ^ n \<in> \<int>"

lemma has_dp_diff: "has_dp n x \<Longrightarrow> has_dp n y \<Longrightarrow> has_dp n (x - y)"
  by (simp add: has_dp_def left_diff_distrib)

lemma has_dp_add: "has_dp n x \<Longrightarrow> has_dp n y \<Longrightarrow> has_dp n (x + y)"
  by (simp add: has_dp_def distrib_right)

lemma has_dp_of_nat [simp]: "has_dp n (of_nat k)"
  unfolding has_dp_def by (intro Ints_mult Ints_of_nat Ints_power Ints_numeral)

lemma has_dp_scale: "has_dp n x \<Longrightarrow> has_dp n (x * of_nat k)"
proof -
  assume "has_dp n x"
  then have "of_nat k * (x * 10 ^ n) \<in> (\<int> :: decimal set)" by (simp add: has_dp_def)
  then show ?thesis by (simp add: has_dp_def ac_simps)
qed

lemma has_dp_round: "has_dp n (of_int (round (x * 10 ^ n)) / 10 ^ n)"
  by (simp add: has_dp_def)

lemma round_dp_nonneg: "0 \<le> x \<Longrightarrow> 0 \<le> of_int (round (x * 10 ^ n)) / (10 ^ n :: decimal)"
  using round_mono [of 0 "x * 10 ^ n"] by simp

lemma has_dp_round_id: "has_dp n x \<Longrightarrow> of_int (round (x * 10 ^ n)) / 10 ^ n = x"
  unfolding has_dp_def by (elim Ints_cases) (simp add: nonzero_divide_eq_eq)

locale dp_rounding =
  fixes E :: env
  assumes dp_grid: "has_dp n (d_round_dp E x n)"
    and dp_keep: "has_dp n x \<Longrightarrow> d_round_dp E x n = x"
    and dp_nonneg: "0 \<le> x \<Longrightarrow> 0 \<le> d_round_dp E x n"

locale exact_grid = exact_decimal E + dp_rounding E for E :: env

text \<open>
  Two interpretations: arithmetic that never rounds, and arithmetic that cuts every result to 28
  decimal places, as \<open>rust_decimal\<close> does with a scale of at most 28. They also give the concrete
  environments at which the theorems are instantiated; number parsing and formatting are those of
  integers there, and the clock counts events.
\<close>

definition trunc28 :: "decimal \<Rightarrow> decimal" where
  "trunc28 x = of_int \<lfloor>x * 10 ^ 28\<rfloor> / 10 ^ 28"

definition env_of :: "(decimal \<Rightarrow> decimal) \<Rightarrow> (string \<Rightarrow> decimal option) \<Rightarrow> (decimal \<Rightarrow> string) \<Rightarrow> env" where
  "env_of r prs shw =
     \<lparr>d_add = (\<lambda>x y. r (x + y)), d_sub = (\<lambda>x y. r (x - y)), d_mul = (\<lambda>x y. r (x * y)),
      d_div = (\<lambda>x y. r (x / y)), d_round_dp = (\<lambda>x n. of_int (round (x * 10 ^ n)) / 10 ^ n),
      d_floor = (\<lambda>x. of_int \<lfloor>x\<rfloor>), d_parse = prs, d_show = shw,
      utc_now = int, millis_opt = Some, close_hash = (\<lambda>_ i. of_nat i)\<rparr>"

lemma env_of_simps [simp]:
  "d_add (env_of r prs shw) x y = r (x + y)"
  "d_sub (env_of r prs shw) x y = r (x - y)"
  "d_mul (env_of r prs shw) x y = r (x * y)"
  "d_div (env_of r prs shw) x y = r (x / y)"
  "d_round_dp (env_of r prs shw) x n = of_int (round (x * 10 ^ n)) / 10 ^ n"
  "d_floor (env_of r prs shw) x = of_int \<lfloor>x\<rfloor>"
  "d_parse (env_of r prs shw) = prs"
  "d_show (env_of r prs shw) = shw"
  "utc_now (env_of r prs shw) = int"
  "millis_opt (env_of r prs shw) = Some"
  "close_hash (env_of r prs shw) = (\<lambda>_ i. of_nat i)"
  by (simp_all add: env_of_def)

interpretation exact_env: exact_decimal "env_of (\<lambda>x. x) prs shw" for prs shw
  by unfold_locales simp_all

interpretation exact_grid_env: exact_grid "env_of (\<lambda>x. x) prs shw" for prs shw
  by unfold_locales (simp_all add: has_dp_round has_dp_round_id round_dp_nonneg del: zero_le_divide_iff)

interpretation cut_env: rounded_decimal "env_of trunc28 prs shw" "\<lambda>x. x * 10 ^ 28 \<in> \<int>" trunc28
  for prs shw
proof unfold_locales
  show "x \<le> y \<Longrightarrow> trunc28 x \<le> trunc28 y" for x y
    by (simp add: trunc28_def divide_right_mono floor_mono mult_right_mono)
  show "x * 10 ^ 28 \<in> \<int> \<Longrightarrow> trunc28 x = x" for x
    by (simp add: trunc28_def)
  show "trunc28 x * 10 ^ 28 \<in> \<int>" for x
    by (simp add: trunc28_def)
  show "of_nat n * 10 ^ 28 \<in> \<int>" for n :: nat
    by (intro Ints_mult Ints_of_nat Ints_power Ints_numeral)
qed simp_all

end
