(* ===== verification/RustString.thy ===== *)
theory RustString
  imports Prelude
begin

text \<open>
  The \<open>str\<close> operations of the Rust standard library that the sources call, on strings as byte
  sequences (\<open>string\<close> is a list of 8-bit characters, Rust's UTF-8 bytes): \<open>starts_with\<close>,
  \<open>contains\<close>, \<open>ends_with\<close>, \<open>to_ascii_uppercase\<close>, \<open>to_ascii_lowercase\<close>, \<open>eq_ignore_ascii_case\<close>,
  \<open>trim\<close>, \<open>rsplit\<close>, \<open>rsplit_once\<close>, integer formatting and integer parsing.
\<close>

subsection \<open>Prefixes and substrings\<close>

fun starts_with :: "string \<Rightarrow> string \<Rightarrow> bool" where
  "starts_with s [] = True"
| "starts_with [] (d # p) = False"
| "starts_with (c # s) (d # p) = (c = d \<and> starts_with s p)"

fun str_contains :: "string \<Rightarrow> string \<Rightarrow> bool" where
  "str_contains [] p = (p = [])"
| "str_contains (c # s) p = (starts_with (c # s) p \<or> str_contains s p)"

definition ends_with :: "string \<Rightarrow> string \<Rightarrow> bool" where
  "ends_with s p = starts_with (rev s) (rev p)"

text \<open>\<open>strip_prefix\<close> and \<open>find\<close> of a character.\<close>

definition strip_prefix :: "string \<Rightarrow> string \<Rightarrow> string option" where
  "strip_prefix s p = (if starts_with s p then Some (drop (length p) s) else None)"

lemma starts_with_iff: "starts_with s p \<longleftrightarrow> (\<exists>t. s = p @ t)"
  by (induction s p rule: starts_with.induct) auto

lemma starts_with_append [simp]: "starts_with (p @ t) p"
  by (auto simp: starts_with_iff)

lemma str_contains_iff: "str_contains s p \<longleftrightarrow> (\<exists>u v. s = u @ p @ v)"
proof (induction s)
  case Nil
  then show ?case by simp
next
  case (Cons c s)
  show ?case
  proof
    assume "str_contains (c # s) p"
    then consider "starts_with (c # s) p" | "str_contains s p" by auto
    then show "\<exists>u v. c # s = u @ p @ v"
    proof cases
      case 1
      then show ?thesis by (metis append_Nil starts_with_iff)
    next
      case 2
      then show ?thesis using Cons.IH by (metis append_Cons)
    qed
  next
    assume "\<exists>u v. c # s = u @ p @ v"
    then obtain u v where uv: "c # s = u @ p @ v" by blast
    show "str_contains (c # s) p"
    proof (cases u)
      case Nil
      then have "starts_with (c # s) p" using uv by (auto simp: starts_with_iff)
      then show ?thesis by simp
    next
      case (Cons d u')
      then show ?thesis using uv Cons.IH by auto
    qed
  qed
qed

lemma str_contains_mid [simp]: "str_contains (u @ p @ v) p"
  by (auto simp: str_contains_iff)

lemma ends_with_iff: "ends_with s p \<longleftrightarrow> (\<exists>t. s = t @ p)"
  unfolding ends_with_def starts_with_iff
  by (metis rev_append rev_rev_ident)

subsection \<open>ASCII case\<close>

definition ascii_upper :: "char \<Rightarrow> char" where
  "ascii_upper c = (let n = of_char c :: nat in
     if 97 \<le> n \<and> n \<le> 122 then char_of (n - 32) else c)"

definition ascii_lower :: "char \<Rightarrow> char" where
  "ascii_lower c = (let n = of_char c :: nat in
     if 65 \<le> n \<and> n \<le> 90 then char_of (n + 32) else c)"

definition to_ascii_uppercase :: "string \<Rightarrow> string" where
  "to_ascii_uppercase s = map ascii_upper s"

definition to_ascii_lowercase :: "string \<Rightarrow> string" where
  "to_ascii_lowercase s = map ascii_lower s"

definition eq_ignore_ascii_case :: "string \<Rightarrow> string \<Rightarrow> bool" where
  "eq_ignore_ascii_case s t = (to_ascii_lowercase s = to_ascii_lowercase t)"

lemma eq_ignore_ascii_case_refl [simp]: "eq_ignore_ascii_case s s"
  by (simp add: eq_ignore_ascii_case_def)

lemmas ascii_case_defs [string_simps] =
  eq_ignore_ascii_case_def to_ascii_lowercase_def to_ascii_uppercase_def
  ascii_lower_def ascii_upper_def Let_def

subsection \<open>trim\<close>

text \<open>
  \<open>str::trim\<close> removes characters with the Unicode property White\_Space. \<open>ws_prefix\<close> gives the
  number of bytes of a leading white-space character in UTF-8 (0 if there is none);
  \<open>ws_suffix\<close> does the same on a reversed string.
\<close>

fun ws_prefix :: "nat list \<Rightarrow> nat" where
  "ws_prefix bs = (case bs of
       [] \<Rightarrow> 0
     | a # r \<Rightarrow>
         if (9 \<le> a \<and> a \<le> 13) \<or> a = 32 then 1
         else (case r of
             [] \<Rightarrow> 0
           | b # r' \<Rightarrow>
               if a = 194 \<and> (b = 133 \<or> b = 160) then 2
               else (case r' of
                   [] \<Rightarrow> 0
                 | c # _ \<Rightarrow>
                     if (a = 225 \<and> b = 154 \<and> c = 128)
                        \<or> (a = 226 \<and> b = 128 \<and>
                             ((128 \<le> c \<and> c \<le> 138) \<or> c = 168 \<or> c = 169 \<or> c = 175))
                        \<or> (a = 226 \<and> b = 129 \<and> c = 159)
                        \<or> (a = 227 \<and> b = 128 \<and> c = 128)
                     then 3 else 0)))"

declare ws_prefix.simps [simp del]

definition ws_suffix :: "nat list \<Rightarrow> nat" where
  "ws_suffix bs =
     (if ws_prefix (take 1 bs) = 1 then 1
      else if ws_prefix (rev (take 2 bs)) = 2 then 2
      else if ws_prefix (rev (take 3 bs)) = 3 then 3
      else 0)"

function trim_by :: "(nat list \<Rightarrow> nat) \<Rightarrow> nat list \<Rightarrow> nat list" where
  "trim_by w bs =
     (let n = w bs in if n = 0 \<or> bs = [] then bs else trim_by w (drop n bs))"
  by pat_completeness auto
termination
  by (relation "measure (\<lambda>(w, bs). length bs)") (auto simp: Let_def)

declare trim_by.simps [simp del]

definition str_trim :: "string \<Rightarrow> string" where
  "str_trim s = map char_of
     (rev (trim_by ws_suffix (rev (trim_by ws_prefix (map of_char s)))))"

subsection \<open>Integers in decimal and hexadecimal\<close>

definition digit :: "nat \<Rightarrow> char" where
  "digit n = char_of (if n < 10 then 48 + n else 87 + n)"

fun show_base :: "nat \<Rightarrow> nat \<Rightarrow> string" where
  "show_base b n =
     (if b \<le> 1 \<or> n < b then [digit n] else show_base b (n div b) @ [digit (n mod b)])"

declare show_base.simps [simp del]

definition show_nat :: "nat \<Rightarrow> string" where
  "show_nat n = show_base 10 n"

definition show_int :: "int \<Rightarrow> string" where
  "show_int i = (if i < 0 then CHR ''-'' # show_nat (nat (- i)) else show_nat (nat i))"

definition show_u32 :: "u32 \<Rightarrow> string" where
  "show_u32 n = show_nat (unat n)"

text \<open>\<open>{hash:016x}\<close>: hexadecimal, padded with zeros to 16 digits.\<close>

definition show_hex16 :: "u64 \<Rightarrow> string" where
  "show_hex16 h = (let s = show_base 16 (unat h) in replicate (16 - length s) CHR ''0'' @ s)"

fun parse_digits :: "nat \<Rightarrow> string \<Rightarrow> nat option" where
  "parse_digits acc [] = Some acc"
| "parse_digits acc (c # s) =
     (let n = of_char c :: nat in
      if 48 \<le> n \<and> n \<le> 57 then parse_digits (10 * acc + (n - 48)) s else None)"

text \<open>\<open>parse::<usize>()\<close> (64-bit) and \<open>parse::<i64>()\<close>: an optional sign, at least one digit,
  an error on overflow.\<close>

definition parse_usize :: "string \<Rightarrow> nat option" where
  "parse_usize s =
     (let ds = (case s of c # r \<Rightarrow> if c = CHR ''+'' then r else s | [] \<Rightarrow> [])
      in if ds = [] then None
         else Option.bind (parse_digits 0 ds) (\<lambda>n. if n < 2 ^ 64 then Some n else None))"

definition parse_i64 :: "string \<Rightarrow> int option" where
  "parse_i64 s =
     (case s of
        [] \<Rightarrow> None
      | c # r \<Rightarrow>
          (let neg = (c = CHR ''-''); ds = (if c = CHR ''+'' \<or> c = CHR ''-'' then r else s)
           in if ds = [] then None
              else Option.bind (parse_digits 0 ds)
                (\<lambda>n. let i = (if neg then - int n else int n) in
                     if - (2 ^ 63) \<le> i \<and> i < 2 ^ 63 then Some i else None)))"

text \<open>\<open>rsplit(c).next()\<close>: what follows the last occurrence of \<open>c\<close>, the whole string if none.\<close>

definition rsplit_last :: "char \<Rightarrow> string \<Rightarrow> string" where
  "rsplit_last c s = rev (takeWhile (\<lambda>x. x \<noteq> c) (rev s))"

text \<open>\<open>str::split\<close> of a character.\<close>

fun str_split :: "char \<Rightarrow> string \<Rightarrow> string list" where
  "str_split c [] = [[]]"
| "str_split c (d # s) =
     (if d = c then [] # str_split c s
      else (case str_split c s of [] \<Rightarrow> [[d]] | p # ps \<Rightarrow> (d # p) # ps))"

text \<open>\<open>str::find\<close>, as what stands before and after the first occurrence.\<close>

fun split_first :: "string \<Rightarrow> string \<Rightarrow> (string \<times> string) option" where
  "split_first [] p = (if p = [] then Some ([], []) else None)"
| "split_first (c # t) p =
     (if starts_with (c # t) p then Some ([], drop (length p) (c # t))
      else map_option (\<lambda>(before, after). (c # before, after)) (split_first t p))"

subsection \<open>Facts about formatted integers\<close>

lemma of_char_digit: "n < 10 \<Longrightarrow> of_char (digit n) = (48 + n :: nat)"
  by (simp add: digit_def)

lemma digit_not_dash: "n < 10 \<Longrightarrow> digit n \<noteq> CHR ''-''"
proof
  assume "n < 10" and "digit n = CHR ''-''"
  then have "(48 + n :: nat) = of_char (CHR ''-'')" by (metis of_char_digit)
  then show False by simp
qed

lemma digit_not_plus: "n < 10 \<Longrightarrow> digit n \<noteq> CHR ''+''"
proof
  assume "n < 10" and "digit n = CHR ''+''"
  then have "(48 + n :: nat) = of_char (CHR ''+'')" by (metis of_char_digit)
  then show False by simp
qed

lemma show_nat_small: "n < 10 \<Longrightarrow> show_nat n = [digit n]"
  by (simp add: show_nat_def show_base.simps)

lemma show_nat_step: "10 \<le> n \<Longrightarrow> show_nat n = show_nat (n div 10) @ [digit (n mod 10)]"
  unfolding show_nat_def by (subst show_base.simps) simp

lemma show_nat_nonempty [simp]: "show_nat n \<noteq> []"
  by (cases "n < 10") (simp_all add: show_nat_small show_nat_step)

lemma show_nat_chars: "c \<in> set (show_nat n) \<Longrightarrow> \<exists>d < 10. c = digit d"
proof (induction n rule: less_induct)
  case (less n)
  show ?case
  proof (cases "n < 10")
    case True
    then show ?thesis using less.prems by (auto simp: show_nat_small)
  next
    case False
    then consider "c \<in> set (show_nat (n div 10))" | "c = digit (n mod 10)"
      using less.prems by (auto simp: show_nat_step)
    then show ?thesis
    proof cases
      case 1
      then show ?thesis using less.IH [of "n div 10"] False by simp
    next
      case 2
      then show ?thesis by (intro exI [of _ "n mod 10"]) simp
    qed
  qed
qed

lemma dash_notin_show_nat [simp]: "CHR ''-'' \<notin> set (show_nat n)"
  using show_nat_chars digit_not_dash by metis

lemma plus_notin_show_nat [simp]: "CHR ''+'' \<notin> set (show_nat n)"
  using show_nat_chars digit_not_plus by metis

lemma parse_digits_append_digit:
  "d < 10 \<Longrightarrow> parse_digits acc (s @ [digit d]) = map_option (\<lambda>n. 10 * n + d) (parse_digits acc s)"
  by (induction acc s rule: parse_digits.induct) (auto simp: Let_def of_char_digit)

lemma parse_digits_show_nat: "parse_digits 0 (show_nat n) = Some n"
proof (induction n rule: less_induct)
  case (less n)
  show ?case
  proof (cases "n < 10")
    case True
    then show ?thesis by (simp add: show_nat_small of_char_digit)
  next
    case False
    then have "parse_digits 0 (show_nat (n div 10)) = Some (n div 10)"
      using less.IH by simp
    then show ?thesis using False
      by (simp add: show_nat_step parse_digits_append_digit)
  qed
qed

lemma show_nat_inject [simp]: "show_nat m = show_nat n \<longleftrightarrow> m = n"
  using parse_digits_show_nat by (metis option.inject)

lemma show_u32_inject [simp]: "show_u32 m = show_u32 n \<longleftrightarrow> m = n"
  by (simp add: show_u32_def word_unat_eq_iff)

lemma parse_usize_show_nat: "n < 2 ^ 64 \<Longrightarrow> parse_usize (show_nat n) = Some n"
proof -
  assume n: "n < 2 ^ 64"
  obtain c r where cr: "show_nat n = c # r" by (cases "show_nat n") simp_all
  then have "c \<noteq> CHR ''+''" using plus_notin_show_nat [of n] by auto
  then have "(case show_nat n of c # r \<Rightarrow> if c = CHR ''+'' then r else show_nat n | [] \<Rightarrow> [])
      = show_nat n"
    by (simp add: cr)
  then show ?thesis
    using n by (simp add: parse_usize_def parse_digits_show_nat Let_def)
qed

lemma show_int_chars: "c \<in> set (show_int i) \<Longrightarrow> c = CHR ''-'' \<or> (\<exists>d < 10. c = digit d)"
  using show_nat_chars by (auto simp: show_int_def split: if_splits)

lemma paren_notin_show_int: "CHR '')'' \<notin> set (show_int i)"
proof
  assume "CHR '')'' \<in> set (show_int i)"
  from show_int_chars [OF this] obtain d where "d < 10" "CHR '')'' = digit d" by auto
  then have "(48 + d :: nat) = of_char (CHR '')'')" by (metis of_char_digit)
  then show False by simp
qed

lemma parse_i64_show_int:
  assumes "- (2 ^ 63) \<le> i" "i < 2 ^ 63"
  shows "parse_i64 (show_int i) = Some i"
proof (cases "i < 0")
  case True
  then show ?thesis
    using assms by (simp add: show_int_def parse_i64_def Let_def parse_digits_show_nat)
next
  case False
  obtain c r where cr: "show_nat (nat i) = c # r" by (cases "show_nat (nat i)") simp_all
  moreover from this have "c \<noteq> CHR ''+''" "c \<noteq> CHR ''-''"
    using plus_notin_show_nat [of "nat i"] dash_notin_show_nat [of "nat i"] by auto
  ultimately have "parse_i64 (show_nat (nat i)) = Option.bind (parse_digits 0 (show_nat (nat i)))
      (\<lambda>n. if - (2 ^ 63) \<le> int n \<and> int n < 2 ^ 63 then Some (int n) else None)"
    by (simp add: parse_i64_def Let_def cong: if_cong)
  then show ?thesis using assms False by (simp add: show_int_def parse_digits_show_nat)
qed

lemma rsplit_last_append: "c \<notin> set t \<Longrightarrow> rsplit_last c (s @ c # t) = t"
proof -
  assume "c \<notin> set t"
  then have "takeWhile (\<lambda>x. x \<noteq> c) (rev t @ c # rev s) = rev t"
    by (subst takeWhile_append2) auto
  then show ?thesis by (simp add: rsplit_last_def)
qed

text \<open>The environment at which theorems are instantiated: exact arithmetic, integers in text.\<close>

abbreviation plain_env :: env where
  "plain_env \<equiv> env_of (\<lambda>x. x) (\<lambda>s. map_option of_nat (parse_usize s)) (\<lambda>x. show_int \<lfloor>x\<rfloor>)"

end
