(* ===== verification/Domain.thy ===== *)
theory Domain
  imports RustString
begin

text \<open>
  The data model of \<^verbatim>\<open>src/crates/shared-domain/src/strategy.rs\<close>: strategies, their revisions
  and the runtime state (positions, orders, fills, events) that the trading engine and the API
  server share. A struct field \<open>f\<close> of a type with prefix \<open>xx\<close> is the record field \<open>xx_f\<close>.
  Serialisation is not modelled.
\<close>

datatype StrategyStatus =
  Draft | Running | Paused | ErrorPaused | Completed | Stopping | Stopped | Archived

datatype PreflightStepStatus = Passed | Failed | Skipped

datatype StrategyMarket = Spot | FuturesUsdM | FuturesCoinM

datatype StrategyMode =
  SpotClassic | SpotBuyOnly | SpotSellOnly | FuturesLong | FuturesShort | FuturesNeutral

datatype GridGeneration = Arithmetic | Geometric | Custom

datatype PostTriggerAction = Stop | Rebuild

datatype StrategyAmountMode = Quote | Base

datatype FuturesMarginMode = Isolated | Cross

datatype StrategyType = OrdinaryGrid | ClassicBilateralGrid | MartingaleGrid

datatype ReferencePriceSource = Manual | Market

datatype StrategyRuntimePhase = PhaseDraft

record PreflightFailure =
  pf_step :: string
  pf_reason :: string
  pf_guidance :: "string option"

record PreflightStepResult =
  ps_step :: string
  ps_status :: PreflightStepStatus
  ps_reason :: "string option"
  ps_guidance :: "string option"

record PreflightReport =
  pr_ok :: bool
  pr_steps :: "PreflightStepResult list"
  pr_failures :: "PreflightFailure list"

record GridLevel =
  gl_level_index :: u32
  gl_entry_price :: decimal
  gl_quantity :: decimal
  gl_take_profit_bps :: u32
  gl_trailing_bps :: "u32 option"

record StrategyRevision =
  rv_revision_id :: string
  rv_version :: u32
  rv_strategy_type :: StrategyType
  rv_generation :: GridGeneration
  rv_levels :: "GridLevel list"
  rv_amount_mode :: StrategyAmountMode
  rv_futures_margin_mode :: "FuturesMarginMode option"
  rv_leverage :: "u32 option"
  rv_reference_price_source :: ReferencePriceSource
  rv_reference_price :: "decimal option"
  rv_overall_take_profit_bps :: "u32 option"
  rv_overall_stop_loss_bps :: "u32 option"
  rv_post_trigger_action :: PostTriggerAction

record StrategyRuntimePosition =
  po_market :: StrategyMarket
  po_mode :: StrategyMode
  po_quantity :: decimal
  po_average_entry_price :: decimal

record StrategyRuntimeOrder =
  ro_order_id :: string
  ro_exchange_order_id :: "string option"
  ro_level_index :: "u32 option"
  ro_side :: string
  ro_order_type :: string
  ro_price :: "decimal option"
  ro_quantity :: decimal
  ro_status :: string

record StrategyRuntimeFill =
  fi_fill_id :: string
  fi_order_id :: "string option"
  fi_level_index :: "u32 option"
  fi_fill_type :: string
  fi_price :: decimal
  fi_quantity :: decimal
  fi_realized_pnl :: "decimal option"
  fi_fee_amount :: "decimal option"
  fi_fee_asset :: "string option"

record StrategyRuntimeEvent =
  ev_event_type :: string
  ev_detail :: string
  ev_price :: "decimal option"
  ev_created_at :: datetime

record StrategyRuntime =
  rt_positions :: "StrategyRuntimePosition list"
  rt_orders :: "StrategyRuntimeOrder list"
  rt_fills :: "StrategyRuntimeFill list"
  rt_events :: "StrategyRuntimeEvent list"
  rt_last_preflight :: "PreflightReport option"

definition default_runtime :: StrategyRuntime where
  "default_runtime =
     \<lparr>rt_positions = [], rt_orders = [], rt_fills = [], rt_events = [], rt_last_preflight = None\<rparr>"

record Strategy =
  st_id :: string
  st_owner_email :: string
  st_name :: string
  st_symbol :: string
  st_budget :: string
  st_grid_spacing_bps :: u32
  st_status :: StrategyStatus
  st_source_template_id :: "string option"
  st_membership_ready :: bool
  st_exchange_ready :: bool
  st_permissions_ready :: bool
  st_withdrawals_disabled :: bool
  st_hedge_mode_ready :: bool
  st_symbol_ready :: bool
  st_filters_ready :: bool
  st_margin_ready :: bool
  st_conflict_ready :: bool
  st_balance_ready :: bool
  st_strategy_type :: StrategyType
  st_market :: StrategyMarket
  st_mode :: StrategyMode
  st_runtime_phase :: StrategyRuntimePhase
  st_runtime_controls :: unit
  st_draft_revision :: StrategyRevision
  st_tags :: "string list"
  st_notes :: string
  st_active_revision :: "StrategyRevision option"
  st_runtime :: StrategyRuntime
  st_archived_at :: "datetime option"

text \<open>Writing one component of the runtime of a strategy (\<open>strategy.runtime.orders = ..\<close>).\<close>

abbreviation set_orders :: "StrategyRuntimeOrder list \<Rightarrow> Strategy \<Rightarrow> Strategy" where
  "set_orders os s \<equiv> s\<lparr>st_runtime := (st_runtime s)\<lparr>rt_orders := os\<rparr>\<rparr>"

abbreviation set_positions :: "StrategyRuntimePosition list \<Rightarrow> Strategy \<Rightarrow> Strategy" where
  "set_positions ps s \<equiv> s\<lparr>st_runtime := (st_runtime s)\<lparr>rt_positions := ps\<rparr>\<rparr>"

abbreviation set_fills :: "StrategyRuntimeFill list \<Rightarrow> Strategy \<Rightarrow> Strategy" where
  "set_fills fs s \<equiv> s\<lparr>st_runtime := (st_runtime s)\<lparr>rt_fills := fs\<rparr>\<rparr>"

abbreviation set_events :: "StrategyRuntimeEvent list \<Rightarrow> Strategy \<Rightarrow> Strategy" where
  "set_events es s \<equiv> s\<lparr>st_runtime := (st_runtime s)\<lparr>rt_events := es\<rparr>\<rparr>"

end
