(* ===== verification/TakeProfit.thy ===== *)
theory TakeProfit
  imports Domain
begin

text \<open>
  \<^verbatim>\<open>src/apps/trading-engine/src/take_profit.rs\<close> and \<^verbatim>\<open>stop_loss.rs\<close>: the exit configurations and
  the take-profit price of an entry.
\<close>

record MakerTakeProfit =
  mk_target_percent :: decimal

record TrailingTakeProfit =
  tr_trigger_price :: decimal
  tr_trailing_percent :: decimal

record OverallTakeProfit =
  otp_target_percent :: decimal

record OverallStopLoss =
  osl_max_drawdown_percent :: decimal

definition take_profit_price_from_percent :: "env \<Rightarrow> decimal \<Rightarrow> decimal \<Rightarrow> bool \<Rightarrow> decimal" where
  "take_profit_price_from_percent E entry_price target_percent is_short =
     (if is_short then d_mul E entry_price (d_sub E 1 target_percent)
      else d_mul E entry_price (d_add E 1 target_percent))"

definition take_profit_price_from_bps :: "env \<Rightarrow> decimal \<Rightarrow> u32 \<Rightarrow> bool \<Rightarrow> decimal" where
  "take_profit_price_from_bps E entry_price take_profit_bps is_short =
     take_profit_price_from_percent E entry_price
       (d_div E (d_of_u32 take_profit_bps) (d_of_u32 10000)) is_short"

context rounded_decimal
begin

lemma rep_d_of_u32: "rep (d_of_u32 n)"
proof -
  have "unat n < 2 ^ 32" using unsigned_less [of n] by simp
  then have "unat n < 2 ^ 64" by simp
  then show ?thesis unfolding d_of_u32_def by (rule rep_nat)
qed

lemma bps_ratio_nonneg: "0 \<le> d_div E (d_of_u32 bps) (d_of_u32 10000)"
proof -
  have "d_of_u32 10000 = 10000" by (simp add: d_of_u32_def)
  then show ?thesis
    by (simp add: div) (rule rnd_nonneg, simp)
qed

lemma long_take_profit_ge:
  assumes "rep p" and "0 \<le> p"
  shows "p \<le> take_profit_price_from_bps E p bps False"
proof -
  let ?r = "d_div E (d_of_u32 bps) (d_of_u32 10000)"
  have "1 \<le> d_add E 1 ?r"
    unfolding add using le_rnd [OF rep_one] bps_ratio_nonneg [of bps] by simp
  then have "p \<le> p * d_add E 1 ?r"
    using assms(2) mult_left_mono [of 1 "d_add E 1 ?r" p] by simp
  then have "p \<le> d_mul E p (d_add E 1 ?r)"
    unfolding mul by (rule le_rnd [OF assms(1)])
  then show ?thesis
    by (simp add: take_profit_price_from_bps_def take_profit_price_from_percent_def)
qed

lemma short_take_profit_le:
  assumes "rep p" and "0 \<le> p"
  shows "take_profit_price_from_bps E p bps True \<le> p"
proof -
  let ?r = "d_div E (d_of_u32 bps) (d_of_u32 10000)"
  have "d_sub E 1 ?r \<le> 1"
    unfolding sub using rnd_le [OF rep_one] bps_ratio_nonneg [of bps] by simp
  then have "p * d_sub E 1 ?r \<le> p"
    using assms(2) mult_left_mono [of "d_sub E 1 ?r" 1 p] by simp
  then have "d_mul E p (d_sub E 1 ?r) \<le> p"
    unfolding mul by (rule rnd_le [OF assms(1)])
  then show ?thesis
    by (simp add: take_profit_price_from_bps_def take_profit_price_from_percent_def)
qed

end

end
