(* ===== verification/GridBuilder.thy ===== *)
theory GridBuilder
  imports TakeProfit
begin

text \<open>
  \<^verbatim>\<open>src/apps/trading-engine/src/grid_builder.rs\<close> (and \<open>GridMode\<close> of \<^verbatim>\<open>runtime.rs\<close>): construction
  and validation of the price levels of a grid. A \<open>GridBuildError\<close> is its message; the two
  \<open>unreachable!\<close> arms are error values, and \<open>ordinary_fixed_step_valid\<close> implies they never occur in
  a plan that is returned.
\<close>

datatype GridMode =
  GM_SpotGrid | GM_FuturesLong | GM_FuturesShort | GM_ClassicBilateralSpot | GM_ClassicBilateralFutures

fun is_ordinary :: "GridMode \<Rightarrow> bool" where
  "is_ordinary GM_SpotGrid = True"
| "is_ordinary GM_FuturesLong = True"
| "is_ordinary GM_FuturesShort = True"
| "is_ordinary _ = False"

fun is_classic_bilateral :: "GridMode \<Rightarrow> bool" where
  "is_classic_bilateral GM_ClassicBilateralSpot = True"
| "is_classic_bilateral GM_ClassicBilateralFutures = True"
| "is_classic_bilateral _ = False"

record GridPlan =
  gp_mode :: GridMode
  gp_levels :: "decimal list"
  gp_lower_levels :: "decimal list"
  gp_upper_levels :: "decimal list"

definition plan_ordinary :: "GridMode \<Rightarrow> decimal list \<Rightarrow> GridPlan" where
  "plan_ordinary mode levels =
     \<lparr>gp_mode = mode, gp_levels = levels, gp_lower_levels = [], gp_upper_levels = []\<rparr>"

definition plan_bilateral :: "GridMode \<Rightarrow> decimal list \<Rightarrow> decimal list \<Rightarrow> GridPlan" where
  "plan_bilateral mode lower_levels upper_levels =
     \<lparr>gp_mode = mode, gp_levels = [], gp_lower_levels = lower_levels, gp_upper_levels = upper_levels\<rparr>"

definition validate_anchor_inputs :: "decimal \<Rightarrow> u32 \<Rightarrow> u32 \<Rightarrow> unit result" where
  "validate_anchor_inputs anchor_price spacing_bps level_count =
     (if anchor_price \<le> 0 then Inl ''anchor price must be positive''
      else if spacing_bps = 0 then Inl ''grid spacing must be positive''
      else if level_count = 0 then Inl ''grid requires at least one level''
      else Inr ())"

definition validate_ordinary_mode :: "GridMode \<Rightarrow> unit result" where
  "validate_ordinary_mode mode =
     (if is_ordinary mode then Inr ()
      else Inl ''ordinary fixed-step builder only supports ordinary grid modes'')"

definition validate_bilateral_mode :: "GridMode \<Rightarrow> unit result" where
  "validate_bilateral_mode mode =
     (if is_classic_bilateral mode then Inr ()
      else Inl ''classic bilateral builder only supports bilateral grid modes'')"

definition validate_ordinary_direction :: "GridMode \<Rightarrow> decimal list \<Rightarrow> unit result" where
  "validate_ordinary_direction mode levels =
     (let invalid =
        (case mode of
           GM_SpotGrid \<Rightarrow> any_window (\<lambda>a b. a \<le> b) levels
         | GM_FuturesLong \<Rightarrow> any_window (\<lambda>a b. a \<le> b) levels
         | GM_FuturesShort \<Rightarrow> any_window (\<lambda>a b. a \<ge> b) levels
         | GM_ClassicBilateralSpot \<Rightarrow> False
         | GM_ClassicBilateralFutures \<Rightarrow> False)
      in if invalid
         then Inl ''ordinary grid levels must remain strictly monotonic after normalization''
         else Inr ())"

definition validate_bilateral_levels :: "decimal list \<Rightarrow> decimal list \<Rightarrow> unit result" where
  "validate_bilateral_levels lower_levels upper_levels =
     (if any_window (\<lambda>a b. a \<le> b) lower_levels
      then Inl ''classic bilateral lower levels must remain strictly descending''
      else if any_window (\<lambda>a b. a \<ge> b) upper_levels
      then Inl ''classic bilateral upper levels must remain strictly ascending''
      else Inr ())"

definition validate_shape :: "GridPlan \<Rightarrow> unit result" where
  "validate_shape plan =
     (if is_ordinary (gp_mode plan) then
        (if gp_levels plan = [] then Inl ''ordinary grid plan requires at least one level''
         else if gp_lower_levels plan \<noteq> [] \<or> gp_upper_levels plan \<noteq> []
         then Inl ''ordinary grid plan cannot include bilateral levels''
         else if list_ex (\<lambda>level. level \<le> 0) (gp_levels plan)
         then Inl ''ordinary grid plan levels must stay positive''
         else validate_ordinary_direction (gp_mode plan) (gp_levels plan))
      else
        (if gp_levels plan \<noteq> []
         then Inl ''classic bilateral grid plan cannot include ordinary levels''
         else if gp_lower_levels plan = [] \<or> gp_upper_levels plan = []
         then Inl ''classic bilateral grid plan requires lower and upper levels''
         else if length (gp_lower_levels plan) \<noteq> length (gp_upper_levels plan)
         then Inl ''classic bilateral grid plan requires symmetric side counts''
         else validate_bilateral_levels (gp_lower_levels plan) (gp_upper_levels plan)))"

definition spacing_ratio :: "u32 \<Rightarrow> decimal" where
  "spacing_ratio spacing_bps = d_of_u32 spacing_bps / 10 ^ 4"

definition normalize_level :: "env \<Rightarrow> decimal \<Rightarrow> decimal" where
  "normalize_level E level = d_round_dp E level 8"

definition u32_range :: "nat \<Rightarrow> nat \<Rightarrow> u32 list" where
  "u32_range a b = map of_nat [a..<b]"

definition ordinary_level_step ::
  "env \<Rightarrow> GridMode \<Rightarrow> decimal \<Rightarrow> decimal \<Rightarrow> u32 \<Rightarrow> decimal list \<Rightarrow> decimal list result" where
  "ordinary_level_step E mode anchor_price step index levels =
     (let offset = d_mul E step (d_of_u32 index)
      in bind_res
           (case mode of
              GM_SpotGrid \<Rightarrow> Inr (d_sub E anchor_price offset)
            | GM_FuturesLong \<Rightarrow> Inr (d_sub E anchor_price offset)
            | GM_FuturesShort \<Rightarrow> Inr (d_add E anchor_price offset)
            | GM_ClassicBilateralSpot \<Rightarrow> Inl ''unreachable: ordinary mode validated above''
            | GM_ClassicBilateralFutures \<Rightarrow> Inl ''unreachable: ordinary mode validated above'')
           (\<lambda>level. let level = normalize_level E level in
              if level \<le> 0 then Inl ''ordinary grid levels must stay positive''
              else Inr (levels @ [level])))"

definition ordinary_fixed_step ::
  "env \<Rightarrow> GridMode \<Rightarrow> decimal \<Rightarrow> u32 \<Rightarrow> u32 \<Rightarrow> GridPlan result" where
  "ordinary_fixed_step E mode anchor_price spacing_bps grid_count =
     bind_res (validate_ordinary_mode mode) (\<lambda>_.
     bind_res (validate_anchor_inputs anchor_price spacing_bps grid_count) (\<lambda>_.
       let spacing = spacing_ratio spacing_bps;
           step = normalize_level E (d_mul E anchor_price spacing)
       in bind_res
            (fold_res (ordinary_level_step E mode anchor_price step) (u32_range 0 (unat grid_count)) [])
            (\<lambda>levels.
               bind_res (validate_ordinary_direction mode levels) (\<lambda>_.
                 let plan = plan_ordinary mode levels
                 in bind_res (validate_shape plan) (\<lambda>_. Inr plan)))))"

definition bilateral_fixed_step ::
  "env \<Rightarrow> decimal \<Rightarrow> decimal \<Rightarrow> u32 \<Rightarrow> decimal list \<times> decimal list \<Rightarrow> (decimal list \<times> decimal list) result"
where
  "bilateral_fixed_step E center_price step index acc =
     (let (lower_levels, upper_levels) = acc;
          offset = d_mul E step (d_of_u32 index);
          lower = normalize_level E (d_sub E center_price offset);
          upper = normalize_level E (d_add E center_price offset)
      in if lower \<le> 0 then Inl ''classic bilateral lower levels must stay positive''
         else Inr (lower_levels @ [lower], upper_levels @ [upper]))"

definition classic_bilateral_fixed ::
  "env \<Rightarrow> GridMode \<Rightarrow> decimal \<Rightarrow> u32 \<Rightarrow> u32 \<Rightarrow> GridPlan result" where
  "classic_bilateral_fixed E mode center_price spacing_bps levels_per_side =
     bind_res (validate_bilateral_mode mode) (\<lambda>_.
     bind_res (validate_anchor_inputs center_price spacing_bps levels_per_side) (\<lambda>_.
       let spacing = spacing_ratio spacing_bps;
           step = normalize_level E (d_mul E center_price spacing)
       in bind_res
            (fold_res (bilateral_fixed_step E center_price step)
               (u32_range 1 (Suc (unat levels_per_side))) ([], []))
            (\<lambda>(lower_levels, upper_levels).
               let plan = plan_bilateral mode lower_levels upper_levels
               in bind_res (validate_shape plan) (\<lambda>_. Inr plan))))"

definition bilateral_geometric_step ::
  "env \<Rightarrow> decimal \<Rightarrow> decimal \<Rightarrow> u32 \<Rightarrow> (decimal \<times> decimal) \<times> decimal list \<times> decimal list
   \<Rightarrow> ((decimal \<times> decimal) \<times> decimal list \<times> decimal list) result" where
  "bilateral_geometric_step E lower_ratio upper_ratio _ acc =
     (let ((lower, upper), lower_levels, upper_levels) = acc;
          lower' = normalize_level E (d_mul E lower lower_ratio);
          upper' = normalize_level E (d_mul E upper upper_ratio)
      in if lower' \<le> 0 then Inl ''classic bilateral lower levels must stay positive''
         else Inr ((lower', upper'), lower_levels @ [lower'], upper_levels @ [upper']))"

definition classic_bilateral_geometric ::
  "env \<Rightarrow> GridMode \<Rightarrow> decimal \<Rightarrow> u32 \<Rightarrow> u32 \<Rightarrow> GridPlan result" where
  "classic_bilateral_geometric E mode center_price spacing_bps levels_per_side =
     bind_res (validate_bilateral_mode mode) (\<lambda>_.
     bind_res (validate_anchor_inputs center_price spacing_bps levels_per_side) (\<lambda>_.
       let spacing = spacing_ratio spacing_bps;
           lower_ratio = d_sub E 1 spacing
       in if lower_ratio \<le> 0
          then Inl ''classic bilateral geometric spacing must keep lower ratio positive''
          else let upper_ratio = d_add E 1 spacing
               in bind_res
                    (fold_res (bilateral_geometric_step E lower_ratio upper_ratio)
                       (u32_range 0 (unat levels_per_side)) ((center_price, center_price), [], []))
                    (\<lambda>(_, lower_levels, upper_levels).
                       let plan = plan_bilateral mode lower_levels upper_levels
                       in bind_res (validate_shape plan) (\<lambda>_. Inr plan))))"

definition custom_plan :: "GridMode \<Rightarrow> decimal list \<Rightarrow> GridPlan result" where
  "custom_plan mode levels =
     bind_res (validate_ordinary_mode mode) (\<lambda>_.
       if levels = [] then Inl ''grid requires at least one level''
       else let plan = plan_ordinary mode levels
            in bind_res (validate_shape plan) (\<lambda>_. Inr plan))"

end
