(* ===== verification/GridBuilderProps.thy ===== *)
theory GridBuilderProps
  imports GridBuilder
begin

text \<open>
  Correctness of the grid builder: the abstract notion of a well-formed plan, its equivalence with
  \<open>validate_shape\<close>, the shape of every plan a builder returns, and, for arithmetic that does not
  round, the exact levels and the exact condition under which the fixed-step builder succeeds.
\<close>

subsection \<open>Abstract specification of a plan\<close>

definition well_formed_plan :: "GridPlan \<Rightarrow> bool" where
  "well_formed_plan plan \<longleftrightarrow>
     (if is_ordinary (gp_mode plan)
      then gp_levels plan \<noteq> [] \<and> gp_lower_levels plan = [] \<and> gp_upper_levels plan = []
           \<and> (\<forall>l \<in> set (gp_levels plan). 0 < l)
           \<and> sorted_wrt (if gp_mode plan = GM_FuturesShort then (<) else (>)) (gp_levels plan)
      else gp_levels plan = [] \<and> gp_lower_levels plan \<noteq> []
           \<and> length (gp_lower_levels plan) = length (gp_upper_levels plan)
           \<and> sorted_wrt (>) (gp_lower_levels plan) \<and> sorted_wrt (<) (gp_upper_levels plan))"

lemma any_window_le: "any_window (\<lambda>a b. a \<le> b) xs \<longleftrightarrow> \<not> sorted_wrt (>) (xs :: decimal list)"
  using any_window_iff [of "(>) :: decimal \<Rightarrow> decimal \<Rightarrow> bool" xs]
  by (auto simp: not_less transp_def)

lemma any_window_ge: "any_window (\<lambda>a b. a \<ge> b) xs \<longleftrightarrow> \<not> sorted_wrt (<) (xs :: decimal list)"
  using any_window_iff [of "(<) :: decimal \<Rightarrow> decimal \<Rightarrow> bool" xs]
  by (auto simp: not_less transp_def)

lemma validate_ordinary_direction_ok:
  "is_ordinary mode \<Longrightarrow>
   validate_ordinary_direction mode levels = Inr () \<longleftrightarrow>
     sorted_wrt (if mode = GM_FuturesShort then (<) else (>)) levels"
  by (cases mode) (simp_all add: validate_ordinary_direction_def any_window_le any_window_ge)

lemma validate_bilateral_levels_ok:
  "validate_bilateral_levels lo up = Inr () \<longleftrightarrow> sorted_wrt (>) lo \<and> sorted_wrt (<) up"
  by (auto simp: validate_bilateral_levels_def any_window_le any_window_ge)

lemma any_level_le_zero: "list_ex (\<lambda>l. l \<le> 0) xs \<longleftrightarrow> \<not> (\<forall>l \<in> set xs. 0 < (l :: decimal))"
  by (induction xs) (auto simp: not_le)

lemma validate_shape_ok: "validate_shape plan = Inr () \<longleftrightarrow> well_formed_plan plan"
proof (cases "is_ordinary (gp_mode plan)")
  case True
  then show ?thesis
    by (auto simp: validate_shape_def well_formed_plan_def validate_ordinary_direction_ok
        any_level_le_zero)
next
  case False
  then show ?thesis
    by (auto simp: validate_shape_def well_formed_plan_def validate_bilateral_levels_ok)
qed

subsection \<open>The loops of the builders\<close>

lemma fold_res_append:
  assumes "\<And>x acc. f x acc = bind_res (g x) (\<lambda>y. Inr (acc @ [y]))"
  shows "fold_res f xs acc = Inr r \<longleftrightarrow> (\<exists>ys. r = acc @ ys \<and> list_all2 (\<lambda>x y. g x = Inr y) xs ys)"
proof (induction xs arbitrary: acc)
  case (Cons x xs)
  show ?case
  proof (cases "g x")
    case (Inl e)
    then show ?thesis by (simp add: assms list_all2_Cons1)
  next
    case (Inr y)
    then have "fold_res f (x # xs) acc = fold_res f xs (acc @ [y])"
      by (simp add: assms [of x acc])
    then show ?thesis by (auto simp: Inr list_all2_Cons1 Cons.IH)
  qed
qed auto

lemma fold_res_append_pair:
  assumes "\<And>x a b. f x (a, b) = bind_res (g x) (\<lambda>(l, u). Inr (a @ [l], b @ [u]))"
  shows "fold_res f xs (a, b) = Inr r \<longleftrightarrow>
    (\<exists>ys. r = (a @ map fst ys, b @ map snd ys) \<and> list_all2 (\<lambda>x y. g x = Inr y) xs ys)"
proof (induction xs arbitrary: a b)
  case (Cons x xs)
  show ?case
  proof (cases "g x")
    case (Inl e)
    then show ?thesis by (simp add: assms list_all2_Cons1)
  next
    case (Inr y)
    obtain l u where y: "y = (l, u)" by (cases y)
    have "fold_res f (x # xs) (a, b) = fold_res f xs (a @ [l], b @ [u])"
      by (simp add: assms [of x a b] Inr y)
    moreover have "(\<exists>ys. A ys \<and> (\<exists>zs. ys = (l, u) # zs \<and> Q zs)) \<longleftrightarrow> (\<exists>zs. A ((l, u) # zs) \<and> Q zs)"
      for A and Q :: "('b \<times> 'c) list \<Rightarrow> bool"
      by blast
    ultimately show ?thesis by (simp add: Inr y list_all2_Cons1 Cons.IH)
  qed
qed auto

lemma fold_res_inv:
  assumes "fold_res f xs s = Inr t" and "I 0 s"
    and "\<And>i x s t. I i s \<Longrightarrow> f x s = Inr t \<Longrightarrow> I (Suc i) t"
  shows "I (length xs) t"
proof -
  have "fold_res f xs s = Inr t \<Longrightarrow> I n s \<Longrightarrow> I (n + length xs) t" for n
  proof (induction xs arbitrary: s n)
    case (Cons x xs)
    then obtain s' where s': "f x s = Inr s'" "fold_res f xs s' = Inr t"
      by (auto simp: bind_res_eq_Inr)
    then have "I (Suc n) s'" using assms(3) Cons.prems(2) by blast
    then show ?case using Cons.IH [OF s'(2), of "Suc n"] by simp
  qed simp
  from this [of 0] assms(1,2) show ?thesis by simp
qed

definition ordinary_level :: "env \<Rightarrow> GridMode \<Rightarrow> decimal \<Rightarrow> decimal \<Rightarrow> u32 \<Rightarrow> decimal" where
  "ordinary_level E mode anchor step index =
     normalize_level E
       (if mode = GM_FuturesShort then d_add E anchor (d_mul E step (d_of_u32 index))
        else d_sub E anchor (d_mul E step (d_of_u32 index)))"

lemma ordinary_level_step_eq:
  assumes "is_ordinary mode"
  shows "ordinary_level_step E mode anchor step index levels =
     bind_res (if ordinary_level E mode anchor step index \<le> 0
               then Inl ''ordinary grid levels must stay positive''
               else Inr (ordinary_level E mode anchor step index))
       (\<lambda>level. Inr (levels @ [level]))"
  using assms by (cases mode) (simp_all add: ordinary_level_step_def ordinary_level_def Let_def)

lemma ordinary_levels_ok:
  assumes "is_ordinary mode"
  shows "fold_res (ordinary_level_step E mode anchor step) xs [] = Inr levels \<longleftrightarrow>
     levels = map (ordinary_level E mode anchor step) xs
     \<and> (\<forall>i \<in> set xs. 0 < ordinary_level E mode anchor step i)"
proof -
  let ?g = "\<lambda>i. if ordinary_level E mode anchor step i \<le> 0
               then Inl ''ordinary grid levels must stay positive''
               else Inr (ordinary_level E mode anchor step i)"
  have "fold_res (ordinary_level_step E mode anchor step) xs [] = Inr levels \<longleftrightarrow>
        list_all2 (\<lambda>x y. ?g x = Inr y) xs levels"
    by (subst fold_res_append [of _ ?g])
      (simp_all add: ordinary_level_step_eq [OF assms])
  also have "\<dots> \<longleftrightarrow> levels = map (ordinary_level E mode anchor step) xs
     \<and> (\<forall>i \<in> set xs. 0 < ordinary_level E mode anchor step i)"
    by (induction xs arbitrary: levels) (auto simp: list_all2_Cons1)
  finally show ?thesis .
qed

lemma validate_anchor_inputs_ok:
  "validate_anchor_inputs p bps n = Inr () \<longleftrightarrow> 0 < p \<and> bps \<noteq> 0 \<and> n \<noteq> 0"
  by (auto simp: validate_anchor_inputs_def)

lemma validate_ordinary_mode_ok: "validate_ordinary_mode mode = Inr () \<longleftrightarrow> is_ordinary mode"
  by (simp add: validate_ordinary_mode_def)

lemma validate_bilateral_mode_ok:
  "validate_bilateral_mode mode = Inr () \<longleftrightarrow> is_classic_bilateral mode"
  by (simp add: validate_bilateral_mode_def)

lemma bilateral_not_ordinary: "is_classic_bilateral mode \<longleftrightarrow> \<not> is_ordinary mode"
  by (cases mode) simp_all

lemma length_u32_range [simp]: "length (u32_range a b) = b - a"
  by (simp add: u32_range_def)

lemmas builder_ok = bind_res_eq_Inr validate_shape_ok validate_anchor_inputs_ok
  validate_ordinary_mode_ok validate_bilateral_mode_ok

text \<open>The step of a plan: the anchor price times the spacing, at eight decimal places.\<close>

abbreviation grid_step :: "env \<Rightarrow> decimal \<Rightarrow> u32 \<Rightarrow> decimal" where
  "grid_step E anchor bps \<equiv> normalize_level E (d_mul E anchor (spacing_ratio bps))"

lemma ordinary_fixed_step_ok:
  "ordinary_fixed_step E mode anchor bps count = Inr plan \<longleftrightarrow>
     is_ordinary mode \<and> 0 < anchor \<and> bps \<noteq> 0 \<and> count \<noteq> 0
     \<and> plan = plan_ordinary mode
          (map (ordinary_level E mode anchor (grid_step E anchor bps)) (u32_range 0 (unat count)))
     \<and> well_formed_plan plan"
proof (cases "is_ordinary mode")
  case True
  have pos: "well_formed_plan (plan_ordinary mode levels) \<Longrightarrow> l \<in> set levels \<Longrightarrow> 0 < l" for levels l
    using True by (simp add: well_formed_plan_def plan_ordinary_def)
  have dir: "well_formed_plan (plan_ordinary mode levels) \<Longrightarrow>
      validate_ordinary_direction mode levels = Inr ()" for levels
    using True by (simp add: well_formed_plan_def plan_ordinary_def validate_ordinary_direction_ok)
  show ?thesis
    using True pos dir
    by (auto simp: ordinary_fixed_step_def builder_ok Let_def ordinary_levels_ok)
next
  case False
  then show ?thesis by (simp add: ordinary_fixed_step_def builder_ok)
qed

text \<open>The bilateral builders.\<close>

definition bilateral_pair :: "env \<Rightarrow> decimal \<Rightarrow> decimal \<Rightarrow> u32 \<Rightarrow> decimal \<times> decimal" where
  "bilateral_pair E center step index =
     (normalize_level E (d_sub E center (d_mul E step (d_of_u32 index))),
      normalize_level E (d_add E center (d_mul E step (d_of_u32 index))))"

lemma bilateral_levels_ok:
  "fold_res (bilateral_fixed_step E center step) xs ([], []) = Inr (lo, up) \<longleftrightarrow>
     lo = map (fst \<circ> bilateral_pair E center step) xs
     \<and> up = map (snd \<circ> bilateral_pair E center step) xs
     \<and> (\<forall>i \<in> set xs. 0 < fst (bilateral_pair E center step i))"
proof -
  let ?p = "bilateral_pair E center step"
  let ?g = "\<lambda>i. if fst (?p i) \<le> 0
      then Inl ''classic bilateral lower levels must stay positive'' else Inr (?p i)"
  have pair: "list_all2 (\<lambda>x y. ?g x = Inr y) xs ys \<longleftrightarrow>
      ys = map ?p xs \<and> (\<forall>i \<in> set xs. 0 < fst (?p i))" for ys
    by (induction xs arbitrary: ys) (auto simp: list_all2_Cons1)
  have step: "bilateral_fixed_step E center step i (a, b) =
      bind_res (?g i) (\<lambda>(l, u). Inr (a @ [l], b @ [u]))" for i a b
    by (simp add: bilateral_fixed_step_def bilateral_pair_def Let_def)
  show ?thesis
    unfolding fold_res_append_pair [where g = ?g and f = "bilateral_fixed_step E center step", OF step] pair
    by simp
qed

lemma geometric_levels_inv:
  assumes "fold_res (bilateral_geometric_step E lr ur) xs (c, [], []) = Inr (c', lo, up)"
  shows "length lo = length xs \<and> length up = length xs \<and> (\<forall>l \<in> set lo. 0 < l)"
proof -
  let ?I = "\<lambda>n (s :: (decimal \<times> decimal) \<times> decimal list \<times> decimal list).
    length (fst (snd s)) = n \<and> length (snd (snd s)) = n \<and> (\<forall>l \<in> set (fst (snd s)). 0 < l)"
  have step: "?I n s \<Longrightarrow> bilateral_geometric_step E lr ur x s = Inr t \<Longrightarrow> ?I (Suc n) t" for n x s t
    by (cases s) (auto simp: bilateral_geometric_step_def Let_def split: if_splits)
  have "?I (length xs) (c', lo, up)"
    by (rule fold_res_inv [OF assms, where I = ?I]) (simp, erule (1) step)
  then show ?thesis by simp
qed

definition builds ::
  "env \<Rightarrow> GridMode \<Rightarrow> decimal \<Rightarrow> u32 \<Rightarrow> u32 \<Rightarrow> GridPlan \<Rightarrow> bool" where
  "builds E mode price bps count plan \<longleftrightarrow>
     ordinary_fixed_step E mode price bps count = Inr plan
     \<or> classic_bilateral_fixed E mode price bps count = Inr plan
     \<or> classic_bilateral_geometric E mode price bps count = Inr plan"

lemma ordinary_plan_shape:
  assumes "ordinary_fixed_step E mode price bps count = Inr plan"
  shows "gp_mode plan = mode \<and> well_formed_plan plan
    \<and> length (gp_levels plan) + length (gp_lower_levels plan) = unat count
    \<and> (\<forall>l \<in> set (gp_levels plan @ gp_lower_levels plan). 0 < l)"
  using assms by (auto simp: ordinary_fixed_step_ok plan_ordinary_def well_formed_plan_def)

lemma bilateral_fixed_plan_shape:
  assumes "classic_bilateral_fixed E mode price bps count = Inr plan"
  shows "gp_mode plan = mode \<and> well_formed_plan plan
    \<and> length (gp_levels plan) + length (gp_lower_levels plan) = unat count
    \<and> (\<forall>l \<in> set (gp_levels plan @ gp_lower_levels plan). 0 < l)"
  using assms
  by (auto simp: classic_bilateral_fixed_def builder_ok Let_def bilateral_levels_ok plan_bilateral_def)

lemma bilateral_geometric_plan_shape:
  assumes "classic_bilateral_geometric E mode price bps count = Inr plan"
  shows "gp_mode plan = mode \<and> well_formed_plan plan
    \<and> length (gp_levels plan) + length (gp_lower_levels plan) = unat count
    \<and> (\<forall>l \<in> set (gp_levels plan @ gp_lower_levels plan). 0 < l)"
  using assms
  by (auto simp: classic_bilateral_geometric_def builder_ok Let_def plan_bilateral_def
      split: if_splits dest!: geometric_levels_inv)

subsection \<open>Arithmetic that does not round\<close>

context exact_grid
begin

lemma grid_step_dp: "has_dp 8 (grid_step E anchor bps)"
  by (simp add: normalize_level_def dp_grid)

lemma ordinary_level_exact:
  assumes "has_dp 8 anchor" and "has_dp 8 step"
  shows "ordinary_level E mode anchor step index =
    (if mode = GM_FuturesShort then anchor + step * d_of_u32 index else anchor - step * d_of_u32 index)"
  using assms
  by (simp add: ordinary_level_def normalize_level_def exact_add exact_sub exact_mul d_of_u32_def
      dp_keep has_dp_diff has_dp_add has_dp_scale del: of_nat_unat)

lemma bilateral_pair_exact:
  assumes "has_dp 8 center" and "has_dp 8 step"
  shows "bilateral_pair E center step index =
    (center - step * d_of_u32 index, center + step * d_of_u32 index)"
  using assms
  by (simp add: bilateral_pair_def normalize_level_def exact_add exact_sub exact_mul d_of_u32_def
      dp_keep has_dp_diff has_dp_add has_dp_scale del: of_nat_unat)

end

lemma map_u32_range: "map (\<lambda>i. f (d_of_u32 i)) (u32_range 0 (unat (n :: u32))) = map (\<lambda>i. f (of_nat i)) [0..<unat n]"
proof -
  have "unat (of_nat i :: u32) = i" if "i < unat n" for i
  proof -
    have "unat n < 2 ^ 32" using unsigned_less [of n, where ?'a = nat] by simp
    then show ?thesis using that by (simp add: unat_of_nat)
  qed
  then show ?thesis by (simp add: u32_range_def d_of_u32_def del: of_nat_unat)
qed

lemma sorted_wrt_affine:
  "sorted_wrt (<) (map (\<lambda>i. a + s * of_nat i) [0..<n]) \<longleftrightarrow> n \<le> 1 \<or> 0 < (s :: decimal)"
proof (cases "n \<le> 1")
  case True
  then have "n = 0 \<or> n = 1" by auto
  then show ?thesis by auto
next
  case n: False
  show ?thesis
  proof
    let ?xs = "map (\<lambda>i. a + s * of_nat i) [0..<n]"
    assume "sorted_wrt (<) ?xs"
    moreover have "1 < length ?xs" using n by simp
    ultimately have "?xs ! 0 < ?xs ! 1" by (simp only: sorted_wrt_iff_nth_less)
    then show "n \<le> 1 \<or> 0 < s" using n by simp
  next
    assume "n \<le> 1 \<or> 0 < s"
    then show "sorted_wrt (<) (map (\<lambda>i. a + s * of_nat i) [0..<n])"
      using n by (auto simp: sorted_wrt_iff_nth_less)
  qed
qed

lemma sorted_wrt_affine_down:
  "sorted_wrt (>) (map (\<lambda>i. a - s * of_nat i) [0..<n]) \<longleftrightarrow> n \<le> 1 \<or> 0 < (s :: decimal)"
proof -
  have "sorted_wrt (>) (map (\<lambda>i. a - s * of_nat i) [0..<n]) \<longleftrightarrow>
      sorted_wrt (<) (map (\<lambda>i. - a + s * of_nat i) [0..<n])"
    by (simp add: sorted_wrt_map)
  then show ?thesis by (simp only: sorted_wrt_affine)
qed


lemma all_positive_down:
  assumes "0 < n"
  shows "(\<forall>x \<in> set (map (\<lambda>i. a - s * of_nat i) [0..<n]). 0 < x) \<longleftrightarrow>
    0 < a \<and> s * of_nat (n - 1) < (a :: decimal)"
proof -
  have "s * of_nat i < a" if "i < n" "0 < a" "s * of_nat (n - 1) < a" for i
  proof (cases "0 \<le> s")
    case True
    have "s * of_nat i \<le> s * of_nat (n - 1)"
      using that(1) True by (intro mult_left_mono) auto
    then show ?thesis using that(3) by simp
  next
    case False
    then have "s * of_nat i \<le> 0" by (simp add: mult_nonpos_nonneg)
    then show ?thesis using that(2) by simp
  qed
  moreover have "(\<forall>x \<in> set (map (\<lambda>i. a - s * of_nat i) [0..<n]). 0 < x) \<longleftrightarrow>
      (\<forall>i < n. s * of_nat i < a)"
    by auto
  moreover have "0 < a \<and> s * of_nat (n - 1) < a" if h: "\<forall>i < n. s * of_nat i < a"
    using assms h [rule_format, of 0] h [rule_format, of "n - 1"] by simp
  ultimately show ?thesis by blast
qed

lemma all_positive_up:
  "0 < a \<Longrightarrow> 0 \<le> s \<Longrightarrow> x \<in> set (map (\<lambda>i. a + s * of_nat i) [0..<n]) \<Longrightarrow> 0 < (x :: decimal)"
  by (auto intro!: add_pos_nonneg)

context exact_grid
begin

lemma grid_step_nonneg: "0 \<le> anchor \<Longrightarrow> 0 \<le> grid_step E anchor bps"
  by (simp add: normalize_level_def exact_mul spacing_ratio_def dp_nonneg)

lemma ordinary_levels_exact:
  assumes "has_dp 8 anchor" and "has_dp 8 step"
  shows "map (ordinary_level E mode anchor step) (u32_range 0 (unat (count :: u32))) =
    map (\<lambda>i. if mode = GM_FuturesShort then anchor + step * of_nat i else anchor - step * of_nat i)
      [0..<unat count]"
proof -
  let ?f = "\<lambda>d. if mode = GM_FuturesShort then anchor + step * d else anchor - step * d"
  have "ordinary_level E mode anchor step = (\<lambda>i. ?f (d_of_u32 i))"
    by (rule ext) (rule ordinary_level_exact [OF assms])
  then show ?thesis by (simp only: map_u32_range [of ?f count])
qed

lemma well_formed_ordinary_exact:
  fixes count :: u32
  assumes "is_ordinary mode" and "0 < anchor" and "has_dp 8 anchor" and "has_dp 8 step"
    and "0 \<le> step" and "0 < unat count"
  shows "well_formed_plan (plan_ordinary mode
        (map (ordinary_level E mode anchor step) (u32_range 0 (unat count)))) \<longleftrightarrow>
      (unat count = 1 \<or> 0 < step) \<and> (mode = GM_FuturesShort \<or> step * of_nat (unat count - 1) < anchor)"
proof -
  have one: "unat count \<le> 1 \<longleftrightarrow> unat count = 1" using assms(6) by linarith
  show ?thesis
  proof (cases "mode = GM_FuturesShort")
    case True
    then show ?thesis
      unfolding ordinary_levels_exact [OF assms(3,4)]
      using assms all_positive_up [of anchor step _ "unat count"] sorted_wrt_affine [of anchor step "unat count"]
      by (auto simp: well_formed_plan_def plan_ordinary_def one simp del: set_map)
  next
    case False
    then show ?thesis
      unfolding ordinary_levels_exact [OF assms(3,4)]
      using assms all_positive_down [of "unat count" anchor step]
        sorted_wrt_affine_down [of anchor step "unat count"]
      by (auto simp: well_formed_plan_def plan_ordinary_def one simp del: set_map)
  qed
qed

lemma fixed_step_exact:
  assumes "is_ordinary mode" and "0 < anchor" and "has_dp 8 anchor" and "bps \<noteq> 0" and "count \<noteq> 0"
  shows "ordinary_fixed_step E mode anchor bps count = Inr plan \<longleftrightarrow>
     (unat count = 1 \<or> 0 < grid_step E anchor bps)
     \<and> (mode = GM_FuturesShort \<or> grid_step E anchor bps * of_nat (unat count - 1) < anchor)
     \<and> plan = plan_ordinary mode
         (map (\<lambda>i. if mode = GM_FuturesShort then anchor + grid_step E anchor bps * of_nat i
                   else anchor - grid_step E anchor bps * of_nat i) [0..<unat count])"
proof -
  have n: "0 < unat count" using assms(5) by (simp add: unat_gt_0)
  have step: "0 \<le> grid_step E anchor bps" using assms(2) by (intro grid_step_nonneg) simp
  show ?thesis
    unfolding ordinary_fixed_step_ok
    using assms well_formed_ordinary_exact [OF assms(1-3) grid_step_dp step n]
      ordinary_levels_exact [OF assms(3) grid_step_dp, where mode = mode and count = count]
    by (auto simp only: simp_thms)
qed

end

subsection \<open>Properties\<close>

text \<open>\<open>GridPlan::validate_shape\<close> accepts exactly the well-formed plans: an ordinary plan has
  levels only, all positive and strictly monotone in the direction of its mode; a bilateral plan
  has two equally long sides, descending below and ascending above.\<close>

theorem validate_shape_iff_well_formed:
  "validate_shape plan = Inr () \<longleftrightarrow> well_formed_plan plan"
  by (rule validate_shape_ok)

text \<open>C7: Every plan that one of the three builders returns has the requested mode, is well-formed,
  has exactly the requested number of levels (per side), and no level at or below zero.\<close>

theorem builders_return_well_formed:
  assumes "builds E mode price bps count plan"
  shows "gp_mode plan = mode \<and> well_formed_plan plan
    \<and> length (gp_levels plan) + length (gp_lower_levels plan) = unat count
    \<and> (\<forall>l \<in> set (gp_levels plan @ gp_lower_levels plan). 0 < l)"
  using assms ordinary_plan_shape bilateral_fixed_plan_shape bilateral_geometric_plan_shape
  unfolding builds_def by blast

theorem builders_return_well_formed_witness:
  "builds plain_env GM_FuturesShort 100 100 3 (plan_ordinary GM_FuturesShort [100, 101, 102])
   \<and> well_formed_plan (plan_ordinary GM_FuturesShort [100, 101, 102])"
proof -
  have "ordinary_fixed_step plain_env GM_FuturesShort 100 100 3 =
      Inr (plan_ordinary GM_FuturesShort [100, 101, 102])"
    by (subst exact_grid_env.fixed_step_exact)
      (simp_all add: has_dp_def normalize_level_def spacing_ratio_def d_of_u32_def
        upt_conv_Cons)
  then have "builds plain_env GM_FuturesShort 100 100 3 (plan_ordinary GM_FuturesShort [100, 101, 102])"
    by (simp add: builds_def)
  with builders_return_well_formed [OF this] show ?thesis by simp
qed

text \<open>when no operation rounds and the anchor price has at most eight decimal places,
  \<open>GridBuilder::ordinary_fixed_step\<close> succeeds exactly if the step is positive (or there is one level)
  and, for a long or spot grid, the lowest level stays above zero; the levels are then exactly
  \<open>anchor - step * i\<close> (plus for a short grid).\<close>

theorem ordinary_fixed_step_exact:
  assumes "exact_grid E" and "is_ordinary mode" and "0 < anchor" and "has_dp 8 anchor"
    and "bps \<noteq> 0" and "count \<noteq> 0"
  shows "ordinary_fixed_step E mode anchor bps count = Inr plan \<longleftrightarrow>
     (unat count = 1 \<or> 0 < grid_step E anchor bps)
     \<and> (mode = GM_FuturesShort \<or> grid_step E anchor bps * of_nat (unat count - 1) < anchor)
     \<and> plan = plan_ordinary mode
         (map (\<lambda>i. if mode = GM_FuturesShort then anchor + grid_step E anchor bps * of_nat i
                   else anchor - grid_step E anchor bps * of_nat i) [0..<unat count])"
  using exact_grid.fixed_step_exact [OF assms] .

theorem ordinary_fixed_step_exact_witness:
  "exact_grid plain_env \<and> has_dp 8 100
   \<and> ordinary_fixed_step plain_env GM_SpotGrid 100 100 3 = Inr (plan_ordinary GM_SpotGrid [100, 99, 98])"
proof -
  have h: "has_dp 8 100" by (simp add: has_dp_def)
  show ?thesis
    using h exact_grid_env.exact_grid_axioms
    by (subst ordinary_fixed_step_exact)
      (simp_all add: normalize_level_def spacing_ratio_def d_of_u32_def upt_conv_Cons)
qed

text \<open>when no operation rounds, the two sides of a fixed bilateral grid are symmetric: the
  levels of a pair lie at the same distance below and above the centre price.\<close>

theorem bilateral_fixed_symmetric:
  assumes "exact_grid E" and "has_dp 8 center"
    and "classic_bilateral_fixed E mode center bps count = Inr plan"
  shows "list_all2 (\<lambda>l u. l + u = 2 * center) (gp_lower_levels plan) (gp_upper_levels plan)"
proof -
  have "bilateral_pair E center (grid_step E center bps) =
      (\<lambda>i. (center - grid_step E center bps * d_of_u32 i, center + grid_step E center bps * d_of_u32 i))"
    by (rule ext) (rule exact_grid.bilateral_pair_exact [OF assms(1,2) exact_grid.grid_step_dp [OF assms(1)]])
  then show ?thesis
    using assms(3)
    by (auto simp: classic_bilateral_fixed_def builder_ok Let_def bilateral_levels_ok
        plan_bilateral_def list_all2_conv_all_nth)
qed

theorem bilateral_fixed_symmetric_witness:
  "classic_bilateral_fixed plain_env GM_ClassicBilateralSpot 100 100 2 =
     Inr (plan_bilateral GM_ClassicBilateralSpot [99, 98] [101, 102])
   \<and> list_all2 (\<lambda>l u. l + u = 2 * 100) [99, 98] [101, 102 :: decimal]"
proof -
  have "classic_bilateral_fixed plain_env GM_ClassicBilateralSpot 100 100 2 =
     Inr (plan_bilateral GM_ClassicBilateralSpot [99, 98] [101, 102])"
    by (simp add: classic_bilateral_fixed_def validate_bilateral_mode_def validate_anchor_inputs_def
        u32_range_def upt_conv_Cons bilateral_fixed_step_def normalize_level_def spacing_ratio_def
        d_of_u32_def Let_def plan_bilateral_def validate_shape_def
        validate_bilateral_levels_def)
  moreover have "has_dp 8 100" by (simp add: has_dp_def)
  ultimately show ?thesis
    using bilateral_fixed_symmetric [OF exact_grid_env.exact_grid_axioms]
    by (force simp: plan_bilateral_def)
qed

end
