(* ===== verification/GridRuntime.thy ===== *)
theory GridRuntime
  imports GridBuilderProps
begin

text \<open>
  \<^verbatim>\<open>src/apps/trading-engine/src/runtime.rs\<close>: the in-memory runtime of one grid. One definition per
  method of \<open>GridRuntime\<close>; a method that returns a \<open>Result\<close> gives the result and the new state.
\<close>

datatype RuntimeStatus = RS_Running | RS_Paused | RS_Stopped

datatype RuntimeOrderKind = Entry | TakeProfit

record Position =
  ps_entry_price :: decimal
  ps_quantity :: decimal

record RuntimeOrder =
  rr_kind :: RuntimeOrderKind
  rr_level_index :: u32
  rr_price :: decimal
  rr_quantity :: decimal

record RuntimeEvent =
  re_reason :: string
  re_exit_price :: "decimal option"

record GridRuntimeConfig =
  gc_mode :: GridMode
  gc_plan :: GridPlan
  gc_quantity :: decimal
  gc_ordinary_take_profit_bps :: u32
  gc_maker_take_profit :: "MakerTakeProfit option"
  gc_trailing_take_profit :: "TrailingTakeProfit option"
  gc_overall_take_profit :: "OverallTakeProfit option"
  gc_overall_stop_loss :: "OverallStopLoss option"

record GridRuntime =
  gr_mode :: GridMode
  gr_plan :: GridPlan
  gr_default_quantity :: decimal
  gr_ordinary_take_profit_bps :: u32
  gr_maker_take_profit :: "MakerTakeProfit option"
  gr_trailing_take_profit :: "TrailingTakeProfit option"
  gr_overall_take_profit :: "OverallTakeProfit option"
  gr_overall_stop_loss :: "OverallStopLoss option"
  gr_status :: RuntimeStatus
  gr_position :: "Position option"
  gr_realized_pnl :: decimal
  gr_last_price :: "decimal option"
  gr_trailing_anchor :: "decimal option"
  gr_ordinary_orders :: "RuntimeOrder list"
  gr_started :: bool

definition validate_supported_mode :: "GridMode \<Rightarrow> unit result" where
  "validate_supported_mode _ = Inr ()"

definition validate_plan_shape :: "GridPlan \<Rightarrow> unit result" where
  "validate_plan_shape plan =
     (case validate_shape plan of
        Inl err \<Rightarrow> Inl (''invalid grid plan shape: '' @ err)
      | Inr u \<Rightarrow> Inr u)"

definition is_short_mode :: "GridMode \<Rightarrow> bool" where
  "is_short_mode mode = (mode = GM_FuturesShort)"

definition price_reaches_target :: "decimal \<Rightarrow> decimal \<Rightarrow> bool \<Rightarrow> bool" where
  "price_reaches_target price target_price is_short =
     (if is_short then price \<le> target_price else price \<ge> target_price)"

definition grid_runtime_new :: "GridRuntimeConfig \<Rightarrow> GridRuntime result" where
  "grid_runtime_new config =
     bind_res (validate_supported_mode (gc_mode config)) (\<lambda>_.
     bind_res (validate_supported_mode (gp_mode (gc_plan config))) (\<lambda>_.
       if gc_mode config \<noteq> gp_mode (gc_plan config)
       then Inl ''runtime mode must match grid plan mode''
       else bind_res (validate_plan_shape (gc_plan config)) (\<lambda>_.
         if gc_quantity config \<le> 0 then Inl ''default quantity must be positive''
         else Inr
           \<lparr>gr_mode = gc_mode config, gr_plan = gc_plan config,
            gr_default_quantity = gc_quantity config,
            gr_ordinary_take_profit_bps = gc_ordinary_take_profit_bps config,
            gr_maker_take_profit = gc_maker_take_profit config,
            gr_trailing_take_profit = gc_trailing_take_profit config,
            gr_overall_take_profit = gc_overall_take_profit config,
            gr_overall_stop_loss = gc_overall_stop_loss config,
            gr_status = RS_Running, gr_position = None, gr_realized_pnl = 0,
            gr_last_price = None, gr_trailing_anchor = None, gr_ordinary_orders = [],
            gr_started = False\<rparr>)))"

definition record_fill :: "env \<Rightarrow> decimal \<Rightarrow> decimal \<Rightarrow> (GridRuntime, unit) stateful" where
  "record_fill E entry_price quantity g =
     (if quantity \<le> 0 then (Inl ''fill quantity must be positive'', g)
      else
        let position =
          (case gr_position g of
             Some existing \<Rightarrow>
               (let total_quantity = d_add E (ps_quantity existing) quantity;
                    weighted_price = d_div E
                      (d_add E (d_mul E (ps_entry_price existing) (ps_quantity existing))
                         (d_mul E entry_price quantity))
                      total_quantity
                in existing\<lparr>ps_entry_price := weighted_price, ps_quantity := total_quantity\<rparr>)
           | None \<Rightarrow> \<lparr>ps_entry_price = entry_price, ps_quantity = quantity\<rparr>)
        in (Inr (), g\<lparr>gr_position := Some position, gr_trailing_anchor := None\<rparr>))"

definition upsert_ordinary_entry :: "u32 \<Rightarrow> (GridRuntime, unit) stateful" where
  "upsert_ordinary_entry level_index g =
     (case vec_get (gp_levels (gr_plan g)) (unat level_index) of
        None \<Rightarrow> (Inl ''ordinary grid level not found'', g)
      | Some price \<Rightarrow>
          (Inr (), g\<lparr>gr_ordinary_orders :=
             upsert (\<lambda>order. rr_level_index order = level_index \<and> rr_kind order = Entry)
               (\<lambda>order. order\<lparr>rr_price := price, rr_quantity := gr_default_quantity g\<rparr>)
               \<lparr>rr_kind = Entry, rr_level_index = level_index, rr_price = price,
                rr_quantity = gr_default_quantity g\<rparr>
               (gr_ordinary_orders g)\<rparr>))"

definition upsert_ordinary_take_profit :: "env \<Rightarrow> u32 \<Rightarrow> decimal \<Rightarrow> (GridRuntime, unit) stateful" where
  "upsert_ordinary_take_profit E level_index fill_price g =
     (let price = take_profit_price_from_bps E fill_price (gr_ordinary_take_profit_bps g)
                    (is_short_mode (gr_mode g))
      in (Inr (), g\<lparr>gr_ordinary_orders :=
            upsert (\<lambda>order. rr_level_index order = level_index \<and> rr_kind order = TakeProfit)
              (\<lambda>order. order\<lparr>rr_price := price, rr_quantity := gr_default_quantity g\<rparr>)
              \<lparr>rr_kind = TakeProfit, rr_level_index = level_index, rr_price = price,
               rr_quantity = gr_default_quantity g\<rparr>
              (gr_ordinary_orders g)\<rparr>))"

definition ordinary_order_key :: "RuntimeOrder \<Rightarrow> u32 \<times> nat" where
  "ordinary_order_key order =
     (rr_level_index order, case rr_kind order of TakeProfit \<Rightarrow> 0 | Entry \<Rightarrow> 1)"

definition sort_ordinary_orders :: "GridRuntime \<Rightarrow> GridRuntime" where
  "sort_ordinary_orders g =
     g\<lparr>gr_ordinary_orders := sort_key ordinary_order_key (gr_ordinary_orders g)\<rparr>"

definition start_grid :: "env \<Rightarrow> (GridRuntime, unit) stateful" where
  "start_grid E g =
     (if gr_started g then (Inr (), g)
      else
        let g = g\<lparr>gr_started := True\<rparr>
        in if \<not> is_ordinary (gr_mode g) then (Inr (), g)
           else
             (case gp_levels (gr_plan g) of
                [] \<Rightarrow> (Inl ''ordinary grid plan requires at least one level'', g)
              | anchor_price # _ \<Rightarrow>
                  andthen (record_fill E anchor_price (gr_default_quantity g)) (\<lambda>_ g.
                  andthen (upsert_ordinary_take_profit E 0 anchor_price) (\<lambda>_ g.
                  andthen (for_each upsert_ordinary_entry
                             (u32_range 1 (length (gp_levels (gr_plan g))))) (\<lambda>_ g.
                    (Inr (), sort_ordinary_orders g)) g)
                    (g\<lparr>gr_ordinary_orders := []\<rparr>)) g))"

definition fill_ordinary_entry :: "env \<Rightarrow> u32 \<Rightarrow> (GridRuntime, unit) stateful" where
  "fill_ordinary_entry E level_index g =
     (if \<not> is_ordinary (gr_mode g)
      then (Inl ''ordinary entry fills are only supported for ordinary grid modes'', g)
      else
        (case vec_get (gp_levels (gr_plan g)) (unat level_index) of
           None \<Rightarrow> (Inl ''ordinary grid level not found'', g)
         | Some level_price \<Rightarrow>
             (case find_index (\<lambda>order. rr_level_index order = level_index \<and> rr_kind order = Entry)
                     (gr_ordinary_orders g) of
                None \<Rightarrow> (Inl ''ordinary entry order not found'', g)
              | Some order_index \<Rightarrow>
                  andthen (record_fill E level_price (gr_default_quantity g)) (\<lambda>_.
                  andthen (upsert_ordinary_take_profit E level_index level_price) (\<lambda>_ g.
                    (Inr (), sort_ordinary_orders g)))
                    (g\<lparr>gr_ordinary_orders := remove_nth order_index (gr_ordinary_orders g)\<rparr>))))"

definition close_position ::
  "env \<Rightarrow> decimal \<Rightarrow> string \<Rightarrow> bool \<Rightarrow> GridRuntime \<Rightarrow> RuntimeEvent \<times> GridRuntime" where
  "close_position E exit_price reason stop_after_close g =
     (let pnl =
        (case gr_position g of
           Some position \<Rightarrow>
             d_add E (gr_realized_pnl g)
               (if is_short_mode (gr_mode g)
                then d_mul E (d_sub E (ps_entry_price position) exit_price) (ps_quantity position)
                else d_mul E (d_sub E exit_price (ps_entry_price position)) (ps_quantity position))
         | None \<Rightarrow> gr_realized_pnl g)
      in (\<lparr>re_reason = reason, re_exit_price = Some exit_price\<rparr>,
          g\<lparr>gr_position := None, gr_realized_pnl := pnl, gr_trailing_anchor := None,
            gr_ordinary_orders := [],
            gr_status := (if stop_after_close then RS_Stopped else gr_status g)\<rparr>))"

text \<open>
  \<open>on_price\<close> runs four exits in order; each of them returns the events to return at once, or
  \<open>None\<close> when the method goes on. Only the trailing exit changes the state when it goes on.
\<close>

definition maker_exit ::
  "env \<Rightarrow> Position \<Rightarrow> decimal \<Rightarrow> GridRuntime \<Rightarrow> RuntimeEvent list option \<times> GridRuntime" where
  "maker_exit E position price g =
     (case gr_maker_take_profit g of
        None \<Rightarrow> (None, g)
      | Some maker \<Rightarrow>
          (let is_short = is_short_mode (gr_mode g);
               target_price = take_profit_price_from_percent E (ps_entry_price position)
                 (mk_target_percent maker) is_short
           in if price_reaches_target price target_price is_short
              then let (e, g') = close_position E target_price ''maker_take_profit'' False g
                   in (Some [e], g')
              else (None, g)))"

definition trailing_exit ::
  "env \<Rightarrow> decimal \<Rightarrow> GridRuntime \<Rightarrow> RuntimeEvent list option \<times> GridRuntime" where
  "trailing_exit E price g =
     (case gr_trailing_take_profit g of
        None \<Rightarrow> (None, g)
      | Some trailing \<Rightarrow>
          if is_short_mode (gr_mode g) then
            (case gr_trailing_anchor g of
               Some low \<Rightarrow>
                 (let new_low = min low price;
                      g' = g\<lparr>gr_trailing_anchor := Some new_low\<rparr>;
                      stop_price = d_mul E new_low (d_add E 1 (tr_trailing_percent trailing))
                  in if price \<ge> stop_price
                     then let (e, g'') = close_position E price ''taker_trailing_take_profit'' False g'
                          in (Some [e], g'')
                     else (None, g'))
             | None \<Rightarrow>
                 if price \<le> tr_trigger_price trailing
                 then (None, g\<lparr>gr_trailing_anchor := Some price\<rparr>) else (None, g))
          else
            (case gr_trailing_anchor g of
               Some high \<Rightarrow>
                 (let new_high = max high price;
                      g' = g\<lparr>gr_trailing_anchor := Some new_high\<rparr>;
                      stop_price = d_mul E new_high (d_sub E 1 (tr_trailing_percent trailing))
                  in if price \<le> stop_price
                     then let (e, g'') = close_position E price ''taker_trailing_take_profit'' False g'
                          in (Some [e], g'')
                     else (None, g'))
             | None \<Rightarrow>
                 if price \<ge> tr_trigger_price trailing
                 then (None, g\<lparr>gr_trailing_anchor := Some price\<rparr>) else (None, g)))"

definition overall_take_profit_exit ::
  "env \<Rightarrow> Position \<Rightarrow> decimal \<Rightarrow> GridRuntime \<Rightarrow> RuntimeEvent list option \<times> GridRuntime" where
  "overall_take_profit_exit E position price g =
     (case gr_overall_take_profit g of
        None \<Rightarrow> (None, g)
      | Some overall \<Rightarrow>
          (let is_short = is_short_mode (gr_mode g);
               target_price = take_profit_price_from_percent E (ps_entry_price position)
                 (otp_target_percent overall) is_short
           in if price_reaches_target price target_price is_short
              then let (e, g') = close_position E price ''overall_take_profit'' True g
                   in (Some [e], g')
              else (None, g)))"

definition overall_stop_loss_exit ::
  "env \<Rightarrow> Position \<Rightarrow> decimal \<Rightarrow> GridRuntime \<Rightarrow> RuntimeEvent list option \<times> GridRuntime" where
  "overall_stop_loss_exit E position price g =
     (case gr_overall_stop_loss g of
        None \<Rightarrow> (None, g)
      | Some stop_loss \<Rightarrow>
          (let is_short = is_short_mode (gr_mode g);
               stop_price =
                 (if is_short
                  then d_mul E (ps_entry_price position) (d_add E 1 (osl_max_drawdown_percent stop_loss))
                  else d_mul E (ps_entry_price position) (d_sub E 1 (osl_max_drawdown_percent stop_loss)));
               triggered = (if is_short then price \<ge> stop_price else price \<le> stop_price)
           in if triggered
              then let (e, g') = close_position E price ''overall_stop_loss'' True g
                   in (Some [e], g')
              else (None, g)))"

definition or_exit ::
  "RuntimeEvent list option \<times> GridRuntime
   \<Rightarrow> (GridRuntime \<Rightarrow> RuntimeEvent list option \<times> GridRuntime)
   \<Rightarrow> RuntimeEvent list option \<times> GridRuntime" where
  "or_exit r f = (case r of (Some es, g) \<Rightarrow> (Some es, g) | (None, g) \<Rightarrow> f g)"

definition grid_on_price :: "env \<Rightarrow> decimal \<Rightarrow> GridRuntime \<Rightarrow> RuntimeEvent list \<times> GridRuntime" where
  "grid_on_price E price g0 =
     (let g = g0\<lparr>gr_last_price := Some price\<rparr>
      in if gr_status g \<noteq> RS_Running then ([], g)
         else
           (case gr_position g of
              None \<Rightarrow> ([], g)
            | Some position \<Rightarrow>
                (case or_exit (or_exit (or_exit (maker_exit E position price g)
                          (trailing_exit E price))
                          (overall_take_profit_exit E position price))
                          (overall_stop_loss_exit E position price) of
                   (Some es, g') \<Rightarrow> (es, g')
                 | (None, g') \<Rightarrow> ([], g'))))"

definition grid_pause :: "GridRuntime \<Rightarrow> GridRuntime" where
  "grid_pause g = (if gr_status g = RS_Running then g\<lparr>gr_status := RS_Paused\<rparr> else g)"

definition grid_resume :: "GridRuntime \<Rightarrow> GridRuntime" where
  "grid_resume g = (if gr_status g = RS_Paused then g\<lparr>gr_status := RS_Running\<rparr> else g)"

definition grid_stop :: "GridRuntime \<Rightarrow> GridRuntime" where
  "grid_stop g = g\<lparr>gr_status := RS_Stopped\<rparr>"

definition grid_rebuild :: "GridPlan \<Rightarrow> (GridRuntime, unit) stateful" where
  "grid_rebuild plan g =
     (case bind_res (validate_supported_mode (gp_mode plan)) (\<lambda>_. validate_plan_shape plan) of
        Inl e \<Rightarrow> (Inl e, g)
      | Inr _ \<Rightarrow>
          (Inr (), g\<lparr>gr_mode := gp_mode plan, gr_plan := plan, gr_status := RS_Running,
             gr_position := None, gr_realized_pnl := 0, gr_last_price := None,
             gr_trailing_anchor := None, gr_ordinary_orders := [], gr_started := False\<rparr>))"

end
