(* ===== verification/GridRuntimeProps.thy ===== *)
theory GridRuntimeProps
  imports GridRuntime
begin

text \<open>
  Correctness of the in-memory grid runtime: the invariant of the order book over every sequence
  of method calls, the exact order book a started grid has, and what
  a price tick may change.
\<close>

subsection \<open>The order book as an upsert by key\<close>

definition order_slot :: "RuntimeOrder \<Rightarrow> RuntimeOrderKind \<times> u32" where
  "order_slot order = (rr_kind order, rr_level_index order)"

interpretation entry_slot: keyed_upsert "\<lambda>_. True" order_slot "(Entry, level_index)"
  "\<lambda>order. rr_level_index order = level_index \<and> rr_kind order = Entry"
  "\<lambda>order. order\<lparr>rr_price := price, rr_quantity := quantity\<rparr>"
  "\<lparr>rr_kind = Entry, rr_level_index = level_index, rr_price = price, rr_quantity = quantity\<rparr>"
  for level_index price quantity
  by unfold_locales (auto simp: order_slot_def)

interpretation take_profit_slot: keyed_upsert "\<lambda>_. True" order_slot "(TakeProfit, level_index)"
  "\<lambda>order. rr_level_index order = level_index \<and> rr_kind order = TakeProfit"
  "\<lambda>order. order\<lparr>rr_price := price, rr_quantity := quantity\<rparr>"
  "\<lparr>rr_kind = TakeProfit, rr_level_index = level_index, rr_price = price, rr_quantity = quantity\<rparr>"
  for level_index price quantity
  by unfold_locales (auto simp: order_slot_def)

text \<open>What every order of the book satisfies with respect to its grid.\<close>

definition order_fits :: "GridPlan \<Rightarrow> decimal \<Rightarrow> RuntimeOrder \<Rightarrow> bool" where
  "order_fits plan quantity order \<longleftrightarrow>
     unat (rr_level_index order) < length (gp_levels plan) \<and> rr_quantity order = quantity
     \<and> (rr_kind order = Entry \<longrightarrow> rr_price order = gp_levels plan ! unat (rr_level_index order))"

definition book_ok :: "GridPlan \<Rightarrow> decimal \<Rightarrow> RuntimeOrder list \<Rightarrow> bool" where
  "book_ok plan quantity orders \<longleftrightarrow>
     distinct (map order_slot orders) \<and> (\<forall>order \<in> set orders. order_fits plan quantity order)"

definition grid_inv :: "GridRuntime \<Rightarrow> bool" where
  "grid_inv g \<longleftrightarrow>
     gr_mode g = gp_mode (gr_plan g) \<and> well_formed_plan (gr_plan g) \<and> 0 < gr_default_quantity g
     \<and> book_ok (gr_plan g) (gr_default_quantity g) (gr_ordinary_orders g)
     \<and> sorted (map ordinary_order_key (gr_ordinary_orders g))"

lemma book_ok_Nil [simp]: "book_ok plan q []"
  by (simp add: book_ok_def)

lemma book_ok_sort: "book_ok plan q (sort_key k xs) \<longleftrightarrow> book_ok plan q xs"
  by (simp add: book_ok_def distinct_map_sort_key)

lemma book_ok_remove_nth: "book_ok plan q xs \<Longrightarrow> book_ok plan q (remove_nth i xs)"
  using set_remove_nth [of i xs] by (auto simp: book_ok_def map_remove_nth distinct_remove_nth)

lemma book_ok_entry:
  assumes "book_ok plan q xs" and "unat i < length (gp_levels plan)"
  shows "book_ok plan q (upsert (\<lambda>order. rr_level_index order = i \<and> rr_kind order = Entry)
     (\<lambda>order. order\<lparr>rr_price := gp_levels plan ! unat i, rr_quantity := q\<rparr>)
     \<lparr>rr_kind = Entry, rr_level_index = i, rr_price = gp_levels plan ! unat i, rr_quantity = q\<rparr> xs)"
  using assms unfolding book_ok_def
  by (auto simp: order_fits_def dest!: set_upsert simp: list_all_iff intro: entry_slot.distinct_upsert)

lemma book_ok_take_profit:
  assumes "book_ok plan q xs" and "unat i < length (gp_levels plan)"
  shows "book_ok plan q (upsert (\<lambda>order. rr_level_index order = i \<and> rr_kind order = TakeProfit)
     (\<lambda>order. order\<lparr>rr_price := p, rr_quantity := q\<rparr>)
     \<lparr>rr_kind = TakeProfit, rr_level_index = i, rr_price = p, rr_quantity = q\<rparr> xs)"
  using assms unfolding book_ok_def
  by (auto simp: order_fits_def dest!: set_upsert simp: list_all_iff intro: take_profit_slot.distinct_upsert)

subsection \<open>Every method keeps the invariant\<close>

lemma record_fill_fields:
  assumes "record_fill E p q g = (r, g')"
  shows "gr_mode g' = gr_mode g \<and> gr_plan g' = gr_plan g
    \<and> gr_default_quantity g' = gr_default_quantity g
    \<and> gr_ordinary_orders g' = gr_ordinary_orders g
    \<and> gr_status g' = gr_status g \<and> gr_realized_pnl g' = gr_realized_pnl g
    \<and> (0 < q \<longrightarrow> r = Inr ())"
  using assms by (auto simp: record_fill_def Let_def split: if_splits)

text \<open>The loop that places the entries of the levels \<open>i\<close> to \<open>n - 1\<close>.\<close>

lemma for_each_entries:
  assumes "book_ok (gr_plan g) (gr_default_quantity g) (gr_ordinary_orders g)"
    and "\<forall>i \<in> set is. unat i < length (gp_levels (gr_plan g))"
  shows "\<exists>orders. for_each upsert_ordinary_entry is g = (Inr (), g\<lparr>gr_ordinary_orders := orders\<rparr>)
           \<and> book_ok (gr_plan g) (gr_default_quantity g) orders"
  using assms
proof (induction "is" arbitrary: g)
  case Nil
  then show ?case by (intro exI [of _ "gr_ordinary_orders g"]) simp
next
  case (Cons i "is")
  then have i: "unat i < length (gp_levels (gr_plan g))" by simp
  let ?os = "upsert (\<lambda>order. rr_level_index order = i \<and> rr_kind order = Entry)
     (\<lambda>order. order\<lparr>rr_price := gp_levels (gr_plan g) ! unat i, rr_quantity := gr_default_quantity g\<rparr>)
     \<lparr>rr_kind = Entry, rr_level_index = i, rr_price = gp_levels (gr_plan g) ! unat i,
      rr_quantity = gr_default_quantity g\<rparr> (gr_ordinary_orders g)"
  have step: "upsert_ordinary_entry i g = (Inr (), g\<lparr>gr_ordinary_orders := ?os\<rparr>)"
    using i by (simp add: upsert_ordinary_entry_def vec_get_def)
  show ?case
    using Cons.IH [of "g\<lparr>gr_ordinary_orders := ?os\<rparr>"] Cons.prems book_ok_entry [OF Cons.prems(1) i]
    by (simp add: step)
qed

lemma grid_inv_sort:
  assumes "gr_mode g = gp_mode (gr_plan g)" "well_formed_plan (gr_plan g)" "0 < gr_default_quantity g"
    and "book_ok (gr_plan g) (gr_default_quantity g) (gr_ordinary_orders g)"
  shows "grid_inv (sort_ordinary_orders g)"
  using assms by (simp add: grid_inv_def sort_ordinary_orders_def book_ok_sort)

lemma unat_of_nat_less: "i < n \<Longrightarrow> unat (of_nat i :: u32) < n"
  by (simp add: unat_of_nat take_bit_eq_mod)

lemma u32_range_in: "i \<in> set (u32_range a b) \<Longrightarrow> unat i < b"
  by (auto simp: u32_range_def unat_of_nat_less)

text \<open>The result of \<open>start\<close> on a grid that has not been started and is an ordinary one.\<close>

lemma start_grid_ordinary:
  assumes "grid_inv g" "\<not> gr_started g" "is_ordinary (gr_mode g)"
  obtains pos tp orders where
    "start_grid E g = (Inr (), sort_ordinary_orders
       (g\<lparr>gr_started := True, gr_position := Some pos, gr_trailing_anchor := None,
          gr_ordinary_orders := orders\<rparr>))"
    and "for_each upsert_ordinary_entry (u32_range 1 (length (gp_levels (gr_plan g))))
           (g\<lparr>gr_started := True, gr_position := Some pos, gr_trailing_anchor := None,
              gr_ordinary_orders := [tp]\<rparr>)
         = (Inr (), g\<lparr>gr_started := True, gr_position := Some pos, gr_trailing_anchor := None,
              gr_ordinary_orders := orders\<rparr>)"
    and "tp = \<lparr>rr_kind = TakeProfit, rr_level_index = 0,
        rr_price = take_profit_price_from_bps E (hd (gp_levels (gr_plan g)))
          (gr_ordinary_take_profit_bps g) (is_short_mode (gr_mode g)),
        rr_quantity = gr_default_quantity g\<rparr>"
    and "gr_position g = None \<Longrightarrow>
        pos = \<lparr>ps_entry_price = hd (gp_levels (gr_plan g)), ps_quantity = gr_default_quantity g\<rparr>"
    and "book_ok (gr_plan g) (gr_default_quantity g) orders"
proof -
  let ?tp = "\<lparr>rr_kind = TakeProfit, rr_level_index = 0,
        rr_price = take_profit_price_from_bps E (hd (gp_levels (gr_plan g)))
          (gr_ordinary_take_profit_bps g) (is_short_mode (gr_mode g)),
        rr_quantity = gr_default_quantity g\<rparr>"
  from assms have levels: "gp_levels (gr_plan g) \<noteq> []" and q: "0 < gr_default_quantity g"
    by (auto simp: grid_inv_def well_formed_plan_def)
  then obtain a rest where ar: "gp_levels (gr_plan g) = a # rest" by (cases "gp_levels (gr_plan g)") auto
  obtain pos where pos: "record_fill E a (gr_default_quantity g) (g\<lparr>gr_started := True\<rparr>) =
      (Inr (), g\<lparr>gr_started := True, gr_position := Some pos, gr_trailing_anchor := None\<rparr>)"
      "gr_position g = None \<Longrightarrow> pos = \<lparr>ps_entry_price = a, ps_quantity = gr_default_quantity g\<rparr>"
    using q by (cases "gr_position g") (auto simp: record_fill_def Let_def)
  let ?g = "g\<lparr>gr_started := True, gr_position := Some pos, gr_trailing_anchor := None,
              gr_ordinary_orders := [?tp]\<rparr>"
  have tp: "upsert_ordinary_take_profit E 0 a
      (g\<lparr>gr_started := True, gr_position := Some pos, gr_trailing_anchor := None,
         gr_ordinary_orders := []\<rparr>) = (Inr (), ?g)"
    by (simp add: upsert_ordinary_take_profit_def upsert_def ar)
  have book: "book_ok (gr_plan ?g) (gr_default_quantity ?g) (gr_ordinary_orders ?g)"
    using ar by (simp add: book_ok_def order_fits_def)
  have idx: "\<forall>i \<in> set (u32_range 1 (length (gp_levels (gr_plan g)))). unat i < length (gp_levels (gr_plan ?g))"
    using u32_range_in by auto
  obtain orders where orders: "for_each upsert_ordinary_entry
        (u32_range 1 (length (gp_levels (gr_plan g)))) ?g = (Inr (), ?g\<lparr>gr_ordinary_orders := orders\<rparr>)"
      "book_ok (gr_plan g) (gr_default_quantity g) orders"
    using for_each_entries [OF book idx] by auto
  show thesis
  proof (rule that [where pos = pos and tp = ?tp and orders = orders])
    show "start_grid E g = (Inr (), sort_ordinary_orders
       (g\<lparr>gr_started := True, gr_position := Some pos, gr_trailing_anchor := None,
          gr_ordinary_orders := orders\<rparr>))"
      using assms(2,3) pos(1) tp orders(1)
      by (simp add: start_grid_def ar Let_def andthen_def)
    show "for_each upsert_ordinary_entry (u32_range 1 (length (gp_levels (gr_plan g)))) ?g
         = (Inr (), g\<lparr>gr_started := True, gr_position := Some pos, gr_trailing_anchor := None,
              gr_ordinary_orders := orders\<rparr>)"
      using orders(1) by simp
  qed (use pos(2) orders(2) ar in simp_all)
qed

lemma start_grid_inv: "grid_inv g \<Longrightarrow> grid_inv (snd (start_grid E g))"
proof (cases "gr_started g \<or> \<not> is_ordinary (gr_mode g)")
  case True
  assume "grid_inv g"
  with True show ?thesis by (auto simp: start_grid_def Let_def grid_inv_def)
next
  case False
  assume inv: "grid_inv g"
  then obtain pos tp orders where
    st: "start_grid E g = (Inr (), sort_ordinary_orders
       (g\<lparr>gr_started := True, gr_position := Some pos, gr_trailing_anchor := None,
          gr_ordinary_orders := orders\<rparr>))" and
    "book_ok (gr_plan g) (gr_default_quantity g) orders"
    using False by (elim start_grid_ordinary) auto
  then show ?thesis using inv
    unfolding st snd_conv by (intro grid_inv_sort) (auto simp: grid_inv_def)
qed

lemma fill_ordinary_entry_inv: "grid_inv g \<Longrightarrow> grid_inv (snd (fill_ordinary_entry E i g))"
proof -
  assume inv: "grid_inv g"
  show ?thesis
  proof (cases "fst (fill_ordinary_entry E i g)")
    case (Inl e)
    then show ?thesis using inv
      by (auto simp: fill_ordinary_entry_def andthen_def upsert_ordinary_take_profit_def record_fill_def
          Let_def grid_inv_def split: option.splits if_splits sum.splits prod.splits)
  next
    case (Inr u)
    then obtain n g' where n: "unat i < length (gp_levels (gr_plan g))"
      and g': "record_fill E (gp_levels (gr_plan g) ! unat i) (gr_default_quantity g)
               (g\<lparr>gr_ordinary_orders := remove_nth n (gr_ordinary_orders g)\<rparr>) = (Inr (), g')"
      and f: "snd (fill_ordinary_entry E i g) = sort_ordinary_orders
          (snd (upsert_ordinary_take_profit E i (gp_levels (gr_plan g) ! unat i) g'))"
      by (auto simp: fill_ordinary_entry_def andthen_def upsert_ordinary_take_profit_def vec_get_def
          Let_def split: option.splits if_splits sum.splits prod.splits)
    show ?thesis
      unfolding f using inv record_fill_fields [OF g'] n
      by (intro grid_inv_sort)
        (auto simp: upsert_ordinary_take_profit_def Let_def grid_inv_def
          intro!: book_ok_take_profit book_ok_remove_nth)
  qed
qed

lemma grid_runtime_new_inv: "grid_runtime_new config = Inr g \<Longrightarrow> grid_inv g"
  by (auto simp: grid_runtime_new_def grid_inv_def validate_plan_shape_def bind_res_eq_Inr
      validate_shape_ok split: if_splits sum.splits)

lemma grid_rebuild_inv: "grid_inv g \<Longrightarrow> grid_inv (snd (grid_rebuild plan g))"
  by (auto simp: grid_rebuild_def grid_inv_def validate_plan_shape_def bind_res_def
      validate_shape_ok split: sum.split)

lemma record_fill_inv: "grid_inv g \<Longrightarrow> grid_inv (snd (record_fill E p q g))"
proof -
  assume inv: "grid_inv g"
  obtain r g' where r: "record_fill E p q g = (r, g')" by (cases "record_fill E p q g")
  from record_fill_fields [OF r] inv show ?thesis by (simp add: r grid_inv_def)
qed

subsection \<open>Price ticks\<close>

text \<open>What closing the position at \<open>exit_price\<close> makes of a runtime.\<close>

definition closed_at :: "env \<Rightarrow> decimal \<Rightarrow> Position \<Rightarrow> decimal \<Rightarrow> string \<Rightarrow> GridRuntime \<Rightarrow> GridRuntime" where
  "closed_at E price position exit_price reason g =
     g\<lparr>gr_last_price := Some price, gr_position := None, gr_trailing_anchor := None, gr_ordinary_orders := [],
       gr_realized_pnl := d_add E (gr_realized_pnl g)
         (if is_short_mode (gr_mode g)
          then d_mul E (d_sub E (ps_entry_price position) exit_price) (ps_quantity position)
          else d_mul E (d_sub E exit_price (ps_entry_price position)) (ps_quantity position)),
       gr_status := (if reason = ''overall_take_profit'' \<or> reason = ''overall_stop_loss''
                     then RS_Stopped else gr_status g)\<rparr>"

definition exit_outcome ::
  "env \<Rightarrow> decimal \<Rightarrow> Position \<Rightarrow> GridRuntime \<Rightarrow> RuntimeEvent list option \<times> GridRuntime \<Rightarrow> bool" where
  "exit_outcome E price position g r \<longleftrightarrow>
     (\<exists>anchor. r = (None, g\<lparr>gr_last_price := Some price, gr_trailing_anchor := anchor\<rparr>))
     \<or> (\<exists>exit_price reason.
          reason \<in> {''maker_take_profit'', ''taker_trailing_take_profit'', ''overall_take_profit'', ''overall_stop_loss''}
          \<and> r = (Some [\<lparr>re_reason = reason, re_exit_price = Some exit_price\<rparr>],
                 closed_at E price position exit_price reason g))"

lemma exit_outcome_none [simp]:
  "exit_outcome E price position g (None, g\<lparr>gr_last_price := Some price, gr_trailing_anchor := a\<rparr>)"
  by (auto simp: exit_outcome_def)

lemma exit_outcome_close:
  assumes "gr_position g = Some position"
    and "reason \<in> {''maker_take_profit'', ''taker_trailing_take_profit'', ''overall_take_profit'', ''overall_stop_loss''}"
    and "stop = (reason = ''overall_take_profit'' \<or> reason = ''overall_stop_loss'')"
  shows "exit_outcome E price position g
     (case close_position E exit_price reason stop (g\<lparr>gr_last_price := Some price, gr_trailing_anchor := a\<rparr>) of
        (e, g') \<Rightarrow> (Some [e], g'))"
proof -
  have "close_position E exit_price reason stop (g\<lparr>gr_last_price := Some price, gr_trailing_anchor := a\<rparr>) =
      (\<lparr>re_reason = reason, re_exit_price = Some exit_price\<rparr>, closed_at E price position exit_price reason g)"
    using assms(1,3) by (simp add: close_position_def closed_at_def)
  then show ?thesis using assms(2) unfolding exit_outcome_def by auto
qed

lemma exits_outcome:
  assumes "gr_position g = Some position"
  shows "exit_outcome E price position g (maker_exit E position price (g\<lparr>gr_last_price := Some price, gr_trailing_anchor := a\<rparr>))"
    "exit_outcome E price position g (trailing_exit E price (g\<lparr>gr_last_price := Some price, gr_trailing_anchor := a\<rparr>))"
    "exit_outcome E price position g
       (overall_take_profit_exit E position price (g\<lparr>gr_last_price := Some price, gr_trailing_anchor := a\<rparr>))"
    "exit_outcome E price position g
       (overall_stop_loss_exit E position price (g\<lparr>gr_last_price := Some price, gr_trailing_anchor := a\<rparr>))"
  using exit_outcome_close [OF assms, of "''maker_take_profit''" False]
    exit_outcome_close [OF assms, of "''taker_trailing_take_profit''" False]
    exit_outcome_close [OF assms, of "''overall_take_profit''" True]
    exit_outcome_close [OF assms, of "''overall_stop_loss''" True]
  by (simp_all add: maker_exit_def trailing_exit_def overall_take_profit_exit_def
      overall_stop_loss_exit_def Let_def split: option.split)

lemma or_exit_outcome:
  assumes "exit_outcome E price position g r"
    and f: "\<And>a. exit_outcome E price position g (f (g\<lparr>gr_last_price := Some price, gr_trailing_anchor := a\<rparr>))"
  shows "exit_outcome E price position g (or_exit r f)"
proof (cases "fst r")
  case None
  then obtain a where "r = (None, g\<lparr>gr_last_price := Some price, gr_trailing_anchor := a\<rparr>)"
    using assms(1) by (auto simp: exit_outcome_def)
  then show ?thesis using f [of a] by (simp add: or_exit_def)
next
  case (Some es)
  then show ?thesis using assms(1) by (cases r) (simp add: or_exit_def)
qed

lemma grid_on_price_outcome:
  assumes "gr_status g = RS_Running" "gr_position g = Some position"
  shows "\<exists>r. exit_outcome E price position g r \<and>
    grid_on_price E price g = (case r of (Some es, g') \<Rightarrow> (es, g') | (None, g') \<Rightarrow> ([], g'))"
proof -
  let ?g = "g\<lparr>gr_last_price := Some price\<rparr>"
  have g: "?g = g\<lparr>gr_last_price := Some price, gr_trailing_anchor := gr_trailing_anchor g\<rparr>" by simp
  let ?r = "or_exit (or_exit (or_exit (maker_exit E position price ?g) (trailing_exit E price))
      (overall_take_profit_exit E position price)) (overall_stop_loss_exit E position price)"
  have "exit_outcome E price position g ?r"
    by (intro or_exit_outcome exits_outcome [OF assms(2)])
      (subst g, rule exits_outcome [OF assms(2)])
  then show ?thesis
    using assms by (intro exI [of _ ?r]) (simp add: grid_on_price_def Let_def)
qed

lemma grid_on_price_inv: "grid_inv g \<Longrightarrow> grid_inv (snd (grid_on_price E price g))"
proof (cases "gr_status g = RS_Running \<and> gr_position g \<noteq> None")
  case True
  then obtain position where "gr_status g = RS_Running" "gr_position g = Some position" by auto
  from grid_on_price_outcome [OF this, of E price] show "grid_inv g \<Longrightarrow> ?thesis"
    by (auto simp: exit_outcome_def closed_at_def grid_inv_def)
next
  case False
  then show "grid_inv g \<Longrightarrow> ?thesis"
    by (auto simp: grid_on_price_def Let_def grid_inv_def split: option.split)
qed

subsection \<open>Reachable runtimes\<close>

inductive grid_trans :: "env \<Rightarrow> GridRuntime \<Rightarrow> GridRuntime \<Rightarrow> bool" for E where
  gt_start: "grid_trans E g (snd (start_grid E g))"
| gt_fill: "grid_trans E g (snd (fill_ordinary_entry E i g))"
| gt_record: "grid_trans E g (snd (record_fill E p q g))"
| gt_price: "grid_trans E g (snd (grid_on_price E p g))"
| gt_pause: "grid_trans E g (grid_pause g)"
| gt_resume: "grid_trans E g (grid_resume g)"
| gt_stop: "grid_trans E g (grid_stop g)"
| gt_rebuild: "grid_trans E g (snd (grid_rebuild plan g))"

inductive grid_reach :: "env \<Rightarrow> GridRuntime \<Rightarrow> bool" for E where
  gr_new: "grid_runtime_new config = Inr g \<Longrightarrow> grid_reach E g"
| gr_step: "grid_reach E g \<Longrightarrow> grid_trans E g g' \<Longrightarrow> grid_reach E g'"

lemma grid_trans_inv: "grid_trans E g g' \<Longrightarrow> grid_inv g \<Longrightarrow> grid_inv g'"
  by (induction rule: grid_trans.induct)
    (simp_all add: start_grid_inv fill_ordinary_entry_inv record_fill_inv grid_on_price_inv grid_rebuild_inv,
     simp_all add: grid_inv_def grid_pause_def grid_resume_def grid_stop_def)

lemma grid_reach_inv: "grid_reach E g \<Longrightarrow> grid_inv g"
  by (induction rule: grid_reach.induct) (auto intro: grid_runtime_new_inv grid_trans_inv)

subsection \<open>The book of a started grid\<close>

definition entry_at :: "GridRuntime \<Rightarrow> u32 \<Rightarrow> RuntimeOrder" where
  "entry_at g i = \<lparr>rr_kind = Entry, rr_level_index = i, rr_price = gp_levels (gr_plan g) ! unat i,
     rr_quantity = gr_default_quantity g\<rparr>"

lemma for_each_entries_fresh:
  assumes "\<forall>i \<in> set is. unat i < length (gp_levels (gr_plan g))" "distinct is"
    and "\<forall>i \<in> set is. \<not> list_ex (\<lambda>o'. rr_level_index o' = i \<and> rr_kind o' = Entry) (gr_ordinary_orders g)"
  shows "for_each upsert_ordinary_entry is g =
     (Inr (), g\<lparr>gr_ordinary_orders := gr_ordinary_orders g @ map (entry_at g) is\<rparr>)"
  using assms
proof (induction "is" arbitrary: g)
  case (Cons i "is")
  let ?g = "g\<lparr>gr_ordinary_orders := gr_ordinary_orders g @ [entry_at g i]\<rparr>"
  have "upsert_ordinary_entry i g = (Inr (), ?g)"
    using Cons.prems by (simp add: upsert_ordinary_entry_def vec_get_def upsert_def entry_at_def)
  moreover have "map (entry_at ?g) is = map (entry_at g) is" by (simp add: entry_at_def)
  moreover have "\<forall>k \<in> set is. i \<noteq> k" using Cons.prems(2) by auto
  ultimately show ?case using Cons.IH [of ?g] Cons.prems by (simp add: entry_at_def)
qed simp

lemma sorted_started_book:
  assumes "n \<le> 2 ^ 32" "rr_kind tp = TakeProfit" "rr_level_index tp = 0"
  shows "sorted (map ordinary_order_key (tp # map (entry_at g) (u32_range 1 n)))"
proof -
  have "sorted_wrt (<) [1..<n]" by (rule sorted_wrt_upt)
  then have "sorted_wrt (\<lambda>i j. (of_nat i :: u32) \<le> of_nat j) [1..<n]"
    by (rule sorted_wrt_mono_rel [rotated]) (use assms(1) in \<open>auto simp: word_le_nat_alt unat_of_nat take_bit_eq_mod\<close>)
  moreover have "(a < b \<or> a \<le> b) = (a \<le> b)" for a b :: u32 by auto
  ultimately show ?thesis
    using assms(2,3) by (auto simp: u32_range_def entry_at_def ordinary_order_key_def sorted_wrt_map o_def
        less_eq_prod_simp)
qed

subsection \<open>Theorems\<close>

text \<open>C6: Whatever sequence of starts, entry fills, recorded fills, price ticks, pauses, resumes, stops and
  rebuilds a runtime goes through, its order book has at most one entry and one take profit per level,
  ordered by level with the take profit first; every order belongs to a level of the plan, has the
  default quantity, and an entry sits at the price of its level. The plan stays well-formed and of the
  mode of the runtime.\<close>

theorem reachable_grid_book:
  assumes "grid_reach E g"
  shows "distinct (map (\<lambda>o'. (rr_kind o', rr_level_index o')) (gr_ordinary_orders g))
    \<and> sorted (map ordinary_order_key (gr_ordinary_orders g))
    \<and> list_all (\<lambda>o'. unat (rr_level_index o') < length (gp_levels (gr_plan g))
         \<and> rr_quantity o' = gr_default_quantity g
         \<and> (rr_kind o' = TakeProfit \<or> rr_price o' = gp_levels (gr_plan g) ! unat (rr_level_index o')))
        (gr_ordinary_orders g)
    \<and> well_formed_plan (gr_plan g) \<and> gr_mode g = gp_mode (gr_plan g)"
  using grid_reach_inv [OF assms]
  by (auto simp: grid_inv_def book_ok_def order_slot_def [abs_def] order_fits_def list_all_iff
      intro: RuntimeOrderKind.exhaust)

definition demo_config :: GridRuntimeConfig where
  "demo_config =
     \<lparr>gc_mode = GM_SpotGrid, gc_plan = plan_ordinary GM_SpotGrid [100, 99, 98], gc_quantity = 2,
      gc_ordinary_take_profit_bps = 100, gc_maker_take_profit = None, gc_trailing_take_profit = None,
      gc_overall_take_profit = None, gc_overall_stop_loss = None\<rparr>"

lemma demo_config_new: "\<exists>g. grid_runtime_new demo_config = Inr g"
proof -
  have "well_formed_plan (plan_ordinary GM_SpotGrid [100, 99, 98])"
    by (simp add: well_formed_plan_def plan_ordinary_def)
  then show ?thesis
    by (simp add: grid_runtime_new_def demo_config_def validate_plan_shape_def validate_supported_mode_def
        plan_ordinary_def flip: validate_shape_ok)
qed

theorem reachable_grid_book_witness:
  "\<exists>g. grid_runtime_new demo_config = Inr g
     \<and> sorted (map ordinary_order_key (gr_ordinary_orders (snd (start_grid plain_env g))))"
proof -
  obtain g where g: "grid_runtime_new demo_config = Inr g" using demo_config_new by blast
  with reachable_grid_book [OF gr_step [OF gr_new [OF g] gt_start]] show ?thesis by blast
qed

text \<open>Starting a runtime that was not started, of an ordinary mode and with at most \<open>2 ^ 32\<close> levels,
  succeeds and leaves exactly this book: the take profit of the first level and one entry for every
  other level, in order, each at its grid price and the default quantity.\<close>

theorem start_grid_places_book:
  assumes "grid_reach E g" "\<not> gr_started g" "is_ordinary (gr_mode g)" "length (gp_levels (gr_plan g)) \<le> 2 ^ 32"
  shows "fst (start_grid E g) = Inr ()
    \<and> gr_ordinary_orders (snd (start_grid E g)) =
        \<lparr>rr_kind = TakeProfit, rr_level_index = 0,
         rr_price = take_profit_price_from_bps E (hd (gp_levels (gr_plan g)))
           (gr_ordinary_take_profit_bps g) (is_short_mode (gr_mode g)),
         rr_quantity = gr_default_quantity g\<rparr>
        # map (\<lambda>i. \<lparr>rr_kind = Entry, rr_level_index = of_nat i, rr_price = gp_levels (gr_plan g) ! i,
                     rr_quantity = gr_default_quantity g\<rparr>) [1..<length (gp_levels (gr_plan g))]"
proof -
  let ?n = "length (gp_levels (gr_plan g))"
  obtain pos tp orders where
    st: "start_grid E g = (Inr (), sort_ordinary_orders
       (g\<lparr>gr_started := True, gr_position := Some pos, gr_trailing_anchor := None,
          gr_ordinary_orders := orders\<rparr>))" and
    fe: "for_each upsert_ordinary_entry (u32_range 1 ?n)
           (g\<lparr>gr_started := True, gr_position := Some pos, gr_trailing_anchor := None,
              gr_ordinary_orders := [tp]\<rparr>)
         = (Inr (), g\<lparr>gr_started := True, gr_position := Some pos, gr_trailing_anchor := None,
              gr_ordinary_orders := orders\<rparr>)" and
    tp: "tp = \<lparr>rr_kind = TakeProfit, rr_level_index = 0,
        rr_price = take_profit_price_from_bps E (hd (gp_levels (gr_plan g)))
          (gr_ordinary_take_profit_bps g) (is_short_mode (gr_mode g)),
        rr_quantity = gr_default_quantity g\<rparr>"
    using start_grid_ordinary [OF grid_reach_inv [OF assms(1)] assms(2,3)] by blast
  let ?g = "g\<lparr>gr_started := True, gr_position := Some pos, gr_trailing_anchor := None, gr_ordinary_orders := [tp]\<rparr>"
  have inj: "unat (of_nat i :: u32) = i" if "i < ?n" for i
    using that assms(4) by (simp add: unat_of_nat take_bit_eq_mod)
  have "distinct (u32_range 1 ?n)"
    unfolding u32_range_def distinct_map by (auto intro!: inj_onI dest: arg_cong [of _ _ unat] simp: inj)
  then have fresh: "for_each upsert_ordinary_entry (u32_range 1 ?n) ?g =
      (Inr (), ?g\<lparr>gr_ordinary_orders := tp # map (entry_at ?g) (u32_range 1 ?n)\<rparr>)"
    using for_each_entries_fresh [of "u32_range 1 ?n" ?g] u32_range_in by (simp add: tp)
  have orders: "orders = tp # map (entry_at ?g) (u32_range 1 ?n)"
    using arg_cong [OF trans [OF fe [symmetric] fresh], of "\<lambda>r. gr_ordinary_orders (snd r)"] by simp
  have "sorted (map ordinary_order_key orders)"
    unfolding orders by (rule sorted_started_book [OF assms(4)]) (simp_all add: tp)
  then have "gr_ordinary_orders (snd (start_grid E g)) = orders"
    by (simp add: st sort_ordinary_orders_def sort_key_id_if_sorted)
  then show ?thesis
    by (simp add: st orders tp u32_range_def entry_at_def inj)
qed

theorem start_grid_places_book_witness:
  "\<exists>g. grid_runtime_new demo_config = Inr g
     \<and> map rr_price (gr_ordinary_orders (snd (start_grid plain_env g))) = [101, 99, 98]"
proof -
  obtain g where g: "grid_runtime_new demo_config = Inr g" using demo_config_new by blast
  then have "\<not> gr_started g" "gr_mode g = GM_SpotGrid" "gp_levels (gr_plan g) = [100, 99, 98]"
    "gr_ordinary_take_profit_bps g = 100"
    by (auto simp: grid_runtime_new_def demo_config_def plan_ordinary_def bind_res_eq_Inr split: if_splits)
  then show ?thesis
    using g start_grid_places_book [OF gr_new [OF g], of plain_env]
    by (simp add: is_short_mode_def take_profit_price_from_bps_def take_profit_price_from_percent_def
        d_of_u32_def upt_rec)
qed

text \<open>A price tick on a runtime does at most one thing: it moves the trailing anchor, or it closes the
  whole position once, at one of four exits, with the profit of the position at the exit price added to
  the realised profit and the order book emptied; the runtime stops exactly when the exit is one of the
  two overall exits. Nothing closes without a position or while the runtime is not running.\<close>

theorem grid_tick_closes_once:
  "(\<exists>anchor. grid_on_price E price g = ([], g\<lparr>gr_last_price := Some price, gr_trailing_anchor := anchor\<rparr>))
   \<or> (\<exists>position exit_price reason. gr_status g = RS_Running \<and> gr_position g = Some position
        \<and> reason \<in> {''maker_take_profit'', ''taker_trailing_take_profit'', ''overall_take_profit'', ''overall_stop_loss''}
        \<and> grid_on_price E price g =
            ([\<lparr>re_reason = reason, re_exit_price = Some exit_price\<rparr>],
             g\<lparr>gr_last_price := Some price, gr_position := None, gr_trailing_anchor := None,
               gr_ordinary_orders := [],
               gr_realized_pnl := d_add E (gr_realized_pnl g)
                 (if is_short_mode (gr_mode g)
                  then d_mul E (d_sub E (ps_entry_price position) exit_price) (ps_quantity position)
                  else d_mul E (d_sub E exit_price (ps_entry_price position)) (ps_quantity position)),
               gr_status := (if reason = ''overall_take_profit'' \<or> reason = ''overall_stop_loss''
                             then RS_Stopped else gr_status g)\<rparr>))"
proof (cases "gr_status g = RS_Running \<and> gr_position g \<noteq> None")
  case True
  then obtain position where p: "gr_status g = RS_Running" "gr_position g = Some position" by auto
  from grid_on_price_outcome [OF p, of E price] show ?thesis
    using p unfolding exit_outcome_def closed_at_def by fastforce
next
  case False
  then have "grid_on_price E price g = ([], g\<lparr>gr_last_price := Some price, gr_trailing_anchor := gr_trailing_anchor g\<rparr>)"
    by (auto simp: grid_on_price_def Let_def split: option.split)
  then show ?thesis by blast
qed

end
