(* ===== verification/StrategyRuntime.thy ===== *)
theory StrategyRuntime
  imports TakeProfit
begin

text \<open>
  \<^verbatim>\<open>src/apps/trading-engine/src/strategy_runtime.rs\<close>: the engine that runs one grid strategy. The
  engine's state is the record \<open>StrategyRuntimeEngine\<close>; every method is one definition. Methods
  that contain an \<open>expect\<close> return \<open>None\<close> for the panic, and \<open>Utc::now()\<close> in \<open>push_event\<close> is the
  clock of the environment at the position of the new event.
\<close>

record OpenLevelState =
  ol_level_index :: u32
  ol_entry_price :: decimal
  ol_quantity :: decimal
  ol_take_profit_bps :: u32
  ol_trailing_bps :: "u32 option"
  ol_trailing_extreme :: "decimal option"
  ol_is_short :: bool
  ol_closing_requested :: bool

record RuntimeControlEffects =
  rc_cancel_order_ids :: "string list"
  rc_stopped :: bool

definition default_effects :: RuntimeControlEffects where
  "default_effects = \<lparr>rc_cancel_order_ids = [], rc_stopped = False\<rparr>"

record StrategyRuntimeEngine =
  se_strategy_id :: string
  se_market :: StrategyMarket
  se_mode :: StrategyMode
  se_revision :: StrategyRevision
  se_runtime :: StrategyRuntime
  se_open_levels :: "OpenLevelState list"
  se_running :: bool
  se_draining :: bool
  se_stop_after_take_profit :: bool
  se_fill_sequence :: u64

abbreviation se_orders :: "StrategyRuntimeEngine \<Rightarrow> StrategyRuntimeOrder list" where
  "se_orders e \<equiv> rt_orders (se_runtime e)"

abbreviation se_fills :: "StrategyRuntimeEngine \<Rightarrow> StrategyRuntimeFill list" where
  "se_fills e \<equiv> rt_fills (se_runtime e)"

abbreviation se_events :: "StrategyRuntimeEngine \<Rightarrow> StrategyRuntimeEvent list" where
  "se_events e \<equiv> rt_events (se_runtime e)"

abbreviation se_positions :: "StrategyRuntimeEngine \<Rightarrow> StrategyRuntimePosition list" where
  "se_positions e \<equiv> rt_positions (se_runtime e)"

subsection \<open>Free functions\<close>

definition entry_order_id :: "string \<Rightarrow> u32 \<Rightarrow> string" where
  "entry_order_id strategy_id level_index = strategy_id @ ''-order-'' @ show_u32 level_index"

definition take_profit_order_id :: "string \<Rightarrow> u32 \<Rightarrow> string" where
  "take_profit_order_id strategy_id level_index = strategy_id @ ''-tp-'' @ show_u32 level_index"

definition trailing_order_id :: "string \<Rightarrow> u32 \<Rightarrow> string" where
  "trailing_order_id strategy_id level_index = strategy_id @ ''-trail-'' @ show_u32 level_index"

definition active_exit_order_id :: "string \<Rightarrow> u32 \<Rightarrow> u32 option \<Rightarrow> string" where
  "active_exit_order_id strategy_id level_index trailing_bps =
     (if trailing_bps \<noteq> None then trailing_order_id strategy_id level_index
      else take_profit_order_id strategy_id level_index)"

definition is_entry_order :: "StrategyRuntimeOrder \<Rightarrow> bool" where
  "is_entry_order order \<longleftrightarrow>
     str_contains (ro_order_id order) ''-order-'' \<and> \<not> str_contains (ro_order_id order) ''-stop-close-''"

definition is_take_profit_order :: "StrategyRuntimeOrder \<Rightarrow> bool" where
  "is_take_profit_order order = str_contains (ro_order_id order) ''-tp-''"

definition is_trailing_monitor_order :: "StrategyRuntimeOrder \<Rightarrow> bool" where
  "is_trailing_monitor_order order = str_contains (ro_order_id order) ''-trail-''"

definition exit_side :: "bool \<Rightarrow> string" where
  "exit_side is_short = (if is_short then ''Buy'' else ''Sell'')"

definition push_event ::
  "env \<Rightarrow> StrategyRuntimeEvent list \<Rightarrow> string \<Rightarrow> string \<Rightarrow> decimal option
   \<Rightarrow> StrategyRuntimeEvent \<times> StrategyRuntimeEvent list" where
  "push_event E events event_type detail price =
     (let event = \<lparr>ev_event_type = event_type, ev_detail = detail, ev_price = price,
                   ev_created_at = utc_now E (length events)\<rparr>
      in (event, events @ [event]))"

definition ordinary_entry_side :: "StrategyMode \<Rightarrow> string option" where
  "ordinary_entry_side mode =
     (case mode of
        SpotBuyOnly \<Rightarrow> Some ''Buy''
      | FuturesLong \<Rightarrow> Some ''Buy''
      | SpotSellOnly \<Rightarrow> Some ''Sell''
      | FuturesShort \<Rightarrow> Some ''Sell''
      | SpotClassic \<Rightarrow> None
      | FuturesNeutral \<Rightarrow> None)"

definition initial_entry_side :: "StrategyMode \<Rightarrow> u32 \<Rightarrow> decimal \<Rightarrow> decimal \<Rightarrow> string option" where
  "initial_entry_side mode level_index level_price reference_price =
     (case ordinary_entry_side mode of
        Some side \<Rightarrow> Some side
      | None \<Rightarrow>
          if mode = SpotClassic then
            (if level_price < reference_price then Some ''Buy''
             else if level_price > reference_price then Some ''Sell''
             else None)
          else
            (if level_price < reference_price then Some ''Buy''
             else if level_price > reference_price then Some ''Sell''
             else if level_index mod 2 = 0 then Some ''Buy''
             else Some ''Sell''))"

definition take_profit_price :: "env \<Rightarrow> decimal \<Rightarrow> u32 \<Rightarrow> bool \<Rightarrow> decimal" where
  "take_profit_price E entry_price take_profit_bps is_short =
     take_profit_price_from_bps E entry_price take_profit_bps is_short"

definition trailing_factor :: "env \<Rightarrow> u32 \<Rightarrow> decimal" where
  "trailing_factor E bps = d_sub E 1 (d_div E (d_of_u32 bps) (d_of_u32 10000))"

definition short_trailing_factor :: "env \<Rightarrow> u32 \<Rightarrow> decimal" where
  "short_trailing_factor E bps = d_add E 1 (d_div E (d_of_u32 bps) (d_of_u32 10000))"

definition price_reaches_take_profit :: "decimal \<Rightarrow> decimal \<Rightarrow> bool \<Rightarrow> bool" where
  "price_reaches_take_profit price threshold is_short =
     (if is_short then price \<le> threshold else price \<ge> threshold)"

definition realized_pnl :: "env \<Rightarrow> decimal \<Rightarrow> decimal \<Rightarrow> decimal \<Rightarrow> bool \<Rightarrow> decimal" where
  "realized_pnl E entry_price exit_price quantity is_short =
     (if is_short then d_mul E (d_sub E entry_price exit_price) quantity
      else d_mul E (d_sub E exit_price entry_price) quantity)"

definition midpoint_reference_price :: "env \<Rightarrow> GridLevel list \<Rightarrow> decimal" where
  "midpoint_reference_price E levels =
     (case levels of
        [] \<Rightarrow> 0
      | [single] \<Rightarrow> gl_entry_price single
      | first # _ \<Rightarrow>
          d_div E (d_add E (gl_entry_price first) (gl_entry_price (last levels))) (d_of_u32 2))"

definition effective_reference_price :: "env \<Rightarrow> StrategyRevision \<Rightarrow> StrategyMode \<Rightarrow> decimal" where
  "effective_reference_price E revision mode =
     (case rv_reference_price revision of
        Some p \<Rightarrow> p
      | None \<Rightarrow>
          if rv_strategy_type revision = ClassicBilateralGrid \<or> mode = SpotClassic \<or> mode = FuturesNeutral
          then midpoint_reference_price E (rv_levels revision)
          else (case rv_levels revision of [] \<Rightarrow> 0 | level # _ \<Rightarrow> gl_entry_price level))"

subsection \<open>Restoring from a stored runtime\<close>

definition restore_draining_state :: "StrategyRuntime \<Rightarrow> bool" where
  "restore_draining_state runtime =
     (let started_at = rposition (\<lambda>event. ev_event_type event = ''strategy_draining_started'')
                         (rt_events runtime);
          stopped_at = rposition (\<lambda>event. ev_event_type event = ''strategy_stopped_after_draining'')
                         (rt_events runtime)
      in case started_at of
           None \<Rightarrow> False
         | Some started_at \<Rightarrow>
             (case stopped_at of None \<Rightarrow> True | Some stopped_at \<Rightarrow> started_at > stopped_at))"

definition restore_stop_after_take_profit :: "StrategyRuntime \<Rightarrow> bool" where
  "restore_stop_after_take_profit runtime =
     (case find_map
        (\<lambda>event. if ev_event_type event = ''stop_after_take_profit_enabled'' then Some True
                 else if ev_event_type event = ''stop_after_take_profit_disabled'' then Some False
                 else None)
        (rev (rt_events runtime)) of
        Some enabled \<Rightarrow> enabled
      | None \<Rightarrow> False)"

definition trailing_anchor_event :: "u32 \<Rightarrow> string" where
  "trailing_anchor_event level_index = ''trailing_anchor_'' @ show_u32 level_index"

definition latest_trailing_anchor :: "StrategyRuntime \<Rightarrow> u32 \<Rightarrow> decimal option" where
  "latest_trailing_anchor runtime level_index =
     (case find (\<lambda>event. ev_event_type event = trailing_anchor_event level_index)
             (rev (rt_events runtime)) of
        None \<Rightarrow> None
      | Some event \<Rightarrow> ev_price event)"

definition derive_open_level ::
  "StrategyRuntime \<Rightarrow> StrategyRevision \<Rightarrow> StrategyRuntimeOrder \<Rightarrow> OpenLevelState list
   \<Rightarrow> OpenLevelState list result" where
  "derive_open_level runtime revision order items =
     (if \<not> (is_take_profit_order order \<or> is_trailing_monitor_order order) then Inr items
      else if ro_status order \<notin> {''Working'', ''Placed'', ''Monitoring'', ''Armed'',
                                   ''ClosingRequested'', ''PartiallyFilled''} then Inr items
      else
        (case ro_level_index order of
           None \<Rightarrow> Inr items
         | Some level_index \<Rightarrow>
             (case find (\<lambda>level. gl_level_index level = level_index) (rv_levels revision) of
                None \<Rightarrow> Inl ''revision level must exist''
              | Some level \<Rightarrow>
                  Inr (items @
                    [\<lparr>ol_level_index = level_index, ol_entry_price = gl_entry_price level,
                      ol_quantity = ro_quantity order,
                      ol_take_profit_bps = gl_take_profit_bps level,
                      ol_trailing_bps = gl_trailing_bps level,
                      ol_trailing_extreme = latest_trailing_anchor runtime level_index,
                      ol_is_short = eq_ignore_ascii_case (ro_side order) ''Buy'',
                      ol_closing_requested =
                        (ro_status order = ''ClosingRequested'' \<or> ro_status order = ''PartiallyFilled''
                         \<or> eq_ignore_ascii_case (ro_order_type order) ''Market'')\<rparr>]))))"

definition derive_open_levels ::
  "StrategyRuntime \<Rightarrow> StrategyRevision \<Rightarrow> OpenLevelState list result" where
  "derive_open_levels runtime revision =
     fold_res (derive_open_level runtime revision) (rt_orders runtime) []"

subsection \<open>Private methods of the engine\<close>

definition log_event ::
  "env \<Rightarrow> string \<Rightarrow> string \<Rightarrow> decimal option \<Rightarrow> StrategyRuntimeEngine
   \<Rightarrow> StrategyRuntimeEvent \<times> StrategyRuntimeEngine" where
  "log_event E event_type detail price e =
     (let (event, events) = push_event E (se_events e) event_type detail price
      in (event, e\<lparr>se_runtime := (se_runtime e)\<lparr>rt_events := events\<rparr>\<rparr>))"

definition engine_new ::
  "string \<Rightarrow> StrategyMarket \<Rightarrow> StrategyMode \<Rightarrow> StrategyRevision \<Rightarrow> StrategyRuntimeEngine result" where
  "engine_new strategy_id market mode revision =
     (case find (\<lambda>level. (case gl_trailing_bps level of None \<Rightarrow> gl_take_profit_bps level
                                                      | Some t \<Rightarrow> t) > gl_take_profit_bps level)
             (rv_levels revision) of
        Some level \<Rightarrow>
          Inl (''level '' @ show_u32 (gl_level_index level)
               @ '' trailing_bps must be less than or equal to take_profit_bps'')
      | None \<Rightarrow>
          Inr \<lparr>se_strategy_id = strategy_id, se_market = market, se_mode = mode,
               se_revision = revision, se_runtime = default_runtime, se_open_levels = [],
               se_running = False, se_draining = False, se_stop_after_take_profit = False,
               se_fill_sequence = 0\<rparr>)"

definition accumulate_sides ::
  "env \<Rightarrow> OpenLevelState \<Rightarrow> (decimal \<times> decimal) \<times> decimal \<times> decimal
   \<Rightarrow> (decimal \<times> decimal) \<times> decimal \<times> decimal" where
  "accumulate_sides E level acc =
     (let ((long_quantity, long_cost), (short_quantity, short_cost)) = acc
      in if ol_is_short level
         then ((long_quantity, long_cost),
               (d_add E short_quantity (ol_quantity level),
                d_add E short_cost (d_mul E (ol_entry_price level) (ol_quantity level))))
         else ((d_add E long_quantity (ol_quantity level),
                d_add E long_cost (d_mul E (ol_entry_price level) (ol_quantity level))),
               (short_quantity, short_cost)))"

definition computed_positions :: "env \<Rightarrow> StrategyMarket \<Rightarrow> OpenLevelState list \<Rightarrow> StrategyRuntimePosition list" where
  "computed_positions E market levels =
     (let ((long_quantity, long_cost), (short_quantity, short_cost)) =
            fold (accumulate_sides E) levels ((0, 0), (0, 0))
      in (if long_quantity > 0
          then [\<lparr>po_market = market,
                 po_mode = (if market = Spot then SpotBuyOnly else FuturesLong),
                 po_quantity = long_quantity,
                 po_average_entry_price = d_div E long_cost long_quantity\<rparr>] else [])
       @ (if short_quantity > 0
          then [\<lparr>po_market = market,
                 po_mode = (if market = Spot then SpotSellOnly else FuturesShort),
                 po_quantity = short_quantity,
                 po_average_entry_price = d_div E short_cost short_quantity\<rparr>] else []))"

definition recompute_position :: "env \<Rightarrow> StrategyRuntimeEngine \<Rightarrow> StrategyRuntimeEngine" where
  "recompute_position E e =
     (if se_open_levels e = [] then e\<lparr>se_runtime := (se_runtime e)\<lparr>rt_positions := []\<rparr>\<rparr>
      else e\<lparr>se_runtime := (se_runtime e)
               \<lparr>rt_positions := computed_positions E (se_market e) (se_open_levels e)\<rparr>\<rparr>)"

definition or_else :: "'a option \<Rightarrow> 'a option \<Rightarrow> 'a option" where
  "or_else a b = (case a of Some x \<Rightarrow> Some x | None \<Rightarrow> b)"

definition reference_price :: "env \<Rightarrow> decimal option \<Rightarrow> StrategyRuntimeEngine \<Rightarrow> decimal" where
  "reference_price E override_price e =
     (let total_quantity = foldl (\<lambda>acc position. d_add E acc (po_quantity position)) 0 (se_positions e)
      in case or_else override_price
             (or_else (find_map ev_price (rev (se_events e)))
             (or_else
               (if total_quantity > 0
                then Some (d_div E
                       (foldl (\<lambda>acc position.
                           d_add E acc (d_mul E (po_average_entry_price position) (po_quantity position)))
                         0 (se_positions e)) total_quantity)
                else None)
               (find_map (\<lambda>fill. if fi_price fill > 0 then Some (fi_price fill) else None)
                  (rev (se_fills e))))) of
           Some p \<Rightarrow> p
         | None \<Rightarrow> effective_reference_price E (se_revision e) (se_mode e))"

definition level_for :: "u32 \<Rightarrow> StrategyRuntimeEngine \<Rightarrow> GridLevel result" where
  "level_for level_index e =
     (case find (\<lambda>level. gl_level_index level = level_index) (rv_levels (se_revision e)) of
        None \<Rightarrow> Inl ''grid level not found''
      | Some level \<Rightarrow> Inr level)"

definition is_entry_of :: "u32 \<Rightarrow> StrategyRuntimeOrder \<Rightarrow> bool" where
  "is_entry_of level_index order \<longleftrightarrow> ro_level_index order = Some level_index \<and> is_entry_order order"

definition upsert_exit_order ::
  "env \<Rightarrow> u32 \<Rightarrow> decimal \<Rightarrow> decimal \<Rightarrow> u32 \<Rightarrow> u32 option \<Rightarrow> bool \<Rightarrow> StrategyRuntimeEngine
   \<Rightarrow> StrategyRuntimeEngine" where
  "upsert_exit_order E level_index entry_price quantity take_profit_bps trailing_bps is_short e =
     (let order_id = active_exit_order_id (se_strategy_id e) level_index trailing_bps;
          order_type = (if trailing_bps \<noteq> None then ''TrailMonitor'' else ''Limit'');
          price = Some (take_profit_price E entry_price take_profit_bps is_short);
          status = (if trailing_bps \<noteq> None then ''Monitoring'' else ''Working'')
      in e\<lparr>se_runtime := (se_runtime e)\<lparr>rt_orders :=
           upsert (\<lambda>order. ro_order_id order = order_id)
             (\<lambda>order. order\<lparr>ro_exchange_order_id := None, ro_level_index := Some level_index,
                ro_side := exit_side is_short, ro_order_type := order_type, ro_price := price,
                ro_quantity := quantity, ro_status := status\<rparr>)
             \<lparr>ro_order_id = order_id, ro_exchange_order_id = None,
              ro_level_index = Some level_index, ro_side = exit_side is_short,
              ro_order_type = order_type, ro_price = price, ro_quantity = quantity,
              ro_status = status\<rparr>
             (se_orders e)\<rparr>\<rparr>)"

definition activate_entry_order :: "env \<Rightarrow> u32 \<Rightarrow> StrategyRuntimeEngine \<Rightarrow> StrategyRuntimeEngine" where
  "activate_entry_order E level_index e =
     (case level_for level_index e of
        Inl _ \<Rightarrow> e
      | Inr level \<Rightarrow>
          (case initial_entry_side (se_mode e) (gl_level_index level) (gl_entry_price level)
                  (reference_price E None e) of
             None \<Rightarrow> e
           | Some side \<Rightarrow>
               e\<lparr>se_runtime := (se_runtime e)\<lparr>rt_orders :=
                 upsert (is_entry_of level_index)
                   (\<lambda>order. order\<lparr>ro_exchange_order_id := None, ro_side := side,
                      ro_order_type := ''Limit'', ro_price := Some (gl_entry_price level),
                      ro_quantity := gl_quantity level, ro_status := ''Working''\<rparr>)
                   \<lparr>ro_order_id = entry_order_id (se_strategy_id e) level_index,
                    ro_exchange_order_id = None, ro_level_index = Some level_index, ro_side = side,
                    ro_order_type = ''Limit'', ro_price = Some (gl_entry_price level),
                    ro_quantity = gl_quantity level, ro_status = ''Working''\<rparr>
                   (se_orders e)\<rparr>\<rparr>))"

definition overall_profit_state :: "env \<Rightarrow> decimal \<Rightarrow> StrategyRuntimeEngine \<Rightarrow> (decimal \<times> decimal) option" where
  "overall_profit_state E price e =
     (if se_open_levels e = [] then None
      else
        let cost_basis = foldl (\<lambda>acc level.
              d_add E acc (d_mul E (ol_entry_price level) (ol_quantity level))) 0 (se_open_levels e)
        in if cost_basis \<le> 0 then None
           else
             let unrealized_pnl = foldl (\<lambda>acc level.
                   let pnl = (if ol_is_short level
                              then d_mul E (d_sub E (ol_entry_price level) price) (ol_quantity level)
                              else d_mul E (d_sub E price (ol_entry_price level)) (ol_quantity level))
                   in d_add E acc pnl) 0 (se_open_levels e)
             in Some (cost_basis, unrealized_pnl))"

definition overall_threshold :: "env \<Rightarrow> decimal \<Rightarrow> u32 \<Rightarrow> decimal" where
  "overall_threshold E cost_basis bps = d_div E (d_mul E cost_basis (d_of_u32 bps)) (d_of_u32 10000)"

definition should_trigger_overall_take_profit :: "env \<Rightarrow> decimal \<Rightarrow> StrategyRuntimeEngine \<Rightarrow> bool" where
  "should_trigger_overall_take_profit E price e =
     (case rv_overall_take_profit_bps (se_revision e) of
        None \<Rightarrow> False
      | Some overall_bps \<Rightarrow>
          (case overall_profit_state E price e of
             None \<Rightarrow> False
           | Some (cost_basis, unrealized_pnl) \<Rightarrow>
               unrealized_pnl \<ge> overall_threshold E cost_basis overall_bps))"

definition should_trigger_overall_stop_loss :: "env \<Rightarrow> decimal \<Rightarrow> StrategyRuntimeEngine \<Rightarrow> bool" where
  "should_trigger_overall_stop_loss E price e =
     (case rv_overall_stop_loss_bps (se_revision e) of
        None \<Rightarrow> False
      | Some overall_bps \<Rightarrow>
          (case overall_profit_state E price e of
             None \<Rightarrow> False
           | Some (cost_basis, unrealized_pnl) \<Rightarrow>
               unrealized_pnl \<le> - overall_threshold E cost_basis overall_bps))"

definition trigger_post_take_profit ::
  "env \<Rightarrow> decimal \<Rightarrow> StrategyRuntimeEngine \<Rightarrow> StrategyRuntimeEvent \<times> StrategyRuntimeEngine" where
  "trigger_post_take_profit E price e =
     (let e = e\<lparr>se_running := False\<rparr>
      in case rv_post_trigger_action (se_revision e) of
           Stop \<Rightarrow> log_event E ''overall_take_profit_stop'' ''overall_take_profit_stop'' (Some price) e
         | Rebuild \<Rightarrow>
             log_event E ''overall_take_profit_rebuild'' ''overall_take_profit_rebuild'' (Some price) e)"

definition trigger_post_stop_loss ::
  "env \<Rightarrow> decimal \<Rightarrow> StrategyRuntimeEngine \<Rightarrow> StrategyRuntimeEvent \<times> StrategyRuntimeEngine" where
  "trigger_post_stop_loss E price e =
     (let e = e\<lparr>se_running := False\<rparr>
      in case rv_post_trigger_action (se_revision e) of
           Stop \<Rightarrow> log_event E ''overall_stop_loss_stop'' ''overall_stop_loss_stop'' (Some price) e
         | Rebuild \<Rightarrow>
             log_event E ''overall_stop_loss_rebuild'' ''overall_stop_loss_rebuild'' (Some price) e)"

definition fill_id_of :: "string \<Rightarrow> u64 \<Rightarrow> string" where
  "fill_id_of strategy_id sequence = strategy_id @ ''-fill-'' @ show_nat (unat sequence)"

definition close_level ::
  "env \<Rightarrow> u32 \<Rightarrow> decimal \<Rightarrow> string \<Rightarrow> bool \<Rightarrow> StrategyRuntimeEngine
   \<Rightarrow> (StrategyRuntimeEvent \<times> StrategyRuntimeEngine) option" where
  "close_level E level_index price event_type reopen_entry e =
     (case find (\<lambda>state. ol_level_index state = level_index) (se_open_levels e) of
        None \<Rightarrow> None
      | Some state \<Rightarrow>
          let sequence = se_fill_sequence e + 1;
              fill = \<lparr>fi_fill_id = fill_id_of (se_strategy_id e) sequence,
                      fi_order_id = Some (active_exit_order_id (se_strategy_id e) level_index
                                            (ol_trailing_bps state)),
                      fi_level_index = Some level_index, fi_fill_type = ''Exit'', fi_price = price,
                      fi_quantity = ol_quantity state,
                      fi_realized_pnl = Some (realized_pnl E (ol_entry_price state) price
                                                (ol_quantity state) (ol_is_short state)),
                      fi_fee_amount = None, fi_fee_asset = None\<rparr>;
              e = e\<lparr>se_fill_sequence := sequence,
                    se_runtime := (se_runtime e)
                      \<lparr>rt_fills := se_fills e @ [fill],
                       rt_orders := update_first
                         (\<lambda>order. ro_level_index order = Some level_index
                            \<and> (is_take_profit_order order \<or> is_trailing_monitor_order order))
                         (\<lambda>order. order\<lparr>ro_status := ''Filled''\<rparr>) (se_orders e)\<rparr>\<rparr>;
              e = (if reopen_entry \<and> \<not> se_draining e then activate_entry_order E level_index e else e);
              e = recompute_position E e
          in Some (log_event E event_type event_type (Some price) e))"

definition request_level_close ::
  "env \<Rightarrow> u32 \<Rightarrow> decimal \<Rightarrow> string \<Rightarrow> StrategyRuntimeEngine
   \<Rightarrow> (StrategyRuntimeEvent \<times> StrategyRuntimeEngine) option" where
  "request_level_close E level_index price event_type e =
     (case find (\<lambda>state. ol_level_index state = level_index) (se_open_levels e) of
        None \<Rightarrow> None
      | Some state \<Rightarrow>
          let order_id = active_exit_order_id (se_strategy_id e) level_index (ol_trailing_bps state);
              e = e\<lparr>se_open_levels := update_first (\<lambda>state. ol_level_index state = level_index)
                      (\<lambda>state. state\<lparr>ol_closing_requested := True\<rparr>) (se_open_levels e),
                    se_runtime := (se_runtime e)
                      \<lparr>rt_orders := update_first (\<lambda>order. ro_order_id order = order_id)
                         (\<lambda>order. order\<lparr>ro_exchange_order_id := None,
                            ro_side := exit_side (ol_is_short state), ro_order_type := ''Market'',
                            ro_price := None, ro_quantity := ol_quantity state,
                            ro_status := ''ClosingRequested''\<rparr>) (se_orders e)\<rparr>\<rparr>
          in Some (log_event E event_type event_type (Some price) e))"

definition maybe_stop_after_draining :: "env \<Rightarrow> StrategyRuntimeEngine \<Rightarrow> bool \<times> StrategyRuntimeEngine" where
  "maybe_stop_after_draining E e =
     (if se_stop_after_take_profit e \<and> se_draining e \<and> se_open_levels e = []
      then (True, snd (log_event E ''strategy_stopped_after_draining''
                         ''strategy stopped after draining'' None
                         (e\<lparr>se_draining := False, se_running := False\<rparr>)))
      else (False, e))"

definition active_entry_orders :: "decimal \<Rightarrow> StrategyRuntimeEngine \<Rightarrow> StrategyRuntimeOrder list" where
  "active_entry_orders reference e =
     concat (map (\<lambda>level.
       if list_ex (\<lambda>state. ol_level_index state = gl_level_index level) (se_open_levels e) then []
       else
         (case initial_entry_side (se_mode e) (gl_level_index level) (gl_entry_price level) reference of
            None \<Rightarrow> []
          | Some side \<Rightarrow>
              [\<lparr>ro_order_id = entry_order_id (se_strategy_id e) (gl_level_index level),
                ro_exchange_order_id = None, ro_level_index = Some (gl_level_index level),
                ro_side = side, ro_order_type = ''Limit'', ro_price = Some (gl_entry_price level),
                ro_quantity = gl_quantity level, ro_status = ''Working''\<rparr>]))
       (rv_levels (se_revision e)))"

definition active_exit_order :: "env \<Rightarrow> string \<Rightarrow> OpenLevelState \<Rightarrow> StrategyRuntimeOrder" where
  "active_exit_order E strategy_id state =
     (if ol_closing_requested state then
        \<lparr>ro_order_id = active_exit_order_id strategy_id (ol_level_index state) (ol_trailing_bps state),
         ro_exchange_order_id = None, ro_level_index = Some (ol_level_index state),
         ro_side = exit_side (ol_is_short state), ro_order_type = ''Market'', ro_price = None,
         ro_quantity = ol_quantity state, ro_status = ''ClosingRequested''\<rparr>
      else if ol_trailing_bps state \<noteq> None then
        \<lparr>ro_order_id = trailing_order_id strategy_id (ol_level_index state),
         ro_exchange_order_id = None, ro_level_index = Some (ol_level_index state),
         ro_side = exit_side (ol_is_short state), ro_order_type = ''TrailMonitor'',
         ro_price = Some (take_profit_price E (ol_entry_price state) (ol_take_profit_bps state)
                            (ol_is_short state)),
         ro_quantity = ol_quantity state,
         ro_status = (if ol_trailing_extreme state \<noteq> None then ''Armed'' else ''Monitoring'')\<rparr>
      else
        \<lparr>ro_order_id = take_profit_order_id strategy_id (ol_level_index state),
         ro_exchange_order_id = None, ro_level_index = Some (ol_level_index state),
         ro_side = exit_side (ol_is_short state), ro_order_type = ''Limit'',
         ro_price = Some (take_profit_price E (ol_entry_price state) (ol_take_profit_bps state)
                            (ol_is_short state)),
         ro_quantity = ol_quantity state, ro_status = ''Working''\<rparr>)"

definition level_sort_key :: "StrategyRuntimeOrder \<Rightarrow> u32" where
  "level_sort_key order = (case ro_level_index order of Some i \<Rightarrow> i | None \<Rightarrow> - 1)"

definition build_active_orders ::
  "env \<Rightarrow> decimal option \<Rightarrow> StrategyRuntimeEngine \<Rightarrow> StrategyRuntimeOrder list" where
  "build_active_orders E override_price e =
     (let reference = reference_price E override_price e;
          entries = (if se_draining e then [] else active_entry_orders reference e);
          exits = map (active_exit_order E (se_strategy_id e)) (se_open_levels e)
      in sort_key level_sort_key (entries @ exits))"

subsection \<open>Public methods of the engine\<close>

definition fill_entry :: "env \<Rightarrow> u32 \<Rightarrow> (StrategyRuntimeEngine, unit) stateful" where
  "fill_entry E level_index e =
     (case level_for level_index e of
        Inl err \<Rightarrow> (Inl err, e)
      | Inr level \<Rightarrow>
          let default_side = (case initial_entry_side (se_mode e) (gl_level_index level)
                                     (gl_entry_price level) (reference_price E None e) of
                                None \<Rightarrow> ''Buy'' | Some side \<Rightarrow> side);
              side = (case find (is_entry_of level_index) (se_orders e) of
                        None \<Rightarrow> default_side | Some order \<Rightarrow> ro_side order);
              is_short = eq_ignore_ascii_case side ''Sell'';
              sequence = se_fill_sequence e + 1;
              fill = \<lparr>fi_fill_id = fill_id_of (se_strategy_id e) sequence,
                      fi_order_id = Some (entry_order_id (se_strategy_id e) level_index),
                      fi_level_index = Some level_index, fi_fill_type = ''Entry'',
                      fi_price = gl_entry_price level, fi_quantity = gl_quantity level,
                      fi_realized_pnl = None, fi_fee_amount = None, fi_fee_asset = None\<rparr>;
              state = \<lparr>ol_level_index = level_index, ol_entry_price = gl_entry_price level,
                       ol_quantity = gl_quantity level,
                       ol_take_profit_bps = gl_take_profit_bps level,
                       ol_trailing_bps = gl_trailing_bps level, ol_trailing_extreme = None,
                       ol_is_short = is_short, ol_closing_requested = False\<rparr>;
              e = e\<lparr>se_fill_sequence := sequence,
                    se_open_levels :=
                      filter (\<lambda>state. ol_level_index state \<noteq> level_index) (se_open_levels e) @ [state],
                    se_runtime := (se_runtime e)
                      \<lparr>rt_orders := update_first (is_entry_of level_index)
                         (\<lambda>order. order\<lparr>ro_status := ''Filled''\<rparr>) (se_orders e),
                       rt_fills := se_fills e @ [fill]\<rparr>\<rparr>;
              e = upsert_exit_order E level_index (gl_entry_price level) (gl_quantity level)
                    (gl_take_profit_bps level) (gl_trailing_bps level) is_short e;
              e = recompute_position E e
          in (Inr (), snd (log_event E ''entry_fill'' ''entry fill recorded''
                             (Some (gl_entry_price level)) e)))"

definition start_ordinary_grid :: "env \<Rightarrow> (StrategyRuntimeEngine, unit) stateful" where
  "start_ordinary_grid E e =
     (case rv_levels (se_revision e) of
        [] \<Rightarrow> (Inl ''ordinary grid requires at least one level'', e)
      | level # remaining \<Rightarrow>
          (case ordinary_entry_side (se_mode e) of
             None \<Rightarrow> (Inl ''ordinary grid start requires a single-sided mode'', e)
           | Some side \<Rightarrow>
               andthen (fill_entry E (gl_level_index level)) (\<lambda>_ e.
                 let e = fold (activate_entry_order E) (map gl_level_index remaining) e
                 in (Inr (), e\<lparr>se_runtime := (se_runtime e)
                       \<lparr>rt_orders := sort_key level_sort_key (se_orders e)\<rparr>\<rparr>))
                 (e\<lparr>se_runtime := (se_runtime e)\<lparr>rt_orders :=
                    [\<lparr>ro_order_id = entry_order_id (se_strategy_id e) (gl_level_index level),
                      ro_exchange_order_id = None, ro_level_index = Some (gl_level_index level),
                      ro_side = side, ro_order_type = ''Limit'',
                      ro_price = Some (gl_entry_price level), ro_quantity = gl_quantity level,
                      ro_status = ''Working''\<rparr>]\<rparr>\<rparr>)))"

definition engine_start :: "env \<Rightarrow> (StrategyRuntimeEngine, unit) stateful" where
  "engine_start E e0 =
     (let e = e0\<lparr>se_running := True\<rparr>
      in andthen
           (\<lambda>e. if ordinary_entry_side (se_mode e) \<noteq> None \<and> se_orders e = [] \<and> se_fills e = []
                   \<and> se_positions e = [] \<and> se_open_levels e = []
                then start_ordinary_grid E e
                else (Inr (), e\<lparr>se_runtime := (se_runtime e)
                                 \<lparr>rt_orders := build_active_orders E None e\<rparr>\<rparr>))
           (\<lambda>_ e. (Inr (), snd (log_event E ''strategy_started'' ''strategy started'' None e))) e)"

definition set_stop_after_take_profit :: "env \<Rightarrow> bool \<Rightarrow> StrategyRuntimeEngine \<Rightarrow> StrategyRuntimeEngine" where
  "set_stop_after_take_profit E enabled e =
     (if se_stop_after_take_profit e = enabled then e
      else snd (log_event E
             (if enabled then ''stop_after_take_profit_enabled'' else ''stop_after_take_profit_disabled'')
             (if enabled then ''stop_after_take_profit enabled'' else ''stop_after_take_profit disabled'')
             None (e\<lparr>se_stop_after_take_profit := enabled\<rparr>)))"

definition drain_order :: "string list \<Rightarrow> StrategyRuntimeOrder \<Rightarrow> string list \<times> StrategyRuntimeOrder" where
  "drain_order cancel_order_ids order =
     (if is_entry_order order \<and> ro_status order \<in> {''Working'', ''Placed'', ''PartiallyFilled''}
      then (cancel_order_ids @ [ro_order_id order],
            order\<lparr>ro_exchange_order_id := None, ro_status := ''Canceled''\<rparr>)
      else (cancel_order_ids, order))"

definition enable_only_sell_no_buy :: "env \<Rightarrow> (StrategyRuntimeEngine, RuntimeControlEffects) stateful" where
  "enable_only_sell_no_buy E e =
     (if ordinary_entry_side (se_mode e) = None
      then (Inl ''only_sell_no_buy only supports ordinary single-sided grids'', e)
      else if \<not> se_running e then (Inl ''only_sell_no_buy requires a running strategy'', e)
      else if se_draining e then (Inr default_effects, e)
      else
        let (cancel_order_ids, orders) = map_accum drain_order [] (se_orders e);
            e = e\<lparr>se_draining := True, se_runtime := (se_runtime e)\<lparr>rt_orders := orders\<rparr>\<rparr>
        in (Inr \<lparr>rc_cancel_order_ids = sort cancel_order_ids, rc_stopped = False\<rparr>,
            snd (log_event E ''strategy_draining_started'' ''strategy draining started'' None e)))"

definition record_take_profit_fill ::
  "env \<Rightarrow> u32 \<Rightarrow> decimal \<Rightarrow> StrategyRuntimeEngine
   \<Rightarrow> (RuntimeControlEffects result \<times> StrategyRuntimeEngine) option" where
  "record_take_profit_fill E level_index exit_price e =
     (if \<not> list_ex (\<lambda>state. ol_level_index state = level_index) (se_open_levels e)
      then Some (Inl ''open level not found'', e)
      else
        (case close_level E level_index exit_price ''maker_take_profit'' True e of
           None \<Rightarrow> None
         | Some (_, e) \<Rightarrow>
             let e = e\<lparr>se_open_levels :=
                       filter (\<lambda>state. ol_level_index state \<noteq> level_index) (se_open_levels e)\<rparr>;
                 e = recompute_position E e;
                 (stopped, e) = maybe_stop_after_draining E e
             in Some (Inr \<lparr>rc_cancel_order_ids = [], rc_stopped = stopped\<rparr>, e)))"

definition fill_take_profit ::
  "env \<Rightarrow> u32 \<Rightarrow> decimal \<Rightarrow> StrategyRuntimeEngine \<Rightarrow> (unit result \<times> StrategyRuntimeEngine) option" where
  "fill_take_profit E level_index exit_price e =
     (case record_take_profit_fill E level_index exit_price e of
        None \<Rightarrow> None
      | Some (Inl err, e) \<Rightarrow> Some (Inl err, e)
      | Some (Inr _, e) \<Rightarrow> Some (Inr (), e))"

text \<open>The body of the loop of \<open>on_price\<close> over the open levels: the state it threads is the event
  log and the closures to request.\<close>

definition trail_level ::
  "env \<Rightarrow> decimal \<Rightarrow> StrategyRuntimeEvent list \<times> (u32 \<times> decimal \<times> string) list \<Rightarrow> OpenLevelState
   \<Rightarrow> (StrategyRuntimeEvent list \<times> (u32 \<times> decimal \<times> string) list) \<times> OpenLevelState" where
  "trail_level E price acc state =
     (let (events, pending_closures) = acc;
          tp_price = take_profit_price E (ol_entry_price state) (ol_take_profit_bps state)
                       (ol_is_short state);
          anchor = trailing_anchor_event (ol_level_index state);
          closure = (ol_level_index state, price, ''taker_trailing_take_profit'')
      in if ol_closing_requested state then (acc, state)
         else
           (case ol_trailing_bps state of
              None \<Rightarrow> (acc, state)
            | Some trailing_bps \<Rightarrow>
                (case ol_trailing_extreme state of
                   Some extreme \<Rightarrow>
                     if ol_is_short state then
                       (let new_low = min extreme price;
                            events = snd (push_event E events anchor ''trailing anchor updated'' (Some new_low));
                            retrace_price = d_mul E new_low (short_trailing_factor E trailing_bps)
                        in ((events, if price \<ge> retrace_price then pending_closures @ [closure]
                                     else pending_closures),
                            state\<lparr>ol_trailing_extreme := Some new_low\<rparr>))
                     else
                       (let new_high = max extreme price;
                            events = snd (push_event E events anchor ''trailing anchor updated'' (Some new_high));
                            retrace_price = d_mul E new_high (trailing_factor E trailing_bps)
                        in ((events, if price \<le> retrace_price then pending_closures @ [closure]
                                     else pending_closures),
                            state\<lparr>ol_trailing_extreme := Some new_high\<rparr>))
                 | None \<Rightarrow>
                     if price_reaches_take_profit price tp_price (ol_is_short state)
                     then ((snd (push_event E events anchor ''trailing anchor armed'' (Some price)),
                            pending_closures),
                           state\<lparr>ol_trailing_extreme := Some price\<rparr>)
                     else (acc, state))))"

fun request_closures ::
  "env \<Rightarrow> (u32 \<times> decimal \<times> string) list \<Rightarrow> StrategyRuntimeEvent list \<Rightarrow> StrategyRuntimeEngine
   \<Rightarrow> (StrategyRuntimeEvent list \<times> StrategyRuntimeEngine) option" where
  "request_closures E [] emitted e = Some (emitted, e)"
| "request_closures E ((level_index, exit_price, event_type) # rest) emitted e =
     (case request_level_close E level_index exit_price event_type e of
        None \<Rightarrow> None
      | Some (event, e) \<Rightarrow> request_closures E rest (emitted @ [event]) e)"

definition engine_on_price ::
  "env \<Rightarrow> decimal \<Rightarrow> StrategyRuntimeEngine
   \<Rightarrow> (StrategyRuntimeEvent list result \<times> StrategyRuntimeEngine) option" where
  "engine_on_price E price e =
     (if \<not> se_running e then Some (Inr [], e)
      else if should_trigger_overall_take_profit E price e
      then let (event, e) = trigger_post_take_profit E price e in Some (Inr [event], e)
      else if should_trigger_overall_stop_loss E price e
      then let (event, e) = trigger_post_stop_loss E price e in Some (Inr [event], e)
      else
        let ((events, pending_closures), open_levels) =
              map_accum (trail_level E price) (se_events e, []) (se_open_levels e);
            e = e\<lparr>se_open_levels := open_levels,
                  se_runtime := (se_runtime e)\<lparr>rt_events := events\<rparr>\<rparr>
        in (case request_closures E pending_closures [] e of
              None \<Rightarrow> None
            | Some (emitted, e) \<Rightarrow> Some (Inr emitted, e)))"

definition pause_order :: "StrategyRuntimeOrder \<Rightarrow> StrategyRuntimeOrder" where
  "pause_order order =
     (if ro_status order \<in> {''Working'', ''Placed'', ''Monitoring'', ''Armed''}
      then order\<lparr>ro_status := ''Canceled''\<rparr> else order)"

definition engine_pause :: "env \<Rightarrow> StrategyRuntimeEngine \<Rightarrow> StrategyRuntimeEngine" where
  "engine_pause E e =
     snd (log_event E ''strategy_paused'' ''strategy paused'' None
       (e\<lparr>se_running := False,
          se_runtime := (se_runtime e)\<lparr>rt_orders := map pause_order (se_orders e)\<rparr>\<rparr>))"

definition resume_with_reference_price ::
  "env \<Rightarrow> decimal option \<Rightarrow> (StrategyRuntimeEngine, unit) stateful" where
  "resume_with_reference_price E price e0 =
     (let e = e0\<lparr>se_running := True\<rparr>;
          e = e\<lparr>se_runtime := (se_runtime e)\<lparr>rt_orders := build_active_orders E price e\<rparr>\<rparr>
      in (Inr (), snd (log_event E ''strategy_resumed'' ''strategy resumed'' None e)))"

definition engine_resume :: "env \<Rightarrow> (StrategyRuntimeEngine, unit) stateful" where
  "engine_resume E = resume_with_reference_price E None"

definition restored_level ::
  "StrategyRuntime \<Rightarrow> StrategyRevision \<Rightarrow> nat \<Rightarrow> StrategyRuntimePosition \<Rightarrow> OpenLevelState result" where
  "restored_level runtime revision index position =
     (case or_else (vec_get (rv_levels revision) index) (vec_get (rv_levels revision) 0) of
        None \<Rightarrow> Inl ''revision level must exist''
      | Some template_level \<Rightarrow>
          Inr \<lparr>ol_level_index = gl_level_index template_level,
               ol_entry_price = po_average_entry_price position, ol_quantity = po_quantity position,
               ol_take_profit_bps = gl_take_profit_bps template_level,
               ol_trailing_bps = gl_trailing_bps template_level,
               ol_trailing_extreme = latest_trailing_anchor runtime (gl_level_index template_level),
               ol_is_short = (po_mode position = SpotSellOnly \<or> po_mode position = FuturesShort),
               ol_closing_requested = False\<rparr>)"

definition from_runtime_snapshot ::
  "env \<Rightarrow> string \<Rightarrow> StrategyMarket \<Rightarrow> StrategyMode \<Rightarrow> StrategyRevision \<Rightarrow> StrategyRuntime \<Rightarrow> bool
   \<Rightarrow> StrategyRuntimeEngine result" where
  "from_runtime_snapshot E strategy_id market mode revision runtime running =
     bind_res (engine_new strategy_id market mode revision) (\<lambda>engine.
     bind_res (derive_open_levels runtime revision) (\<lambda>open_levels.
     bind_res
       (if open_levels = [] \<and> rt_positions runtime \<noteq> []
        then collect_res (map (\<lambda>(index, position). restored_level runtime revision index position)
               (List.enumerate 0 (rt_positions runtime)))
        else Inr open_levels) (\<lambda>open_levels.
       Inr (recompute_position E
         (engine\<lparr>se_runtime := runtime, se_running := running,
                 se_draining := restore_draining_state runtime,
                 se_stop_after_take_profit := restore_stop_after_take_profit runtime,
                 se_fill_sequence := of_nat (length (rt_fills runtime)),
                 se_open_levels := open_levels\<rparr>)))))"

end
