(* ===== verification/OrderIds.thy ===== *)
theory OrderIds
  imports StrategyRuntime
begin

text \<open>
  The sources tell the kinds of orders apart by substrings of the order id (\<open>-order-\<close>, \<open>-tp-\<close>,
  \<open>-trail-\<close>). This theory shows when that is sound: for every strategy id that does not itself
  contain such a marker, an id built by \<open>entry_order_id\<close>, \<open>take_profit_order_id\<close> or
  \<open>trailing_order_id\<close> is recognised as what it is and as nothing else.
\<close>

lemma split_at_last:
  assumes "c \<notin> set y" "c \<notin> set y'"
  shows "x @ c # y = x' @ c # y' \<longleftrightarrow> x = x' \<and> y = y'"
  using assms by (auto simp: append_eq_append_conv2 Cons_eq_append_conv append_eq_Cons_conv)

text \<open>A marker \<open>-w-\<close> occurs in \<open>a-w'-d\<close> only as \<open>w'\<close> itself or inside \<open>a-\<close>.\<close>

lemma marker_in_id:
  assumes "CHR ''-'' \<notin> set w" "CHR ''-'' \<notin> set w'" "CHR ''-'' \<notin> set d"
  shows "str_contains (a @ CHR ''-'' # w' @ CHR ''-'' # d) (CHR ''-'' # w @ ''-'')
     \<longleftrightarrow> w = w' \<or> str_contains (a @ ''-'') (CHR ''-'' # w @ ''-'')"
    (is "?L \<longleftrightarrow> ?R")
proof
  assume ?L
  then obtain u v where "a @ CHR ''-'' # w' @ CHR ''-'' # d = u @ (CHR ''-'' # w @ ''-'') @ v"
    by (auto simp: str_contains_iff)
  then have eq: "(a @ CHR ''-'' # w') @ CHR ''-'' # d = (u @ CHR ''-'' # w) @ CHR ''-'' # v" by simp
  show ?R
  proof (cases "CHR ''-'' \<in> set v")
    case False
    then show ?thesis using eq assms split_at_last by metis
  next
    case True
    then obtain v1 v2 where v: "v = v1 @ CHR ''-'' # v2" "CHR ''-'' \<notin> set v2"
      by (meson split_list_last)
    then have eq1: "a @ CHR ''-'' # w' = (u @ CHR ''-'' # w) @ CHR ''-'' # v1"
      using eq assms split_at_last [of "CHR ''-''" d v2 "a @ CHR ''-'' # w'" "(u @ CHR ''-'' # w) @ CHR ''-'' # v1"]
      by simp
    show ?thesis
    proof (cases "CHR ''-'' \<in> set v1")
      case False
      then have "a = u @ CHR ''-'' # w" using eq1 assms split_at_last by metis
      then show ?thesis unfolding str_contains_iff
        by (intro disjI2 exI [of _ u] exI [of _ "[]"]) simp
    next
      case True
      then obtain v3 v4 where v1: "v1 = v3 @ CHR ''-'' # v4" "CHR ''-'' \<notin> set v4"
        by (meson split_list_last)
      then have "a = (u @ CHR ''-'' # w) @ CHR ''-'' # v3"
        using eq1 assms split_at_last [of "CHR ''-''" w' v4 a "(u @ CHR ''-'' # w) @ CHR ''-'' # v3"] by simp
      then have "a @ ''-'' = u @ (CHR ''-'' # w @ ''-'') @ (v3 @ ''-'')" by simp
      then show ?thesis unfolding str_contains_iff by blast
    qed
  qed
next
  assume ?R
  then show ?L
  proof
    assume "w = w'"
    then show ?L unfolding str_contains_iff by (intro exI [of _ a] exI [of _ d]) simp
  next
    assume "str_contains (a @ ''-'') (CHR ''-'' # w @ ''-'')"
    then obtain u v where "a @ ''-'' = u @ (CHR ''-'' # w @ ''-'') @ v" by (auto simp: str_contains_iff)
    then have "a @ CHR ''-'' # w' @ CHR ''-'' # d = u @ (CHR ''-'' # w @ ''-'') @ (v @ w' @ CHR ''-'' # d)"
      by (simp add: append_eq_append_conv2)
    then show ?L unfolding str_contains_iff by blast
  qed
qed

definition plain_id :: "string \<Rightarrow> bool" where
  "plain_id sid \<longleftrightarrow>
     \<not> str_contains (sid @ ''-'') ''-order-'' \<and> \<not> str_contains (sid @ ''-'') ''-tp-''
     \<and> \<not> str_contains (sid @ ''-'') ''-trail-'' \<and> \<not> str_contains (sid @ ''-'') ''-close-''"

lemma dash_notin_show_u32 [simp]: "CHR ''-'' \<notin> set (show_u32 n)"
  by (simp add: show_u32_def)

lemmas marker_facts =
  marker_in_id [where w = "''order''", simplified] marker_in_id [where w = "''tp''", simplified]
  marker_in_id [where w = "''trail''", simplified] marker_in_id [where w = "''close''", simplified]

lemma contains_weaken: "str_contains s (p @ q) \<Longrightarrow> str_contains s q"
  by (auto simp: str_contains_iff) (metis append.assoc)

lemma not_stop_close: "\<not> str_contains s ''-close-'' \<Longrightarrow> \<not> str_contains s ''-stop-close-''"
  using contains_weaken [of s "''-stop''" "''-close-''"] by auto

definition kind_id :: "string \<Rightarrow> string \<Rightarrow> u32 \<Rightarrow> string" where
  "kind_id sid w i = sid @ CHR ''-'' # w @ CHR ''-'' # show_u32 i"

lemma order_ids_kind:
  "entry_order_id sid i = kind_id sid ''order'' i"
  "take_profit_order_id sid i = kind_id sid ''tp'' i"
  "trailing_order_id sid i = kind_id sid ''trail'' i"
  by (simp_all add: entry_order_id_def take_profit_order_id_def trailing_order_id_def kind_id_def)

lemma kind_id_inject:
  "CHR ''-'' \<notin> set w \<Longrightarrow> CHR ''-'' \<notin> set w' \<Longrightarrow> kind_id sid w i = kind_id sid w' j \<longleftrightarrow> w = w' \<and> i = j"
  using split_at_last [of "CHR ''-''" "show_u32 i" "show_u32 j" "sid @ CHR ''-'' # w" "sid @ CHR ''-'' # w'"]
  by (auto simp: kind_id_def)

lemma kind_of_id:
  assumes "plain_id sid" "CHR ''-'' \<notin> set w"
  shows "str_contains (kind_id sid w i) ''-order-'' \<longleftrightarrow> w = ''order''"
    "str_contains (kind_id sid w i) ''-tp-'' \<longleftrightarrow> w = ''tp''"
    "str_contains (kind_id sid w i) ''-trail-'' \<longleftrightarrow> w = ''trail''"
    "str_contains (kind_id sid w i) ''-close-'' \<longleftrightarrow> w = ''close''"
  using assms by (auto simp: kind_id_def marker_facts plain_id_def)

text \<open>An order as the engine builds it: its id names a kind and the level the order carries.\<close>

definition engine_order :: "string \<Rightarrow> StrategyRuntimeOrder \<Rightarrow> bool" where
  "engine_order sid order \<longleftrightarrow>
     (\<exists>w i. w \<in> {''order'', ''tp'', ''trail''} \<and> ro_order_id order = kind_id sid w i
        \<and> ro_level_index order = Some i)"

lemma engine_orderE:
  assumes "engine_order sid order"
  obtains i where "ro_order_id order = entry_order_id sid i" "ro_level_index order = Some i"
  | i where "ro_order_id order = take_profit_order_id sid i" "ro_level_index order = Some i"
  | i where "ro_order_id order = trailing_order_id sid i" "ro_level_index order = Some i"
  using assms by (auto simp: engine_order_def order_ids_kind)

lemma order_id_inject [simp]:
  "entry_order_id sid i = entry_order_id sid j \<longleftrightarrow> i = j"
  "take_profit_order_id sid i = take_profit_order_id sid j \<longleftrightarrow> i = j"
  "trailing_order_id sid i = trailing_order_id sid j \<longleftrightarrow> i = j"
  "entry_order_id sid i \<noteq> take_profit_order_id sid j"
  "entry_order_id sid i \<noteq> trailing_order_id sid j"
  "take_profit_order_id sid i \<noteq> trailing_order_id sid j"
  "take_profit_order_id sid i \<noteq> entry_order_id sid j"
  "trailing_order_id sid i \<noteq> entry_order_id sid j"
  "trailing_order_id sid i \<noteq> take_profit_order_id sid j"
  by (simp_all add: order_ids_kind kind_id_inject)

lemma active_exit_id_inject:
  "active_exit_order_id sid i t = active_exit_order_id sid j t' \<Longrightarrow> i = j"
  "active_exit_order_id sid i t \<noteq> entry_order_id sid j"
  "entry_order_id sid j \<noteq> active_exit_order_id sid i t"
  by (auto simp: active_exit_order_id_def split: if_splits)

lemma engine_order_kinds:
  assumes "plain_id sid" "engine_order sid order"
  shows "is_entry_order order \<longleftrightarrow> (\<exists>i. ro_order_id order = entry_order_id sid i)"
    "is_take_profit_order order \<longleftrightarrow> (\<exists>i. ro_order_id order = take_profit_order_id sid i)"
    "is_trailing_monitor_order order \<longleftrightarrow> (\<exists>i. ro_order_id order = trailing_order_id sid i)"
proof -
  have nsc: "\<not> str_contains (kind_id sid w i) ''-stop-close-''" if "w \<in> {''order'', ''tp'', ''trail''}" for w i
    using that by (intro not_stop_close) (auto simp: kind_of_id [OF assms(1)])
  show "is_entry_order order \<longleftrightarrow> (\<exists>i. ro_order_id order = entry_order_id sid i)"
    "is_take_profit_order order \<longleftrightarrow> (\<exists>i. ro_order_id order = take_profit_order_id sid i)"
    "is_trailing_monitor_order order \<longleftrightarrow> (\<exists>i. ro_order_id order = trailing_order_id sid i)"
    using assms(2) nsc
    by (auto simp: engine_order_def is_entry_order_def is_take_profit_order_def
        is_trailing_monitor_order_def order_ids_kind kind_of_id [OF assms(1)] kind_id_inject)
qed

lemma is_entry_of_iff:
  assumes "plain_id sid" "engine_order sid order"
  shows "is_entry_of i order \<longleftrightarrow> ro_order_id order = entry_order_id sid i"
  unfolding is_entry_of_def engine_order_kinds(1) [OF assms]
  by (rule engine_orderE [OF assms(2)]) auto

lemma exit_of_level_iff:
  assumes "plain_id sid" "engine_order sid order"
  shows "ro_level_index order = Some i \<and> (is_take_profit_order order \<or> is_trailing_monitor_order order)
     \<longleftrightarrow> ro_order_id order = take_profit_order_id sid i \<or> ro_order_id order = trailing_order_id sid i"
  unfolding engine_order_kinds(2,3) [OF assms]
  by (rule engine_orderE [OF assms(2)]) auto

end
