(* ===== verification/StrategyRuntimeProps.thy ===== *)
theory StrategyRuntimeProps
  imports OrderIds
begin

text \<open>
  Correctness of the strategy engine: what every sequence of its methods keeps (the accounting of
  fills, the position as a function of the open levels, the flags as functions of the event log,
  one live exit order per open level), panic freedom, and the behaviour of single methods.
\<close>

subsection \<open>What the private methods leave alone\<close>

lemma log_event_simps [simp]:
  "se_strategy_id (snd (log_event E t d p e)) = se_strategy_id e"
  "se_market (snd (log_event E t d p e)) = se_market e"
  "se_mode (snd (log_event E t d p e)) = se_mode e"
  "se_revision (snd (log_event E t d p e)) = se_revision e"
  "se_orders (snd (log_event E t d p e)) = se_orders e"
  "se_fills (snd (log_event E t d p e)) = se_fills e"
  "se_positions (snd (log_event E t d p e)) = se_positions e"
  "se_open_levels (snd (log_event E t d p e)) = se_open_levels e"
  "se_running (snd (log_event E t d p e)) = se_running e"
  "se_draining (snd (log_event E t d p e)) = se_draining e"
  "se_stop_after_take_profit (snd (log_event E t d p e)) = se_stop_after_take_profit e"
  "se_fill_sequence (snd (log_event E t d p e)) = se_fill_sequence e"
  "se_events (snd (log_event E t d p e)) = se_events e @ [fst (log_event E t d p e)]"
  "ev_event_type (fst (log_event E t d p e)) = t"
  "ev_price (fst (log_event E t d p e)) = p"
  by (simp_all add: log_event_def push_event_def Let_def)

lemma activate_entry_order_simps [simp]:
  "se_strategy_id (activate_entry_order E i e) = se_strategy_id e"
  "se_market (activate_entry_order E i e) = se_market e"
  "se_mode (activate_entry_order E i e) = se_mode e"
  "se_revision (activate_entry_order E i e) = se_revision e"
  "se_fills (activate_entry_order E i e) = se_fills e"
  "se_events (activate_entry_order E i e) = se_events e"
  "se_positions (activate_entry_order E i e) = se_positions e"
  "se_open_levels (activate_entry_order E i e) = se_open_levels e"
  "se_running (activate_entry_order E i e) = se_running e"
  "se_draining (activate_entry_order E i e) = se_draining e"
  "se_stop_after_take_profit (activate_entry_order E i e) = se_stop_after_take_profit e"
  "se_fill_sequence (activate_entry_order E i e) = se_fill_sequence e"
  by (simp_all add: activate_entry_order_def split: sum.split option.split)

lemma upsert_exit_order_simps [simp]:
  "se_strategy_id (upsert_exit_order E i p q b t s e) = se_strategy_id e"
  "se_market (upsert_exit_order E i p q b t s e) = se_market e"
  "se_mode (upsert_exit_order E i p q b t s e) = se_mode e"
  "se_revision (upsert_exit_order E i p q b t s e) = se_revision e"
  "se_fills (upsert_exit_order E i p q b t s e) = se_fills e"
  "se_events (upsert_exit_order E i p q b t s e) = se_events e"
  "se_positions (upsert_exit_order E i p q b t s e) = se_positions e"
  "se_open_levels (upsert_exit_order E i p q b t s e) = se_open_levels e"
  "se_running (upsert_exit_order E i p q b t s e) = se_running e"
  "se_draining (upsert_exit_order E i p q b t s e) = se_draining e"
  "se_stop_after_take_profit (upsert_exit_order E i p q b t s e) = se_stop_after_take_profit e"
  "se_fill_sequence (upsert_exit_order E i p q b t s e) = se_fill_sequence e"
  by (simp_all add: upsert_exit_order_def Let_def)

lemma computed_positions_Nil [simp]: "computed_positions E market [] = []"
  by (simp add: computed_positions_def)

lemma recompute_position_eq:
  "recompute_position E e =
     e\<lparr>se_runtime := (se_runtime e)\<lparr>rt_positions := computed_positions E (se_market e) (se_open_levels e)\<rparr>\<rparr>"
  by (simp add: recompute_position_def)

lemma recompute_position_simps [simp]:
  "se_strategy_id (recompute_position E e) = se_strategy_id e"
  "se_market (recompute_position E e) = se_market e"
  "se_mode (recompute_position E e) = se_mode e"
  "se_revision (recompute_position E e) = se_revision e"
  "se_orders (recompute_position E e) = se_orders e"
  "se_fills (recompute_position E e) = se_fills e"
  "se_events (recompute_position E e) = se_events e"
  "se_positions (recompute_position E e) = computed_positions E (se_market e) (se_open_levels e)"
  "se_open_levels (recompute_position E e) = se_open_levels e"
  "se_running (recompute_position E e) = se_running e"
  "se_draining (recompute_position E e) = se_draining e"
  "se_stop_after_take_profit (recompute_position E e) = se_stop_after_take_profit e"
  "se_fill_sequence (recompute_position E e) = se_fill_sequence e"
  by (simp_all add: recompute_position_eq)

subsection \<open>Reachable engines\<close>

inductive engine_trans :: "env \<Rightarrow> StrategyRuntimeEngine \<Rightarrow> StrategyRuntimeEngine \<Rightarrow> bool" for E where
  et_start: "engine_trans E e (snd (engine_start E e))"
| et_fill_entry: "engine_trans E e (snd (fill_entry E i e))"
| et_take_profit: "record_take_profit_fill E i p e = Some (r, e') \<Longrightarrow> engine_trans E e e'"
| et_price: "engine_on_price E p e = Some (r, e') \<Longrightarrow> engine_trans E e e'"
| et_pause: "engine_trans E e (engine_pause E e)"
| et_resume: "engine_trans E e (snd (resume_with_reference_price E ref e))"
| et_stop_flag: "engine_trans E e (set_stop_after_take_profit E b e)"
| et_drain: "engine_trans E e (snd (enable_only_sell_no_buy E e))"

text \<open>Engines made by \<open>new\<close> and driven by the methods. An engine rebuilt by \<open>from_runtime_snapshot\<close> is not one
  of them; what it takes over from its snapshot is stated apart.\<close>

inductive engine_reach :: "env \<Rightarrow> StrategyRuntimeEngine \<Rightarrow> bool" for E where
  er_new: "engine_new sid market mode revision = Inr e \<Longrightarrow> engine_reach E e"
| er_step: "engine_reach E e \<Longrightarrow> engine_trans E e e' \<Longrightarrow> engine_reach E e'"

text \<open>\<open>fill_take_profit\<close> and \<open>resume\<close> are not extra transitions: they end in the state of
  \<open>record_take_profit_fill\<close> and \<open>resume_with_reference_price None\<close>.\<close>

inductive_cases engine_transE: "engine_trans E e e'"

subsection \<open>Normal forms of the methods\<close>

lemma fold_activate_simps [simp]:
  "se_strategy_id (fold (activate_entry_order E) is e) = se_strategy_id e"
  "se_market (fold (activate_entry_order E) is e) = se_market e"
  "se_mode (fold (activate_entry_order E) is e) = se_mode e"
  "se_revision (fold (activate_entry_order E) is e) = se_revision e"
  "se_fills (fold (activate_entry_order E) is e) = se_fills e"
  "se_events (fold (activate_entry_order E) is e) = se_events e"
  "se_positions (fold (activate_entry_order E) is e) = se_positions e"
  "se_open_levels (fold (activate_entry_order E) is e) = se_open_levels e"
  "se_running (fold (activate_entry_order E) is e) = se_running e"
  "se_draining (fold (activate_entry_order E) is e) = se_draining e"
  "se_stop_after_take_profit (fold (activate_entry_order E) is e) = se_stop_after_take_profit e"
  "se_fill_sequence (fold (activate_entry_order E) is e) = se_fill_sequence e"
  by (induction "is" arbitrary: e) simp_all

text \<open>The fields that the loop of \<open>on_price\<close> and the closures it requests may change.\<close>

lemma trail_level_keeps:
  "ol_level_index (snd (trail_level E p acc s)) = ol_level_index s"
  "ol_entry_price (snd (trail_level E p acc s)) = ol_entry_price s"
  "ol_quantity (snd (trail_level E p acc s)) = ol_quantity s"
  "ol_take_profit_bps (snd (trail_level E p acc s)) = ol_take_profit_bps s"
  "ol_trailing_bps (snd (trail_level E p acc s)) = ol_trailing_bps s"
  "ol_is_short (snd (trail_level E p acc s)) = ol_is_short s"
  "ol_closing_requested (snd (trail_level E p acc s)) = ol_closing_requested s"
  by (simp_all add: trail_level_def Let_def case_prod_beta split: option.split)

definition level_core :: "OpenLevelState \<Rightarrow> u32 \<times> decimal \<times> decimal \<times> u32 \<times> u32 option \<times> bool" where
  "level_core s = (ol_level_index s, ol_entry_price s, ol_quantity s, ol_take_profit_bps s,
     ol_trailing_bps s, ol_is_short s)"

lemma map_level_core_index:
  "map level_core xs = map level_core ys \<Longrightarrow> map ol_level_index xs = map ol_level_index ys"
  by (drule arg_cong [where f = "map fst"]) (simp add: level_core_def comp_def)

lemma computed_positions_core:
  assumes "map level_core xs = map level_core ys"
  shows "computed_positions E market xs = computed_positions E market ys"
proof -
  define f where "f = (\<lambda>(i :: u32, p, q, b :: u32, t :: u32 option, sh). \<lambda>acc.
    accumulate_sides E \<lparr>ol_level_index = i, ol_entry_price = p, ol_quantity = q, ol_take_profit_bps = b,
      ol_trailing_bps = t, ol_trailing_extreme = None, ol_is_short = sh, ol_closing_requested = False\<rparr> acc)"
  have "accumulate_sides E = (\<lambda>s. f (level_core s))"
    by (simp add: f_def level_core_def fun_eq_iff accumulate_sides_def)
  then have "fold (accumulate_sides E) zs = fold f (map level_core zs)" for zs
    by (simp only: fold_map comp_def)
  then show ?thesis using assms by (simp add: computed_positions_def)
qed

text \<open>Events that carry no flag.\<close>

definition neutral :: "StrategyRuntimeEvent \<Rightarrow> bool" where
  "neutral ev \<longleftrightarrow> ev_event_type ev \<notin> {''strategy_draining_started'', ''strategy_stopped_after_draining'',
     ''stop_after_take_profit_enabled'', ''stop_after_take_profit_disabled''}"

definition drain_of :: "StrategyRuntimeEvent list \<Rightarrow> bool" where
  "drain_of es = restore_draining_state (default_runtime\<lparr>rt_events := es\<rparr>)"

definition stop_of :: "StrategyRuntimeEvent list \<Rightarrow> bool" where
  "stop_of es = restore_stop_after_take_profit (default_runtime\<lparr>rt_events := es\<rparr>)"

lemma restore_of_events:
  "restore_draining_state r = drain_of (rt_events r)"
  "restore_stop_after_take_profit r = stop_of (rt_events r)"
  by (simp_all add: drain_of_def stop_of_def restore_draining_state_def restore_stop_after_take_profit_def)

lemma rposition_snoc: "rposition P (xs @ [x]) = (if P x then Some (length xs) else rposition P xs)"
  by (auto simp: rposition_def option.map_comp comp_def split: option.split intro!: option.map_cong)

lemma rposition_less: "rposition P xs = Some i \<Longrightarrow> i < length xs"
  by (auto simp: rposition_def dest: find_index_Some)

lemma rposition_Nil [simp]: "rposition P [] = None"
  by (simp add: rposition_def)

lemma drain_of_Nil [simp]: "drain_of [] = False" "stop_of [] = False"
  by (simp_all add: drain_of_def stop_of_def restore_draining_state_def restore_stop_after_take_profit_def)

lemma drain_of_snoc:
  "drain_of (es @ [ev]) =
     (if ev_event_type ev = ''strategy_draining_started'' then True
      else if ev_event_type ev = ''strategy_stopped_after_draining'' then False
      else drain_of es)"
  by (auto simp: drain_of_def restore_draining_state_def rposition_snoc Let_def dest: rposition_less
      split: option.split)

lemma stop_of_snoc:
  "stop_of (es @ [ev]) =
     (if ev_event_type ev = ''stop_after_take_profit_enabled'' then True
      else if ev_event_type ev = ''stop_after_take_profit_disabled'' then False
      else stop_of es)"
  by (simp add: stop_of_def restore_stop_after_take_profit_def)

lemma neutral_append:
  "list_all neutral xs \<Longrightarrow> drain_of (es @ xs) = drain_of es \<and> stop_of (es @ xs) = stop_of es"
proof (induction xs rule: rev_induct)
  case (snoc x xs)
  then show ?case
    by (simp add: neutral_def drain_of_snoc stop_of_snoc flip: append_assoc)
qed simp

subsection \<open>The price tick\<close>

text \<open>Two engines that agree on everything but trailing state, events, order contents and the
  closing marks, with an event log that grew by neutral events.\<close>

definition same_core :: "StrategyRuntimeEngine \<Rightarrow> StrategyRuntimeEngine \<Rightarrow> bool" where
  "same_core e e' \<longleftrightarrow>
     se_strategy_id e' = se_strategy_id e \<and> se_market e' = se_market e \<and> se_mode e' = se_mode e
     \<and> se_revision e' = se_revision e \<and> se_fills e' = se_fills e \<and> se_positions e' = se_positions e
     \<and> map level_core (se_open_levels e') = map level_core (se_open_levels e)
     \<and> se_draining e' = se_draining e \<and> se_stop_after_take_profit e' = se_stop_after_take_profit e
     \<and> se_fill_sequence e' = se_fill_sequence e
     \<and> (\<exists>xs. se_events e' = se_events e @ xs \<and> list_all neutral xs)"

lemma same_core_refl [simp]: "same_core e e"
  by (simp add: same_core_def)

lemma same_core_trans: "same_core e e' \<Longrightarrow> same_core e' e'' \<Longrightarrow> same_core e e''"
  by (auto simp: same_core_def)

lemma level_core_closing [simp]: "level_core (s\<lparr>ol_closing_requested := b\<rparr>) = level_core s"
  by (simp add: level_core_def)

lemma request_level_close_ok:
  assumes "i \<in> ol_level_index ` set (se_open_levels e)"
    and t: "t \<notin> {''strategy_draining_started'', ''strategy_stopped_after_draining'',
     ''stop_after_take_profit_enabled'', ''stop_after_take_profit_disabled''}"
  obtains ev e' where "request_level_close E i p t e = Some (ev, e')" "same_core e e'"
    "se_running e' = se_running e"
proof -
  obtain st where st: "find (\<lambda>s. ol_level_index s = i) (se_open_levels e) = Some st"
    using assms(1) by (cases "find (\<lambda>s. ol_level_index s = i) (se_open_levels e)") (auto simp: find_None_iff)
  obtain ev e' where r: "request_level_close E i p t e = Some (ev, e')"
    by (simp add: request_level_close_def st Let_def) (meson surj_pair)
  moreover have "same_core e e' \<and> se_running e' = se_running e"
    using r t unfolding same_core_def request_level_close_def st
    by (auto simp: Let_def log_event_def push_event_def map_update_first neutral_def)
  ultimately show thesis using that by blast
qed

lemma request_closures_ok:
  assumes "\<forall>(i, p, t) \<in> set cs. i \<in> ol_level_index ` set (se_open_levels e) \<and> t = ''taker_trailing_take_profit''"
  shows "\<exists>em' e'. request_closures E cs em e = Some (em', e') \<and> same_core e e' \<and> se_running e' = se_running e
     \<and> length em' = length em + length cs"
  using assms
proof (induction cs arbitrary: em e)
  case (Cons c cs)
  obtain i p t where c: "c = (i, p, t)" by (cases c)
  with Cons.prems have "i \<in> ol_level_index ` set (se_open_levels e)"
    and t: "t = ''taker_trailing_take_profit''" by auto
  then obtain ev e' where step: "request_level_close E i p t e = Some (ev, e')" "same_core e e'"
    "se_running e' = se_running e"
    by (elim request_level_close_ok [where t = t]) auto
  then have "ol_level_index ` set (se_open_levels e') = ol_level_index ` set (se_open_levels e)"
    using map_level_core_index [of "se_open_levels e'" "se_open_levels e"]
    by (simp add: same_core_def flip: set_map)
  then have "\<forall>(i, p, t) \<in> set cs. i \<in> ol_level_index ` set (se_open_levels e') \<and> t = ''taker_trailing_take_profit''"
    using Cons.prems by auto
  from Cons.IH [OF this, of "em @ [ev]"] obtain em' e'' where
    "request_closures E cs (em @ [ev]) e' = Some (em', e'')" "same_core e' e''"
    "se_running e'' = se_running e'" "length em' = length (em @ [ev]) + length cs" by blast
  then show ?case
    using step(1,3) same_core_trans [OF step(2)] by (simp add: c)
qed simp

lemma trail_loop:
  assumes "map_accum (trail_level E p) (evs, cs) xs = ((evs', cs'), ys)"
  shows "map level_core ys = map level_core xs \<and> (\<exists>zs. evs' = evs @ zs \<and> list_all neutral zs)
    \<and> (\<exists>ds. cs' = cs @ ds \<and> (\<forall>d \<in> set ds. fst d \<in> ol_level_index ` set xs
          \<and> snd d = (p, ''taker_trailing_take_profit'')))"
  using assms
proof (induction xs arbitrary: evs cs ys)
  case (Cons x xs)
  obtain evs1 cs1 y where y: "trail_level E p (evs, cs) x = ((evs1, cs1), y)"
    by (metis surj_pair)
  then obtain ys' where ys: "ys = y # ys'" and rest: "map_accum (trail_level E p) (evs1, cs1) xs = ((evs', cs'), ys')"
    using Cons.prems by (auto simp: map_accum_Cons) (metis fst_conv prod.collapse snd_conv)
  have core: "level_core y = level_core x"
    using trail_level_keeps [of E p "(evs, cs)" x] by (simp add: y level_core_def)
  have nt: "neutral \<lparr>ev_event_type = trailing_anchor_event i, ev_detail = d, ev_price = pr, ev_created_at = c\<rparr>"
    for i d pr c by (simp add: neutral_def trailing_anchor_event_def)
  obtain zs1 ds1 where 1: "evs1 = evs @ zs1" "list_all neutral zs1" "cs1 = cs @ ds1"
      "\<forall>d \<in> set ds1. d = (ol_level_index x, p, ''taker_trailing_take_profit'')"
    using y by (auto simp: trail_level_def push_event_def Let_def nt split: if_splits option.splits)
  from Cons.IH [OF rest] obtain zs2 ds2 where 2: "map level_core ys' = map level_core xs"
      "evs' = evs1 @ zs2" "list_all neutral zs2" "cs' = cs1 @ ds2"
      "\<forall>d \<in> set ds2. fst d \<in> ol_level_index ` set xs \<and> snd d = (p, ''taker_trailing_take_profit'')"
    by blast
  have "evs' = evs @ (zs1 @ zs2) \<and> list_all neutral (zs1 @ zs2)" using 1 2 by simp
  moreover have "cs' = cs @ (ds1 @ ds2) \<and> (\<forall>d \<in> set (ds1 @ ds2). fst d \<in> ol_level_index ` set (x # xs)
      \<and> snd d = (p, ''taker_trailing_take_profit''))" using 1 2 by auto
  ultimately show ?case using 2(1) core unfolding ys list.map by metis
qed simp

lemma engine_on_price_cases:
  obtains (idle) "\<not> se_running e" "engine_on_price E p e = Some (Inr [], e)"
  | (overall) t where "se_running e"
      "t \<in> {''overall_take_profit_stop'', ''overall_take_profit_rebuild'',
            ''overall_stop_loss_stop'', ''overall_stop_loss_rebuild''}"
      "engine_on_price E p e = Some (Inr [fst (log_event E t t (Some p) (e\<lparr>se_running := False\<rparr>))],
         snd (log_event E t t (Some p) (e\<lparr>se_running := False\<rparr>)))"
      "should_trigger_overall_take_profit E p e \<or> should_trigger_overall_stop_loss E p e"
  | (trail) em e' where "se_running e" "engine_on_price E p e = Some (Inr em, e')" "same_core e e'"
      "se_running e'"
      "\<not> should_trigger_overall_take_profit E p e" "\<not> should_trigger_overall_stop_loss E p e"
proof (cases "se_running e")
  case False
  then show thesis by (intro idle) (auto simp: engine_on_price_def)
next
  case run: True
  show thesis
  proof (cases "should_trigger_overall_take_profit E p e \<or> should_trigger_overall_stop_loss E p e")
    case True
    define t where "t = (if should_trigger_overall_take_profit E p e
        then (case rv_post_trigger_action (se_revision e) of Stop \<Rightarrow> ''overall_take_profit_stop''
              | Rebuild \<Rightarrow> ''overall_take_profit_rebuild'')
        else (case rv_post_trigger_action (se_revision e) of Stop \<Rightarrow> ''overall_stop_loss_stop''
              | Rebuild \<Rightarrow> ''overall_stop_loss_rebuild''))"
    have "engine_on_price E p e = Some (Inr [fst (log_event E t t (Some p) (e\<lparr>se_running := False\<rparr>))],
         snd (log_event E t t (Some p) (e\<lparr>se_running := False\<rparr>)))"
      using True run
      by (cases "should_trigger_overall_take_profit E p e")
        (simp_all add: t_def engine_on_price_def trigger_post_take_profit_def trigger_post_stop_loss_def
          Let_def case_prod_beta split: PostTriggerAction.split)
    moreover have "t \<in> {''overall_take_profit_stop'', ''overall_take_profit_rebuild'',
            ''overall_stop_loss_stop'', ''overall_stop_loss_rebuild''}"
      by (simp add: t_def split: PostTriggerAction.split)
    ultimately show thesis using overall True run by blast
  next
    case False
    obtain evs cs ol where loop:
      "map_accum (trail_level E p) (se_events e, []) (se_open_levels e) = ((evs, cs), ol)"
      by (metis surj_pair)
    let ?e = "e\<lparr>se_open_levels := ol, se_runtime := (se_runtime e)\<lparr>rt_events := evs\<rparr>\<rparr>"
    from trail_loop [OF loop] have core: "same_core e ?e"
      by (simp add: same_core_def)
    have "ol_level_index ` set ol = ol_level_index ` set (se_open_levels e)"
      using trail_loop [OF loop] map_level_core_index [of ol "se_open_levels e"] by (simp flip: set_map)
    then have "\<forall>(i, p, t) \<in> set cs. i \<in> ol_level_index ` set (se_open_levels ?e) \<and> t = ''taker_trailing_take_profit''"
      using trail_loop [OF loop] by auto
    from request_closures_ok [OF this, of E "[]"] obtain em e' where
      "request_closures E cs [] ?e = Some (em, e')" "same_core ?e e'" "se_running e'"
      using run by auto
    then show thesis using core loop run False
      by (intro trail [of em e']) (auto simp: engine_on_price_def intro: same_core_trans)
  qed
qed

subsection \<open>The invariant\<close>

definition level_from_revision :: "StrategyRevision \<Rightarrow> OpenLevelState \<Rightarrow> bool" where
  "level_from_revision revision s \<longleftrightarrow>
     (case find (\<lambda>l. gl_level_index l = ol_level_index s) (rv_levels revision) of
        None \<Rightarrow> False
      | Some l \<Rightarrow> ol_entry_price s = gl_entry_price l \<and> ol_quantity s = gl_quantity l
          \<and> ol_take_profit_bps s = gl_take_profit_bps l \<and> ol_trailing_bps s = gl_trailing_bps l)"

definition fills_counted :: "StrategyRuntimeEngine \<Rightarrow> bool" where
  "fills_counted e \<longleftrightarrow>
     se_fill_sequence e = of_nat (length (se_fills e))
     \<and> map fi_fill_id (se_fills e) =
       map (\<lambda>n. fill_id_of (se_strategy_id e) (of_nat (Suc n))) [0..<length (se_fills e)]"

definition engine_inv :: "env \<Rightarrow> StrategyRuntimeEngine \<Rightarrow> bool" where
  "engine_inv E e \<longleftrightarrow>
     fills_counted e
     \<and> se_positions e = computed_positions E (se_market e) (se_open_levels e)
     \<and> se_draining e = drain_of (se_events e)
     \<and> se_stop_after_take_profit e = stop_of (se_events e)
     \<and> distinct (map ol_level_index (se_open_levels e))
     \<and> list_all (level_from_revision (se_revision e)) (se_open_levels e)"

lemma level_from_revision_core:
  assumes "map level_core xs = map level_core ys"
  shows "list_all (level_from_revision r) xs \<longleftrightarrow> list_all (level_from_revision r) ys"
proof -
  define P where "P = (\<lambda>(i, p, q, b, t, sh :: bool).
     case find (\<lambda>l. gl_level_index l = i) (rv_levels r) of None \<Rightarrow> False
      | Some l \<Rightarrow> p = gl_entry_price l \<and> q = gl_quantity l \<and> b = gl_take_profit_bps l \<and> t = gl_trailing_bps l)"
  have "level_from_revision r = (\<lambda>s. P (level_core s))"
    by (simp add: fun_eq_iff P_def level_core_def level_from_revision_def)
  then have "list_all (level_from_revision r) zs \<longleftrightarrow> list_all P (map level_core zs)" for zs
    by (simp add: list.pred_map comp_def)
  then show ?thesis using assms by simp
qed

lemma engine_inv_same_core:
  assumes "engine_inv E e" "same_core e e'"
  shows "engine_inv E e'"
proof -
  from assms(2) have core: "map level_core (se_open_levels e') = map level_core (se_open_levels e)"
    by (simp add: same_core_def)
  from assms(2) obtain xs where "se_events e' = se_events e @ xs" "list_all neutral xs"
    by (auto simp: same_core_def)
  then have "drain_of (se_events e') = drain_of (se_events e)" "stop_of (se_events e') = stop_of (se_events e)"
    using neutral_append by metis+
  then show ?thesis
    using assms computed_positions_core [OF core, of E] map_level_core_index [OF core]
      level_from_revision_core [OF core]
    by (simp add: engine_inv_def same_core_def fills_counted_def)
qed

lemma fills_counted_push:
  assumes "fills_counted e" "se_strategy_id e' = se_strategy_id e"
    and "se_fill_sequence e' = se_fill_sequence e + 1"
    and "se_fills e' = se_fills e @ [f]" "fi_fill_id f = fill_id_of (se_strategy_id e) (se_fill_sequence e + 1)"
  shows "fills_counted e'"
  using assms by (simp add: fills_counted_def add.commute)

lemma engine_inv_new: "engine_new sid market mode revision = Inr e \<Longrightarrow> engine_inv E e"
  by (auto simp: engine_new_def engine_inv_def fills_counted_def default_runtime_def split: option.splits)

definition opened_level :: "GridLevel \<Rightarrow> u32 \<Rightarrow> bool \<Rightarrow> OpenLevelState" where
  "opened_level level i is_short =
     \<lparr>ol_level_index = i, ol_entry_price = gl_entry_price level, ol_quantity = gl_quantity level,
      ol_take_profit_bps = gl_take_profit_bps level, ol_trailing_bps = gl_trailing_bps level,
      ol_trailing_extreme = None, ol_is_short = is_short, ol_closing_requested = False\<rparr>"

definition entry_side_of :: "env \<Rightarrow> u32 \<Rightarrow> GridLevel \<Rightarrow> StrategyRuntimeEngine \<Rightarrow> string" where
  "entry_side_of E i level e =
     (case find (is_entry_of i) (se_orders e) of
        Some order \<Rightarrow> ro_side order
      | None \<Rightarrow> (case initial_entry_side (se_mode e) (gl_level_index level) (gl_entry_price level)
                    (reference_price E None e) of None \<Rightarrow> ''Buy'' | Some side \<Rightarrow> side))"

text \<open>The engine between the fill of an entry and the upsert of its exit order.\<close>

definition entry_filled :: "env \<Rightarrow> u32 \<Rightarrow> GridLevel \<Rightarrow> StrategyRuntimeEngine \<Rightarrow> StrategyRuntimeEngine" where
  "entry_filled E i level e =
     e\<lparr>se_fill_sequence := se_fill_sequence e + 1,
       se_open_levels := filter (\<lambda>s. ol_level_index s \<noteq> i) (se_open_levels e)
         @ [opened_level level i (eq_ignore_ascii_case (entry_side_of E i level e) ''Sell'')],
       se_runtime := (se_runtime e)
         \<lparr>rt_orders := update_first (is_entry_of i) (\<lambda>order. order\<lparr>ro_status := ''Filled''\<rparr>) (se_orders e),
          rt_fills := se_fills e @
            [\<lparr>fi_fill_id = fill_id_of (se_strategy_id e) (se_fill_sequence e + 1),
              fi_order_id = Some (entry_order_id (se_strategy_id e) i), fi_level_index = Some i,
              fi_fill_type = ''Entry'', fi_price = gl_entry_price level, fi_quantity = gl_quantity level,
              fi_realized_pnl = None, fi_fee_amount = None, fi_fee_asset = None\<rparr>]\<rparr>\<rparr>"

lemma fill_entry_eq:
  assumes "level_for i e = Inr level"
  shows "fill_entry E i e =
    (Inr (), snd (log_event E ''entry_fill'' ''entry fill recorded'' (Some (gl_entry_price level))
      (recompute_position E
        (upsert_exit_order E i (gl_entry_price level) (gl_quantity level) (gl_take_profit_bps level)
          (gl_trailing_bps level) (eq_ignore_ascii_case (entry_side_of E i level e) ''Sell'')
          (entry_filled E i level e)))))"
  unfolding fill_entry_def assms entry_filled_def entry_side_of_def opened_level_def Let_def
  by simp

lemma entry_filled_simps [simp]:
  "se_strategy_id (entry_filled E i level e) = se_strategy_id e"
  "se_market (entry_filled E i level e) = se_market e"
  "se_mode (entry_filled E i level e) = se_mode e"
  "se_revision (entry_filled E i level e) = se_revision e"
  "se_events (entry_filled E i level e) = se_events e"
  "se_running (entry_filled E i level e) = se_running e"
  "se_draining (entry_filled E i level e) = se_draining e"
  "se_stop_after_take_profit (entry_filled E i level e) = se_stop_after_take_profit e"
  "se_fill_sequence (entry_filled E i level e) = se_fill_sequence e + 1"
  "se_open_levels (entry_filled E i level e) = filter (\<lambda>s. ol_level_index s \<noteq> i) (se_open_levels e)
     @ [opened_level level i (eq_ignore_ascii_case (entry_side_of E i level e) ''Sell'')]"
  "se_orders (entry_filled E i level e) =
     update_first (is_entry_of i) (\<lambda>order. order\<lparr>ro_status := ''Filled''\<rparr>) (se_orders e)"
  by (simp_all add: entry_filled_def)

lemma fill_entry_inv: "engine_inv E e \<Longrightarrow> engine_inv E (snd (fill_entry E i e))"
proof (cases "level_for i e")
  case (Inl err)
  assume "engine_inv E e"
  then show ?thesis by (simp add: fill_entry_def Inl)
next
  case (Inr level)
  assume inv: "engine_inv E e"
  from Inr have l: "find (\<lambda>l. gl_level_index l = i) (rv_levels (se_revision e)) = Some level"
    by (simp add: level_for_def split: option.splits)
  have "fills_counted (snd (fill_entry E i e))"
    unfolding fill_entry_eq [OF Inr]
    by (rule fills_counted_push [of e _ "last (se_fills (entry_filled E i level e))"])
      (use inv in \<open>simp_all add: engine_inv_def, simp_all add: entry_filled_def\<close>)
  moreover have "level_from_revision (se_revision e) (opened_level level i b)" for b
    using l by (simp add: level_from_revision_def opened_level_def)
  moreover have "list_all (level_from_revision (se_revision e))
      (filter (\<lambda>s. ol_level_index s \<noteq> i) (se_open_levels e))"
    using inv by (simp add: engine_inv_def list_all_iff)
  moreover have "ol_level_index (opened_level level i b) = i" for b
    by (simp add: opened_level_def)
  moreover have "i \<notin> ol_level_index ` {s \<in> set (se_open_levels e). ol_level_index s \<noteq> i}" by auto
  ultimately show ?thesis
    using inv unfolding engine_inv_def fill_entry_eq [OF Inr]
    by (simp add: drain_of_snoc stop_of_snoc distinct_map_filter)
qed


definition exit_fill :: "env \<Rightarrow> u32 \<Rightarrow> decimal \<Rightarrow> OpenLevelState \<Rightarrow> StrategyRuntimeEngine \<Rightarrow> StrategyRuntimeFill" where
  "exit_fill E i price st e =
     \<lparr>fi_fill_id = fill_id_of (se_strategy_id e) (se_fill_sequence e + 1),
      fi_order_id = Some (active_exit_order_id (se_strategy_id e) i (ol_trailing_bps st)),
      fi_level_index = Some i, fi_fill_type = ''Exit'', fi_price = price, fi_quantity = ol_quantity st,
      fi_realized_pnl = Some (realized_pnl E (ol_entry_price st) price (ol_quantity st) (ol_is_short st)),
      fi_fee_amount = None, fi_fee_asset = None\<rparr>"

text \<open>The engine after the fill of an exit, before the entry is activated again.\<close>

definition exit_filled :: "env \<Rightarrow> u32 \<Rightarrow> decimal \<Rightarrow> OpenLevelState \<Rightarrow> StrategyRuntimeEngine \<Rightarrow> StrategyRuntimeEngine" where
  "exit_filled E i price st e =
     e\<lparr>se_fill_sequence := se_fill_sequence e + 1,
       se_runtime := (se_runtime e)
         \<lparr>rt_fills := se_fills e @ [exit_fill E i price st e],
          rt_orders := update_first
            (\<lambda>order. ro_level_index order = Some i
               \<and> (is_take_profit_order order \<or> is_trailing_monitor_order order))
            (\<lambda>order. order\<lparr>ro_status := ''Filled''\<rparr>) (se_orders e)\<rparr>\<rparr>"

lemma exit_filled_simps [simp]:
  "se_strategy_id (exit_filled E i p st e) = se_strategy_id e"
  "se_market (exit_filled E i p st e) = se_market e"
  "se_mode (exit_filled E i p st e) = se_mode e"
  "se_revision (exit_filled E i p st e) = se_revision e"
  "se_events (exit_filled E i p st e) = se_events e"
  "se_positions (exit_filled E i p st e) = se_positions e"
  "se_running (exit_filled E i p st e) = se_running e"
  "se_draining (exit_filled E i p st e) = se_draining e"
  "se_stop_after_take_profit (exit_filled E i p st e) = se_stop_after_take_profit e"
  "se_fill_sequence (exit_filled E i p st e) = se_fill_sequence e + 1"
  "se_open_levels (exit_filled E i p st e) = se_open_levels e"
  "se_fills (exit_filled E i p st e) = se_fills e @ [exit_fill E i p st e]"
  "se_orders (exit_filled E i p st e) = update_first
            (\<lambda>order. ro_level_index order = Some i
               \<and> (is_take_profit_order order \<or> is_trailing_monitor_order order))
            (\<lambda>order. order\<lparr>ro_status := ''Filled''\<rparr>) (se_orders e)"
  by (simp_all add: exit_filled_def)

text \<open>The engine after \<open>close_level\<close> and after the level is dropped.\<close>

definition level_closed :: "env \<Rightarrow> u32 \<Rightarrow> decimal \<Rightarrow> OpenLevelState \<Rightarrow> StrategyRuntimeEngine \<Rightarrow> StrategyRuntimeEngine" where
  "level_closed E i price st e =
     (let e1 = (if se_draining e then exit_filled E i price st e
                else activate_entry_order E i (exit_filled E i price st e));
          e2 = snd (log_event E ''maker_take_profit'' ''maker_take_profit'' (Some price)
                  (recompute_position E e1))
      in recompute_position E
           (e2\<lparr>se_open_levels := filter (\<lambda>s. ol_level_index s \<noteq> i) (se_open_levels e2)\<rparr>))"

lemma record_take_profit_fill_eq:
  "record_take_profit_fill E i price e =
     (case find (\<lambda>s. ol_level_index s = i) (se_open_levels e) of
        None \<Rightarrow> Some (Inl ''open level not found'', e)
      | Some st \<Rightarrow>
          Some (Inr \<lparr>rc_cancel_order_ids = [],
                     rc_stopped = fst (maybe_stop_after_draining E (level_closed E i price st e))\<rparr>,
                snd (maybe_stop_after_draining E (level_closed E i price st e))))"
proof (cases "find (\<lambda>s. ol_level_index s = i) (se_open_levels e)")
  case None
  moreover from this have "\<not> list_ex (\<lambda>s. ol_level_index s = i) (se_open_levels e)"
    by (simp add: find_eq_None_iff)
  ultimately show ?thesis by (simp add: record_take_profit_fill_def)
next
  case (Some st)
  then have ex: "list_ex (\<lambda>s. ol_level_index s = i) (se_open_levels e)"
    by (metis find_eq_None_iff option.distinct(1))
  have "close_level E i price ''maker_take_profit'' True e =
     Some (log_event E ''maker_take_profit'' ''maker_take_profit'' (Some price)
       (recompute_position E
         (if se_draining e then exit_filled E i price st e
          else activate_entry_order E i (exit_filled E i price st e))))"
    unfolding close_level_def Some exit_filled_def exit_fill_def Let_def by simp
  then show ?thesis
    unfolding record_take_profit_fill_def level_closed_def Some Let_def
    by (simp add: ex case_prod_beta)
qed

lemma level_closed_simps [simp]:
  "se_strategy_id (level_closed E i p st e) = se_strategy_id e"
  "se_market (level_closed E i p st e) = se_market e"
  "se_mode (level_closed E i p st e) = se_mode e"
  "se_revision (level_closed E i p st e) = se_revision e"
  "se_running (level_closed E i p st e) = se_running e"
  "se_draining (level_closed E i p st e) = se_draining e"
  "se_stop_after_take_profit (level_closed E i p st e) = se_stop_after_take_profit e"
  "se_fill_sequence (level_closed E i p st e) = se_fill_sequence e + 1"
  "se_open_levels (level_closed E i p st e) = filter (\<lambda>s. ol_level_index s \<noteq> i) (se_open_levels e)"
  "se_fills (level_closed E i p st e) = se_fills e @ [exit_fill E i p st e]"
  "se_positions (level_closed E i p st e) =
     computed_positions E (se_market e) (filter (\<lambda>s. ol_level_index s \<noteq> i) (se_open_levels e))"
  "drain_of (se_events (level_closed E i p st e)) = drain_of (se_events e)"
  "stop_of (se_events (level_closed E i p st e)) = stop_of (se_events e)"
  by (simp_all add: level_closed_def Let_def drain_of_snoc stop_of_snoc)


lemma maybe_stop_after_draining_inv:
  "engine_inv E e \<Longrightarrow> engine_inv E (snd (maybe_stop_after_draining E e))"
  by (simp add: maybe_stop_after_draining_def engine_inv_def fills_counted_def drain_of_snoc stop_of_snoc)

lemma record_take_profit_fill_inv:
  assumes "engine_inv E e" "record_take_profit_fill E i p e = Some (r, e')"
  shows "engine_inv E e'"
proof (cases "find (\<lambda>s. ol_level_index s = i) (se_open_levels e)")
  case None
  then show ?thesis using assms by (simp add: record_take_profit_fill_eq)
next
  case (Some st)
  have "fills_counted (level_closed E i p st e)"
    by (rule fills_counted_push [of e _ "exit_fill E i p st e"])
      (use assms(1) in \<open>simp_all add: engine_inv_def exit_fill_def\<close>)
  moreover have "list_all (level_from_revision (se_revision e))
      (filter (\<lambda>s. ol_level_index s \<noteq> i) (se_open_levels e))"
    using assms(1) by (simp add: engine_inv_def list_all_iff)
  ultimately have "engine_inv E (level_closed E i p st e)"
    using assms(1) by (simp add: engine_inv_def distinct_map_filter)
  then show ?thesis
    using assms(2) maybe_stop_after_draining_inv by (auto simp: record_take_profit_fill_eq Some)
qed

text \<open>Updates of the orders and of the running flag, and neutral events, do not touch the invariant.\<close>

lemma engine_inv_orders [simp]:
  "engine_inv E (e\<lparr>se_runtime := (se_runtime e)\<lparr>rt_orders := os\<rparr>\<rparr>) \<longleftrightarrow> engine_inv E e"
  "engine_inv E (e\<lparr>se_running := b\<rparr>) \<longleftrightarrow> engine_inv E e"
  "engine_inv E (e\<lparr>se_running := b, se_runtime := (se_runtime e)\<lparr>rt_orders := os\<rparr>\<rparr>) \<longleftrightarrow> engine_inv E e"
  by (simp_all add: engine_inv_def fills_counted_def)

lemma engine_inv_log:
  assumes "engine_inv E e"
    and "t \<notin> {''strategy_draining_started'', ''strategy_stopped_after_draining'',
     ''stop_after_take_profit_enabled'', ''stop_after_take_profit_disabled''}"
  shows "engine_inv E (snd (log_event E t d p e))"
  using assms by (simp add: engine_inv_def fills_counted_def drain_of_snoc stop_of_snoc)

lemma engine_inv_activate: "engine_inv E (activate_entry_order E i e) \<longleftrightarrow> engine_inv E e"
  by (simp add: engine_inv_def fills_counted_def)

lemma engine_inv_fold_activate: "engine_inv E (fold (activate_entry_order E) is e) \<longleftrightarrow> engine_inv E e"
  by (simp add: engine_inv_def fills_counted_def)

lemma start_ordinary_grid_inv: "engine_inv E e \<Longrightarrow> engine_inv E (snd (start_ordinary_grid E e))"
proof -
  assume inv: "engine_inv E e"
  have "engine_inv E (snd (andthen (fill_entry E i) (\<lambda>_ e.
           let e = fold (activate_entry_order E) is e
           in (Inr (), e\<lparr>se_runtime := (se_runtime e)\<lparr>rt_orders := f (se_orders e)\<rparr>\<rparr>))
         (e\<lparr>se_runtime := (se_runtime e)\<lparr>rt_orders := os\<rparr>\<rparr>)))" for i "is" f os
    by (rule andthen_state) (use inv in \<open>simp_all add: fill_entry_inv Let_def engine_inv_fold_activate\<close>)
  then show ?thesis using inv by (simp add: start_ordinary_grid_def split: list.split option.split)
qed

lemma engine_start_inv: "engine_inv E e \<Longrightarrow> engine_inv E (snd (engine_start E e))"
  unfolding engine_start_def Let_def
  by (rule andthen_state) (simp_all add: start_ordinary_grid_inv engine_inv_log)

lemma engine_on_price_inv:
  assumes "engine_inv E e" "engine_on_price E p e = Some (r, e')"
  shows "engine_inv E e'"
proof (cases rule: engine_on_price_cases [of e E p])
  case (overall t)
  then show ?thesis using assms engine_inv_log [of E "e\<lparr>se_running := False\<rparr>" t] by auto
next
  case (trail em e'')
  then show ?thesis using assms engine_inv_same_core [of E e e''] by simp
qed (use assms in simp)

lemma engine_trans_inv: "engine_trans E e e' \<Longrightarrow> engine_inv E e \<Longrightarrow> engine_inv E e'"
proof (induction rule: engine_trans.induct)
  case (et_stop_flag e b)
  then show ?case
    by (auto simp: set_stop_after_take_profit_def engine_inv_def fills_counted_def drain_of_snoc stop_of_snoc)
next
  case (et_drain e)
  then show ?case
    by (auto simp: enable_only_sell_no_buy_def Let_def case_prod_beta engine_inv_def fills_counted_def
        drain_of_snoc stop_of_snoc)
qed (auto simp: engine_pause_def resume_with_reference_price_def Let_def
    intro: engine_start_inv fill_entry_inv record_take_profit_fill_inv engine_on_price_inv engine_inv_log)

lemma engine_reach_inv: "engine_reach E e \<Longrightarrow> engine_inv E e"
  by (induction rule: engine_reach.induct) (auto intro: engine_inv_new engine_trans_inv)

end
