(* ===== verification/EngineBook.thy ===== *)
theory EngineBook
  imports StrategyRuntimeProps
begin

text \<open>
  The order book of the strategy engine: order ids stay unique, and while the engine runs, every
  open level has its exit order in the book, with the side, quantity and price that close it.
\<close>

subsection \<open>Exit cover\<close>

definition covers :: "env \<Rightarrow> string \<Rightarrow> OpenLevelState \<Rightarrow> StrategyRuntimeOrder \<Rightarrow> bool" where
  "covers E sid s o' \<longleftrightarrow>
     ro_order_id o' = active_exit_order_id sid (ol_level_index s) (ol_trailing_bps s)
     \<and> ro_level_index o' = Some (ol_level_index s) \<and> ro_exchange_order_id o' = None
     \<and> ro_side o' = exit_side (ol_is_short s) \<and> ro_quantity o' = ol_quantity s
     \<and> (if ol_closing_requested s
        then ro_order_type o' = ''Market'' \<and> ro_price o' = None \<and> ro_status o' = ''ClosingRequested''
        else ro_order_type o' = (if ol_trailing_bps s = None then ''Limit'' else ''TrailMonitor'')
             \<and> ro_price o' = Some (take_profit_price E (ol_entry_price s) (ol_take_profit_bps s) (ol_is_short s))
             \<and> (if ol_trailing_bps s = None then ro_status o' = ''Working''
                else ro_status o' \<in> {''Monitoring'', ''Armed''}))"

definition book_inv :: "env \<Rightarrow> StrategyRuntimeEngine \<Rightarrow> bool" where
  "book_inv E e \<longleftrightarrow>
     list_all (engine_order (se_strategy_id e)) (se_orders e)
     \<and> distinct (map ro_order_id (se_orders e))
     \<and> (se_running e \<longrightarrow>
        (\<forall>s \<in> set (se_open_levels e). \<exists>o' \<in> set (se_orders e). covers E (se_strategy_id e) s o'))"

lemma engine_order_exit:
  "ro_order_id o' = active_exit_order_id sid i t \<Longrightarrow> ro_level_index o' = Some i \<Longrightarrow> engine_order sid o'"
  by (auto simp: engine_order_def active_exit_order_id_def order_ids_kind split: if_splits)

lemma engine_order_entry:
  "ro_order_id o' = entry_order_id sid i \<Longrightarrow> ro_level_index o' = Some i \<Longrightarrow> engine_order sid o'"
  by (auto simp: engine_order_def order_ids_kind)

text \<open>The two upserts of the engine satisfy the upsert interface.\<close>

interpretation exit_upsert: keyed_upsert "engine_order sid" ro_order_id "active_exit_order_id sid i t"
  "\<lambda>order. ro_order_id order = active_exit_order_id sid i t"
  "\<lambda>order. order\<lparr>ro_exchange_order_id := None, ro_level_index := Some i, ro_side := side,
     ro_order_type := ty, ro_price := price, ro_quantity := quantity, ro_status := status\<rparr>"
  "\<lparr>ro_order_id = active_exit_order_id sid i t, ro_exchange_order_id = None, ro_level_index = Some i,
    ro_side = side, ro_order_type = ty, ro_price = price, ro_quantity = quantity, ro_status = status\<rparr>"
  for sid i t side ty price quantity status
  by unfold_locales (auto intro: engine_order_exit)

lemma entry_upsert:
  assumes "plain_id sid"
  shows "keyed_upsert (engine_order sid) ro_order_id (entry_order_id sid i) (is_entry_of i)
    (\<lambda>order. order\<lparr>ro_exchange_order_id := None, ro_side := side, ro_order_type := ty,
       ro_price := price, ro_quantity := quantity, ro_status := status\<rparr>)
    \<lparr>ro_order_id = entry_order_id sid i, ro_exchange_order_id = None, ro_level_index = Some i,
      ro_side = side, ro_order_type = ty, ro_price = price, ro_quantity = quantity, ro_status = status\<rparr>"
proof
  fix x assume ok: "engine_order sid x"
  show "is_entry_of i x \<longleftrightarrow> ro_order_id x = entry_order_id sid i"
    by (rule is_entry_of_iff [OF assms ok])
  assume "is_entry_of i x"
  then show "ro_order_id (x\<lparr>ro_exchange_order_id := None, ro_side := side, ro_order_type := ty,
       ro_price := price, ro_quantity := quantity, ro_status := status\<rparr>) = ro_order_id x
    \<and> engine_order sid (x\<lparr>ro_exchange_order_id := None, ro_side := side, ro_order_type := ty,
       ro_price := price, ro_quantity := quantity, ro_status := status\<rparr>)"
    using ok by (simp add: engine_order_def)
qed (auto intro: engine_order_entry)

lemmas entry_upsert_distinct = keyed_upsert.distinct_upsert [OF entry_upsert]
lemmas entry_upsert_ok = keyed_upsert.ok_upsert [OF entry_upsert]
lemmas entry_upsert_other = keyed_upsert.in_upsert_other [OF entry_upsert]

subsection \<open>Order updates that keep the cover\<close>

lemma update_first_keep: "x \<in> set xs \<Longrightarrow> \<not> P x \<Longrightarrow> x \<in> set (update_first P f xs)"
  by (induction xs) auto

lemma update_status_book:
  assumes "list_all (engine_order sid) os" "distinct (map ro_order_id os)"
  shows "list_all (engine_order sid) (update_first P (\<lambda>order. order\<lparr>ro_status := st\<rparr>) os)"
    "distinct (map ro_order_id (update_first P (\<lambda>order. order\<lparr>ro_status := st\<rparr>) os))"
  using assms by (auto simp: list_all_iff engine_order_def map_update_first dest!: set_update_first)

lemma covers_not_entry:
  assumes "plain_id sid" "engine_order sid o'" "covers E sid s o'"
  shows "\<not> is_entry_of i o'" "\<not> is_entry_order o'"
  using assms(3) unfolding is_entry_of_iff [OF assms(1,2)] engine_order_kinds(1) [OF assms(1,2)]
  by (auto simp: covers_def active_exit_id_inject)

lemma covers_other_exit:
  assumes "plain_id sid" "engine_order sid o'" "covers E sid s o'" "ol_level_index s \<noteq> i"
  shows "\<not> (ro_level_index o' = Some i \<and> (is_take_profit_order o' \<or> is_trailing_monitor_order o'))"
  using assms(3,4) by (auto simp: covers_def)

lemma activate_book:
  assumes "plain_id (se_strategy_id e)" "book_inv E e"
  shows "book_inv E (activate_entry_order E i e)"
proof (cases "activate_entry_order E i e = e")
  case True
  then show ?thesis using assms by simp
next
  case False
  then obtain level side where l: "level_for i e = Inr level"
    "initial_entry_side (se_mode e) (gl_level_index level) (gl_entry_price level) (reference_price E None e) = Some side"
    by (auto simp: activate_entry_order_def split: sum.splits option.splits)
  let ?os = "se_orders (activate_entry_order E i e)" and ?sid = "se_strategy_id e"
  have os: "?os = upsert (is_entry_of i)
                   (\<lambda>order. order\<lparr>ro_exchange_order_id := None, ro_side := side,
                      ro_order_type := ''Limit'', ro_price := Some (gl_entry_price level),
                      ro_quantity := gl_quantity level, ro_status := ''Working''\<rparr>)
                   \<lparr>ro_order_id = entry_order_id ?sid i,
                    ro_exchange_order_id = None, ro_level_index = Some i, ro_side = side,
                    ro_order_type = ''Limit'', ro_price = Some (gl_entry_price level),
                    ro_quantity = gl_quantity level, ro_status = ''Working''\<rparr> (se_orders e)"
    by (simp add: activate_entry_order_def l)
  from assms(2) have ok: "list_all (engine_order ?sid) (se_orders e)" "distinct (map ro_order_id (se_orders e))"
    by (simp_all add: book_inv_def)
  have "o' \<in> set ?os" if "o' \<in> set (se_orders e)" "covers E ?sid s o'" for s o'
  proof -
    have "ro_order_id o' \<noteq> entry_order_id ?sid i"
      using that(2) by (auto simp: covers_def active_exit_id_inject)
    then show ?thesis 
      unfolding os by (rule entry_upsert_other [OF assms(1) ok(1), THEN iffD2]) (rule that(1))
  qed
  moreover have "list_all (engine_order ?sid) ?os" "distinct (map ro_order_id ?os)"
    unfolding os by (rule entry_upsert_ok [OF assms(1) ok(1)], rule entry_upsert_distinct [OF assms(1) ok])
  ultimately show ?thesis using assms(2) unfolding book_inv_def by (auto 0 3)
qed

lemma fold_activate_book:
  "plain_id (se_strategy_id e) \<Longrightarrow> book_inv E e \<Longrightarrow> book_inv E (fold (activate_entry_order E) is e)"
  by (induction "is" arbitrary: e) (simp_all add: activate_book)

subsection \<open>Every method keeps the book\<close>

lemma book_inv_log [simp]: "book_inv E (snd (log_event E t d p e)) \<longleftrightarrow> book_inv E e"
  by (simp add: book_inv_def)

lemma book_inv_recompute [simp]: "book_inv E (recompute_position E e) \<longleftrightarrow> book_inv E e"
  by (simp add: book_inv_def)

definition new_exit :: "env \<Rightarrow> string \<Rightarrow> u32 \<Rightarrow> decimal \<Rightarrow> decimal \<Rightarrow> u32 \<Rightarrow> u32 option \<Rightarrow> bool \<Rightarrow> StrategyRuntimeOrder" where
  "new_exit E sid i p q b t short =
     \<lparr>ro_order_id = active_exit_order_id sid i t, ro_exchange_order_id = None, ro_level_index = Some i,
      ro_side = exit_side short, ro_order_type = (if t \<noteq> None then ''TrailMonitor'' else ''Limit''),
      ro_price = Some (take_profit_price E p b short), ro_quantity = q,
      ro_status = (if t \<noteq> None then ''Monitoring'' else ''Working'')\<rparr>"

lemma upsert_exit_orders:
  "se_orders (upsert_exit_order E i p q b t short e) =
     upsert (\<lambda>order. ro_order_id order = active_exit_order_id (se_strategy_id e) i t)
       (\<lambda>order. order\<lparr>ro_exchange_order_id := None, ro_level_index := Some i,
          ro_side := exit_side short, ro_order_type := if t \<noteq> None then ''TrailMonitor'' else ''Limit'',
          ro_price := Some (take_profit_price E p b short), ro_quantity := q,
          ro_status := if t \<noteq> None then ''Monitoring'' else ''Working''\<rparr>)
       (new_exit E (se_strategy_id e) i p q b t short) (se_orders e)"
  by (simp add: upsert_exit_order_def new_exit_def Let_def)

lemma new_exit_in_upsert: "new_exit E (se_strategy_id e) i p q b t short
   \<in> set (se_orders (upsert_exit_order E i p q b t short e))"
proof -
  let ?f = "\<lambda>order :: StrategyRuntimeOrder. order\<lparr>ro_exchange_order_id := None, ro_level_index := Some i,
          ro_side := exit_side short, ro_order_type := if t \<noteq> None then ''TrailMonitor'' else ''Limit'',
          ro_price := Some (take_profit_price E p b short), ro_quantity := q,
          ro_status := if t \<noteq> None then ''Monitoring'' else ''Working''\<rparr>"
  have "?f y = new_exit E (se_strategy_id e) i p q b t short"
    if "ro_order_id y = active_exit_order_id (se_strategy_id e) i t" for y
    using that by (cases y) (simp add: new_exit_def)
  then show ?thesis
    unfolding upsert_exit_orders
    using upsert_selected [of "\<lambda>order. ro_order_id order = active_exit_order_id (se_strategy_id e) i t"
        ?f "new_exit E (se_strategy_id e) i p q b t short" "se_orders e"]
    by metis
qed

lemma upsert_exit_book:
  fixes E i p q b t short
  assumes ok: "list_all (engine_order (se_strategy_id e)) (se_orders e)" "distinct (map ro_order_id (se_orders e))"
  defines "u \<equiv> upsert_exit_order E i p q b t short e"
  shows "list_all (engine_order (se_strategy_id e)) (se_orders u)"
    and "distinct (map ro_order_id (se_orders u))"
    and "o' \<in> set (se_orders e) \<Longrightarrow> covers E (se_strategy_id e) s o' \<Longrightarrow> ol_level_index s \<noteq> i
         \<Longrightarrow> o' \<in> set (se_orders u)"
proof -
  note up = exit_upsert.ok_upsert exit_upsert.distinct_upsert exit_upsert.in_upsert_other [THEN iffD2]
  show "list_all (engine_order (se_strategy_id e)) (se_orders u)"
    and "distinct (map ro_order_id (se_orders u))"
    unfolding u_def upsert_exit_orders new_exit_def by (rule up(1) [OF ok(1)], rule up(2) [OF ok])
  assume o': "o' \<in> set (se_orders e)" "covers E (se_strategy_id e) s o'" "ol_level_index s \<noteq> i"
  then have "ro_order_id o' \<noteq> active_exit_order_id (se_strategy_id e) i t"
    by (auto simp: covers_def dest: active_exit_id_inject(1))
  then show "o' \<in> set (se_orders u)"
    unfolding u_def upsert_exit_orders new_exit_def by (rule up(3) [OF ok(1)]) (rule o'(1))
qed

lemma new_exit_covers:
  "covers E sid (opened_level level i short) (new_exit E sid i (gl_entry_price level) (gl_quantity level)
     (gl_take_profit_bps level) (gl_trailing_bps level) short)"
  by (simp add: covers_def new_exit_def opened_level_def)

lemma fill_entry_book:
  assumes plain: "plain_id (se_strategy_id e)" and book: "book_inv E e"
  shows "book_inv E (snd (fill_entry E i e))"
proof (cases "level_for i e")
  case (Inl err)
  then show ?thesis using book by (simp add: fill_entry_def)
next
  case (Inr level)
  let ?sid = "se_strategy_id e" and ?short = "eq_ignore_ascii_case (entry_side_of E i level e) ''Sell''"
  let ?e = "entry_filled E i level e"
  let ?u = "upsert_exit_order E i (gl_entry_price level) (gl_quantity level) (gl_take_profit_bps level)
          (gl_trailing_bps level) ?short ?e"
  from book have ok: "list_all (engine_order ?sid) (se_orders e)" "distinct (map ro_order_id (se_orders e))"
    by (simp_all add: book_inv_def)
  have ok': "list_all (engine_order (se_strategy_id ?e)) (se_orders ?e)" "distinct (map ro_order_id (se_orders ?e))"
    using update_status_book [OF ok, of "is_entry_of i" "''Filled''"] by simp_all
  have kept: "\<exists>o' \<in> set (se_orders ?u). covers E ?sid s o'"
    if run: "se_running e" and s: "s \<in> set (se_open_levels e)" "ol_level_index s \<noteq> i" for s
  proof -
    obtain o' where o': "o' \<in> set (se_orders e)" "covers E ?sid s o'"
      using book run s(1) unfolding book_inv_def by blast
    then have "engine_order ?sid o'" using ok(1) by (auto simp: list_all_iff)
    then have "o' \<in> set (se_orders ?e)"
      using o' covers_not_entry(1) [OF plain] by (simp add: update_first_keep)
    from upsert_exit_book(3) [OF ok' this _ s(2)] o'(2) show ?thesis by auto
  qed
  have "new_exit E ?sid i (gl_entry_price level) (gl_quantity level)
     (gl_take_profit_bps level) (gl_trailing_bps level) ?short \<in> set (se_orders ?u)"
    using new_exit_in_upsert [of E ?e] by simp
  then have "\<exists>o' \<in> set (se_orders ?u). covers E ?sid (opened_level level i ?short) o'"
    using new_exit_covers by blast
  then show ?thesis
    unfolding fill_entry_eq [OF Inr] book_inv_log book_inv_recompute book_inv_def
    using kept upsert_exit_book(1,2) [OF ok'] by auto
qed

lemma activate_open_levels:
  "activate_entry_order E i (e\<lparr>se_open_levels := l\<rparr>) = (activate_entry_order E i e)\<lparr>se_open_levels := l\<rparr>"
proof -
  have "reference_price E None (e\<lparr>se_open_levels := l\<rparr>) = reference_price E None e"
    "level_for i (e\<lparr>se_open_levels := l\<rparr>) = level_for i e"
    by (simp_all add: reference_price_def level_for_def cong: if_cong option.case_cong)
  then show ?thesis by (simp add: activate_entry_order_def split: sum.split option.split)
qed

lemma record_take_profit_fill_book:
  assumes plain: "plain_id (se_strategy_id e)" and book: "book_inv E e"
    and "record_take_profit_fill E i p e = Some (r, e')"
  shows "book_inv E e'"
proof (cases "find (\<lambda>s. ol_level_index s = i) (se_open_levels e)")
  case None
  then show ?thesis using assms by (simp add: record_take_profit_fill_eq)
next
  case (Some st)
  let ?sid = "se_strategy_id e" and ?x = "exit_filled E i p st e"
  let ?f = "\<lambda>e. e\<lparr>se_open_levels := filter (\<lambda>s. ol_level_index s \<noteq> i) (se_open_levels e)\<rparr>"
  from book have ok: "list_all (engine_order ?sid) (se_orders e)" "distinct (map ro_order_id (se_orders e))"
    by (simp_all add: book_inv_def)
  have "\<exists>o' \<in> set (se_orders ?x). covers E ?sid s o'"
    if run: "se_running e" and s: "s \<in> set (se_open_levels e)" "ol_level_index s \<noteq> i" for s
  proof -
    obtain o' where o': "o' \<in> set (se_orders e)" "covers E ?sid s o'"
      using book run s(1) unfolding book_inv_def by blast
    then have "engine_order ?sid o'" using ok(1) by (auto simp: list_all_iff)
    then have "o' \<in> set (se_orders ?x)"
      using o' s(2) covers_other_exit [OF plain] by (simp add: update_first_keep)
    then show ?thesis using o'(2) by blast
  qed
  then have x: "book_inv E (?f ?x)"
    using update_status_book [OF ok] by (simp add: book_inv_def)
  have "?f (activate_entry_order E i ?x) = activate_entry_order E i (?f ?x)"
    by (simp add: activate_open_levels)
  then have "book_inv E (?f (activate_entry_order E i ?x))"
    using activate_book [of "?f ?x" E i] plain x by simp
  then have "book_inv E (level_closed E i p st e)"
    using x by (simp add: level_closed_def Let_def) (simp add: book_inv_def)
  then show ?thesis
    using assms(3) by (auto simp: record_take_profit_fill_eq Some maybe_stop_after_draining_def book_inv_def
        split: if_splits)
qed

subsection \<open>Rebuilding the book\<close>

lemma entries_shape:
  "o' \<in> set (active_entry_orders p e) \<Longrightarrow>
     \<exists>l \<in> set (rv_levels (se_revision e)). ro_order_id o' = entry_order_id (se_strategy_id e) (gl_level_index l)
       \<and> ro_level_index o' = Some (gl_level_index l)"
  by (auto simp: active_entry_orders_def split: if_splits option.splits)

lemma map_concat_single:
  assumes "\<And>l. f l = [] \<or> map k (f l) = [g l]"
  shows "map k (concat (map f ls)) = map g (filter (\<lambda>l. f l \<noteq> []) ls)"
proof (induction ls)
  case (Cons l ls)
  then show ?case using assms [of l] by auto
qed simp

lemma entries_distinct:
  assumes "distinct (map gl_level_index (rv_levels (se_revision e)))"
  shows "distinct (map ro_order_id (active_entry_orders p e))"
proof -
  have "map ro_order_id (active_entry_orders p e) =
      map (\<lambda>l. entry_order_id (se_strategy_id e) (gl_level_index l))
        (filter Q (rv_levels (se_revision e)))" if "Q = (\<lambda>l. \<not> list_ex (\<lambda>s. ol_level_index s = gl_level_index l) (se_open_levels e)
          \<and> initial_entry_side (se_mode e) (gl_level_index l) (gl_entry_price l) p \<noteq> None)" for Q
    unfolding active_entry_orders_def that
    by (subst map_concat_single [where g = "\<lambda>l. entry_order_id (se_strategy_id e) (gl_level_index l)"])
      (auto split: option.split intro!: arg_cong [where f = "map _"] filter_cong)
  moreover have "distinct (map (\<lambda>l. entry_order_id (se_strategy_id e) (gl_level_index l)) (rv_levels (se_revision e)))"
    using assms by (simp add: distinct_map inj_on_def)
  ultimately show ?thesis by (simp add: distinct_map_filter)
qed

lemma active_exit_covers: "covers E sid s (active_exit_order E sid s)"
  by (auto simp: covers_def active_exit_order_def active_exit_order_id_def)

lemma build_active_orders_book:
  assumes "distinct (map gl_level_index (rv_levels (se_revision e)))"
    and "distinct (map ol_level_index (se_open_levels e))"
  shows "book_inv E (e\<lparr>se_runtime := (se_runtime e)\<lparr>rt_orders := build_active_orders E ref e\<rparr>\<rparr>)"
proof -
  let ?sid = "se_strategy_id e"
  define ents where "ents = (if se_draining e then [] else active_entry_orders (reference_price E ref e) e)"
  let ?exits = "map (active_exit_order E ?sid) (se_open_levels e)"
  have b: "build_active_orders E ref e = sort_key level_sort_key (ents @ ?exits)"
    by (simp add: build_active_orders_def ents_def Let_def)
  have id: "ro_order_id (active_exit_order E ?sid s) = active_exit_order_id ?sid (ol_level_index s) (ol_trailing_bps s)"
    "ro_level_index (active_exit_order E ?sid s) = Some (ol_level_index s)" for s
    using active_exit_covers [of E ?sid s] by (simp_all add: covers_def)
  have ents: "\<exists>i. ro_order_id o' = entry_order_id ?sid i \<and> ro_level_index o' = Some i" if "o' \<in> set ents" for o'
    using that entries_shape [of o'] by (auto simp: ents_def split: if_splits)
  have "distinct (map ro_order_id ents)"
    using entries_distinct [OF assms(1)] by (simp add: ents_def)
  moreover have "distinct (map ro_order_id ?exits)"
    using assms(2) by (auto simp: distinct_map inj_on_def id dest: active_exit_id_inject(1))
  moreover have "ro_order_id ` set ents \<inter> ro_order_id ` set ?exits = {}"
    using ents by (fastforce simp: id active_exit_id_inject)
  ultimately have "distinct (map ro_order_id (ents @ ?exits))" by (simp add: image_image)
  moreover have "list_all (engine_order ?sid) (ents @ ?exits)"
    using ents by (auto simp: list_all_iff id intro: engine_order_exit engine_order_entry)
  moreover have "\<exists>o' \<in> set (ents @ ?exits). covers E ?sid s o'" if "s \<in> set (se_open_levels e)" for s
    using that active_exit_covers by auto
  ultimately show ?thesis
    by (simp add: book_inv_def b distinct_map_sort_key list_all_iff del: map_append)
qed

subsection \<open>Ticks\<close>

lemma covers_trail_level: "covers E sid (snd (trail_level E' p acc s)) = covers E sid s"
  by (cases "ol_trailing_bps s") (simp_all add: covers_def fun_eq_iff trail_level_keeps)

lemma trail_loop_covers:
  "s \<in> set (snd (map_accum (trail_level E p) acc xs)) \<Longrightarrow> \<exists>x \<in> set xs. covers E' sid s = covers E' sid x"
proof (induction xs arbitrary: acc)
  case (Cons x xs)
  then consider "s = snd (trail_level E p acc x)"
    | "s \<in> set (snd (map_accum (trail_level E p) (fst (trail_level E p acc x)) xs))"
    by (auto simp: map_accum_Cons)
  then show ?case
  proof cases
    case 1
    then show ?thesis by (simp add: covers_trail_level)
  next
    case 2
    from Cons.IH [OF this] show ?thesis by auto
  qed
qed simp

lemma update_first_unique:
  assumes "distinct (map k xs)"
  shows "x \<in> set xs \<Longrightarrow> k x = a \<Longrightarrow> f x \<in> set (update_first (\<lambda>y. k y = a) f xs)"
    and "s \<in> set (update_first (\<lambda>y. k y = a) f xs) \<Longrightarrow> k s = a \<Longrightarrow> \<exists>x \<in> set xs. k x = a \<and> s = f x"
proof -
  show "x \<in> set xs \<Longrightarrow> k x = a \<Longrightarrow> f x \<in> set (update_first (\<lambda>y. k y = a) f xs)"
    using assms
  proof (induction xs)
    case (Cons y ys)
    then show ?case by (cases "x = y") (auto simp: image_iff)
  qed simp
  show "s \<in> set (update_first (\<lambda>y. k y = a) f xs) \<Longrightarrow> k s = a \<Longrightarrow> \<exists>x \<in> set xs. k x = a \<and> s = f x"
    using assms
  proof (induction xs)
    case (Cons y ys)
    then show ?case by (cases "k y = a") (auto simp: image_iff)
  qed simp
qed

lemma request_level_close_book:
  assumes book: "book_inv E e" and dist: "distinct (map ol_level_index (se_open_levels e))"
    and r: "request_level_close E i p t e = Some (ev, e')"
  shows "book_inv E e'"
proof -
  let ?sid = "se_strategy_id e"
  obtain st where st: "find (\<lambda>s. ol_level_index s = i) (se_open_levels e) = Some st"
    using r by (auto simp: request_level_close_def split: option.splits)
  then have stin: "st \<in> set (se_open_levels e)" "ol_level_index st = i"
    by (auto simp: find_Some_iff)
  let ?k = "active_exit_order_id ?sid i (ol_trailing_bps st)"
  let ?f = "\<lambda>order :: StrategyRuntimeOrder. order\<lparr>ro_exchange_order_id := None,
      ro_side := exit_side (ol_is_short st), ro_order_type := ''Market'', ro_price := None,
      ro_quantity := ol_quantity st, ro_status := ''ClosingRequested''\<rparr>"
  let ?os = "update_first (\<lambda>order. ro_order_id order = ?k) ?f (se_orders e)"
  let ?ol = "update_first (\<lambda>s. ol_level_index s = i) (\<lambda>s. s\<lparr>ol_closing_requested := True\<rparr>) (se_open_levels e)"
  have e': "se_orders e' = ?os" "se_open_levels e' = ?ol" "se_running e' = se_running e" "se_strategy_id e' = ?sid"
    using r by (auto simp: request_level_close_def st Let_def log_event_def push_event_def)
  have eo: "engine_order ?sid (?f y) \<longleftrightarrow> engine_order ?sid y" for y by (simp add: engine_order_def)
  have ok: "list_all (engine_order ?sid) ?os" "distinct (map ro_order_id ?os)"
    using book by (auto simp: book_inv_def list_all_iff map_update_first eo dest!: set_update_first)
  have cover: "\<exists>o' \<in> set ?os. covers E ?sid s o'" if run: "se_running e" and s: "s \<in> set ?ol" for s
  proof (cases "ol_level_index s = i")
    case True
    from update_first_unique(2) [OF dist s this] obtain x where x: "x \<in> set (se_open_levels e)"
      "ol_level_index x = i" "s = x\<lparr>ol_closing_requested := True\<rparr>" by blast
    then have [simp]: "x = st" using dist stin by (auto simp: distinct_map inj_on_def)
    obtain o' where o': "o' \<in> set (se_orders e)" "covers E ?sid st o'"
      using book run stin(1) unfolding book_inv_def by blast
    then have "ro_order_id o' = ?k" using stin(2) by (simp add: covers_def)
    with o'(1) have "?f o' \<in> set ?os"
      using book by (intro update_first_unique(1)) (simp_all add: book_inv_def)
    moreover have "covers E ?sid s (?f o')"
      using o'(2) x(3) by (simp add: covers_def)
    ultimately show ?thesis by blast
  next
    case False
    then have "s \<in> set (se_open_levels e)" using s by (auto dest!: set_update_first)
    then obtain o' where o': "o' \<in> set (se_orders e)" "covers E ?sid s o'"
      using book run unfolding book_inv_def by blast
    then have "ro_order_id o' \<noteq> ?k" using False by (auto simp: covers_def dest: active_exit_id_inject(1))
    with o'(1) have "o' \<in> set ?os" by (rule update_first_keep)
    then show ?thesis using o'(2) by blast
  qed
  then show ?thesis using ok by (simp add: book_inv_def e')
qed

lemma request_closures_book:
  assumes "book_inv E e" "distinct (map ol_level_index (se_open_levels e))"
    and "request_closures E cs em e = Some (em', e')"
  shows "book_inv E e'"
  using assms
proof (induction cs arbitrary: em e)
  case (Cons c cs)
  obtain i p t where c: "c = (i, p, t)" by (cases c)
  with Cons.prems(3) obtain ev e1 where r: "request_level_close E i p t e = Some (ev, e1)"
    and rest: "request_closures E cs (em @ [ev]) e1 = Some (em', e')"
    by (auto split: option.splits)
  have "map ol_level_index (se_open_levels e1) = map ol_level_index (se_open_levels e)"
    using r by (auto simp: request_level_close_def Let_def log_event_def push_event_def map_update_first
        split: option.splits)
  then show ?case
    using Cons.IH [OF request_level_close_book [OF Cons.prems(1,2) r] _ rest] Cons.prems(2) by simp
qed simp

lemma engine_on_price_book:
  assumes book: "book_inv E e" and dist: "distinct (map ol_level_index (se_open_levels e))"
    and r: "engine_on_price E p e = Some (r, e')"
  shows "book_inv E e'"
proof (cases rule: engine_on_price_cases [of e E p])
  case (overall t)
  then show ?thesis using r book by (auto simp: book_inv_def)
next
  case (trail em e'')
  obtain evs cs ol where loop:
      "map_accum (trail_level E p) (se_events e, []) (se_open_levels e) = ((evs, cs), ol)"
    by (metis surj_pair)
  let ?e = "e\<lparr>se_open_levels := ol, se_runtime := (se_runtime e)\<lparr>rt_events := evs\<rparr>\<rparr>"
  have "request_closures E cs [] ?e = Some (em, e'')"
    using trail loop by (simp add: engine_on_price_def split: option.splits prod.splits)
  moreover have "distinct (map ol_level_index (se_open_levels ?e))"
    using trail_loop [OF loop] map_level_core_index [of ol "se_open_levels e"] dist by simp
  moreover have "\<exists>x \<in> set (se_open_levels e). covers E (se_strategy_id e) s = covers E (se_strategy_id e) x"
    if "s \<in> set ol" for s
    using trail_loop_covers [of s E p "(se_events e, [])" "se_open_levels e"] that loop by simp
  then have "book_inv E ?e" using book unfolding book_inv_def by simp metis
  ultimately have "book_inv E e''" using request_closures_book by blast
  then show ?thesis using trail(2) r by simp
qed (use assms in simp)

subsection \<open>Reachable books\<close>

lemma fill_entry_static [simp]:
  "se_strategy_id (snd (fill_entry E i e)) = se_strategy_id e
   \<and> se_revision (snd (fill_entry E i e)) = se_revision e
   \<and> se_mode (snd (fill_entry E i e)) = se_mode e
   \<and> se_draining (snd (fill_entry E i e)) = se_draining e"
  by (cases "level_for i e") (simp add: fill_entry_def, simp add: fill_entry_eq)

lemma book_inv_sort:
  "book_inv E (e\<lparr>se_runtime := (se_runtime e)\<lparr>rt_orders := sort_key k (se_orders e)\<rparr>\<rparr>) \<longleftrightarrow> book_inv E e"
  by (simp add: book_inv_def distinct_map_sort_key list_all_iff)

lemma start_ordinary_grid_book:
  assumes "plain_id (se_strategy_id e)" "se_open_levels e = []" "book_inv E e"
  shows "book_inv E (snd (start_ordinary_grid E e))"
proof -
  let ?os = "\<lambda>i side p q. [\<lparr>ro_order_id = entry_order_id (se_strategy_id e) i, ro_exchange_order_id = None,
      ro_level_index = Some i, ro_side = side, ro_order_type = ''Limit'', ro_price = p, ro_quantity = q,
      ro_status = ''Working''\<rparr>]"
  have start: "book_inv E (e\<lparr>se_runtime := (se_runtime e)\<lparr>rt_orders := ?os i side p q\<rparr>\<rparr>)" for i side p q
    using assms(2) by (simp add: book_inv_def engine_order_entry)
  have "book_inv E (snd (andthen (fill_entry E i) (\<lambda>_ e.
           let e = fold (activate_entry_order E) is e
           in (Inr (), e\<lparr>se_runtime := (se_runtime e)\<lparr>rt_orders := sort_key level_sort_key (se_orders e)\<rparr>\<rparr>))
         (e\<lparr>se_runtime := (se_runtime e)\<lparr>rt_orders := ?os i side p q\<rparr>\<rparr>)))" for i "is" side p q
  proof -
    let ?e = "e\<lparr>se_runtime := (se_runtime e)\<lparr>rt_orders := ?os i side p q\<rparr>\<rparr>"
    let ?I = "\<lambda>e'. book_inv E e' \<and> se_strategy_id e' = se_strategy_id e"
    have "?I (snd (andthen (fill_entry E i) (\<lambda>_ e.
           let e = fold (activate_entry_order E) is e
           in (Inr (), e\<lparr>se_runtime := (se_runtime e)\<lparr>rt_orders := sort_key level_sort_key (se_orders e)\<rparr>\<rparr>)) ?e))"
    proof (rule andthen_state)
      show "?I (snd (fill_entry E i ?e))"
        using fill_entry_book [OF _ start] assms(1) by simp
    qed (use assms(1) in \<open>auto simp: Let_def book_inv_sort fold_activate_book\<close>)
    then show ?thesis by blast
  qed
  then show ?thesis using assms(3) by (simp add: start_ordinary_grid_def split: list.split option.split)
qed

lemma engine_start_book:
  assumes "plain_id (se_strategy_id e)" "book_inv E e"
    and "distinct (map gl_level_index (rv_levels (se_revision e)))"
    and "distinct (map ol_level_index (se_open_levels e))"
  shows "book_inv E (snd (engine_start E e))"
  unfolding engine_start_def Let_def
proof (rule andthen_state)
  let ?e = "e\<lparr>se_running := True\<rparr>"
  have "book_inv E (snd (start_ordinary_grid E ?e))" if "se_open_levels e = []"
    using assms(1,2) that by (intro start_ordinary_grid_book) (auto simp: book_inv_def)
  then show "book_inv E (snd (if ordinary_entry_side (se_mode ?e) \<noteq> None \<and> se_orders ?e = [] \<and>
       se_fills ?e = [] \<and> se_positions ?e = [] \<and> se_open_levels ?e = []
      then start_ordinary_grid E ?e
      else (Inr (), ?e\<lparr>se_runtime := (se_runtime ?e)\<lparr>rt_orders := build_active_orders E None ?e\<rparr>\<rparr>)))"
    using build_active_orders_book [of ?e E None] assms(3,4) by simp
qed simp

lemma drain_loop:
  "list_all2 (\<lambda>x y. ro_order_id y = ro_order_id x \<and> ro_level_index y = ro_level_index x
      \<and> (\<not> is_entry_order x \<longrightarrow> y = x)) xs (snd (map_accum drain_order acc xs))"
  by (rule map_accum_all2) (simp add: drain_order_def)

lemma enable_only_sell_no_buy_book:
  assumes plain: "plain_id (se_strategy_id e)" and book: "book_inv E e"
  shows "book_inv E (snd (enable_only_sell_no_buy E e))"
proof -
  let ?os = "snd (map_accum drain_order [] (se_orders e))" and ?sid = "se_strategy_id e"
  note loop = drain_loop [of "se_orders e" "[]"]
  have "map ro_order_id ?os = map ro_order_id (se_orders e)"
    using loop by (auto simp: list_all2_conv_all_nth intro!: nth_equalityI)
  moreover have "list_all (engine_order ?sid) ?os"
    using loop book by (auto simp: book_inv_def list_all_length list_all2_conv_all_nth engine_order_def)
  moreover have "o' \<in> set ?os" if "o' \<in> set (se_orders e)" "covers E ?sid s o'" for o' s
  proof -
    have "engine_order ?sid o'" using that(1) book by (auto simp: book_inv_def list_all_iff)
    then have "\<not> is_entry_order o'" using covers_not_entry(2) [OF plain _ that(2)] by blast
    then show ?thesis using loop that(1) by (auto simp: list_all2_conv_all_nth in_set_conv_nth)
  qed
  ultimately have "book_inv E (e\<lparr>se_draining := b, se_runtime := (se_runtime e)\<lparr>rt_orders := ?os\<rparr>\<rparr>)" for b
    using book unfolding book_inv_def by simp metis
  then show ?thesis
    using book by (auto simp: enable_only_sell_no_buy_def Let_def case_prod_beta)
qed

definition static_part :: "StrategyRuntimeEngine \<Rightarrow> string \<times> StrategyRevision \<times> StrategyMode" where
  "static_part e = (se_strategy_id e, se_revision e, se_mode e)"

lemma start_ordinary_grid_static: "static_part (snd (start_ordinary_grid E e)) = static_part e"
proof -
  have "static_part (snd (andthen (fill_entry E i) (\<lambda>_ e.
           let e = fold (activate_entry_order E) is e
           in (Inr (), e\<lparr>se_runtime := (se_runtime e)\<lparr>rt_orders := f (se_orders e)\<rparr>\<rparr>))
         (e\<lparr>se_runtime := (se_runtime e)\<lparr>rt_orders := os\<rparr>\<rparr>))) = static_part e" for i "is" f os
    by (rule andthen_state) (auto simp: static_part_def Let_def)
  then show ?thesis by (simp add: start_ordinary_grid_def split: list.split option.split)
qed

lemma engine_start_static: "static_part (snd (engine_start E e)) = static_part e"
  unfolding engine_start_def Let_def
  by (rule andthen_state) (auto simp: start_ordinary_grid_static, auto simp: static_part_def)

lemma engine_trans_static: "engine_trans E e e' \<Longrightarrow> static_part e' = static_part e"
proof (induction rule: engine_trans.induct)
  case (et_take_profit i p e r e')
  then show ?case
    by (auto simp: record_take_profit_fill_eq maybe_stop_after_draining_def static_part_def
        split: option.splits if_splits)
next
  case (et_price p e r e')
  show ?case
  proof (cases rule: engine_on_price_cases [of e E p])
    case (overall t)
    then show ?thesis using et_price by (auto simp: static_part_def)
  qed (use et_price in \<open>auto simp: static_part_def same_core_def\<close>)
qed (auto simp: engine_start_static, auto simp: static_part_def engine_pause_def resume_with_reference_price_def
    Let_def set_stop_after_take_profit_def enable_only_sell_no_buy_def case_prod_beta)

lemma engine_trans_book:
  assumes "engine_trans E e e'" "engine_inv E e" "book_inv E e" "plain_id (se_strategy_id e)"
    and "distinct (map gl_level_index (rv_levels (se_revision e)))"
  shows "book_inv E e'"
proof -
  have dist: "distinct (map ol_level_index (se_open_levels e))" using assms(2) by (simp add: engine_inv_def)
  from assms(1) show ?thesis
  proof cases
    case et_start
    then show ?thesis using engine_start_book assms(3-5) dist by blast
  next
    case (et_fill_entry i)
    then show ?thesis using fill_entry_book assms(3,4) by blast
  next
    case (et_take_profit i p r)
    then show ?thesis using record_take_profit_fill_book assms(3,4) by blast
  next
    case (et_price p r)
    then show ?thesis using engine_on_price_book assms(3) dist by blast
  next
    case et_pause
    have "engine_order sid (pause_order x) = engine_order sid x" "ro_order_id (pause_order x) = ro_order_id x" for sid x
      by (simp_all add: pause_order_def engine_order_def)
    then show ?thesis
      using assms(3) et_pause by (auto simp: engine_pause_def book_inv_def list_all_iff comp_def)
  next
    case (et_resume ref)
    then show ?thesis
      using build_active_orders_book [of "e\<lparr>se_running := True\<rparr>" E ref] assms(5) dist
      by (simp add: resume_with_reference_price_def Let_def)
  next
    case (et_stop_flag b)
    then show ?thesis using assms(3) by (simp add: set_stop_after_take_profit_def book_inv_def)
  next
    case et_drain
    then show ?thesis using enable_only_sell_no_buy_book assms(3,4) by blast
  qed
qed

lemma engine_reach_book:
  "engine_reach E e \<Longrightarrow> plain_id (se_strategy_id e) \<Longrightarrow>
   distinct (map gl_level_index (rv_levels (se_revision e))) \<Longrightarrow> book_inv E e"
proof (induction rule: engine_reach.induct)
  case (er_new sid market mode revision e)
  then show ?case by (auto simp: engine_new_def book_inv_def default_runtime_def split: option.splits)
next
  case (er_step e e')
  have "se_strategy_id e' = se_strategy_id e" "se_revision e' = se_revision e"
    using engine_trans_static [OF er_step.hyps(2)] by (simp_all add: static_part_def)
  then show ?case
    using engine_trans_book [OF er_step.hyps(2) engine_reach_inv [OF er_step.hyps(1)]] er_step by simp
qed

end
