(* ===== verification/DecimalFit.thy ===== *)
theory DecimalFit
  imports Domain
begin

text \<open>
  Arithmetic of \<open>rust_decimal\<close>. A \<open>Decimal\<close> is a 96-bit integer with at most 28 decimal places; an
  operation whose exact result is again such a number returns it, any other result is rounded or
  overflows. The locale \<open>fitting_decimal\<close> says the former and leaves the latter open; what fits is a
  matter of the concrete numbers, and a theorem that needs it says of which numbers.
\<close>

subsection \<open>Representable numbers\<close>

definition decimal_fits :: "decimal \<Rightarrow> bool" where
  "decimal_fits x \<longleftrightarrow> (\<exists>n \<le> 28. has_dp n x \<and> \<bar>x\<bar> * 10 ^ n < 2 ^ 96)"

lemma decimal_fitsI: "n \<le> 28 \<Longrightarrow> has_dp n x \<Longrightarrow> \<bar>x\<bar> * 10 ^ n < 2 ^ 96 \<Longrightarrow> decimal_fits x"
  by (auto simp: decimal_fits_def)

lemma decimal_fits_int: "\<bar>k\<bar> < 2 ^ 96 \<Longrightarrow> decimal_fits (of_int k)"
  by (rule decimal_fitsI [of 0]) (simp_all add: has_dp_def of_int_less_iff [symmetric, where 'a = rat] del: of_int_less_iff)

lemma decimal_fits_zero [simp]: "decimal_fits 0"
  using decimal_fits_int [of 0] by simp

lemma decimal_fits_one [simp]: "decimal_fits 1"
  using decimal_fits_int [of 1] by simp

lemma decimal_fits_numeral: "(numeral k :: int) < 2 ^ 96 \<Longrightarrow> decimal_fits (numeral k)"
  using decimal_fits_int [of "numeral k"] by simp

lemma has_dp_zero [simp]: "has_dp n 0"
  by (simp add: has_dp_def)

lemma has_dp_mono: "n \<le> m \<Longrightarrow> has_dp n x \<Longrightarrow> has_dp m x"
proof -
  assume "n \<le> m" "has_dp n x"
  then have "x * 10 ^ n \<in> \<int>" by (simp add: has_dp_def)
  then have "x * 10 ^ n * 10 ^ (m - n) \<in> \<int>" by (rule Ints_mult) simp
  with \<open>n \<le> m\<close> show ?thesis by (simp add: has_dp_def mult.assoc power_add [symmetric])
qed

lemma decimal_fits_dp28: "decimal_fits x \<Longrightarrow> has_dp 28 x"
  by (auto simp: decimal_fits_def intro: has_dp_mono)

text \<open>The numbers of a list have \<open>n\<close> decimal places at most, none is negative, and their total fits: then
  every partial sum does.\<close>

definition sums_fit :: "nat \<Rightarrow> decimal list \<Rightarrow> bool" where
  "sums_fit n xs \<longleftrightarrow> n \<le> 28 \<and> list_all (\<lambda>x. 0 \<le> x \<and> has_dp n x) xs \<and> sum_list xs * 10 ^ n < 2 ^ 96"

lemma sums_fit_part:
  assumes "sums_fit n xs" "0 \<le> x" "has_dp n x" "x \<le> sum_list xs"
  shows "decimal_fits x"
proof (rule decimal_fitsI)
  have "\<bar>x\<bar> * 10 ^ n \<le> sum_list xs * 10 ^ n" using assms(2,4) by (intro mult_right_mono) simp_all
  also have "\<dots> < 2 ^ 96" using assms(1) by (simp only: sums_fit_def)
  finally show "\<bar>x\<bar> * 10 ^ n < 2 ^ 96" .
qed (use assms in \<open>simp_all add: sums_fit_def\<close>)

lemma sum_list_ge_0: "list_all (\<lambda>x. 0 \<le> x \<and> P x) xs \<Longrightarrow> 0 \<le> sum_list (xs :: decimal list)"
  by (induction xs) simp_all

lemma sums_fit_filter:
  assumes "sums_fit n (map f xs)"
  shows "sums_fit n (map f (filter P xs))"
proof -
  have nonneg: "list_all (\<lambda>x. 0 \<le> x \<and> has_dp n x) (map f xs)" using assms by (simp add: sums_fit_def)
  then have "sum_list (map f (filter P xs)) \<le> sum_list (map f xs)" by (induction xs) auto
  then have "sum_list (map f (filter P xs)) * 10 ^ n \<le> sum_list (map f xs) * 10 ^ n" by (intro mult_right_mono) simp_all
  also have "\<dots> < 2 ^ 96" using assms by (simp only: sums_fit_def)
  finally have "sum_list (map f (filter P xs)) * 10 ^ n < 2 ^ 96" .
  moreover have "list_all (\<lambda>x. 0 \<le> x \<and> has_dp n x) (map f (filter P xs))"
    using nonneg by (simp add: list_all_iff)
  ultimately show ?thesis using assms by (simp only: sums_fit_def)
qed

lemma sums_fit_member:
  assumes "sums_fit n xs" "x \<in> set xs"
  shows "decimal_fits x"
proof (rule sums_fit_part [OF assms(1)])
  have nonneg: "list_all (\<lambda>x. 0 \<le> x \<and> has_dp n x) xs" using assms(1) by (simp add: sums_fit_def)
  then show "0 \<le> x" "has_dp n x" using assms(2) by (simp_all add: list_all_iff)
  show "x \<le> sum_list xs" using nonneg assms(2)
  proof (induction xs)
    case (Cons y ys)
    then have "0 \<le> sum_list ys" by (simp add: sum_list_ge_0 [of "has_dp n"])
    with Cons show ?case by (cases "x = y") (auto intro: add_increasing)
  qed simp
qed

subsection \<open>Operations\<close>

locale fitting_decimal =
  fixes E :: env
  assumes fit_add: "decimal_fits x \<Longrightarrow> decimal_fits y \<Longrightarrow> decimal_fits (x + y) \<Longrightarrow> d_add E x y = x + y"
    and fit_sub: "decimal_fits x \<Longrightarrow> decimal_fits y \<Longrightarrow> decimal_fits (x - y) \<Longrightarrow> d_sub E x y = x - y"
    and fit_mul: "decimal_fits x \<Longrightarrow> decimal_fits y \<Longrightarrow> decimal_fits (x * y) \<Longrightarrow> d_mul E x y = x * y"
    and fit_div: "y \<noteq> 0 \<Longrightarrow> decimal_fits x \<Longrightarrow> decimal_fits y \<Longrightarrow> decimal_fits (x / y) \<Longrightarrow> d_div E x y = x / y"
begin

lemma fold_add_fits:
  assumes "sums_fit n (a # xs)"
  shows "fold (\<lambda>x acc. d_add E acc x) xs a = a + sum_list xs"
  using assms
proof (induction xs arbitrary: a)
  case (Cons x xs)
  have parts: "0 \<le> a" "0 \<le> x" "has_dp n a" "has_dp n x" "list_all (\<lambda>x. 0 \<le> x \<and> has_dp n x) xs"
    using Cons.prems by (simp_all add: sums_fit_def)
  then have tail: "0 \<le> sum_list xs" by (rule_tac sum_list_ge_0)
  have "decimal_fits a" "decimal_fits x" using Cons.prems by (simp_all add: sums_fit_member)
  moreover have "decimal_fits (a + x)"
    using Cons.prems parts tail by (intro sums_fit_part [OF Cons.prems]) (simp_all add: has_dp_add)
  ultimately have "d_add E a x = a + x" by (rule fit_add)
  moreover have "sums_fit n ((a + x) # xs)"
    using Cons.prems parts by (simp add: sums_fit_def has_dp_add add.assoc)
  ultimately show ?case using Cons.IH [of "a + x"] by (simp add: add.assoc)
qed simp

lemma fold_add_fits_zero: "sums_fit n xs \<Longrightarrow> fold (\<lambda>x acc. d_add E acc x) xs 0 = sum_list xs"
  using fold_add_fits [of n 0 xs] by (simp add: sums_fit_def has_dp_def)

end

text \<open>Two instances: arithmetic that never rounds, and arithmetic that cuts every result to 28 places.\<close>

interpretation plain_fit: fitting_decimal "env_of (\<lambda>x. x) prs shw" for prs shw
  by unfold_locales simp_all

lemma trunc28_dp: "has_dp 28 x \<Longrightarrow> trunc28 x = x"
  by (auto simp: has_dp_def trunc28_def elim!: Ints_cases)

interpretation cut_fit: fitting_decimal "env_of trunc28 prs shw" for prs shw
  by unfold_locales (simp_all add: trunc28_dp decimal_fits_dp28)

subsection \<open>Long and short totals\<close>

text \<open>Both engines sum quantity and cost of what is held on each side; an item is its side (short or not),
  its quantity and its cost.\<close>

definition add_sided ::
  "env \<Rightarrow> bool \<times> decimal \<times> decimal \<Rightarrow> (decimal \<times> decimal) \<times> decimal \<times> decimal
   \<Rightarrow> (decimal \<times> decimal) \<times> decimal \<times> decimal" where
  "add_sided E item acc =
     (let ((long_quantity, long_cost), (short_quantity, short_cost)) = acc; (is_short, quantity, cost) = item
      in if is_short then ((long_quantity, long_cost), (d_add E short_quantity quantity, d_add E short_cost cost))
         else ((d_add E long_quantity quantity, d_add E long_cost cost), (short_quantity, short_cost)))"

definition side_items :: "bool \<Rightarrow> (bool \<times> decimal \<times> decimal) list \<Rightarrow> (bool \<times> decimal \<times> decimal) list" where
  "side_items b items = filter (\<lambda>item. fst item = b) items"

abbreviation item_quantity :: "bool \<times> decimal \<times> decimal \<Rightarrow> decimal" where
  "item_quantity item \<equiv> fst (snd item)"

abbreviation item_cost :: "bool \<times> decimal \<times> decimal \<Rightarrow> decimal" where
  "item_cost item \<equiv> snd (snd item)"

lemma fold_add_sided:
  "fold (add_sided E) items ((a, b), (c, d)) =
     ((fold (\<lambda>x acc. d_add E acc x) (map item_quantity (side_items False items)) a,
       fold (\<lambda>x acc. d_add E acc x) (map item_cost (side_items False items)) b),
      (fold (\<lambda>x acc. d_add E acc x) (map item_quantity (side_items True items)) c,
       fold (\<lambda>x acc. d_add E acc x) (map item_cost (side_items True items)) d))"
  by (induction items arbitrary: a b c d) (auto simp: add_sided_def side_items_def)

text \<open>What a side holds: the exact totals, with the quotient the program computes as the average price.\<close>

definition side_quantity :: "bool \<Rightarrow> (bool \<times> decimal \<times> decimal) list \<Rightarrow> decimal" where
  "side_quantity b items = sum_list (map item_quantity (side_items b items))"

definition side_cost :: "bool \<Rightarrow> (bool \<times> decimal \<times> decimal) list \<Rightarrow> decimal" where
  "side_cost b items = sum_list (map item_cost (side_items b items))"

definition held_position ::
  "env \<Rightarrow> StrategyMarket \<Rightarrow> StrategyMode \<Rightarrow> bool \<Rightarrow> (bool \<times> decimal \<times> decimal) list \<Rightarrow> StrategyRuntimePosition list" where
  "held_position E market mode b items =
     (if side_quantity b items > 0
      then [\<lparr>po_market = market, po_mode = mode, po_quantity = side_quantity b items,
             po_average_entry_price = d_div E (side_cost b items) (side_quantity b items)\<rparr>] else [])"

lemma side_quantities_sum: "side_quantity False items + side_quantity True items = sum_list (map item_quantity items)"
  by (induction items) (auto simp: side_quantity_def side_items_def)

lemma held_position_quantity:
  assumes "list_all (\<lambda>i. 0 < item_quantity i) items"
  shows "sum_list (map po_quantity (held_position E market mode b items)) = side_quantity b items"
proof -
  have "0 \<le> side_quantity b items"
    using assms by (induction items) (auto simp: side_quantity_def side_items_def)
  then show ?thesis by (auto simp: held_position_def)
qed

context fitting_decimal
begin

lemma sided_totals:
  assumes "sums_fit n (map item_quantity items)"
  shows "fst (fst (fold (add_sided E) items ((0, 0), (0, 0)))) = side_quantity False items"
    and "fst (snd (fold (add_sided E) items ((0, 0), (0, 0)))) = side_quantity True items"
  by (simp_all only: fold_add_sided fst_conv snd_conv side_quantity_def side_items_def fold_add_fits_zero [OF sums_fit_filter [OF assms]])

lemma sided_costs:
  assumes "sums_fit m (map item_cost items)"
  shows "snd (fst (fold (add_sided E) items ((0, 0), (0, 0)))) = side_cost False items"
    and "snd (snd (fold (add_sided E) items ((0, 0), (0, 0)))) = side_cost True items"
  by (simp_all only: fold_add_sided fst_conv snd_conv side_cost_def side_items_def fold_add_fits_zero [OF sums_fit_filter [OF assms]])

end

end
