(* ===== verification/EngineProps.thy ===== *)
theory EngineProps
  imports EngineBook DecimalFit
begin

text \<open>
  The theorems about the strategy engine, with a concrete engine at which their hypotheses hold.
\<close>

subsection \<open>A concrete engine\<close>

definition demo_revision :: StrategyRevision where
  "demo_revision =
     \<lparr>rv_revision_id = ''strategy-1-revision-1'', rv_version = 1, rv_strategy_type = OrdinaryGrid,
      rv_generation = Custom,
      rv_levels =
        [\<lparr>gl_level_index = 0, gl_entry_price = 100, gl_quantity = 2, gl_take_profit_bps = 100,
          gl_trailing_bps = None\<rparr>,
         \<lparr>gl_level_index = 1, gl_entry_price = 90, gl_quantity = 1, gl_take_profit_bps = 100,
          gl_trailing_bps = Some 50\<rparr>],
      rv_amount_mode = Quote, rv_futures_margin_mode = None, rv_leverage = None,
      rv_reference_price_source = Manual, rv_reference_price = None,
      rv_overall_take_profit_bps = Some 1000, rv_overall_stop_loss_bps = Some 1000,
      rv_post_trigger_action = Stop\<rparr>"

definition demo_engine :: StrategyRuntimeEngine where
  "demo_engine =
     \<lparr>se_strategy_id = ''strategy-1'', se_market = Spot, se_mode = SpotBuyOnly,
      se_revision = demo_revision, se_runtime = default_runtime, se_open_levels = [],
      se_running = False, se_draining = False, se_stop_after_take_profit = False,
      se_fill_sequence = 0\<rparr>"

lemma demo_engine_new: "engine_new ''strategy-1'' Spot SpotBuyOnly demo_revision = Inr demo_engine"
  by (simp add: engine_new_def demo_engine_def demo_revision_def)

definition demo_started :: StrategyRuntimeEngine where
  "demo_started = snd (engine_start plain_env demo_engine)"

lemma demo_started_reach: "engine_reach plain_env demo_started"
  unfolding demo_started_def by (rule er_step [OF er_new [OF demo_engine_new] et_start])

lemma demo_plain_id: "plain_id ''strategy-1''"
  by (simp add: plain_id_def)

lemma demo_started_static:
  "se_strategy_id demo_started = ''strategy-1''" "se_revision demo_started = demo_revision"
  using engine_start_static [of plain_env demo_engine]
  by (simp_all add: demo_started_def static_part_def demo_engine_def)

lemmas engine_eval =
  engine_start_def start_ordinary_grid_def fill_entry_def andthen_def level_for_def
  initial_entry_side_def ordinary_entry_side_def reference_price_def or_else_def entry_order_id_def
  take_profit_order_id_def trailing_order_id_def active_exit_order_id_def is_entry_of_def is_entry_order_def
  upsert_exit_order_def upsert_def activate_entry_order_def recompute_position_def computed_positions_def
  accumulate_sides_def log_event_def push_event_def fill_id_of_def take_profit_price_def
  take_profit_price_from_bps_def take_profit_price_from_percent_def d_of_u32_def exit_side_def
  effective_reference_price_def level_sort_key_def show_u32_def show_nat_def show_base.simps digit_def Let_def

lemma demo_started_eval:
  "se_running demo_started" "length (se_fills demo_started) = 1" "\<not> se_draining demo_started"
  "map ol_level_index (se_open_levels demo_started) = [0]"
  "map ol_quantity (se_open_levels demo_started) = [2]"
  "map ol_closing_requested (se_open_levels demo_started) = [False]"
  "map ro_status (se_orders demo_started) = [''Filled'', ''Working'', ''Working'']"
  by (simp_all add: demo_started_def demo_engine_def demo_revision_def default_runtime_def engine_eval string_simps)

subsection \<open>Positions\<close>

text \<open>The open levels as items of the two sides, and the positions they make up.\<close>

definition level_item :: "OpenLevelState \<Rightarrow> bool \<times> decimal \<times> decimal" where
  "level_item l = (ol_is_short l, ol_quantity l, ol_entry_price l * ol_quantity l)"

definition held_positions :: "env \<Rightarrow> StrategyMarket \<Rightarrow> OpenLevelState list \<Rightarrow> StrategyRuntimePosition list" where
  "held_positions E market levels =
     held_position E market (if market = Spot then SpotBuyOnly else FuturesLong) False (map level_item levels)
     @ held_position E market (if market = Spot then SpotSellOnly else FuturesShort) True (map level_item levels)"

lemma item_projections: "item_quantity \<circ> level_item = ol_quantity" "item_cost \<circ> level_item = (\<lambda>l. ol_entry_price l * ol_quantity l)"
  by (auto simp: level_item_def)

context fitting_decimal
begin

lemma accumulate_sides_items:
  assumes "sums_fit n (map ol_quantity levels)" "sums_fit m (map (\<lambda>l. ol_entry_price l * ol_quantity l) levels)"
    and "list_all (\<lambda>l. decimal_fits (ol_entry_price l)) levels"
  shows "fold (accumulate_sides E) levels acc = fold (add_sided E) (map level_item levels) acc"
proof -
  have "d_mul E (ol_entry_price l) (ol_quantity l) = ol_entry_price l * ol_quantity l" if "l \<in> set levels" for l
    using that assms by (intro fit_mul) (auto simp: list_all_iff intro: sums_fit_member)
  then have "accumulate_sides E l acc = add_sided E (level_item l) acc" if "l \<in> set levels" for l acc
    using that by (simp add: accumulate_sides_def add_sided_def level_item_def split_beta)
  then show ?thesis by (induction levels arbitrary: acc) simp_all
qed

lemma computed_positions_held:
  assumes "sums_fit n (map ol_quantity levels)" "sums_fit m (map (\<lambda>l. ol_entry_price l * ol_quantity l) levels)"
    and "list_all (\<lambda>l. decimal_fits (ol_entry_price l)) levels"
  shows "computed_positions E market levels = held_positions E market levels"
proof -
  have q: "sums_fit n (map item_quantity (map level_item levels))" and c: "sums_fit m (map item_cost (map level_item levels))"
    using assms(1,2) by (simp_all add: item_projections)
  obtain lq lc sq sc where t: "fold (add_sided E) (map level_item levels) ((0, 0), (0, 0)) = ((lq, lc), (sq, sc))"
    by (metis prod.exhaust)
  have "lq = side_quantity False (map level_item levels)" "sq = side_quantity True (map level_item levels)"
    "lc = side_cost False (map level_item levels)" "sc = side_cost True (map level_item levels)"
    using sided_totals [OF q] sided_costs [OF c] by (simp_all add: t)
  then show ?thesis
    unfolding computed_positions_def held_positions_def held_position_def accumulate_sides_items [OF assms] t by simp
qed

end

subsection \<open>Draining\<close>

definition live_entry :: "StrategyRuntimeOrder \<Rightarrow> bool" where
  "live_entry o' \<longleftrightarrow> is_entry_order o' \<and> ro_status o' \<in> {''Working'', ''Placed'', ''PartiallyFilled''}"

definition quiet :: "StrategyRuntimeOrder list \<Rightarrow> bool" where
  "quiet os \<longleftrightarrow> (\<forall>o' \<in> set os. \<not> live_entry o')"

lemma exit_id_not_entry:
  assumes "plain_id sid" "ro_order_id o' = active_exit_order_id sid i t"
  shows "\<not> live_entry o'"
  using assms(2) kind_of_id(1) [OF assms(1), of "''tp''"] kind_of_id(1) [OF assms(1), of "''trail''"]
  by (auto simp: live_entry_def is_entry_order_def active_exit_order_id_def order_ids_kind split: if_splits)

lemma quiet_update_first:
  assumes "quiet os" "\<And>x. x \<in> set os \<Longrightarrow> P x \<Longrightarrow> \<not> live_entry (f x)"
  shows "quiet (update_first P f os)"
  using assms by (auto simp: quiet_def dest!: set_update_first)

lemma quiet_status:
  assumes "quiet os" "st \<notin> {''Working'', ''Placed'', ''PartiallyFilled''}"
  shows "quiet (update_first P (\<lambda>order. order\<lparr>ro_status := st\<rparr>) os)"
  using assms(1) by (rule quiet_update_first) (use assms(2) in \<open>simp add: live_entry_def\<close>)

lemma upsert_exit_quiet:
  assumes "plain_id (se_strategy_id e)" "quiet (se_orders e)"
  shows "quiet (se_orders (upsert_exit_order E i p q b t short e))"
  unfolding quiet_def
proof
  fix o' assume "o' \<in> set (se_orders (upsert_exit_order E i p q b t short e))"
  then consider "o' \<in> set (se_orders e)" | "ro_order_id o' = active_exit_order_id (se_strategy_id e) i t"
    by (auto simp: upsert_exit_orders new_exit_def dest!: set_upsert)
  then show "\<not> live_entry o'"
    using assms exit_id_not_entry by cases (auto simp: quiet_def)
qed

lemma covers_not_live: "plain_id sid \<Longrightarrow> covers E sid s o' \<Longrightarrow> \<not> live_entry o'"
  using exit_id_not_entry by (auto simp: covers_def)

lemma build_active_orders_quiet:
  "plain_id (se_strategy_id e) \<Longrightarrow> se_draining e \<Longrightarrow> quiet (build_active_orders E ref e)"
  using covers_not_live [OF _ active_exit_covers]
  by (auto simp: quiet_def build_active_orders_def Let_def)

lemma request_level_close_quiet:
  assumes "plain_id (se_strategy_id e)" "quiet (se_orders e)" "request_level_close E i p t e = Some (ev, e')"
  shows "quiet (se_orders e') \<and> se_strategy_id e' = se_strategy_id e"
proof -
  obtain st where st: "find (\<lambda>s. ol_level_index s = i) (se_open_levels e) = Some st"
    using assms(3) by (auto simp: request_level_close_def split: option.splits)
  have "quiet (update_first (\<lambda>order. ro_order_id order = active_exit_order_id (se_strategy_id e) i (ol_trailing_bps st))
     (\<lambda>order. order\<lparr>ro_exchange_order_id := None, ro_side := exit_side (ol_is_short st), ro_order_type := ''Market'',
        ro_price := None, ro_quantity := ol_quantity st, ro_status := ''ClosingRequested''\<rparr>) (se_orders e))"
    using assms(2) by (rule quiet_update_first) (simp add: live_entry_def)
  then show ?thesis
    using assms(3) by (auto simp: request_level_close_def st Let_def log_event_def push_event_def)
qed

lemma request_closures_quiet:
  "plain_id (se_strategy_id e) \<Longrightarrow> quiet (se_orders e) \<Longrightarrow> request_closures E cs em e = Some (em', e')
   \<Longrightarrow> quiet (se_orders e')"
proof (induction cs arbitrary: em e)
  case (Cons c cs)
  obtain i p t where c: "c = (i, p, t)" by (cases c)
  with Cons.prems(3) obtain ev e1 where r: "request_level_close E i p t e = Some (ev, e1)"
    and rest: "request_closures E cs (em @ [ev]) e1 = Some (em', e')"
    by (auto split: option.splits)
  then show ?case
    using request_level_close_quiet [OF Cons.prems(1,2) r] Cons.IH [OF _ _ rest] Cons.prems(1) by simp
qed simp

lemma engine_on_price_quiet:
  assumes "plain_id (se_strategy_id e)" "quiet (se_orders e)" "engine_on_price E p e = Some (r, e')"
  shows "quiet (se_orders e')"
proof (cases rule: engine_on_price_cases [of e E p])
  case (overall t)
  then show ?thesis using assms by auto
next
  case (trail em e'')
  obtain evs cs ol where loop:
      "map_accum (trail_level E p) (se_events e, []) (se_open_levels e) = ((evs, cs), ol)"
    by (metis surj_pair)
  let ?e = "e\<lparr>se_open_levels := ol, se_runtime := (se_runtime e)\<lparr>rt_events := evs\<rparr>\<rparr>"
  have "request_closures E cs [] ?e = Some (em, e'')"
    using trail loop by (simp add: engine_on_price_def split: option.splits prod.splits)
  then have "quiet (se_orders e'')" by (rule request_closures_quiet [rotated 2]) (use assms in simp_all)
  then show ?thesis using trail(2) assms(3) by simp
qed (use assms in simp)

lemma engine_trans_quiet:
  assumes "engine_trans E e e'" "plain_id (se_strategy_id e)" "se_draining e" "se_draining e'"
    and "se_fills e \<noteq> []" and q: "quiet (se_orders e)"
  shows "quiet (se_orders e')"
  using assms(1)
proof cases
  case et_start
  then show ?thesis using assms(2,3,5)
    by (auto simp: engine_start_def Let_def andthen_def build_active_orders_quiet)
next
  case (et_fill_entry i)
  show ?thesis
  proof (cases "level_for i e")
    case (Inr level)
    have "quiet (se_orders (entry_filled E i level e))" using quiet_status [OF q, of "''Filled''"] by simp
    then show ?thesis using assms(2) by (simp add: et_fill_entry fill_entry_eq [OF Inr] upsert_exit_quiet)
  qed (use q in \<open>simp add: et_fill_entry fill_entry_def\<close>)
next
  case (et_take_profit i p r)
  show ?thesis
  proof (cases "find (\<lambda>s. ol_level_index s = i) (se_open_levels e)")
    case (Some st)
    have "quiet (se_orders (level_closed E i p st e))"
      using quiet_status [OF q, of "''Filled''"] assms(3) by (simp add: level_closed_def Let_def)
    then show ?thesis using et_take_profit
      by (auto simp: record_take_profit_fill_eq Some maybe_stop_after_draining_def split: if_splits)
  qed (use q et_take_profit in \<open>simp add: record_take_profit_fill_eq\<close>)
next
  case (et_price p r)
  then show ?thesis using engine_on_price_quiet assms(2) q by blast
next
  case et_pause
  then show ?thesis using q by (auto simp: engine_pause_def quiet_def pause_order_def live_entry_def is_entry_order_def)
next
  case (et_resume ref)
  then show ?thesis using assms(2,3) by (simp add: resume_with_reference_price_def Let_def build_active_orders_quiet)
next
  case (et_stop_flag b)
  then show ?thesis using q by (simp add: set_stop_after_take_profit_def)
next
  case et_drain
  then show ?thesis using q assms(3) by (auto simp: enable_only_sell_no_buy_def)
qed

subsection \<open>Theorems\<close>

text \<open>C17: In every state an engine can reach from \<open>new\<close>, \<open>fill_sequence\<close> is the number of recorded
  fills (modulo \<open>2^64\<close>), and the fill ids are \<open><strategy>-fill-1\<close> to \<open><strategy>-fill-n\<close> in
  order, hence pairwise distinct below \<open>2^64\<close> fills.\<close>

theorem engine_fill_ledger:
  assumes "engine_reach E e"
  shows "se_fill_sequence e = of_nat (length (se_fills e))
    \<and> map fi_fill_id (se_fills e) =
        map (\<lambda>n. fill_id_of (se_strategy_id e) (of_nat (Suc n))) [0..<length (se_fills e)]
    \<and> (length (se_fills e) < 2 ^ 64 \<longrightarrow> distinct (map fi_fill_id (se_fills e)))"
proof -
  have c: "fills_counted e" using engine_reach_inv [OF assms] by (simp add: engine_inv_def)
  have "distinct (map (\<lambda>n. fill_id_of (se_strategy_id e) (of_nat (Suc n))) [0..<length (se_fills e)])"
    if "length (se_fills e) < 2 ^ 64"
  proof -
    have u: "unat (of_nat (Suc n) :: u64) = Suc n" if "n < length (se_fills e)" for n
      using that \<open>length (se_fills e) < 2 ^ 64\<close> by (simp add: unat_of_nat take_bit_nat_eq_self_iff del: of_nat_Suc)
    have "n = m" if "n < length (se_fills e)" "m < length (se_fills e)"
      "fill_id_of (se_strategy_id e) (of_nat (Suc n)) = fill_id_of (se_strategy_id e) (of_nat (Suc m))" for n m
      using that by (simp add: fill_id_of_def u del: of_nat_Suc)
    then show ?thesis by (simp add: distinct_map inj_on_def del: of_nat_Suc)
  qed
  then show ?thesis using c unfolding fills_counted_def by simp
qed

theorem engine_fill_ledger_witness:
  "engine_reach plain_env demo_started \<and> se_fill_sequence demo_started = 1
   \<and> distinct (map fi_fill_id (se_fills demo_started))"
  using engine_fill_ledger [OF demo_started_reach] demo_started_reach by (simp add: demo_started_eval)

text \<open>C12: The positions of a reachable engine are what its open levels hold. As long as quantity and cost
  of the open levels stay within the range of a decimal (\<open>n\<close> and \<open>m\<close> places, a total below 96 bits), no
  rounding enters the sums: each side with an open level has one position, its quantity is the exact
  total of the levels of the side and its average price is the exact cost divided by it, and the positions
  together hold the exact quantity of the open levels.\<close>

theorem engine_positions_conserved:
  assumes "engine_reach E e" "fitting_decimal E" "\<forall>l \<in> set (rv_levels (se_revision e)). 0 < gl_quantity l"
    and "sums_fit n (map ol_quantity (se_open_levels e))"
    and "sums_fit m (map (\<lambda>l. ol_entry_price l * ol_quantity l) (se_open_levels e))"
    and "list_all (\<lambda>l. decimal_fits (ol_entry_price l)) (se_open_levels e)"
  shows "se_positions e = held_positions E (se_market e) (se_open_levels e)
    \<and> sum_list (map po_quantity (se_positions e)) = sum_list (map ol_quantity (se_open_levels e))"
proof -
  have inv: "engine_inv E e" by (rule engine_reach_inv [OF assms(1)])
  have "0 < ol_quantity s" if "level_from_revision (se_revision e) s" for s
    using that assms(3) by (auto simp: level_from_revision_def find_Some_iff split: option.splits)
  then have "list_all (\<lambda>i. 0 < item_quantity i) (map level_item (se_open_levels e))"
    using inv by (auto simp: engine_inv_def list_all_iff level_item_def)
  note q = held_position_quantity [OF this]
  have "se_positions e = held_positions E (se_market e) (se_open_levels e)"
    using inv fitting_decimal.computed_positions_held [OF assms(2,4,5,6)] by (simp add: engine_inv_def)
  moreover have "sum_list (map po_quantity (held_positions E (se_market e) (se_open_levels e))) =
      sum_list (map ol_quantity (se_open_levels e))"
    by (simp add: held_positions_def q side_quantities_sum item_projections)
  ultimately show ?thesis by simp
qed

theorem engine_positions_conserved_witness:
  "sum_list (map po_quantity (se_positions demo_started)) = 2"
proof -
  have "map ol_entry_price (se_open_levels demo_started) = [100]"
    by (simp add: demo_started_def demo_engine_def demo_revision_def default_runtime_def engine_eval string_simps)
  then obtain l where l: "se_open_levels demo_started = [l]" "ol_entry_price l = 100" "ol_quantity l = 2"
    using demo_started_eval(5) by (auto simp: map_eq_Cons_conv)
  have revision: "\<forall>l \<in> set (rv_levels (se_revision demo_started)). 0 < gl_quantity l"
    by (simp add: demo_started_static demo_revision_def)
  have "sums_fit 0 (map ol_quantity (se_open_levels demo_started))"
    "sums_fit 0 (map (\<lambda>l. ol_entry_price l * ol_quantity l) (se_open_levels demo_started))"
    "list_all (\<lambda>l. decimal_fits (ol_entry_price l)) (se_open_levels demo_started)"
    by (simp_all add: l sums_fit_def has_dp_def decimal_fits_numeral)
  from engine_positions_conserved [OF demo_started_reach plain_fit.fitting_decimal_axioms revision this, THEN conjunct2]
  show ?thesis by (simp add: l)
qed

text \<open>Whatever state a snapshot of a reachable engine is restored from, the draining flag, the
  stop-after-take-profit flag and the fill sequence come back as the engine had them.\<close>

theorem snapshot_restores_flags:
  assumes "engine_reach E e"
    and "from_runtime_snapshot E (se_strategy_id e) (se_market e) (se_mode e) (se_revision e)
           (se_runtime e) (se_running e) = Inr e'"
  shows "se_draining e' = se_draining e \<and> se_stop_after_take_profit e' = se_stop_after_take_profit e
    \<and> se_fill_sequence e' = se_fill_sequence e \<and> se_running e' = se_running e
    \<and> se_orders e' = se_orders e \<and> se_fills e' = se_fills e \<and> se_events e' = se_events e"
proof -
  have inv: "engine_inv E e" by (rule engine_reach_inv [OF assms(1)])
  from assms(2) obtain ol eng where
    "e' = recompute_position E (eng\<lparr>se_runtime := se_runtime e, se_running := se_running e,
       se_draining := restore_draining_state (se_runtime e),
       se_stop_after_take_profit := restore_stop_after_take_profit (se_runtime e),
       se_fill_sequence := of_nat (length (se_fills e)), se_open_levels := ol\<rparr>)"
    by (auto simp: from_runtime_snapshot_def bind_res_eq_Inr simp del: of_nat_Suc)
  then show ?thesis using inv by (simp add: engine_inv_def fills_counted_def restore_of_events)
qed

theorem snapshot_restores_flags_witness:
  "case from_runtime_snapshot plain_env ''strategy-1'' Spot SpotBuyOnly demo_revision
          (se_runtime demo_engine) False of
     Inr e' \<Rightarrow> se_fill_sequence e' = 0 \<and> \<not> se_draining e' | Inl _ \<Rightarrow> False"
proof -
  obtain e' where e': "from_runtime_snapshot plain_env ''strategy-1'' Spot SpotBuyOnly demo_revision
          (se_runtime demo_engine) False = Inr e'"
    by (simp add: from_runtime_snapshot_def derive_open_levels_def demo_engine_new)
      (simp add: demo_engine_def default_runtime_def)
  have "engine_reach plain_env demo_engine" by (rule er_new [OF demo_engine_new])
  from snapshot_restores_flags [OF this, of e'] e' show ?thesis by (simp add: demo_engine_def)
qed

lemma engine_never_panics_lemma:
  "\<exists>r e'. engine_on_price E p e = Some (r, e')" "\<exists>r e'. record_take_profit_fill E i p e = Some (r, e')"
proof -
  show "\<exists>r e'. engine_on_price E p e = Some (r, e')"
    by (cases rule: engine_on_price_cases [of e E p]) auto
  show "\<exists>r e'. record_take_profit_fill E i p e = Some (r, e')"
    by (simp add: record_take_profit_fill_eq split: option.split)
qed

text \<open>C16: The two \<open>expect("open level must exist")\<close> of the engine never panic: on every engine
  state, a price tick and a take-profit fill return; a fill of a level that is not open returns the
  error and leaves the engine unchanged.\<close>

theorem engine_never_panics:
  "engine_on_price E p e \<noteq> None \<and> record_take_profit_fill E i p e \<noteq> None
   \<and> (i \<in> ol_level_index ` set (se_open_levels e)
      \<or> record_take_profit_fill E i p e = Some (Inl ''open level not found'', e))"
proof -
  have "engine_on_price E p e \<noteq> None" "record_take_profit_fill E i p e \<noteq> None"
    using engine_never_panics_lemma by force+
  moreover have "record_take_profit_fill E i p e = Some (Inl ''open level not found'', e)"
    if "i \<notin> ol_level_index ` set (se_open_levels e)"
  proof -
    have "find (\<lambda>s. ol_level_index s = i) (se_open_levels e) = None"
      using that by (auto simp: find_None_iff)
    then show ?thesis by (simp add: record_take_profit_fill_eq)
  qed
  ultimately show ?thesis by blast
qed

text \<open>C1: While a reachable engine runs, order ids are unique and every open level has an exit order
  with the level's exit id, the closing side and the open quantity: a market order in state
  \<open>ClosingRequested\<close> once the close was requested, else a live take-profit limit order (or trailing
  monitor) at the level's take-profit price. The strategy id must not contain the kind markers, and
  the level indexes of the revision must be distinct.\<close>

theorem engine_exit_cover:
  assumes "engine_reach E e" "se_running e" "plain_id (se_strategy_id e)"
    and "distinct (map gl_level_index (rv_levels (se_revision e)))"
  shows "distinct (map ro_order_id (se_orders e))
    \<and> (\<forall>s \<in> set (se_open_levels e). \<exists>o' \<in> set (se_orders e).
         ro_order_id o' = active_exit_order_id (se_strategy_id e) (ol_level_index s) (ol_trailing_bps s)
         \<and> ro_side o' = exit_side (ol_is_short s) \<and> ro_quantity o' = ol_quantity s
         \<and> (if ol_closing_requested s
            then ro_order_type o' = ''Market'' \<and> ro_status o' = ''ClosingRequested''
            else ro_price o' = Some (take_profit_price E (ol_entry_price s) (ol_take_profit_bps s) (ol_is_short s))
              \<and> ro_status o' \<in> {''Working'', ''Monitoring'', ''Armed''}))"
proof -
  have b: "book_inv E e" by (rule engine_reach_book [OF assms(1,3,4)])
  have c: "covers E (se_strategy_id e) s o' \<Longrightarrow>
         ro_order_id o' = active_exit_order_id (se_strategy_id e) (ol_level_index s) (ol_trailing_bps s)
         \<and> ro_side o' = exit_side (ol_is_short s) \<and> ro_quantity o' = ol_quantity s
         \<and> (if ol_closing_requested s
            then ro_order_type o' = ''Market'' \<and> ro_status o' = ''ClosingRequested''
            else ro_price o' = Some (take_profit_price E (ol_entry_price s) (ol_take_profit_bps s) (ol_is_short s))
              \<and> ro_status o' \<in> {''Working'', ''Monitoring'', ''Armed''})" for s o'
    by (auto simp: covers_def split: if_splits)
  show ?thesis using b assms(2) c unfolding book_inv_def by blast
qed

theorem engine_exit_cover_witness:
  "\<exists>s \<in> set (se_open_levels demo_started). \<exists>o' \<in> set (se_orders demo_started).
     ol_level_index s = 0 \<and> ro_side o' = exit_side (ol_is_short s) \<and> ro_quantity o' = 2
     \<and> ro_status o' \<in> {''Working'', ''Monitoring'', ''Armed''}"
proof -
  obtain s where s: "se_open_levels demo_started = [s]" "ol_level_index s = 0" "ol_quantity s = 2"
      "\<not> ol_closing_requested s"
    using demo_started_eval(4-6) by (cases "se_open_levels demo_started") auto
  have "distinct (map gl_level_index (rv_levels (se_revision demo_started)))"
    by (simp add: demo_started_static demo_revision_def)
  from engine_exit_cover [OF demo_started_reach demo_started_eval(1) _ this] s show ?thesis
    by (auto simp: demo_started_static demo_plain_id)
qed

text \<open>In a draining engine that has traded and has no live entry order, no method brings one back
  for as long as the engine keeps draining.\<close>

theorem draining_places_no_entry:
  assumes "engine_trans E e e'" "se_draining e" "se_draining e'" "se_fills e \<noteq> []"
    and "plain_id (se_strategy_id e)"
    and "\<forall>o' \<in> set (se_orders e). is_entry_order o' \<longrightarrow>
           ro_status o' \<notin> {''Working'', ''Placed'', ''PartiallyFilled''}"
  shows "\<forall>o' \<in> set (se_orders e'). is_entry_order o' \<longrightarrow>
           ro_status o' \<notin> {''Working'', ''Placed'', ''PartiallyFilled''}"
proof -
  have "quiet (se_orders e)" using assms(6) by (auto simp: quiet_def live_entry_def)
  from engine_trans_quiet [OF assms(1,5,2-4) this] show ?thesis by (auto simp: quiet_def live_entry_def)
qed

definition demo_drained :: StrategyRuntimeEngine where
  "demo_drained = snd (enable_only_sell_no_buy plain_env demo_started)"

lemma demo_drained_eval:
  "se_draining demo_drained" "se_fills demo_drained \<noteq> []" "se_strategy_id demo_drained = ''strategy-1''"
  "map ro_status (se_orders demo_drained) = [''Filled'', ''Working'', ''Canceled'']"
  "map is_entry_order (se_orders demo_drained) = [True, False, True]"
  by (simp_all add: demo_drained_def enable_only_sell_no_buy_def drain_order_def map_accum_Cons
      demo_started_def demo_engine_def demo_revision_def default_runtime_def engine_eval string_simps)

theorem draining_places_no_entry_witness:
  "list_all (\<lambda>o'. ro_status o' \<notin> {''Working'', ''Placed'', ''PartiallyFilled''})
     (filter is_entry_order (se_orders (engine_pause plain_env demo_drained)))"
proof -
  have "\<forall>o' \<in> set (se_orders (engine_pause plain_env demo_drained)). is_entry_order o' \<longrightarrow>
     ro_status o' \<notin> {''Working'', ''Placed'', ''PartiallyFilled''}"
  proof (rule draining_places_no_entry [OF et_pause])
    obtain a b c where os: "se_orders demo_drained = [a, b, c]"
      using arg_cong [OF demo_drained_eval(4), of length] by (auto simp: length_Suc_conv)
    show "\<forall>o' \<in> set (se_orders demo_drained). is_entry_order o' \<longrightarrow>
       ro_status o' \<notin> {''Working'', ''Placed'', ''PartiallyFilled''}"
      using demo_drained_eval(4,5) by (auto simp: os)
  qed (use demo_drained_eval demo_plain_id in \<open>simp_all add: engine_pause_def\<close>)
  then show ?thesis by (simp add: list_all_iff)
qed

text \<open>\<open>enable_only_sell_no_buy\<close> on a running single-sided engine that is not draining yet starts
  draining, returns the sorted ids of exactly the live entry orders, and leaves these canceled with no
  exchange id while every other order is unchanged; in every other case it changes nothing.\<close>

theorem enable_only_sell_no_buy_cancels:
  "if ordinary_entry_side (se_mode e) \<noteq> None \<and> se_running e \<and> \<not> se_draining e
   then fst (enable_only_sell_no_buy E e) =
          Inr \<lparr>rc_cancel_order_ids = sort (map ro_order_id (filter live_entry (se_orders e))), rc_stopped = False\<rparr>
        \<and> se_draining (snd (enable_only_sell_no_buy E e))
        \<and> se_orders (snd (enable_only_sell_no_buy E e)) =
            map (\<lambda>o'. if live_entry o' then o'\<lparr>ro_exchange_order_id := None, ro_status := ''Canceled''\<rparr> else o')
              (se_orders e)
        \<and> se_open_levels (snd (enable_only_sell_no_buy E e)) = se_open_levels e
   else snd (enable_only_sell_no_buy E e) = e"
proof -
  have "map_accum drain_order acc os = (acc @ map ro_order_id (filter live_entry os),
     map (\<lambda>o'. if live_entry o' then o'\<lparr>ro_exchange_order_id := None, ro_status := ''Canceled''\<rparr> else o') os)"
    for acc os
    by (induction os arbitrary: acc) (simp_all add: map_accum_Cons drain_order_def live_entry_def)
  then show ?thesis by (auto simp: enable_only_sell_no_buy_def)
qed

text \<open>A price tick on an engine that is not running does nothing. On a running engine it either
  crosses an overall threshold, then it only stops the engine and logs the one event it returns; or
  it leaves the engine running with the same fills, positions, flags and open levels (up to
  their trailing anchors and closing marks).\<close>

theorem engine_tick_effects:
  "\<exists>es e'. engine_on_price E p e = Some (Inr es, e') \<and>
     (if \<not> se_running e then es = [] \<and> e' = e
      else if should_trigger_overall_take_profit E p e \<or> should_trigger_overall_stop_loss E p e
      then \<not> se_running e' \<and> (\<exists>ev. es = [ev] \<and> ev_price ev = Some p
             \<and> e' = e\<lparr>se_running := False, se_runtime := (se_runtime e)\<lparr>rt_events := se_events e @ [ev]\<rparr>\<rparr>)
      else se_running e' \<and> se_fills e' = se_fills e \<and> se_positions e' = se_positions e
           \<and> se_draining e' = se_draining e
           \<and> se_stop_after_take_profit e' = se_stop_after_take_profit e
           \<and> map (\<lambda>s. (ol_level_index s, ol_entry_price s, ol_quantity s, ol_take_profit_bps s,
                       ol_trailing_bps s, ol_is_short s)) (se_open_levels e')
             = map (\<lambda>s. (ol_level_index s, ol_entry_price s, ol_quantity s, ol_take_profit_bps s,
                       ol_trailing_bps s, ol_is_short s)) (se_open_levels e))"
proof (cases rule: engine_on_price_cases [of e E p])
  case (overall t)
  then show ?thesis by (simp add: log_event_def push_event_def Let_def)
next
  case (trail em e'')
  then show ?thesis by (simp add: same_core_def level_core_def [abs_def])
qed simp

lemma activated_entry:
  assumes "level_for i e = Inr level"
    and "initial_entry_side (se_mode e) (gl_level_index level) (gl_entry_price level) (reference_price E None e) = Some side"
  shows "\<exists>o' \<in> set (se_orders (activate_entry_order E i e)). ro_level_index o' = Some i
     \<and> ro_status o' = ''Working'' \<and> ro_order_type o' = ''Limit'' \<and> ro_side o' = side
     \<and> ro_price o' = Some (gl_entry_price level) \<and> ro_quantity o' = gl_quantity level"
  by (simp add: activate_entry_order_def assms del: bex_simps, rule upsert_exists)
    (simp_all add: is_entry_of_def)

lemma find_distinct:
  "distinct (map k xs) \<Longrightarrow> x \<in> set xs \<Longrightarrow> find (\<lambda>y. k y = k x) xs = Some x"
  by (induction xs) (auto simp: image_iff)

lemma filter_distinct_empty:
  assumes "distinct (map k xs)" "x \<in> set xs"
  shows "filter (\<lambda>y. k y \<noteq> k x) xs = [] \<longleftrightarrow> length xs = 1"
proof -
  obtain us vs where xs: "xs = us @ x # vs" using assms(2) by (meson split_list)
  have "k x \<notin> k ` (set us \<union> set vs)" using assms(1) by (auto simp: xs)
  then have "k y \<noteq> k x" if "y \<in> set us \<union> set vs" for y
    using that by (metis imageI)
  then have "filter (\<lambda>y. k y \<noteq> k x) us = us" "filter (\<lambda>y. k y \<noteq> k x) vs = vs"
    by (simp_all add: filter_id_conv)
  then show ?thesis by (simp add: xs)
qed

text \<open>C5: A take-profit fill of an open level of a reachable engine succeeds, records one exit fill
  with the level's quantity and realised profit, and drops the level. Unless the engine is draining,
  a single-sided strategy gets the level's entry back as a working limit order at the level's price.
  The engine reports that it stopped exactly when it was draining with stop-after-take-profit and
  this was its last open level, and then it no longer runs or drains.\<close>

theorem take_profit_cycle:
  assumes "engine_reach E e" "s \<in> set (se_open_levels e)" "ordinary_entry_side (se_mode e) = Some side"
  shows "\<exists>stopped e'. record_take_profit_fill E (ol_level_index s) p e =
      Some (Inr \<lparr>rc_cancel_order_ids = [], rc_stopped = stopped\<rparr>, e')
    \<and> (\<exists>f. se_fills e' = se_fills e @ [f] \<and> fi_fill_type f = ''Exit'' \<and> fi_price f = p
          \<and> fi_level_index f = Some (ol_level_index s) \<and> fi_quantity f = ol_quantity s
          \<and> fi_realized_pnl f = Some (realized_pnl E (ol_entry_price s) p (ol_quantity s) (ol_is_short s)))
    \<and> se_open_levels e' = filter (\<lambda>x. ol_level_index x \<noteq> ol_level_index s) (se_open_levels e)
    \<and> (\<not> se_draining e \<longrightarrow> (\<exists>o' \<in> set (se_orders e'). ro_level_index o' = Some (ol_level_index s)
          \<and> ro_status o' = ''Working'' \<and> ro_order_type o' = ''Limit'' \<and> ro_side o' = side
          \<and> ro_price o' = Some (ol_entry_price s) \<and> ro_quantity o' = ol_quantity s))
    \<and> (stopped \<longleftrightarrow> se_stop_after_take_profit e \<and> se_draining e \<and> length (se_open_levels e) = 1)
    \<and> se_running e' = (se_running e \<and> \<not> stopped) \<and> se_draining e' = (se_draining e \<and> \<not> stopped)"
proof -
  let ?i = "ol_level_index s"
  have inv: "engine_inv E e" by (rule engine_reach_inv [OF assms(1)])
  then have dist: "distinct (map ol_level_index (se_open_levels e))"
    and lev: "level_from_revision (se_revision e) s" using assms(2) by (auto simp: engine_inv_def list_all_iff)
  have st: "find (\<lambda>x. ol_level_index x = ?i) (se_open_levels e) = Some s"
    using dist assms(2) by (rule find_distinct)
  obtain level where l: "level_for ?i e = Inr level" "gl_entry_price level = ol_entry_price s"
      "gl_quantity level = ol_quantity s"
    using lev by (auto simp: level_from_revision_def level_for_def split: option.splits)
  let ?c = "level_closed E ?i p s e"
  let ?stopped = "se_stop_after_take_profit e \<and> se_draining e \<and> se_open_levels ?c = []"
  have last: "se_open_levels ?c = [] \<longleftrightarrow> length (se_open_levels e) = 1"
    using filter_distinct_empty [OF dist assms(2)] by simp
  have entry: "\<exists>o' \<in> set (se_orders ?c). ro_level_index o' = Some ?i
          \<and> ro_status o' = ''Working'' \<and> ro_order_type o' = ''Limit'' \<and> ro_side o' = side
          \<and> ro_price o' = Some (ol_entry_price s) \<and> ro_quantity o' = ol_quantity s" if "\<not> se_draining e"
    using activated_entry [of ?i "exit_filled E ?i p s e" level E side] that l assms(3)
    by (simp add: level_closed_def Let_def level_for_def initial_entry_side_def)
  show ?thesis
    using entry last
    by (intro exI [of _ "fst (maybe_stop_after_draining E ?c)"] exI [of _ "snd (maybe_stop_after_draining E ?c)"])
      (simp add: record_take_profit_fill_eq st maybe_stop_after_draining_def exit_fill_def)
qed

theorem take_profit_cycle_witness:
  "\<exists>e'. record_take_profit_fill plain_env 0 101 demo_started =
      Some (Inr \<lparr>rc_cancel_order_ids = [], rc_stopped = False\<rparr>, e') \<and> se_open_levels e' = []
      \<and> (\<exists>o' \<in> set (se_orders e'). ro_level_index o' = Some 0 \<and> ro_status o' = ''Working'' \<and> ro_side o' = ''Buy'')"
proof -
  obtain s where s: "se_open_levels demo_started = [s]" "ol_level_index s = 0"
    using demo_started_eval(4) by (cases "se_open_levels demo_started") auto
  have "ordinary_entry_side (se_mode demo_started) = Some ''Buy''"
    using engine_start_static [of plain_env demo_engine]
    by (simp add: demo_started_def static_part_def demo_engine_def ordinary_entry_side_def)
  from take_profit_cycle [OF demo_started_reach _ this, of s 101] s show ?thesis
    by (auto simp: demo_started_eval)
qed

subsection \<open>A trailing anchor survives its level\<close>

definition anchor_revision :: StrategyRevision where
  "anchor_revision = demo_revision
     \<lparr>rv_levels := [\<lparr>gl_level_index = 0, gl_entry_price = 90, gl_quantity = 1, gl_take_profit_bps = 100,
          gl_trailing_bps = Some 50\<rparr>],
      rv_overall_take_profit_bps := None, rv_overall_stop_loss_bps := None\<rparr>"

definition anchor_start :: StrategyRuntimeEngine where
  "anchor_start = demo_engine\<lparr>se_revision := anchor_revision\<rparr>"

definition anchor_event :: "string \<times> string \<times> decimal option \<times> int \<Rightarrow> StrategyRuntimeEvent" where
  "anchor_event = (\<lambda>(t, d, p, n). \<lparr>ev_event_type = t, ev_detail = d, ev_price = p, ev_created_at = n\<rparr>)"

definition anchor_fill :: "u64 \<times> string \<times> string \<times> decimal \<times> decimal option \<Rightarrow> StrategyRuntimeFill" where
  "anchor_fill = (\<lambda>(n, order_id, t, p, pnl).
     \<lparr>fi_fill_id = fill_id_of ''strategy-1'' n, fi_order_id = Some order_id, fi_level_index = Some 0,
      fi_fill_type = t, fi_price = p, fi_quantity = 1, fi_realized_pnl = pnl, fi_fee_amount = None,
      fi_fee_asset = None\<rparr>)"

definition anchor_level :: "decimal option \<Rightarrow> OpenLevelState" where
  "anchor_level extreme = \<lparr>ol_level_index = 0, ol_entry_price = 90, ol_quantity = 1, ol_take_profit_bps = 100,
     ol_trailing_bps = Some 50, ol_trailing_extreme = extreme, ol_is_short = False,
     ol_closing_requested = False\<rparr>"

definition anchor_engine ::
  "string \<Rightarrow> string \<Rightarrow> decimal option list \<Rightarrow> (u64 \<times> string \<times> string \<times> decimal \<times> decimal option) list
   \<Rightarrow> (string \<times> string \<times> decimal option \<times> int) list \<Rightarrow> StrategyRuntimeEngine" where
  "anchor_engine entry_status exit_status extremes fills events = anchor_start
     \<lparr>se_running := True, se_fill_sequence := of_nat (length fills), se_open_levels := map anchor_level extremes,
      se_runtime := default_runtime
        \<lparr>rt_positions := map (\<lambda>_. \<lparr>po_market = Spot, po_mode = SpotBuyOnly, po_quantity = 1,
            po_average_entry_price = 90\<rparr>) extremes,
         rt_orders :=
           [\<lparr>ro_order_id = entry_order_id ''strategy-1'' 0, ro_exchange_order_id = None, ro_level_index = Some 0,
             ro_side = ''Buy'', ro_order_type = ''Limit'', ro_price = Some 90, ro_quantity = 1,
             ro_status = entry_status\<rparr>,
            \<lparr>ro_order_id = trailing_order_id ''strategy-1'' 0, ro_exchange_order_id = None,
             ro_level_index = Some 0, ro_side = ''Sell'', ro_order_type = ''TrailMonitor'',
             ro_price = Some (909 / 10), ro_quantity = 1, ro_status = exit_status\<rparr>],
         rt_fills := map anchor_fill fills, rt_events := map anchor_event events\<rparr>\<rparr>"

abbreviation "anchor_fills1 \<equiv> [(1, entry_order_id ''strategy-1'' 0, ''Entry'', 90, None)]"
abbreviation "anchor_fills2 \<equiv> anchor_fills1 @ [(2, trailing_order_id ''strategy-1'' 0, ''Exit'', 91, Some 1)]"
abbreviation "anchor_fills3 \<equiv> anchor_fills2 @ [(3, entry_order_id ''strategy-1'' 0, ''Entry'', 90, None)]"
abbreviation "anchor_events1 \<equiv> [(''entry_fill'', ''entry fill recorded'', Some 90, 0), (''strategy_started'', ''strategy started'', None, 1),
   (trailing_anchor_event 0, ''trailing anchor armed'', Some 91, 2)]"
abbreviation "anchor_events2 \<equiv> anchor_events1 @ [(''maker_take_profit'', ''maker_take_profit'', Some 91, 3)]"
abbreviation "anchor_events3 \<equiv> anchor_events2 @ [(''entry_fill'', ''entry fill recorded'', Some 90, 4)]"

text \<open>The level is filled and its trailing exit armed at 91; the exit is filled; the level is filled again.\<close>

definition anchor_reentered :: StrategyRuntimeEngine where
  "anchor_reentered = anchor_engine ''Filled'' ''Monitoring'' [None] anchor_fills3 anchor_events3"

lemmas tick_eval = engine_on_price_def should_trigger_overall_take_profit_def
  should_trigger_overall_stop_loss_def trail_level_def map_accum_Cons
  price_reaches_take_profit_def trailing_anchor_event_def trailing_factor_def
  record_take_profit_fill_def close_level_def maybe_stop_after_draining_def realized_pnl_def
  is_take_profit_order_def is_trailing_monitor_order_def

lemmas anchor_eval = anchor_engine_def anchor_start_def anchor_revision_def demo_engine_def
  demo_revision_def default_runtime_def anchor_event_def anchor_fill_def anchor_level_def
  engine_eval tick_eval string_simps

lemma anchor_step1: "engine_on_price plain_env 91 (snd (engine_start plain_env anchor_start)) =
    Some (Inr [], anchor_engine ''Filled'' ''Monitoring'' [Some 91] anchor_fills1 anchor_events1)"
  by (simp add: anchor_eval)

lemma anchor_step2: "record_take_profit_fill plain_env 0 91
     (anchor_engine ''Filled'' ''Monitoring'' [Some 91] anchor_fills1 anchor_events1) =
    Some (Inr default_effects, anchor_engine ''Working'' ''Filled'' [] anchor_fills2 anchor_events2)"
  by (simp add: anchor_eval default_effects_def)

lemma anchor_step3: "snd (fill_entry plain_env 0
     (anchor_engine ''Working'' ''Filled'' [] anchor_fills2 anchor_events2)) = anchor_reentered"
  by (simp add: anchor_eval anchor_reentered_def)

lemma anchor_new: "engine_new ''strategy-1'' Spot SpotBuyOnly anchor_revision = Inr anchor_start"
  by (simp add: engine_new_def anchor_start_def demo_engine_def anchor_revision_def demo_revision_def)

lemma anchor_reach: "engine_reach plain_env anchor_reentered"
proof -
  have 1: "engine_reach plain_env (snd (engine_start plain_env anchor_start))"
    by (rule er_step [OF er_new [OF anchor_new] et_start])
  show ?thesis
    unfolding anchor_step3 [symmetric]
    by (rule er_step [OF er_step [OF er_step [OF 1 et_price [OF anchor_step1]] et_take_profit [OF anchor_step2]]
          et_fill_entry])
qed

lemma anchor_latest: "latest_trailing_anchor (se_runtime anchor_reentered) 0 = Some 91"
  by (simp add: latest_trailing_anchor_def anchor_reentered_def anchor_engine_def anchor_event_def
      trailing_anchor_event_def)

lemma anchor_derived:
  "derive_open_levels (se_runtime anchor_reentered) anchor_revision = Inr [anchor_level (Some 91)]"
proof -
  obtain e1 e2 where os: "se_orders anchor_reentered = [e1, e2]"
    and k: "\<not> is_take_profit_order e1" "\<not> is_trailing_monitor_order e1" "is_trailing_monitor_order e2"
    and e2: "ro_level_index e2 = Some 0" "ro_status e2 = ''Monitoring''" "ro_quantity e2 = 1"
      "ro_side e2 = ''Sell''" "ro_order_type e2 = ''TrailMonitor''"
    by (simp add: anchor_reentered_def anchor_engine_def is_take_profit_order_def is_trailing_monitor_order_def
        order_ids_kind kind_of_id [OF demo_plain_id])
  show ?thesis
    by (simp add: derive_open_levels_def os derive_open_level_def k e2 anchor_latest anchor_level_def
        anchor_revision_def string_simps)
qed

text \<open>The trailing anchor of a closed trade is restored for the next trade of the same level. In a
  reachable engine whose level was entered again and is not armed, a price tick at the entry price
  does nothing; after a snapshot is restored, the anchor of the previous trade is back and the same
  tick requests a market close of the position.\<close>

theorem restored_anchor_closes_early:
  "engine_reach plain_env anchor_reentered
   \<and> map ol_trailing_extreme (se_open_levels anchor_reentered) = [None]
   \<and> (\<exists>e1. engine_on_price plain_env 90 anchor_reentered = Some (Inr [], e1))
   \<and> (\<exists>e' ev e2. from_runtime_snapshot plain_env ''strategy-1'' Spot SpotBuyOnly anchor_revision
          (se_runtime anchor_reentered) True = Inr e'
        \<and> map ol_trailing_extreme (se_open_levels e') = [Some 91]
        \<and> engine_on_price plain_env 90 e' = Some (Inr [ev], e2)
        \<and> ev_event_type ev = ''taker_trailing_take_profit'')"
proof (intro conjI)
  show "engine_reach plain_env anchor_reentered" by (rule anchor_reach)
  show "map ol_trailing_extreme (se_open_levels anchor_reentered) = [None]"
    by (simp add: anchor_reentered_def anchor_engine_def anchor_level_def)
  show "\<exists>e1. engine_on_price plain_env 90 anchor_reentered = Some (Inr [], e1)"
    by (simp add: anchor_reentered_def anchor_eval)
  obtain e' where e': "from_runtime_snapshot plain_env ''strategy-1'' Spot SpotBuyOnly anchor_revision
          (se_runtime anchor_reentered) True = Inr e'"
      "se_open_levels e' = [anchor_level (Some 91)]" "se_revision e' = anchor_revision" "se_running e'"
    by (simp add: from_runtime_snapshot_def anchor_derived anchor_new)
      (simp add: anchor_start_def)
  have "\<exists>ev e2. engine_on_price plain_env 90 e' = Some (Inr [ev], e2)
      \<and> ev_event_type ev = ''taker_trailing_take_profit''"
    using e'(2-4)
    by (simp add: engine_on_price_def should_trigger_overall_take_profit_def
        should_trigger_overall_stop_loss_def anchor_revision_def trail_level_def map_accum_Cons
        anchor_level_def trailing_factor_def d_of_u32_def request_level_close_def log_event_def
        push_event_def Let_def)
  then show "\<exists>e' ev e2. from_runtime_snapshot plain_env ''strategy-1'' Spot SpotBuyOnly anchor_revision
          (se_runtime anchor_reentered) True = Inr e'
        \<and> map ol_trailing_extreme (se_open_levels e') = [Some 91]
        \<and> engine_on_price plain_env 90 e' = Some (Inr [ev], e2)
        \<and> ev_event_type ev = ''taker_trailing_take_profit''"
    using e' by (simp add: anchor_level_def)
qed

end
