(* ===== verification/OrderSync.thy ===== *)
theory OrderSync
  imports StrategyRuntime
begin

text \<open>
  \<^verbatim>\<open>src/apps/trading-engine/src/order_sync.rs\<close>: reconciliation of a strategy's orders with the
  exchange. The trait \<open>BinanceOrderGateway\<close> is the record \<open>BinanceOrderGateway\<close> of its four
  methods; what a call does to the exchange is the abstract state \<open>'g\<close> the methods thread. A loop
  over \<open>&mut strategy.runtime.orders\<close> is \<open>map_accum\<close> of its body, which threads the
  \<open>OrderSyncResult\<close> and the gateway.
\<close>

record BinanceOrderRequest =
  br_market :: string
  br_symbol :: string
  br_side :: string
  br_order_type :: string
  br_quantity :: string
  br_price :: "string option"
  br_time_in_force :: "string option"
  br_reduce_only :: "bool option"
  br_position_side :: "string option"
  br_client_order_id :: "string option"

record BinanceOrderResponse =
  bp_market :: string
  bp_symbol :: string
  bp_order_id :: string
  bp_client_order_id :: "string option"
  bp_status :: string
  bp_side :: "string option"
  bp_order_type :: "string option"
  bp_price :: "string option"
  bp_quantity :: "string option"

record 'g BinanceOrderGateway =
  gw_place_order :: "BinanceOrderRequest \<Rightarrow> 'g \<Rightarrow> BinanceOrderResponse result \<times> 'g"
  gw_cancel_order ::
    "string \<Rightarrow> string \<Rightarrow> string option \<Rightarrow> string option \<Rightarrow> 'g \<Rightarrow> BinanceOrderResponse result \<times> 'g"
  gw_get_order ::
    "string \<Rightarrow> string \<Rightarrow> string option \<Rightarrow> string option \<Rightarrow> 'g \<Rightarrow> BinanceOrderResponse result \<times> 'g"
  gw_open_orders :: "string \<Rightarrow> string \<Rightarrow> 'g \<Rightarrow> BinanceOrderResponse list result \<times> 'g"

record OrderQuantizationRules =
  qr_price_tick_size :: "decimal option"
  qr_quantity_step_size :: "decimal option"
  qr_min_quantity :: "decimal option"
  qr_min_notional :: "decimal option"
  qr_client_order_id_max_len :: nat

record OrderSyncResult =
  os_submitted :: nat
  os_canceled :: nat
  os_refreshed :: nat
  os_failed :: nat
  os_fatal :: nat
  os_last_error :: "string option"

definition default_sync_result :: OrderSyncResult where
  "default_sync_result = \<lparr>os_submitted = 0, os_canceled = 0, os_refreshed = 0, os_failed = 0,
     os_fatal = 0, os_last_error = None\<rparr>"

abbreviation count_submitted :: "OrderSyncResult \<Rightarrow> OrderSyncResult" where
  "count_submitted r \<equiv> r\<lparr>os_submitted := os_submitted r + 1\<rparr>"

abbreviation count_canceled :: "OrderSyncResult \<Rightarrow> OrderSyncResult" where
  "count_canceled r \<equiv> r\<lparr>os_canceled := os_canceled r + 1\<rparr>"

abbreviation count_refreshed :: "OrderSyncResult \<Rightarrow> OrderSyncResult" where
  "count_refreshed r \<equiv> r\<lparr>os_refreshed := os_refreshed r + 1\<rparr>"

subsection \<open>Error classification\<close>

datatype OrderErrorClass = Fatal | Retryable | Skip

definition transient_needles :: "string list" where
  "transient_needles =
     [''timed out'', ''timeout'', ''error sending request'', ''connection reset'',
      ''connection refused'', ''connection aborted'', ''peer closed connection'', ''tls'',
      ''unexpected eof'', ''temporarily unavailable'', ''network'', ''dns error'']"

definition is_transient_gateway_error :: "string \<Rightarrow> bool" where
  "is_transient_gateway_error error =
     (let error = to_ascii_lowercase error
      in list_ex (\<lambda>needle. str_contains error needle) transient_needles)"

definition binance_error_code :: "string \<Rightarrow> int option" where
  "binance_error_code error =
     (case strip_prefix error ''binance error ('' of
        None \<Rightarrow> None
      | Some rest \<Rightarrow>
          (case find_index (\<lambda>c. c = CHR '')'') rest of
             None \<Rightarrow> None
           | Some end_ \<Rightarrow> parse_i64 (take end_ rest)))"

definition classify_binance_order_error :: "string \<Rightarrow> OrderErrorClass" where
  "classify_binance_order_error error =
     (case binance_error_code error of
        None \<Rightarrow> if is_transient_gateway_error error then Retryable else Retryable
      | Some code \<Rightarrow>
          if code \<in> {-2010, -2019, -2022, -4043, -4164, -2015, -1015, -1010, -1002} then Fatal
          else if code \<in> {-2011, -2013, -4060, -4061, -1099} then Skip
          else if code \<in> {-1001, -1003, -1006, -1007, -1021, -5022} then Retryable
          else Retryable)"

definition record_order_error :: "string \<Rightarrow> OrderSyncResult \<Rightarrow> OrderSyncResult" where
  "record_order_error error result =
     (case classify_binance_order_error error of
        Fatal \<Rightarrow> result\<lparr>os_last_error := Some error, os_fatal := os_fatal result + 1\<rparr>
      | Skip \<Rightarrow> result
      | Retryable \<Rightarrow> result\<lparr>os_last_error := Some error, os_failed := os_failed result + 1\<rparr>)"

definition record_idempotent_cancel :: "string \<Rightarrow> bool" where
  "record_idempotent_cancel error = (classify_binance_order_error error = Skip)"

subsection \<open>Order predicates, sides and ids\<close>

definition is_martingale_client_order :: "string \<Rightarrow> bool" where
  "is_martingale_client_order order_id \<longleftrightarrow> starts_with order_id ''mg-'' \<and> str_contains order_id ''-leg-''"

definition is_active_martingale_leg_order :: "StrategyRuntimeOrder \<Rightarrow> bool" where
  "is_active_martingale_leg_order order \<longleftrightarrow>
     is_martingale_client_order (ro_order_id order) \<and> ro_status order \<noteq> ''Canceled''"

definition martingale_keep_score :: "StrategyRuntimeOrder \<Rightarrow> nat \<times> decimal" where
  "martingale_keep_score order =
     (let status_score =
        (if ro_status order = ''Filled'' then 4
         else if ro_status order = ''PartiallyFilled'' then 3
         else if ro_status order = ''Working'' \<or> ro_status order = ''Placed'' then 2
         else 1)
      in (status_score, ro_quantity order))"

definition is_exit_order :: "StrategyRuntimeOrder \<Rightarrow> bool" where
  "is_exit_order order \<longleftrightarrow>
     str_contains (ro_order_id order) ''-tp-'' \<or> str_contains (ro_order_id order) ''-trail-''"

definition is_close_order :: "StrategyRuntimeOrder \<Rightarrow> bool" where
  "is_close_order order \<longleftrightarrow>
     starts_with (ro_order_id order) ''cl-'' \<or> str_contains (ro_order_id order) ''-stop-close-''
     \<or> starts_with (ro_order_id order) ''close-''"

definition close_order_id :: "env \<Rightarrow> string \<Rightarrow> nat \<Rightarrow> string" where
  "close_order_id E strategy_id index =
     ''cl-'' @ show_hex16 (close_hash E strategy_id index) @ ''-'' @ show_nat index"

definition close_order_index :: "string \<Rightarrow> nat option" where
  "close_order_index order_id = parse_usize (rsplit_last CHR ''-'' order_id)"

definition close_side_for_position :: "StrategyRuntimePosition \<Rightarrow> string" where
  "close_side_for_position position =
     (case po_mode position of
        SpotClassic \<Rightarrow> ''Sell'' | SpotBuyOnly \<Rightarrow> ''Sell'' | FuturesLong \<Rightarrow> ''Sell''
      | SpotSellOnly \<Rightarrow> ''Buy'' | FuturesShort \<Rightarrow> ''Buy''
      | FuturesNeutral \<Rightarrow> ''Sell'')"

definition market_scope :: "StrategyMarket \<Rightarrow> string" where
  "market_scope market =
     (case market of Spot \<Rightarrow> ''spot'' | FuturesUsdM \<Rightarrow> ''usdm'' | FuturesCoinM \<Rightarrow> ''coinm'')"

definition position_side :: "StrategyMode \<Rightarrow> string \<Rightarrow> string option" where
  "position_side mode side =
     (case mode of
        FuturesLong \<Rightarrow> Some ''LONG''
      | FuturesShort \<Rightarrow> Some ''SHORT''
      | FuturesNeutral \<Rightarrow> if eq_ignore_ascii_case side ''Buy'' then Some ''LONG'' else Some ''SHORT''
      | _ \<Rightarrow> None)"

definition close_position_side_for_order ::
  "StrategyRuntimePosition list \<Rightarrow> StrategyMarket \<Rightarrow> StrategyMode \<Rightarrow> StrategyRuntimeOrder
   \<Rightarrow> string option" where
  "close_position_side_for_order positions market mode order =
     (if market = Spot then None
      else
        (case close_order_index (ro_order_id order) of
           None \<Rightarrow> position_side mode (ro_side order)
         | Some index \<Rightarrow>
             or_else
               (case vec_get positions index of
                  None \<Rightarrow> None
                | Some position \<Rightarrow>
                    (case po_mode position of
                       FuturesLong \<Rightarrow> Some ''LONG''
                     | FuturesShort \<Rightarrow> Some ''SHORT''
                     | _ \<Rightarrow> position_side mode (ro_side order)))
               (position_side mode (ro_side order))))"

definition close_order_targets_position ::
  "StrategyRuntimeOrder \<Rightarrow> StrategyRuntimePosition list \<Rightarrow> StrategyMarket \<Rightarrow> StrategyMode
   \<Rightarrow> StrategyRuntimePosition \<Rightarrow> nat \<Rightarrow> bool" where
  "close_order_targets_position order positions market mode position index =
     (if \<not> is_close_order order then False
      else
        let by_side =
          (if \<not> eq_ignore_ascii_case (ro_side order) (close_side_for_position position) then False
           else if market = Spot then True
           else
             or_else (close_position_side_for_order positions market mode order)
               (position_side mode (ro_side order))
             = (case po_mode position of
                  FuturesLong \<Rightarrow> Some ''LONG'' | FuturesShort \<Rightarrow> Some ''SHORT'' | _ \<Rightarrow> None))
        in (case close_order_index (ro_order_id order) of
              Some target_index \<Rightarrow>
                if target_index < length positions then target_index = index else by_side
            | None \<Rightarrow> by_side))"

subsection \<open>Quantisation and validation\<close>

definition positive_option :: "decimal option \<Rightarrow> decimal option" where
  "positive_option v = (case v of Some x \<Rightarrow> if x > 0 then Some x else None | None \<Rightarrow> None)"

definition normalize_to_step :: "env \<Rightarrow> decimal \<Rightarrow> decimal option \<Rightarrow> decimal" where
  "normalize_to_step E value step =
     (case positive_option step of
        None \<Rightarrow> value
      | Some step \<Rightarrow> d_mul E (d_floor E (d_div E value step)) step)"

definition rule_of :: "('r \<Rightarrow> 'a option) \<Rightarrow> 'r option \<Rightarrow> 'a option" where
  "rule_of f rules = (case rules of None \<Rightarrow> None | Some r \<Rightarrow> f r)"

definition quantize_order ::
  "env \<Rightarrow> StrategyRuntimeOrder \<Rightarrow> OrderQuantizationRules option \<Rightarrow> string option \<times> string" where
  "quantize_order E order rules =
     (map_option (\<lambda>price. d_show E (normalize_to_step E price (rule_of qr_price_tick_size rules)))
        (ro_price order),
      d_show E (normalize_to_step E (ro_quantity order) (rule_of qr_quantity_step_size rules)))"

definition validate_order_before_placement ::
  "env \<Rightarrow> BinanceOrderRequest \<Rightarrow> OrderQuantizationRules option \<Rightarrow> unit result" where
  "validate_order_before_placement E request rules =
     (case rules of
        None \<Rightarrow> Inr ()
      | Some rules \<Rightarrow>
          let id_check =
                (case br_client_order_id request of
                   Some client_order_id \<Rightarrow>
                     if qr_client_order_id_max_len rules > 0
                        \<and> length client_order_id > qr_client_order_id_max_len rules
                     then Inl (''clientOrderId '' @ CHR 0x27 # client_order_id @ CHR 0x27 # '' (''
                            @ show_nat (length client_order_id)
                            @ '' chars) exceeds Binance limit of ''
                            @ show_nat (qr_client_order_id_max_len rules) @ '' chars'')
                     else Inr ()
                 | None \<Rightarrow> Inr ());
              quantity_check =
                (case positive_option (qr_min_quantity rules) of
                   Some min_qty \<Rightarrow>
                     (case d_parse E (br_quantity request) of
                        Some qty \<Rightarrow>
                          if qty < min_qty
                          then Inl (''order quantity '' @ d_show E qty @ '' is below minimum ''
                                 @ d_show E min_qty @ '' for '' @ br_symbol request)
                          else Inr ()
                      | None \<Rightarrow> Inr ())
                 | None \<Rightarrow> Inr ());
              notional_check =
                (case positive_option (qr_min_notional rules) of
                   Some min_notional \<Rightarrow>
                     (case (d_parse E (br_quantity request), br_price request) of
                        (Some qty, Some price_str) \<Rightarrow>
                          (case d_parse E price_str of
                             Some price \<Rightarrow>
                               (let notional = d_mul E qty price
                                in if notional < min_notional
                                   then Inl (''order notional '' @ d_show E notional
                                          @ '' is below minimum '' @ d_show E min_notional
                                          @ '' for '' @ br_symbol request)
                                   else Inr ())
                           | None \<Rightarrow> Inr ())
                      | _ \<Rightarrow> Inr ())
                 | None \<Rightarrow> Inr ())
          in bind_res id_check (\<lambda>_. bind_res quantity_check (\<lambda>_. notional_check)))"

subsection \<open>Placing and canceling one order\<close>

type_synonym 'g sync_state = "OrderSyncResult \<times> 'g"

text \<open>\<open>match gateway.place_order(request)\<close> of the grid loops.\<close>

definition place_and_mark ::
  "'g BinanceOrderGateway \<Rightarrow> BinanceOrderRequest \<Rightarrow> 'g sync_state \<Rightarrow> StrategyRuntimeOrder
   \<Rightarrow> 'g sync_state \<times> StrategyRuntimeOrder" where
  "place_and_mark gateway request st order =
     (let (result, g) = st
      in (case gw_place_order gateway request g of
            (Inr response, g) \<Rightarrow>
              ((count_submitted result, g),
               order\<lparr>ro_exchange_order_id := Some (bp_order_id response), ro_status := ''Placed''\<rparr>)
          | (Inl error, g) \<Rightarrow> ((record_order_error error result, g), order)))"

definition validate_then_place ::
  "env \<Rightarrow> 'g BinanceOrderGateway \<Rightarrow> OrderQuantizationRules option \<Rightarrow> BinanceOrderRequest
   \<Rightarrow> 'g sync_state \<Rightarrow> StrategyRuntimeOrder \<Rightarrow> 'g sync_state \<times> StrategyRuntimeOrder" where
  "validate_then_place E gateway quantization request st order =
     (case validate_order_before_placement E request quantization of
        Inl error \<Rightarrow> ((record_order_error error (fst st), snd st), order)
      | Inr _ \<Rightarrow> place_and_mark gateway request st order)"

subsection \<open>The running branch of a grid strategy\<close>

definition closing_request ::
  "env \<Rightarrow> Strategy \<Rightarrow> OrderQuantizationRules option \<Rightarrow> StrategyRuntimeOrder \<Rightarrow> BinanceOrderRequest" where
  "closing_request E strategy quantization order =
     (let quantity = snd (quantize_order E order quantization);
          ps = close_position_side_for_order (rt_positions (st_runtime strategy)) (st_market strategy)
                 (st_mode strategy) order
      in \<lparr>br_market = market_scope (st_market strategy), br_symbol = st_symbol strategy,
          br_side = to_ascii_uppercase (ro_side order), br_order_type = ''MARKET'',
          br_quantity = quantity, br_price = None, br_time_in_force = None,
          br_reduce_only = (if st_market strategy \<noteq> Spot \<and> ps = None then Some True else None),
          br_position_side = ps, br_client_order_id = Some (ro_order_id order)\<rparr>)"

definition working_request ::
  "env \<Rightarrow> Strategy \<Rightarrow> OrderQuantizationRules option \<Rightarrow> StrategyRuntimeOrder \<Rightarrow> BinanceOrderRequest" where
  "working_request E strategy quantization order =
     (let (price, quantity) = quantize_order E order quantization;
          ps = position_side (st_mode strategy) (ro_side order)
      in \<lparr>br_market = market_scope (st_market strategy), br_symbol = st_symbol strategy,
          br_side = to_ascii_uppercase (ro_side order),
          br_order_type = to_ascii_uppercase (ro_order_type order),
          br_quantity = quantity, br_price = price,
          br_time_in_force =
            (if eq_ignore_ascii_case (ro_order_type order) ''Limit'' then Some ''GTC'' else None),
          br_reduce_only =
            (if st_market strategy \<noteq> Spot \<and> is_exit_order order \<and> ps = None then Some True else None),
          br_position_side = ps, br_client_order_id = Some (ro_order_id order)\<rparr>)"

text \<open>A placed order: look it up unless it is in the list of open orders.\<close>

definition refresh_placed_order ::
  "'g BinanceOrderGateway \<Rightarrow> Strategy \<Rightarrow> BinanceOrderResponse list option \<Rightarrow> 'g sync_state
   \<Rightarrow> StrategyRuntimeOrder \<Rightarrow> 'g sync_state \<times> StrategyRuntimeOrder" where
  "refresh_placed_order gateway strategy live_open_orders st order =
     (let (result, g) = st;
          live = (case live_open_orders of None \<Rightarrow> [] | Some orders \<Rightarrow> orders)
      in case ro_exchange_order_id order of
           None \<Rightarrow> (st, order)
         | Some exchange_order_id \<Rightarrow>
             if exchange_order_id \<in> set (map bp_order_id live)
                \<or> Some (ro_order_id order) \<in> set (map bp_client_order_id live) then (st, order)
             else if live_open_orders = None then (st, order)
             else
               (case gw_get_order gateway (market_scope (st_market strategy)) (st_symbol strategy)
                       (Some exchange_order_id) (Some (ro_order_id order)) g of
                  (Inr response, g) \<Rightarrow>
                    if eq_ignore_ascii_case (bp_status response) ''CANCELED''
                    then ((count_refreshed result, g),
                          order\<lparr>ro_status := ''Canceled'', ro_exchange_order_id := None\<rparr>)
                    else ((result, g), order)
                | (Inl error, g) \<Rightarrow>
                    if \<not> is_transient_gateway_error error
                    then ((record_order_error error result, g), order)
                    else ((result, g), order)))"

definition sync_running_order ::
  "env \<Rightarrow> 'g BinanceOrderGateway \<Rightarrow> OrderQuantizationRules option \<Rightarrow> Strategy
   \<Rightarrow> BinanceOrderResponse list option \<Rightarrow> 'g sync_state \<Rightarrow> StrategyRuntimeOrder
   \<Rightarrow> 'g sync_state \<times> StrategyRuntimeOrder" where
  "sync_running_order E gateway quantization strategy live_open_orders st order =
     (if ro_status order = ''ClosingRequested'' \<and> ro_exchange_order_id order = None
      then validate_then_place E gateway quantization (closing_request E strategy quantization order) st order
      else if ro_status order = ''Placed''
      then refresh_placed_order gateway strategy live_open_orders st order
      else if ro_status order \<noteq> ''Working'' \<or> ro_exchange_order_id order \<noteq> None then (st, order)
      else validate_then_place E gateway quantization (working_request E strategy quantization order) st order)"

definition fetch_open_orders ::
  "'g BinanceOrderGateway \<Rightarrow> Strategy \<Rightarrow> 'g sync_state
   \<Rightarrow> BinanceOrderResponse list option \<times> 'g sync_state" where
  "fetch_open_orders gateway strategy st =
     (let (result, g) = st
      in case gw_open_orders gateway (market_scope (st_market strategy)) (st_symbol strategy) g of
           (Inr orders, g) \<Rightarrow> (Some orders, (result, g))
         | (Inl error, g) \<Rightarrow>
             if is_transient_gateway_error error then (None, (result, g))
             else (None, (record_order_error error result, g)))"

definition sync_running ::
  "env \<Rightarrow> 'g BinanceOrderGateway \<Rightarrow> OrderQuantizationRules option \<Rightarrow> Strategy \<Rightarrow> 'g sync_state
   \<Rightarrow> Strategy \<times> 'g sync_state" where
  "sync_running E gateway quantization strategy st =
     (let (live_open_orders, st) = fetch_open_orders gateway strategy st;
          (st, orders) = map_accum
            (sync_running_order E gateway quantization strategy live_open_orders) st
            (rt_orders (st_runtime strategy))
      in (set_orders orders strategy, st))"

subsection \<open>Paused and stopped grid strategies\<close>

definition cancel_held_order ::
  "'g BinanceOrderGateway \<Rightarrow> Strategy \<Rightarrow> 'g sync_state \<Rightarrow> StrategyRuntimeOrder
   \<Rightarrow> 'g sync_state \<times> StrategyRuntimeOrder" where
  "cancel_held_order gateway strategy st order =
     (let (result, g) = st
      in if ro_status order = ''Canceled'' \<or> ro_exchange_order_id order = None then (st, order)
         else
           (case gw_cancel_order gateway (market_scope (st_market strategy)) (st_symbol strategy)
                   (ro_exchange_order_id order) (Some (ro_order_id order)) g of
              (Inr _, g) \<Rightarrow> ((count_canceled result, g), order\<lparr>ro_exchange_order_id := None\<rparr>)
            | (Inl error, g) \<Rightarrow> ((record_order_error error result, g), order)))"

subsection \<open>Stopping\<close>

text \<open>The two success arms of the cancellations that treat an idempotent error as success.\<close>

definition cancel_and_mark ::
  "'g BinanceOrderGateway \<Rightarrow> Strategy \<Rightarrow> 'g sync_state \<Rightarrow> StrategyRuntimeOrder
   \<Rightarrow> 'g sync_state \<times> StrategyRuntimeOrder" where
  "cancel_and_mark gateway strategy st order =
     (let (result, g) = st;
          canceled = order\<lparr>ro_status := ''Canceled'', ro_exchange_order_id := None\<rparr>
      in case gw_cancel_order gateway (market_scope (st_market strategy)) (st_symbol strategy)
                (ro_exchange_order_id order) (Some (ro_order_id order)) g of
           (Inr _, g) \<Rightarrow> ((count_canceled result, g), canceled)
         | (Inl error, g) \<Rightarrow>
             if record_idempotent_cancel error then ((count_canceled result, g), canceled)
             else ((record_order_error error result, g), order))"

definition cancel_open_order ::
  "'g BinanceOrderGateway \<Rightarrow> Strategy \<Rightarrow> 'g sync_state \<Rightarrow> StrategyRuntimeOrder
   \<Rightarrow> 'g sync_state \<times> StrategyRuntimeOrder" where
  "cancel_open_order gateway strategy st order =
     (if is_close_order order then (st, order)
      else if ro_status order \<in> {''Working'', ''Placed''} \<and> ro_exchange_order_id order = None
      then (st, order\<lparr>ro_status := ''Canceled''\<rparr>)
      else if ro_status order \<notin> {''Working'', ''Placed'', ''Canceled''}
              \<or> ro_exchange_order_id order = None then (st, order)
      else cancel_and_mark gateway strategy st order)"

definition cancel_open_strategy_orders ::
  "'g BinanceOrderGateway \<Rightarrow> Strategy \<Rightarrow> 'g sync_state \<Rightarrow> Strategy \<times> 'g sync_state" where
  "cancel_open_strategy_orders gateway strategy st =
     (let (st, orders) = map_accum (cancel_open_order gateway strategy) st (rt_orders (st_runtime strategy))
      in (set_orders orders strategy, st))"

definition ensure_close_order ::
  "env \<Rightarrow> Strategy \<Rightarrow> nat \<times> StrategyRuntimePosition \<Rightarrow> StrategyRuntimeOrder list
   \<Rightarrow> StrategyRuntimeOrder list" where
  "ensure_close_order E strategy ip orders =
     (let (index, position) = ip
      in if list_ex (\<lambda>order. close_order_targets_position order (rt_positions (st_runtime strategy))
                       (st_market strategy) (st_mode strategy) position index) orders
         then orders
         else orders @
           [\<lparr>ro_order_id = close_order_id E (st_id strategy) index, ro_exchange_order_id = None,
             ro_level_index = None, ro_side = close_side_for_position position,
             ro_order_type = ''Market'', ro_price = None, ro_quantity = po_quantity position,
             ro_status = ''ClosingRequested''\<rparr>])"

definition ensure_close_orders :: "env \<Rightarrow> Strategy \<Rightarrow> Strategy" where
  "ensure_close_orders E strategy =
     set_orders (fold (ensure_close_order E strategy)
        (List.enumerate 0 (rt_positions (st_runtime strategy))) (rt_orders (st_runtime strategy)))
       strategy"

definition submit_close_order ::
  "env \<Rightarrow> 'g BinanceOrderGateway \<Rightarrow> OrderQuantizationRules option \<Rightarrow> Strategy \<Rightarrow> 'g sync_state
   \<Rightarrow> StrategyRuntimeOrder \<Rightarrow> 'g sync_state \<times> StrategyRuntimeOrder" where
  "submit_close_order E gateway quantization strategy st order =
     (if \<not> is_close_order order \<or> ro_exchange_order_id order \<noteq> None
         \<or> ro_status order \<noteq> ''ClosingRequested'' then (st, order)
      else place_and_mark gateway (closing_request E strategy quantization order) st order)"

definition submit_close_orders ::
  "env \<Rightarrow> 'g BinanceOrderGateway \<Rightarrow> OrderQuantizationRules option \<Rightarrow> Strategy \<Rightarrow> 'g sync_state
   \<Rightarrow> Strategy \<times> 'g sync_state" where
  "submit_close_orders E gateway quantization strategy st =
     (let (st, orders) = map_accum (submit_close_order E gateway quantization strategy) st
            (rt_orders (st_runtime strategy))
      in (set_orders orders strategy, st))"

definition refresh_close_order ::
  "'g BinanceOrderGateway \<Rightarrow> Strategy \<Rightarrow> nat list \<times> 'g sync_state \<Rightarrow> StrategyRuntimeOrder
   \<Rightarrow> (nat list \<times> 'g sync_state) \<times> StrategyRuntimeOrder" where
  "refresh_close_order gateway strategy acc order =
     (let (filled_indices, (result, g)) = acc
      in if \<not> is_close_order order \<or> ro_exchange_order_id order = None
            \<or> ro_status order \<notin> {''Placed'', ''PartiallyFilled''} then (acc, order)
         else
           (case gw_get_order gateway (market_scope (st_market strategy)) (st_symbol strategy)
                   (ro_exchange_order_id order) (Some (ro_order_id order)) g of
              (Inr response, g) \<Rightarrow>
                if eq_ignore_ascii_case (bp_status response) ''FILLED''
                then (((case close_order_index (ro_order_id order) of
                          Some index \<Rightarrow> filled_indices @ [index] | None \<Rightarrow> filled_indices),
                       (count_refreshed result, g)), order\<lparr>ro_status := ''Filled''\<rparr>)
                else if eq_ignore_ascii_case (bp_status response) ''PARTIALLY_FILLED''
                then ((filled_indices, (count_refreshed result, g)),
                      order\<lparr>ro_status := ''PartiallyFilled''\<rparr>)
                else if eq_ignore_ascii_case (bp_status response) ''CANCELED''
                then ((filled_indices, (count_refreshed result, g)),
                      order\<lparr>ro_status := ''ClosingRequested'', ro_exchange_order_id := None\<rparr>)
                else ((filled_indices, (result, g)), order)
            | (Inl error, g) \<Rightarrow> ((filled_indices, (record_order_error error result, g)), order)))"

definition remove_filled :: "nat list \<Rightarrow> StrategyRuntimePosition list \<Rightarrow> StrategyRuntimePosition list" where
  "remove_filled filled_indices positions =
     fold (\<lambda>index positions. if index < length positions then remove_nth index positions else positions)
       (rev (remdups_adj (sort filled_indices))) positions"

definition refresh_close_orders ::
  "'g BinanceOrderGateway \<Rightarrow> Strategy \<Rightarrow> 'g sync_state \<Rightarrow> Strategy \<times> 'g sync_state" where
  "refresh_close_orders gateway strategy st =
     (let ((filled_indices, st), orders) = map_accum (refresh_close_order gateway strategy) ([], st)
            (rt_orders (st_runtime strategy));
          strategy = set_orders orders strategy
      in (set_positions (remove_filled filled_indices (rt_positions (st_runtime strategy))) strategy, st))"

definition pending_rebuild_after_stop :: "Strategy \<Rightarrow> bool" where
  "pending_rebuild_after_stop strategy =
     (let events = rt_events (st_runtime strategy);
          reset_index =
            (case rposition (\<lambda>event. ev_event_type event \<in>
                     {''strategy_started'', ''strategy_resumed'', ''strategy_rebuilt''}) events of
               Some i \<Rightarrow> i | None \<Rightarrow> 0)
      in case find (\<lambda>event. starts_with (ev_event_type event) ''overall_take_profit''
                         \<or> starts_with (ev_event_type event) ''overall_stop_loss'')
                (rev (drop reset_index events)) of
           Some event \<Rightarrow> ends_with (ev_event_type event) ''_rebuild''
         | None \<Rightarrow> False)"

definition has_pending_close :: "Strategy \<Rightarrow> bool" where
  "has_pending_close strategy =
     list_ex (\<lambda>order. is_close_order order
                \<and> ro_status order \<in> {''ClosingRequested'', ''Placed'', ''PartiallyFilled''})
       (rt_orders (st_runtime strategy))"

definition finalize_stop_if_ready :: "env \<Rightarrow> Strategy \<Rightarrow> Strategy" where
  "finalize_stop_if_ready E strategy =
     (if rt_positions (st_runtime strategy) = [] \<and> \<not> has_pending_close strategy then
        if pending_rebuild_after_stop strategy then strategy
        else
          set_events (snd (push_event E (rt_events (st_runtime strategy)) ''strategy_stopped''
              ''strategy stopped after exchange close reconciliation'' None))
            (strategy\<lparr>st_status := Stopped\<rparr>)
      else strategy)"

definition sync_stopping ::
  "env \<Rightarrow> 'g BinanceOrderGateway \<Rightarrow> OrderQuantizationRules option \<Rightarrow> Strategy \<Rightarrow> 'g sync_state
   \<Rightarrow> Strategy \<times> 'g sync_state" where
  "sync_stopping E gateway quantization strategy st =
     (let (strategy, st) = cancel_open_strategy_orders gateway strategy st;
          strategy = ensure_close_orders E strategy;
          (strategy, st) = submit_close_orders E gateway quantization strategy st;
          (strategy, st) = refresh_close_orders gateway strategy st
      in (finalize_stop_if_ready E strategy, st))"

subsection \<open>Martingale strategies\<close>

definition keep_leg ::
  "StrategyRuntimeOrder list \<Rightarrow> nat \<times> StrategyRuntimeOrder \<Rightarrow> (u32 \<Rightarrow> nat option) \<Rightarrow> u32 \<Rightarrow> nat option" where
  "keep_leg orders io keep_by_leg =
     (let (index, order) = io
      in if \<not> is_active_martingale_leg_order order then keep_by_leg
         else
           (case ro_level_index order of
              None \<Rightarrow> keep_by_leg
            | Some level_index \<Rightarrow>
                (case keep_by_leg level_index of
                   Some existing_index \<Rightarrow>
                     if martingale_keep_score order > martingale_keep_score (orders ! existing_index)
                     then keep_by_leg(level_index := Some index) else keep_by_leg
                 | None \<Rightarrow> keep_by_leg(level_index := Some index))))"

definition keep_by_leg :: "StrategyRuntimeOrder list \<Rightarrow> u32 \<Rightarrow> nat option" where
  "keep_by_leg orders = fold (keep_leg orders) (List.enumerate 0 orders) (\<lambda>_. None)"

definition cancel_duplicate_leg ::
  "'g BinanceOrderGateway \<Rightarrow> Strategy \<Rightarrow> (u32 \<Rightarrow> nat option) \<Rightarrow> 'g sync_state
   \<Rightarrow> nat \<times> StrategyRuntimeOrder \<Rightarrow> 'g sync_state \<times> nat \<times> StrategyRuntimeOrder" where
  "cancel_duplicate_leg gateway strategy keep st io =
     (let (index, order) = io
      in case ro_level_index order of
           None \<Rightarrow> (st, io)
         | Some level_index \<Rightarrow>
             if \<not> is_active_martingale_leg_order order \<or> keep level_index = Some index then (st, io)
             else if ro_status order = ''Filled'' then (st, io)
             else if ro_exchange_order_id order = None
             then ((count_canceled (fst st), snd st), (index, order\<lparr>ro_status := ''Canceled''\<rparr>))
             else let (st, order) = cancel_and_mark gateway strategy st order in (st, (index, order)))"

definition cancel_duplicate_martingale_leg_orders ::
  "'g BinanceOrderGateway \<Rightarrow> Strategy \<Rightarrow> 'g sync_state \<Rightarrow> Strategy \<times> 'g sync_state" where
  "cancel_duplicate_martingale_leg_orders gateway strategy st =
     (let orders = rt_orders (st_runtime strategy);
          (st, indexed) = map_accum (cancel_duplicate_leg gateway strategy (keep_by_leg orders)) st
            (List.enumerate 0 orders)
      in (set_orders (map snd indexed) strategy, st))"

definition martingale_request ::
  "env \<Rightarrow> Strategy \<Rightarrow> OrderQuantizationRules option \<Rightarrow> StrategyRuntimeOrder \<Rightarrow> decimal
   \<Rightarrow> BinanceOrderRequest" where
  "martingale_request E strategy quantization order quantity_normalized =
     \<lparr>br_market = market_scope (st_market strategy), br_symbol = st_symbol strategy,
      br_side = to_ascii_uppercase (ro_side order),
      br_order_type = to_ascii_uppercase (ro_order_type order),
      br_quantity = d_show E quantity_normalized,
      br_price = map_option (\<lambda>price. d_show E (normalize_to_step E price
                   (rule_of qr_price_tick_size quantization))) (ro_price order),
      br_time_in_force =
        (if eq_ignore_ascii_case (ro_order_type order) ''Limit'' then Some ''GTC'' else None),
      br_reduce_only = None, br_position_side = position_side (st_mode strategy) (ro_side order),
      br_client_order_id = Some (ro_order_id order)\<rparr>"

definition place_martingale_order ::
  "env \<Rightarrow> 'g BinanceOrderGateway \<Rightarrow> OrderQuantizationRules option \<Rightarrow> Strategy \<Rightarrow> 'g sync_state
   \<Rightarrow> StrategyRuntimeOrder \<Rightarrow> 'g sync_state \<times> StrategyRuntimeOrder" where
  "place_martingale_order E gateway quantization strategy st order =
     (let (result, g) = st;
          quantity_normalized = normalize_to_step E (ro_quantity order)
            (rule_of qr_quantity_step_size quantization)
      in if quantity_normalized \<le> 0
         then ((record_order_error (''order quantity '' @ d_show E (ro_quantity order)
                  @ '' normalizes to zero for '' @ st_symbol strategy) result, g), order)
         else
           let request = martingale_request E strategy quantization order quantity_normalized
           in (case validate_order_before_placement E request quantization of
                 Inl error \<Rightarrow> ((record_order_error error result, g), order)
               | Inr _ \<Rightarrow>
                   (case gw_place_order gateway request g of
                      (Inr response, g) \<Rightarrow>
                        ((count_submitted result, g),
                         order\<lparr>ro_exchange_order_id := Some (bp_order_id response)\<rparr>)
                    | (Inl error, g) \<Rightarrow> ((record_order_error error result, g), order))))"

definition sync_martingale_order ::
  "env \<Rightarrow> 'g BinanceOrderGateway \<Rightarrow> OrderQuantizationRules option \<Rightarrow> Strategy
   \<Rightarrow> BinanceOrderResponse list \<Rightarrow> 'g sync_state \<Rightarrow> StrategyRuntimeOrder
   \<Rightarrow> 'g sync_state \<times> StrategyRuntimeOrder" where
  "sync_martingale_order E gateway quantization strategy live_open_orders st order =
     (if \<not> is_martingale_client_order (ro_order_id order) then (st, order)
      else if ro_status order = ''Canceled'' then (st, order)
      else
        (case (if ro_status order = ''Working'' \<and> ro_exchange_order_id order = None
               then find (\<lambda>remote. bp_client_order_id remote = Some (ro_order_id order)) live_open_orders
               else None) of
           Some remote \<Rightarrow>
             ((count_refreshed (fst st), snd st),
              order\<lparr>ro_exchange_order_id := Some (bp_order_id remote)\<rparr>)
         | None \<Rightarrow>
             if ro_exchange_order_id order \<noteq> None
                \<and> Some (ro_order_id order) \<in> set (map bp_client_order_id live_open_orders) then (st, order)
             else if ro_status order \<noteq> ''Working'' \<or> ro_exchange_order_id order \<noteq> None then (st, order)
             else place_martingale_order E gateway quantization strategy st order))"

definition sync_martingale_running ::
  "env \<Rightarrow> 'g BinanceOrderGateway \<Rightarrow> OrderQuantizationRules option \<Rightarrow> Strategy \<Rightarrow> 'g sync_state
   \<Rightarrow> Strategy \<times> 'g sync_state" where
  "sync_martingale_running E gateway quantization strategy st =
     (let (live, st) = fetch_open_orders gateway strategy st;
          live_open_orders = (case live of None \<Rightarrow> [] | Some orders \<Rightarrow> orders);
          (strategy, st) = cancel_duplicate_martingale_leg_orders gateway strategy st;
          (st, orders) = map_accum (sync_martingale_order E gateway quantization strategy live_open_orders)
            st (rt_orders (st_runtime strategy))
      in (set_orders orders strategy, st))"

definition sync_martingale_strategy_orders ::
  "env \<Rightarrow> 'g BinanceOrderGateway \<Rightarrow> OrderQuantizationRules option \<Rightarrow> Strategy \<Rightarrow> 'g
   \<Rightarrow> Strategy \<times> 'g sync_state" where
  "sync_martingale_strategy_orders E gateway quantization strategy g =
     (let st = (default_sync_result, g)
      in case st_status strategy of
           Running \<Rightarrow> sync_martingale_running E gateway quantization strategy st
         | Stopping \<Rightarrow> sync_stopping E gateway quantization strategy st
         | Paused \<Rightarrow> cancel_open_strategy_orders gateway strategy st
         | Stopped \<Rightarrow> cancel_open_strategy_orders gateway strategy st
         | ErrorPaused \<Rightarrow> cancel_open_strategy_orders gateway strategy st
         | _ \<Rightarrow> (strategy, st))"

subsection \<open>The entry point\<close>

definition cancel_held_orders ::
  "'g BinanceOrderGateway \<Rightarrow> Strategy \<Rightarrow> 'g sync_state \<Rightarrow> Strategy \<times> 'g sync_state" where
  "cancel_held_orders gateway strategy st =
     (let (st, orders) = map_accum (cancel_held_order gateway strategy) st (rt_orders (st_runtime strategy))
      in (set_orders orders strategy, st))"

definition sync_strategy_orders ::
  "env \<Rightarrow> 'g BinanceOrderGateway \<Rightarrow> OrderQuantizationRules option \<Rightarrow> Strategy \<Rightarrow> 'g
   \<Rightarrow> Strategy \<times> 'g sync_state" where
  "sync_strategy_orders E gateway quantization strategy g =
     (if st_strategy_type strategy = MartingaleGrid
      then sync_martingale_strategy_orders E gateway quantization strategy g
      else
        let st = (default_sync_result, g)
        in case st_status strategy of
             Running \<Rightarrow> sync_running E gateway quantization strategy st
           | Stopping \<Rightarrow> sync_stopping E gateway quantization strategy st
           | Paused \<Rightarrow> cancel_held_orders gateway strategy st
           | Stopped \<Rightarrow> cancel_held_orders gateway strategy st
           | ErrorPaused \<Rightarrow> cancel_held_orders gateway strategy st
           | _ \<Rightarrow> (strategy, st))"

end
