(* ===== verification/OrderSyncProps.thy ===== *)
theory OrderSyncProps
  imports OrderSync OrderIds "HOL-Library.Sublist"
begin

text \<open>
  Correctness of order reconciliation. What a sync may send to the exchange is stated through an
  interface, \<open>gateway_contract\<close>: a property of gateway states that every lookup and cancellation
  keeps, and every placement of an acceptable request keeps. The loops are proved against it once;
  the interpretation on \<open>logging\<close>, a gateway that records the requests it places around an
  arbitrary gateway, turns it into statements about the requests that are sent.
\<close>

subsection \<open>The gateway interface\<close>

text \<open>What must hold of the requests a sync may build for the orders of a strategy.\<close>

definition grid_requests_ok ::
  "(BinanceOrderRequest \<Rightarrow> bool) \<Rightarrow> env \<Rightarrow> OrderQuantizationRules option \<Rightarrow> Strategy \<Rightarrow> bool" where
  "grid_requests_ok acceptable E q strategy \<longleftrightarrow>
     (\<forall>order \<in> set (rt_orders (st_runtime strategy)). ro_exchange_order_id order = None \<longrightarrow>
        (ro_status order = ''ClosingRequested'' \<longrightarrow>
           validate_order_before_placement E (closing_request E strategy q order) q = Inr () \<longrightarrow>
           acceptable (closing_request E strategy q order))
      \<and> (ro_status order = ''Working'' \<longrightarrow>
           validate_order_before_placement E (working_request E strategy q order) q = Inr () \<longrightarrow>
           acceptable (working_request E strategy q order)))"

text \<open>Two versions of a strategy that address the same market and symbol in the same mode.\<close>

definition same_target :: "Strategy \<Rightarrow> Strategy \<Rightarrow> bool" where
  "same_target s s' \<longleftrightarrow> st_market s' = st_market s \<and> st_symbol s' = st_symbol s \<and> st_mode s' = st_mode s"

definition order_submittable :: "StrategyRuntimeOrder \<Rightarrow> bool" where
  "order_submittable order \<longleftrightarrow> ro_status order = ''Working'' \<and> ro_exchange_order_id order = None"

locale gateway_contract =
  fixes gw :: "'g BinanceOrderGateway" and I :: "'g \<Rightarrow> bool" and acceptable :: "BinanceOrderRequest \<Rightarrow> bool"
  assumes place: "I g \<Longrightarrow> acceptable r \<Longrightarrow> I (snd (gw_place_order gw r g))"
    and cancel: "I g \<Longrightarrow> I (snd (gw_cancel_order gw m s i c g))"
    and get: "I g \<Longrightarrow> I (snd (gw_get_order gw m s i c g))"
    and open_orders: "I g \<Longrightarrow> I (snd (gw_open_orders gw m s g))"
begin

lemma place_eq: "gw_place_order gw r g = (x, g') \<Longrightarrow> I g \<Longrightarrow> acceptable r \<Longrightarrow> I g'"
  using place [of g r] by simp

lemma cancel_eq: "gw_cancel_order gw m s i c g = (x, g') \<Longrightarrow> I g \<Longrightarrow> I g'"
  using cancel [of g m s i c] by simp

lemma get_eq: "gw_get_order gw m s i c g = (x, g') \<Longrightarrow> I g \<Longrightarrow> I g'"
  using get [of g m s i c] by simp

lemma open_eq: "gw_open_orders gw m s g = (x, g') \<Longrightarrow> I g \<Longrightarrow> I g'"
  using open_orders [of g m s] by simp

lemma place_and_mark_keeps:
  "I (snd st) \<Longrightarrow> acceptable r \<Longrightarrow> I (snd (fst (place_and_mark gw r st order)))"
  by (auto simp: place_and_mark_def Let_def dest: place_eq split: prod.split sum.split)

lemma validate_then_place_keeps:
  assumes "I (snd st)" "validate_order_before_placement E r q = Inr () \<Longrightarrow> acceptable r"
  shows "I (snd (fst (validate_then_place E gw q r st order)))"
  using assms place_and_mark_keeps by (auto simp: validate_then_place_def split: sum.split)

lemma refresh_placed_order_keeps:
  "I (snd st) \<Longrightarrow> I (snd (fst (refresh_placed_order gw strategy live st order)))"
  by (auto simp: refresh_placed_order_def Let_def dest: get_eq split: option.split prod.split sum.split)

lemma fetch_open_orders_keeps:
  "I (snd st) \<Longrightarrow> I (snd (snd (fetch_open_orders gw strategy st)))"
  by (auto simp: fetch_open_orders_def Let_def dest: open_eq split: prod.split sum.split)

lemma cancel_held_order_keeps:
  "I (snd st) \<Longrightarrow> I (snd (fst (cancel_held_order gw strategy st order)))"
  by (auto simp: cancel_held_order_def Let_def dest: cancel_eq split: prod.split sum.split)

lemma cancel_and_mark_keeps:
  "I (snd st) \<Longrightarrow> I (snd (fst (cancel_and_mark gw strategy st order)))"
  by (auto simp: cancel_and_mark_def Let_def dest: cancel_eq split: prod.split sum.split)

lemma cancel_open_order_keeps:
  "I (snd st) \<Longrightarrow> I (snd (fst (cancel_open_order gw strategy st order)))"
  using cancel_and_mark_keeps by (auto simp: cancel_open_order_def)

lemma refresh_close_order_keeps:
  "I (snd (snd acc)) \<Longrightarrow> I (snd (snd (fst (refresh_close_order gw strategy acc order))))"
  by (auto simp: refresh_close_order_def Let_def dest: get_eq split: prod.split sum.split)

lemma sync_running_keeps:
  assumes "I (snd st)" "grid_requests_ok acceptable E q strategy"
  shows "I (snd (snd (sync_running E gw q strategy st)))"
proof -
  obtain live st' where f: "fetch_open_orders gw strategy st = (live, st')"
    by (cases "fetch_open_orders gw strategy st")
  have "I (snd st')" using fetch_open_orders_keeps [OF assms(1), of strategy] by (simp add: f)
  moreover have "I (snd (fst (sync_running_order E gw q strategy live s order)))"
    if "I (snd s)" "order \<in> set (rt_orders (st_runtime strategy))" for s order
    using that assms(2)
    by (auto simp: sync_running_order_def grid_requests_ok_def
        intro: validate_then_place_keeps refresh_placed_order_keeps)
  ultimately have "I (snd (fst (map_accum (sync_running_order E gw q strategy live) st'
      (rt_orders (st_runtime strategy)))))"
    by (intro map_accum_inv [where I = "\<lambda>s. I (snd s)"]) auto
  then show ?thesis by (simp add: sync_running_def f case_prod_beta Let_def)
qed

lemma cancel_held_orders_keeps:
  "I (snd st) \<Longrightarrow> I (snd (snd (cancel_held_orders gw strategy st)))"
  unfolding cancel_held_orders_def case_prod_beta Let_def
  by (simp, intro map_accum_inv [where I = "\<lambda>s. I (snd s)"]) (auto intro: cancel_held_order_keeps)

lemma cancel_open_strategy_orders_keeps:
  "I (snd st) \<Longrightarrow> I (snd (snd (cancel_open_strategy_orders gw strategy st)))"
  unfolding cancel_open_strategy_orders_def case_prod_beta Let_def
  by (simp, intro map_accum_inv [where I = "\<lambda>s. I (snd s)"]) (auto intro: cancel_open_order_keeps)

lemma submit_close_orders_keeps:
  assumes "I (snd st)"
    and "\<forall>order \<in> set (rt_orders (st_runtime strategy)). acceptable (closing_request E strategy q order)"
  shows "I (snd (snd (submit_close_orders E gw q strategy st)))"
  unfolding submit_close_orders_def case_prod_beta Let_def
  by (simp, intro map_accum_inv [where I = "\<lambda>s. I (snd s)"])
    (use assms in \<open>auto simp: submit_close_order_def intro: place_and_mark_keeps\<close>)

lemma refresh_close_orders_keeps:
  "I (snd st) \<Longrightarrow> I (snd (snd (refresh_close_orders gw strategy st)))"
  unfolding refresh_close_orders_def case_prod_beta Let_def
  by (simp, intro map_accum_inv [where I = "\<lambda>s. I (snd (snd s))"]) (auto intro: refresh_close_order_keeps)

lemma sync_stopping_keeps:
  assumes "I (snd st)"
    and "\<And>strategy' order. same_target strategy strategy' \<Longrightarrow> acceptable (closing_request E strategy' q order)"
  shows "I (snd (snd (sync_stopping E gw q strategy st)))"
proof -
  obtain s1 st1 where 1: "cancel_open_strategy_orders gw strategy st = (s1, st1)"
    by (cases "cancel_open_strategy_orders gw strategy st")
  obtain s2 st2 where 2: "submit_close_orders E gw q (ensure_close_orders E s1) st1 = (s2, st2)"
    by (cases "submit_close_orders E gw q (ensure_close_orders E s1) st1")
  have "I (snd st1)" using cancel_open_strategy_orders_keeps [OF assms(1), of strategy] by (simp add: 1)
  moreover have "same_target strategy (ensure_close_orders E s1)"
    using 1 by (auto simp: cancel_open_strategy_orders_def ensure_close_orders_def same_target_def
        Let_def case_prod_beta)
  ultimately have "I (snd st2)"
    using submit_close_orders_keeps [of st1 "ensure_close_orders E s1" E q] assms(2) by (simp add: 2)
  then show ?thesis
    using refresh_close_orders_keeps [of st2 s2]
    by (simp add: sync_stopping_def 1 2 Let_def case_prod_beta)
qed

lemma cancel_duplicate_leg_keeps:
  "I (snd st) \<Longrightarrow> I (snd (fst (cancel_duplicate_leg gw strategy keep st io)))"
  using cancel_and_mark_keeps [of st strategy "snd io"]
  by (auto simp: cancel_duplicate_leg_def Let_def case_prod_beta split: option.split)

lemma cancel_duplicates_keeps:
  "I (snd st) \<Longrightarrow> I (snd (snd (cancel_duplicate_martingale_leg_orders gw strategy st)))"
  unfolding cancel_duplicate_martingale_leg_orders_def case_prod_beta Let_def
  by (simp, intro map_accum_inv [where I = "\<lambda>s. I (snd s)"]) (auto intro: cancel_duplicate_leg_keeps)

lemma place_martingale_order_keeps:
  assumes "I (snd st)"
    and "\<And>n. validate_order_before_placement E (martingale_request E strategy q order n) q = Inr () \<Longrightarrow>
      acceptable (martingale_request E strategy q order n)"
  shows "I (snd (fst (place_martingale_order E gw q strategy st order)))"
  using assms by (auto simp: place_martingale_order_def Let_def dest: place_eq split: prod.split sum.split)

lemma sync_martingale_running_keeps:
  assumes "I (snd st)"
    and acc: "\<And>strategy' order n. same_target strategy strategy' \<Longrightarrow> order_submittable order \<Longrightarrow>
      validate_order_before_placement E (martingale_request E strategy' q order n) q = Inr () \<Longrightarrow>
      acceptable (martingale_request E strategy' q order n)"
  shows "I (snd (snd (sync_martingale_running E gw q strategy st)))"
proof -
  obtain live st1 where 1: "fetch_open_orders gw strategy st = (live, st1)"
    by (cases "fetch_open_orders gw strategy st")
  obtain s2 st2 where 2: "cancel_duplicate_martingale_leg_orders gw strategy st1 = (s2, st2)"
    by (cases "cancel_duplicate_martingale_leg_orders gw strategy st1")
  have "I (snd st1)" using fetch_open_orders_keeps [OF assms(1), of strategy] by (simp add: 1)
  then have st2: "I (snd st2)" using cancel_duplicates_keeps [of st1 strategy] by (simp add: 2)
  have same: "same_target strategy s2"
    using 2 by (auto simp: cancel_duplicate_martingale_leg_orders_def same_target_def Let_def case_prod_beta)
  let ?live = "case live of None \<Rightarrow> [] | Some orders \<Rightarrow> orders"
  have "I (snd (fst (sync_martingale_order E gw q s2 ?live s order)))" if "I (snd s)" for s order
    using that acc [OF same]
    by (auto simp: sync_martingale_order_def order_submittable_def split: option.split
        intro!: place_martingale_order_keeps)
  then have "I (snd (fst (map_accum (sync_martingale_order E gw q s2 ?live) st2 (rt_orders (st_runtime s2)))))"
    using st2 by (intro map_accum_inv [where I = "\<lambda>s. I (snd s)"]) auto
  then show ?thesis by (simp add: sync_martingale_running_def 1 2 Let_def case_prod_beta)
qed

end

subsection \<open>A gateway that records what it places\<close>

definition logging :: "'g BinanceOrderGateway \<Rightarrow> ('g \<times> BinanceOrderRequest list) BinanceOrderGateway" where
  "logging gw =
     \<lparr>gw_place_order = (\<lambda>r (g, log). let (x, g') = gw_place_order gw r g in (x, g', log @ [r])),
      gw_cancel_order = (\<lambda>m s i c (g, log). let (x, g') = gw_cancel_order gw m s i c g in (x, g', log)),
      gw_get_order = (\<lambda>m s i c (g, log). let (x, g') = gw_get_order gw m s i c g in (x, g', log)),
      gw_open_orders = (\<lambda>m s (g, log). let (x, g') = gw_open_orders gw m s g in (x, g', log))\<rparr>"

definition placed :: "Strategy \<times> 'r \<times> 'g \<times> BinanceOrderRequest list \<Rightarrow> BinanceOrderRequest list" where
  "placed r = snd (snd (snd r))"

interpretation logged: gateway_contract "logging gw" "\<lambda>s. list_all P (snd s)" P for gw P
  by unfold_locales (auto simp: logging_def case_prod_beta Let_def)

subsection \<open>Requests\<close>

definition hedge_safe :: "Strategy \<Rightarrow> BinanceOrderRequest \<Rightarrow> bool" where
  "hedge_safe strategy r \<longleftrightarrow>
     br_market r = market_scope (st_market strategy) \<and> br_symbol r = st_symbol strategy
     \<and> (br_reduce_only r = None \<or> (br_position_side r = None \<and> st_market strategy \<noteq> Spot))"

lemma requests_hedge_safe:
  assumes "same_target strategy strategy'"
  shows "hedge_safe strategy (closing_request E strategy' q order)"
    "hedge_safe strategy (working_request E strategy' q order)"
    "hedge_safe strategy (martingale_request E strategy' q order n)"
  using assms
  by (simp_all add: hedge_safe_def same_target_def closing_request_def working_request_def
      martingale_request_def Let_def case_prod_beta)

lemma same_target_refl [simp]: "same_target s s"
  by (simp add: same_target_def)

lemma sync_strategy_orders_cases:
  "sync_strategy_orders E gw q strategy g =
     (case st_status strategy of
        Running \<Rightarrow> (if st_strategy_type strategy = MartingaleGrid then sync_martingale_running E gw q
                      else sync_running E gw q) strategy (default_sync_result, g)
      | Stopping \<Rightarrow> sync_stopping E gw q strategy (default_sync_result, g)
      | Paused \<Rightarrow> (if st_strategy_type strategy = MartingaleGrid then cancel_open_strategy_orders gw
                      else cancel_held_orders gw) strategy (default_sync_result, g)
      | Stopped \<Rightarrow> (if st_strategy_type strategy = MartingaleGrid then cancel_open_strategy_orders gw
                      else cancel_held_orders gw) strategy (default_sync_result, g)
      | ErrorPaused \<Rightarrow> (if st_strategy_type strategy = MartingaleGrid then cancel_open_strategy_orders gw
                      else cancel_held_orders gw) strategy (default_sync_result, g)
      | _ \<Rightarrow> (strategy, default_sync_result, g))"
  by (simp add: sync_strategy_orders_def sync_martingale_strategy_orders_def Let_def split: StrategyStatus.split)

lemma placed_all:
  assumes "\<And>strategy' order. same_target strategy strategy' \<Longrightarrow> P (closing_request E strategy' q order)"
    and "\<And>order. P (working_request E strategy q order)"
    and "\<And>strategy' order n. same_target strategy strategy' \<Longrightarrow> P (martingale_request E strategy' q order n)"
  shows "list_all P (placed (sync_strategy_orders E (logging gw) q strategy (g, [])))"
  using assms logged.sync_running_keeps [of P "(default_sync_result, g, [])" E q strategy gw]
    logged.sync_martingale_running_keeps [of P "(default_sync_result, g, [])" strategy E q gw]
    logged.sync_stopping_keeps [of P "(default_sync_result, g, [])" strategy E q gw]
    logged.cancel_open_strategy_orders_keeps [of P "(default_sync_result, g, [])" gw strategy]
    logged.cancel_held_orders_keeps [of P "(default_sync_result, g, [])" gw strategy]
  by (simp add: sync_strategy_orders_cases placed_def grid_requests_ok_def split: StrategyStatus.split)

lemma nothing_placed:
  assumes "st_status strategy \<notin> {Running, Stopping}"
  shows "placed (sync_strategy_orders E (logging gw) q strategy (g, [])) = []"
proof -
  have "list_all (\<lambda>_. False) (placed (sync_strategy_orders E (logging gw) q strategy (g, [])))"
    using assms logged.cancel_open_strategy_orders_keeps [of "\<lambda>_. False" "(default_sync_result, g, [])" gw strategy]
      logged.cancel_held_orders_keeps [of "\<lambda>_. False" "(default_sync_result, g, [])" gw strategy]
    by (simp add: sync_strategy_orders_cases placed_def split: StrategyStatus.split)
  then show ?thesis by (cases "placed (sync_strategy_orders E (logging gw) q strategy (g, []))") simp_all
qed

subsection \<open>One request per order\<close>

lemma log_of_loop:
  fixes f :: "'s \<times> 'g \<times> 'r list \<Rightarrow> 'a \<Rightarrow> ('s \<times> 'g \<times> 'r list) \<times> 'a"
  assumes "\<And>s x. x \<in> set xs \<Longrightarrow> snd (snd (fst (f s x))) = snd (snd s)
     \<or> (submittable x \<and> (\<exists>r. snd (snd (fst (f s x))) = snd (snd s) @ [r] \<and> k r = h x))"
  shows "\<exists>rs. snd (snd (fst (map_accum f s xs))) = snd (snd s) @ rs
     \<and> subseq (map k rs) (map h (filter submittable xs))"
  using assms
proof (induction xs arbitrary: s)
  case (Cons x xs)
  let ?s = "fst (f s x)"
  obtain rs where rs: "snd (snd (fst (map_accum f ?s xs))) = snd (snd ?s) @ rs"
      "subseq (map k rs) (map h (filter submittable xs))"
    using Cons.IH [of ?s] Cons.prems by auto
  from Cons.prems [of x s] consider "snd (snd ?s) = snd (snd s)"
    | r where "submittable x" "snd (snd ?s) = snd (snd s) @ [r]" "k r = h x" by auto
  then show ?case
  proof cases
    case 1
    then show ?thesis using rs by (auto simp: map_accum_Cons intro!: list_emb_Cons)
  next
    case (2 r)
    then show ?thesis using rs by (intro exI [of _ "r # rs"]) (simp add: map_accum_Cons)
  qed
qed simp

definition submittable :: "StrategyRuntimeOrder \<Rightarrow> bool" where
  "submittable order \<longleftrightarrow> ro_exchange_order_id order = None \<and> ro_status order \<in> {''Working'', ''ClosingRequested''}"

lemma place_and_mark_logs:
  "snd (snd (fst (place_and_mark (logging gw) r st order))) = snd (snd st) @ [r]"
  by (auto simp: place_and_mark_def logging_def Let_def split: prod.split sum.split)

lemma validate_then_place_logs:
  "snd (snd (fst (validate_then_place E (logging gw) q r st order))) \<in> {snd (snd st), snd (snd st) @ [r]}"
  by (simp add: validate_then_place_def place_and_mark_logs split: sum.split)

lemma refresh_placed_order_logs:
  "snd (snd (fst (refresh_placed_order (logging gw) strategy live st order))) = snd (snd st)"
  by (auto simp: refresh_placed_order_def logging_def Let_def split: prod.split sum.split option.split)

lemma fetch_open_orders_logs:
  "snd (snd (snd (fetch_open_orders (logging gw) strategy st))) = snd (snd st)"
  by (auto simp: fetch_open_orders_def logging_def Let_def split: prod.split sum.split)

lemma sync_running_log:
  "subseq (map br_client_order_id (placed (sync_running E (logging gw) q strategy (r, g, []))))
     (map (\<lambda>order. Some (ro_order_id order)) (filter submittable (rt_orders (st_runtime strategy))))"
proof -
  obtain live st' where f: "fetch_open_orders (logging gw) strategy (r, g, []) = (live, st')"
    by (cases "fetch_open_orders (logging gw) strategy (r, g, [])")
  have st': "snd (snd st') = []"
    using fetch_open_orders_logs [of gw strategy "(r, g, [])"] by (simp add: f)
  have "snd (snd (fst (sync_running_order E (logging gw) q strategy live s x))) = snd (snd s)
     \<or> (submittable x \<and> (\<exists>r. snd (snd (fst (sync_running_order E (logging gw) q strategy live s x)))
          = snd (snd s) @ [r] \<and> br_client_order_id r = Some (ro_order_id x)))" for s x
    using validate_then_place_logs [of E gw q "closing_request E strategy q x" s x]
      validate_then_place_logs [of E gw q "working_request E strategy q x" s x]
    by (auto simp: sync_running_order_def submittable_def refresh_placed_order_logs closing_request_def
        working_request_def Let_def case_prod_beta)
  from log_of_loop [where xs = "rt_orders (st_runtime strategy)" and s = st', OF this] st' show ?thesis
    by (auto simp: sync_running_def f Let_def case_prod_beta placed_def)
qed

subsection \<open>Error codes and close order ids\<close>

lemma find_index_append: "list_all (\<lambda>x. \<not> P x) xs \<Longrightarrow> P y \<Longrightarrow> find_index P (xs @ y # ys) = Some (length xs)"
  by (induction xs) auto

lemma binance_error_code_format:
  assumes "- (2 ^ 63) \<le> code" "code < 2 ^ 63"
  shows "binance_error_code (''binance error ('' @ show_int code @ '')'' @ rest) = Some code"
proof -
  have "strip_prefix (''binance error ('' @ show_int code @ '')'' @ rest) ''binance error ('' =
      Some (show_int code @ CHR '')'' # rest)"
    by (simp add: strip_prefix_def)
  moreover have "list_all (\<lambda>c. c \<noteq> CHR '')'') (show_int code)"
    using paren_notin_show_int [of code] by (auto simp: list_all_iff)
  ultimately show ?thesis
    by (simp add: binance_error_code_def find_index_append parse_i64_show_int [OF assms] del: append.simps)
qed

lemma close_order_index_id: "i < 2 ^ 64 \<Longrightarrow> close_order_index (close_order_id E sid i) = Some i"
  using rsplit_last_append [OF dash_notin_show_nat, of "''cl-'' @ show_hex16 (close_hash E sid i)" i]
  by (simp add: close_order_index_def close_order_id_def parse_usize_show_nat)

lemma is_close_order_id: "ro_order_id o' = close_order_id E sid i \<Longrightarrow> is_close_order o'"
  by (simp add: is_close_order_def close_order_id_def)

subsection \<open>Close orders\<close>

lemma ensure_close_order_prefix: "\<exists>new. ensure_close_order E s ip os = os @ new"
  by (simp add: ensure_close_order_def Let_def case_prod_beta)

lemma fold_ensure_prefix: "\<exists>new. fold (ensure_close_order E s) ips os = os @ new"
proof (induction ips arbitrary: os)
  case (Cons ip ips)
  obtain a where "ensure_close_order E s ip os = os @ a" using ensure_close_order_prefix by blast
  with Cons.IH [of "os @ a"] show ?case by auto
qed simp

lemma ensure_close_order_targets:
  assumes "vec_get (rt_positions (st_runtime s)) i = Some p" "i < 2 ^ 64"
  shows "\<exists>o' \<in> set (ensure_close_order E s (i, p) os).
     close_order_targets_position o' (rt_positions (st_runtime s)) (st_market s) (st_mode s) p i"
proof -
  have "i < length (rt_positions (st_runtime s))" using assms(1) by (simp add: vec_get_def split: if_splits)
  then have "close_order_targets_position \<lparr>ro_order_id = close_order_id E (st_id s) i, ro_exchange_order_id = None,
             ro_level_index = None, ro_side = close_side_for_position p,
             ro_order_type = ''Market'', ro_price = None, ro_quantity = po_quantity p,
             ro_status = ''ClosingRequested''\<rparr> (rt_positions (st_runtime s)) (st_market s) (st_mode s) p i"
    using assms(2) is_close_order_id
    by (simp add: close_order_targets_position_def Let_def close_order_index_id)
  then show ?thesis by (auto simp: ensure_close_order_def list_ex_iff)
qed

lemma fold_ensure_targets:
  assumes "\<forall>(i, p) \<in> set ips. vec_get (rt_positions (st_runtime s)) i = Some p \<and> i < 2 ^ 64" "(i, p) \<in> set ips"
  shows "\<exists>o' \<in> set (fold (ensure_close_order E s) ips os).
     close_order_targets_position o' (rt_positions (st_runtime s)) (st_market s) (st_mode s) p i"
  using assms
proof (induction ips arbitrary: os)
  case (Cons ip ips)
  show ?case
  proof (cases "(i, p) = ip")
    case True
    then obtain o' where o': "o' \<in> set (ensure_close_order E s ip os)"
       "close_order_targets_position o' (rt_positions (st_runtime s)) (st_market s) (st_mode s) p i"
      using ensure_close_order_targets [of s i p E os] Cons.prems(1) by auto
    moreover obtain new where "fold (ensure_close_order E s) ips (ensure_close_order E s ip os) =
        ensure_close_order E s ip os @ new" using fold_ensure_prefix by blast
    ultimately show ?thesis by auto
  next
    case False
    then show ?thesis using Cons by auto
  qed
qed simp


lemma ensure_close_orders_targets:
  assumes "i < length (rt_positions (st_runtime s))" "length (rt_positions (st_runtime s)) \<le> 2 ^ 64"
  shows "\<exists>o' \<in> set (rt_orders (st_runtime (ensure_close_orders E s))).
     close_order_targets_position o' (rt_positions (st_runtime s)) (st_market s) (st_mode s)
       (rt_positions (st_runtime s) ! i) i"
proof -
  let ?ps = "rt_positions (st_runtime s)"
  have "(i, ?ps ! i) \<in> set (List.enumerate 0 ?ps)" using assms(1) by (simp add: in_set_enumerate_eq)
  moreover have "\<forall>(i, p) \<in> set (List.enumerate 0 ?ps). vec_get ?ps i = Some p \<and> i < 2 ^ 64"
    using assms(2) by (auto simp: in_set_enumerate_eq vec_get_def)
  ultimately show ?thesis
    using fold_ensure_targets [of "List.enumerate 0 ?ps" s i "?ps ! i" E "rt_orders (st_runtime s)"]
    by (simp add: ensure_close_orders_def)
qed

subsection \<open>Concrete inputs\<close>

text \<open>A strategy and an exchange that accepts every request; its state is the list of the client
  order ids it has filled.\<close>

definition demo_revision_of :: "StrategyType \<Rightarrow> GridLevel list \<Rightarrow> StrategyRevision" where
  "demo_revision_of ty levels =
     \<lparr>rv_revision_id = ''rev-1'', rv_version = 1, rv_strategy_type = ty, rv_generation = Custom,
      rv_levels = levels, rv_amount_mode = Base, rv_futures_margin_mode = None, rv_leverage = None,
      rv_reference_price_source = Manual, rv_reference_price = Some 100,
      rv_overall_take_profit_bps = None, rv_overall_stop_loss_bps = None, rv_post_trigger_action = Stop\<rparr>"

definition demo_strategy :: "StrategyStatus \<Rightarrow> StrategyMarket \<Rightarrow> StrategyMode \<Rightarrow> StrategyRuntime \<Rightarrow> Strategy" where
  "demo_strategy status market mode runtime =
     \<lparr>st_id = ''s1'', st_owner_email = ''a@b.c'', st_name = ''grid'', st_symbol = ''BTCUSDT'', st_budget = ''100'',
      st_grid_spacing_bps = 100, st_status = status, st_source_template_id = None, st_membership_ready = True,
      st_exchange_ready = True, st_permissions_ready = True, st_withdrawals_disabled = True,
      st_hedge_mode_ready = True, st_symbol_ready = True, st_filters_ready = True, st_margin_ready = True,
      st_conflict_ready = True, st_balance_ready = True, st_strategy_type = OrdinaryGrid, st_market = market,
      st_mode = mode, st_runtime_phase = PhaseDraft, st_runtime_controls = (),
      st_draft_revision = demo_revision_of OrdinaryGrid [], st_tags = [], st_notes = [],
      st_active_revision = None, st_runtime = runtime, st_archived_at = None\<rparr>"

definition demo_position :: "StrategyMode \<Rightarrow> StrategyRuntimePosition" where
  "demo_position mode =
     \<lparr>po_market = FuturesUsdM, po_mode = mode, po_quantity = 2, po_average_entry_price = 100\<rparr>"

definition demo_order :: "string \<Rightarrow> string \<Rightarrow> string option \<Rightarrow> string \<Rightarrow> StrategyRuntimeOrder" where
  "demo_order oid side exchange_id status =
     \<lparr>ro_order_id = oid, ro_exchange_order_id = exchange_id, ro_level_index = Some 0, ro_side = side,
      ro_order_type = ''Limit'', ro_price = Some 100, ro_quantity = 2, ro_status = status\<rparr>"

definition demo_response :: "string \<Rightarrow> string \<Rightarrow> string option \<Rightarrow> string \<Rightarrow> BinanceOrderResponse" where
  "demo_response market symbol client status =
     \<lparr>bp_market = market, bp_symbol = symbol, bp_order_id = ''77'', bp_client_order_id = client,
      bp_status = status, bp_side = None, bp_order_type = None, bp_price = None, bp_quantity = None\<rparr>"

definition demo_gateway :: "(string list) BinanceOrderGateway" where
  "demo_gateway =
     \<lparr>gw_place_order = (\<lambda>r g. (Inr (demo_response (br_market r) (br_symbol r) (br_client_order_id r) ''NEW''), g)),
      gw_cancel_order = (\<lambda>m s i c g. (Inr (demo_response m s c ''CANCELED''), g)),
      gw_get_order = (\<lambda>m s i c g. (Inr (demo_response m s c
          (if (case c of Some cid \<Rightarrow> cid \<in> set g | None \<Rightarrow> False) then ''FILLED'' else ''NEW'')), g)),
      gw_open_orders = (\<lambda>m s g. (Inr [], g))\<rparr>"

subsection \<open>Quantisation\<close>

text \<open>\<open>Decimal::floor\<close> on exact arithmetic.\<close>

locale exact_floor = exact_decimal +
  assumes exact_floor: "d_floor E x = of_int \<lfloor>x\<rfloor>"
begin

lemma normalize_eq: "0 < step \<Longrightarrow> normalize_to_step E value (Some step) = of_int \<lfloor>value / step\<rfloor> * step"
  by (simp add: normalize_to_step_def positive_option_def exact_mul exact_div exact_floor)

lemma normalize_bounds:
  assumes "0 < step"
  shows "normalize_to_step E value (Some step) \<le> value" "value < normalize_to_step E value (Some step) + step"
proof -
  have "of_int \<lfloor>value / step\<rfloor> * step \<le> value / step * step"
    using assms by (intro mult_right_mono) simp_all
  then show "normalize_to_step E value (Some step) \<le> value" using assms by (simp add: normalize_eq)
  have "value / step * step < (of_int \<lfloor>value / step\<rfloor> + 1) * step"
    using assms by (intro mult_strict_right_mono) (linarith | simp)+
  then show "value < normalize_to_step E value (Some step) + step"
    using assms by (simp add: normalize_eq distrib_right)
qed

end

interpretation exact_floor_env: exact_floor "env_of (\<lambda>x. x) prs shw" for prs shw
  by unfold_locales simp

subsection \<open>Theorems\<close>

text \<open>C18: Every order request that a sync sends, in any status and for any gateway, addresses the
  strategy's own market and symbol, and carries \<open>reduceOnly\<close> only when it carries no
  \<open>positionSide\<close> and the market is not spot (the exchange rejects the combination in hedge mode).\<close>

theorem sync_requests_hedge_safe:
  "list_all (\<lambda>r. br_market r = market_scope (st_market strategy) \<and> br_symbol r = st_symbol strategy
       \<and> (br_reduce_only r = None \<or> (br_position_side r = None \<and> st_market strategy \<noteq> Spot)))
     (placed (sync_strategy_orders E (logging gw) q strategy (g, [])))"
  using placed_all [of strategy "hedge_safe strategy" E q gw g] requests_hedge_safe
  by (simp add: hedge_safe_def [abs_def])

text \<open>A sync of a strategy that is neither running nor stopping places no order.\<close>

theorem idle_sync_places_nothing:
  assumes "st_status strategy \<notin> {Running, Stopping}"
  shows "placed (sync_strategy_orders E (logging gw) q strategy (g, [])) = []"
  by (rule nothing_placed [OF assms])

theorem idle_sync_places_nothing_witness:
  "placed (sync_strategy_orders plain_env (logging demo_gateway) None
     (demo_strategy Paused Spot SpotBuyOnly
        \<lparr>rt_positions = [], rt_orders = [demo_order ''s1-order-0'' ''Buy'' None ''Working''], rt_fills = [],
         rt_events = [], rt_last_preflight = None\<rparr>) ([], [])) = []"
  by (rule idle_sync_places_nothing) (simp add: demo_strategy_def)

text \<open>C9: The orders a running grid strategy submits in one sync are, in order, among its own orders
  that are working or requested to close and have no exchange id yet: each of them at most once and
  none that was submitted before.\<close>

theorem running_sync_submits_once:
  "subseq (map br_client_order_id (placed (sync_running E (logging gw) q strategy (r, g, []))))
     (map (\<lambda>order. Some (ro_order_id order))
        (filter (\<lambda>order. ro_exchange_order_id order = None \<and> ro_status order \<in> {''Working'', ''ClosingRequested''})
          (rt_orders (st_runtime strategy))))"
  using sync_running_log [of E gw q strategy r g] by (simp add: submittable_def [abs_def])

text \<open>C19: Every request that a running strategy, grid or martingale, submits has passed
  \<open>validate_order_before_placement\<close> under the rules of its symbol.\<close>

theorem running_sync_validates:
  "list_all (\<lambda>r. validate_order_before_placement E r q = Inr ())
     (placed (sync_running E (logging gw) q strategy (r, g, [])))
   \<and> list_all (\<lambda>r. validate_order_before_placement E r q = Inr ())
     (placed (sync_martingale_running E (logging gw) q strategy (r, g, [])))"
  using logged.sync_running_keeps [of "\<lambda>r. validate_order_before_placement E r q = Inr ()" "(r, g, [])" E q strategy gw]
    logged.sync_martingale_running_keeps [of "\<lambda>r. validate_order_before_placement E r q = Inr ()" "(r, g, [])" strategy E q gw]
  by (simp add: placed_def grid_requests_ok_def)

text \<open>The error of a Binance reply \<open>binance error (<code>): <msg>\<close> is classified by its code
  alone, for every 64-bit code: fatal codes count as fatal, idempotent codes change nothing, every
  other code counts as failed, and both kinds of failure are kept as the last error.\<close>

theorem order_error_accounting:
  assumes "- (2 ^ 63) \<le> code" "code < 2 ^ 63"
  shows "record_order_error (''binance error ('' @ show_int code @ '')'' @ rest) result =
    (if code \<in> {-2010, -2019, -2022, -4043, -4164, -2015, -1015, -1010, -1002}
     then result\<lparr>os_last_error := Some (''binance error ('' @ show_int code @ '')'' @ rest),
                 os_fatal := os_fatal result + 1\<rparr>
     else if code \<in> {-2011, -2013, -4060, -4061, -1099} then result
     else result\<lparr>os_last_error := Some (''binance error ('' @ show_int code @ '')'' @ rest),
                 os_failed := os_failed result + 1\<rparr>)"
proof -
  have "classify_binance_order_error (''binance error ('' @ show_int code @ '')'' @ rest) =
     (if code \<in> {-2010, -2019, -2022, -4043, -4164, -2015, -1015, -1010, -1002} then Fatal
      else if code \<in> {-2011, -2013, -4060, -4061, -1099} then Skip else Retryable)"
    unfolding classify_binance_order_error_def binance_error_code_format [OF assms] by simp
  then show ?thesis unfolding record_order_error_def by (simp del: append.simps)
qed

theorem order_error_accounting_witness:
  "os_fatal (record_order_error ''binance error (-2010): insufficient balance'' default_sync_result) = 1
   \<and> record_order_error ''binance error (-2011): unknown order'' default_sync_result = default_sync_result"
proof -
  have codes: "show_int (-2010) = ''-2010''" "show_int (-2011) = ''-2011''"
    by (simp_all add: show_int_def show_nat_step show_nat_small digit_def char_of_def bit_0)
  show ?thesis
    using order_error_accounting [of "-2010" "'': insufficient balance''" default_sync_result]
      order_error_accounting [of "-2011" "'': unknown order''" default_sync_result]
    by (simp add: codes default_sync_result_def)
qed

text \<open>Close order ids round-trip: the id built for the position at an index is recognised as a
  close order and its index is read back, whatever the strategy id and the hash.\<close>

theorem close_order_id_roundtrip:
  assumes "index < 2 ^ 64" "ro_order_id order = close_order_id E strategy_id index"
  shows "is_close_order order \<and> close_order_index (ro_order_id order) = Some index"
  using assms close_order_index_id is_close_order_id by simp

theorem close_order_id_roundtrip_witness:
  "close_order_index (close_order_id plain_env ''s1'' 7) = Some 7"
  using close_order_id_roundtrip [of 7 "demo_order (close_order_id plain_env ''s1'' 7) ''Sell'' None ''Placed''"]
  by (simp add: demo_order_def)

text \<open>After \<open>ensure_close_orders\<close> every position has a close order that targets it, and the orders
  that existed before are kept unchanged in front.\<close>

theorem ensure_close_orders_covers:
  assumes "index < length (rt_positions (st_runtime strategy))"
    and "length (rt_positions (st_runtime strategy)) \<le> 2 ^ 64"
  shows "(\<exists>new. rt_orders (st_runtime (ensure_close_orders E strategy)) = rt_orders (st_runtime strategy) @ new)
    \<and> (\<exists>order \<in> set (rt_orders (st_runtime (ensure_close_orders E strategy))).
         close_order_targets_position order (rt_positions (st_runtime strategy)) (st_market strategy)
           (st_mode strategy) (rt_positions (st_runtime strategy) ! index) index)"
  using ensure_close_orders_targets [OF assms] fold_ensure_prefix
  by (simp add: ensure_close_orders_def)

theorem ensure_close_orders_covers_witness:
  "rt_orders (st_runtime (ensure_close_orders plain_env (demo_strategy Stopping FuturesUsdM FuturesLong
     (default_runtime\<lparr>rt_positions := [demo_position FuturesLong]\<rparr>)))) \<noteq> []"
  using ensure_close_orders_covers [of 0 "demo_strategy Stopping FuturesUsdM FuturesLong
     (default_runtime\<lparr>rt_positions := [demo_position FuturesLong]\<rparr>)" plain_env]
  by (auto simp: demo_strategy_def)

text \<open>Quantisation to the exchange's step: with exact arithmetic the normalised value is a multiple of
  the step, never above the value asked for and less than one step below it; a missing or non-positive
  step leaves the value as it is, and normalising twice is normalising once.\<close>

theorem normalize_to_step_correct:
  assumes "exact_floor E" "0 < step"
  shows "(\<exists>k. normalize_to_step E value (Some step) = of_int k * step)
    \<and> normalize_to_step E value (Some step) \<le> value
    \<and> value < normalize_to_step E value (Some step) + step
    \<and> normalize_to_step E (normalize_to_step E value (Some step)) (Some step) = normalize_to_step E value (Some step)
    \<and> normalize_to_step E value None = value \<and> normalize_to_step E value (Some (- step)) = value"
  using exact_floor.normalize_bounds [OF assms] exact_floor.normalize_eq [OF assms] assms(2)
  by (auto simp: normalize_to_step_def positive_option_def)

theorem normalize_to_step_correct_witness:
  "normalize_to_step plain_env (217 / 100) (Some (1 / 10)) \<le> 217 / 100
   \<and> 217 / 100 < normalize_to_step plain_env (217 / 100) (Some (1 / 10)) + 1 / 10"
  using normalize_to_step_correct [OF exact_floor_env.exact_floor_axioms, of "1 / 10" _ _ "217 / 100"] by simp

definition demo_neutral :: Strategy where
  "demo_neutral = demo_strategy Running FuturesUsdM FuturesNeutral
     (default_runtime\<lparr>rt_positions := [demo_position FuturesLong]\<rparr>)"

text \<open>In a neutral futures strategy the requests for the exit of a long position name the short side:
  a working take profit or a trailing exit that sells gets \<open>positionSide\<close> \<open>SHORT\<close> although the only
  position held is long, so in hedge mode it opens a short instead of closing the long.\<close>

theorem neutral_exit_names_other_side:
  "br_position_side (working_request E demo_neutral q (demo_order ''s1-tp-3'' ''Sell'' None ''Working'')) = Some ''SHORT''
   \<and> br_position_side (closing_request E demo_neutral q (demo_order ''s1-trail-3'' ''Sell'' None ''ClosingRequested''))
       = Some ''SHORT''"
proof -
  have "show_nat 3 = ''3''" by (simp add: show_nat_small digit_def char_of_def bit_0)
  then have "close_order_index ''s1-trail-3'' = Some 3"
    using rsplit_last_append [OF dash_notin_show_nat, of "''s1-trail''" 3] parse_usize_show_nat [of 3]
    by (simp add: close_order_index_def)
  moreover have "\<not> eq_ignore_ascii_case ''Sell'' ''Buy''"
    by (simp add: string_simps)
  ultimately show ?thesis
    by (simp add: working_request_def closing_request_def close_position_side_for_order_def position_side_def
        demo_neutral_def demo_strategy_def demo_order_def Let_def case_prod_beta vec_get_def or_else_def)
qed

end
