(* ===== verification/StopProps.thy ===== *)
theory StopProps
  imports OrderSyncProps
begin

text \<open>
  The stop protocol: what a sync of a stopping strategy does to its positions and orders, when it
  ends in \<open>Stopped\<close>, and that it does end there on an exchange that fills market orders.
\<close>

subsection \<open>Removing the closed positions\<close>

lemma fold_remove_covering:
  assumes "sorted_wrt (<) is" "{..<length ps} \<subseteq> set is"
  shows "fold (\<lambda>i ps. if i < length ps then remove_nth i ps else ps) (rev is) ps = []"
  using assms
proof (induction "is" arbitrary: ps rule: rev_induct)
  case (snoc m ms)
  have ms: "sorted_wrt (<) ms" "\<forall>i \<in> set ms. i < m"
    using snoc.prems(1) by (auto simp: sorted_wrt_append)
  let ?ps = "if m < length ps then remove_nth m ps else ps"
  have "{..<length ?ps} \<subseteq> set ms"
  proof
    fix i assume i: "i \<in> {..<length ?ps}"
    then have "i < length ps" by (auto simp: length_remove_nth split: if_splits)
    then have "i \<in> set (ms @ [m])" using snoc.prems(2) by blast
    moreover have "i \<noteq> m"
    proof
      assume "i = m"
      then have "m < length ps - 1" using i by (simp add: length_remove_nth split: if_splits)
      then have "Suc m \<in> {..<length ps}" by simp
      then have "Suc m \<in> set (ms @ [m])" using snoc.prems(2) by blast
      then show False using ms(2) by auto
    qed
    ultimately show "i \<in> set ms" by simp
  qed
  then show ?case using snoc.IH [OF ms(1)] by simp
qed (auto simp: lessThan_empty_iff)

lemma strict_sorted_remdups_adj: "sorted xs \<Longrightarrow> sorted_wrt (<) (remdups_adj (xs :: 'a::linorder list))"
  by (induction xs rule: remdups_adj.induct) (auto simp: less_le)

lemma remove_filled_covering:
  assumes "{..<length ps} \<subseteq> set is"
  shows "remove_filled is ps = []"
  unfolding remove_filled_def
proof (rule fold_remove_covering)
  show "sorted_wrt (<) (remdups_adj (sort is))"
    by (simp add: strict_sorted_remdups_adj)
qed (use assms in simp)

lemma subseq_remove_nth: "subseq (remove_nth i xs) xs"
proof -
  have "suffix (drop (Suc i) xs) (drop i xs)"
    using suffix_drop [of 1 "drop i xs"] by simp
  then have "subseq (take i xs @ drop (Suc i) xs) (take i xs @ drop i xs)"
    by (intro list_emb_append_mono) (auto dest: sublist_imp_subseq suffix_imp_sublist)
  then show ?thesis by (simp add: remove_nth_def)
qed

lemma subseq_remove_filled: "subseq (remove_filled is ps) ps"
proof -
  have "subseq (fold (\<lambda>i ps. if i < length ps then remove_nth i ps else ps) ks ps) ps" for ks
  proof (induction ks arbitrary: ps)
    case (Cons k ks)
    then show ?case using subseq_remove_nth [of k ps] subseq_order.order_trans by fastforce
  qed simp
  then show ?thesis by (simp add: remove_filled_def)
qed

subsection \<open>The steps of a stopping sync\<close>

lemma cancel_open_order_id [simp]:
  "ro_order_id (snd (cancel_open_order gw strategy st order)) = ro_order_id order"
  by (simp add: cancel_open_order_def cancel_and_mark_def Let_def case_prod_beta split: sum.split)

lemma list_all2_map_eq: "list_all2 (\<lambda>x y. f y = f x) xs ys \<Longrightarrow> map f ys = map f xs"
  by (induction rule: list_all2_induct) simp_all

lemma cancel_open_strategy_orders_ids:
  "map ro_order_id (rt_orders (st_runtime (fst (cancel_open_strategy_orders gw strategy st)))) =
     map ro_order_id (rt_orders (st_runtime strategy))"
  unfolding cancel_open_strategy_orders_def case_prod_beta Let_def
  by (simp, rule list_all2_map_eq, rule map_accum_all2) simp

lemma is_close_order_cong: "ro_order_id a = ro_order_id b \<Longrightarrow> is_close_order a = is_close_order b"
  by (simp add: is_close_order_def)

text \<open>Only the orders, positions, status and events change, and the events only in the last step.\<close>

lemma cancel_open_strategy_orders_only_orders:
  "\<exists>os. fst (cancel_open_strategy_orders gw strategy st) = set_orders os strategy"
  by (auto simp: cancel_open_strategy_orders_def Let_def case_prod_beta)

lemma submit_close_orders_only_orders:
  "\<exists>os. fst (submit_close_orders E gw q strategy st) = set_orders os strategy"
  by (auto simp: submit_close_orders_def Let_def case_prod_beta)

lemma refresh_close_orders_positions:
  "\<exists>is os. fst (refresh_close_orders gw strategy st) =
      set_positions (remove_filled is (rt_positions (st_runtime strategy))) (set_orders os strategy)"
  by (auto simp: refresh_close_orders_def Let_def case_prod_beta)

lemma sync_stopping_shape:
  obtains ps os where "subseq ps (rt_positions (st_runtime strategy))"
    "fst (sync_stopping E gw q strategy st) =
       finalize_stop_if_ready E (set_positions ps (set_orders os strategy))"
proof -
  define a where "a = cancel_open_strategy_orders gw strategy st"
  define b where "b = submit_close_orders E gw q (ensure_close_orders E (fst a)) (snd a)"
  define c where "c = refresh_close_orders gw (fst b) (snd b)"
  obtain o1 where 1: "fst a = set_orders o1 strategy"
    using cancel_open_strategy_orders_only_orders unfolding a_def by blast
  obtain o2 where 2: "fst b = set_orders o2 (ensure_close_orders E (fst a))"
    using submit_close_orders_only_orders unfolding b_def by blast
  obtain "is" o3 where 3: "fst c = set_positions (remove_filled is (rt_positions (st_runtime (fst b))))
      (set_orders o3 (fst b))"
    using refresh_close_orders_positions unfolding c_def by blast
  have "fst (sync_stopping E gw q strategy st) = finalize_stop_if_ready E (fst c)"
    by (simp add: sync_stopping_def a_def b_def c_def Let_def case_prod_beta)
  moreover have "fst c = set_positions (remove_filled is (rt_positions (st_runtime strategy))) (set_orders o3 strategy)"
    by (simp add: 3 2 1 ensure_close_orders_def)
  ultimately show thesis using that [of "remove_filled is (rt_positions (st_runtime strategy))" o3]
      subseq_remove_filled by simp
qed

subsection \<open>Close orders on an exchange that fills\<close>

text \<open>Every placement succeeds and every order looked up is reported filled.\<close>

definition fills_every_order :: "'g BinanceOrderGateway \<Rightarrow> bool" where
  "fills_every_order gw \<longleftrightarrow>
     (\<forall>r g. \<exists>response g'. gw_place_order gw r g = (Inr response, g'))
   \<and> (\<forall>m s i c g. \<exists>response g'. gw_get_order gw m s i c g = (Inr response, g')
         \<and> eq_ignore_ascii_case (bp_status response) ''FILLED'')"

definition closing_order :: "env \<Rightarrow> Strategy \<Rightarrow> nat \<times> StrategyRuntimePosition \<Rightarrow> StrategyRuntimeOrder" where
  "closing_order E strategy ip =
     \<lparr>ro_order_id = close_order_id E (st_id strategy) (fst ip), ro_exchange_order_id = None,
      ro_level_index = None, ro_side = close_side_for_position (snd ip),
      ro_order_type = ''Market'', ro_price = None, ro_quantity = po_quantity (snd ip),
      ro_status = ''ClosingRequested''\<rparr>"

lemma closing_order_close: "is_close_order (closing_order E s ip)"
  by (rule is_close_order_id [where E = E and sid = "st_id s" and i = "fst ip"]) (simp add: closing_order_def)

lemma fold_ensure_fresh:
  assumes "ps1 @ qs = rt_positions (st_runtime s)" "length (rt_positions (st_runtime s)) \<le> 2 ^ 64"
    and "list_all (\<lambda>o'. \<not> is_close_order o') os"
  shows "fold (ensure_close_order E s) (List.enumerate (length ps1) qs)
       (os @ map (closing_order E s) (List.enumerate 0 ps1)) =
     os @ map (closing_order E s) (List.enumerate 0 (ps1 @ qs))"
  using assms(1)
proof (induction qs arbitrary: ps1)
  case (Cons p qs)
  let ?ps = "rt_positions (st_runtime s)"
  have len: "Suc (length ps1 + length qs) = length ?ps" using arg_cong [OF Cons.prems, of length] by simp
  have "\<not> close_order_targets_position o' ?ps (st_market s) (st_mode s) p (length ps1)"
    if o': "o' \<in> set (os @ map (closing_order E s) (List.enumerate 0 ps1))" for o'
  proof (cases "o' \<in> set os")
    case True
    then show ?thesis using assms(3) by (auto simp: list_all_iff close_order_targets_position_def)
  next
    case False
    with o' obtain i where "i < length ps1" "ro_order_id o' = close_order_id E (st_id s) i"
      by (auto simp: closing_order_def in_set_enumerate_eq)
    then show ?thesis
      using len assms(2) close_order_index_id [of i E "st_id s"]
      by (simp add: close_order_targets_position_def Let_def)
  qed
  then have "ensure_close_order E s (length ps1, p) (os @ map (closing_order E s) (List.enumerate 0 ps1)) =
      os @ map (closing_order E s) (List.enumerate 0 (ps1 @ [p]))"
    by (simp add: ensure_close_order_def list_ex_iff closing_order_def enumerate_append_eq)
  then show ?case using Cons.IH [of "ps1 @ [p]"] Cons.prems by simp
qed simp

lemma ensure_close_orders_fresh:
  assumes "length (rt_positions (st_runtime s)) \<le> 2 ^ 64"
    and "list_all (\<lambda>o'. \<not> is_close_order o') (rt_orders (st_runtime s))"
  shows "ensure_close_orders E s = set_orders (rt_orders (st_runtime s)
     @ map (closing_order E s) (List.enumerate 0 (rt_positions (st_runtime s)))) s"
  using fold_ensure_fresh [OF _ assms, of "[]" "rt_positions (st_runtime s)" E]
  by (simp add: ensure_close_orders_def)

lemma submit_close_order_fills:
  assumes "fills_every_order gw"
  shows "ro_order_id (snd (submit_close_order E gw q s st order)) = ro_order_id order"
    and "is_close_order order \<Longrightarrow> ro_exchange_order_id order = None \<Longrightarrow> ro_status order = ''ClosingRequested'' \<Longrightarrow>
      ro_exchange_order_id (snd (submit_close_order E gw q s st order)) \<noteq> None
      \<and> ro_status (snd (submit_close_order E gw q s st order)) = ''Placed''"
  using assms
  by (auto simp: fills_every_order_def submit_close_order_def place_and_mark_def Let_def case_prod_beta
      split: sum.split) (metis fst_conv sum.distinct(1))+

lemma refresh_close_order_fills:
  assumes "fills_every_order gw" "is_close_order order" "ro_exchange_order_id order \<noteq> None"
    "ro_status order = ''Placed''"
  shows "ro_status (snd (refresh_close_order gw s (fi, st) order)) = ''Filled''"
    and "ro_order_id (snd (refresh_close_order gw s (fi, st) order)) = ro_order_id order"
    and "fst (fst (refresh_close_order gw s (fi, st) order)) =
      (case close_order_index (ro_order_id order) of Some index \<Rightarrow> fi @ [index] | None \<Rightarrow> fi)"
proof -
  obtain result g where st: "st = (result, g)" by (cases st)
  obtain response g' where "gw_get_order gw (market_scope (st_market s)) (st_symbol s)
      (ro_exchange_order_id order) (Some (ro_order_id order)) g = (Inr response, g')"
    "eq_ignore_ascii_case (bp_status response) ''FILLED''"
    using assms(1) unfolding fills_every_order_def by blast
  then show "ro_status (snd (refresh_close_order gw s (fi, st) order)) = ''Filled''"
    "ro_order_id (snd (refresh_close_order gw s (fi, st) order)) = ro_order_id order"
    "fst (fst (refresh_close_order gw s (fi, st) order)) =
      (case close_order_index (ro_order_id order) of Some index \<Rightarrow> fi @ [index] | None \<Rightarrow> fi)"
    using assms(2-) by (auto simp: refresh_close_order_def st)
qed

lemma refresh_close_order_other:
  "\<not> is_close_order order \<Longrightarrow> refresh_close_order gw s acc order = (acc, order)"
  by (simp add: refresh_close_order_def case_prod_beta)

definition close_placed :: "StrategyRuntimeOrder \<Rightarrow> bool" where
  "close_placed order \<longleftrightarrow>
     \<not> is_close_order order \<or> (ro_exchange_order_id order \<noteq> None \<and> ro_status order = ''Placed'')"

definition close_filled :: "StrategyRuntimeOrder \<Rightarrow> bool" where
  "close_filled order \<longleftrightarrow> \<not> is_close_order order \<or> ro_status order = ''Filled''"

lemma refresh_all_fills:
  assumes "fills_every_order gw" "list_all close_placed os"
  shows "list_all close_filled (snd (map_accum (refresh_close_order gw s) (fi, st) os))
    \<and> set fi \<union> {i. \<exists>o' \<in> set os. is_close_order o' \<and> close_order_index (ro_order_id o') = Some i}
      \<subseteq> set (fst (fst (map_accum (refresh_close_order gw s) (fi, st) os)))"
  using assms(2)
proof (induction os arbitrary: fi st)
  case (Cons o' os)
  obtain fi' st' where f: "fst (refresh_close_order gw s (fi, st) o') = (fi', st')"
    by (cases "fst (refresh_close_order gw s (fi, st) o')")
  have IH: "list_all close_filled (snd (map_accum (refresh_close_order gw s) (fi', st') os))
    \<and> set fi' \<union> {i. \<exists>o' \<in> set os. is_close_order o' \<and> close_order_index (ro_order_id o') = Some i}
      \<subseteq> set (fst (fst (map_accum (refresh_close_order gw s) (fi', st') os)))"
    using Cons.IH [of fi' st'] Cons.prems by simp
  show ?case
  proof (cases "is_close_order o'")
    case True
    with Cons.prems have p: "ro_exchange_order_id o' \<noteq> None" "ro_status o' = ''Placed''"
      by (auto simp: close_placed_def)
    note r = refresh_close_order_fills [OF assms(1) True p, of s fi st]
    have "close_filled (snd (refresh_close_order gw s (fi, st) o'))" using r by (simp add: close_filled_def)
    then show ?thesis using IH r f by (auto simp: map_accum_Cons split: option.splits)
  next
    case False
    then have "close_filled o'" by (simp add: close_filled_def)
    then show ?thesis using False IH f by (auto simp: map_accum_Cons refresh_close_order_other)
  qed
qed simp

lemma list_all2_right:
  "list_all2 (\<lambda>x y. f y = f x \<and> P y) xs ys \<Longrightarrow> list_all P ys \<and> map f ys = map f xs"
  by (induction rule: list_all2_induct) simp_all

lemma submit_all_fills:
  assumes "fills_every_order gw"
    and "list_all (\<lambda>o'. \<not> is_close_order o' \<or> (ro_exchange_order_id o' = None \<and> ro_status o' = ''ClosingRequested''))
           (rt_orders (st_runtime s))"
  shows "list_all close_placed (rt_orders (st_runtime (fst (submit_close_orders E gw q s st))))
    \<and> map ro_order_id (rt_orders (st_runtime (fst (submit_close_orders E gw q s st)))) =
      map ro_order_id (rt_orders (st_runtime s))"
proof -
  let ?f = "submit_close_order E gw q s"
  let ?os = "rt_orders (st_runtime s)"
  have "list_all2 (\<lambda>o' o''. ro_order_id o'' = ro_order_id o' \<and> close_placed o'')
      ?os (snd (map_accum ?f st ?os))"
  proof (rule map_accum_all2)
    fix st o' assume "o' \<in> set ?os"
    with assms(2) have "\<not> is_close_order o' \<or> (ro_exchange_order_id o' = None \<and> ro_status o' = ''ClosingRequested'')"
      by (auto simp: list_all_iff)
    then show "ro_order_id (snd (?f st o')) = ro_order_id o' \<and> close_placed (snd (?f st o'))"
      using submit_close_order_fills [OF assms(1), where order = o' and st = st and E = E and q = q and s = s]
        is_close_order_cong [OF submit_close_order_fills(1) [OF assms(1), where order = o' and st = st and E = E and q = q and s = s]]
      by (auto simp: close_placed_def)
  qed
  from list_all2_right [OF this] show ?thesis
    by (simp add: submit_close_orders_def Let_def case_prod_beta)
qed

lemma closing_ids_cover:
  assumes "map ro_order_id os = map ro_order_id (o1 @ map (closing_order E s) (List.enumerate 0 ps))"
    and "length ps \<le> 2 ^ 64"
  shows "{..<length ps} \<subseteq> {i. \<exists>o' \<in> set os. is_close_order o' \<and> close_order_index (ro_order_id o') = Some i}"
proof
  fix i assume "i \<in> {..<length ps}"
  then have i: "i < length ps" by simp
  then have "(i, ps ! i) \<in> set (List.enumerate 0 ps)" by (simp add: in_set_enumerate_eq)
  then have "ro_order_id (closing_order E s (i, ps ! i)) \<in> set (map ro_order_id os)"
    unfolding assms(1) by simp
  then obtain o' where o': "o' \<in> set os" "ro_order_id o' = close_order_id E (st_id s) i"
    by (auto simp: closing_order_def)
  moreover have "close_order_index (ro_order_id o') = Some i"
    using close_order_index_id [of i E "st_id s"] i assms(2) o'(2) by simp
  ultimately show "i \<in> {i. \<exists>o' \<in> set os. is_close_order o' \<and> close_order_index (ro_order_id o') = Some i}"
    using is_close_order_id by blast
qed

lemma map_is_close_order: "map ro_order_id os = map ro_order_id os' \<Longrightarrow> map is_close_order os = map is_close_order os'"
  by (auto simp: list_eq_iff_nth_eq intro!: is_close_order_cong)

lemma stopping_sync_fills:
  assumes "fills_every_order gw" "length (rt_positions (st_runtime s)) \<le> 2 ^ 64"
    and "list_all (\<lambda>o'. \<not> is_close_order o') (rt_orders (st_runtime s))"
  obtains os where "list_all close_filled os"
    "fst (sync_stopping E gw q s st) = finalize_stop_if_ready E (set_positions [] (set_orders os s))"
proof -
  define a where "a = cancel_open_strategy_orders gw s st"
  define b where "b = submit_close_orders E gw q (ensure_close_orders E (fst a)) (snd a)"
  define c where "c = map_accum (refresh_close_order gw (fst b)) ([], snd b) (rt_orders (st_runtime (fst b)))"
  let ?ps = "rt_positions (st_runtime s)"
  obtain o1 where 1: "fst a = set_orders o1 s"
    using cancel_open_strategy_orders_only_orders unfolding a_def by blast
  have "map is_close_order o1 = map is_close_order (rt_orders (st_runtime s))"
    using cancel_open_strategy_orders_ids [of gw s st] by (intro map_is_close_order) (simp add: 1 flip: a_def)
  then have no_close: "list_all (\<lambda>o'. \<not> is_close_order o') o1"
    using assms(3) by (metis (no_types, lifting) in_set_conv_nth length_map list_all_length nth_map)
  have 2: "ensure_close_orders E (fst a) = set_orders (o1 @ map (closing_order E (fst a)) (List.enumerate 0 ?ps)) s"
    using ensure_close_orders_fresh [of "fst a" E] assms(2) no_close by (simp add: 1)
  have ready: "list_all (\<lambda>o'. \<not> is_close_order o' \<or> (ro_exchange_order_id o' = None \<and> ro_status o' = ''ClosingRequested''))
      (rt_orders (st_runtime (ensure_close_orders E (fst a))))"
    using no_close by (auto simp: 2 list_all_iff closing_order_def)
  have pre: "list_all close_placed (rt_orders (st_runtime (fst b)))"
      "map ro_order_id (rt_orders (st_runtime (fst b))) =
         map ro_order_id (o1 @ map (closing_order E (fst a)) (List.enumerate 0 ?ps))"
    using submit_all_fills [OF assms(1) ready, of E q "snd a"] by (simp_all add: b_def 2)
  have filled: "list_all close_filled (snd c)"
    "{i. \<exists>o' \<in> set (rt_orders (st_runtime (fst b))). is_close_order o' \<and> close_order_index (ro_order_id o') = Some i}
      \<subseteq> set (fst (fst c))"
    using refresh_all_fills [OF assms(1) pre(1), of "fst b" "[]" "snd b"] by (simp_all add: c_def)
  have "{..<length ?ps} \<subseteq> set (fst (fst c))"
    using closing_ids_cover [OF pre(2) assms(2)] filled(2) by (rule subset_trans)
  moreover obtain o2 where "fst b = set_orders o2 s"
    using submit_close_orders_only_orders [of E gw q "ensure_close_orders E (fst a)" "snd a"]
    by (auto simp: b_def 2)
  ultimately have "fst (refresh_close_orders gw (fst b) (snd b)) = set_positions [] (set_orders (snd c) s)"
    using remove_filled_covering [of ?ps "fst (fst c)"]
    by (simp add: refresh_close_orders_def Let_def case_prod_beta c_def)
  then have "fst (sync_stopping E gw q s st) = finalize_stop_if_ready E (set_positions [] (set_orders (snd c) s))"
    by (simp add: sync_stopping_def Let_def case_prod_beta a_def b_def)
  with filled(1) show thesis by (rule that)
qed

lemma finalize_stop_status:
  "st_status (finalize_stop_if_ready E s) =
     (if rt_positions (st_runtime s) = [] \<and> \<not> has_pending_close s \<and> \<not> pending_rebuild_after_stop s
      then Stopped else st_status s)"
  "rt_positions (st_runtime (finalize_stop_if_ready E s)) = rt_positions (st_runtime s)"
  "rt_orders (st_runtime (finalize_stop_if_ready E s)) = rt_orders (st_runtime s)"
  by (simp_all add: finalize_stop_if_ready_def)

lemma pending_flags_cong:
  "rt_orders (st_runtime s) = rt_orders (st_runtime s') \<Longrightarrow> has_pending_close s = has_pending_close s'"
  "rt_events (st_runtime s) = rt_events (st_runtime s') \<Longrightarrow>
     pending_rebuild_after_stop s = pending_rebuild_after_stop s'"
  by (simp_all add: has_pending_close_def pending_rebuild_after_stop_def)

lemma no_pending_close: "list_all close_filled (rt_orders (st_runtime s)) \<Longrightarrow> \<not> has_pending_close s"
  by (auto simp: has_pending_close_def close_filled_def list_ex_iff list_all_iff)

subsection \<open>Theorems\<close>

text \<open>C10: A stopping strategy leaves that status in exactly one way: its sync ends in \<open>Stopped\<close> when
  no position is left, no close order is outstanding and no rebuild is due after an overall trigger,
  and stays \<open>Stopping\<close> otherwise. No sync of it opens a position or changes one: the positions left
  are a subsequence of those before.\<close>

theorem stopping_sync_status:
  assumes "st_status strategy = Stopping" "fst (sync_strategy_orders E gw q strategy g) = strategy'"
  shows "st_status strategy' =
      (if rt_positions (st_runtime strategy') = [] \<and> \<not> has_pending_close strategy'
          \<and> \<not> pending_rebuild_after_stop strategy then Stopped else Stopping)
    \<and> subseq (rt_positions (st_runtime strategy')) (rt_positions (st_runtime strategy))"
proof -
  obtain ps os where ps: "subseq ps (rt_positions (st_runtime strategy))"
    "strategy' = finalize_stop_if_ready E (set_positions ps (set_orders os strategy))"
    using sync_stopping_shape [of strategy E gw q "(default_sync_result, g)"] assms
    by (auto simp: sync_strategy_orders_cases)
  have "has_pending_close strategy' = has_pending_close (set_positions ps (set_orders os strategy))"
    "pending_rebuild_after_stop (set_positions ps (set_orders os strategy)) = pending_rebuild_after_stop strategy"
    by (intro pending_flags_cong; simp add: ps(2) finalize_stop_status)+
  then show ?thesis using ps assms(1) by (simp add: finalize_stop_status)
qed

definition demo_stopping :: Strategy where
  "demo_stopping = demo_strategy Stopping FuturesUsdM FuturesLong
     (default_runtime\<lparr>rt_positions := [demo_position FuturesLong],
        rt_orders := [demo_order ''s1-tp-0'' ''Sell'' (Some ''5'') ''Placed'']\<rparr>)"

theorem stopping_sync_status_witness:
  "\<exists>strategy'. st_status strategy' \<in> {Stopped, Stopping}
     \<and> fst (sync_strategy_orders plain_env demo_gateway None demo_stopping []) = strategy'
     \<and> subseq (rt_positions (st_runtime strategy')) [demo_position FuturesLong]"
  using stopping_sync_status [OF _ refl, of demo_stopping plain_env demo_gateway None "[]"]
  by (auto simp: demo_stopping_def demo_strategy_def)

text \<open>C2: The stop protocol completes: on an exchange that accepts every market order and reports it
  filled, one sync of a stopping strategy that has not begun to close closes every position, whatever
  orders it has, how many positions it holds and how the cancellations of its working orders end, and
  leaves it \<open>Stopped\<close> unless a rebuild is due.\<close>

theorem stopping_completes:
  assumes "fills_every_order gw" "st_status strategy = Stopping"
    and "list_all (\<lambda>order. \<not> is_close_order order) (rt_orders (st_runtime strategy))"
    and "length (rt_positions (st_runtime strategy)) \<le> 2 ^ 64" "\<not> pending_rebuild_after_stop strategy"
  shows "st_status (fst (sync_strategy_orders E gw q strategy g)) = Stopped
    \<and> rt_positions (st_runtime (fst (sync_strategy_orders E gw q strategy g))) = []"
proof -
  obtain os where os: "list_all close_filled os"
    "fst (sync_strategy_orders E gw q strategy g) = finalize_stop_if_ready E (set_positions [] (set_orders os strategy))"
    using stopping_sync_fills [OF assms(1,4,3), of E q "(default_sync_result, g)"] assms(2)
    by (auto simp: sync_strategy_orders_cases)
  have "pending_rebuild_after_stop (set_positions [] (set_orders os strategy)) = pending_rebuild_after_stop strategy"
    by (intro pending_flags_cong) simp
  then show ?thesis using os assms(5) no_pending_close by (simp add: finalize_stop_status)
qed

definition filling_gateway :: "unit BinanceOrderGateway" where
  "filling_gateway =
     \<lparr>gw_place_order = (\<lambda>r g. (Inr (demo_response (br_market r) (br_symbol r) (br_client_order_id r) ''NEW''), g)),
      gw_cancel_order = (\<lambda>m s i c g. (Inl ''binance error (-1001): disconnected'', g)),
      gw_get_order = (\<lambda>m s i c g. (Inr (demo_response m s c ''FILLED''), g)),
      gw_open_orders = (\<lambda>m s g. (Inr [], g))\<rparr>"

theorem stopping_completes_witness:
  "st_status (fst (sync_strategy_orders plain_env filling_gateway None demo_stopping ())) = Stopped
   \<and> rt_positions (st_runtime (fst (sync_strategy_orders plain_env filling_gateway None demo_stopping ()))) = []"
proof (rule stopping_completes)
  show "fills_every_order filling_gateway"
    by (simp add: fills_every_order_def filling_gateway_def demo_response_def eq_ignore_ascii_case_def)
  show "list_all (\<lambda>order. \<not> is_close_order order) (rt_orders (st_runtime demo_stopping))"
    by (simp add: demo_stopping_def demo_strategy_def demo_order_def is_close_order_def string_simps)
qed (simp_all add: demo_stopping_def demo_strategy_def pending_rebuild_after_stop_def default_runtime_def
    rposition_def)

subsection \<open>A stop that never completes\<close>

definition demo_hedged :: Strategy where
  "demo_hedged = demo_strategy Stopping FuturesUsdM FuturesNeutral
     (default_runtime\<lparr>rt_positions := [demo_position FuturesLong, demo_position FuturesShort]\<rparr>)"

definition demo_close_id :: "nat \<Rightarrow> string" where
  "demo_close_id i = close_order_id plain_env ''s1'' i"

definition demo_close_order :: "nat \<Rightarrow> string \<Rightarrow> string option \<Rightarrow> string \<Rightarrow> StrategyRuntimeOrder" where
  "demo_close_order i side exchange_id status =
     \<lparr>ro_order_id = demo_close_id i, ro_exchange_order_id = exchange_id, ro_level_index = None, ro_side = side,
      ro_order_type = ''Market'', ro_price = None, ro_quantity = 2, ro_status = status\<rparr>"

lemma demo_close_index: "close_order_index (demo_close_id 0) = Some 0" "close_order_index (demo_close_id (Suc 0)) = Some (Suc 0)"
  using close_order_index_id [of 0 plain_env] close_order_index_id [of "Suc 0" plain_env]
  by (simp_all only: demo_close_id_def) simp_all

lemma demo_close_id_neq: "demo_close_id 0 \<noteq> demo_close_id (Suc 0)"
  using demo_close_index by auto

lemma demo_close_order_close: "is_close_order (demo_close_order i side x status)"
  by (rule is_close_order_id [where E = plain_env and sid = "''s1''" and i = i])
    (simp add: demo_close_order_def demo_close_id_def)

lemma demo_close_order_simps:
  "ro_order_id (demo_close_order i side x status) = demo_close_id i"
  "ro_exchange_order_id (demo_close_order i side x status) = x"
  "ro_side (demo_close_order i side x status) = side"
  "ro_status (demo_close_order i side x status) = status"
  "(demo_close_order i side x status)\<lparr>ro_status := status'\<rparr> = demo_close_order i side x status'"
  "(demo_close_order i side x status)\<lparr>ro_exchange_order_id := y\<rparr> = demo_close_order i side y status"
  by (simp_all add: demo_close_order_def)

definition demo_half :: Strategy where
  "demo_half = demo_strategy Stopping FuturesUsdM FuturesNeutral
     (default_runtime\<lparr>rt_positions := [demo_position FuturesShort],
        rt_orders := [demo_close_order 0 ''Sell'' (Some ''77'') ''Filled'',
                      demo_close_order (Suc 0) ''Buy'' (Some ''77'') ''Placed'']\<rparr>)"

definition demo_stuck :: Strategy where
  "demo_stuck = demo_strategy Stopping FuturesUsdM FuturesNeutral
     (default_runtime\<lparr>rt_positions := [demo_position FuturesShort],
        rt_orders := [demo_close_order 0 ''Sell'' (Some ''77'') ''Filled'',
                      demo_close_order (Suc 0) ''Buy'' (Some ''77'') ''Filled'']\<rparr>)"

lemmas stop_eval = sync_strategy_orders_cases sync_stopping_def cancel_open_strategy_orders_def
  cancel_open_order_def submit_close_orders_def submit_close_order_def place_and_mark_def
  refresh_close_orders_def refresh_close_order_def remove_filled_def finalize_stop_if_ready_def
  has_pending_close_def map_accum_Cons demo_close_order_simps demo_close_order_close demo_close_index
  demo_strategy_def default_runtime_def
  demo_response_def remove_nth_def

lemma demo_hedged_ensure:
  "ensure_close_orders plain_env demo_hedged = set_orders
     [demo_close_order 0 ''Sell'' None ''ClosingRequested'', demo_close_order (Suc 0) ''Buy'' None ''ClosingRequested'']
     demo_hedged"
  using ensure_close_orders_fresh [of demo_hedged plain_env]
  by (simp add: demo_hedged_def demo_strategy_def default_runtime_def closing_order_def demo_close_order_def
      demo_close_id_def close_side_for_position_def demo_position_def)

lemma targets_first:
  "close_order_targets_position (demo_close_order 0 side x status) [p] m mode p 0"
  by (simp add: close_order_targets_position_def demo_close_order_close demo_close_order_simps demo_close_index Let_def)

lemma demo_stopping_status:
  "st_status demo_hedged = Stopping" "st_status demo_half = Stopping" "st_status demo_stuck = Stopping"
  by (simp_all add: demo_hedged_def demo_half_def demo_stuck_def demo_strategy_def)

lemma eq_ignore_ascii_case_length: "eq_ignore_ascii_case a b \<Longrightarrow> length a = length b"
  unfolding eq_ignore_ascii_case_def to_ascii_lowercase_def by (metis length_map)

lemma new_is_no_end:
  "\<not> eq_ignore_ascii_case ''NEW'' ''FILLED''" "\<not> eq_ignore_ascii_case ''NEW'' ''PARTIALLY_FILLED''"
  "\<not> eq_ignore_ascii_case ''NEW'' ''CANCELED''" "eq_ignore_ascii_case s s"
  by (auto dest: eq_ignore_ascii_case_length simp: eq_ignore_ascii_case_def [of s s])

lemma demo_submit:
  "submit_close_orders plain_env demo_gateway None (set_orders
     [demo_close_order 0 ''Sell'' None ''ClosingRequested'', demo_close_order (Suc 0) ''Buy'' None ''ClosingRequested'']
     demo_hedged) (r, g) =
   (set_orders [demo_close_order 0 ''Sell'' (Some ''77'') ''Placed'', demo_close_order (Suc 0) ''Buy'' (Some ''77'') ''Placed'']
     demo_hedged, (count_submitted (count_submitted r), g))"
  by (simp add: submit_close_orders_def submit_close_order_def place_and_mark_def map_accum_Cons
     demo_close_order_simps demo_close_order_close demo_gateway_def demo_response_def)

lemma demo_refresh:
  "fst (refresh_close_orders demo_gateway (set_orders
     [demo_close_order 0 ''Sell'' (Some ''77'') ''Placed'', demo_close_order (Suc 0) ''Buy'' (Some ''77'') ''Placed'']
     demo_hedged) (r, [demo_close_id 0])) = demo_half"
  using demo_close_id_neq
  by (simp add: refresh_close_orders_def refresh_close_order_def map_accum_Cons
     demo_close_order_simps demo_close_order_close demo_gateway_def demo_response_def new_is_no_end demo_close_index
     remove_filled_def remove_nth_def)
   (simp add: demo_half_def demo_hedged_def demo_strategy_def default_runtime_def)

lemma demo_first_sync: "fst (sync_strategy_orders plain_env demo_gateway None demo_hedged [demo_close_id 0]) = demo_half"
proof -
  have c: "cancel_open_strategy_orders demo_gateway demo_hedged st = (demo_hedged, st)" for st
    by (simp add: cancel_open_strategy_orders_def demo_hedged_def demo_strategy_def default_runtime_def)
  have f: "finalize_stop_if_ready plain_env demo_half = demo_half"
    by (simp add: demo_half_def finalize_stop_if_ready_def demo_strategy_def)
  show ?thesis
    using demo_refresh by (simp add: sync_strategy_orders_cases sync_stopping_def c demo_hedged_ensure demo_stopping_status Let_def
      demo_submit case_prod_beta f)
qed

lemma demo_second_sync: "fst (sync_strategy_orders plain_env demo_gateway None demo_half [demo_close_id 0, demo_close_id (Suc 0)]) = demo_stuck"
proof -
  have c: "cancel_open_strategy_orders demo_gateway demo_half st = (demo_half, st)" for st
    by (simp add: stop_eval demo_half_def)
  have e: "ensure_close_orders plain_env demo_half = demo_half"
    by (simp add: ensure_close_orders_def ensure_close_order_def demo_half_def demo_strategy_def default_runtime_def targets_first)
  show ?thesis
    using demo_close_id_neq
    by (simp add: sync_strategy_orders_cases sync_stopping_def c e demo_stopping_status Let_def)
     (simp add: demo_half_def demo_stuck_def stop_eval demo_gateway_def)
qed

lemma demo_later_sync: "sync_strategy_orders E gw q demo_stuck g = (demo_stuck, default_sync_result, g)"
proof -
  have e: "ensure_close_orders E demo_stuck = demo_stuck"
    by (simp add: ensure_close_orders_def ensure_close_order_def demo_stuck_def demo_strategy_def default_runtime_def targets_first)
  have c: "cancel_open_strategy_orders gw demo_stuck st = (demo_stuck, st)" for st
    by (simp add: stop_eval demo_stuck_def)
  show ?thesis
    by (simp add: sync_strategy_orders_cases sync_stopping_def c e demo_stopping_status Let_def)
     (simp add: demo_stuck_def stop_eval)
qed

text \<open>When two positions are closed in two rounds the stop hangs: the first fill removes position 0
  and shifts the other one to index 0, the second fill names index 1, which no longer exists, and the
  filled close order of index 0 is taken for the close order of the remaining position. The strategy
  stays \<open>Stopping\<close> with a position that no longer exists on the exchange, and every later sync,
  with any exchange, changes nothing.\<close>

theorem stale_close_index_blocks_stop:
  "fst (sync_strategy_orders plain_env demo_gateway None demo_hedged [demo_close_id 0]) = demo_half
   \<and> fst (sync_strategy_orders plain_env demo_gateway None demo_half [demo_close_id 0, demo_close_id 1]) = demo_stuck
   \<and> st_status demo_stuck = Stopping \<and> rt_positions (st_runtime demo_stuck) = [demo_position FuturesShort]
   \<and> sync_strategy_orders E gw q demo_stuck g = (demo_stuck, default_sync_result, g)"
  using demo_first_sync demo_second_sync demo_later_sync [of E gw q g] demo_stopping_status
  by (simp add: demo_stuck_def demo_strategy_def)

end
