(* ===== verification/ExecutionSync.thy ===== *)
theory ExecutionSync
  imports OrderSync
begin

text \<open>
  \<^verbatim>\<open>src/apps/trading-engine/src/execution_sync.rs\<close>: the effect of an execution report of the exchange
  on a strategy. Orders are tracked by their ids, positions are recomputed from the fills level by
  level, and a fill moves the grid on: an entry fill places or updates the exit order of its level,
  an exit fill reopens the entry, a close fill shrinks the position it targets. Functions of this
  file that are verbatim copies of functions of \<^verbatim>\<open>strategy_runtime.rs\<close> or \<^verbatim>\<open>order_sync.rs\<close> (order
  ids, \<open>take_profit_price\<close>, \<open>close_order_index\<close>, \<open>pending_rebuild_after_stop\<close>, the pending-close test)
  are the definitions of those theories.
\<close>

record BinanceExecutionUpdate =
  xu_market :: string
  xu_symbol :: string
  xu_order_id :: string
  xu_client_order_id :: "string option"
  xu_side :: "string option"
  xu_order_type :: "string option"
  xu_status :: string
  xu_execution_type :: "string option"
  xu_order_price :: "string option"
  xu_last_fill_price :: "string option"
  xu_last_fill_quantity :: "string option"
  xu_cumulative_fill_quantity :: "string option"
  xu_fee_amount :: "string option"
  xu_fee_asset :: "string option"
  xu_position_side :: "string option"
  xu_trade_id :: "string option"
  xu_realized_profit :: "string option"
  xu_event_time_ms :: int

record LevelState =
  ls_quantity :: decimal
  ls_average_entry_price :: decimal
  ls_is_short :: bool

subsection \<open>Ids, sides and statuses\<close>

definition normalize_order_status :: "string \<Rightarrow> string" where
  "normalize_order_status status =
     (let s = to_ascii_uppercase (str_trim status)
      in if s = ''NEW'' then ''Placed''
         else if s = ''PARTIALLY_FILLED'' then ''PartiallyFilled''
         else if s = ''FILLED'' then ''Filled''
         else if s = ''CANCELED'' \<or> s = ''EXPIRED'' \<or> s = ''REJECTED'' then ''Canceled''
         else ''Placed'')"

definition is_close_order_id :: "string \<Rightarrow> bool" where
  "is_close_order_id order_id \<longleftrightarrow>
     starts_with order_id ''cl-'' \<or> str_contains order_id ''-stop-close-'' \<or> starts_with order_id ''close-''"

definition is_martingale_leg_order_id :: "string \<Rightarrow> bool" where
  "is_martingale_leg_order_id order_id \<longleftrightarrow> starts_with order_id ''mg-'' \<and> str_contains order_id ''-leg-''"

definition is_entry_order_id :: "string \<Rightarrow> bool" where
  "is_entry_order_id order_id \<longleftrightarrow>
     (str_contains order_id ''-order-'' \<and> \<not> is_close_order_id order_id) \<or> is_martingale_leg_order_id order_id"

definition is_take_profit_order_id :: "string \<Rightarrow> bool" where
  "is_take_profit_order_id order_id = str_contains order_id ''-tp-''"

definition is_trailing_monitor_order_id :: "string \<Rightarrow> bool" where
  "is_trailing_monitor_order_id order_id = str_contains order_id ''-trail-''"

definition is_short_side :: "string \<Rightarrow> bool" where
  "is_short_side side = eq_ignore_ascii_case side ''Sell''"

definition opposite_side :: "string \<Rightarrow> string" where
  "opposite_side side = (if eq_ignore_ascii_case side ''Sell'' then ''Buy'' else ''Sell'')"

definition entry_order_ids_for_level :: "Strategy \<Rightarrow> u32 \<Rightarrow> string list" where
  "entry_order_ids_for_level strategy level_index =
     entry_order_id (st_id strategy) level_index
     # map ro_order_id (filter (\<lambda>order. is_martingale_leg_order_id (ro_order_id order))
         (filter (\<lambda>order. ro_level_index order = Some level_index) (rt_orders (st_runtime strategy))))"

text \<open>\<open>strategy.active_revision.as_ref().unwrap_or(&strategy.draft_revision)\<close>.\<close>

definition current_revision :: "Strategy \<Rightarrow> StrategyRevision" where
  "current_revision strategy =
     (case st_active_revision strategy of Some r \<Rightarrow> r | None \<Rightarrow> st_draft_revision strategy)"

definition strategy_level_for :: "Strategy \<Rightarrow> u32 \<Rightarrow> GridLevel option" where
  "strategy_level_for strategy level_index =
     find (\<lambda>level. gl_level_index level = level_index) (rv_levels (current_revision strategy))"

definition position_mode_for_entry :: "StrategyMarket \<Rightarrow> StrategyMode \<Rightarrow> string \<Rightarrow> StrategyMode" where
  "position_mode_for_entry market mode side =
     (case market of
        Spot \<Rightarrow>
          if eq_ignore_ascii_case side ''Sell'' then SpotSellOnly
          else (case mode of SpotBuyOnly \<Rightarrow> SpotBuyOnly | _ \<Rightarrow> SpotClassic)
      | _ \<Rightarrow> if eq_ignore_ascii_case side ''Sell'' then FuturesShort else FuturesLong)"

text \<open>\<open>.as_deref().and_then(|value| value.parse::<Decimal>().ok())\<close>.\<close>

definition parse_opt :: "env \<Rightarrow> string option \<Rightarrow> decimal option" where
  "parse_opt E value = (case value of None \<Rightarrow> None | Some v \<Rightarrow> d_parse E v)"

definition update_price :: "env \<Rightarrow> BinanceExecutionUpdate \<Rightarrow> decimal option" where
  "update_price E update = parse_opt E (or_else (xu_last_fill_price update) (xu_order_price update))"

subsection \<open>Positions from fills\<close>

definition effective_entry_fill_quantity :: "env \<Rightarrow> Strategy \<Rightarrow> StrategyRuntimeFill \<Rightarrow> decimal" where
  "effective_entry_fill_quantity E strategy fill =
     (if st_market strategy \<noteq> Spot then fi_quantity fill
      else case fi_order_id fill of
        None \<Rightarrow> fi_quantity fill
      | Some order_id \<Rightarrow>
          (case find (\<lambda>candidate. ro_order_id candidate = order_id) (rt_orders (st_runtime strategy)) of
             None \<Rightarrow> fi_quantity fill
           | Some order \<Rightarrow>
               if \<not> eq_ignore_ascii_case (ro_side order) ''Buy'' then fi_quantity fill
               else (case fi_fee_asset fill of
                  None \<Rightarrow> fi_quantity fill
                | Some fee_asset \<Rightarrow>
                    if fee_asset = [] \<or> \<not> starts_with (to_ascii_uppercase (st_symbol strategy))
                                              (to_ascii_uppercase fee_asset)
                    then fi_quantity fill
                    else
                      let fee_amount = (case fi_fee_amount fill of Some f \<Rightarrow> f | None \<Rightarrow> 0);
                          adjusted = d_sub E (fi_quantity fill) fee_amount
                      in if adjusted > 0 then adjusted else 0)))"

text \<open>The body of the loop of \<open>level_state\<close> over the fills of the level, on the pair
  \<open>(remaining_quantity, remaining_cost)\<close>.\<close>

definition level_state_step ::
  "env \<Rightarrow> Strategy \<Rightarrow> string list \<Rightarrow> StrategyRuntimeFill \<Rightarrow> decimal \<times> decimal \<Rightarrow> decimal \<times> decimal" where
  "level_state_step E strategy entry_order_ids fill rem =
     (let (remaining_quantity, remaining_cost) = rem
      in if (case fi_order_id fill of None \<Rightarrow> False | Some order_id \<Rightarrow> order_id \<in> set entry_order_ids)
         then (d_add E remaining_quantity (effective_entry_fill_quantity E strategy fill),
               d_add E remaining_cost (d_mul E (fi_price fill) (fi_quantity fill)))
         else if remaining_quantity \<le> 0 then (0, 0)
         else
           let closed_quantity = min (fi_quantity fill) remaining_quantity;
               average_entry_price = d_div E remaining_cost remaining_quantity;
               remaining_quantity = d_sub E remaining_quantity closed_quantity;
               remaining_cost = d_sub E remaining_cost (d_mul E average_entry_price closed_quantity)
           in if remaining_quantity \<le> 0 then (0, 0) else (remaining_quantity, remaining_cost))"

definition level_state :: "env \<Rightarrow> Strategy \<Rightarrow> u32 \<Rightarrow> LevelState option" where
  "level_state E strategy level_index =
     (let entry_order_ids = entry_order_ids_for_level strategy level_index;
          (remaining_quantity, remaining_cost) =
            fold (level_state_step E strategy entry_order_ids)
              (filter (\<lambda>fill. fi_level_index fill = Some level_index) (rt_fills (st_runtime strategy))) (0, 0)
      in if remaining_quantity \<le> 0 then None
         else
           let is_short =
             (case find (\<lambda>order. ro_order_id order \<in> set entry_order_ids) (rt_orders (st_runtime strategy)) of
                Some order \<Rightarrow> eq_ignore_ascii_case (ro_side order) ''Sell'' | None \<Rightarrow> False)
           in Some \<lparr>ls_quantity = remaining_quantity,
                    ls_average_entry_price = d_div E remaining_cost remaining_quantity,
                    ls_is_short = is_short\<rparr>)"

text \<open>The levels the positions are summed over: those of the revision, the orders and the fills,
  sorted and without duplicates.\<close>

definition position_levels :: "Strategy \<Rightarrow> u32 list" where
  "position_levels strategy =
     remdups_adj (sort
       (map gl_level_index (rv_levels (current_revision strategy))
        @ List.map_filter ro_level_index (rt_orders (st_runtime strategy))
        @ List.map_filter fi_level_index (rt_fills (st_runtime strategy))))"

definition add_level_state ::
  "env \<Rightarrow> Strategy \<Rightarrow> u32 \<Rightarrow> (decimal \<times> decimal) \<times> decimal \<times> decimal
   \<Rightarrow> (decimal \<times> decimal) \<times> decimal \<times> decimal" where
  "add_level_state E strategy level_index totals =
     (let ((long_quantity, long_cost), (short_quantity, short_cost)) = totals
      in case level_state E strategy level_index of
           None \<Rightarrow> totals
         | Some state \<Rightarrow>
             let cost = d_mul E (ls_average_entry_price state) (ls_quantity state)
             in if ls_is_short state
                then ((long_quantity, long_cost), (d_add E short_quantity (ls_quantity state), d_add E short_cost cost))
                else ((d_add E long_quantity (ls_quantity state), d_add E long_cost cost), (short_quantity, short_cost)))"

definition recompute_strategy_positions :: "env \<Rightarrow> Strategy \<Rightarrow> Strategy" where
  "recompute_strategy_positions E strategy =
     (if st_strategy_type strategy = MartingaleGrid \<and> st_status strategy \<in> {Stopping, Stopped}
         \<and> list_ex (\<lambda>order. is_close_order_id (ro_order_id order) \<and> ro_status order = ''Filled'')
             (rt_orders (st_runtime strategy))
      then set_positions [] strategy
      else
        let ((long_quantity, long_cost), (short_quantity, short_cost)) =
              fold (add_level_state E strategy) (position_levels strategy) ((0, 0), (0, 0));
            longs = (if long_quantity > 0
              then [\<lparr>po_market = st_market strategy,
                     po_mode = position_mode_for_entry (st_market strategy) (st_mode strategy) ''Buy'',
                     po_quantity = long_quantity,
                     po_average_entry_price = d_div E long_cost long_quantity\<rparr>] else []);
            shorts = (if short_quantity > 0
              then [\<lparr>po_market = st_market strategy,
                     po_mode = position_mode_for_entry (st_market strategy) (st_mode strategy) ''Sell'',
                     po_quantity = short_quantity,
                     po_average_entry_price = d_div E short_cost short_quantity\<rparr>] else [])
        in set_positions (longs @ shorts) strategy)"

subsection \<open>Recording a fill\<close>

definition realized_pnl_local :: "env \<Rightarrow> decimal \<Rightarrow> decimal \<Rightarrow> decimal \<Rightarrow> bool \<Rightarrow> decimal" where
  "realized_pnl_local E entry_price exit_price quantity is_short =
     (if is_short then d_mul E (d_sub E entry_price exit_price) quantity
      else d_mul E (d_sub E exit_price entry_price) quantity)"

definition close_side_matches :: "string \<Rightarrow> StrategyMode \<Rightarrow> bool" where
  "close_side_matches close_side mode =
     (if eq_ignore_ascii_case close_side ''Sell'' then mode \<in> {SpotClassic, SpotBuyOnly, FuturesLong}
      else mode \<in> {SpotSellOnly, FuturesShort})"

definition close_level_state :: "Strategy \<Rightarrow> string \<Rightarrow> LevelState option" where
  "close_level_state strategy order_id =
     (case find (\<lambda>order. ro_order_id order = order_id) (rt_orders (st_runtime strategy)) of
        None \<Rightarrow> None
      | Some order \<Rightarrow>
          map_option
            (\<lambda>position. \<lparr>ls_quantity = po_quantity position,
                         ls_average_entry_price = po_average_entry_price position,
                         ls_is_short = (po_mode position \<in> {SpotSellOnly, FuturesShort})\<rparr>)
            (or_else
               (Option.bind (close_order_index order_id) (vec_get (rt_positions (st_runtime strategy))))
               (find (\<lambda>position. close_side_matches (ro_side order) (po_mode position))
                  (rt_positions (st_runtime strategy)))))"

definition derive_realized_pnl_for_fill ::
  "env \<Rightarrow> Strategy \<Rightarrow> string \<Rightarrow> u32 option \<Rightarrow> decimal \<Rightarrow> decimal \<Rightarrow> string option \<Rightarrow> decimal option" where
  "derive_realized_pnl_for_fill E strategy order_id level_index price quantity exchange_realized_profit =
     (case parse_opt E exchange_realized_profit of
        Some realized \<Rightarrow> Some realized
      | None \<Rightarrow>
          if is_entry_order_id order_id then None
          else
            map_option
              (\<lambda>state. realized_pnl_local E (ls_average_entry_price state) price
                         (min quantity (ls_quantity state)) (ls_is_short state))
              (if is_close_order_id order_id then close_level_state strategy order_id
               else Option.bind level_index (level_state E strategy)))"

definition execution_fill_quantity :: "env \<Rightarrow> BinanceExecutionUpdate \<Rightarrow> decimal option" where
  "execution_fill_quantity E update = positive_option (parse_opt E (xu_last_fill_quantity update))"

definition execution_fill_id :: "BinanceExecutionUpdate \<Rightarrow> string" where
  "execution_fill_id update =
     (case xu_trade_id update of
        Some trade_id \<Rightarrow> ''exchange-trade-'' @ trade_id
      | None \<Rightarrow> ''execution-update-'' @ xu_order_id update @ ''-'' @ show_int (xu_event_time_ms update))"

definition append_execution_fill ::
  "env \<Rightarrow> BinanceExecutionUpdate \<Rightarrow> string \<Rightarrow> u32 option \<Rightarrow> Strategy \<Rightarrow> Strategy" where
  "append_execution_fill E update order_id level_index strategy =
     (case execution_fill_quantity E update of
        None \<Rightarrow> strategy
      | Some quantity \<Rightarrow>
          let fill_id = execution_fill_id update
          in if list_ex (\<lambda>fill. fi_fill_id fill = fill_id) (rt_fills (st_runtime strategy)) then strategy
             else
               let price = (case update_price E update of Some p \<Rightarrow> p | None \<Rightarrow> 0);
                   fill = \<lparr>fi_fill_id = fill_id, fi_order_id = Some order_id, fi_level_index = level_index,
                           fi_fill_type = ''ExecutionUpdateFill'', fi_price = price, fi_quantity = quantity,
                           fi_realized_pnl = derive_realized_pnl_for_fill E strategy order_id level_index
                             price quantity (xu_realized_profit update),
                           fi_fee_amount = parse_opt E (xu_fee_amount update),
                           fi_fee_asset = xu_fee_asset update\<rparr>
               in set_fills (rt_fills (st_runtime strategy) @ [fill]) strategy)"

subsection \<open>Moving the grid on\<close>

definition exit_order_target :: "env \<Rightarrow> Strategy \<Rightarrow> GridLevel \<Rightarrow> LevelState \<Rightarrow> StrategyRuntimeOrder \<Rightarrow> StrategyRuntimeOrder" where
  "exit_order_target E strategy level state order =
     (let trailing = (gl_trailing_bps level \<noteq> None);
          level_index = gl_level_index level
      in \<lparr>ro_order_id = (if trailing then trailing_order_id (st_id strategy) level_index
                         else take_profit_order_id (st_id strategy) level_index),
          ro_exchange_order_id = None, ro_level_index = Some level_index,
          ro_side = opposite_side (ro_side order),
          ro_order_type = (if trailing then ''TrailMonitor'' else ''Limit''),
          ro_price = Some (take_profit_price E (ls_average_entry_price state) (gl_take_profit_bps level)
                            (is_short_side (ro_side order))),
          ro_quantity = ls_quantity state,
          ro_status = (if trailing then ''Monitoring'' else ''Working'')\<rparr>)"

text \<open>The fields written into an exit order that exists already; an order that is done is reopened.\<close>

definition refresh_exit_order :: "StrategyRuntimeOrder \<Rightarrow> StrategyRuntimeOrder \<Rightarrow> StrategyRuntimeOrder" where
  "refresh_exit_order target existing =
     (if ro_status existing \<in> {''Filled'', ''Canceled''}
      then existing\<lparr>ro_exchange_order_id := None, ro_status := ro_status target\<rparr> else existing)
     \<lparr>ro_side := ro_side target, ro_order_type := ro_order_type target,
      ro_price := ro_price target, ro_quantity := ro_quantity target\<rparr>"

definition sync_exit_order :: "env \<Rightarrow> u32 \<Rightarrow> LevelState \<Rightarrow> StrategyRuntimeOrder \<Rightarrow> Strategy \<Rightarrow> Strategy" where
  "sync_exit_order E level_index state order strategy =
     (case strategy_level_for strategy level_index of
        None \<Rightarrow> strategy
      | Some level \<Rightarrow>
          let target = exit_order_target E strategy level state order;
              orders = rt_orders (st_runtime strategy);
              same_id = (\<lambda>candidate. ro_order_id candidate = ro_order_id target)
          in if list_ex same_id orders
             then set_orders (update_first same_id (refresh_exit_order target) orders) strategy
             else set_orders (orders @ [target]) strategy)"

definition should_activate_ordinary_replenishment_orders ::
  "Strategy \<Rightarrow> u32 \<Rightarrow> StrategyRuntimeOrder \<Rightarrow> bool" where
  "should_activate_ordinary_replenishment_orders strategy level_index order =
     (if st_strategy_type strategy \<noteq> OrdinaryGrid \<or> \<not> eq_ignore_ascii_case (ro_status order) ''Filled''
      then False
      else case rv_levels (current_revision strategy) of
        [] \<Rightarrow> False
      | first_level # _ \<Rightarrow>
          if gl_level_index first_level \<noteq> level_index then False
          else st_mode strategy \<in> {SpotBuyOnly, SpotSellOnly, FuturesLong, FuturesShort})"

definition activate_replenishment_order ::
  "string \<Rightarrow> string \<Rightarrow> GridLevel \<Rightarrow> StrategyRuntimeOrder list \<Rightarrow> StrategyRuntimeOrder list" where
  "activate_replenishment_order strategy_id side level orders =
     (let order_id = entry_order_id strategy_id (gl_level_index level)
      in if list_ex (\<lambda>order. ro_order_id order = order_id) orders then orders
         else orders @
           [\<lparr>ro_order_id = order_id, ro_exchange_order_id = None,
             ro_level_index = Some (gl_level_index level), ro_side = side, ro_order_type = ''Limit'',
             ro_price = Some (gl_entry_price level), ro_quantity = gl_quantity level,
             ro_status = ''Working''\<rparr>])"

definition activate_ordinary_replenishment_orders :: "u32 \<Rightarrow> string \<Rightarrow> Strategy \<Rightarrow> Strategy" where
  "activate_ordinary_replenishment_orders anchor_level_index side strategy =
     (case rv_levels (current_revision strategy) of
        [] \<Rightarrow> strategy
      | first_level # rest \<Rightarrow>
          if gl_level_index first_level \<noteq> anchor_level_index then strategy
          else set_orders (sort_key level_sort_key
            (fold (activate_replenishment_order (st_id strategy) side) rest (rt_orders (st_runtime strategy))))
            strategy)"

definition handle_entry_fill :: "env \<Rightarrow> u32 \<Rightarrow> StrategyRuntimeOrder \<Rightarrow> Strategy \<Rightarrow> Strategy" where
  "handle_entry_fill E level_index order strategy =
     (case level_state E strategy level_index of
        None \<Rightarrow> strategy
      | Some state \<Rightarrow>
          let strategy = recompute_strategy_positions E strategy;
              strategy = sync_exit_order E level_index state order strategy
          in if should_activate_ordinary_replenishment_orders strategy level_index order
             then activate_ordinary_replenishment_orders level_index (ro_side order) strategy
             else strategy)"

definition rebuild_after_close :: "env \<Rightarrow> decimal option \<Rightarrow> Strategy \<Rightarrow> Strategy" where
  "rebuild_after_close E ref_price strategy =
     (case from_runtime_snapshot E (st_id strategy) (st_market strategy) (st_mode strategy)
             (current_revision strategy) (st_runtime strategy) False of
        Inl _ \<Rightarrow> strategy
      | Inr engine \<Rightarrow>
          (case resume_with_reference_price E ref_price engine of
             (Inl _, _) \<Rightarrow> strategy
           | (Inr _, engine) \<Rightarrow>
               let strategy = strategy\<lparr>st_runtime := se_runtime engine, st_status := Running\<rparr>
               in set_events (snd (push_event E (rt_events (st_runtime strategy)) ''strategy_rebuilt''
                    ''strategy rebuilt from current market reference'' ref_price)) strategy))"

definition finalize_strategy_after_close :: "env \<Rightarrow> decimal option \<Rightarrow> Strategy \<Rightarrow> Strategy" where
  "finalize_strategy_after_close E ref_price strategy =
     (if st_status strategy \<noteq> Stopping \<or> rt_positions (st_runtime strategy) \<noteq> []
         \<or> has_pending_close strategy then strategy
      else if pending_rebuild_after_stop strategy then rebuild_after_close E ref_price strategy
      else strategy\<lparr>st_status := Stopped\<rparr>)"

definition reopen_entry :: "u32 \<Rightarrow> GridLevel \<Rightarrow> string \<Rightarrow> Strategy \<Rightarrow> Strategy" where
  "reopen_entry level_index level side strategy =
     (let orders = rt_orders (st_runtime strategy);
          is_entry = (\<lambda>candidate. ro_level_index candidate = Some level_index
                                   \<and> is_entry_order_id (ro_order_id candidate))
      in if list_ex is_entry orders
         then set_orders (update_first is_entry
                (\<lambda>entry_order. entry_order
                   \<lparr>ro_exchange_order_id := None, ro_side := opposite_side side, ro_order_type := ''Limit'',
                    ro_price := Some (gl_entry_price level), ro_quantity := gl_quantity level,
                    ro_status := ''Working''\<rparr>) orders) strategy
         else set_orders (orders @
                [\<lparr>ro_order_id = entry_order_id (st_id strategy) level_index, ro_exchange_order_id = None,
                  ro_level_index = Some level_index, ro_side = opposite_side side, ro_order_type = ''Limit'',
                  ro_price = Some (gl_entry_price level), ro_quantity = gl_quantity level,
                  ro_status = ''Working''\<rparr>]) strategy)"

definition handle_take_profit_fill :: "env \<Rightarrow> u32 \<Rightarrow> StrategyRuntimeOrder \<Rightarrow> Strategy \<Rightarrow> Strategy" where
  "handle_take_profit_fill E level_index order strategy =
     (let strategy = recompute_strategy_positions E strategy;
          remaining = level_state E strategy level_index
      in if st_status strategy = Stopping then finalize_strategy_after_close E None strategy
         else if remaining \<noteq> None then strategy
         else case strategy_level_for strategy level_index of
                None \<Rightarrow> strategy
              | Some level \<Rightarrow> reopen_entry level_index level (ro_side order) strategy)"

definition advance_grid_cycle_after_fill :: "env \<Rightarrow> nat \<Rightarrow> Strategy \<Rightarrow> Strategy" where
  "advance_grid_cycle_after_fill E order_index strategy =
     (let order = rt_orders (st_runtime strategy) ! order_index
      in if is_close_order_id (ro_order_id order) then strategy
         else case ro_level_index order of
           None \<Rightarrow> strategy
         | Some level_index \<Rightarrow>
             if is_take_profit_order_id (ro_order_id order) \<or> is_trailing_monitor_order_id (ro_order_id order)
             then handle_take_profit_fill E level_index order strategy
             else handle_entry_fill E level_index order strategy)"

subsection \<open>Close fills and the entry point\<close>

definition apply_close_fill :: "env \<Rightarrow> string \<Rightarrow> string \<Rightarrow> BinanceExecutionUpdate \<Rightarrow> Strategy \<Rightarrow> Strategy" where
  "apply_close_fill E order_id order_side update strategy =
     (case execution_fill_quantity E update of
        None \<Rightarrow> strategy
      | Some fill_quantity \<Rightarrow>
          let strategy = set_orders (update_first (\<lambda>order. ro_order_id order = order_id)
                (\<lambda>order. order\<lparr>ro_quantity := max (d_sub E (ro_quantity order) fill_quantity) 0\<rparr>)
                (rt_orders (st_runtime strategy))) strategy;
              positions = rt_positions (st_runtime strategy);
              matched_index =
                (case close_order_index order_id of
                   Some index \<Rightarrow> if index < length positions then Some index
                     else find_index (\<lambda>position. close_side_matches order_side (po_mode position)) positions
                 | None \<Rightarrow> find_index (\<lambda>position. close_side_matches order_side (po_mode position)) positions)
          in case matched_index of
               None \<Rightarrow> strategy
             | Some index \<Rightarrow>
                 let position = positions ! index
                 in if po_quantity position \<le> fill_quantity
                    then set_positions (remove_nth index positions) strategy
                    else set_positions (positions[index :=
                           position\<lparr>po_quantity := d_sub E (po_quantity position) fill_quantity\<rparr>]) strategy)"

definition update_matches :: "BinanceExecutionUpdate \<Rightarrow> StrategyRuntimeOrder \<Rightarrow> bool" where
  "update_matches update order \<longleftrightarrow>
     ro_exchange_order_id order = Some (xu_order_id update)
     \<or> xu_client_order_id update = Some (ro_order_id order)"

definition touch_order :: "env \<Rightarrow> BinanceExecutionUpdate \<Rightarrow> StrategyRuntimeOrder \<Rightarrow> StrategyRuntimeOrder" where
  "touch_order E update order =
     (let order = order\<lparr>ro_exchange_order_id := Some (xu_order_id update),
                        ro_status := normalize_order_status (xu_status update)\<rparr>
      in case parse_opt E (xu_order_price update) of
           Some value \<Rightarrow> order\<lparr>ro_price := Some value\<rparr>
         | None \<Rightarrow> order)"

definition execution_event :: "env \<Rightarrow> BinanceExecutionUpdate \<Rightarrow> nat \<Rightarrow> StrategyRuntimeEvent" where
  "execution_event E update n =
     \<lparr>ev_event_type = ''execution_update_received'',
      ev_detail = xu_symbol update @ '' ''
        @ (case xu_execution_type update of Some t \<Rightarrow> t | None \<Rightarrow> ''UPDATE'') @ '' '' @ xu_status update,
      ev_price = parse_opt E (xu_last_fill_price update),
      ev_created_at = (case millis_opt E (xu_event_time_ms update) of Some t \<Rightarrow> t | None \<Rightarrow> utc_now E n)\<rparr>"

definition is_trade :: "BinanceExecutionUpdate \<Rightarrow> bool" where
  "is_trade update =
     (case xu_execution_type update of None \<Rightarrow> False | Some v \<Rightarrow> eq_ignore_ascii_case v ''TRADE'')"

definition apply_fill_effects ::
  "env \<Rightarrow> BinanceExecutionUpdate \<Rightarrow> nat \<Rightarrow> StrategyRuntimeOrder \<Rightarrow> Strategy \<Rightarrow> Strategy" where
  "apply_fill_effects E update order_index order strategy =
     (let close_filled = (st_status strategy = Stopping \<and> is_close_order_id (ro_order_id order)
                          \<and> ro_status order = ''Filled'');
          strategy = (if is_trade update
                      then append_execution_fill E update (ro_order_id order) (ro_level_index order) strategy
                      else strategy)
      in if is_close_order_id (ro_order_id order) \<and> is_trade update then
           let strategy = apply_close_fill E (ro_order_id order) (ro_side order) update strategy
           in if close_filled then finalize_strategy_after_close E (update_price E update) strategy
              else strategy
         else if is_trade update \<and> ro_status order \<noteq> ''Canceled'' then
           if st_strategy_type strategy = MartingaleGrid then recompute_strategy_positions E strategy
           else advance_grid_cycle_after_fill E order_index strategy
         else strategy)"

definition apply_execution_update :: "env \<Rightarrow> BinanceExecutionUpdate \<Rightarrow> Strategy \<Rightarrow> bool \<times> Strategy" where
  "apply_execution_update E update strategy =
     (if \<not> eq_ignore_ascii_case (st_symbol strategy) (xu_symbol update) then (False, strategy)
      else case find_index (update_matches update) (rt_orders (st_runtime strategy)) of
        None \<Rightarrow> (False, strategy)
      | Some order_index \<Rightarrow>
          let orders = rt_orders (st_runtime strategy);
              order = touch_order E update (orders ! order_index);
              strategy = set_orders (orders[order_index := order]) strategy;
              strategy = apply_fill_effects E update order_index order strategy;
              events = rt_events (st_runtime strategy)
          in (True, set_events (events @ [execution_event E update (length events)]) strategy))"

end
