(* ===== verification/ExecutionProps.thy ===== *)
theory ExecutionProps
  imports ExecutionSync StopProps DecimalFit
begin

text \<open>
  Correctness of execution reports: which parts of a strategy a report may change, the fill ledger
  under repeated reports, positions as a refinement of a ledger of lots, and the grid cycle.
\<close>

subsection \<open>Frames\<close>

text \<open>The parts of a strategy that no execution report touches.\<close>

definition static_strategy :: "Strategy \<Rightarrow> Strategy" where
  "static_strategy s = s\<lparr>st_status := Draft, st_runtime := default_runtime\<rparr>"

definition same_fills_status :: "Strategy \<Rightarrow> Strategy \<Rightarrow> bool" where
  "same_fills_status s s' \<longleftrightarrow> st_status s' = st_status s \<and> rt_fills (st_runtime s') = rt_fills (st_runtime s)
     \<and> rt_events (st_runtime s') = rt_events (st_runtime s) \<and> static_strategy s' = static_strategy s"

lemma same_fills_status_refl [simp]: "same_fills_status s s"
  by (simp add: same_fills_status_def)

lemma same_fills_status_trans: "same_fills_status a b \<Longrightarrow> same_fills_status b c \<Longrightarrow> same_fills_status a c"
  by (simp add: same_fills_status_def)

lemma same_fills_status_update [simp]:
  "same_fills_status s (set_orders os s)" "same_fills_status s (set_positions ps s)"
  by (simp_all add: same_fills_status_def static_strategy_def)

lemma recompute_frame [simp]: "same_fills_status s (recompute_strategy_positions E s)"
  by (simp add: recompute_strategy_positions_def Let_def case_prod_beta)

lemma sync_exit_order_frame [simp]: "same_fills_status s (sync_exit_order E l st o' s)"
  by (simp add: sync_exit_order_def Let_def split: option.split)

lemma activate_frame [simp]: "same_fills_status s (activate_ordinary_replenishment_orders l side s)"
  by (simp add: activate_ordinary_replenishment_orders_def split: list.split)

lemma reopen_frame [simp]: "same_fills_status s (reopen_entry l level side s)"
  by (simp add: reopen_entry_def Let_def)

lemma apply_close_fill_frame [simp]: "same_fills_status s (apply_close_fill E oid side u s)"
proof -
  have "same_fills_status s (set_positions ps (set_orders os s))" for ps os
    by (simp add: same_fills_status_def static_strategy_def)
  then show ?thesis by (simp add: apply_close_fill_def Let_def split: option.split)
qed

lemma handle_entry_fill_frame [simp]: "same_fills_status s (handle_entry_fill E l o' s)"
proof -
  have "same_fills_status s (sync_exit_order E l st o' (recompute_strategy_positions E s))" for st
    by (rule same_fills_status_trans [OF recompute_frame sync_exit_order_frame])
  then show ?thesis
    using same_fills_status_trans [OF _ activate_frame]
    by (auto simp: handle_entry_fill_def Let_def split: option.split)
qed

text \<open>A step that may also end a stop.\<close>

definition closes_stop :: "Strategy \<Rightarrow> Strategy \<Rightarrow> bool" where
  "closes_stop s s' \<longleftrightarrow> st_status s = Stopping \<and> static_strategy s' = static_strategy s
     \<and> rt_fills (st_runtime s') = rt_fills (st_runtime s)
     \<and> (\<exists>new. rt_events (st_runtime s') = rt_events (st_runtime s) @ new)
     \<and> (if pending_rebuild_after_stop s then st_status s' = Running
        else st_status s' = Stopped \<and> rt_positions (st_runtime s') = [] \<and> \<not> has_pending_close s')"

lemma resume_runtime_frame:
  assumes "from_runtime_snapshot E i m md rv rt running = Inr e" "resume_with_reference_price E p e = (r, e')"
  shows "rt_fills (se_runtime e') = rt_fills rt \<and> (\<exists>new. rt_events (se_runtime e') = rt_events rt @ new)"
  using assms
  by (auto simp: from_runtime_snapshot_def resume_with_reference_price_def log_event_def push_event_def
      recompute_position_def Let_def bind_res_eq_Inr)

lemma finalize_frame:
  "same_fills_status s (finalize_strategy_after_close E p s) \<or> closes_stop s (finalize_strategy_after_close E p s)"
proof (cases "st_status s \<noteq> Stopping \<or> rt_positions (st_runtime s) \<noteq> [] \<or> has_pending_close s")
  case False
  then have stop: "st_status s = Stopping" "rt_positions (st_runtime s) = []" "\<not> has_pending_close s" by auto
  show ?thesis
  proof (cases "pending_rebuild_after_stop s")
    case True
    show ?thesis
    proof (cases "from_runtime_snapshot E (st_id s) (st_market s) (st_mode s) (current_revision s) (st_runtime s) False")
      case (Inr engine)
      obtain r e' where e': "resume_with_reference_price E p engine = (r, e')" by (cases "resume_with_reference_price E p engine")
      show ?thesis
        using stop True resume_runtime_frame [OF Inr e'] e' Inr
        by (cases r) (auto simp: finalize_strategy_after_close_def rebuild_after_close_def closes_stop_def
            static_strategy_def push_event_def Let_def)
    qed (use stop True in \<open>simp add: finalize_strategy_after_close_def rebuild_after_close_def\<close>)
  next
    case False
    with stop show ?thesis
      by (simp add: finalize_strategy_after_close_def closes_stop_def static_strategy_def has_pending_close_def)
  qed
qed (simp add: finalize_strategy_after_close_def)

lemma closes_stop_after: "same_fills_status a b \<Longrightarrow> closes_stop b c \<Longrightarrow> closes_stop a c"
  using pending_flags_cong(2) [of b a] by (auto simp: same_fills_status_def closes_stop_def)

definition keeps_or_closes :: "Strategy \<Rightarrow> Strategy \<Rightarrow> bool" where
  "keeps_or_closes s s' \<longleftrightarrow> same_fills_status s s' \<or> closes_stop s s'"

lemma keeps_or_closes_after: "same_fills_status a b \<Longrightarrow> keeps_or_closes b c \<Longrightarrow> keeps_or_closes a c"
  using same_fills_status_trans closes_stop_after by (auto simp: keeps_or_closes_def)

lemma keeps_or_closes_same: "same_fills_status a b \<Longrightarrow> keeps_or_closes a b"
  by (simp add: keeps_or_closes_def)

lemma finalize_keeps: "keeps_or_closes s (finalize_strategy_after_close E p s)"
  using finalize_frame by (simp add: keeps_or_closes_def)

lemma handle_take_profit_fill_frame: "keeps_or_closes s (handle_take_profit_fill E l o' s)"
  unfolding handle_take_profit_fill_def Let_def
  by (rule keeps_or_closes_after [OF recompute_frame [of s E]])
    (auto simp: finalize_keeps keeps_or_closes_same split: option.split)

lemma advance_frame: "keeps_or_closes s (advance_grid_cycle_after_fill E i s)"
  by (simp add: advance_grid_cycle_after_fill_def Let_def handle_take_profit_fill_frame keeps_or_closes_same
      split: option.split)

definition appended_fill :: "env \<Rightarrow> BinanceExecutionUpdate \<Rightarrow> Strategy \<Rightarrow> StrategyRuntimeFill list \<Rightarrow> bool" where
  "appended_fill E u s fills \<longleftrightarrow> fills = rt_fills (st_runtime s)
     \<or> (\<exists>fill. fills = rt_fills (st_runtime s) @ [fill] \<and> fi_fill_id fill = execution_fill_id u
          \<and> fi_fill_id fill \<notin> set (map fi_fill_id (rt_fills (st_runtime s)))
          \<and> Some (fi_quantity fill) = execution_fill_quantity E u \<and> 0 < fi_quantity fill \<and> is_trade u)"

lemma append_execution_fill_frame:
  assumes "is_trade u"
  shows "appended_fill E u s (rt_fills (st_runtime (append_execution_fill E u oid li s)))
    \<and> append_execution_fill E u oid li s =
        set_fills (rt_fills (st_runtime (append_execution_fill E u oid li s))) s"
proof (cases "execution_fill_quantity E u")
  case (Some q)
  then have "0 < q" by (auto simp: execution_fill_quantity_def positive_option_def split: option.splits if_splits)
  then show ?thesis
    using Some assms by (auto simp: append_execution_fill_def appended_fill_def Let_def list_ex_iff)
qed (simp add: append_execution_fill_def appended_fill_def)

lemma apply_fill_effects_frame:
  "\<exists>s1. appended_fill E u s (rt_fills (st_runtime s1)) \<and> s1 = set_fills (rt_fills (st_runtime s1)) s
     \<and> keeps_or_closes s1 (apply_fill_effects E u i o' s)"
proof -
  define s1 where "s1 = (if is_trade u then append_execution_fill E u (ro_order_id o') (ro_level_index o') s else s)"
  have "appended_fill E u s (rt_fills (st_runtime s1)) \<and> s1 = set_fills (rt_fills (st_runtime s1)) s"
    unfolding s1_def using append_execution_fill_frame by (auto simp: appended_fill_def)
  moreover have "keeps_or_closes s1 (apply_fill_effects E u i o' s)"
    unfolding apply_fill_effects_def Let_def s1_def [symmetric]
    by (auto simp: advance_frame keeps_or_closes_same
        intro: keeps_or_closes_after [OF apply_close_fill_frame finalize_keeps])
  ultimately show ?thesis by blast
qed

lemma update_outcome:
  obtains (miss) "apply_execution_update E u s = (False, s)"
      "\<not> eq_ignore_ascii_case (st_symbol s) (xu_symbol u) \<or> \<not> list_ex (update_matches u) (rt_orders (st_runtime s))"
  | (hit) os s1 s2 where "eq_ignore_ascii_case (st_symbol s) (xu_symbol u)"
      "list_ex (update_matches u) (rt_orders (st_runtime s))"
      "appended_fill E u s (rt_fills (st_runtime s1))"
      "s1 = set_fills (rt_fills (st_runtime s1)) (set_orders os s)" "keeps_or_closes s1 s2"
      "apply_execution_update E u s =
         (True, set_events (rt_events (st_runtime s2) @ [execution_event E u (length (rt_events (st_runtime s2)))]) s2)"
proof (cases "eq_ignore_ascii_case (st_symbol s) (xu_symbol u)")
  case sym: True
  show thesis
  proof (cases "find_index (update_matches u) (rt_orders (st_runtime s))")
    case None
    moreover from None have "\<not> list_ex (update_matches u) (rt_orders (st_runtime s))"
      by (simp only: find_index_None not_False_eq_True)
    ultimately show thesis using miss sym by (simp add: apply_execution_update_def)
  next
    case (Some i)
    let ?o = "touch_order E u (rt_orders (st_runtime s) ! i)"
    let ?s0 = "set_orders ((rt_orders (st_runtime s))[i := ?o]) s"
    from apply_fill_effects_frame [of E u ?s0 i ?o]
    obtain s1 where s1: "appended_fill E u ?s0 (rt_fills (st_runtime s1))"
        "s1 = set_fills (rt_fills (st_runtime s1)) ?s0" "keeps_or_closes s1 (apply_fill_effects E u i ?o ?s0)"
      by (elim exE conjE) (rule that)
    have a: "appended_fill E u s (rt_fills (st_runtime s1))" using s1(1) by (simp add: appended_fill_def)
    have l: "list_ex (update_matches u) (rt_orders (st_runtime s))"
      using Some find_index_None by (metis option.distinct(1))
    have "apply_execution_update E u s = (let s2 = apply_fill_effects E u i ?o ?s0 in
        (True, set_events (rt_events (st_runtime s2) @ [execution_event E u (length (rt_events (st_runtime s2)))]) s2))"
      using Some sym by (simp add: apply_execution_update_def Let_def)
    then show thesis by (intro hit [OF sym l a s1(2,3)]) (simp add: Let_def)
  qed
qed (use miss in \<open>simp add: apply_execution_update_def\<close>)

subsection \<open>Positions as lots\<close>

text \<open>The abstract position of a level: a quantity and its average price. Buying in adds a lot at its
  cost, closing reduces the quantity at an unchanged average, and closing at least everything
  empties it.\<close>

definition lot_step :: "env \<Rightarrow> Strategy \<Rightarrow> string list \<Rightarrow> StrategyRuntimeFill \<Rightarrow> decimal \<times> decimal \<Rightarrow> decimal \<times> decimal" where
  "lot_step E s ids fill lot =
     (let (quantity, average) = lot
      in if (case fi_order_id fill of None \<Rightarrow> False | Some order_id \<Rightarrow> order_id \<in> set ids)
         then (quantity + effective_entry_fill_quantity E s fill,
               (average * quantity + fi_price fill * fi_quantity fill)
                 / (quantity + effective_entry_fill_quantity E s fill))
         else if quantity \<le> fi_quantity fill then (0, 0)
         else (quantity - fi_quantity fill, average))"

definition level_fills :: "Strategy \<Rightarrow> u32 \<Rightarrow> StrategyRuntimeFill list" where
  "level_fills s level_index = filter (\<lambda>fill. fi_level_index fill = Some level_index) (rt_fills (st_runtime s))"

definition level_lot :: "env \<Rightarrow> Strategy \<Rightarrow> u32 \<Rightarrow> decimal \<times> decimal" where
  "level_lot E s level_index =
     fold (lot_step E s (entry_order_ids_for_level s level_index)) (level_fills s level_index) (0, 0)"

text \<open>
  What a history must satisfy so that no operation on it rounds. For the quantities: they have \<open>n\<close> decimal
  places at most and what was ever bought in fits a decimal. For the averages: the costs of the
  ledger, the costs of its fills, and its average at each partial close and at the end fit.
\<close>

definition is_entry_fill :: "string list \<Rightarrow> StrategyRuntimeFill \<Rightarrow> bool" where
  "is_entry_fill ids fill \<longleftrightarrow> (case fi_order_id fill of None \<Rightarrow> False | Some order_id \<Rightarrow> order_id \<in> set ids)"

definition proper_fill :: "nat \<Rightarrow> env \<Rightarrow> Strategy \<Rightarrow> StrategyRuntimeFill \<Rightarrow> bool" where
  "proper_fill n E s fill \<longleftrightarrow>
     0 < fi_quantity fill \<and> has_dp n (fi_quantity fill)
     \<and> 0 < effective_entry_fill_quantity E s fill \<and> has_dp n (effective_entry_fill_quantity E s fill)"

definition quantities_fit :: "nat \<Rightarrow> env \<Rightarrow> Strategy \<Rightarrow> StrategyRuntimeFill list \<Rightarrow> decimal \<Rightarrow> bool" where
  "quantities_fit n E s fills quantity \<longleftrightarrow>
     n \<le> 28 \<and> list_all (proper_fill n E s) fills
     \<and> (quantity + sum_list (map (effective_entry_fill_quantity E s) fills)) * 10 ^ n < 2 ^ 96"

fun averages_fit :: "env \<Rightarrow> Strategy \<Rightarrow> string list \<Rightarrow> StrategyRuntimeFill list \<Rightarrow> decimal \<times> decimal \<Rightarrow> bool" where
  "averages_fit E s ids [] (quantity, average) \<longleftrightarrow> decimal_fits (average * quantity) \<and> decimal_fits average"
| "averages_fit E s ids (fill # fills) (quantity, average) \<longleftrightarrow>
     decimal_fits (average * quantity)
     \<and> (if is_entry_fill ids fill
        then decimal_fits (fi_price fill) \<and> decimal_fits (fi_quantity fill)
             \<and> decimal_fits (fi_price fill * fi_quantity fill)
        else fi_quantity fill < quantity \<longrightarrow>
             decimal_fits average \<and> decimal_fits (fi_quantity fill) \<and> decimal_fits (average * fi_quantity fill))
     \<and> averages_fit E s ids fills (lot_step E s ids fill (quantity, average))"

lemma averages_fit_cost: "averages_fit E s ids fills (q, a) \<Longrightarrow> decimal_fits (a * q)"
  by (cases fills) simp_all

lemma quantity_fits:
  assumes "quantities_fit n E s fills q" "0 \<le> x" "has_dp n x" "x \<le> q"
  shows "decimal_fits x"
proof (rule sums_fit_part)
  have "list_all (\<lambda>x. 0 \<le> x \<and> has_dp n x) (map (effective_entry_fill_quantity E s) fills)"
    using assms(1) by (auto simp: quantities_fit_def proper_fill_def list_all_iff)
  then have "0 \<le> sum_list (map (effective_entry_fill_quantity E s) fills)" by (rule sum_list_ge_0)
  then have "x * 10 ^ n \<le> (q + sum_list (map (effective_entry_fill_quantity E s) fills)) * 10 ^ n"
    using assms(4) by (intro mult_right_mono) simp_all
  also have "\<dots> < 2 ^ 96" using assms(1) by (simp only: quantities_fit_def)
  finally show "sums_fit n [x]" using assms by (simp add: sums_fit_def quantities_fit_def)
qed (use assms in simp_all)

context fitting_decimal
begin

text \<open>One fill: the quantity of the level is that of the ledger, and stays so.\<close>

lemma step_quantity:
  fixes ids :: "string list" and a c :: decimal
  assumes "quantities_fit n E s (fill # fills) q" "0 \<le> q" "has_dp n q"
  defines "q' \<equiv> fst (lot_step E s ids fill (q, a))"
  shows "fst (level_state_step E s ids fill (q, c)) = q'" "0 \<le> q'" "has_dp n q'" "quantities_fit n E s fills q'"
proof -
  let ?e = "effective_entry_fill_quantity E s fill" and ?f = "fi_quantity fill"
  have p: "0 < ?f" "has_dp n ?f" "0 < ?e" "has_dp n ?e" and n: "n \<le> 28" "list_all (proper_fill n E s) fills"
    using assms(1) by (simp_all add: quantities_fit_def proper_fill_def)
  have total: "(q + ?e + sum_list (map (effective_entry_fill_quantity E s) fills)) * 10 ^ n < 2 ^ 96"
    using assms(1) by (simp add: quantities_fit_def add.assoc)
  have less: "quantities_fit n E s fills x" if "x \<le> q + ?e" for x
  proof -
    have "(x + sum_list (map (effective_entry_fill_quantity E s) fills)) * 10 ^ n
        \<le> (q + ?e + sum_list (map (effective_entry_fill_quantity E s) fills)) * 10 ^ n"
      using that by (intro mult_right_mono) simp_all
    also note total
    finally show ?thesis using n by (simp add: quantities_fit_def)
  qed
  have fits: "decimal_fits q" "decimal_fits ?e" "decimal_fits (q + ?e)"
    using p assms(2,3) by (auto intro!: quantity_fits [OF less [OF order_refl]] has_dp_add)
  have sub: "d_sub E q x = q - x" if "0 \<le> x" "x \<le> q" "has_dp n x" for x
    using that p(3) assms(2,3) by (intro fit_sub quantity_fits [OF less [OF order_refl]] has_dp_diff) simp_all
  show "fst (level_state_step E s ids fill (q, c)) = q'"
  proof (cases "is_entry_fill ids fill")
    case True
    then show ?thesis
      using fit_add [OF fits] by (simp add: q'_def level_state_step_def lot_step_def is_entry_fill_def)
  next
    case False
    have "d_sub E q q = 0" using sub [of q] assms(2,3) by simp
    moreover have "?f < q \<Longrightarrow> d_sub E q ?f = q - ?f" using sub [of ?f] p(1,2) by simp
    ultimately show ?thesis
      using False p(1) assms(2)
      by (cases "?f < q") (auto simp: q'_def level_state_step_def lot_step_def is_entry_fill_def Let_def min_def)
  qed
  show "0 \<le> q'" "has_dp n q'"
    using p assms(2,3) by (auto simp: q'_def lot_step_def has_dp_add has_dp_diff split: option.splits)
  have "q' \<le> q + ?e" using p assms(2) by (auto simp: q'_def lot_step_def split: option.splits)
  then show "quantities_fit n E s fills q'" by (rule less)
qed

text \<open>With fitting averages the pair of quantity and cost is that of the ledger.\<close>

lemma step_cost:
  fixes ids :: "string list" and a :: decimal
  assumes "quantities_fit n E s (fill # fills) q" "0 \<le> q" "has_dp n q" "q = 0 \<Longrightarrow> a = 0"
    and "averages_fit E s ids (fill # fills) (q, a)"
  defines "lot \<equiv> lot_step E s ids fill (q, a)"
  shows "level_state_step E s ids fill (q, a * q) = (fst lot, snd lot * fst lot)" "fst lot = 0 \<Longrightarrow> snd lot = 0"
proof -
  let ?e = "effective_entry_fill_quantity E s fill" and ?f = "fi_quantity fill"
  note quantity = step_quantity(1) [OF assms(1-3), where ids = ids]
  have p: "0 < ?f" "0 < ?e" using assms(1) by (simp_all add: quantities_fit_def proper_fill_def)
  have pos: "q + ?e \<noteq> 0" using p(2) assms(2) by simp
  have fits: "decimal_fits (a * q)" "averages_fit E s ids fills lot"
    using assms(5) by (simp_all add: lot_def)
  have q: "decimal_fits q" using assms(2,3) by (intro quantity_fits [OF assms(1)]) simp_all
  show "level_state_step E s ids fill (q, a * q) = (fst lot, snd lot * fst lot)"
  proof (cases "is_entry_fill ids fill")
    case True
    then have lot: "lot = (q + ?e, (a * q + fi_price fill * ?f) / (q + ?e))"
      by (simp add: lot_def lot_step_def is_entry_fill_def)
    then have "decimal_fits (a * q + fi_price fill * ?f)"
      using averages_fit_cost [of E s ids fills "fst lot" "snd lot"] fits(2) pos by simp
    then have "d_add E (a * q) (d_mul E (fi_price fill) ?f) = a * q + fi_price fill * ?f"
      using True assms(5) by (simp add: fit_mul fit_add)
    then show ?thesis
      using True quantity [where a = a and c = "a * q"] pos lot by (simp add: level_state_step_def lot_step_def is_entry_fill_def lot_def)
  next
    case False
    show ?thesis
    proof (cases "?f < q")
      case True
      then have lot: "lot = (q - ?f, a)" using False by (simp add: lot_def lot_step_def is_entry_fill_def)
      have "decimal_fits (a * (q - ?f))"
        using averages_fit_cost [of E s ids fills "fst lot" "snd lot"] fits(2) by (simp add: lot)
      moreover have "decimal_fits a" "decimal_fits ?f" "decimal_fits (a * ?f)" using False True assms(5) by simp_all
      moreover have "d_div E (a * q) q = a" using True p q fits(1) \<open>decimal_fits a\<close> by (subst fit_div) simp_all
      ultimately have "d_sub E (a * q) (d_mul E (d_div E (a * q) q) ?f) = a * (q - ?f)"
        using fits(1) by (simp add: fit_mul fit_sub right_diff_distrib)
      then show ?thesis
        using False True quantity [where a = a and c = "a * q"] p lot
        by (auto simp: level_state_step_def lot_step_def is_entry_fill_def Let_def min_def split: if_splits)
    next
      case f: False
      then have "fst (level_state_step E s ids fill (q, a * q)) = 0" "lot = (0, 0)"
        using False quantity [where a = a and c = "a * q"] by (simp_all add: lot_def lot_step_def is_entry_fill_def)
      then show ?thesis using False f by (auto simp: level_state_step_def is_entry_fill_def Let_def min_def split: if_splits)
    qed
  qed
  show "fst lot = 0 \<Longrightarrow> snd lot = 0"
    using p assms(2,4) pos by (auto simp: lot_def lot_step_def split: option.splits if_splits)
qed

lemma fold_quantity:
  assumes "quantities_fit n E s fills q" "0 \<le> q" "has_dp n q"
  shows "fst (fold (level_state_step E s ids) fills (q, c)) = fst (fold (lot_step E s ids) fills (q, a))
    \<and> 0 \<le> fst (fold (lot_step E s ids) fills (q, a))
    \<and> decimal_fits (fst (fold (lot_step E s ids) fills (q, a)))"
  using assms
proof (induction fills arbitrary: q a c)
  case Nil
  then show ?case by (simp add: quantity_fits [OF Nil.prems(1)])
next
  case (Cons fill fills)
  obtain q' a' where lot: "lot_step E s ids fill (q, a) = (q', a')" by fastforce
  note step = step_quantity(2-4) [OF Cons.prems, where ids = ids and a = a, unfolded lot fst_conv]
  obtain c' where "level_state_step E s ids fill (q, c) = (q', c')"
    using step_quantity(1) [OF Cons.prems, where ids = ids and a = a and c = c, unfolded lot fst_conv] by (cases "level_state_step E s ids fill (q, c)") simp
  then show ?case using Cons.IH [OF step(3,1,2), of c' a'] lot by simp
qed

lemma fold_cost:
  fixes ids :: "string list" and a :: decimal
  assumes "quantities_fit n E s fills q" "0 \<le> q" "has_dp n q" "q = 0 \<Longrightarrow> a = 0" "averages_fit E s ids fills (q, a)"
  defines "lot \<equiv> fold (lot_step E s ids) fills (q, a)"
  shows "fold (level_state_step E s ids) fills (q, a * q) = (fst lot, snd lot * fst lot)
    \<and> decimal_fits (snd lot * fst lot) \<and> decimal_fits (snd lot)"
  using assms(1-5) unfolding lot_def
proof (induction fills arbitrary: q a)
  case (Cons fill fills)
  obtain q' a' where lot: "lot_step E s ids fill (q, a) = (q', a')" by fastforce
  note quantity = step_quantity(2-4) [OF Cons.prems(1-3), where ids = ids and a = a, unfolded lot fst_conv]
  note cost = step_cost [OF Cons.prems, unfolded lot fst_conv snd_conv]
  have "averages_fit E s ids fills (q', a')" using Cons.prems(5) by (simp add: lot)
  from Cons.IH [OF quantity(3,1,2) cost(2) this] show ?case by (simp add: cost(1) lot)
qed simp

lemma level_state_quantity:
  assumes "quantities_fit n E s (level_fills s l) 0"
  shows "map_option ls_quantity (level_state E s l) =
     (if fst (level_lot E s l) = 0 then None else Some (fst (level_lot E s l)))"
    and "0 \<le> fst (level_lot E s l)"
  using fold_quantity [OF assms, where ids = "entry_order_ids_for_level s l" and c = 0 and a = 0]
  by (simp_all add: has_dp_def level_state_def level_lot_def level_fills_def split_beta Let_def)

lemma level_state_lot:
  assumes "quantities_fit n E s (level_fills s l) 0"
    and "averages_fit E s (entry_order_ids_for_level s l) (level_fills s l) (0, 0)"
  shows "map_option (\<lambda>st. (ls_quantity st, ls_average_entry_price st)) (level_state E s l) =
     (if fst (level_lot E s l) = 0 then None else Some (level_lot E s l))"
proof -
  let ?ids = "entry_order_ids_for_level s l" and ?lot = "level_lot E s l"
  have q: "0 \<le> fst ?lot" "decimal_fits (fst ?lot)"
    using fold_quantity [OF assms(1), where ids = ?ids and a = 0] by (simp_all add: has_dp_def level_lot_def)
  have c: "fold (level_state_step E s ?ids) (level_fills s l) (0, 0) = (fst ?lot, snd ?lot * fst ?lot)"
    "decimal_fits (snd ?lot * fst ?lot)" "decimal_fits (snd ?lot)"
    using fold_cost [OF assms(1) _ _ _ assms(2)] by (simp_all add: has_dp_def level_lot_def)
  have "d_div E (snd ?lot * fst ?lot) (fst ?lot) = snd ?lot" if "fst ?lot \<noteq> 0"
    using that q(2) c(2,3) by (subst fit_div) simp_all
  then show ?thesis
    using q(1) c(1) by (simp add: level_state_def level_fills_def [symmetric] Let_def)
qed

end

text \<open>The levels as items of the two sides.\<close>

definition level_quantity :: "env \<Rightarrow> Strategy \<Rightarrow> u32 \<Rightarrow> decimal" where
  "level_quantity E s l = (case level_state E s l of Some st \<Rightarrow> ls_quantity st | None \<Rightarrow> 0)"

definition level_items :: "env \<Rightarrow> Strategy \<Rightarrow> (bool \<times> decimal \<times> decimal) list" where
  "level_items E s =
     map (\<lambda>st. (ls_is_short st, ls_quantity st, ls_average_entry_price st * ls_quantity st))
       (List.map_filter (level_state E s) (position_levels s))"

definition strategy_positions :: "env \<Rightarrow> Strategy \<Rightarrow> StrategyRuntimePosition list" where
  "strategy_positions E s =
     held_position E (st_market s) (position_mode_for_entry (st_market s) (st_mode s) ''Buy'') False (level_items E s)
     @ held_position E (st_market s) (position_mode_for_entry (st_market s) (st_mode s) ''Sell'') True (level_items E s)"

text \<open>A stopped martingale strategy with a filled close order: its positions are dropped.\<close>

definition closed_out :: "Strategy \<Rightarrow> bool" where
  "closed_out s \<longleftrightarrow> st_strategy_type s = MartingaleGrid \<and> st_status s \<in> {Stopping, Stopped}
     \<and> list_ex (\<lambda>order. is_close_order_id (ro_order_id order) \<and> ro_status order = ''Filled'') (rt_orders (st_runtime s))"

lemma level_state_positive: "level_state E s l = Some st \<Longrightarrow> 0 < ls_quantity st"
  by (auto simp: level_state_def Let_def case_prod_beta split: if_splits)

lemma level_items_positive: "list_all (\<lambda>i. 0 < item_quantity i) (level_items E s)"
  by (auto simp: level_items_def list_all_iff map_filter_def level_state_positive)

lemma level_items_quantity:
  "sum_list (map item_quantity (level_items E s)) = sum_list (map (level_quantity E s) (position_levels s))"
proof -
  have "sum_list (map ls_quantity (List.map_filter (level_state E s) ls)) = sum_list (map (level_quantity E s) ls)" for ls
    by (induction ls) (auto simp: map_filter_def level_quantity_def)
  then show ?thesis by (simp add: level_items_def comp_def)
qed

text \<open>The fold of the program, on items whose cost is the product the program computes.\<close>

definition rounded_items :: "env \<Rightarrow> Strategy \<Rightarrow> (bool \<times> decimal \<times> decimal) list" where
  "rounded_items E s =
     map (\<lambda>st. (ls_is_short st, ls_quantity st, d_mul E (ls_average_entry_price st) (ls_quantity st)))
       (List.map_filter (level_state E s) (position_levels s))"

lemma fold_add_level_state:
  "fold (add_level_state E s) (position_levels s) acc = fold (add_sided E) (rounded_items E s) acc"
proof -
  have "fold (add_level_state E s) ls acc = fold (add_sided E)
      (map (\<lambda>st. (ls_is_short st, ls_quantity st, d_mul E (ls_average_entry_price st) (ls_quantity st)))
        (List.map_filter (level_state E s) ls)) acc" for ls
    by (induction ls arbitrary: acc)
      (auto simp: map_filter_def add_level_state_def add_sided_def split_beta Let_def split: option.split)
  then show ?thesis by (simp add: rounded_items_def)
qed

lemma rounded_quantities: "side_quantity b (rounded_items E s) = side_quantity b (level_items E s)"
  by (simp add: side_quantity_def side_items_def rounded_items_def level_items_def filter_map comp_def)

lemma recompute_positions:
  assumes "\<not> closed_out s"
  shows "rt_positions (st_runtime (recompute_strategy_positions E s)) =
    (case fold (add_sided E) (rounded_items E s) ((0, 0), (0, 0)) of ((lq, lc), (sq, sc)) \<Rightarrow>
       (if lq > 0 then [\<lparr>po_market = st_market s,
           po_mode = position_mode_for_entry (st_market s) (st_mode s) ''Buy'', po_quantity = lq,
           po_average_entry_price = d_div E lc lq\<rparr>] else [])
       @ (if sq > 0 then [\<lparr>po_market = st_market s,
           po_mode = position_mode_for_entry (st_market s) (st_mode s) ''Sell'', po_quantity = sq,
           po_average_entry_price = d_div E sc sq\<rparr>] else []))"
  using assms
  by (auto simp: recompute_strategy_positions_def closed_out_def fold_add_level_state Let_def split: prod.split)

context fitting_decimal
begin

lemma recompute_quantities:
  assumes "sums_fit n (map item_quantity (level_items E s))" "\<not> closed_out s"
  shows "map (\<lambda>p. (po_mode p, po_quantity p)) (rt_positions (st_runtime (recompute_strategy_positions E s))) =
    map (\<lambda>p. (po_mode p, po_quantity p)) (strategy_positions E s)"
proof -
  have q: "sums_fit n (map item_quantity (rounded_items E s))"
    using assms(1) by (simp add: rounded_items_def level_items_def comp_def)
  show ?thesis
    using sided_totals [OF q]
    by (simp add: recompute_positions [OF assms(2)] strategy_positions_def held_position_def rounded_quantities split_beta)
qed

lemma recompute_costs:
  assumes "sums_fit n (map item_quantity (level_items E s))" "sums_fit m (map item_cost (level_items E s))"
    and "list_all (\<lambda>st. decimal_fits (ls_average_entry_price st)) (List.map_filter (level_state E s) (position_levels s))"
    and "\<not> closed_out s"
  shows "rt_positions (st_runtime (recompute_strategy_positions E s)) = strategy_positions E s"
proof -
  have "d_mul E (ls_average_entry_price st) (ls_quantity st) = ls_average_entry_price st * ls_quantity st"
    if "st \<in> set (List.map_filter (level_state E s) (position_levels s))" for st
    using that assms(1-3)
    by (intro fit_mul) (auto simp: list_all_iff level_items_def intro: sums_fit_member)
  then have items: "rounded_items E s = level_items E s" by (simp add: rounded_items_def level_items_def)
  show ?thesis
    using sided_totals [OF assms(1)] sided_costs [OF assms(2)]
    by (simp add: recompute_positions [OF assms(4)] strategy_positions_def held_position_def items split_beta)
qed

end

lemma strategy_positions_quantity:
  "sum_list (map po_quantity (strategy_positions E s)) = sum_list (map (level_quantity E s) (position_levels s))"
  using held_position_quantity [OF level_items_positive]
  by (simp add: strategy_positions_def side_quantities_sum level_items_quantity)

lemma strict_sorted_distinct_adj: "distinct (remdups_adj (sort (xs :: u32 list)))"
  by (rule strict_sorted_iff [THEN iffD1, THEN conjunct2]) (rule strict_sorted_remdups_adj, simp)

subsection \<open>The grid cycle\<close>

lemma level_state_positions: "level_state E (set_positions ps s) l = level_state E s l"
proof -
  have "effective_entry_fill_quantity E (set_positions ps s) = effective_entry_fill_quantity E s"
    by (intro ext) (simp add: effective_entry_fill_quantity_def cong: option.case_cong if_cong)
  then have "level_state_step E (set_positions ps s) = level_state_step E s"
    by (intro ext) (simp only: level_state_step_def)
  then show ?thesis by (simp add: level_state_def entry_order_ids_for_level_def Let_def case_prod_beta)
qed

lemma recompute_only_positions: "\<exists>ps. recompute_strategy_positions E s = set_positions ps s"
  by (auto simp: recompute_strategy_positions_def Let_def case_prod_beta)

lemma level_state_recompute [simp]: "level_state E (recompute_strategy_positions E s) l = level_state E s l"
  using recompute_only_positions [of E s] level_state_positions [of E _ s l] by auto

lemma recompute_static [simp]:
  "strategy_level_for (recompute_strategy_positions E s) l = strategy_level_for s l"
  "st_id (recompute_strategy_positions E s) = st_id s"
  "st_status (recompute_strategy_positions E s) = st_status s"
  "rt_orders (st_runtime (recompute_strategy_positions E s)) = rt_orders (st_runtime s)"
proof -
  obtain ps where "recompute_strategy_positions E s = set_positions ps s"
    using recompute_only_positions by blast
  then show "strategy_level_for (recompute_strategy_positions E s) l = strategy_level_for s l"
    "st_id (recompute_strategy_positions E s) = st_id s"
    "st_status (recompute_strategy_positions E s) = st_status s"
    "rt_orders (st_runtime (recompute_strategy_positions E s)) = rt_orders (st_runtime s)"
    by (simp_all add: strategy_level_for_def current_revision_def split: option.split)
qed

lemma update_first_hit: "list_ex P xs \<Longrightarrow> \<exists>x \<in> set xs. P x \<and> f x \<in> set (update_first P f xs)"
  by (induction xs) auto

lemma fold_activate_keeps: "set os \<subseteq> set (fold (activate_replenishment_order i side) ls os)"
proof (induction ls arbitrary: os)
  case (Cons l ls)
  have "set os \<subseteq> set (activate_replenishment_order i side l os)"
    by (auto simp: activate_replenishment_order_def Let_def)
  then show ?case using Cons.IH by fastforce
qed simp

lemma activate_keeps:
  "set (rt_orders (st_runtime s)) \<subseteq> set (rt_orders (st_runtime (activate_ordinary_replenishment_orders l side s)))"
  using fold_activate_keeps by (auto simp: activate_ordinary_replenishment_orders_def split: list.split)

text \<open>An order that agrees with the target exit order in everything but its exchange id, and is live.\<close>

definition exit_of :: "StrategyRuntimeOrder \<Rightarrow> StrategyRuntimeOrder \<Rightarrow> bool" where
  "exit_of target o' \<longleftrightarrow>
     ro_order_id o' = ro_order_id target \<and> ro_side o' = ro_side target \<and> ro_order_type o' = ro_order_type target
     \<and> ro_price o' = ro_price target \<and> ro_quantity o' = ro_quantity target
     \<and> ro_status o' \<noteq> ''Filled'' \<and> ro_status o' \<noteq> ''Canceled''"

lemma refresh_exit_of:
  "ro_order_id o' = ro_order_id target \<Longrightarrow> ro_status target \<notin> {''Filled'', ''Canceled''} \<Longrightarrow>
     exit_of target (refresh_exit_order target o')"
  by (auto simp: exit_of_def refresh_exit_order_def)

lemma exit_order_target_recompute [simp]:
  "exit_order_target E (recompute_strategy_positions E s) = exit_order_target E s"
  by (intro ext) (simp add: exit_order_target_def Let_def)

lemma exit_order_target_status: "ro_status (exit_order_target E s level state o') \<notin> {''Filled'', ''Canceled''}"
  by (simp add: exit_order_target_def Let_def)

lemma exit_of_target: "exit_of (exit_order_target E s level state o') (exit_order_target E s level state o')"
  using exit_order_target_status [of E s level state o'] by (simp add: exit_of_def)

lemma sync_exit_order_places:
  assumes "strategy_level_for s l = Some level"
  shows "\<exists>o'' \<in> set (rt_orders (st_runtime (sync_exit_order E l state o' s))).
     exit_of (exit_order_target E s level state o') o''"
proof (cases "list_ex (\<lambda>c. ro_order_id c = ro_order_id (exit_order_target E s level state o')) (rt_orders (st_runtime s))")
  case True
  let ?t = "exit_order_target E s level state o'"
  from update_first_hit [OF True, of "refresh_exit_order ?t"] obtain x where
    x: "ro_order_id x = ro_order_id ?t" and
    mem: "refresh_exit_order ?t x \<in> set (update_first (\<lambda>c. ro_order_id c = ro_order_id ?t) (refresh_exit_order ?t)
       (rt_orders (st_runtime s)))" by blast
  show ?thesis
    using True assms by (simp add: sync_exit_order_def Let_def)
      (rule bexI, rule refresh_exit_of [OF x exit_order_target_status], rule mem)
next
  case False
  then show ?thesis using assms exit_of_target by (simp add: sync_exit_order_def Let_def)
qed

lemma handle_entry_fill_places:
  assumes "level_state E s l = Some state" "strategy_level_for s l = Some level"
  shows "\<exists>o'' \<in> set (rt_orders (st_runtime (handle_entry_fill E l o' s))).
     exit_of (exit_order_target E s level state o') o''"
proof -
  have "\<exists>o'' \<in> set (rt_orders (st_runtime (sync_exit_order E l state o' (recompute_strategy_positions E s)))).
     exit_of (exit_order_target E s level state o') o''"
    using sync_exit_order_places [of "recompute_strategy_positions E s" l level E state o'] assms(2)
    by simp
  then show ?thesis using assms(1) activate_keeps by (fastforce simp: handle_entry_fill_def Let_def)
qed

lemma reopen_entry_places:
  "\<exists>o' \<in> set (rt_orders (st_runtime (reopen_entry l level side s))).
     ro_level_index o' = Some l \<and> ro_status o' = ''Working'' \<and> ro_exchange_order_id o' = None
     \<and> ro_side o' = opposite_side side \<and> ro_price o' = Some (gl_entry_price level)
     \<and> ro_quantity o' = gl_quantity level"
proof (cases "list_ex (\<lambda>c. ro_level_index c = Some l \<and> is_entry_order_id (ro_order_id c)) (rt_orders (st_runtime s))")
  case True
  let ?f = "\<lambda>entry_order. entry_order
     \<lparr>ro_exchange_order_id := None, ro_side := opposite_side side, ro_order_type := ''Limit'',
      ro_price := Some (gl_entry_price level), ro_quantity := gl_quantity level, ro_status := ''Working''\<rparr>"
  from update_first_hit [OF True, of ?f] show ?thesis using True
    by (auto simp: reopen_entry_def Let_def intro!: bexI [of _ "?f _"])
qed (auto simp: reopen_entry_def Let_def)

subsection \<open>Theorems\<close>

text \<open>C4: An execution report is taken exactly when it names the strategy's symbol and one of its orders;
  otherwise nothing changes. A report never removes or rewrites a recorded fill, and adds at most one,
  with a positive quantity and a fill id that was not there: a report that is delivered again adds
  nothing, so the ids of the fills stay distinct.\<close>

theorem execution_fill_ledger:
  assumes "apply_execution_update E u s = (taken, s')" "distinct (map fi_fill_id (rt_fills (st_runtime s)))"
  shows "taken = (eq_ignore_ascii_case (st_symbol s) (xu_symbol u)
        \<and> list_ex (update_matches u) (rt_orders (st_runtime s)))
    \<and> (taken \<or> s' = s)
    \<and> (\<exists>new. rt_fills (st_runtime s') = rt_fills (st_runtime s) @ new \<and> length new \<le> 1
         \<and> list_all (\<lambda>fill. fi_fill_id fill = execution_fill_id u \<and> 0 < fi_quantity fill) new)
    \<and> distinct (map fi_fill_id (rt_fills (st_runtime s')))"
  using assms(1)
proof (cases rule: update_outcome [of E u s])
  case miss
  then show ?thesis using assms by auto
next
  case (hit os s1 s2)
  have "rt_fills (st_runtime s') = rt_fills (st_runtime s1)"
    using hit(5,6) assms(1) by (auto simp: keeps_or_closes_def same_fills_status_def closes_stop_def)
  then show ?thesis
    using hit(1-3,6) assms by (auto simp: appended_fill_def)
qed

text \<open>C11: An execution report changes the status of a strategy only when it ends a stop: to \<open>Stopped\<close>, and
  then no position and no outstanding close order is left, or to \<open>Running\<close> when a rebuild is due. The
  configuration is never touched and the event log only grows.\<close>

theorem execution_update_status:
  "case apply_execution_update E u s of (taken, s') \<Rightarrow>
     (st_status s' = st_status s
      \<or> (st_status s = Stopping \<and> pending_rebuild_after_stop s \<and> st_status s' = Running)
      \<or> (st_status s = Stopping \<and> \<not> pending_rebuild_after_stop s \<and> st_status s' = Stopped
          \<and> rt_positions (st_runtime s') = [] \<and> \<not> has_pending_close s'))
     \<and> static_strategy s' = static_strategy s
     \<and> (\<exists>new. rt_events (st_runtime s') = rt_events (st_runtime s) @ new)"
proof (cases rule: update_outcome [of E u s])
  case (hit os s1 s2)
  let ?s' = "snd (apply_execution_update E u s)"
  have s1: "st_status s1 = st_status s" "rt_events (st_runtime s1) = rt_events (st_runtime s)"
    "static_strategy s1 = static_strategy s"
    by (subst hit(4), simp add: static_strategy_def)+
  have s': "has_pending_close ?s' = has_pending_close s2" "static_strategy ?s' = static_strategy s2"
    "pending_rebuild_after_stop s1 = pending_rebuild_after_stop s"
    using s1(2) by (simp_all add: hit(6) has_pending_close_def static_strategy_def pending_rebuild_after_stop_def)
  show ?thesis
    using hit(5) s1 s' by (auto simp: hit(6) keeps_or_closes_def same_fills_status_def closes_stop_def split: if_splits)
qed simp

definition demo_update :: "string \<Rightarrow> string \<Rightarrow> string \<Rightarrow> BinanceExecutionUpdate" where
  "demo_update order_id status quantity =
     \<lparr>xu_market = ''usdm'', xu_symbol = ''BTCUSDT'', xu_order_id = ''77'', xu_client_order_id = Some order_id,
      xu_side = None, xu_order_type = None, xu_status = status, xu_execution_type = Some ''TRADE'',
      xu_order_price = None, xu_last_fill_price = Some ''100'', xu_last_fill_quantity = Some quantity,
      xu_cumulative_fill_quantity = None, xu_fee_amount = None, xu_fee_asset = None, xu_position_side = None,
      xu_trade_id = Some ''t1'', xu_realized_profit = None, xu_event_time_ms = 5\<rparr>"

theorem execution_fill_ledger_witness:
  "distinct (map fi_fill_id (rt_fills (st_runtime
     (snd (apply_execution_update plain_env (demo_update ''s1-tp-0'' ''FILLED'' ''2'') demo_stopping)))))"
  using execution_fill_ledger [of plain_env "demo_update ''s1-tp-0'' ''FILLED'' ''2''" demo_stopping
      "fst (apply_execution_update plain_env (demo_update ''s1-tp-0'' ''FILLED'' ''2'') demo_stopping)"
      "snd (apply_execution_update plain_env (demo_update ''s1-tp-0'' ''FILLED'' ''2'') demo_stopping)"]
  by (simp add: demo_stopping_def demo_strategy_def default_runtime_def)

text \<open>C3: The position of a level computed from its fills refines a ledger of lots, in which buying in adds a
  lot at its cost and a close reduces the quantity at an unchanged average price. When the quantities
  of the fills have \<open>n\<close> decimal places at most and their total fits a decimal, the quantity of the level
  is exactly that of the ledger, whatever rounding the prices suffer, and there is no level state exactly
  when the ledger is empty. When, moreover, the costs of the ledger and its averages at the partial closes
  and at the end are representable, the average price is that of the ledger too. Of the decimal
  arithmetic only this is assumed: an operation with a representable result returns it.\<close>

theorem level_state_refines_lots:
  assumes "fitting_decimal E" "quantities_fit n E s (level_fills s level_index) 0"
  shows "map_option ls_quantity (level_state E s level_index) =
      (if fst (level_lot E s level_index) = 0 then None else Some (fst (level_lot E s level_index)))
    \<and> 0 \<le> fst (level_lot E s level_index)
    \<and> (averages_fit E s (entry_order_ids_for_level s level_index) (level_fills s level_index) (0, 0) \<longrightarrow>
        map_option (\<lambda>state. (ls_quantity state, ls_average_entry_price state)) (level_state E s level_index) =
          (if fst (level_lot E s level_index) = 0 then None else Some (level_lot E s level_index)))"
  using fitting_decimal.level_state_quantity [OF assms] fitting_decimal.level_state_lot [OF assms] by blast

definition demo_fill :: "string \<Rightarrow> string \<Rightarrow> decimal \<Rightarrow> decimal \<Rightarrow> StrategyRuntimeFill" where
  "demo_fill fid oid price quantity =
     \<lparr>fi_fill_id = fid, fi_order_id = Some oid, fi_level_index = Some 0, fi_fill_type = ''ExecutionUpdateFill'',
      fi_price = price, fi_quantity = quantity, fi_realized_pnl = None, fi_fee_amount = None, fi_fee_asset = None\<rparr>"

definition demo_traded :: Strategy where
  "demo_traded = demo_strategy Running FuturesUsdM FuturesLong
     (default_runtime\<lparr>rt_fills := [demo_fill ''f1'' ''s1-order-0'' 100 2, demo_fill ''f2'' ''s1-order-0'' 130 1,
        demo_fill ''f3'' ''s1-tp-0'' 150 2]\<rparr>)"

lemma demo_entry_ids: "entry_order_ids_for_level demo_traded 0 = [''s1-order-0'']"
  by (simp add: entry_order_ids_for_level_def demo_traded_def demo_strategy_def default_runtime_def
      entry_order_id_def show_u32_def show_nat_small digit_def char_of_def bit_0)

lemma demo_level_fits:
  "quantities_fit 0 (env_of trunc28 prs shw) demo_traded (level_fills demo_traded 0) 0"
  "averages_fit (env_of trunc28 prs shw) demo_traded (entry_order_ids_for_level demo_traded 0) (level_fills demo_traded 0) (0, 0)"
  "level_lot (env_of trunc28 prs shw) demo_traded 0 = (1, 110)"
  unfolding level_lot_def demo_entry_ids
  by (simp_all add: level_fills_def demo_traded_def demo_strategy_def default_runtime_def demo_fill_def
      quantities_fit_def proper_fill_def has_dp_def is_entry_fill_def lot_step_def effective_entry_fill_quantity_def
      decimal_fits_numeral)

theorem level_state_refines_lots_witness:
  "map_option (\<lambda>state. (ls_quantity state, ls_average_entry_price state))
     (level_state (env_of trunc28 (\<lambda>_. None) (\<lambda>_. [])) demo_traded 0) = Some (1, 110)"
  using level_state_refines_lots [OF cut_fit.fitting_decimal_axioms demo_level_fits(1), of "\<lambda>_. None" "\<lambda>_. []"]
    demo_level_fits(2,3) [of "\<lambda>_. None" "\<lambda>_. []"] by simp

text \<open>C15: Recomputing the positions of a strategy conserves what its levels hold. Every level known to the
  revision, the orders or the fills is counted once. When the quantities of the levels have \<open>n\<close> decimal places
  at most and their total fits a decimal, each side that holds a level has one position with the exact
  quantity of its levels, and together the positions hold the exact total; when the costs of the levels
  (average price times quantity) fit as well, the average price of a position is the exact cost of its
  side divided by that quantity. The exception is a martingale strategy that is stopping or stopped and has a
  filled close order: its positions are dropped.\<close>

theorem recompute_conserves:
  assumes "fitting_decimal E" "sums_fit n (map item_quantity (level_items E s))"
  defines "positions \<equiv> rt_positions (st_runtime (recompute_strategy_positions E s))"
  shows "distinct (position_levels s)
    \<and> (if closed_out s then positions = []
       else map (\<lambda>p. (po_mode p, po_quantity p)) positions =
              map (\<lambda>p. (po_mode p, po_quantity p)) (strategy_positions E s)
         \<and> sum_list (map po_quantity positions) = sum_list (map (level_quantity E s) (position_levels s))
         \<and> (sums_fit m (map item_cost (level_items E s))
             \<and> list_all (\<lambda>st. decimal_fits (ls_average_entry_price st))
                 (List.map_filter (level_state E s) (position_levels s))
             \<longrightarrow> positions = strategy_positions E s))"
proof (cases "closed_out s")
  case True
  have "distinct (position_levels s)" unfolding position_levels_def by (rule strict_sorted_distinct_adj)
  with True show ?thesis by (simp add: positions_def recompute_strategy_positions_def closed_out_def)
next
  case False
  have "distinct (position_levels s)" unfolding position_levels_def by (rule strict_sorted_distinct_adj)
  moreover note q = fitting_decimal.recompute_quantities [OF assms(1,2) False]
  moreover have "sum_list (map po_quantity positions) = sum_list (map (level_quantity E s) (position_levels s))"
    using arg_cong [OF q, of "\<lambda>ps. sum_list (map snd ps)"] strategy_positions_quantity [of E s]
    by (simp add: positions_def comp_def)
  moreover have "positions = strategy_positions E s"
    if "sums_fit m (map item_cost (level_items E s)) \<and> list_all (\<lambda>st. decimal_fits (ls_average_entry_price st))
      (List.map_filter (level_state E s) (position_levels s))"
    using fitting_decimal.recompute_costs [OF assms(1,2) _ _ False] that unfolding positions_def by blast
  ultimately show ?thesis using False by (simp only: if_False positions_def) blast
qed

lemma demo_traded_level:
  assumes "E = env_of trunc28 prs shw"
  obtains st where "level_items E demo_traded = [(False, 1, 110)]"
    "List.map_filter (level_state E demo_traded) (position_levels demo_traded) = [st]" "ls_average_entry_price st = 110"
proof -
  have "map_option (\<lambda>st. (ls_quantity st, ls_average_entry_price st)) (level_state E demo_traded 0) = Some (1, 110)"
    using cut_fit.level_state_lot [OF demo_level_fits(1,2), of prs shw] by (simp add: assms demo_level_fits(3))
  then obtain st where st: "level_state E demo_traded 0 = Some st" "ls_quantity st = 1" "ls_average_entry_price st = 110"
    by auto
  have "\<not> ls_is_short st"
    using st(1) by (auto simp: level_state_def demo_traded_def demo_strategy_def default_runtime_def split_beta Let_def
        split: if_splits)
  moreover have "position_levels demo_traded = [0]" by code_simp
  ultimately show thesis using st by (intro that [of st]) (simp_all add: level_items_def map_filter_def)
qed

theorem recompute_conserves_witness:
  "sum_list (map po_quantity (rt_positions (st_runtime
     (recompute_strategy_positions (env_of trunc28 (\<lambda>_. None) (\<lambda>_. [])) demo_traded)))) = 1
   \<and> rt_positions (st_runtime (recompute_strategy_positions (env_of trunc28 (\<lambda>_. None) (\<lambda>_. [])) demo_traded)) =
       strategy_positions (env_of trunc28 (\<lambda>_. None) (\<lambda>_. [])) demo_traded"
proof -
  let ?E = "env_of trunc28 (\<lambda>_. None) (\<lambda>_. [])"
  obtain st where items: "level_items ?E demo_traded = [(False, 1, 110)]"
    "List.map_filter (level_state ?E demo_traded) (position_levels demo_traded) = [st]" "ls_average_entry_price st = 110"
    using demo_traded_level [OF refl] by blast
  have "sums_fit 0 (map item_quantity (level_items ?E demo_traded))"
    "sums_fit 0 (map item_cost (level_items ?E demo_traded))"
    "list_all (\<lambda>st. decimal_fits (ls_average_entry_price st))
       (List.map_filter (level_state ?E demo_traded) (position_levels demo_traded))"
    by (simp_all add: items sums_fit_def has_dp_def decimal_fits_numeral)
  moreover have "\<not> closed_out demo_traded" by (simp add: closed_out_def demo_traded_def demo_strategy_def)
  moreover have "sum_list (map (level_quantity ?E demo_traded) (position_levels demo_traded)) = 1"
    using level_items_quantity [of ?E demo_traded] by (simp add: items(1))
  ultimately show ?thesis
    using recompute_conserves [OF cut_fit.fitting_decimal_axioms, of 0 "\<lambda>_. None" "\<lambda>_. []" demo_traded 0] by auto
qed

text \<open>C8: The grid cycle. A trade of an entry order leaves a live exit order for its level, on the other
  side, for exactly the quantity the level holds and at the take-profit price of its average entry
  price, whether or not such an order existed; a trade of an exit order that empties the level of a
  strategy that is not stopping puts the entry of the level back to work at its grid price and quantity.\<close>

theorem grid_cycle_advances:
  assumes "order = rt_orders (st_runtime s) ! i" "\<not> is_close_order_id (ro_order_id order)"
    "ro_level_index order = Some level_index" "strategy_level_for s level_index = Some level"
  shows "if is_take_profit_order_id (ro_order_id order) \<or> is_trailing_monitor_order_id (ro_order_id order)
     then level_state E s level_index \<noteq> None \<or> st_status s = Stopping
       \<or> (\<exists>o' \<in> set (rt_orders (st_runtime (advance_grid_cycle_after_fill E i s))).
            ro_level_index o' = Some level_index \<and> ro_status o' = ''Working'' \<and> ro_exchange_order_id o' = None
            \<and> ro_side o' = opposite_side (ro_side order) \<and> ro_price o' = Some (gl_entry_price level)
            \<and> ro_quantity o' = gl_quantity level)
     else case level_state E s level_index of
            None \<Rightarrow> advance_grid_cycle_after_fill E i s = s
          | Some state \<Rightarrow>
              \<exists>o' \<in> set (rt_orders (st_runtime (advance_grid_cycle_after_fill E i s))).
                exit_of (exit_order_target E s level state order) o'"
proof (cases "is_take_profit_order_id (ro_order_id order) \<or> is_trailing_monitor_order_id (ro_order_id order)")
  case True
  then have "advance_grid_cycle_after_fill E i s = handle_take_profit_fill E level_index order s"
    using assms by (simp add: advance_grid_cycle_after_fill_def Let_def)
  then show ?thesis
    using True assms(4) reopen_entry_places [of level_index level "ro_side order" "recompute_strategy_positions E s"]
    by (simp add: handle_take_profit_fill_def Let_def)
next
  case False
  then have "advance_grid_cycle_after_fill E i s = handle_entry_fill E level_index order s"
    using assms by (simp add: advance_grid_cycle_after_fill_def Let_def)
  then show ?thesis
    using False handle_entry_fill_places [OF _ assms(4), of E _ order]
    by (auto simp: handle_entry_fill_def split: option.split)
qed

definition demo_level :: GridLevel where
  "demo_level = \<lparr>gl_level_index = 0, gl_entry_price = 100, gl_quantity = 2, gl_take_profit_bps = 100,
     gl_trailing_bps = None\<rparr>"

definition demo_bought :: Strategy where
  "demo_bought = (demo_strategy Running FuturesUsdM FuturesLong
     (default_runtime\<lparr>rt_orders := [demo_order ''s1-order-0'' ''Buy'' (Some ''77'') ''Filled''],
        rt_fills := [demo_fill ''f1'' ''s1-order-0'' 100 2]\<rparr>))
     \<lparr>st_active_revision := Some (demo_revision_of OrdinaryGrid [demo_level])\<rparr>"

lemma demo_bought_level_state:
  "level_state plain_env demo_bought 0 = Some \<lparr>ls_quantity = 2, ls_average_entry_price = 100, ls_is_short = False\<rparr>"
proof -
  have ids: "entry_order_ids_for_level demo_bought 0 = [''s1-order-0'']"
    by (simp add: entry_order_ids_for_level_def demo_bought_def demo_strategy_def default_runtime_def
        demo_order_def is_martingale_leg_order_id_def
        entry_order_id_def show_u32_def show_nat_small digit_def char_of_def bit_0)
  have "\<not> eq_ignore_ascii_case ''Buy'' ''Sell''" by (auto dest: eq_ignore_ascii_case_length)
  then show ?thesis
    unfolding level_state_def ids
    by (simp add: demo_bought_def demo_strategy_def default_runtime_def demo_order_def
        demo_fill_def level_state_step_def effective_entry_fill_quantity_def)
qed

theorem grid_cycle_advances_witness:
  "\<exists>o' \<in> set (rt_orders (st_runtime (advance_grid_cycle_after_fill plain_env 0 demo_bought))).
     ro_side o' = ''Sell'' \<and> ro_quantity o' = 2 \<and> ro_price o' = Some 101"
proof -
  let ?o = "demo_order ''s1-order-0'' ''Buy'' (Some ''77'') ''Filled''"
  have "\<exists>o' \<in> set (rt_orders (st_runtime (advance_grid_cycle_after_fill plain_env 0 demo_bought))).
      exit_of (exit_order_target plain_env demo_bought demo_level
        \<lparr>ls_quantity = 2, ls_average_entry_price = 100, ls_is_short = False\<rparr> ?o) o'"
    using grid_cycle_advances [of ?o demo_bought 0 0 demo_level plain_env] demo_bought_level_state
    by (simp add: demo_order_def is_close_order_id_def is_take_profit_order_id_def is_trailing_monitor_order_id_def
        demo_bought_def demo_strategy_def default_runtime_def strategy_level_for_def current_revision_def
        demo_revision_of_def demo_level_def)
  moreover have "\<not> eq_ignore_ascii_case ''Buy'' ''Sell''" by (auto dest: eq_ignore_ascii_case_length)
  ultimately show ?thesis
    by (auto simp: exit_of_def exit_order_target_def demo_order_def opposite_side_def is_short_side_def Let_def
        take_profit_price_def take_profit_price_from_bps_def take_profit_price_from_percent_def d_of_u32_def demo_level_def)
qed

definition demo_closing :: Strategy where
  "demo_closing = demo_strategy Stopping FuturesUsdM FuturesLong
     (default_runtime\<lparr>rt_positions := [(demo_position FuturesLong)\<lparr>po_quantity := 5\<rparr>],
        rt_orders := [demo_order ''cl-0'' ''Sell'' (Some ''77'') ''Placed'']\<rparr>)"

lemma demo_parse: "parse_usize ''2'' = Some 2" "parse_usize ''100'' = Some 100" "close_order_index ''cl-0'' = Some 0"
  by (simp_all add: parse_usize_def close_order_index_def rsplit_last_def)

lemma demo_status: "normalize_order_status ''PARTIALLY_FILLED'' = ''PartiallyFilled''"
  by (simp add: normalize_order_status_def str_trim_def trim_by.simps [of ws_prefix] trim_by.simps [of ws_suffix]
      ws_prefix.simps ws_suffix_def string_simps char_of_def bit_0)

lemmas execution_eval = demo_update_def apply_execution_update_def demo_closing_def demo_strategy_def demo_order_def
  default_runtime_def update_matches_def touch_order_def parse_opt_def demo_status apply_fill_effects_def is_trade_def
  Let_def is_close_order_id_def append_execution_fill_def execution_fill_quantity_def positive_option_def demo_parse
  execution_fill_id_def update_price_def or_else_def apply_close_fill_def demo_position_def

text \<open>A close trade that is delivered twice is recorded once but subtracted twice: the second report
  adds no fill, because its trade id is known, and still takes the traded quantity off the position
  (5 becomes 3 and then 1), so the position and the fills disagree.\<close>

theorem repeated_close_trade_counts_twice:
  "let u = demo_update ''cl-0'' ''PARTIALLY_FILLED'' ''2'';
       once = snd (apply_execution_update plain_env u demo_closing);
       twice = snd (apply_execution_update plain_env u once)
   in map po_quantity (rt_positions (st_runtime once)) = [3]
      \<and> map po_quantity (rt_positions (st_runtime twice)) = [1]
      \<and> map fi_quantity (rt_fills (st_runtime once)) = [2]
      \<and> rt_fills (st_runtime twice) = rt_fills (st_runtime once)"
  by (simp add: execution_eval)
end
