(* ===== verification/SharedDb.thy ===== *)
theory SharedDb
  imports Domain "HOL-Library.AList"
begin

text \<open>
  \<^verbatim>\<open>src/crates/shared-db/src/lib.rs\<close>: the store the services share, in its in-memory backend
  (\<open>SharedDbBackend::Ephemeral\<close>), with the record types of \<^verbatim>\<open>shared-db/src/postgres\<close>,
  \<^verbatim>\<open>shared-chain\<close> and \<^verbatim>\<open>shared-events\<close> it holds. A \<open>BTreeMap\<close> is an association list in ascending
  key order, a \<open>HashMap\<close> is an association list in some order. The operations of this backend
  cannot fail (the only error is a poisoned lock), so they are functions of the state.

  The type \<open>'j\<close> stands for \<open>serde_json::Value\<close>. The record \<open>world\<close> carries what the services
  use of the outside: the environment of the engine, the Unicode case mappings of the standard
  library, access to JSON values, the text of a decimal parse error, and the Telegram bot.
\<close>

subsection \<open>Outside world\<close>

datatype NotificationKind =
  StrategyStarted | StrategyPaused | MembershipExpiring | DepositConfirmed | RuntimeError
| ApiCredentialsInvalidated | GridFillExecuted | FillProfitReported
| OverallTakeProfitTriggered | OverallStopLossTriggered

record NotificationEvent =
  ne_email :: string
  ne_kind :: NotificationKind
  ne_title :: string
  ne_message :: string
  ne_payload :: "(string \<times> string) list"

record NotificationRecord =
  nr_event :: NotificationEvent
  nr_telegram_delivered :: bool
  nr_in_app_delivered :: bool
  nr_show_expiry_popup :: bool

record 'j world =
  w_env :: env
  w_lower :: "string \<Rightarrow> string"
  w_upper :: "string \<Rightarrow> string"
  j_get :: "'j \<Rightarrow> string \<Rightarrow> 'j option"
  j_bool :: "'j \<Rightarrow> bool option"
  j_str :: "'j \<Rightarrow> string option"
  j_u64 :: "'j \<Rightarrow> u64 option"
  j_array :: "'j \<Rightarrow> 'j list option"
  j_of_record :: "NotificationRecord \<Rightarrow> 'j option"
  j_of_strings :: "(string \<times> string option) list \<Rightarrow> 'j"
  decimal_error :: "string \<Rightarrow> string"
  bot_token :: "string option"
  bot_send :: "string \<Rightarrow> string \<Rightarrow> string \<Rightarrow> string \<Rightarrow> bool"

text \<open>Durations: an instant counts nanoseconds.\<close>

definition hours :: "int \<Rightarrow> int" where
  "hours h = h * 3600000000000"

definition days :: "int \<Rightarrow> int" where
  "days d = hours (24 * d)"

subsection \<open>Records\<close>

datatype MembershipStatus = MPending | MActive | MGrace | MExpired | MFrozen | MRevoked

record MembershipRecord =
  mr_activated_at :: "datetime option"
  mr_active_until :: "datetime option"
  mr_grace_until :: "datetime option"
  mr_override_status :: "MembershipStatus option"

definition default_membership :: MembershipRecord where
  "default_membership =
     \<lparr>mr_activated_at = None, mr_active_until = None, mr_grace_until = None, mr_override_status = None\<rparr>"

record MembershipPlanRecord =
  mp_code :: string
  mp_name :: string
  mp_duration_days :: "32 word"
  mp_is_active :: bool

record AddressAssignment =
  aa_chain :: string
  aa_address :: string
  aa_expires_at :: datetime

record BillingOrderRecord =
  bo_order_id :: u64
  bo_email :: string
  bo_chain :: string
  bo_asset :: string
  bo_plan_code :: string
  bo_amount :: string
  bo_requested_at :: datetime
  bo_assignment :: "AddressAssignment option"
  bo_paid_at :: "datetime option"
  bo_tx_hash :: "string option"
  bo_status :: string
  bo_enqueued_at :: "datetime option"

record DepositAddressPoolRecord =
  da_chain :: string
  da_address :: string
  da_is_enabled :: bool

record DepositTransactionRecord =
  dt_tx_hash :: string
  dt_chain :: string
  dt_asset :: string
  dt_address :: string
  dt_amount :: string
  dt_observed_at :: datetime
  dt_order_id :: "u64 option"
  dt_status :: string
  dt_review_reason :: "string option"
  dt_processed_at :: "datetime option"
  dt_matched_order_id :: "u64 option"

record TelegramBindingRecord =
  tb_user_email :: string
  tb_telegram_user_id :: string
  tb_telegram_chat_id :: string
  tb_bound_at :: datetime

record 'j SystemConfigRecord =
  sc_config_key :: string
  sc_config_value :: 'j
  sc_updated_at :: datetime

record 'j NotificationLogRecord =
  nl_user_email :: string
  nl_channel :: string
  nl_template_key :: "string option"
  nl_title :: string
  nl_body :: string
  nl_status :: string
  nl_payload :: 'j
  nl_created_at :: datetime
  nl_delivered_at :: "datetime option"

record 'j UserExchangeAccountRecord =
  ua_user_email :: string
  ua_exchange :: string
  ua_account_label :: string
  ua_market_scope :: string
  ua_is_active :: bool
  ua_checked_at :: "datetime option"
  ua_metadata :: 'j

record 'j UserExchangeSymbolRecord =
  us_user_email :: string
  us_exchange :: string
  us_market :: string
  us_symbol :: string
  us_status :: string
  us_base_asset :: string
  us_quote_asset :: string
  us_price_precision :: "32 word"
  us_quantity_precision :: "32 word"
  us_min_quantity :: string
  us_min_notional :: string
  us_keywords :: "string list"
  us_metadata :: 'j
  us_synced_at :: datetime

record 'j ExchangeWalletSnapshotRecord =
  ws_user_email :: string
  ws_exchange :: string
  ws_wallet_type :: string
  ws_balances :: 'j
  ws_captured_at :: datetime

record ExchangeTradeHistoryRecord =
  th_trade_id :: string
  th_user_email :: string
  th_exchange :: string
  th_symbol :: string
  th_side :: string
  th_quantity :: string
  th_price :: string
  th_fee_amount :: "string option"
  th_fee_asset :: "string option"
  th_traded_at :: datetime

subsection \<open>The state\<close>

text \<open>The tables of \<open>EphemeralState\<close> that the modelled services read or write.\<close>

record 'j EphemeralState =
  es_telegram_bindings :: "(string \<times> TelegramBindingRecord) list"
  es_notification_logs :: "'j NotificationLogRecord list"
  es_system_configs :: "(string \<times> 'j SystemConfigRecord) list"
  es_billing_orders :: "(u64 \<times> BillingOrderRecord) list"
  es_membership_plans :: "(string \<times> MembershipPlanRecord) list"
  es_deposit_addresses :: "((string \<times> string) \<times> DepositAddressPoolRecord) list"
  es_deposit_transactions :: "(string \<times> DepositTransactionRecord) list"
  es_membership_records :: "(string \<times> MembershipRecord) list"
  es_exchange_accounts :: "((string \<times> string) \<times> 'j UserExchangeAccountRecord) list"
  es_exchange_symbols :: "((string \<times> string \<times> string \<times> string) \<times> 'j UserExchangeSymbolRecord) list"
  es_exchange_wallet_snapshots :: "'j ExchangeWalletSnapshotRecord list"
  es_exchange_trade_history :: "ExchangeTradeHistoryRecord list"
  es_strategies :: "(u64 \<times> Strategy) list"

definition empty_state :: "'j EphemeralState" where
  "empty_state =
     \<lparr>es_telegram_bindings = [], es_notification_logs = [], es_system_configs = [],
      es_billing_orders = [], es_membership_plans = [], es_deposit_addresses = [],
      es_deposit_transactions = [], es_membership_records = [], es_exchange_accounts = [],
      es_exchange_symbols = [], es_exchange_wallet_snapshots = [], es_exchange_trade_history = [],
      es_strategies = []\<rparr>"

text \<open>\<open>BTreeMap::insert\<close>, and \<open>get_mut\<close> followed by an update of the value.\<close>

fun btree_insert :: "'k :: linorder \<Rightarrow> 'v \<Rightarrow> ('k \<times> 'v) list \<Rightarrow> ('k \<times> 'v) list" where
  "btree_insert k v [] = [(k, v)]"
| "btree_insert k v ((k', v') # xs) =
     (if k < k' then (k, v) # (k', v') # xs
      else if k = k' then (k, v) # xs
      else (k', v') # btree_insert k v xs)"

definition modify_key :: "'k \<Rightarrow> ('v \<Rightarrow> 'v) \<Rightarrow> ('k \<times> 'v) list \<Rightarrow> ('k \<times> 'v) list" where
  "modify_key k f xs = update_first (\<lambda>(k', _). k' = k) (\<lambda>(k', v). (k', f v)) xs"

lemma map_of_modify_key:
  "map_of (modify_key k f xs) k' = (if k' = k then map_option f (map_of xs k) else map_of xs k')"
  by (induction xs) (auto simp: modify_key_def)

lemma keys_modify_key [simp]: "map fst (modify_key k f xs) = map fst xs"
  by (simp add: modify_key_def map_update_first split_beta)

subsection \<open>Strategies\<close>

definition list_strategies :: "'j EphemeralState \<Rightarrow> string \<Rightarrow> Strategy list" where
  "list_strategies db owner_email =
     filter (\<lambda>strategy. st_owner_email strategy = owner_email) (map snd (es_strategies db))"

definition list_all_strategies :: "'j EphemeralState \<Rightarrow> Strategy list" where
  "list_all_strategies db = map snd (es_strategies db)"

definition find_strategy :: "'j EphemeralState \<Rightarrow> string \<Rightarrow> string \<Rightarrow> Strategy option" where
  "find_strategy db owner_email strategy_id =
     find (\<lambda>strategy. st_owner_email strategy = owner_email \<and> st_id strategy = strategy_id)
       (map snd (es_strategies db))"

definition insert_strategy :: "u64 \<Rightarrow> Strategy \<Rightarrow> 'j EphemeralState \<Rightarrow> 'j EphemeralState" where
  "insert_strategy sequence_id strategy db =
     db\<lparr>es_strategies := btree_insert sequence_id strategy (es_strategies db)\<rparr>"

definition same_strategy :: "Strategy \<Rightarrow> u64 \<times> Strategy \<Rightarrow> bool" where
  "same_strategy strategy entry \<longleftrightarrow>
     st_id (snd entry) = st_id strategy \<and> st_owner_email (snd entry) = st_owner_email strategy"

definition update_strategy :: "Strategy \<Rightarrow> 'j EphemeralState \<Rightarrow> nat \<times> 'j EphemeralState" where
  "update_strategy strategy db =
     (case find (same_strategy strategy) (es_strategies db) of
        None \<Rightarrow> (0, db)
      | Some (_, stored) \<Rightarrow>
          if st_status stored = Archived then (0, db)
          else (1, db\<lparr>es_strategies :=
                 update_first (same_strategy strategy) (\<lambda>(k, _). (k, strategy)) (es_strategies db)\<rparr>))"

definition delete_strategy ::
  "env \<Rightarrow> string \<Rightarrow> string \<Rightarrow> 'j EphemeralState \<Rightarrow> nat \<times> 'j EphemeralState" where
  "delete_strategy E owner_email strategy_id db =
     (let selected = (\<lambda>entry. st_owner_email (snd entry) = owner_email \<and> st_id (snd entry) = strategy_id)
      in case find selected (es_strategies db) of
           None \<Rightarrow> (0, db)
         | Some (_, strategy) \<Rightarrow>
             if st_status strategy = Archived then (0, db)
             else (1, db\<lparr>es_strategies := update_first selected
                     (\<lambda>(k, s). (k, s\<lparr>st_status := Archived, st_archived_at := Some (utc_now E 0)\<rparr>))
                     (es_strategies db)\<rparr>))"

subsection \<open>Accounts, symbols, wallets and trades\<close>

definition find_exchange_account ::
  "'j world \<Rightarrow> 'j EphemeralState \<Rightarrow> string \<Rightarrow> string \<Rightarrow> 'j UserExchangeAccountRecord option" where
  "find_exchange_account W db user_email exchange =
     map_of (es_exchange_accounts db) (w_lower W user_email, exchange)"

definition list_exchange_symbols ::
  "'j EphemeralState \<Rightarrow> string \<Rightarrow> string \<Rightarrow> 'j UserExchangeSymbolRecord list" where
  "list_exchange_symbols db user_email exchange =
     filter (\<lambda>r. eq_ignore_ascii_case (us_user_email r) user_email \<and> us_exchange r = exchange)
       (map snd (es_exchange_symbols db))"

definition insert_exchange_wallet_snapshot ::
  "'j ExchangeWalletSnapshotRecord \<Rightarrow> 'j EphemeralState \<Rightarrow> 'j EphemeralState" where
  "insert_exchange_wallet_snapshot r db =
     db\<lparr>es_exchange_wallet_snapshots := es_exchange_wallet_snapshots db @ [r]\<rparr>"

definition list_exchange_wallet_snapshots ::
  "'j EphemeralState \<Rightarrow> string \<Rightarrow> 'j ExchangeWalletSnapshotRecord list" where
  "list_exchange_wallet_snapshots db user_email =
     filter (\<lambda>r. eq_ignore_ascii_case (ws_user_email r) user_email) (es_exchange_wallet_snapshots db)"

definition insert_exchange_trade_history ::
  "ExchangeTradeHistoryRecord \<Rightarrow> 'j EphemeralState \<Rightarrow> 'j EphemeralState" where
  "insert_exchange_trade_history r db =
     db\<lparr>es_exchange_trade_history := es_exchange_trade_history db @ [r]\<rparr>"

definition list_exchange_trade_history ::
  "'j EphemeralState \<Rightarrow> string \<Rightarrow> ExchangeTradeHistoryRecord list" where
  "list_exchange_trade_history db user_email =
     filter (\<lambda>r. eq_ignore_ascii_case (th_user_email r) user_email) (es_exchange_trade_history db)"

subsection \<open>Notifications, bindings and configuration\<close>

definition find_telegram_binding ::
  "'j world \<Rightarrow> 'j EphemeralState \<Rightarrow> string \<Rightarrow> TelegramBindingRecord option" where
  "find_telegram_binding W db user_email = map_of (es_telegram_bindings db) (w_lower W user_email)"

definition upsert_telegram_binding ::
  "'j world \<Rightarrow> TelegramBindingRecord \<Rightarrow> 'j EphemeralState \<Rightarrow> 'j EphemeralState" where
  "upsert_telegram_binding W b db =
     db\<lparr>es_telegram_bindings :=
       AList.update (w_lower W (tb_user_email b)) b (es_telegram_bindings db)\<rparr>"

definition insert_notification_log ::
  "'j NotificationLogRecord \<Rightarrow> 'j EphemeralState \<Rightarrow> 'j EphemeralState" where
  "insert_notification_log r db = db\<lparr>es_notification_logs := es_notification_logs db @ [r]\<rparr>"

definition get_system_config :: "'j EphemeralState \<Rightarrow> string \<Rightarrow> 'j SystemConfigRecord option" where
  "get_system_config db config_key = map_of (es_system_configs db) config_key"

definition upsert_system_config :: "'j SystemConfigRecord \<Rightarrow> 'j EphemeralState \<Rightarrow> 'j EphemeralState" where
  "upsert_system_config r db =
     db\<lparr>es_system_configs := AList.update (sc_config_key r) r (es_system_configs db)\<rparr>"

subsection \<open>Billing\<close>

definition list_billing_orders :: "'j EphemeralState \<Rightarrow> BillingOrderRecord list" where
  "list_billing_orders db = map snd (es_billing_orders db)"

definition insert_billing_order :: "BillingOrderRecord \<Rightarrow> 'j EphemeralState \<Rightarrow> 'j EphemeralState" where
  "insert_billing_order order db =
     db\<lparr>es_billing_orders := btree_insert (bo_order_id order) order (es_billing_orders db)\<rparr>"

definition update_billing_order_assignment ::
  "u64 \<Rightarrow> AddressAssignment \<Rightarrow> string \<Rightarrow> 'j EphemeralState \<Rightarrow> 'j EphemeralState" where
  "update_billing_order_assignment order_id assignment status db =
     db\<lparr>es_billing_orders := modify_key order_id
       (\<lambda>order. order\<lparr>bo_assignment := Some assignment, bo_status := status, bo_enqueued_at := None\<rparr>)
       (es_billing_orders db)\<rparr>"

definition occupied_addresses :: "'j EphemeralState \<Rightarrow> string \<Rightarrow> datetime \<Rightarrow> string list" where
  "occupied_addresses db chain requested_at =
     List.map_filter
       (\<lambda>order. case bo_assignment order of
                  None \<Rightarrow> None
                | Some assignment \<Rightarrow>
                    if aa_expires_at assignment > requested_at then Some (aa_address assignment) else None)
       (filter (\<lambda>order. bo_chain order = chain \<and> bo_paid_at order = None)
          (map snd (es_billing_orders db)))"

definition candidate_addresses :: "'j EphemeralState \<Rightarrow> string \<Rightarrow> string list" where
  "candidate_addresses db chain =
     sort (map da_address
       (filter (\<lambda>a. da_chain a = chain \<and> da_is_enabled a) (map snd (es_deposit_addresses db))))"

definition allocate_or_queue_billing_order ::
  "u64 \<Rightarrow> string \<Rightarrow> datetime \<Rightarrow> 'j EphemeralState \<Rightarrow> AddressAssignment option \<times> 'j EphemeralState" where
  "allocate_or_queue_billing_order order_id chain requested_at db =
     (let occupied = occupied_addresses db chain requested_at
      in case find (\<lambda>address. address \<notin> set occupied) (candidate_addresses db chain) of
           Some address \<Rightarrow>
             (let assignment = \<lparr>aa_chain = chain, aa_address = address,
                                aa_expires_at = requested_at + hours 1\<rparr>
              in (Some assignment,
                  db\<lparr>es_billing_orders := modify_key order_id
                    (\<lambda>order. order\<lparr>bo_assignment := Some assignment, bo_status := ''pending'',
                       bo_enqueued_at := None\<rparr>) (es_billing_orders db)\<rparr>))
         | None \<Rightarrow>
             (None,
              db\<lparr>es_billing_orders := modify_key order_id
                (\<lambda>order. order\<lparr>bo_assignment := None, bo_status := ''queued'',
                   bo_enqueued_at := Some requested_at\<rparr>) (es_billing_orders db)\<rparr>))"

definition list_membership_plans :: "'j EphemeralState \<Rightarrow> MembershipPlanRecord list" where
  "list_membership_plans db = map snd (es_membership_plans db)"

definition upsert_membership_plan :: "MembershipPlanRecord \<Rightarrow> 'j EphemeralState \<Rightarrow> 'j EphemeralState" where
  "upsert_membership_plan plan db =
     db\<lparr>es_membership_plans := AList.update (mp_code plan) plan (es_membership_plans db)\<rparr>"

definition list_deposit_addresses :: "'j EphemeralState \<Rightarrow> DepositAddressPoolRecord list" where
  "list_deposit_addresses db = map snd (es_deposit_addresses db)"

definition upsert_deposit_address ::
  "DepositAddressPoolRecord \<Rightarrow> 'j EphemeralState \<Rightarrow> 'j EphemeralState" where
  "upsert_deposit_address a db =
     db\<lparr>es_deposit_addresses := AList.update (da_chain a, da_address a) a (es_deposit_addresses db)\<rparr>"

definition deposit_key :: "string \<Rightarrow> string \<Rightarrow> string" where
  "deposit_key chain tx_hash = chain @ '':'' @ tx_hash"

definition upsert_deposit_transaction ::
  "DepositTransactionRecord \<Rightarrow> 'j EphemeralState \<Rightarrow> 'j EphemeralState" where
  "upsert_deposit_transaction r db =
     db\<lparr>es_deposit_transactions :=
       AList.update (deposit_key (dt_chain r) (dt_tx_hash r)) r (es_deposit_transactions db)\<rparr>"

definition list_deposit_transactions :: "'j EphemeralState \<Rightarrow> DepositTransactionRecord list" where
  "list_deposit_transactions db = map snd (es_deposit_transactions db)"

definition find_membership_record ::
  "'j world \<Rightarrow> 'j EphemeralState \<Rightarrow> string \<Rightarrow> MembershipRecord option" where
  "find_membership_record W db email = map_of (es_membership_records db) (w_lower W email)"

definition upsert_membership_record ::
  "'j world \<Rightarrow> string \<Rightarrow> MembershipRecord \<Rightarrow> 'j EphemeralState \<Rightarrow> 'j EphemeralState" where
  "upsert_membership_record W email r db =
     db\<lparr>es_membership_records := AList.update (w_lower W email) r (es_membership_records db)\<rparr>"

definition update_membership_override ::
  "'j world \<Rightarrow> string \<Rightarrow> MembershipStatus option \<Rightarrow> 'j EphemeralState \<Rightarrow> 'j EphemeralState" where
  "update_membership_override W email override_status db =
     (let entry = (case map_of (es_membership_records db) (w_lower W email) of
                     None \<Rightarrow> default_membership | Some r \<Rightarrow> r)
      in db\<lparr>es_membership_records := AList.update (w_lower W email)
           (entry\<lparr>mr_override_status := override_status\<rparr>) (es_membership_records db)\<rparr>)"

definition apply_membership_payment ::
  "'j world \<Rightarrow> u64 \<Rightarrow> string \<Rightarrow> string \<Rightarrow> datetime \<Rightarrow> string \<Rightarrow> datetime \<Rightarrow> datetime
   \<Rightarrow> 'j EphemeralState \<Rightarrow> 'j EphemeralState" where
  "apply_membership_payment W order_id chain tx_hash paid_at email active_until grace_until db =
     db\<lparr>es_billing_orders := modify_key order_id
          (\<lambda>order. order\<lparr>bo_paid_at := Some paid_at, bo_tx_hash := Some tx_hash, bo_status := ''paid'',
             bo_enqueued_at := None\<rparr>) (es_billing_orders db),
        es_deposit_transactions := modify_key (deposit_key chain tx_hash)
          (\<lambda>deposit. deposit\<lparr>dt_order_id := Some order_id, dt_matched_order_id := Some order_id,
             dt_status := ''matched''\<rparr>) (es_deposit_transactions db),
        es_membership_records := AList.update (w_lower W email)
          \<lparr>mr_activated_at = Some paid_at, mr_active_until = Some active_until,
           mr_grace_until = Some grace_until, mr_override_status = None\<rparr> (es_membership_records db)\<rparr>"

subsection \<open>Status names\<close>

definition strategy_status_to_str :: "StrategyStatus \<Rightarrow> string" where
  "strategy_status_to_str v =
     (case v of Draft \<Rightarrow> ''Draft'' | Running \<Rightarrow> ''Running'' | Paused \<Rightarrow> ''Paused''
      | ErrorPaused \<Rightarrow> ''ErrorPaused'' | Completed \<Rightarrow> ''Completed'' | Stopping \<Rightarrow> ''Stopping''
      | Stopped \<Rightarrow> ''Stopped'' | Archived \<Rightarrow> ''Archived'')"

definition parse_strategy_status :: "string \<Rightarrow> StrategyStatus result" where
  "parse_strategy_status s =
     (if s = ''Draft'' then Inr Draft else if s = ''Running'' then Inr Running
      else if s = ''Paused'' then Inr Paused else if s = ''ErrorPaused'' then Inr ErrorPaused
      else if s = ''Completed'' then Inr Completed else if s = ''Stopping'' then Inr Stopping
      else if s = ''Stopped'' then Inr Stopped else if s = ''Archived'' then Inr Archived
      else Inl (''unknown strategy status: '' @ s))"

definition membership_status_to_str :: "MembershipStatus \<Rightarrow> string" where
  "membership_status_to_str v =
     (case v of MPending \<Rightarrow> ''Pending'' | MActive \<Rightarrow> ''Active'' | MGrace \<Rightarrow> ''Grace''
      | MExpired \<Rightarrow> ''Expired'' | MFrozen \<Rightarrow> ''Frozen'' | MRevoked \<Rightarrow> ''Revoked'')"

definition parse_membership_status :: "string \<Rightarrow> MembershipStatus result" where
  "parse_membership_status s =
     (if s = ''Pending'' then Inr MPending else if s = ''Active'' then Inr MActive
      else if s = ''Grace'' then Inr MGrace else if s = ''Expired'' then Inr MExpired
      else if s = ''Frozen'' then Inr MFrozen else if s = ''Revoked'' then Inr MRevoked
      else Inl (''unknown membership status: '' @ s))"

lemma status_names_roundtrip:
  "parse_strategy_status (strategy_status_to_str v) = Inr v"
  "parse_membership_status (membership_status_to_str m) = Inr m"
  by (cases v; simp add: parse_strategy_status_def strategy_status_to_str_def)
     (cases m; simp add: parse_membership_status_def membership_status_to_str_def)

end
