(* ===== verification/Preflight.thy ===== *)
theory Preflight
  imports SharedDb StrategyRuntime
begin

text \<open>
  \<^verbatim>\<open>src/apps/api-server/src/services/strategy_service.rs\<close>, the checks before a strategy may run:
  what the server knows about the owner's membership, exchange account, symbol, margin, running
  strategies and balance (\<open>server_preflight_state\<close>), and the report that stops at the first failure
  (\<open>run_preflight_with_state\<close>).
\<close>

unbundle bit_operations_syntax

subsection \<open>Reference price and entry sides\<close>

definition uses_center_reference :: "StrategyType \<Rightarrow> StrategyMode \<Rightarrow> bool" where
  "uses_center_reference strategy_type mode \<longleftrightarrow>
     strategy_type = ClassicBilateralGrid \<or> mode = SpotClassic \<or> mode = FuturesNeutral"

definition midpoint_of_prices :: "env \<Rightarrow> decimal list \<Rightarrow> decimal" where
  "midpoint_of_prices E prices =
     (case prices of
        [] \<Rightarrow> 0
      | [single] \<Rightarrow> single
      | first # _ \<Rightarrow> d_div E (d_add E first (last prices)) (d_of_u32 2))"

definition draft_reference_price :: "env \<Rightarrow> StrategyRevision \<Rightarrow> StrategyMode \<Rightarrow> decimal" where
  "draft_reference_price E revision mode =
     (case rv_reference_price revision of
        Some price \<Rightarrow> price
      | None \<Rightarrow>
          if uses_center_reference (rv_strategy_type revision) mode
          then midpoint_of_prices E (map gl_entry_price (rv_levels revision))
          else (case rv_levels revision of [] \<Rightarrow> 0 | level # _ \<Rightarrow> gl_entry_price level))"

definition service_entry_side :: "StrategyMode \<Rightarrow> u32 \<Rightarrow> decimal \<Rightarrow> decimal \<Rightarrow> string option" where
  "service_entry_side mode level_index level_price ref_price =
     (case mode of
        SpotClassic \<Rightarrow>
          if level_price < ref_price then Some ''Buy''
          else if level_price > ref_price then Some ''Sell'' else None
      | FuturesNeutral \<Rightarrow>
          if level_price < ref_price then Some ''Buy''
          else if level_price > ref_price then Some ''Sell''
          else if level_index mod 2 = 0 then Some ''Buy'' else Some ''Sell''
      | SpotBuyOnly \<Rightarrow> if level_price \<le> ref_price then Some ''Buy'' else None
      | FuturesLong \<Rightarrow> if level_price \<le> ref_price then Some ''Buy'' else None
      | SpotSellOnly \<Rightarrow> if level_price \<ge> ref_price then Some ''Sell'' else None
      | FuturesShort \<Rightarrow> if level_price \<ge> ref_price then Some ''Sell'' else None)"

subsection \<open>Metadata\<close>

fun metadata_at_path :: "'j world \<Rightarrow> 'j \<Rightarrow> string list \<Rightarrow> 'j option" where
  "metadata_at_path W metadata [] = Some metadata"
| "metadata_at_path W metadata (key # path) =
     (case j_get W metadata key of None \<Rightarrow> None | Some inner \<Rightarrow> metadata_at_path W inner path)"

definition metadata_bool :: "'j world \<Rightarrow> 'j \<Rightarrow> string list \<Rightarrow> bool option" where
  "metadata_bool W metadata path = Option.bind (metadata_at_path W metadata path) (j_bool W)"

definition metadata_string :: "'j world \<Rightarrow> 'j \<Rightarrow> string list \<Rightarrow> string option" where
  "metadata_string W metadata path = Option.bind (metadata_at_path W metadata path) (j_str W)"

definition metadata_u32_list :: "'j world \<Rightarrow> 'j \<Rightarrow> string list \<Rightarrow> u32 list" where
  "metadata_u32_list W metadata path =
     (case Option.bind (metadata_at_path W metadata path) (j_array W) of
        None \<Rightarrow> []
      | Some items \<Rightarrow>
          List.map_filter (\<lambda>n. if unat n < 2 ^ 32 then Some (of_nat (unat n)) else None)
            (List.map_filter (j_u64 W) items))"

definition unwrap_or :: "'a option \<Rightarrow> 'a \<Rightarrow> 'a" where
  "unwrap_or r d = (case r of None \<Rightarrow> d | Some x \<Rightarrow> x)"

lemma unwrap_or_simps [simp]: "unwrap_or None d = d" "unwrap_or (Some x) d = x"
  by (simp_all add: unwrap_or_def)

subsection \<open>What the server knows\<close>

record ServerPreflightState =
  sp_membership_ready :: "bool option"
  sp_exchange_ready :: "bool option"
  sp_permissions_ready :: "bool option"
  sp_withdrawals_disabled :: "bool option"
  sp_hedge_mode_ready :: "bool option"
  sp_symbol_ready :: "bool option"
  sp_filters_ready :: "bool option"
  sp_margin_ready :: "bool option"
  sp_conflict_ready :: "bool option"
  sp_balance_ready :: "bool option"

definition strategy_market_key :: "StrategyMarket \<Rightarrow> string" where
  "strategy_market_key market =
     (case market of Spot \<Rightarrow> ''spot'' | FuturesUsdM \<Rightarrow> ''usdm'' | FuturesCoinM \<Rightarrow> ''coinm'')"

definition futures_conflict_required :: "StrategyMarket \<Rightarrow> bool" where
  "futures_conflict_required market \<longleftrightarrow> market \<noteq> Spot"

definition requires_futures_checks :: "StrategyMarket \<Rightarrow> bool" where
  "requires_futures_checks market \<longleftrightarrow> market \<noteq> Spot"

definition futures_direction_mask :: "StrategyMode \<Rightarrow> 8 word" where
  "futures_direction_mask mode =
     (case mode of FuturesLong \<Rightarrow> 1 | FuturesShort \<Rightarrow> 2 | FuturesNeutral \<Rightarrow> 3 | _ \<Rightarrow> 0)"

definition membership_allows_runtime :: "MembershipRecord \<Rightarrow> datetime \<Rightarrow> bool" where
  "membership_allows_runtime r now =
     (if mr_override_status r \<in> {Some MFrozen, Some MRevoked} then False
      else (case mr_active_until r of None \<Rightarrow> False | Some until \<Rightarrow> now \<le> until)
        \<or> (case mr_grace_until r of None \<Rightarrow> False | Some until \<Rightarrow> now \<le> until))"

definition exchange_account_supports_strategy ::
  "'j world \<Rightarrow> 'j UserExchangeAccountRecord \<Rightarrow> StrategyMarket \<Rightarrow> bool" where
  "exchange_account_supports_strategy W r market =
     (if \<not> ua_is_active r then False
      else
        let flag = metadata_bool W (ua_metadata r);
            connection_status = metadata_string W (ua_metadata r) [''connection_status''];
            connectivity_ok = unwrap_or
              (or_else (flag [''validation'', ''api_connectivity_ok''])
                 (map_option (\<lambda>status. status = ''healthy'' \<or> status = ''connected'') connection_status))
              True;
            timestamp_in_sync = unwrap_or (flag [''validation'', ''timestamp_in_sync'']) True;
            market_access_ok = unwrap_or
              (or_else
                 (case market of
                    Spot \<Rightarrow> flag [''validation'', ''can_read_spot'']
                  | FuturesUsdM \<Rightarrow> flag [''validation'', ''can_read_usdm'']
                  | FuturesCoinM \<Rightarrow> flag [''validation'', ''can_read_coinm''])
                 (flag [''validation'', ''market_access_ok'']))
              True
        in connectivity_ok \<and> timestamp_in_sync \<and> market_access_ok)"

definition tradable_symbol :: "Strategy \<Rightarrow> 'j UserExchangeSymbolRecord \<Rightarrow> bool" where
  "tradable_symbol strategy r \<longleftrightarrow>
     us_market r = strategy_market_key (st_market strategy)
     \<and> eq_ignore_ascii_case (us_symbol r) (st_symbol strategy) \<and> us_status r = ''TRADING''"

definition symbol_exists_for_strategy :: "'j EphemeralState \<Rightarrow> Strategy \<Rightarrow> bool" where
  "symbol_exists_for_strategy db strategy =
     list_ex (tradable_symbol strategy)
       (list_exchange_symbols db (st_owner_email strategy) ''binance'')"

definition symbol_record_for_strategy ::
  "'j EphemeralState \<Rightarrow> Strategy \<Rightarrow> 'j UserExchangeSymbolRecord option" where
  "symbol_record_for_strategy db strategy =
     find (tradable_symbol strategy)
       (list_exchange_symbols db (st_owner_email strategy) ''binance'')"

definition conflicts_with :: "Strategy \<Rightarrow> Strategy \<Rightarrow> bool" where
  "conflicts_with strategy candidate \<longleftrightarrow>
     st_id candidate \<noteq> st_id strategy \<and> st_market candidate = st_market strategy
     \<and> eq_ignore_ascii_case (st_symbol candidate) (st_symbol strategy)
     \<and> st_status candidate = Running
     \<and> futures_direction_mask (st_mode candidate) AND futures_direction_mask (st_mode strategy) \<noteq> 0"

definition futures_conflict_free :: "'j EphemeralState \<Rightarrow> Strategy \<Rightarrow> bool" where
  "futures_conflict_free db strategy =
     (if futures_direction_mask (st_mode strategy) = 0 then True
      else \<not> list_ex (conflicts_with strategy) (list_strategies db (st_owner_email strategy)))"

definition margin_requirements_satisfied :: "'j world \<Rightarrow> 'j EphemeralState \<Rightarrow> Strategy \<Rightarrow> bool" where
  "margin_requirements_satisfied W db strategy =
     (if st_market strategy = Spot then True
      else
        case symbol_record_for_strategy db strategy of
          None \<Rightarrow> False
        | Some symbol \<Rightarrow>
            (let flag = (\<lambda>key. metadata_bool W (us_metadata symbol) [''market_requirements'', key]);
                 supports_isolated = unwrap_or (flag ''supports_isolated_margin'') True;
                 supports_cross = unwrap_or (flag ''supports_cross_margin'') True;
                 leverage_brackets =
                   metadata_u32_list W (us_metadata symbol) [''market_requirements'', ''leverage_brackets''];
                 margin_mode_ok =
                   (case rv_futures_margin_mode (st_draft_revision strategy) of
                      Some Isolated \<Rightarrow> supports_isolated
                    | Some Cross \<Rightarrow> supports_cross
                    | None \<Rightarrow> False);
                 leverage_ok =
                   (case rv_leverage (st_draft_revision strategy) of
                      None \<Rightarrow> False
                    | Some v \<Rightarrow> v > 0 \<and> (leverage_brackets = [] \<or> v \<in> set leverage_brackets))
             in margin_mode_ok \<and> leverage_ok))"

definition filters_satisfied :: "'j world \<Rightarrow> 'j EphemeralState \<Rightarrow> Strategy \<Rightarrow> bool" where
  "filters_satisfied W db strategy =
     (case symbol_record_for_strategy db strategy of
        None \<Rightarrow> False
      | Some symbol \<Rightarrow>
          (let min_quantity = unwrap_or (d_parse (w_env W) (us_min_quantity symbol)) 0;
               min_notional = unwrap_or (d_parse (w_env W) (us_min_notional symbol)) 0
           in list_all (\<lambda>level. gl_quantity level \<ge> min_quantity
                          \<and> d_mul (w_env W) (gl_entry_price level) (gl_quantity level) \<ge> min_notional)
                (rv_levels (st_draft_revision strategy))))"

definition wallet_balance :: "'j world \<Rightarrow> 'j ExchangeWalletSnapshotRecord \<Rightarrow> string \<Rightarrow> decimal" where
  "wallet_balance W snapshot asset =
     unwrap_or
       (Option.bind
          (Option.bind
             (or_else (j_get W (ws_balances snapshot) asset)
                (j_get W (ws_balances snapshot) (to_ascii_uppercase asset)))
             (j_str W))
          (d_parse (w_env W))) 0"

definition wallet_exchange_key :: "StrategyMarket \<Rightarrow> string" where
  "wallet_exchange_key market =
     (case market of Spot \<Rightarrow> ''binance'' | FuturesUsdM \<Rightarrow> ''binance-usdm'' | FuturesCoinM \<Rightarrow> ''binance-coinm'')"

definition wallet_type_key :: "StrategyMarket \<Rightarrow> string" where
  "wallet_type_key market =
     (case market of Spot \<Rightarrow> ''spot'' | FuturesUsdM \<Rightarrow> ''usdm'' | FuturesCoinM \<Rightarrow> ''coinm'')"

definition levels_on_side :: "env \<Rightarrow> Strategy \<Rightarrow> string \<Rightarrow> GridLevel list" where
  "levels_on_side E strategy side =
     filter (\<lambda>level. service_entry_side (st_mode strategy) (gl_level_index level) (gl_entry_price level)
                       (draft_reference_price E (st_draft_revision strategy) (st_mode strategy)) = Some side)
       (rv_levels (st_draft_revision strategy))"

definition balance_available :: "'j world \<Rightarrow> 'j EphemeralState \<Rightarrow> Strategy \<Rightarrow> bool" where
  "balance_available W db strategy =
     (case symbol_record_for_strategy db strategy of
        None \<Rightarrow> False
      | Some symbol \<Rightarrow>
          (case find (\<lambda>snapshot. ws_exchange snapshot = wallet_exchange_key (st_market strategy)
                        \<or> ws_wallet_type snapshot = wallet_type_key (st_market strategy))
                  (rev (list_exchange_wallet_snapshots db (st_owner_email strategy))) of
             None \<Rightarrow> False
           | Some snapshot \<Rightarrow>
               (let E = w_env W;
                    quote_needed = foldl (\<lambda>acc level. d_add E acc (d_mul E (gl_entry_price level) (gl_quantity level)))
                      0 (levels_on_side E strategy ''Buy'');
                    base_needed = foldl (\<lambda>acc level. d_add E acc (gl_quantity level))
                      0 (levels_on_side E strategy ''Sell'')
                in if st_market strategy = Spot
                   then wallet_balance W snapshot (us_quote_asset symbol) \<ge> quote_needed
                        \<and> wallet_balance W snapshot (us_base_asset symbol) \<ge> base_needed
                   else
                     let leverage = d_of_u32 (unwrap_or (rv_leverage (st_draft_revision strategy)) 1);
                         needed = (if st_market strategy = FuturesCoinM then base_needed else quote_needed);
                         collateral_needed = (if leverage = 0 then 0 else d_div E needed leverage);
                         collateral_asset = (if st_market strategy = FuturesCoinM
                                             then us_base_asset symbol else us_quote_asset symbol)
                     in wallet_balance W snapshot collateral_asset \<ge> collateral_needed)))"

definition server_preflight_state ::
  "'j world \<Rightarrow> 'j EphemeralState \<Rightarrow> Strategy \<Rightarrow> ServerPreflightState" where
  "server_preflight_state W db strategy =
     (let membership_ready =
            (case find_membership_record W db (st_owner_email strategy) of
               None \<Rightarrow> False
             | Some r \<Rightarrow> membership_allows_runtime r
                 (utc_now (w_env W) (length (rt_events (st_runtime strategy)))));
          account = find_exchange_account W db (st_owner_email strategy) ''binance'';
          flag = (\<lambda>key. Option.bind account (\<lambda>r. metadata_bool W (ua_metadata r) [''validation'', key]));
          exchange_ready = (case account of None \<Rightarrow> False
                            | Some r \<Rightarrow> exchange_account_supports_strategy W r (st_market strategy));
          permissions_ready = unwrap_or (flag ''permissions_ok'') False;
          hedge_mode_ready = unwrap_or (flag ''hedge_mode_ok'') False;
          withdrawals_disabled =
            unwrap_or (or_else (flag ''withdrawals_disabled'') (flag ''withdraw_disabled'')) False;
          symbol_ready = (account \<noteq> None \<and> symbol_exists_for_strategy db strategy);
          filters_ready = (account \<noteq> None \<and> filters_satisfied W db strategy);
          margin_ready = (if st_market strategy = Spot then True
                          else hedge_mode_ready \<and> margin_requirements_satisfied W db strategy);
          conflict_ready = (if futures_conflict_required (st_market strategy)
                            then futures_conflict_free db strategy else True);
          balance_ready = (account \<noteq> None \<and> balance_available W db strategy)
      in \<lparr>sp_membership_ready = Some membership_ready, sp_exchange_ready = Some exchange_ready,
          sp_permissions_ready = Some permissions_ready,
          sp_withdrawals_disabled = Some withdrawals_disabled,
          sp_hedge_mode_ready = Some hedge_mode_ready, sp_symbol_ready = Some symbol_ready,
          sp_filters_ready = Some filters_ready, sp_margin_ready = Some margin_ready,
          sp_conflict_ready = Some conflict_ready, sp_balance_ready = Some balance_ready\<rparr>)"

subsection \<open>The report\<close>

record preflight_check =
  pc_step :: string
  pc_applicable :: bool
  pc_ok :: bool
  pc_reason :: string
  pc_guidance :: string

definition balance_reason :: "Strategy \<Rightarrow> string" where
  "balance_reason strategy =
     (if st_market strategy = Spot \<and> (st_mode strategy = SpotClassic \<or> st_mode strategy = SpotSellOnly)
      then ''insufficient quote or base inventory for the configured spot grid''
      else ''insufficient available balance or collateral'')"

definition balance_guidance :: "Strategy \<Rightarrow> string" where
  "balance_guidance strategy =
     (if st_market strategy = Spot \<and> st_mode strategy = SpotClassic
      then ''spot classic needs quote balance for buy grids and base asset inventory for sell grids; add funds or reduce the two-way ladder before starting''
      else if st_market strategy = Spot \<and> st_mode strategy = SpotSellOnly
      then ''spot sell-only needs enough base asset inventory to place the configured sell grids''
      else ''add funds or reduce the configured grid size before starting'')"

definition server_flag ::
  "ServerPreflightState option \<Rightarrow> (ServerPreflightState \<Rightarrow> bool option) \<Rightarrow> bool \<Rightarrow> bool" where
  "server_flag server_state field fallback = unwrap_or (Option.bind server_state field) fallback"

definition preflight_checks :: "Strategy \<Rightarrow> ServerPreflightState option \<Rightarrow> preflight_check list" where
  "preflight_checks strategy server_state =
    [\<lparr>pc_step = ''membership_status'', pc_applicable = True,
      pc_ok = server_flag server_state sp_membership_ready (st_membership_ready strategy),
      pc_reason = ''membership is not active'',
      pc_guidance = ''renew or reactivate membership before starting''\<rparr>,
     \<lparr>pc_step = ''exchange_connection'', pc_applicable = True,
      pc_ok = server_flag server_state sp_exchange_ready (st_exchange_ready strategy),
      pc_reason = ''exchange credentials are not ready'',
      pc_guidance = ''verify API key, secret, and required Binance permissions''\<rparr>,
     \<lparr>pc_step = ''exchange_permissions'', pc_applicable = True,
      pc_ok = server_flag server_state sp_permissions_ready (st_permissions_ready strategy),
      pc_reason = ''required Binance trading permissions are missing'',
      pc_guidance = ''enable the permissions required for this market before starting''\<rparr>,
     \<lparr>pc_step = ''withdrawal_permission_disabled'', pc_applicable = True,
      pc_ok = server_flag server_state sp_withdrawals_disabled (st_withdrawals_disabled strategy),
      pc_reason = ''withdraw permission must be disabled'',
      pc_guidance = ''turn off withdrawal permission on the Binance API key''\<rparr>,
     \<lparr>pc_step = ''hedge_mode'', pc_applicable = requires_futures_checks (st_market strategy),
      pc_ok = server_flag server_state sp_hedge_mode_ready (st_hedge_mode_ready strategy),
      pc_reason = ''hedge mode is required for futures strategies'',
      pc_guidance = ''enable hedge mode on Binance before starting this futures strategy''\<rparr>,
     \<lparr>pc_step = ''symbol_support'', pc_applicable = True,
      pc_ok = server_flag server_state sp_symbol_ready (st_symbol_ready strategy),
      pc_reason = ''symbol is not available'',
      pc_guidance = ''choose a tradable symbol from synced Binance metadata''\<rparr>,
     \<lparr>pc_step = ''filters_and_notional'', pc_applicable = True,
      pc_ok = server_flag server_state sp_filters_ready (st_filters_ready strategy),
      pc_reason = ''grid quantities or notionals do not satisfy exchange filters'',
      pc_guidance = ''adjust the grid quantities to satisfy Binance min quantity and min notional filters''\<rparr>,
     \<lparr>pc_step = ''margin_or_leverage'', pc_applicable = requires_futures_checks (st_market strategy),
      pc_ok = server_flag server_state sp_margin_ready (st_margin_ready strategy),
      pc_reason = ''margin type or leverage settings are invalid'',
      pc_guidance = ''fix margin mode or leverage before starting this futures strategy''\<rparr>,
     \<lparr>pc_step = ''strategy_conflicts'', pc_applicable = True,
      pc_ok = server_flag server_state sp_conflict_ready (st_conflict_ready strategy),
      pc_reason = ''strategy conflicts with an existing active strategy'',
      pc_guidance = ''stop or change the conflicting strategy before starting this one''\<rparr>,
     \<lparr>pc_step = ''balance_or_collateral'', pc_applicable = True,
      pc_ok = server_flag server_state sp_balance_ready (st_balance_ready strategy),
      pc_reason = balance_reason strategy, pc_guidance = balance_guidance strategy\<rparr>,
     \<lparr>pc_step = ''trailing_take_profit'', pc_applicable = True,
      pc_ok = list_all (\<lambda>level. unwrap_or (gl_trailing_bps level) (gl_take_profit_bps level)
                                  \<le> gl_take_profit_bps level)
                (rv_levels (st_draft_revision strategy)),
      pc_reason = ''trailing take profit exceeds the configured grid take profit range'',
      pc_guidance = ''reduce trailing_bps so it does not exceed take_profit_bps''\<rparr>]"

text \<open>One pass of the loop over the checks; the state is \<open>(blocked, steps, failures)\<close>.\<close>

definition preflight_step ::
  "preflight_check \<Rightarrow> bool \<times> PreflightStepResult list \<times> PreflightFailure list
   \<Rightarrow> bool \<times> PreflightStepResult list \<times> PreflightFailure list" where
  "preflight_step c st =
     (let (blocked, steps, failures) = st;
          skipped = \<lparr>ps_step = pc_step c, ps_status = Skipped, ps_reason = None, ps_guidance = None\<rparr>
      in if blocked then (blocked, steps @ [skipped], failures)
         else if \<not> pc_applicable c then (blocked, steps @ [skipped], failures)
         else if pc_ok c
         then (blocked, steps @ [\<lparr>ps_step = pc_step c, ps_status = Passed, ps_reason = None,
                                  ps_guidance = None\<rparr>], failures)
         else (True,
               steps @ [\<lparr>ps_step = pc_step c, ps_status = Failed, ps_reason = Some (pc_reason c),
                         ps_guidance = Some (pc_guidance c)\<rparr>],
               failures @ [\<lparr>pf_step = pc_step c, pf_reason = pc_reason c,
                            pf_guidance = Some (pc_guidance c)\<rparr>]))"

definition run_preflight_with_state ::
  "Strategy \<Rightarrow> ServerPreflightState option \<Rightarrow> PreflightReport" where
  "run_preflight_with_state strategy server_state =
     (let (blocked, steps, failures) =
            fold preflight_step (preflight_checks strategy server_state) (False, [], [])
      in \<lparr>pr_ok = (failures = []), pr_steps = steps, pr_failures = failures\<rparr>)"

definition live_preflight_report :: "'j world \<Rightarrow> 'j EphemeralState \<Rightarrow> Strategy \<Rightarrow> PreflightReport" where
  "live_preflight_report W db strategy =
     run_preflight_with_state strategy (Some (server_preflight_state W db strategy))"

end
