(* ===== verification/Lifecycle.thy ===== *)
theory Lifecycle
  imports Preflight
begin

text \<open>
  \<^verbatim>\<open>src/apps/api-server/src/services/strategy_service.rs\<close>, the life cycle of a strategy as its owner
  drives it: start, resume, pause, stop and delete, each on the store. A handler gives its result
  and the new store. A \<open>StrategyError\<close> carries the HTTP status, the message and, for a failed
  preflight, the report.
\<close>

record StrategyError =
  er_status :: nat
  er_message :: string
  er_preflight :: "PreflightReport option"

type_synonym ('j, 'a) handler = "'j EphemeralState \<Rightarrow> (StrategyError + 'a) \<times> 'j EphemeralState"

definition bad_request :: "string \<Rightarrow> StrategyError" where
  "bad_request message = \<lparr>er_status = 400, er_message = message, er_preflight = None\<rparr>"

definition not_found :: "string \<Rightarrow> StrategyError" where
  "not_found message = \<lparr>er_status = 404, er_message = message, er_preflight = None\<rparr>"

definition conflict :: "string \<Rightarrow> StrategyError" where
  "conflict message = \<lparr>er_status = 409, er_message = message, er_preflight = None\<rparr>"

definition preflight_failed :: "PreflightReport \<Rightarrow> StrategyError" where
  "preflight_failed preflight =
     \<lparr>er_status = 409, er_message = ''preflight failed'', er_preflight = Some preflight\<rparr>"

definition storage_error :: StrategyError where
  "storage_error = \<lparr>er_status = 500, er_message = ''internal storage error'', er_preflight = None\<rparr>"

record StartStrategyResponse =
  ss_strategy :: Strategy
  ss_preflight :: PreflightReport

record BatchStartFailure =
  sf_strategy_id :: string
  sf_error :: string
  sf_preflight :: "PreflightReport option"

record BatchStartResponse =
  bs_started :: nat
  bs_items :: "StartStrategyResponse list"
  bs_failures :: "BatchStartFailure list"

record BatchFailure =
  bf_strategy_id :: string
  bf_error :: string

record BatchPauseResponse =
  bp_paused :: nat
  bp_failures :: "BatchFailure list"

record BatchDeleteResponse =
  bd_deleted :: nat
  bd_failures :: "BatchFailure list"

subsection \<open>Runtime helpers\<close>

definition push_runtime_event ::
  "env \<Rightarrow> string \<Rightarrow> string \<Rightarrow> decimal option \<Rightarrow> StrategyRuntime \<Rightarrow> StrategyRuntime" where
  "push_runtime_event E event_type detail price runtime =
     runtime\<lparr>rt_events := snd (push_event E (rt_events runtime) event_type detail price)\<rparr>"

definition runtime_reference_price ::
  "env \<Rightarrow> Strategy \<Rightarrow> StrategyRuntimePosition list option \<Rightarrow> decimal option" where
  "runtime_reference_price E strategy positions_override =
     (case find_map ev_price (rev (rt_events (st_runtime strategy))) of
        Some price \<Rightarrow> Some price
      | None \<Rightarrow>
          (let positions = unwrap_or positions_override (rt_positions (st_runtime strategy));
               total_quantity = foldl (\<lambda>acc p. d_add E acc (po_quantity p)) 0 positions
           in if total_quantity > 0
              then Some (d_div E
                     (foldl (\<lambda>acc p. d_add E acc (d_mul E (po_average_entry_price p) (po_quantity p)))
                       0 positions) total_quantity)
              else find_map (\<lambda>fill. if fi_price fill > 0 then Some (fi_price fill) else None)
                     (rev (rt_fills (st_runtime strategy)))))"

definition initial_order :: "Strategy \<Rightarrow> decimal \<Rightarrow> GridLevel \<Rightarrow> StrategyRuntimeOrder option" where
  "initial_order strategy price level =
     map_option
       (\<lambda>side. \<lparr>ro_order_id = st_id strategy @ ''-order-'' @ show_u32 (gl_level_index level),
                ro_exchange_order_id = None, ro_level_index = Some (gl_level_index level),
                ro_side = side, ro_order_type = ''Limit'', ro_price = Some (gl_entry_price level),
                ro_quantity = gl_quantity level, ro_status = ''Working''\<rparr>)
       (service_entry_side (st_mode strategy) (gl_level_index level) (gl_entry_price level) price)"

definition rebuild_runtime ::
  "env \<Rightarrow> Strategy \<Rightarrow> StrategyRuntimePosition list option \<Rightarrow> string \<Rightarrow> StrategyRuntime" where
  "rebuild_runtime E strategy positions_override event_type =
     (let active = unwrap_or (st_active_revision strategy) (st_draft_revision strategy);
          price = unwrap_or (runtime_reference_price E strategy positions_override)
                    (draft_reference_price E active (st_mode strategy));
          positions = unwrap_or positions_override []
      in push_runtime_event E event_type
           (map (\<lambda>c. if c = CHR ''_'' then CHR '' '' else c) event_type) None
           \<lparr>rt_positions = positions,
            rt_orders = List.map_filter (initial_order strategy price) (rv_levels active),
            rt_fills = [], rt_events = [], rt_last_preflight = None\<rparr>)"

definition resume_runtime :: "env \<Rightarrow> Strategy \<Rightarrow> StrategyError + StrategyRuntime" where
  "resume_runtime E strategy =
     (let revision = unwrap_or (st_active_revision strategy) (st_draft_revision strategy)
      in case from_runtime_snapshot E (st_id strategy) (st_market strategy) (st_mode strategy)
                revision (st_runtime strategy) False of
           Inl error \<Rightarrow> Inl (bad_request error)
         | Inr engine \<Rightarrow>
             (case engine_resume E engine of
                (Inl error, _) \<Rightarrow> Inl (bad_request error)
              | (Inr _, engine) \<Rightarrow> Inr (se_runtime engine)))"

definition cancel_working_order :: "StrategyRuntimeOrder \<Rightarrow> StrategyRuntimeOrder" where
  "cancel_working_order order =
     (if ro_status order = ''Working'' \<or> ro_status order = ''Placed''
      then order\<lparr>ro_status := ''Canceled''\<rparr> else order)"

definition cancel_working_orders :: "StrategyRuntimeOrder list \<Rightarrow> StrategyRuntimeOrder list" where
  "cancel_working_orders orders = map cancel_working_order orders"

definition delete_failure_reason :: "Strategy \<Rightarrow> string option" where
  "delete_failure_reason strategy =
     (if st_status strategy = Archived then Some ''Strategy has already been deleted.''
      else if st_status strategy = Running \<or> st_status strategy = Stopping
      then Some ''Strategy must be stopped before it can be deleted.''
      else if rt_positions (st_runtime strategy) \<noteq> []
      then Some ''Strategy cannot be deleted while it still holds open positions.''
      else if list_ex (\<lambda>order. ro_status order = ''Working'' \<or> ro_status order = ''Placed'')
                (rt_orders (st_runtime strategy))
      then Some ''Strategy cannot be deleted while there are working orders; stop it first.''
      else None)"

definition pause_failure_reason :: "StrategyStatus \<Rightarrow> string" where
  "pause_failure_reason status =
     (case status of
        Draft \<Rightarrow> ''Strategy has not started yet; only running strategies can be paused.''
      | Stopped \<Rightarrow> ''Strategy is already stopped; pause is only available while running.''
      | Paused \<Rightarrow> ''Strategy is already paused.''
      | ErrorPaused \<Rightarrow> ''Strategy is paused because of an error; resolve the runtime issue before pausing again.''
      | Completed \<Rightarrow> ''Strategy has completed and cannot be paused.''
      | Stopping \<Rightarrow> ''Strategy is stopping; wait for the stop to finish before triggering pause.''
      | Archived \<Rightarrow> ''Strategy has already been deleted.''
      | _ \<Rightarrow> ''Strategy is not running and cannot be paused right now.'')"

definition strategy_status_label :: "StrategyStatus \<Rightarrow> string" where
  "strategy_status_label status =
     (case status of Draft \<Rightarrow> ''Draft'' | Running \<Rightarrow> ''Running'' | Paused \<Rightarrow> ''Paused''
      | ErrorPaused \<Rightarrow> ''ErrorPaused'' | Completed \<Rightarrow> ''Completed'' | Stopping \<Rightarrow> ''Stopping''
      | Stopped \<Rightarrow> ''Stopped'' | Archived \<Rightarrow> ''Archived'')"

definition log_strategy_event :: "env \<Rightarrow> string \<Rightarrow> string \<Rightarrow> Strategy \<Rightarrow> Strategy" where
  "log_strategy_event E event_type detail strategy =
     strategy\<lparr>st_runtime := push_runtime_event E event_type detail None (st_runtime strategy)\<rparr>"

definition stop_strategy_runtime :: "env \<Rightarrow> Strategy \<Rightarrow> (StrategyError + unit) \<times> Strategy" where
  "stop_strategy_runtime E strategy =
     (if st_status strategy = Running \<or> st_status strategy = Paused
      then
        let strategy = set_orders (cancel_working_orders (rt_orders (st_runtime strategy))) strategy
        in if rt_positions (st_runtime strategy) = []
           then (Inr (), log_strategy_event E ''strategy_stopped'' ''strategy stopped''
                           (strategy\<lparr>st_status := Stopped\<rparr>))
           else (Inr (), log_strategy_event E ''strategy_stop_requested''
                           ''strategy stop requested; waiting for exchange close reconciliation''
                           (strategy\<lparr>st_status := Stopping\<rparr>))
      else if st_status strategy = Draft
      then (Inl (conflict ''Stop is only available for running or paused strategies; this draft has never been started.''),
            strategy)
      else (Inl (conflict (''Stop is only available for running or paused strategies (current status: ''
                   @ strategy_status_label (st_status strategy) @ '').'')), strategy))"

subsection \<open>Notifications\<close>

definition kind_name :: "NotificationKind \<Rightarrow> string" where
  "kind_name kind =
     (case kind of
        StrategyStarted \<Rightarrow> ''StrategyStarted'' | StrategyPaused \<Rightarrow> ''StrategyPaused''
      | MembershipExpiring \<Rightarrow> ''MembershipExpiring'' | DepositConfirmed \<Rightarrow> ''DepositConfirmed''
      | RuntimeError \<Rightarrow> ''RuntimeError'' | ApiCredentialsInvalidated \<Rightarrow> ''ApiCredentialsInvalidated''
      | GridFillExecuted \<Rightarrow> ''GridFillExecuted'' | FillProfitReported \<Rightarrow> ''FillProfitReported''
      | OverallTakeProfitTriggered \<Rightarrow> ''OverallTakeProfitTriggered''
      | OverallStopLossTriggered \<Rightarrow> ''OverallStopLossTriggered'')"

definition persist_strategy_notification ::
  "'j world \<Rightarrow> string \<Rightarrow> NotificationKind \<Rightarrow> string \<Rightarrow> string \<Rightarrow> (string \<times> string) list
   \<Rightarrow> ('j, unit) handler" where
  "persist_strategy_notification W email kind title message payload db =
     (let binding = find_telegram_binding W db email;
          record = \<lparr>nr_event = \<lparr>ne_email = email, ne_kind = kind, ne_title = title,
                                ne_message = message, ne_payload = payload\<rparr>,
                    nr_telegram_delivered = (binding \<noteq> None), nr_in_app_delivered = True,
                    nr_show_expiry_popup = (kind = MembershipExpiring)\<rparr>;
          now = utc_now (w_env W) (length (es_notification_logs db))
      in case j_of_record W record of
           None \<Rightarrow> (Inl storage_error, db)
         | Some value \<Rightarrow>
             (let entry = (\<lambda>channel status delivered_at.
                    \<lparr>nl_user_email = email, nl_channel = channel, nl_template_key = Some (kind_name kind),
                     nl_title = title, nl_body = message, nl_status = status, nl_payload = value,
                     nl_created_at = now, nl_delivered_at = delivered_at\<rparr>);
                  db = insert_notification_log (entry ''in_app'' ''delivered'' (Some now)) db
              in case (binding, bot_token W) of
                   (Some b, Some token) \<Rightarrow>
                     (let delivered = bot_send W token (tb_telegram_chat_id b) title message
                      in (Inr (), insert_notification_log
                            (entry ''telegram'' (if delivered then ''delivered'' else ''failed'')
                               (if delivered then Some now else None)) db))
                 | _ \<Rightarrow> (Inr (), db)))"

subsection \<open>Handlers\<close>

definition start_strategy :: "'j world \<Rightarrow> string \<Rightarrow> string \<Rightarrow> ('j, StartStrategyResponse) handler" where
  "start_strategy W owner_email strategy_id db =
     (case find_strategy db owner_email strategy_id of
        None \<Rightarrow> (Inl (not_found ''strategy not found''), db)
      | Some strategy \<Rightarrow>
          if st_status strategy \<noteq> Draft \<and> st_status strategy \<noteq> Stopped
          then (Inl (conflict ''strategy cannot be started from this state''), db)
          else
            let preflight = live_preflight_report W db strategy
            in if \<not> pr_ok preflight then (Inl (preflight_failed preflight), db)
               else
                 let strategy = strategy\<lparr>st_active_revision := Some (st_draft_revision strategy)\<rparr>;
                     runtime = rebuild_runtime (w_env W) strategy None ''strategy_started'';
                     strategy = strategy\<lparr>st_runtime := runtime\<lparr>rt_last_preflight := Some preflight\<rparr>,
                                         st_status := Running\<rparr>;
                     db = snd (update_strategy strategy db)
                 in case persist_strategy_notification W (st_owner_email strategy) StrategyStarted
                           ''Strategy started''
                           (st_name strategy @ '' started on '' @ st_symbol strategy @ ''.'')
                           [(''strategy_id'', st_id strategy), (''symbol'', st_symbol strategy)] db of
                      (Inl e, db) \<Rightarrow> (Inl e, db)
                    | (Inr _, db) \<Rightarrow> (Inr \<lparr>ss_strategy = strategy, ss_preflight = preflight\<rparr>, db))"

definition resume_strategy :: "'j world \<Rightarrow> string \<Rightarrow> string \<Rightarrow> ('j, StartStrategyResponse) handler" where
  "resume_strategy W owner_email strategy_id db =
     (case find_strategy db owner_email strategy_id of
        None \<Rightarrow> (Inl (not_found ''strategy not found''), db)
      | Some strategy \<Rightarrow>
          if st_status strategy \<noteq> Paused
          then (Inl (conflict ''only paused strategies can resume''), db)
          else
            let preflight = live_preflight_report W db strategy
            in if \<not> pr_ok preflight then (Inl (preflight_failed preflight), db)
               else
                 let draft_differs_from_active =
                       (case st_active_revision strategy of
                          None \<Rightarrow> False
                        | Some active \<Rightarrow> rv_revision_id active \<noteq> rv_revision_id (st_draft_revision strategy))
                 in if rt_positions (st_runtime strategy) \<noteq> [] \<and> draft_differs_from_active
                    then (Inl (conflict ''resume requires reconciling paused positions before applying a revised grid''), db)
                    else
                      let strategy = strategy\<lparr>st_active_revision := Some (st_draft_revision strategy)\<rparr>
                      in case resume_runtime (w_env W) strategy of
                           Inl e \<Rightarrow> (Inl e, db)
                         | Inr runtime \<Rightarrow>
                             let strategy = strategy\<lparr>
                                   st_runtime := runtime\<lparr>rt_last_preflight := Some preflight\<rparr>,
                                   st_status := Running\<rparr>
                             in (Inr \<lparr>ss_strategy = strategy, ss_preflight = preflight\<rparr>,
                                 snd (update_strategy strategy db)))"

definition stop_strategy :: "'j world \<Rightarrow> string \<Rightarrow> string \<Rightarrow> ('j, Strategy) handler" where
  "stop_strategy W owner_email strategy_id db =
     (case find_strategy db owner_email strategy_id of
        None \<Rightarrow> (Inl (not_found ''strategy not found''), db)
      | Some strategy \<Rightarrow>
          (case stop_strategy_runtime (w_env W) strategy of
             (Inl e, _) \<Rightarrow> (Inl e, db)
           | (Inr _, strategy) \<Rightarrow> (Inr strategy, snd (update_strategy strategy db))))"

text \<open>The batch handlers: one pass of the loop over the requested ids, then the loop.\<close>

definition start_one ::
  "'j world \<Rightarrow> string \<Rightarrow> string
   \<Rightarrow> StartStrategyResponse list \<times> BatchStartFailure list \<times> 'j EphemeralState
   \<Rightarrow> StartStrategyResponse list \<times> BatchStartFailure list \<times> 'j EphemeralState" where
  "start_one W owner_email strategy_id st =
     (let (items, failures, db) = st
      in case find_strategy db owner_email strategy_id of
           None \<Rightarrow>
             (items, failures @ [\<lparr>sf_strategy_id = strategy_id, sf_error = ''strategy not found'',
                                  sf_preflight = None\<rparr>], db)
         | Some strategy \<Rightarrow>
             (case (if st_status strategy = Draft \<or> st_status strategy = Stopped
                    then start_strategy W owner_email (st_id strategy) db
                    else if st_status strategy = Paused
                    then resume_strategy W owner_email (st_id strategy) db
                    else (Inl (conflict ''strategy cannot be started from this state''), db)) of
                (Inr started, db) \<Rightarrow> (items @ [started], failures, db)
              | (Inl error, db) \<Rightarrow>
                  (items, failures @ [\<lparr>sf_strategy_id = st_id strategy, sf_error = er_message error,
                                       sf_preflight = er_preflight error\<rparr>], db)))"

definition start_strategies :: "'j world \<Rightarrow> string \<Rightarrow> string list \<Rightarrow> ('j, BatchStartResponse) handler" where
  "start_strategies W owner_email ids db =
     (if ids = [] then (Inl (bad_request ''ids are required''), db)
      else
        let (items, failures, db) = fold (start_one W owner_email) ids ([], [], db)
        in (Inr \<lparr>bs_started = length items, bs_items = items, bs_failures = failures\<rparr>, db))"

definition pause_one ::
  "'j world \<Rightarrow> string \<Rightarrow> string \<Rightarrow> nat \<times> BatchFailure list
   \<Rightarrow> ('j, nat \<times> BatchFailure list) handler" where
  "pause_one W owner_email strategy_id st db =
     (let (paused, failures) = st
      in case find_strategy db owner_email strategy_id of
           None \<Rightarrow>
             (Inr (paused, failures @ [\<lparr>bf_strategy_id = strategy_id, bf_error = ''strategy not found''\<rparr>]), db)
         | Some strategy \<Rightarrow>
             if st_status strategy \<noteq> Running
             then (Inr (paused, failures @ [\<lparr>bf_strategy_id = st_id strategy,
                     bf_error = pause_failure_reason (st_status strategy)\<rparr>]), db)
             else
               let strategy = strategy\<lparr>st_status := Paused\<rparr>;
                   strategy = set_orders (cancel_working_orders (rt_orders (st_runtime strategy))) strategy;
                   strategy = log_strategy_event (w_env W) ''strategy_paused'' ''strategy paused'' strategy;
                   db = snd (update_strategy strategy db)
               in case persist_strategy_notification W (st_owner_email strategy) StrategyPaused
                         ''Strategy paused''
                         (st_name strategy @ '' paused on '' @ st_symbol strategy @ ''.'')
                         [(''strategy_id'', st_id strategy), (''symbol'', st_symbol strategy)] db of
                    (Inl e, db) \<Rightarrow> (Inl e, db)
                  | (Inr _, db) \<Rightarrow> (Inr (Suc paused, failures), db))"

fun pause_all ::
  "'j world \<Rightarrow> string \<Rightarrow> string list \<Rightarrow> nat \<times> BatchFailure list
   \<Rightarrow> ('j, nat \<times> BatchFailure list) handler" where
  "pause_all W owner_email [] st db = (Inr st, db)"
| "pause_all W owner_email (strategy_id # ids) st db =
     (case pause_one W owner_email strategy_id st db of
        (Inl e, db) \<Rightarrow> (Inl e, db)
      | (Inr st, db) \<Rightarrow> pause_all W owner_email ids st db)"

definition pause_strategies :: "'j world \<Rightarrow> string \<Rightarrow> string list \<Rightarrow> ('j, BatchPauseResponse) handler" where
  "pause_strategies W owner_email ids db =
     (if ids = [] then (Inl (bad_request ''ids are required''), db)
      else
        case pause_all W owner_email ids (0, []) db of
          (Inl e, db) \<Rightarrow> (Inl e, db)
        | (Inr (paused, failures), db) \<Rightarrow> (Inr \<lparr>bp_paused = paused, bp_failures = failures\<rparr>, db))"

definition delete_one ::
  "'j world \<Rightarrow> string \<Rightarrow> string \<Rightarrow> nat \<times> BatchFailure list \<times> 'j EphemeralState
   \<Rightarrow> nat \<times> BatchFailure list \<times> 'j EphemeralState" where
  "delete_one W owner_email strategy_id st =
     (let (deleted, failures, db) = st
      in case find_strategy db owner_email strategy_id of
           None \<Rightarrow>
             (deleted, failures @ [\<lparr>bf_strategy_id = strategy_id, bf_error = ''strategy not found''\<rparr>], db)
         | Some strategy \<Rightarrow>
             (case delete_failure_reason strategy of
                Some error \<Rightarrow>
                  (deleted, failures @ [\<lparr>bf_strategy_id = st_id strategy, bf_error = error\<rparr>], db)
              | None \<Rightarrow>
                  let strategy = strategy\<lparr>st_status := Archived,
                        st_archived_at := Some (utc_now (w_env W) (length (rt_events (st_runtime strategy))))\<rparr>;
                      strategy = log_strategy_event (w_env W) ''strategy_archived'' ''strategy archived'' strategy
                  in (Suc deleted, failures, snd (update_strategy strategy db))))"

definition delete_strategies :: "'j world \<Rightarrow> string \<Rightarrow> string list \<Rightarrow> ('j, BatchDeleteResponse) handler" where
  "delete_strategies W owner_email ids db =
     (if ids = [] then (Inl (bad_request ''ids are required''), db)
      else
        let (deleted, failures, db) = fold (delete_one W owner_email) ids (0, [], db)
        in (Inr \<lparr>bd_deleted = deleted, bd_failures = failures\<rparr>, db))"

definition stop_listed ::
  "'j world \<Rightarrow> Strategy \<Rightarrow> nat \<times> 'j EphemeralState \<Rightarrow> nat \<times> 'j EphemeralState" where
  "stop_listed W strategy st =
     (let (stopped, db) = st
      in if st_status strategy = Running \<or> st_status strategy = Paused
         then
           (case stop_strategy_runtime (w_env W) strategy of
              (Inl _, _) \<Rightarrow> (stopped, db)
            | (Inr _, strategy) \<Rightarrow> (Suc stopped, snd (update_strategy strategy db)))
         else (stopped, db))"

definition stop_all :: "'j world \<Rightarrow> string \<Rightarrow> 'j EphemeralState \<Rightarrow> nat \<times> 'j EphemeralState" where
  "stop_all W owner_email db =
     fold (stop_listed W) (list_strategies db owner_email) (0, db)"

end
