(* ===== verification/LifecycleRuns.thy ===== *)
theory LifecycleRuns
  imports Lifecycle
begin

text \<open>
  Runs of the strategy service. The store is used through an interface, a lookup and a write that
  refuses to touch an archived strategy; the facts the handlers need are proved once against it
  and interpreted on the in-memory backend. Every handler is then shown to be a sequence of writes
  of one strategy each, along the edges of the life cycle.
\<close>

subsection \<open>The strategy store interface\<close>

definition same_key :: "Strategy \<Rightarrow> Strategy \<Rightarrow> bool" where
  "same_key s t \<longleftrightarrow> st_id s = st_id t \<and> st_owner_email s = st_owner_email t"

definition strategy_key :: "Strategy \<Rightarrow> string \<times> string" where
  "strategy_key s = (st_owner_email s, st_id s)"

locale strategy_store =
  fixes entries :: "'s \<Rightarrow> Strategy list"
    and lookup :: "'s \<Rightarrow> string \<Rightarrow> string \<Rightarrow> Strategy option"
    and put :: "Strategy \<Rightarrow> 's \<Rightarrow> 's"
  assumes lookup_entries:
      "lookup db owner i = find (\<lambda>s. st_owner_email s = owner \<and> st_id s = i) (entries db)"
    and put_entries:
      "entries (put s db) =
         (case lookup db (st_owner_email s) (st_id s) of
            None \<Rightarrow> entries db
          | Some old \<Rightarrow> if st_status old = Archived then entries db
                        else update_first (\<lambda>t. same_key t s) (\<lambda>_. s) (entries db))"
begin

lemma lookup_key: "lookup db owner i = Some s \<Longrightarrow> st_owner_email s = owner \<and> st_id s = i \<and> s \<in> set (entries db)"
  by (auto simp: lookup_entries find_Some_iff)

lemma put_keys: "map strategy_key (entries (put s db)) = map strategy_key (entries db)"
proof -
  have "map strategy_key (update_first (\<lambda>t. same_key t s) (\<lambda>_. s) xs) = map strategy_key xs" for xs
    by (induction xs) (auto simp: same_key_def strategy_key_def)
  then show ?thesis by (auto simp: put_entries split: option.splits)
qed

lemma put_subset: "set (entries (put s db)) \<subseteq> insert s (set (entries db))"
  by (auto simp: put_entries split: option.splits if_splits dest: set_update_first)

lemma put_all2:
  assumes "\<And>old. lookup db (st_owner_email s) (st_id s) = Some old \<Longrightarrow> st_status old \<noteq> Archived \<Longrightarrow> R old s"
    and "\<And>x. R x x"
  shows "list_all2 R (entries db) (entries (put s db))"
proof -
  have refl: "list_all2 R xs xs" for xs by (simp add: list_all2_same assms(2))
  have upd: "list_all2 R xs (update_first P (\<lambda>_. s) xs)" if "\<And>t. find P xs = Some t \<Longrightarrow> R t s" for P xs
    using that by (induction xs) (auto simp: refl assms(2))
  have eq: "(\<lambda>t. same_key t s) = (\<lambda>t. st_owner_email t = st_owner_email s \<and> st_id t = st_id s)"
    by (auto simp: same_key_def)
  show ?thesis
    using upd [of "\<lambda>t. st_owner_email t = st_owner_email s \<and> st_id t = st_id s" "entries db"] assms(1)
    by (auto simp: put_entries refl eq lookup_entries split: option.splits)
qed

lemma lookup_put:
  assumes "lookup db (st_owner_email s) (st_id s) = Some old" "st_status old \<noteq> Archived"
  shows "lookup (put s db) (st_owner_email s) (st_id s) = Some s"
proof -
  have "find P (update_first P (\<lambda>_. s) xs) = Some s" if "P s" "find P xs = Some old" for P xs
    using that by (induction xs) (auto split: if_splits)
  moreover have "(\<lambda>t. same_key t s) = (\<lambda>t. st_owner_email t = st_owner_email s \<and> st_id t = st_id s)"
    by (auto simp: same_key_def)
  ultimately show ?thesis
    using assms by (auto simp: put_entries lookup_entries)
qed

lemma lookup_put_other:
  assumes "(owner, i) \<noteq> strategy_key s"
  shows "lookup (put s db) owner i = lookup db owner i"
proof -
  let ?P = "\<lambda>t. st_owner_email t = owner \<and> st_id t = i"
  have "find ?P (update_first (\<lambda>t. same_key t s) (\<lambda>_. s) xs) = find ?P xs" for xs
    using assms by (induction xs) (auto simp: same_key_def strategy_key_def)
  then show ?thesis by (auto simp: put_entries lookup_entries split: option.splits)
qed

lemma lookup_listed:
  assumes "distinct (map strategy_key (entries db))" "s \<in> set (entries db)"
  shows "lookup db (st_owner_email s) (st_id s) = Some s"
proof -
  have "find (\<lambda>t. st_owner_email t = st_owner_email s \<and> st_id t = st_id s) xs = Some s"
    if "distinct (map strategy_key xs)" "s \<in> set xs" for xs
    using that by (induction xs) (auto simp: strategy_key_def)
  then show ?thesis using assms by (simp add: lookup_entries)
qed

end

lemma find_map_snd: "find P (map snd xs) = map_option snd (find (\<lambda>e. P (snd e)) xs)"
  by (induction xs) auto

lemma map_snd_update_first:
  "map snd (update_first (\<lambda>e. P (snd e)) (\<lambda>(k, _). (k, v)) xs) = update_first P (\<lambda>_. v) (map snd xs)"
  by (induction xs) auto

interpretation eph: strategy_store list_all_strategies find_strategy "\<lambda>s db. snd (update_strategy s db)"
proof
  show "find_strategy db owner i = find (\<lambda>s. st_owner_email s = owner \<and> st_id s = i) (list_all_strategies db)"
    for db owner i
    by (simp add: find_strategy_def list_all_strategies_def)
  fix s :: Strategy and db :: "'a EphemeralState"
  have key: "same_strategy s = (\<lambda>e. same_key (snd e) s)"
    by (auto simp: same_strategy_def same_key_def)
  have sel: "(\<lambda>t. st_owner_email t = st_owner_email s \<and> st_id t = st_id s) = (\<lambda>t. same_key t s)"
    by (auto simp: same_key_def)
  show "list_all_strategies (snd (update_strategy s db)) =
        (case find_strategy db (st_owner_email s) (st_id s) of
           None \<Rightarrow> list_all_strategies db
         | Some old \<Rightarrow> if st_status old = Archived then list_all_strategies db
                       else update_first (\<lambda>t. same_key t s) (\<lambda>_. s) (list_all_strategies db))"
    unfolding update_strategy_def find_strategy_def list_all_strategies_def key sel find_map_snd
    by (auto simp: map_snd_update_first [where P = "\<lambda>t. same_key t s"] split: option.split)
qed

subsection \<open>What the handlers do to the strategies of the store\<close>

text \<open>The edges of the life cycle that the handlers may follow.\<close>

inductive status_edge :: "StrategyStatus \<Rightarrow> StrategyStatus \<Rightarrow> bool" where
  start: "s \<in> {Draft, Stopped, Paused} \<Longrightarrow> status_edge s Running"
| pause: "status_edge Running Paused"
| stop: "s \<in> {Running, Paused} \<Longrightarrow> t \<in> {Stopped, Stopping} \<Longrightarrow> status_edge s t"
| delete: "s \<notin> {Running, Stopping, Archived} \<Longrightarrow> status_edge s Archived"

inductive_simps status_edge_iff: "status_edge s t"

lemma archived_has_no_edge: "status_edge\<^sup>*\<^sup>* s t \<Longrightarrow> s = Archived \<Longrightarrow> t = Archived"
  by (induction rule: rtranclp_induct) (auto simp: status_edge_iff)

definition advances :: "Strategy \<Rightarrow> Strategy \<Rightarrow> bool" where
  "advances s t \<longleftrightarrow>
     same_key s t \<and> st_market s = st_market t \<and> st_mode s = st_mode t \<and> st_symbol s = st_symbol t
     \<and> status_edge\<^sup>*\<^sup>* (st_status s) (st_status t) \<and> (st_status s = Archived \<longrightarrow> t = s)"

lemma advances_refl [simp, intro]: "advances s s"
  by (simp add: advances_def same_key_def)

lemma advances_edge:
  "same_key s t \<Longrightarrow> st_market s = st_market t \<Longrightarrow> st_mode s = st_mode t \<Longrightarrow> st_symbol s = st_symbol t
   \<Longrightarrow> status_edge (st_status s) (st_status t) \<Longrightarrow> advances s t"
  by (auto simp: advances_def status_edge_iff)

lemma advances_trans: "advances s t \<Longrightarrow> advances t u \<Longrightarrow> advances s u"
  by (auto simp: advances_def same_key_def dest: archived_has_no_edge intro: rtranclp_trans)

definition store_advances :: "'j EphemeralState \<Rightarrow> 'j EphemeralState \<Rightarrow> bool" where
  "store_advances db db' \<longleftrightarrow> list_all2 advances (list_all_strategies db) (list_all_strategies db')"

lemma store_advances_refl [simp, intro]: "store_advances db db"
  by (simp add: store_advances_def list_all2_same)

lemma store_advances_trans: "store_advances a b \<Longrightarrow> store_advances b c \<Longrightarrow> store_advances a c"
  unfolding store_advances_def by (rule list_all2_trans [OF advances_trans])

lemma update_advances:
  assumes "find_strategy db (st_owner_email s) (st_id s) = Some old" "advances old s"
  shows "store_advances db (snd (update_strategy s db))"
  unfolding store_advances_def using assms by (intro eph.put_all2) auto

lemma persist_strategies [simp]:
  "list_all_strategies (snd (persist_strategy_notification W email kind title message payload db))
   = list_all_strategies db"
  by (simp add: persist_strategy_notification_def Let_def list_all_strategies_def
        insert_notification_log_def split: option.split)

text \<open>
  Every handler writes one strategy at a time: a strategy that passed the preflight to \<open>Running\<close>, or
  one that leaves \<open>Running\<close> or stays out of it.
\<close>

definition same_venue :: "Strategy \<Rightarrow> Strategy \<Rightarrow> bool" where
  "same_venue s t \<longleftrightarrow>
     same_key s t \<and> st_market s = st_market t \<and> st_mode s = st_mode t \<and> st_symbol s = st_symbol t"

inductive one_write :: "'j world \<Rightarrow> 'j EphemeralState \<Rightarrow> 'j EphemeralState \<Rightarrow> bool" for W where
  none: "list_all_strategies db' = list_all_strategies db \<Longrightarrow> one_write W db db'"
| run: "find_strategy db o' i = Some old \<Longrightarrow> st_status old \<in> {Draft, Stopped, Paused}
    \<Longrightarrow> pr_ok (live_preflight_report W db old) \<Longrightarrow> same_venue old s \<Longrightarrow> st_status s = Running
    \<Longrightarrow> list_all_strategies db' = list_all_strategies (snd (update_strategy s db)) \<Longrightarrow> one_write W db db'"
| halt: "find_strategy db o' i = Some old \<Longrightarrow> status_edge (st_status old) (st_status s)
    \<Longrightarrow> st_status s \<noteq> Running \<Longrightarrow> same_venue old s
    \<Longrightarrow> list_all_strategies db' = list_all_strategies (snd (update_strategy s db)) \<Longrightarrow> one_write W db db'"

text \<open>One write of a strategy \<open>old\<close> as \<open>s\<close> with \<open>R old s\<close>, or none.\<close>

definition writes :: "(Strategy \<Rightarrow> Strategy \<Rightarrow> bool) \<Rightarrow> 'j EphemeralState \<Rightarrow> 'j EphemeralState \<Rightarrow> bool" where
  "writes R db db' \<longleftrightarrow>
     list_all_strategies db' = list_all_strategies db
     \<or> (\<exists>o' i old s. find_strategy db o' i = Some old \<and> same_venue old s \<and> R old s
         \<and> list_all_strategies db' = list_all_strategies (snd (update_strategy s db)))"

lemma writes_none: "list_all_strategies db' = list_all_strategies db \<Longrightarrow> writes R db db'"
  by (simp add: writes_def)

lemma writesI:
  "find_strategy db o' i = Some old \<Longrightarrow> same_venue old s \<Longrightarrow> R old s
   \<Longrightarrow> list_all_strategies db' = list_all_strategies (snd (update_strategy s db)) \<Longrightarrow> writes R db db'"
  by (auto simp: writes_def)

lemma writes_mono: "writes R db db' \<Longrightarrow> (\<And>s t. R s t \<Longrightarrow> Q s t) \<Longrightarrow> writes Q db db'"
  unfolding writes_def by blast

lemma writes_run:
  assumes "writes R db db'" "\<And>s t. R s t \<Longrightarrow>
      st_status s \<in> {Draft, Stopped, Paused} \<and> st_status t = Running \<and> pr_ok (live_preflight_report W db s)"
  shows "one_write W db db'"
  using assms unfolding writes_def by (auto intro: one_write.none one_write.run)

lemma writes_halt:
  assumes "writes R db db'" "\<And>s t. R s t \<Longrightarrow> status_edge (st_status s) (st_status t) \<and> st_status t \<noteq> Running"
  shows "one_write W db db'"
  using assms unfolding writes_def by (auto intro: one_write.none one_write.halt)

text \<open>What a write leaves of each strategy of the store, and the moves of the handlers.\<close>

definition changed :: "(Strategy \<Rightarrow> Strategy \<Rightarrow> bool) \<Rightarrow> Strategy \<Rightarrow> Strategy \<Rightarrow> bool" where
  "changed R s t \<longleftrightarrow> t = s \<or> same_venue s t \<and> R s t"

lemma writes_changed:
  assumes "writes R db db'"
  shows "list_all2 (changed R) (list_all_strategies db) (list_all_strategies db')"
  using assms unfolding writes_def
proof (elim disjE exE conjE)
  fix o' i old s
  assume w: "find_strategy db o' i = Some old" "same_venue old s" "R old s"
    "list_all_strategies db' = list_all_strategies (snd (update_strategy s db))"
  have "find_strategy db (st_owner_email s) (st_id s) = Some old"
    using w(1,2) eph.lookup_key [OF w(1)] by (auto simp: same_venue_def same_key_def)
  then show ?thesis
    unfolding w(4) using w(2,3) by (intro eph.put_all2) (auto simp: changed_def)
qed (simp add: list_all2_same changed_def)

lemma changed_trans:
  assumes "\<And>a b c. R a b \<Longrightarrow> \<not> R b c"
  shows "list_all2 (changed R) xs ys \<Longrightarrow> list_all2 (changed R) ys zs \<Longrightarrow> list_all2 (changed R) xs zs"
  by (rule list_all2_trans) (use assms in \<open>auto simp: changed_def\<close>)

definition no_working_orders :: "Strategy \<Rightarrow> bool" where
  "no_working_orders s \<longleftrightarrow>
     \<not> list_ex (\<lambda>order. ro_status order = ''Working'' \<or> ro_status order = ''Placed'') (rt_orders (st_runtime s))"

definition same_positions :: "Strategy \<Rightarrow> Strategy \<Rightarrow> bool" where
  "same_positions s t \<longleftrightarrow> rt_positions (st_runtime t) = rt_positions (st_runtime s)"

definition starts :: "StrategyStatus set \<Rightarrow> 'j world \<Rightarrow> 'j EphemeralState \<Rightarrow> Strategy \<Rightarrow> Strategy \<Rightarrow> bool" where
  "starts A W db s t \<longleftrightarrow> st_status s \<in> A \<and> pr_ok (live_preflight_report W db s) \<and> st_status t = Running"

definition pauses :: "Strategy \<Rightarrow> Strategy \<Rightarrow> bool" where
  "pauses s t \<longleftrightarrow> st_status s = Running \<and> st_status t = Paused \<and> same_positions s t \<and> no_working_orders t"

definition stops :: "Strategy \<Rightarrow> Strategy \<Rightarrow> bool" where
  "stops s t \<longleftrightarrow> st_status s \<in> {Running, Paused} \<and> same_positions s t \<and> no_working_orders t
     \<and> st_status t = (if rt_positions (st_runtime s) = [] then Stopped else Stopping)"

definition deletes :: "Strategy \<Rightarrow> Strategy \<Rightarrow> bool" where
  "deletes s t \<longleftrightarrow> st_status s \<notin> {Running, Stopping, Archived} \<and> rt_positions (st_runtime s) = []
     \<and> no_working_orders s \<and> st_status t = Archived"

lemma one_write_advances: "one_write W db db' \<Longrightarrow> store_advances db db'"
proof (induction rule: one_write.induct)
  case (none db' db)
  then show ?case by (simp add: store_advances_def list_all2_same)
next
  case (run db o' i old s db')
  then have "advances old s"
    by (intro advances_edge) (auto simp: same_venue_def status_edge_iff)
  with run show ?case
    using update_advances [of db s old] eph.lookup_key [OF run(1)]
    by (auto simp: store_advances_def same_venue_def same_key_def)
next
  case (halt db o' i old s db')
  then have "advances old s"
    by (intro advances_edge) (auto simp: same_venue_def)
  with halt show ?case
    using update_advances [of db s old] eph.lookup_key [OF halt(1)]
    by (auto simp: store_advances_def same_venue_def same_key_def)
qed

lemma writes_advance: "(one_write W)\<^sup>*\<^sup>* db db' \<Longrightarrow> store_advances db db'"
  by (induction rule: rtranclp_induct) (auto intro: store_advances_trans one_write_advances)

lemma writes_keys:
  assumes "store_advances db db'"
  shows "map strategy_key (list_all_strategies db') = map strategy_key (list_all_strategies db)"
  using assms unfolding store_advances_def
  by (induction rule: list_all2_induct) (auto simp: advances_def same_key_def strategy_key_def)

subsection \<open>Each handler as writes\<close>

lemma snd_pass_on [simp]:
  "snd (case x of (Inl e, db) \<Rightarrow> (Inl (g e), db) | (Inr u, db) \<Rightarrow> (Inr (f u), db)) = snd x"
  by (cases x; cases "fst x") auto

lemma start_strategy_writes:
  "writes (\<lambda>s t. starts {Draft, Stopped} W db s t \<and> strategy_key s = (o', i)) db (snd (start_strategy W o' i db))"
proof (cases "find_strategy db o' i")
  case None
  then show ?thesis by (simp add: start_strategy_def writes_none)
next
  case (Some old)
  show ?thesis
  proof (cases "(st_status old = Draft \<or> st_status old = Stopped) \<and> pr_ok (live_preflight_report W db old)")
    case True
    define s where "s = (old\<lparr>st_active_revision := Some (st_draft_revision old)\<rparr>)\<lparr>st_runtime :=
       (rebuild_runtime (w_env W) (old\<lparr>st_active_revision := Some (st_draft_revision old)\<rparr>) None
          ''strategy_started'')\<lparr>rt_last_preflight := Some (live_preflight_report W db old)\<rparr>, st_status := Running\<rparr>"
    have "list_all_strategies (snd (start_strategy W o' i db)) = list_all_strategies (snd (update_strategy s db))"
      using True Some by (auto simp: start_strategy_def Let_def s_def)
    moreover have "same_venue old s" by (simp add: s_def same_venue_def same_key_def)
    ultimately show ?thesis
      using True Some eph.lookup_key [OF Some]
      by (intro writesI [where s = s]) (auto simp: s_def starts_def strategy_key_def)
  qed (use Some in \<open>auto simp: start_strategy_def Let_def intro: writes_none\<close>)
qed

lemma resume_strategy_writes:
  "writes (\<lambda>s t. starts {Paused} W db s t \<and> strategy_key s = (o', i)) db (snd (resume_strategy W o' i db))"
proof (cases "find_strategy db o' i")
  case None
  then show ?thesis by (simp add: resume_strategy_def writes_none)
next
  case (Some old)
  let ?r = "resume_runtime (w_env W) (old\<lparr>st_active_revision := Some (st_draft_revision old)\<rparr>)"
  show ?thesis
  proof (cases "st_status old = Paused \<and> pr_ok (live_preflight_report W db old)
      \<and> snd (resume_strategy W o' i db) \<noteq> db")
    case True
    then obtain runtime where r: "?r = Inr runtime"
      using Some by (cases ?r) (auto simp: resume_strategy_def Let_def split: if_splits)
    define s where "s = old\<lparr>st_active_revision := Some (st_draft_revision old),
       st_runtime := runtime\<lparr>rt_last_preflight := Some (live_preflight_report W db old)\<rparr>, st_status := Running\<rparr>"
    have "snd (resume_strategy W o' i db) = snd (update_strategy s db)"
      using True Some r by (auto simp: resume_strategy_def Let_def s_def split: if_splits)
    moreover have "same_venue old s" by (simp add: s_def same_venue_def same_key_def)
    ultimately show ?thesis
      using True Some eph.lookup_key [OF Some]
      by (intro writesI [where s = s]) (auto simp: s_def starts_def strategy_key_def)
  qed (use Some in \<open>auto simp: resume_strategy_def Let_def intro: writes_none\<close>)
qed

lemma canceled_orders [simp]:
  "list_ex (\<lambda>order. ro_status order = ''Working'' \<or> ro_status order = ''Placed'') (cancel_working_orders os) = False"
  by (auto simp: cancel_working_orders_def cancel_working_order_def list_ex_iff)

lemma stop_runtime_moves:
  assumes "stop_strategy_runtime E s = (Inr u, t)"
  shows "stops s t \<and> same_venue s t"
  using assms
  by (auto simp: stop_strategy_runtime_def Let_def log_strategy_event_def push_runtime_event_def same_venue_def
        same_key_def stops_def same_positions_def no_working_orders_def split: if_splits)

lemma stop_strategy_writes:
  "writes (\<lambda>s t. stops s t \<and> strategy_key s = (o', i)) db (snd (stop_strategy W o' i db))"
proof (cases "find_strategy db o' i")
  case None
  then show ?thesis by (simp add: stop_strategy_def writes_none)
next
  case (Some old)
  show ?thesis
  proof (cases "stop_strategy_runtime (w_env W) old")
    case (Pair r t)
    then show ?thesis
      using Some stop_runtime_moves [of "w_env W" old] eph.lookup_key [OF Some]
      by (cases r) (auto simp: stop_strategy_def strategy_key_def intro: writes_none writesI)
  qed
qed

lemma start_one_writes:
  "writes (\<lambda>s t. starts {Draft, Stopped, Paused} W db s t \<and> strategy_key s = (o', i)) db
     (snd (snd (start_one W o' i (items, failures, db))))"
proof (cases "find_strategy db o' i")
  case None
  then show ?thesis by (simp add: start_one_def writes_none)
next
  case (Some s)
  let ?call = "if st_status s = Draft \<or> st_status s = Stopped then start_strategy W o' (st_id s) db
    else if st_status s = Paused then resume_strategy W o' (st_id s) db
    else (Inl (conflict ''strategy cannot be started from this state''), db)"
  have i: "st_id s = i" using eph.lookup_key [OF Some] by simp
  have "snd (snd (start_one W o' i (items, failures, db))) = snd ?call"
    using Some by (simp add: start_one_def split: prod.split sum.split)
  moreover have "writes (\<lambda>s t. starts {Draft, Stopped, Paused} W db s t \<and> strategy_key s = (o', i)) db
      (snd (start_strategy W o' i db))"
    by (rule writes_mono [OF start_strategy_writes]) (auto simp: starts_def)
  moreover have "writes (\<lambda>s t. starts {Draft, Stopped, Paused} W db s t \<and> strategy_key s = (o', i)) db
      (snd (resume_strategy W o' i db))"
    by (rule writes_mono [OF resume_strategy_writes]) (auto simp: starts_def)
  ultimately show ?thesis by (auto simp: i intro: writes_none)
qed

lemma pause_one_writes:
  "writes (\<lambda>s t. pauses s t \<and> strategy_key s = (o', i)) db (snd (pause_one W o' i st db))"
proof (cases "find_strategy db o' i")
  case None
  then show ?thesis by (simp add: pause_one_def case_prod_beta writes_none)
next
  case (Some old)
  define t where "t = log_strategy_event (w_env W) ''strategy_paused'' ''strategy paused''
    (set_orders (cancel_working_orders (rt_orders (st_runtime old))) (old\<lparr>st_status := Paused\<rparr>))"
  have t: "st_status t = Paused" "same_venue old t" "same_positions old t" "no_working_orders t"
    by (simp_all add: t_def log_strategy_event_def push_runtime_event_def same_venue_def same_key_def
        same_positions_def no_working_orders_def)
  show ?thesis
  proof (cases "st_status old = Running")
    case True
    then have "list_all_strategies (snd (pause_one W o' i st db)) = list_all_strategies (snd (update_strategy t db))"
      using Some by (simp add: pause_one_def Let_def t_def case_prod_beta [of _ st])
    then show ?thesis
      using True Some t eph.lookup_key [OF Some]
      by (intro writesI [where s = t]) (auto simp: pauses_def strategy_key_def)
  qed (use Some in \<open>auto simp: pause_one_def case_prod_beta intro: writes_none\<close>)
qed

lemma delete_one_writes:
  "writes (\<lambda>s t. deletes s t \<and> strategy_key s = (o', i)) db (snd (snd (delete_one W o' i (n, failures, db))))"
proof (cases "find_strategy db o' i")
  case None
  then show ?thesis by (simp add: delete_one_def writes_none)
next
  case (Some old)
  define t where "t = log_strategy_event (w_env W) ''strategy_archived'' ''strategy archived''
    (old\<lparr>st_status := Archived,
         st_archived_at := Some (utc_now (w_env W) (length (rt_events (st_runtime old))))\<rparr>)"
  have t: "st_status t = Archived" "same_venue old t"
    by (simp_all add: t_def log_strategy_event_def same_venue_def same_key_def)
  show ?thesis
  proof (cases "delete_failure_reason old")
    case None
    then have "snd (snd (delete_one W o' i (n, failures, db))) = snd (update_strategy t db)"
      using Some by (simp add: delete_one_def t_def)
    moreover from None have "deletes old t"
      by (auto simp: delete_failure_reason_def deletes_def no_working_orders_def t split: if_splits)
    ultimately show ?thesis
      using Some t eph.lookup_key [OF Some] by (intro writesI [where s = t]) (auto simp: strategy_key_def)
  next
    case Some': (Some e)
    then show ?thesis using Some by (simp add: delete_one_def writes_none)
  qed
qed

lemma move_edges:
  "pauses s t \<Longrightarrow> status_edge (st_status s) (st_status t) \<and> st_status t \<noteq> Running"
  "stops s t \<Longrightarrow> status_edge (st_status s) (st_status t) \<and> st_status t \<noteq> Running"
  "deletes s t \<Longrightarrow> status_edge (st_status s) (st_status t) \<and> st_status t \<noteq> Running"
  by (auto simp: pauses_def stops_def deletes_def status_edge_iff)

lemma single_write:
  "one_write W db (snd (start_strategy W o' i db))"
  "one_write W db (snd (resume_strategy W o' i db))"
  "one_write W db (snd (stop_strategy W o' i db))"
  "one_write W db (snd (snd (start_one W o' i (items, failures, db))))"
  "one_write W db (snd (pause_one W o' i st db))"
  "one_write W db (snd (snd (delete_one W o' i (n, failures', db))))"
  by (rule writes_run [OF start_strategy_writes] writes_run [OF resume_strategy_writes]
      writes_halt [OF stop_strategy_writes] writes_run [OF start_one_writes] writes_halt [OF pause_one_writes]
      writes_halt [OF delete_one_writes]; auto simp: starts_def dest: move_edges)+

text \<open>The loops.\<close>

lemma fold_writes:
  assumes "\<And>x st. (one_write W)\<^sup>*\<^sup>* (db_of st) (db_of (f x st))"
  shows "(one_write W)\<^sup>*\<^sup>* (db_of st) (db_of (fold f xs st))"
proof (induction xs arbitrary: st)
  case (Cons x xs)
  then show ?case using assms [of st x] by (auto intro: rtranclp_trans)
qed simp

text \<open>A loop whose passes make moves that cannot be repeated makes at most one move per strategy.\<close>

lemma fold_changed:
  assumes "\<And>x st. x \<in> set xs \<Longrightarrow> writes R (db_of st) (db_of (f x st))" "\<And>a b c. R a b \<Longrightarrow> \<not> R b c"
  shows "list_all2 (changed R) (list_all_strategies (db_of st)) (list_all_strategies (db_of (fold f xs st)))"
  using assms(1)
proof (induction xs arbitrary: st)
  case (Cons x xs)
  then show ?case
    using changed_trans [of R, OF assms(2) writes_changed [of R "db_of st" "db_of (f x st)"]] by simp
qed (simp add: list_all2_same changed_def)

lemma pause_all_changed:
  assumes "set ids \<subseteq> I"
  shows "list_all2 (changed (\<lambda>s t. pauses s t \<and> st_owner_email s = o' \<and> st_id s \<in> I))
    (list_all_strategies db) (list_all_strategies (snd (pause_all W o' ids st db)))"
  using assms
proof (induction ids arbitrary: st db)
  case (Cons i ids)
  obtain r db' where r: "pause_one W o' i st db = (r, db')" by fastforce
  have "writes (\<lambda>s t. pauses s t \<and> st_owner_email s = o' \<and> st_id s \<in> I) db db'"
    using writes_mono [OF pause_one_writes [of o' i db W st]] Cons.prems by (auto simp: r strategy_key_def)
  note first = writes_changed [OF this]
  show ?case
  proof (cases r)
    case (Inl e)
    then show ?thesis using r first by simp
  next
    case (Inr st')
    have "list_all2 (changed (\<lambda>s t. pauses s t \<and> st_owner_email s = o' \<and> st_id s \<in> I))
        (list_all_strategies db') (list_all_strategies (snd (pause_all W o' ids st' db')))"
      using Cons by simp
    from changed_trans [OF _ first this] show ?thesis using r Inr by (auto simp: pauses_def)
  qed
qed (simp add: list_all2_same changed_def)

lemma pause_all_writes: "(one_write W)\<^sup>*\<^sup>* db (snd (pause_all W o' ids st db))"
proof (induction ids arbitrary: st db)
  case (Cons i ids)
  obtain r db' where r: "pause_one W o' i st db = (r, db')" by fastforce
  then have w: "one_write W db db'" using single_write(5) [of W db o' i st] by simp
  show ?case
  proof (cases r)
    case (Inl e)
    then show ?thesis using r w by simp
  next
    case (Inr st')
    then show ?thesis
      using r converse_rtranclp_into_rtranclp [OF w Cons.IH [of db' st']] by simp
  qed
qed simp

lemma batch_writes:
  "(one_write W)\<^sup>*\<^sup>* db (snd (start_strategies W o' ids db))"
  "(one_write W)\<^sup>*\<^sup>* db (snd (pause_strategies W o' ids db))"
  "(one_write W)\<^sup>*\<^sup>* db (snd (delete_strategies W o' ids db))"
proof -
  show "(one_write W)\<^sup>*\<^sup>* db (snd (start_strategies W o' ids db))"
    using fold_writes [of W "\<lambda>st. snd (snd st)" "start_one W o'" "([], [], db)" ids]
      single_write(4) [of W] by (auto simp: start_strategies_def split_beta r_into_rtranclp)
  show "(one_write W)\<^sup>*\<^sup>* db (snd (pause_strategies W o' ids db))"
    using pause_all_writes [of W db o' ids "(0, [])"]
    by (cases "pause_all W o' ids (0, []) db"; cases "fst (pause_all W o' ids (0, []) db)")
       (auto simp: pause_strategies_def)
  show "(one_write W)\<^sup>*\<^sup>* db (snd (delete_strategies W o' ids db))"
    using fold_writes [of W "\<lambda>st. snd (snd st)" "delete_one W o'" "(0, [], db)" ids]
      single_write(6) [of W] by (auto simp: delete_strategies_def split_beta r_into_rtranclp)
qed

lemma batch_changed:
  "list_all2 (changed (\<lambda>s t. (\<exists>d. starts {Draft, Stopped, Paused} W d s t) \<and> st_owner_email s = o' \<and> st_id s \<in> set ids))
     (list_all_strategies db) (list_all_strategies (snd (start_strategies W o' ids db)))"
  "list_all2 (changed (\<lambda>s t. pauses s t \<and> st_owner_email s = o' \<and> st_id s \<in> set ids))
     (list_all_strategies db) (list_all_strategies (snd (pause_strategies W o' ids db)))"
  "list_all2 (changed (\<lambda>s t. deletes s t \<and> st_owner_email s = o' \<and> st_id s \<in> set ids))
     (list_all_strategies db) (list_all_strategies (snd (delete_strategies W o' ids db)))"
proof -
  let ?start = "\<lambda>s t. (\<exists>d. starts {Draft, Stopped, Paused} W d s t) \<and> st_owner_email s = o' \<and> st_id s \<in> set ids"
    and ?delete = "\<lambda>s t. deletes s t \<and> st_owner_email s = o' \<and> st_id s \<in> set ids"
  have "writes ?start (snd (snd st)) (snd (snd (start_one W o' i st)))" if "i \<in> set ids" for i st
    using that start_one_writes [of W "snd (snd st)" o' i "fst st" "fst (snd st)"]
    by (auto simp: strategy_key_def elim!: writes_mono)
  then show "list_all2 (changed ?start) (list_all_strategies db)
      (list_all_strategies (snd (start_strategies W o' ids db)))"
    using fold_changed [of ids ?start "\<lambda>st. snd (snd st)" "start_one W o'" "([], [], db)"]
    by (auto simp: start_strategies_def split_beta starts_def list_all2_same changed_def [of _ x x for x])
  have "writes ?delete (snd (snd st)) (snd (snd (delete_one W o' i st)))" if "i \<in> set ids" for i st
    using that delete_one_writes [of o' i "snd (snd st)" W "fst st" "fst (snd st)"]
    by (auto simp: strategy_key_def elim!: writes_mono)
  then show "list_all2 (changed ?delete) (list_all_strategies db)
      (list_all_strategies (snd (delete_strategies W o' ids db)))"
    using fold_changed [of ids ?delete "\<lambda>st. snd (snd st)" "delete_one W o'" "(0, [], db)"]
    by (auto simp: delete_strategies_def split_beta deletes_def list_all2_same changed_def [of _ x x for x])
  show "list_all2 (changed (\<lambda>s t. pauses s t \<and> st_owner_email s = o' \<and> st_id s \<in> set ids))
     (list_all_strategies db) (list_all_strategies (snd (pause_strategies W o' ids db)))"
    using pause_all_changed [of ids "set ids" o' db W "(0, [])"]
    by (cases "pause_all W o' ids (0, []) db"; cases "fst (pause_all W o' ids (0, []) db)")
       (auto simp: pause_strategies_def list_all2_same changed_def [of _ x x for x])
qed

text \<open>
  \<open>stop_all\<close> writes strategies it listed before the loop, so it relies on the keys being unique:
  no earlier write of the loop touched the strategy that is written.
\<close>

lemma stop_listed_writes_one:
  assumes "find_strategy db (st_owner_email s) (st_id s) = Some s"
  shows "writes (\<lambda>x t. stops x t \<and> x = s) db (snd (stop_listed W s (n, db)))
    \<and> (\<forall>t. strategy_key t \<noteq> strategy_key s \<longrightarrow>
        find_strategy (snd (stop_listed W s (n, db))) (st_owner_email t) (st_id t)
        = find_strategy db (st_owner_email t) (st_id t))"
proof (cases "st_status s = Running \<or> st_status s = Paused")
  case True
  then have "fst (stop_strategy_runtime (w_env W) s) = Inr ()"
    by (auto simp: stop_strategy_runtime_def Let_def)
  then obtain t where t: "stop_strategy_runtime (w_env W) s = (Inr (), t)"
    by (cases "stop_strategy_runtime (w_env W) s") auto
  then have eq: "snd (stop_listed W s (n, db)) = snd (update_strategy t db)"
    using True by (simp add: stop_listed_def)
  have moves: "stops s t" "same_venue s t" using stop_runtime_moves [OF t] by auto
  then have "strategy_key t = strategy_key s"
    by (auto simp: same_venue_def same_key_def strategy_key_def)
  then show ?thesis
    using moves assms eph.lookup_put_other [of _ _ t db]
    by (auto simp: eq strategy_key_def intro!: writesI [where s = t])
qed (auto simp: stop_listed_def intro: writes_none)

lemma stop_listed_all:
  assumes "\<forall>s \<in> set xs. find_strategy db (st_owner_email s) (st_id s) = Some s"
    and "distinct (map strategy_key xs)" "set xs \<subseteq> A"
  shows "(one_write W)\<^sup>*\<^sup>* db (snd (fold (stop_listed W) xs (n, db)))
    \<and> list_all2 (changed (\<lambda>s t. stops s t \<and> s \<in> A)) (list_all_strategies db)
        (list_all_strategies (snd (fold (stop_listed W) xs (n, db))))"
  using assms
proof (induction xs arbitrary: n db)
  case (Cons s xs)
  obtain n' db' where step: "stop_listed W s (n, db) = (n', db')" by fastforce
  from Cons.prems have "find_strategy db (st_owner_email s) (st_id s) = Some s" by simp
  from stop_listed_writes_one [OF this, of W n] have w: "writes (\<lambda>x t. stops x t \<and> x = s) db db'"
    and keep: "\<And>t. strategy_key t \<noteq> strategy_key s \<Longrightarrow>
      find_strategy db' (st_owner_email t) (st_id t) = find_strategy db (st_owner_email t) (st_id t)"
    by (auto simp: step)
  have "\<forall>t \<in> set xs. find_strategy db' (st_owner_email t) (st_id t) = Some t"
    using Cons.prems keep by (auto simp: image_iff)
  note rest = Cons.IH [OF this, of n']
  have "one_write W db db'" by (rule writes_halt [OF w]) (auto dest: move_edges)
  moreover have "list_all2 (changed (\<lambda>s t. stops s t \<and> s \<in> A)) (list_all_strategies db) (list_all_strategies db')"
    using Cons.prems(3) by (intro writes_changed writes_mono [OF w]) auto
  note changed_trans [OF _ this]
  ultimately show ?case
    using rest Cons.prems(2,3) by (auto simp: step stops_def intro: converse_rtranclp_into_rtranclp split: if_splits)
qed (simp add: list_all2_same changed_def)

definition unique_keys :: "'j EphemeralState \<Rightarrow> bool" where
  "unique_keys db \<longleftrightarrow> distinct (map strategy_key (list_all_strategies db))"

lemma stop_all_writes:
  assumes "unique_keys db"
  shows "(one_write W)\<^sup>*\<^sup>* db (snd (stop_all W o' db))"
    and "list_all2 (changed (\<lambda>s t. stops s t \<and> st_owner_email s = o')) (list_all_strategies db)
      (list_all_strategies (snd (stop_all W o' db)))"
proof -
  have list: "list_strategies db o' = filter (\<lambda>s. st_owner_email s = o') (list_all_strategies db)"
    by (simp add: list_strategies_def list_all_strategies_def)
  have "distinct (map strategy_key (filter P xs))" if "distinct (map strategy_key xs)" for P xs
    using that by (induction xs) auto
  then have ok: "\<forall>s \<in> set (list_strategies db o'). find_strategy db (st_owner_email s) (st_id s) = Some s"
    "distinct (map strategy_key (list_strategies db o'))"
    using assms eph.lookup_listed [of db] by (auto simp: list unique_keys_def)
  show "(one_write W)\<^sup>*\<^sup>* db (snd (stop_all W o' db))"
    using stop_listed_all [OF ok subset_UNIV] unfolding stop_all_def by blast
  show "list_all2 (changed (\<lambda>s t. stops s t \<and> st_owner_email s = o')) (list_all_strategies db)
      (list_all_strategies (snd (stop_all W o' db)))"
    using stop_listed_all [OF ok, of "{s. st_owner_email s = o'}" W 0]
    by (simp add: stop_all_def list subset_iff)
qed

subsection \<open>Runs of the service\<close>

text \<open>The calls that change the status of a strategy. Creating, editing and cloning strategies and applying
  templates are not among them: they save drafts and refuse a running strategy.\<close>

inductive svc_step :: "'j world \<Rightarrow> 'j EphemeralState \<Rightarrow> 'j EphemeralState \<Rightarrow> bool" for W where
  start: "svc_step W db (snd (start_strategy W o' i db))"
| resume: "svc_step W db (snd (resume_strategy W o' i db))"
| stop: "svc_step W db (snd (stop_strategy W o' i db))"
| start_batch: "svc_step W db (snd (start_strategies W o' ids db))"
| pause_batch: "svc_step W db (snd (pause_strategies W o' ids db))"
| delete_batch: "svc_step W db (snd (delete_strategies W o' ids db))"
| stop_all: "svc_step W db (snd (stop_all W o' db))"

lemma svc_step_writes: "svc_step W db db' \<Longrightarrow> unique_keys db \<Longrightarrow> (one_write W)\<^sup>*\<^sup>* db db'"
  by (induction rule: svc_step.induct)
     (auto intro: single_write batch_writes stop_all_writes)

lemma svc_run_writes:
  assumes "(svc_step W)\<^sup>*\<^sup>* db db'" "unique_keys db"
  shows "(one_write W)\<^sup>*\<^sup>* db db' \<and> unique_keys db'"
  using assms
proof (induction rule: rtranclp_induct)
  case (step b c)
  then have "(one_write W)\<^sup>*\<^sup>* b c" by (auto intro: svc_step_writes)
  with step show ?case
    using writes_keys [OF writes_advance] unfolding unique_keys_def by (metis rtranclp_trans)
qed simp

end
