(* ===== verification/LifecycleProps.thy ===== *)
theory LifecycleProps
  imports LifecycleRuns ExecutionProps
begin

text \<open>
  The theorems about the life cycle: the preflight report against a reference definition, what
  each handler of the service may write, the exclusion of conflicting strategies, the order
  book of a started strategy, and two ways in which the service and the engine disagree.
\<close>

subsection \<open>Preflight against a reference definition\<close>

definition passes :: "preflight_check \<Rightarrow> bool" where
  "passes c \<longleftrightarrow> \<not> pc_applicable c \<or> pc_ok c"

definition step_result :: "preflight_check \<Rightarrow> PreflightStepStatus \<Rightarrow> PreflightStepResult" where
  "step_result c status =
     \<lparr>ps_step = pc_step c, ps_status = status,
      ps_reason = (if status = Failed then Some (pc_reason c) else None),
      ps_guidance = (if status = Failed then Some (pc_guidance c) else None)\<rparr>"

text \<open>The report as it is meant: everything before the first failing check is passed or not
  applicable, the first failing check is reported, everything after it is skipped.\<close>

definition intended_report :: "preflight_check list \<Rightarrow> PreflightReport" where
  "intended_report checks =
     (let before = takeWhile passes checks; rest = dropWhile passes checks
      in \<lparr>pr_ok = list_all passes checks,
          pr_steps = map (\<lambda>c. step_result c (if pc_applicable c then Passed else Skipped)) before
            @ (case rest of [] \<Rightarrow> [] | c # cs \<Rightarrow> step_result c Failed # map (\<lambda>c. step_result c Skipped) cs),
          pr_failures = (case rest of [] \<Rightarrow> [] | c # cs \<Rightarrow>
            [\<lparr>pf_step = pc_step c, pf_reason = pc_reason c, pf_guidance = Some (pc_guidance c)\<rparr>])\<rparr>)"

lemma fold_blocked:
  "fold preflight_step cs (True, steps, failures)
   = (True, steps @ map (\<lambda>c. step_result c Skipped) cs, failures)"
  by (induction cs arbitrary: steps) (simp_all add: preflight_step_def step_result_def)

lemma fold_open:
  "fold preflight_step cs (False, steps, []) =
     (\<not> list_all passes cs, steps @ pr_steps (intended_report cs), pr_failures (intended_report cs))"
proof (induction cs arbitrary: steps)
  case (Cons c cs)
  show ?case
  proof (cases "passes c")
    case True
    then have "preflight_step c (False, steps, [])
        = (False, steps @ [step_result c (if pc_applicable c then Passed else Skipped)], [])"
      by (auto simp: preflight_step_def step_result_def passes_def)
    then show ?thesis using Cons.IH True by (simp add: intended_report_def Let_def)
  next
    case False
    then have "preflight_step c (False, steps, []) = (True, steps @ [step_result c Failed],
        [\<lparr>pf_step = pc_step c, pf_reason = pc_reason c, pf_guidance = Some (pc_guidance c)\<rparr>])"
      by (auto simp: preflight_step_def step_result_def passes_def)
    then show ?thesis using False by (simp add: fold_blocked intended_report_def)
  qed
qed (simp add: intended_report_def)

lemma intended_report_facts:
  "pr_failures (intended_report cs) = [] \<longleftrightarrow> list_all passes cs"
  "length (pr_steps (intended_report cs)) = length cs"
  "pr_ok (intended_report cs) = list_all passes cs"
  by (induction cs) (simp_all add: intended_report_def Let_def)

lemma run_preflight_intended:
  "run_preflight_with_state strategy st = intended_report (preflight_checks strategy st)"
  by (simp add: run_preflight_with_state_def fold_open intended_report_facts)

text \<open>C22: A preflight report says what it is meant to say: the checks before the first applicable
  check that does not hold are passed (or skipped when they do not apply), that check is the only
  failure, with its reason and guidance, all later checks are skipped, and the report is positive
  exactly when every applicable check holds.\<close>

theorem preflight_reports_first_failure:
  "run_preflight_with_state strategy st = intended_report (preflight_checks strategy st)
   \<and> length (pr_steps (run_preflight_with_state strategy st)) = 11
   \<and> (pr_ok (live_preflight_report W db s) \<longleftrightarrow>
        list_all passes (preflight_checks s (Some (server_preflight_state W db s))))"
proof -
  have "length (preflight_checks strategy st) = 11" by (simp add: preflight_checks_def)
  then show ?thesis
    by (simp add: run_preflight_intended live_preflight_report_def intended_report_facts)
qed

subsection \<open>One running strategy per direction\<close>

text \<open>
  Two running futures strategies of one owner never hold the same direction of the same symbol:
  the exchange nets positions per symbol and side, so two such strategies would close each other's
  position.
\<close>

definition exclusive :: "'j EphemeralState \<Rightarrow> bool" where
  "exclusive db \<longleftrightarrow>
     (\<forall>s \<in> set (list_all_strategies db). \<forall>t \<in> set (list_all_strategies db).
        st_owner_email s = st_owner_email t \<and> st_status s = Running \<and> st_market s \<noteq> Spot
        \<longrightarrow> \<not> conflicts_with s t)"

lemma conflicts_sym:
  "st_status s = Running \<Longrightarrow> conflicts_with t s \<Longrightarrow> st_status t = Running \<Longrightarrow> conflicts_with s t"
  by (auto simp: conflicts_with_def eq_ignore_ascii_case_def and.commute)

lemma conflicts_venue:
  "same_venue old s \<Longrightarrow> conflicts_with old t = conflicts_with s t"
  by (auto simp: conflicts_with_def same_venue_def same_key_def)

lemma preflight_excludes_conflicts:
  assumes "pr_ok (live_preflight_report W db s)" "st_market s \<noteq> Spot"
    "t \<in> set (list_all_strategies db)" "st_owner_email t = st_owner_email s"
  shows "\<not> conflicts_with s t"
proof -
  have "list_all passes (preflight_checks s (Some (server_preflight_state W db s)))"
    using assms(1) by (simp add: live_preflight_report_def run_preflight_intended intended_report_facts)
  then have "futures_conflict_free db s"
    using assms(2) by (simp add: preflight_checks_def passes_def server_flag_def server_preflight_state_def
      Let_def futures_conflict_required_def)
  then show ?thesis
    using assms(3,4)
    by (auto simp: futures_conflict_free_def list_ex_iff list_strategies_def list_all_strategies_def
      conflicts_with_def split: if_splits)
qed

lemma exclusive_update:
  assumes "exclusive db" "st_status s = Running \<Longrightarrow> st_market s \<noteq> Spot \<Longrightarrow>
      (\<forall>t \<in> set (list_all_strategies db). st_owner_email t = st_owner_email s \<longrightarrow> \<not> conflicts_with s t)"
    and "list_all_strategies db' = list_all_strategies (snd (update_strategy s db))"
  shows "exclusive db'"
  unfolding exclusive_def
proof (intro ballI impI)
  fix a b
  assume a: "a \<in> set (list_all_strategies db')" and b: "b \<in> set (list_all_strategies db')"
    and ab: "st_owner_email a = st_owner_email b \<and> st_status a = Running \<and> st_market a \<noteq> Spot"
  have "set (list_all_strategies db') \<subseteq> insert s (set (list_all_strategies db))"
    using eph.put_subset [of s db] by (simp add: assms(3))
  then consider "a = s" "b = s" | "a = s" "b \<in> set (list_all_strategies db)"
    | "b = s" "a \<in> set (list_all_strategies db)"
    | "a \<in> set (list_all_strategies db)" "b \<in> set (list_all_strategies db)" using a b by blast
  then show "\<not> conflicts_with a b"
  proof cases
    case 1
    then show ?thesis by (simp add: conflicts_with_def)
  next
    case 2
    then show ?thesis using assms(2) ab by auto
  next
    case 3
    then show ?thesis
      using assms(2) ab conflicts_sym [of b a] by (metis conflicts_with_def)
  next
    case 4
    then show ?thesis using assms(1) ab by (auto simp: exclusive_def)
  qed
qed

lemma exclusive_write: "one_write W db db' \<Longrightarrow> exclusive db \<Longrightarrow> exclusive db'"
proof (induction rule: one_write.induct)
  case (none db' db)
  then show ?case by (simp add: exclusive_def)
next
  case (run db o' i old s db')
  then show ?case
    using preflight_excludes_conflicts [OF run(3)] conflicts_venue [OF run(4)]
    by (intro exclusive_update [OF run(7) _ run(6)]) (auto simp: same_venue_def same_key_def)
next
  case (halt db o' i old s db')
  then show ?case by (intro exclusive_update [OF halt(6) _ halt(5)]) auto
qed

text \<open>C20: The calls that change a status follow the rules of the life cycle. Of the strategies of the
  store, in their places, a call changes only those of the owner that it names, and moves each at most
  once: \<open>start\<close> takes a draft or a stopped strategy to running, \<open>resume\<close> a paused one, both only when
  its preflight passes; \<open>pause\<close> takes a running strategy to paused; \<open>stop\<close> takes a running or paused
  strategy to stopped when it holds no position and to stopping otherwise; pause and stop keep the
  positions and leave no order marked as working; \<open>delete\<close> archives a strategy that is not running,
  stopping or archived, holds no position and has no working order. Owner, id, market, mode and symbol
  never change.\<close>

theorem service_follows_life_cycle:
  fixes W :: "'j world"
  assumes "unique_keys db"
  defines "moves R db' \<equiv> list_all2 (changed R) (list_all_strategies db) (list_all_strategies db')"
  shows "moves (\<lambda>s t. starts {Draft, Stopped} W db s t \<and> strategy_key s = (owner, i)) (snd (start_strategy W owner i db))
    \<and> moves (\<lambda>s t. starts {Paused} W db s t \<and> strategy_key s = (owner, i)) (snd (resume_strategy W owner i db))
    \<and> moves (\<lambda>s t. stops s t \<and> strategy_key s = (owner, i)) (snd (stop_strategy W owner i db))
    \<and> moves (\<lambda>s t. (\<exists>d. starts {Draft, Stopped, Paused} W d s t) \<and> st_owner_email s = owner \<and> st_id s \<in> set ids)
        (snd (start_strategies W owner ids db))
    \<and> moves (\<lambda>s t. pauses s t \<and> st_owner_email s = owner \<and> st_id s \<in> set ids) (snd (pause_strategies W owner ids db))
    \<and> moves (\<lambda>s t. deletes s t \<and> st_owner_email s = owner \<and> st_id s \<in> set ids) (snd (delete_strategies W owner ids db))
    \<and> moves (\<lambda>s t. stops s t \<and> st_owner_email s = owner) (snd (stop_all W owner db))"
  unfolding moves_def
  by (intro conjI writes_changed start_strategy_writes resume_strategy_writes stop_strategy_writes batch_changed
      stop_all_writes(2) [OF assms(1)])

text \<open>C21: The service never lets two futures strategies of one owner run in the same direction of the
  same symbol: when no two running strategies of the store conflict, none do after any sequence of
  calls, whatever the order of starts, resumes, pauses and stops.\<close>

theorem service_keeps_exclusive:
  assumes "unique_keys db" "exclusive db" "(svc_step W)\<^sup>*\<^sup>* db db'"
  shows "exclusive db'"
proof -
  have "(one_write W)\<^sup>*\<^sup>* db db'" using svc_run_writes assms by blast
  then show ?thesis using assms(2)
    by (induction rule: rtranclp_induct) (auto intro: exclusive_write)
qed

subsection \<open>Starting\<close>

lemma initial_order_side:
  "initial_order s p level = Some order \<Longrightarrow>
     ro_side order = ''Buy'' \<and> gl_entry_price level \<le> p \<or> ro_side order = ''Sell'' \<and> gl_entry_price level \<ge> p"
  by (auto simp: initial_order_def service_entry_side_def split: StrategyMode.splits if_splits)

lemma initial_order_fields:
  "initial_order s p level = Some order \<Longrightarrow>
     ro_order_id order = entry_order_id (st_id s) (gl_level_index level) \<and> ro_exchange_order_id order = None
     \<and> ro_level_index order = Some (gl_level_index level) \<and> ro_price order = Some (gl_entry_price level)
     \<and> ro_quantity order = gl_quantity level \<and> ro_status order = ''Working'' \<and> ro_order_type order = ''Limit''"
  by (auto simp: initial_order_def entry_order_id_def)

lemma initial_orders_distinct:
  assumes "distinct (map gl_level_index levels)"
  shows "distinct (map ro_order_id (List.map_filter (initial_order s p) levels))"
  using assms
proof (induction levels)
  case (Cons level levels)
  have "ro_order_id o1 \<noteq> ro_order_id order"
    if "initial_order s p level = Some order" "o1 \<in> set (List.map_filter (initial_order s p) levels)" for order o1
  proof -
    from that(2) obtain l where l: "l \<in> set levels" "initial_order s p l = Some o1"
      by (auto simp: List.map_filter_def)
    then have "gl_level_index l \<noteq> gl_level_index level" using Cons.prems by (auto simp: image_iff)
    then show ?thesis
      using initial_order_fields [OF l(2)] initial_order_fields [OF that(1)] by (auto simp: entry_order_id_def)
  qed
  then show ?case
    using Cons by (cases "initial_order s p level") (fastforce simp: List.map_filter_simps)+
qed (simp add: List.map_filter_simps)

lemma start_strategy_started:
  assumes "start_strategy W o' i db = (Inr resp, db')"
  obtains old a r where "find_strategy db o' i = Some old" "st_status old \<in> {Draft, Stopped}"
    "pr_ok (live_preflight_report W db old)" "find_strategy db' o' i = Some (ss_strategy resp)"
    "a = old\<lparr>st_active_revision := Some (st_draft_revision old)\<rparr>"
    "r = rebuild_runtime (w_env W) a None ''strategy_started''"
    "ss_strategy resp = a\<lparr>st_runtime := r\<lparr>rt_last_preflight := Some (live_preflight_report W db old)\<rparr>,
                          st_status := Running\<rparr>"
proof -
  obtain old where old: "find_strategy db o' i = Some old"
    using assms by (cases "find_strategy db o' i") (auto simp: start_strategy_def)
  have st: "st_status old = Draft \<or> st_status old = Stopped" and ok: "pr_ok (live_preflight_report W db old)"
    using assms old by (auto simp: start_strategy_def Let_def split: if_splits)
  define a where "a = old\<lparr>st_active_revision := Some (st_draft_revision old)\<rparr>"
  define r where "r = rebuild_runtime (w_env W) a None ''strategy_started''"
  define s where "s = a\<lparr>st_runtime := r\<lparr>rt_last_preflight := Some (live_preflight_report W db old)\<rparr>,
                        st_status := Running\<rparr>"
  have "fst (start_strategy W o' i db) = Inr resp" using assms by simp
  then have resp: "ss_strategy resp = s"
    using old st ok unfolding start_strategy_def a_def r_def s_def
    by (auto simp: Let_def split: prod.splits sum.splits)
  have "list_all_strategies (snd (start_strategy W o' i db)) = list_all_strategies (snd (update_strategy s db))"
    using old st ok by (auto simp: start_strategy_def Let_def a_def r_def s_def)
  then have "list_all_strategies db' = list_all_strategies (snd (update_strategy s db))"
    using assms by simp
  moreover have key: "st_owner_email s = o'" "st_id s = i" "find_strategy db (st_owner_email s) (st_id s) = Some old"
    using old eph.lookup_key [OF old] by (auto simp: s_def a_def)
  ultimately have "find_strategy db' o' i = Some s"
    using eph.lookup_put [OF key(3)] st by (auto simp: eph.lookup_entries)
  then show thesis using that [OF old _ ok _ a_def r_def] resp st by (simp add: s_def)
qed

text \<open>A strategy that \<open>start_strategy\<close> starts had passed the preflight from \<open>Draft\<close> or \<open>Stopped\<close>; it
  is stored as \<open>Running\<close> with its draft as active revision, no position and no fill, and its order
  book holds, for levels of that revision only, unsubmitted limit orders at the price and quantity of
  the level, buys at or below and sells at or above one reference price, with distinct order ids when
  the level indices are distinct.\<close>

theorem start_strategy_order_book:
  assumes "start_strategy W o' i db = (Inr resp, db')"
  shows "(\<exists>old. find_strategy db o' i = Some old \<and> st_status old \<in> {Draft, Stopped}
      \<and> pr_ok (live_preflight_report W db old))
    \<and> find_strategy db' o' i = Some (ss_strategy resp) \<and> st_status (ss_strategy resp) = Running
    \<and> st_active_revision (ss_strategy resp) = Some (st_draft_revision (ss_strategy resp))
    \<and> rt_positions (st_runtime (ss_strategy resp)) = [] \<and> rt_fills (st_runtime (ss_strategy resp)) = []
    \<and> (\<exists>p. \<forall>order \<in> set (rt_orders (st_runtime (ss_strategy resp))).
        \<exists>level \<in> set (rv_levels (st_draft_revision (ss_strategy resp))).
          ro_order_id order = entry_order_id (st_id (ss_strategy resp)) (gl_level_index level)
          \<and> ro_price order = Some (gl_entry_price level) \<and> ro_quantity order = gl_quantity level
          \<and> ro_status order = ''Working'' \<and> ro_exchange_order_id order = None
          \<and> (ro_side order = ''Buy'' \<and> gl_entry_price level \<le> p
             \<or> ro_side order = ''Sell'' \<and> gl_entry_price level \<ge> p))
    \<and> (distinct (map gl_level_index (rv_levels (st_draft_revision (ss_strategy resp)))) \<longrightarrow>
        distinct (map ro_order_id (rt_orders (st_runtime (ss_strategy resp)))))"
    (is "?found \<and> ?stored \<and> ?running \<and> ?active \<and> ?flat \<and> ?fills \<and> ?book \<and> ?ids")
proof -
  from assms obtain old a r where old: "find_strategy db o' i = Some old" "st_status old \<in> {Draft, Stopped}"
      "pr_ok (live_preflight_report W db old)" and stored: ?stored
    and a: "a = old\<lparr>st_active_revision := Some (st_draft_revision old)\<rparr>"
    and r: "r = rebuild_runtime (w_env W) a None ''strategy_started''"
    and s: "ss_strategy resp = a\<lparr>st_runtime := r\<lparr>rt_last_preflight := Some (live_preflight_report W db old)\<rparr>,
                                 st_status := Running\<rparr>"
    by (rule start_strategy_started)
  obtain p where orders: "rt_orders (st_runtime (ss_strategy resp))
      = List.map_filter (initial_order a p) (rv_levels (st_draft_revision (ss_strategy resp)))"
    unfolding s a r by (simp add: rebuild_runtime_def Let_def push_runtime_event_def)
  have id: "st_id a = st_id (ss_strategy resp)" by (simp add: s)
  have fields: ?running ?active ?flat ?fills
    by (simp_all add: s a r rebuild_runtime_def Let_def push_runtime_event_def)
  moreover have ?book
    unfolding orders using initial_order_fields [of a p] initial_order_side [of a p]
    by (intro exI [of _ p]) (fastforce simp: List.map_filter_def id)
  moreover have ?ids unfolding orders using initial_orders_distinct by blast
  ultimately show ?thesis using old stored by blast
qed

subsection \<open>Orders that stay on the exchange\<close>

lemma canceled_orders_held:
  assumes "list_all (\<lambda>order. ro_status order = ''Canceled'') (rt_orders (st_runtime s))"
  shows "cancel_held_orders gw s st = (s, st)"
proof -
  have "map_accum (cancel_held_order gw s) st os = (st, os)"
    if "list_all (\<lambda>order. ro_status order = ''Canceled'') os" for os
    using that by (induction os) (auto simp: map_accum_Cons cancel_held_order_def split: prod.split)
  then show ?thesis using assms by (simp add: cancel_held_orders_def)
qed

lemma cancel_working_all:
  assumes "list_all (\<lambda>order. ro_status order \<in> {''Working'', ''Placed'', ''Canceled''}) os"
  shows "list_all (\<lambda>order. ro_status order = ''Canceled'') (cancel_working_orders os)
    \<and> map ro_exchange_order_id (cancel_working_orders os) = map ro_exchange_order_id os"
  using assms by (induction os) (auto simp: cancel_working_orders_def cancel_working_order_def)

text \<open>Pausing a running grid strategy, or stopping it while it holds no position, marks its orders
  as canceled and keeps their exchange ids, and no later synchronisation of that strategy cancels
  them: the sync skips every order marked \<open>Canceled\<close>, so it changes nothing and calls nothing,
  whatever the gateway is. Orders that were live on the exchange stay live.\<close>

theorem halted_orders_stay_on_exchange:
  assumes "find_strategy db o' i = Some s" "st_status s = Running" "st_strategy_type s \<noteq> MartingaleGrid"
    and "list_all (\<lambda>order. ro_status order \<in> {''Working'', ''Placed'', ''Canceled''}) (rt_orders (st_runtime s))"
    and "db' = snd (pause_strategies W o' [i] db)
      \<or> rt_positions (st_runtime s) = [] \<and> db' = snd (stop_strategy W o' i db)"
  shows "\<exists>t. find_strategy db' o' i = Some t \<and> st_status t \<in> {Paused, Stopped}
    \<and> map ro_exchange_order_id (rt_orders (st_runtime t)) = map ro_exchange_order_id (rt_orders (st_runtime s))
    \<and> sync_strategy_orders E gw q t g = (t, default_sync_result, g)"
proof -
  define os where "os = cancel_working_orders (rt_orders (st_runtime s))"
  define t where "t = (if db' = snd (pause_strategies W o' [i] db)
    then log_strategy_event (w_env W) ''strategy_paused'' ''strategy paused'' (set_orders os (s\<lparr>st_status := Paused\<rparr>))
    else log_strategy_event (w_env W) ''strategy_stopped'' ''strategy stopped'' ((set_orders os s)\<lparr>st_status := Stopped\<rparr>))"
  have key: "st_owner_email t = o'" "st_id t = i"
    using eph.lookup_key [OF assms(1)] by (auto simp: t_def os_def log_strategy_event_def)
  have "snd (pause_strategies W o' [i] db) = snd (pause_one W o' i (0, []) db)"
    by (cases "pause_one W o' i (0, []) db"; cases "fst (pause_one W o' i (0, []) db)")
       (auto simp: pause_strategies_def)
  then have "list_all_strategies db' = list_all_strategies (snd (update_strategy t db))"
    using assms by (auto simp: pause_one_def stop_strategy_def stop_strategy_runtime_def Let_def t_def os_def)
  then have "find_strategy db' o' i = Some t"
    using eph.lookup_put [of db t s] assms(1,2) by (auto simp: eph.lookup_entries key)
  moreover have "list_all (\<lambda>order. ro_status order = ''Canceled'') (rt_orders (st_runtime t))"
    "map ro_exchange_order_id (rt_orders (st_runtime t)) = map ro_exchange_order_id (rt_orders (st_runtime s))"
    using cancel_working_all [OF assms(4)]
    by (auto simp: t_def os_def log_strategy_event_def push_runtime_event_def)
  moreover have "st_status t \<in> {Paused, Stopped}" "st_strategy_type t \<noteq> MartingaleGrid"
    using assms(3) by (auto simp: t_def os_def log_strategy_event_def)
  ultimately show ?thesis
    by (auto simp: sync_strategy_orders_def canceled_orders_held intro!: exI [of _ t])
qed

subsection \<open>Rebuilding after a stop\<close>

lemma finalize_venue: "same_venue s (finalize_strategy_after_close E p s)"
  by (simp add: finalize_strategy_after_close_def rebuild_after_close_def same_venue_def same_key_def Let_def
        split: sum.split prod.split)

lemma start_keeps_other:
  assumes "start_strategy W o' i db = (Inr resp, db')" "j \<noteq> i"
  shows "find_strategy db' o' j = find_strategy db o' j"
proof -
  from assms(1) obtain old a r where old: "find_strategy db o' i = Some old" "st_status old \<in> {Draft, Stopped}"
      "pr_ok (live_preflight_report W db old)"
    and a: "a = old\<lparr>st_active_revision := Some (st_draft_revision old)\<rparr>"
    and r: "r = rebuild_runtime (w_env W) a None ''strategy_started''"
    and s: "ss_strategy resp = a\<lparr>st_runtime := r\<lparr>rt_last_preflight := Some (live_preflight_report W db old)\<rparr>,
                                 st_status := Running\<rparr>"
    by (rule start_strategy_started)
  have "list_all_strategies (snd (start_strategy W o' i db))
      = list_all_strategies (snd (update_strategy (ss_strategy resp) db))"
    using old by (auto simp: start_strategy_def Let_def a r s)
  then have "find_strategy db' o' j = find_strategy (snd (update_strategy (ss_strategy resp) db)) o' j"
    using assms(1) by (simp add: eph.lookup_entries)
  moreover have "(o', j) \<noteq> strategy_key (ss_strategy resp)"
    using assms(2) eph.lookup_key [OF old(1)] by (simp add: s a strategy_key_def)
  ultimately show ?thesis by (simp add: eph.lookup_put_other)
qed

text \<open>The conflict check does not see a strategy that will rebuild itself: while a futures strategy
  is \<open>Stopping\<close> after an overall trigger, another strategy of the same owner, symbol and direction
  passes the preflight and starts, and when the first one finishes closing it is set back
  to \<open>Running\<close> without a check. Then two conflicting strategies run.\<close>

theorem rebuild_ignores_running_strategies:
  assumes "start_strategy W o' i db = (Inr resp, db')"
    and "find_strategy db o' j = Some a" "j \<noteq> i" "st_status a = Stopping"
    and "st_market a \<noteq> Spot" "st_market (ss_strategy resp) = st_market a"
    and "eq_ignore_ascii_case (st_symbol (ss_strategy resp)) (st_symbol a)"
    and "futures_direction_mask (st_mode (ss_strategy resp)) AND futures_direction_mask (st_mode a) \<noteq> 0"
    and "st_status (finalize_strategy_after_close E p a) = Running"
  shows "\<not> exclusive (snd (update_strategy (finalize_strategy_after_close E p a) db'))"
proof -
  define a' where "a' = finalize_strategy_after_close E p a"
  define b where "b = ss_strategy resp"
  define db2 where "db2 = snd (update_strategy a' db')"
  have b: "find_strategy db' o' i = Some b" "st_status b = Running"
    using assms(1) by (auto simp: b_def elim!: start_strategy_started)
  have a: "find_strategy db' o' j = Some a" using start_keeps_other [OF assms(1,3)] assms(2) by simp
  have key: "st_owner_email a' = o'" "st_id a' = j" "st_owner_email b = o'" "st_id b = i"
    using finalize_venue [of a E p] eph.lookup_key [OF a] eph.lookup_key [OF b(1)]
    by (auto simp: same_venue_def same_key_def a'_def)
  have "find_strategy db2 o' j = Some a'"
    using eph.lookup_put [of db' a' a] a assms(4) key by (simp add: db2_def)
  moreover have "find_strategy db2 o' i = Some b"
    using eph.lookup_put_other [of o' i a' db'] b(1) assms(3) key by (simp add: db2_def strategy_key_def)
  ultimately have "a' \<in> set (list_all_strategies db2)" "b \<in> set (list_all_strategies db2)"
    by (auto dest: eph.lookup_key)
  moreover have "conflicts_with a' b"
    using assms(3,6-8) finalize_venue [of a E p] key b(2)
    by (auto simp: conflicts_with_def same_venue_def a'_def b_def)
  moreover have "st_status a' = Running" "st_market a' \<noteq> Spot"
    using assms(5,9) finalize_venue [of a E p] by (auto simp: a'_def same_venue_def)
  ultimately have "\<not> exclusive db2" unfolding exclusive_def using key by metis
  then show ?thesis by (simp add: db2_def a'_def)
qed

subsection \<open>A concrete store\<close>

datatype demo_json = JB bool | JS string | JO "(string \<times> demo_json) list"

definition demo_world :: "demo_json world" where
  "demo_world =
     \<lparr>w_env = plain_env, w_lower = to_ascii_lowercase, w_upper = to_ascii_uppercase,
      j_get = (\<lambda>j k. case j of JO xs \<Rightarrow> map_of xs k | _ \<Rightarrow> None),
      j_bool = (\<lambda>j. case j of JB b \<Rightarrow> Some b | _ \<Rightarrow> None),
      j_str = (\<lambda>j. case j of JS s \<Rightarrow> Some s | _ \<Rightarrow> None),
      j_u64 = (\<lambda>_. None), j_array = (\<lambda>_. None),
      j_of_record = (\<lambda>r. Some (JO [(''title'', JS (ne_title (nr_event r)))])),
      j_of_strings = (\<lambda>xs. JO (map (\<lambda>(k, v). (k, case v of None \<Rightarrow> JB False | Some s \<Rightarrow> JS s)) xs)),
      decimal_error = (\<lambda>s. ''invalid decimal''), bot_token = None, bot_send = (\<lambda>_ _ _ _. False)\<rparr>"

definition demo_futures :: "string \<Rightarrow> StrategyStatus \<Rightarrow> StrategyRuntime \<Rightarrow> Strategy" where
  "demo_futures i status runtime =
     (demo_strategy status FuturesUsdM FuturesLong runtime)
       \<lparr>st_id := i,
        st_draft_revision := (demo_revision_of OrdinaryGrid
           [\<lparr>gl_level_index = 0, gl_entry_price = 100, gl_quantity = 2, gl_take_profit_bps = 100,
             gl_trailing_bps = None\<rparr>])
           \<lparr>rv_futures_margin_mode := Some Isolated, rv_leverage := Some 5, rv_post_trigger_action := Rebuild\<rparr>\<rparr>"

definition demo_triggered :: StrategyRuntime where
  "demo_triggered =
     \<lparr>rt_positions = [], rt_orders = [], rt_fills = [],
      rt_events = [\<lparr>ev_event_type = ''overall_take_profit_rebuild'', ev_detail = [], ev_price = None,
                    ev_created_at = 0\<rparr>], rt_last_preflight = None\<rparr>"

definition demo_store :: "Strategy list \<Rightarrow> demo_json EphemeralState" where
  "demo_store strategies =
     empty_state\<lparr>
       es_membership_records := [(''a@b.c'', default_membership\<lparr>mr_active_until := Some 100\<rparr>)],
       es_exchange_accounts := [((''a@b.c'', ''binance''),
         \<lparr>ua_user_email = ''a@b.c'', ua_exchange = ''binance'', ua_account_label = [], ua_market_scope = [],
          ua_is_active = True, ua_checked_at = None,
          ua_metadata = JO [(''validation'', JO [(''permissions_ok'', JB True), (''hedge_mode_ok'', JB True),
             (''withdrawals_disabled'', JB True)])]\<rparr>)],
       es_exchange_symbols := [((''a@b.c'', ''binance'', ''usdm'', ''BTCUSDT''),
         \<lparr>us_user_email = ''a@b.c'', us_exchange = ''binance'', us_market = ''usdm'', us_symbol = ''BTCUSDT'',
          us_status = ''TRADING'', us_base_asset = ''BTC'', us_quote_asset = ''USDT'', us_price_precision = 0,
          us_quantity_precision = 0, us_min_quantity = ''1'', us_min_notional = ''1'', us_keywords = [],
          us_metadata = JO [], us_synced_at = 0\<rparr>)],
       es_exchange_wallet_snapshots := [\<lparr>ws_user_email = ''a@b.c'', ws_exchange = ''binance-usdm'',
          ws_wallet_type = ''usdm'', ws_balances = JO [(''USDT'', JS ''1000'')], ws_captured_at = 0\<rparr>],
       es_strategies := zip [1, 2, 3] strategies\<rparr>"


lemmas preflight_eval = server_preflight_state_def find_membership_record_def find_exchange_account_def
  membership_allows_runtime_def exchange_account_supports_strategy_def metadata_bool_def metadata_string_def
  metadata_u32_list_def symbol_exists_for_strategy_def symbol_record_for_strategy_def list_exchange_symbols_def
  tradable_symbol_def strategy_market_key_def filters_satisfied_def margin_requirements_satisfied_def
  balance_available_def list_exchange_wallet_snapshots_def wallet_balance_def wallet_exchange_key_def
  wallet_type_key_def levels_on_side_def service_entry_side_def draft_reference_price_def uses_center_reference_def
  or_else_def futures_conflict_required_def requires_futures_checks_def

lemma demo_limits:
  "parse_usize ''1'' = Some 1" "parse_usize ''1000'' = Some 1000"
  by (simp_all add: parse_usize_def)

lemma demo_preflight:
  assumes "s = demo_futures ''s2'' Draft default_runtime" "db = demo_store [a, s]" "futures_conflict_free db s"
  shows "pr_ok (live_preflight_report demo_world db s)"
  unfolding live_preflight_report_def run_preflight_intended intended_report_facts preflight_checks_def
    passes_def server_flag_def
  using assms
  by (simp add: preflight_eval demo_world_def demo_store_def demo_futures_def demo_strategy_def demo_revision_of_def
        default_membership_def default_runtime_def empty_state_def ascii_case_defs demo_limits d_of_u32_def)

definition demo_first :: Strategy where
  "demo_first = demo_futures ''s1'' Stopping demo_triggered"

definition demo_second :: Strategy where
  "demo_second = demo_futures ''s2'' Draft default_runtime"

definition demo_db :: "demo_json EphemeralState" where
  "demo_db = demo_store [demo_first, demo_second]"

lemma demo_db_strategies: "list_all_strategies demo_db = [demo_first, demo_second]"
  by (simp add: demo_db_def demo_store_def list_all_strategies_def empty_state_def)

lemma demo_fields:
  "st_id demo_first = ''s1''" "st_owner_email demo_first = ''a@b.c''" "st_status demo_first = Stopping"
  "st_market demo_first = FuturesUsdM" "st_mode demo_first = FuturesLong" "st_symbol demo_first = ''BTCUSDT''"
  "st_id demo_second = ''s2''" "st_owner_email demo_second = ''a@b.c''" "st_status demo_second = Draft"
  "st_market demo_second = FuturesUsdM" "st_mode demo_second = FuturesLong" "st_symbol demo_second = ''BTCUSDT''"
  by (simp_all add: demo_first_def demo_second_def demo_futures_def demo_strategy_def)

lemma demo_db_ok: "unique_keys demo_db" "exclusive demo_db"
  by (simp_all add: unique_keys_def exclusive_def conflicts_with_def demo_db_strategies strategy_key_def demo_fields)

lemma demo_find:
  "find_strategy demo_db ''a@b.c'' ''s1'' = Some demo_first"
  "find_strategy demo_db ''a@b.c'' ''s2'' = Some demo_second"
  by (simp_all add: eph.lookup_entries demo_db_strategies demo_fields)

lemma persist_total:
  "(\<And>r. j_of_record W r \<noteq> None)
   \<Longrightarrow> \<exists>u db'. persist_strategy_notification W e k t m p db = (Inr u, db')"
  unfolding persist_strategy_notification_def Let_def
  by (simp split: option.split)

lemma demo_starts:
  obtains resp db' where "start_strategy demo_world ''a@b.c'' ''s2'' demo_db = (Inr resp, db')"
    "st_market (ss_strategy resp) = FuturesUsdM" "st_mode (ss_strategy resp) = FuturesLong"
    "st_symbol (ss_strategy resp) = ''BTCUSDT''"
proof -
  have "futures_conflict_free demo_db demo_second"
    using demo_db_strategies
    by (simp add: futures_conflict_free_def list_strategies_def list_all_strategies_def conflicts_with_def demo_fields)
  then have "pr_ok (live_preflight_report demo_world demo_db demo_second)"
    using demo_preflight [of demo_second demo_db demo_first] by (simp add: demo_db_def demo_second_def)
  moreover have "\<exists>u db'. persist_strategy_notification demo_world e k t m p db = (Inr u, db')" for e k t m p db
    by (rule persist_total) (simp add: demo_world_def)
  ultimately have "\<exists>resp db'. start_strategy demo_world ''a@b.c'' ''s2'' demo_db = (Inr resp, db')
     \<and> st_market (ss_strategy resp) = FuturesUsdM \<and> st_mode (ss_strategy resp) = FuturesLong
     \<and> st_symbol (ss_strategy resp) = ''BTCUSDT''"
    by (auto simp: start_strategy_def demo_find demo_fields Let_def split: prod.split sum.split)
       (metis Inl_Inr_False old.prod.inject)+
  then show thesis using that by blast
qed

theorem service_follows_life_cycle_witness:
  "list_all2 (changed (\<lambda>s t. starts {Draft, Stopped} demo_world demo_db s t \<and> strategy_key s = (''a@b.c'', ''s2'')))
     (list_all_strategies demo_db) (list_all_strategies (snd (start_strategy demo_world ''a@b.c'' ''s2'' demo_db)))"
  using service_follows_life_cycle [OF demo_db_ok(1)] by blast

theorem service_keeps_exclusive_witness:
  "exclusive (snd (start_strategy demo_world ''a@b.c'' ''s2'' demo_db))"
  by (rule service_keeps_exclusive [OF demo_db_ok]) (auto intro: svc_step.start)

theorem start_strategy_order_book_witness:
  "\<exists>resp db'. start_strategy demo_world ''a@b.c'' ''s2'' demo_db = (Inr resp, db')
     \<and> find_strategy db' ''a@b.c'' ''s2'' = Some (ss_strategy resp) \<and> st_status (ss_strategy resp) = Running"
proof -
  obtain resp db' where "start_strategy demo_world ''a@b.c'' ''s2'' demo_db = (Inr resp, db')"
    by (rule demo_starts)
  from start_strategy_order_book [OF this] this show ?thesis by auto
qed

definition demo_running :: Strategy where
  "demo_running = demo_futures ''s1'' Running
     (default_runtime\<lparr>rt_orders := [demo_order ''s1-order-0'' ''Buy'' (Some ''77'') ''Placed'']\<rparr>)"

theorem halted_orders_stay_on_exchange_witness:
  "\<exists>t. find_strategy (snd (pause_strategies demo_world ''a@b.c'' [''s1''] (demo_store [demo_running])))
         ''a@b.c'' ''s1'' = Some t
     \<and> map ro_exchange_order_id (rt_orders (st_runtime t)) = [Some ''77'']
     \<and> sync_strategy_orders plain_env demo_gateway None t [] = (t, default_sync_result, [])"
proof -
  have d: "st_id demo_running = ''s1''" "st_owner_email demo_running = ''a@b.c''"
    "st_status demo_running = Running" "st_strategy_type demo_running = OrdinaryGrid"
    "rt_orders (st_runtime demo_running) = [demo_order ''s1-order-0'' ''Buy'' (Some ''77'') ''Placed'']"
    by (simp_all add: demo_running_def demo_futures_def demo_strategy_def)
  then have "find_strategy (demo_store [demo_running]) ''a@b.c'' ''s1'' = Some demo_running"
    by (simp add: find_strategy_def demo_store_def)
  from halted_orders_stay_on_exchange [OF this, of "snd (pause_strategies demo_world ''a@b.c'' [''s1''] (demo_store [demo_running]))"
      demo_world plain_env demo_gateway None "[]"]
  show ?thesis using d by (auto simp: demo_order_def)
qed

theorem rebuild_ignores_running_strategies_witness:
  "\<exists>resp db'. start_strategy demo_world ''a@b.c'' ''s2'' demo_db = (Inr resp, db')
     \<and> \<not> exclusive (snd (update_strategy (finalize_strategy_after_close plain_env (Some 100) demo_first) db'))"
proof -
  obtain resp db' where start: "start_strategy demo_world ''a@b.c'' ''s2'' demo_db = (Inr resp, db')"
    and venue: "st_market (ss_strategy resp) = FuturesUsdM" "st_mode (ss_strategy resp) = FuturesLong"
    "st_symbol (ss_strategy resp) = ''BTCUSDT''"
    by (rule demo_starts)
  have "st_status (finalize_strategy_after_close plain_env (Some 100) demo_first) = Running"
    by code_simp
  then have "\<not> exclusive (snd (update_strategy (finalize_strategy_after_close plain_env (Some 100) demo_first) db'))"
    by (intro rebuild_ignores_running_strategies [OF start demo_find(1)])
       (simp_all add: demo_fields venue futures_direction_mask_def)
  with start show ?thesis by blast
qed

end
