(* ===== verification/TradeSync.thy ===== *)
theory TradeSync
  imports ExecutionSync SharedDb
begin

text \<open>
  \<^verbatim>\<open>src/apps/trading-engine/src/trade_sync.rs\<close> (with \<^verbatim>\<open>telegram_notify.rs\<close>): the recovery path of fills.
  The trades the exchange lists for the strategy's symbol are grouped by order; the trades of an
  order that are not known yet are merged into one execution report, applied to the strategy, and
  stored. The gateway trait is a record of its two methods; an early return keeps what was written
  before it. Texts that are not ASCII are given by their UTF-8 bytes.
\<close>

record BinanceUserTrade =
  ut_market :: string
  ut_trade_id :: string
  ut_order_id :: "string option"
  ut_symbol :: string
  ut_side :: string
  ut_price :: string
  ut_quantity :: string
  ut_fee_amount :: "string option"
  ut_fee_asset :: "string option"
  ut_realized_profit :: "string option"
  ut_traded_at_ms :: int

record 'g BinanceTradeGateway =
  tg_user_trades :: "string \<Rightarrow> string \<Rightarrow> nat \<Rightarrow> 'g \<Rightarrow> BinanceUserTrade list result \<times> 'g"
  tg_get_order :: "string \<Rightarrow> string \<Rightarrow> string \<Rightarrow> 'g \<Rightarrow> BinanceOrderResponse result \<times> 'g"

record AggregatedTradeGroup =
  ag_market :: string
  ag_trade_id :: string
  ag_symbol :: string
  ag_side :: string
  ag_price :: string
  ag_quantity :: string
  ag_fee_amount :: "string option"
  ag_fee_asset :: "string option"
  ag_realized_profit :: "string option"
  ag_traded_at_ms :: int

subsection \<open>Helpers\<close>

definition parse_decimal :: "'j world \<Rightarrow> string \<Rightarrow> decimal result" where
  "parse_decimal W value =
     (case d_parse (w_env W) value of Some d \<Rightarrow> Inr d | None \<Rightarrow> Inl (decimal_error W value))"

definition exchange_trade_fill_id :: "string \<Rightarrow> string" where
  "exchange_trade_fill_id trade_id = ''exchange-trade-'' @ trade_id"

text \<open>\<open>rsplit_once("-leg-")\<close>: the part before the last occurrence.\<close>

fun rsplit_once_prefix :: "string \<Rightarrow> string \<Rightarrow> string option" where
  "rsplit_once_prefix sep [] = (if sep = [] then Some [] else None)"
| "rsplit_once_prefix sep (c # s) =
     (case rsplit_once_prefix sep s of
        Some prefix \<Rightarrow> Some (c # prefix)
      | None \<Rightarrow> if starts_with (c # s) sep then Some [] else None)"

definition next_martingale_order_id :: "string \<Rightarrow> u32 \<Rightarrow> string" where
  "next_martingale_order_id order_id next_leg_index =
     (case rsplit_once_prefix ''-leg-'' order_id of
        Some prefix \<Rightarrow> prefix @ ''-leg-'' @ show_u32 next_leg_index
      | None \<Rightarrow> order_id @ ''-leg-'' @ show_u32 next_leg_index)"

definition is_close_trade_order :: "StrategyRuntimeOrder \<Rightarrow> bool" where
  "is_close_trade_order order \<longleftrightarrow>
     str_contains (ro_order_id order) ''-tp-'' \<or> starts_with (ro_order_id order) ''cl-''
     \<or> str_contains (ro_order_id order) ''-stop-close-'' \<or> starts_with (ro_order_id order) ''close-''"

subsection \<open>Merging the trades of an order\<close>

record trade_totals =
  tt_quantity :: decimal
  tt_weighted_price :: decimal
  tt_fee :: decimal
  tt_has_fee :: bool
  tt_realized :: decimal
  tt_has_realized :: bool
  tt_latest_id :: string
  tt_latest_at :: int
  tt_fee_asset :: "string option"

definition add_trade :: "'j world \<Rightarrow> BinanceUserTrade \<Rightarrow> trade_totals \<Rightarrow> trade_totals result" where
  "add_trade W trade t =
     (let E = w_env W in
      bind_res (parse_decimal W (ut_quantity trade)) (\<lambda>quantity.
      bind_res (parse_decimal W (ut_price trade)) (\<lambda>price.
      let t = t\<lparr>tt_quantity := d_add E (tt_quantity t) quantity,
                tt_weighted_price := d_add E (tt_weighted_price t) (d_mul E price quantity)\<rparr> in
      bind_res
        (case ut_fee_amount trade of
           None \<Rightarrow> Inr t
         | Some fee \<Rightarrow> bind_res (parse_decimal W fee)
             (\<lambda>v. Inr (t\<lparr>tt_fee := d_add E (tt_fee t) v, tt_has_fee := True\<rparr>))) (\<lambda>t.
      bind_res
        (case ut_realized_profit trade of
           None \<Rightarrow> Inr t
         | Some realized \<Rightarrow> bind_res (parse_decimal W realized)
             (\<lambda>v. Inr (t\<lparr>tt_realized := d_add E (tt_realized t) v, tt_has_realized := True\<rparr>))) (\<lambda>t.
      let t = (if ut_traded_at_ms trade \<ge> tt_latest_at t
               then t\<lparr>tt_latest_at := ut_traded_at_ms trade, tt_latest_id := ut_trade_id trade\<rparr> else t);
          t = (if tt_fee_asset t = None then t\<lparr>tt_fee_asset := ut_fee_asset trade\<rparr> else t)
      in Inr t)))))"

definition aggregate_trade_group :: "'j world \<Rightarrow> BinanceUserTrade list \<Rightarrow> AggregatedTradeGroup result" where
  "aggregate_trade_group W trades =
     (case trades of
        [] \<Rightarrow> Inl ''trade group cannot be empty''
      | first # _ \<Rightarrow>
          bind_res
            (fold_res (add_trade W) trades
               \<lparr>tt_quantity = 0, tt_weighted_price = 0, tt_fee = 0, tt_has_fee = False, tt_realized = 0,
                tt_has_realized = False, tt_latest_id = ut_trade_id first,
                tt_latest_at = ut_traded_at_ms first, tt_fee_asset = ut_fee_asset first\<rparr>)
            (\<lambda>t. let E = w_env W in
               if tt_quantity t \<le> 0 then Inl ''trade group quantity must be positive''
               else Inr \<lparr>ag_market = ut_market first, ag_trade_id = tt_latest_id t, ag_symbol = ut_symbol first,
                         ag_side = ut_side first,
                         ag_price = d_show E (d_div E (tt_weighted_price t) (tt_quantity t)),
                         ag_quantity = d_show E (tt_quantity t),
                         ag_fee_amount = (if tt_has_fee t then Some (d_show E (tt_fee t)) else None),
                         ag_fee_asset = tt_fee_asset t,
                         ag_realized_profit = (if tt_has_realized t then Some (d_show E (tt_realized t)) else None),
                         ag_traded_at_ms = tt_latest_at t\<rparr>))"

text \<open>Grouping by order id; trades without an order id are dropped.\<close>

definition push_group :: "BinanceUserTrade \<Rightarrow> (string \<times> BinanceUserTrade list) list
   \<Rightarrow> (string \<times> BinanceUserTrade list) list" where
  "push_group trade grouped =
     (case ut_order_id trade of
        None \<Rightarrow> grouped
      | Some order_id \<Rightarrow>
          btree_insert order_id
            ((case map_of grouped order_id of None \<Rightarrow> [] | Some ts \<Rightarrow> ts) @ [trade]) grouped)"

definition group_trades :: "BinanceUserTrade list \<Rightarrow> (string \<times> BinanceUserTrade list) list" where
  "group_trades trades = fold push_group trades []"

subsection \<open>The next leg of a martingale\<close>

definition append_martingale_safety_leg ::
  "'j world \<Rightarrow> StrategyRuntimeOrder \<Rightarrow> AggregatedTradeGroup \<Rightarrow> (Strategy, unit) stateful" where
  "append_martingale_safety_leg W filled_order aggregate strategy =
     (case ro_level_index filled_order of
        None \<Rightarrow> (Inr (), strategy)
      | Some leg_index \<Rightarrow>
          let next_leg_index = leg_index + 1
          in if list_ex (\<lambda>order. ro_level_index order = Some next_leg_index \<and> starts_with (ro_order_id order) ''mg-'')
                  (rt_orders (st_runtime strategy))
             then (Inr (), strategy)
             else
               case parse_decimal W (ag_price aggregate) of
                 Inl e \<Rightarrow> (Inl e, strategy)
               | Inr fill_price \<Rightarrow>
                   let E = w_env W;
                       step = d_div E (d_mul E fill_price (d_of_u32 (st_grid_spacing_bps strategy))) (d_of_u32 10000);
                       is_short = eq_ignore_ascii_case (ro_side filled_order) ''Sell'';
                       next_price = (if is_short then d_add E fill_price step else d_sub E fill_price step)
                   in if next_price \<le> 0 then (Inr (), strategy)
                      else
                        (Inr (),
                         set_orders (rt_orders (st_runtime strategy) @
                           [\<lparr>ro_order_id = next_martingale_order_id (ro_order_id filled_order) next_leg_index,
                             ro_exchange_order_id = None, ro_level_index = Some next_leg_index,
                             ro_side = ro_side filled_order, ro_order_type = ''Limit'',
                             ro_price = Some next_price, ro_quantity = ro_quantity filled_order,
                             ro_status = ''Working''\<rparr>]) strategy))"

subsection \<open>Messages\<close>

definition utf8 :: "nat list \<Rightarrow> string" where
  "utf8 bs = map char_of bs"

definition zh_close_fill :: string where
  "zh_close_fill = utf8 [229, 185, 179, 228, 187, 147, 230, 136, 144, 228, 186, 164, 32]"

definition zh_open_fill :: string where
  "zh_open_fill = utf8 [229, 188, 128, 228, 187, 147, 230, 136, 144, 228, 186, 164, 32]"

definition zh_strategy :: string where
  "zh_strategy = utf8 [231, 173, 150, 231, 149, 165, 239, 188, 154]"

definition zh_symbol :: string where
  "zh_symbol = utf8 [10, 228, 186, 164, 230, 152, 147, 229, 175, 185, 239, 188, 154]"

definition zh_direction :: string where
  "zh_direction = utf8 [10, 230, 150, 185, 229, 144, 145, 239, 188, 154]"

definition zh_price :: string where
  "zh_price = utf8 [10, 230, 136, 144, 228, 186, 164, 228, 187, 183, 239, 188, 154]"

definition zh_quantity :: string where
  "zh_quantity = utf8 [10, 230, 136, 144, 228, 186, 164, 230, 149, 176, 233, 135, 143, 239, 188, 154]"

definition zh_net :: string where
  "zh_net = utf8 [10, 230, 156, 172, 230, 160, 188, 229, 135, 128, 230, 148, 182, 231, 155, 138, 239, 188, 154]"

definition zh_total :: string where
  "zh_total = utf8 [10, 231, 173, 150, 231, 149, 165, 231, 180, 175, 232, 174, 161, 229, 135, 128, 230, 148, 182, 231, 155, 138, 239, 188, 154]"

definition zh_spot_sell :: string where
  "zh_spot_sell = utf8 [231, 142, 176, 232, 180, 167, 229, 141, 150, 229, 135, 186]"

definition zh_spot_buy :: string where
  "zh_spot_buy = utf8 [231, 142, 176, 232, 180, 167, 228, 185, 176, 229, 133, 165]"

definition zh_short_close :: string where
  "zh_short_close = utf8 [229, 144, 136, 231, 186, 166, 231, 169, 186, 229, 141, 149, 229, 185, 179, 228, 187, 147]"

definition zh_short_open :: string where
  "zh_short_open = utf8 [229, 144, 136, 231, 186, 166, 231, 169, 186, 229, 141, 149, 229, 188, 128, 228, 187, 147]"

definition zh_long_close :: string where
  "zh_long_close = utf8 [229, 144, 136, 231, 186, 166, 229, 164, 154, 229, 141, 149, 229, 185, 179, 228, 187, 147]"

definition zh_long_open :: string where
  "zh_long_open = utf8 [229, 144, 136, 231, 186, 166, 229, 164, 154, 229, 141, 149, 229, 188, 128, 228, 187, 147]"

definition describe_trade_direction :: "Strategy \<Rightarrow> StrategyRuntimeOrder \<Rightarrow> bool \<Rightarrow> string" where
  "describe_trade_direction strategy order is_close =
     (if st_market strategy = Spot then (if is_close then zh_spot_sell else zh_spot_buy)
      else
        let short = (if is_close then zh_short_close else zh_short_open);
            long = (if is_close then zh_long_close else zh_long_open)
        in case st_mode strategy of
             FuturesShort \<Rightarrow> short
           | FuturesNeutral \<Rightarrow> if eq_ignore_ascii_case (ro_side order) ''Sell'' then short else long
           | _ \<Rightarrow> long)"

definition telegram_trade_message ::
  "env \<Rightarrow> Strategy \<Rightarrow> StrategyRuntimeOrder \<Rightarrow> AggregatedTradeGroup \<Rightarrow> decimal \<Rightarrow> decimal
   \<Rightarrow> string \<times> string \<times> string" where
  "telegram_trade_message E strategy order aggregate net_pnl cumulative_net_pnl =
     (let body = (\<lambda>is_close.
            zh_strategy @ st_name strategy @ zh_symbol @ ag_symbol aggregate
            @ zh_direction @ describe_trade_direction strategy order is_close
            @ zh_price @ ag_price aggregate @ zh_quantity @ ag_quantity aggregate)
      in if is_close_trade_order order
         then (''FillProfitReported'', zh_close_fill @ ag_symbol aggregate,
               body True @ zh_net @ d_show E net_pnl @ zh_total @ d_show E cumulative_net_pnl)
         else (''GridFillExecuted'', zh_open_fill @ ag_symbol aggregate, body False))"

definition persist_telegram_notification ::
  "'j world \<Rightarrow> Strategy \<Rightarrow> string \<Rightarrow> string \<Rightarrow> string \<Rightarrow> 'j \<Rightarrow> datetime
   \<Rightarrow> 'j EphemeralState \<Rightarrow> 'j EphemeralState" where
  "persist_telegram_notification W strategy template_key title body payload traded_at db =
     (case find_telegram_binding W db (st_owner_email strategy) of
        None \<Rightarrow> db
      | Some binding \<Rightarrow>
          let delivered = (case bot_token W of
                 Some token \<Rightarrow> bot_send W token (tb_telegram_chat_id binding) title body
               | None \<Rightarrow> False)
          in insert_notification_log
               \<lparr>nl_user_email = st_owner_email strategy, nl_channel = ''telegram'',
                nl_template_key = Some template_key, nl_title = title, nl_body = body,
                nl_status = (if delivered then ''delivered'' else ''failed''), nl_payload = payload,
                nl_created_at = traded_at, nl_delivered_at = (if delivered then Some traded_at else None)\<rparr> db)"

definition persist_telegram_trade_notification ::
  "'j world \<Rightarrow> Strategy \<Rightarrow> StrategyRuntimeOrder \<Rightarrow> AggregatedTradeGroup \<Rightarrow> decimal \<Rightarrow> decimal \<Rightarrow> datetime
   \<Rightarrow> 'j EphemeralState \<Rightarrow> 'j EphemeralState" where
  "persist_telegram_trade_notification W strategy order aggregate net_pnl cumulative_net_pnl traded_at db =
     (let (template_key, title, body) =
            telegram_trade_message (w_env W) strategy order aggregate net_pnl cumulative_net_pnl;
          payload = j_of_strings W
            [(''trade_id'', Some (ag_trade_id aggregate)), (''order_id'', Some (ro_order_id order)),
             (''symbol'', Some (ag_symbol aggregate)), (''price'', Some (ag_price aggregate)),
             (''quantity'', Some (ag_quantity aggregate)), (''net_pnl'', Some (d_show (w_env W) net_pnl)),
             (''cumulative_net_pnl'', Some (d_show (w_env W) cumulative_net_pnl))]
      in persist_telegram_notification W strategy template_key title body payload traded_at db)"

definition in_app_log ::
  "Strategy \<Rightarrow> string \<Rightarrow> string \<Rightarrow> string \<Rightarrow> 'j \<Rightarrow> datetime \<Rightarrow> 'j NotificationLogRecord" where
  "in_app_log strategy template_key title body payload traded_at =
     \<lparr>nl_user_email = st_owner_email strategy, nl_channel = ''in_app'', nl_template_key = Some template_key,
      nl_title = title, nl_body = body, nl_status = ''delivered'', nl_payload = payload,
      nl_created_at = traded_at, nl_delivered_at = Some traded_at\<rparr>"

definition notify_fill ::
  "'j world \<Rightarrow> Strategy \<Rightarrow> StrategyRuntimeOrder \<Rightarrow> AggregatedTradeGroup \<Rightarrow> decimal option \<Rightarrow> decimal option
   \<Rightarrow> datetime \<Rightarrow> 'j EphemeralState \<Rightarrow> 'j EphemeralState" where
  "notify_fill W strategy order aggregate realized fee_amount traded_at db =
     (let E = w_env W;
          zero = (\<lambda>v. case v of Some d \<Rightarrow> d | None \<Rightarrow> 0);
          payload = j_of_strings W
            [(''trade_id'', Some (ag_trade_id aggregate)), (''order_id'', Some (ro_order_id order)),
             (''symbol'', Some (ag_symbol aggregate)), (''price'', Some (ag_price aggregate)),
             (''quantity'', Some (ag_quantity aggregate)), (''fee_amount'', ag_fee_amount aggregate),
             (''fee_asset'', ag_fee_asset aggregate)];
          db = insert_notification_log (in_app_log strategy ''GridFillExecuted''
                 (''Grid fill '' @ ag_symbol aggregate)
                 (ag_symbol aggregate @ '' grid filled at '' @ ag_price aggregate @ ''.'') payload traded_at) db;
          realized_pnl = zero realized;
          net_pnl = d_sub E realized_pnl (zero fee_amount);
          cumulative_net_pnl = foldl (\<lambda>acc fill. d_sub E (d_add E acc (zero (fi_realized_pnl fill)))
                 (zero (fi_fee_amount fill))) 0 (rt_fills (st_runtime strategy));
          profit_payload = j_of_strings W
            [(''trade_id'', Some (ag_trade_id aggregate)), (''symbol'', Some (ag_symbol aggregate)),
             (''realized_pnl'', Some (d_show E realized_pnl)), (''net_pnl'', Some (d_show E net_pnl)),
             (''cumulative_net_pnl'', Some (d_show E cumulative_net_pnl))];
          db = insert_notification_log (in_app_log strategy ''FillProfitReported''
                 (''Fill profit '' @ ag_symbol aggregate)
                 (''Grid fill realized '' @ d_show E net_pnl @ '' net PnL.'') profit_payload traded_at) db
      in persist_telegram_trade_notification W strategy order aggregate net_pnl cumulative_net_pnl traded_at db)"

subsection \<open>The sync\<close>

definition trade_report ::
  "env \<Rightarrow> string \<Rightarrow> StrategyRuntimeOrder \<Rightarrow> string \<Rightarrow> AggregatedTradeGroup \<Rightarrow> BinanceExecutionUpdate" where
  "trade_report E order_id order status aggregate =
     \<lparr>xu_market = ag_market aggregate, xu_symbol = ag_symbol aggregate, xu_order_id = order_id,
      xu_client_order_id = Some (ro_order_id order), xu_side = Some (ag_side aggregate),
      xu_order_type = Some (ro_order_type order), xu_status = status, xu_execution_type = Some ''TRADE'',
      xu_order_price = map_option (d_show E) (ro_price order), xu_last_fill_price = Some (ag_price aggregate),
      xu_last_fill_quantity = Some (ag_quantity aggregate),
      xu_cumulative_fill_quantity = Some (ag_quantity aggregate), xu_fee_amount = ag_fee_amount aggregate,
      xu_fee_asset = ag_fee_asset aggregate, xu_position_side = None,
      xu_trade_id = Some (ag_trade_id aggregate), xu_realized_profit = ag_realized_profit aggregate,
      xu_event_time_ms = ag_traded_at_ms aggregate\<rparr>"

definition trade_instant :: "env \<Rightarrow> int \<Rightarrow> nat \<Rightarrow> datetime" where
  "trade_instant E ms n = (case millis_opt E ms of Some t \<Rightarrow> t | None \<Rightarrow> utc_now E n)"

definition history_record :: "env \<Rightarrow> Strategy \<Rightarrow> BinanceUserTrade \<Rightarrow> ExchangeTradeHistoryRecord" where
  "history_record E strategy trade =
     \<lparr>th_trade_id = ut_trade_id trade, th_user_email = st_owner_email strategy, th_exchange = ''binance'',
      th_symbol = ut_symbol trade, th_side = ut_side trade, th_quantity = ut_quantity trade,
      th_price = ut_price trade, th_fee_amount = ut_fee_amount trade, th_fee_asset = ut_fee_asset trade,
      th_traded_at = trade_instant E (ut_traded_at_ms trade) 0\<rparr>"

definition fill_pnl :: "'j world \<Rightarrow> AggregatedTradeGroup \<Rightarrow> Strategy \<Rightarrow> decimal option" where
  "fill_pnl W aggregate strategy =
     (case Option.bind
             (find (\<lambda>fill. fi_fill_id fill = exchange_trade_fill_id (ag_trade_id aggregate))
                (rev (rt_fills (st_runtime strategy)))) fi_realized_pnl of
        Some pnl \<Rightarrow> Some pnl
      | None \<Rightarrow> Option.bind (ag_realized_profit aggregate) (d_parse (w_env W)))"

record ('j, 'g) trade_sync_state =
  ts_strategy :: Strategy
  ts_known :: "string list"
  ts_new_fills :: nat
  ts_db :: "'j EphemeralState"
  ts_gateway :: 'g

text \<open>What follows a report that was applied: the martingale leg, the event, the history, the
  messages, and the end of a stop.\<close>

definition record_group ::
  "'j world \<Rightarrow> StrategyRuntimeOrder \<Rightarrow> AggregatedTradeGroup \<Rightarrow> BinanceUserTrade list
   \<Rightarrow> (('j, 'g) trade_sync_state, unit) stateful" where
  "record_group W order aggregate new_trades st =
     (let E = w_env W;
          (leg, strategy) = (if st_strategy_type (ts_strategy st) = MartingaleGrid
                             then append_martingale_safety_leg W order aggregate (ts_strategy st)
                             else (Inr (), ts_strategy st));
          st = st\<lparr>ts_strategy := strategy\<rparr>
      in case leg of
           Inl e \<Rightarrow> (Inl e, st)
         | Inr _ \<Rightarrow>
             let traded_at = trade_instant E (ag_traded_at_ms aggregate) (length (rt_events (st_runtime strategy)))
             in case parse_decimal W (ag_price aggregate) of
                  Inl e \<Rightarrow> (Inl e, st)
                | Inr price \<Rightarrow>
                    (case (case ag_fee_amount aggregate of
                             None \<Rightarrow> Inr None
                           | Some fee \<Rightarrow> bind_res (parse_decimal W fee) (\<lambda>d. Inr (Some d))) of
                       Inl e \<Rightarrow> (Inl e, st)
                     | Inr fee_amount \<Rightarrow>
                         let realized = fill_pnl W aggregate strategy;
                             strategy = set_events (rt_events (st_runtime strategy) @
                               [\<lparr>ev_event_type = ''grid_fill_executed'',
                                 ev_detail = ''grid fill '' @ ag_trade_id aggregate @ '' executed at '' @ ag_price aggregate,
                                 ev_price = Some price, ev_created_at = traded_at\<rparr>]) strategy;
                             db = fold (\<lambda>trade. insert_exchange_trade_history (history_record E strategy trade))
                                    new_trades (ts_db st);
                             db = notify_fill W strategy order aggregate realized fee_amount traded_at db;
                             strategy = finalize_strategy_after_close E (Some price) strategy
                         in (Inr (), st\<lparr>ts_strategy := strategy, ts_db := db,
                                         ts_known := map ut_trade_id new_trades @ ts_known st,
                                         ts_new_fills := Suc (ts_new_fills st)\<rparr>)))"

definition new_trades_of :: "string list \<Rightarrow> string list \<Rightarrow> BinanceUserTrade list \<Rightarrow> BinanceUserTrade list" where
  "new_trades_of existing_fill_ids known_trade_ids trades =
     filter (\<lambda>trade. exchange_trade_fill_id (ut_trade_id trade) \<notin> set existing_fill_ids
                      \<and> ut_trade_id trade \<notin> set known_trade_ids) trades"

definition sync_trade_group ::
  "'j world \<Rightarrow> 'g BinanceTradeGateway \<Rightarrow> string list \<Rightarrow> string \<times> BinanceUserTrade list
   \<Rightarrow> (('j, 'g) trade_sync_state, unit) stateful" where
  "sync_trade_group W gateway existing_fill_ids entry st =
     (let (order_id, order_trades) = entry; strategy = ts_strategy st
      in case find (\<lambda>order. ro_exchange_order_id order = Some order_id) (rt_orders (st_runtime strategy)) of
           None \<Rightarrow> (Inr (), st)
         | Some order \<Rightarrow>
             if st_strategy_type strategy = MartingaleGrid \<and> \<not> is_martingale_client_order (ro_order_id order)
                \<and> \<not> is_close_trade_order order then (Inr (), st)
             else
               let new_trades = new_trades_of existing_fill_ids (ts_known st) order_trades
               in if new_trades = [] then (Inr (), st)
                  else
                    case tg_get_order gateway (market_scope (st_market strategy)) (st_symbol strategy) order_id
                           (ts_gateway st) of
                      (Inl e, g) \<Rightarrow> (Inl e, st\<lparr>ts_gateway := g\<rparr>)
                    | (Inr remote_order, g) \<Rightarrow>
                        let st = st\<lparr>ts_gateway := g\<rparr>
                        in if to_ascii_uppercase (bp_status remote_order) \<notin> {''FILLED'', ''PARTIALLY_FILLED''}
                           then (Inr (), st)
                           else
                             case aggregate_trade_group W new_trades of
                               Inl e \<Rightarrow> (Inl e, st)
                             | Inr aggregate \<Rightarrow>
                                 let (changed, strategy) = apply_execution_update (w_env W)
                                        (trade_report (w_env W) order_id order (bp_status remote_order) aggregate)
                                        strategy;
                                     st = st\<lparr>ts_strategy := strategy\<rparr>
                                 in if \<not> changed then (Inr (), st)
                                    else record_group W order aggregate new_trades st)"

definition sync_strategy_trades ::
  "'j world \<Rightarrow> 'g BinanceTradeGateway \<Rightarrow> Strategy \<Rightarrow> 'j EphemeralState \<Rightarrow> 'g
   \<Rightarrow> nat result \<times> ('j, 'g) trade_sync_state" where
  "sync_strategy_trades W gateway strategy db g =
     (let existing_fill_ids = map fi_fill_id (rt_fills (st_runtime strategy));
          known = map th_trade_id (list_exchange_trade_history db (st_owner_email strategy));
          st = (\<lambda>g. \<lparr>ts_strategy = strategy, ts_known = known, ts_new_fills = 0, ts_db = db, ts_gateway = g\<rparr>)
      in case tg_user_trades gateway (market_scope (st_market strategy)) (st_symbol strategy) 100 g of
           (Inl e, g) \<Rightarrow> (Inl e, st g)
         | (Inr trades, g) \<Rightarrow>
             (case for_each (sync_trade_group W gateway existing_fill_ids) (group_trades trades) (st g) of
                (Inl e, st) \<Rightarrow> (Inl e, st)
              | (Inr _, st) \<Rightarrow> (Inr (ts_new_fills st), st)))"

end
