(* ===== verification/TradeSyncProps.thy ===== *)
theory TradeSyncProps
  imports TradeSync LifecycleProps
begin

text \<open>
  Correctness of the trade recovery: what a merged report conserves of the trades it stands for, that
  no trade enters the history twice, and where merging and the stream of single reports disagree.
\<close>

subsection \<open>Grouping\<close>

lemma map_of_btree_insert: "map_of (btree_insert k v m) = (map_of m)(k \<mapsto> v)"
  by (induction m) (auto simp: fun_upd_twist)

lemma keys_btree_insert: "set (map fst (btree_insert k v m)) = insert k (set (map fst m))"
  by (induction k v m rule: btree_insert.induct) auto

lemma sorted_btree_insert: "sorted_wrt (<) (map fst m) \<Longrightarrow> sorted_wrt (<) (map fst (btree_insert k v m))"
proof (induction m)
  case (Cons x m)
  obtain k' v' where x: "x = (k', v')" by fastforce
  show ?case using Cons keys_btree_insert [of k v m] by (auto simp: x)
qed simp

lemma group_trades_spec:
  "sorted_wrt (<) (map fst (fold push_group trades m)) \<and>
   (\<forall>k. map_of (fold push_group trades m) k =
      (let ts = filter (\<lambda>t. ut_order_id t = Some k) trades
       in if ts = [] then map_of m k else Some ((case map_of m k of None \<Rightarrow> [] | Some us \<Rightarrow> us) @ ts)))"
  if "sorted_wrt (<) (map fst m)"
  using that
proof (induction trades arbitrary: m)
  case (Cons t trades)
  have "sorted_wrt (<) (map fst (push_group t m))"
    using Cons.prems by (simp add: push_group_def sorted_btree_insert split: option.split)
  from Cons.IH [OF this] show ?case
    by (auto simp: push_group_def map_of_btree_insert Let_def split: option.splits)
qed simp

lemma group_trades_members:
  assumes "(k, ts) \<in> set (group_trades trades)"
  shows "ts = filter (\<lambda>t. ut_order_id t = Some k) trades"
proof -
  have spec: "sorted_wrt (<) (map fst (group_trades trades))"
    "map_of (group_trades trades) k = (let ts = filter (\<lambda>t. ut_order_id t = Some k) trades
       in if ts = [] then None else Some ts)"
    using group_trades_spec [of "[]" trades] by (auto simp: group_trades_def Let_def)
  then have "distinct (map fst (group_trades trades))"
    using strict_sorted_iff by blast
  with assms have "map_of (group_trades trades) k = Some ts" by simp
  with spec(2) show ?thesis by (simp add: Let_def split: if_splits)
qed

subsection \<open>What a merged report conserves\<close>

definition parsed :: "'j world \<Rightarrow> string \<Rightarrow> decimal" where
  "parsed W s = (case d_parse (w_env W) s of Some d \<Rightarrow> d | None \<Rightarrow> 0)"

definition parses :: "'j world \<Rightarrow> string \<Rightarrow> bool" where
  "parses W s \<longleftrightarrow> d_parse (w_env W) s \<noteq> None"

lemma parse_decimal_Inr: "parse_decimal W s = Inr d \<longleftrightarrow> parses W s \<and> d = parsed W s"
  by (auto simp: parse_decimal_def parses_def parsed_def split: option.splits)

text \<open>The sum over the trades that carry an optional amount.\<close>

definition optional_sum :: "'j world \<Rightarrow> (BinanceUserTrade \<Rightarrow> string option) \<Rightarrow> BinanceUserTrade list \<Rightarrow> decimal" where
  "optional_sum W f ts = sum_list (map (\<lambda>t. case f t of None \<Rightarrow> 0 | Some s \<Rightarrow> parsed W s) ts)"

definition latest_trade :: "BinanceUserTrade list \<Rightarrow> string \<Rightarrow> int \<Rightarrow> bool" where
  "latest_trade ts i ms \<longleftrightarrow>
     (\<exists>t \<in> set ts. ut_trade_id t = i \<and> ut_traded_at_ms t = ms) \<and> (\<forall>t \<in> set ts. ut_traded_at_ms t \<le> ms)"

lemma add_trade_exact:
  assumes "exact_decimal (w_env W)" "add_trade W trade t = Inr t'"
  shows "parses W (ut_quantity trade) \<and> parses W (ut_price trade)
    \<and> tt_quantity t' = tt_quantity t + parsed W (ut_quantity trade)
    \<and> tt_weighted_price t' = tt_weighted_price t + parsed W (ut_price trade) * parsed W (ut_quantity trade)
    \<and> tt_fee t' = tt_fee t + (case ut_fee_amount trade of None \<Rightarrow> 0 | Some s \<Rightarrow> parsed W s)
    \<and> tt_has_fee t' = (tt_has_fee t \<or> ut_fee_amount trade \<noteq> None)
    \<and> tt_realized t' = tt_realized t + (case ut_realized_profit trade of None \<Rightarrow> 0 | Some s \<Rightarrow> parsed W s)
    \<and> tt_has_realized t' = (tt_has_realized t \<or> ut_realized_profit trade \<noteq> None)
    \<and> (tt_latest_id t', tt_latest_at t') =
        (if ut_traded_at_ms trade \<ge> tt_latest_at t then (ut_trade_id trade, ut_traded_at_ms trade)
         else (tt_latest_id t, tt_latest_at t))"
  using assms(2)
  by (auto simp: add_trade_def Let_def bind_res_eq_Inr parse_decimal_Inr exact_decimal.exact_add [OF assms(1)]
        exact_decimal.exact_mul [OF assms(1)] split: option.splits if_splits)

lemma fold_add_trade_exact:
  assumes "exact_decimal (w_env W)" "fold_res (add_trade W) ts t = Inr t'"
  shows "list_all (\<lambda>u. parses W (ut_quantity u) \<and> parses W (ut_price u)) ts
    \<and> tt_quantity t' = tt_quantity t + sum_list (map (\<lambda>u. parsed W (ut_quantity u)) ts)
    \<and> tt_weighted_price t' = tt_weighted_price t
        + sum_list (map (\<lambda>u. parsed W (ut_price u) * parsed W (ut_quantity u)) ts)
    \<and> tt_fee t' = tt_fee t + optional_sum W ut_fee_amount ts
    \<and> tt_has_fee t' = (tt_has_fee t \<or> list_ex (\<lambda>u. ut_fee_amount u \<noteq> None) ts)
    \<and> tt_realized t' = tt_realized t + optional_sum W ut_realized_profit ts
    \<and> tt_has_realized t' = (tt_has_realized t \<or> list_ex (\<lambda>u. ut_realized_profit u \<noteq> None) ts)
    \<and> tt_latest_at t \<le> tt_latest_at t' \<and> (\<forall>u \<in> set ts. ut_traded_at_ms u \<le> tt_latest_at t')
    \<and> ((tt_latest_id t', tt_latest_at t') = (tt_latest_id t, tt_latest_at t)
       \<or> (\<exists>u \<in> set ts. ut_trade_id u = tt_latest_id t' \<and> ut_traded_at_ms u = tt_latest_at t'))"
  using assms(2)
proof (induction ts arbitrary: t)
  case (Cons u ts)
  then obtain t1 where t1: "add_trade W u t = Inr t1" "fold_res (add_trade W) ts t1 = Inr t'"
    by (auto simp: bind_res_eq_Inr)
  show ?case
    using add_trade_exact [OF assms(1) t1(1)] Cons.IH [OF t1(2)]
    by (auto simp: optional_sum_def split: if_splits)
qed (simp add: optional_sum_def)

text \<open>The report that stands for several trades of an order conserves them: its quantity is the
  sum of their quantities and positive, its price is their quantity-weighted average, its fee and
  realized profit are their sums (and absent when no trade has any), and its trade id and time are
  those of a latest trade.\<close>

theorem aggregate_conserves_trades:
  assumes "exact_decimal (w_env W)" "aggregate_trade_group W trades = Inr a"
  shows "let total = sum_list (map (\<lambda>u. parsed W (ut_quantity u)) trades);
             cost = sum_list (map (\<lambda>u. parsed W (ut_price u) * parsed W (ut_quantity u)) trades)
    in list_all (\<lambda>u. parses W (ut_quantity u) \<and> parses W (ut_price u)) trades \<and> total > 0
      \<and> ag_quantity a = d_show (w_env W) total \<and> ag_price a = d_show (w_env W) (cost / total)
      \<and> ag_fee_amount a = (if list_ex (\<lambda>u. ut_fee_amount u \<noteq> None) trades
          then Some (d_show (w_env W) (optional_sum W ut_fee_amount trades)) else None)
      \<and> ag_realized_profit a = (if list_ex (\<lambda>u. ut_realized_profit u \<noteq> None) trades
          then Some (d_show (w_env W) (optional_sum W ut_realized_profit trades)) else None)
      \<and> latest_trade trades (ag_trade_id a) (ag_traded_at_ms a)"
proof (cases trades)
  case Nil
  then show ?thesis using assms by (simp add: aggregate_trade_group_def)
next
  case (Cons first rest)
  define t0 where "t0 = \<lparr>tt_quantity = 0, tt_weighted_price = 0, tt_fee = 0, tt_has_fee = False, tt_realized = 0,
    tt_has_realized = False, tt_latest_id = ut_trade_id first,
    tt_latest_at = ut_traded_at_ms first, tt_fee_asset = ut_fee_asset first\<rparr>"
  from assms(2) obtain t where t: "fold_res (add_trade W) trades t0 = Inr t" "tt_quantity t > 0"
    and a: "ag_quantity a = d_show (w_env W) (tt_quantity t)"
      "ag_price a = d_show (w_env W) (tt_weighted_price t / tt_quantity t)"
      "ag_fee_amount a = (if tt_has_fee t then Some (d_show (w_env W) (tt_fee t)) else None)"
      "ag_realized_profit a = (if tt_has_realized t then Some (d_show (w_env W) (tt_realized t)) else None)"
      "ag_trade_id a = tt_latest_id t" "ag_traded_at_ms a = tt_latest_at t"
    unfolding aggregate_trade_group_def Cons t0_def
    by (auto simp: bind_res_eq_Inr Let_def exact_decimal.exact_div [OF assms(1)] simp del: fold_res.simps split: if_splits)
  have first: "first \<in> set trades" using Cons by simp
  show ?thesis
    using fold_add_trade_exact [OF assms(1) t(1)] t(2) first
    by (auto simp: a t0_def Let_def latest_trade_def)
qed

subsection \<open>The history of trades\<close>

abbreviation history :: "'j EphemeralState \<Rightarrow> ExchangeTradeHistoryRecord list" where
  "history db \<equiv> es_exchange_trade_history db"

lemma notify_fill_frame [simp]:
  "history (notify_fill W s order a realized fee traded_at db) = history db"
  "es_strategies (notify_fill W s order a realized fee traded_at db) = es_strategies db"
  by (simp_all add: notify_fill_def Let_def persist_telegram_trade_notification_def case_prod_beta
        persist_telegram_notification_def insert_notification_log_def split: option.split)

lemma fold_history [simp]:
  "history (fold (\<lambda>t. insert_exchange_trade_history (f t)) ts db) = history db @ map f ts"
  "es_strategies (fold (\<lambda>t. insert_exchange_trade_history (f t)) ts db) = es_strategies db"
  by (induction ts arbitrary: db) (simp_all add: insert_exchange_trade_history_def)

definition owned_record :: "env \<Rightarrow> string \<Rightarrow> BinanceUserTrade \<Rightarrow> ExchangeTradeHistoryRecord" where
  "owned_record E owner trade =
     \<lparr>th_trade_id = ut_trade_id trade, th_user_email = owner, th_exchange = ''binance'',
      th_symbol = ut_symbol trade, th_side = ut_side trade, th_quantity = ut_quantity trade,
      th_price = ut_price trade, th_fee_amount = ut_fee_amount trade, th_fee_asset = ut_fee_asset trade,
      th_traded_at = trade_instant E (ut_traded_at_ms trade) 0\<rparr>"

lemma history_record_owner: "history_record E s = owned_record E (st_owner_email s)"
  by (simp add: history_record_def owned_record_def fun_eq_iff)

lemma finalize_owner [simp]: "st_owner_email (finalize_strategy_after_close E p s) = st_owner_email s"
  using finalize_venue [of s E p] by (simp add: same_venue_def same_key_def)

lemma leg_owner [simp]: "st_owner_email (snd (append_martingale_safety_leg W order a s)) = st_owner_email s"
  by (simp add: append_martingale_safety_leg_def Let_def split: option.split sum.split)

lemma update_owner [simp]: "st_owner_email (snd (apply_execution_update E u s)) = st_owner_email s"
proof (cases rule: update_outcome [of E u s])
  case (hit os s1 s2)
  have "static_strategy s1 = static_strategy s" by (subst hit(4)) (simp add: static_strategy_def)
  then have "static_strategy s2 = static_strategy s"
    using hit(5) by (auto simp: keeps_or_closes_def same_fills_status_def closes_stop_def)
  then have "static_strategy (snd (apply_execution_update E u s)) = static_strategy s"
    by (simp add: hit(6) static_strategy_def)
  then have "st_owner_email (static_strategy (snd (apply_execution_update E u s))) = st_owner_email (static_strategy s)"
    by simp
  then show ?thesis by (simp add: static_strategy_def)
qed simp

text \<open>One step of the loop stores either nothing or exactly the new trades of its group.\<close>

definition stores :: "env \<Rightarrow> string \<Rightarrow> BinanceUserTrade list \<Rightarrow> ('j, 'g) trade_sync_state
   \<Rightarrow> ('j, 'g) trade_sync_state \<Rightarrow> bool" where
  "stores E owner new st st' \<longleftrightarrow>
     history (ts_db st') = history (ts_db st) @ map (owned_record E owner) new
     \<and> set (ts_known st') = ut_trade_id ` set new \<union> set (ts_known st)
     \<and> st_owner_email (ts_strategy st') = st_owner_email (ts_strategy st)
     \<and> es_strategies (ts_db st') = es_strategies (ts_db st)"

lemma stores_trans:
  "stores E owner new st st1 \<Longrightarrow> stores E owner later st1 st2 \<Longrightarrow> stores E owner (new @ later) st st2"
  by (auto simp: stores_def)

lemma record_group_stores:
  assumes "st_owner_email (ts_strategy st) = owner"
  shows "\<exists>new. (new = [] \<or> new = new_trades)
    \<and> stores (w_env W) owner new st (snd (record_group W order a new_trades st))"
proof -
  define r where "r = (if st_strategy_type (ts_strategy st) = MartingaleGrid
    then append_martingale_safety_leg W order a (ts_strategy st) else (Inr (), ts_strategy st))"
  have owner: "st_owner_email (snd r) = owner" using assms by (simp add: r_def)
  obtain leg s where rs: "r = (leg, s)" by fastforce
  have keep: "stores (w_env W) owner [] st (st\<lparr>ts_strategy := s\<rparr>)"
    using owner assms by (auto simp: stores_def rs)
  show ?thesis
  proof (cases "fst (record_group W order a new_trades st)")
    case (Inl e)
    then have "snd (record_group W order a new_trades st) = st\<lparr>ts_strategy := s\<rparr>"
      using rs unfolding record_group_def r_def [symmetric]
      by (auto simp: Let_def split: sum.splits option.splits)
    then show ?thesis using keep by auto
  next
    case (Inr u)
    then have "stores (w_env W) owner new_trades st (snd (record_group W order a new_trades st))"
      using rs owner assms unfolding record_group_def r_def [symmetric]
      by (auto simp: Let_def stores_def history_record_owner split: sum.splits option.splits)
    then show ?thesis by blast
  qed
qed

lemma sync_trade_group_cases:
  obtains (skip) "snd (sync_trade_group W gw fills (k, ts) st) = st"
  | (asked) g where "snd (sync_trade_group W gw fills (k, ts) st) = st\<lparr>ts_gateway := g\<rparr>"
  | (applied) g c s u where "apply_execution_update (w_env W) u (ts_strategy st) = (c, s)"
      "snd (sync_trade_group W gw fills (k, ts) st) = st\<lparr>ts_gateway := g, ts_strategy := s\<rparr>"
  | (recorded) g c s u order a where "apply_execution_update (w_env W) u (ts_strategy st) = (c, s)"
      "snd (sync_trade_group W gw fills (k, ts) st) =
         snd (record_group W order a (new_trades_of fills (ts_known st) ts) (st\<lparr>ts_gateway := g, ts_strategy := s\<rparr>))"
proof (cases "find (\<lambda>order. ro_exchange_order_id order = Some k) (rt_orders (st_runtime (ts_strategy st)))")
  case None
  then show ?thesis by (intro skip) (simp add: sync_trade_group_def)
next
  case (Some order)
  let ?new = "new_trades_of fills (ts_known st) ts"
  let ?skipped = "st_strategy_type (ts_strategy st) = MartingaleGrid \<and> \<not> is_martingale_client_order (ro_order_id order)
    \<and> \<not> is_close_trade_order order \<or> ?new = []"
  obtain r g where get: "tg_get_order gw (market_scope (st_market (ts_strategy st))) (st_symbol (ts_strategy st)) k
      (ts_gateway st) = (r, g)" by fastforce
  show ?thesis
  proof (cases "?skipped")
    case True
    then show ?thesis using Some by (intro skip) (auto simp: sync_trade_group_def Let_def)
  next
    case False
    show ?thesis
    proof (cases "\<exists>remote a. r = Inr remote \<and> to_ascii_uppercase (bp_status remote) \<in> {''FILLED'', ''PARTIALLY_FILLED''}
        \<and> aggregate_trade_group W ?new = Inr a")
      case False': False
      then show ?thesis using Some False get
        by (intro asked [where g = g]) (auto simp: sync_trade_group_def Let_def split: sum.splits)
    next
      case True
      then obtain remote a where ra: "r = Inr remote"
        "to_ascii_uppercase (bp_status remote) \<in> {''FILLED'', ''PARTIALLY_FILLED''}"
        "aggregate_trade_group W ?new = Inr a" by blast
      obtain c s where cs: "apply_execution_update (w_env W) (trade_report (w_env W) k order (bp_status remote) a)
          (ts_strategy st) = (c, s)" by fastforce
      show ?thesis
      proof (cases c)
        case True
        then show ?thesis using Some False get ra cs
          by (intro recorded [OF cs, where g = g and order = order and a = a]) (auto simp: sync_trade_group_def Let_def)
      next
        case c: False
        then show ?thesis using Some False get ra cs
          by (intro applied [OF cs, where g = g]) (auto simp: sync_trade_group_def Let_def)
      qed
    qed
  qed
qed

lemma sync_trade_group_stores:
  assumes "st_owner_email (ts_strategy st) = owner"
  shows "\<exists>new. (new = [] \<or> new = new_trades_of fills (ts_known st) ts)
    \<and> stores (w_env W) owner new st (snd (sync_trade_group W gw fills (k, ts) st))"
proof (cases rule: sync_trade_group_cases [of W gw fills k ts st])
  case skip
  then show ?thesis using assms by (auto simp: stores_def intro!: exI [of _ "[]"])
next
  case (asked g)
  then show ?thesis using assms by (auto simp: stores_def intro!: exI [of _ "[]"])
next
  case (applied g c s u)
  then have "st_owner_email s = owner" using update_owner [of "w_env W" u "ts_strategy st"] assms by simp
  then show ?thesis using applied(2) assms by (auto simp: stores_def intro!: exI [of _ "[]"])
next
  case (recorded g c s u order a)
  then have "st_owner_email s = owner" using update_owner [of "w_env W" u "ts_strategy st"] assms by simp
  then show ?thesis
    using record_group_stores [of "st\<lparr>ts_gateway := g, ts_strategy := s\<rparr>" owner _ W order a] recorded(2) assms
    by (auto simp: stores_def)
qed

lemma for_each_stores:
  assumes "st_owner_email (ts_strategy st) = owner" "\<And>k ts. (k, ts) \<in> set groups \<Longrightarrow> distinct (map ut_trade_id ts)"
  shows "\<exists>new. stores (w_env W) owner new st (snd (for_each (sync_trade_group W gw fills) groups st))
    \<and> distinct (map ut_trade_id new) \<and> set new \<subseteq> (\<Union>(k, ts) \<in> set groups. set ts)
    \<and> (\<forall>t \<in> set new. ut_trade_id t \<notin> set (ts_known st) \<and> exchange_trade_fill_id (ut_trade_id t) \<notin> set fills)"
  using assms
proof (induction groups arbitrary: st)
  case Nil
  then show ?case by (intro exI [of _ "[]"]) (auto simp: stores_def)
next
  case (Cons entry groups)
  obtain k ts where entry: "entry = (k, ts)" by fastforce
  obtain r st1 where step: "sync_trade_group W gw fills (k, ts) st = (r, st1)" by fastforce
  obtain new where new: "new = [] \<or> new = new_trades_of fills (ts_known st) ts" "stores (w_env W) owner new st st1"
    using sync_trade_group_stores [OF Cons.prems(1), of fills ts W gw k] by (auto simp: step)
  have d: "distinct (map ut_trade_id new)" "set new \<subseteq> set ts"
    "\<forall>t \<in> set new. ut_trade_id t \<notin> set (ts_known st) \<and> exchange_trade_fill_id (ut_trade_id t) \<notin> set fills"
    using new(1) Cons.prems(2) [of k ts] by (auto simp: new_trades_of_def entry distinct_map_filter)
  show ?case
  proof (cases r)
    case (Inl e)
    then show ?thesis using new(2) d by (intro exI [of _ new]) (auto simp: entry step)
  next
    case (Inr u)
    have "st_owner_email (ts_strategy st1) = owner" using new(2) Cons.prems(1) by (simp add: stores_def)
    then have "\<exists>new. stores (w_env W) owner new st1 (snd (for_each (sync_trade_group W gw fills) groups st1))
      \<and> distinct (map ut_trade_id new) \<and> set new \<subseteq> (\<Union>(k, ts) \<in> set groups. set ts)
      \<and> (\<forall>t \<in> set new. ut_trade_id t \<notin> set (ts_known st1) \<and> exchange_trade_fill_id (ut_trade_id t) \<notin> set fills)"
    proof (rule Cons.IH)
      fix k ts
      assume "(k, ts) \<in> set groups"
      then show "distinct (map ut_trade_id ts)" by (intro Cons.prems(2) [of k]) simp
    qed
    then obtain more where more: "stores (w_env W) owner more st1 (snd (for_each (sync_trade_group W gw fills) groups st1))"
      "distinct (map ut_trade_id more)" "set more \<subseteq> (\<Union>(k, ts) \<in> set groups. set ts)"
      "\<forall>t \<in> set more. ut_trade_id t \<notin> set (ts_known st1) \<and> exchange_trade_fill_id (ut_trade_id t) \<notin> set fills"
      by (elim exE conjE) (rule that)
    have known: "set (ts_known st1) = ut_trade_id ` set new \<union> set (ts_known st)"
      using new(2) by (simp add: stores_def)
    have run: "snd (for_each (sync_trade_group W gw fills) (entry # groups) st)
        = snd (for_each (sync_trade_group W gw fills) groups st1)"
      by (simp add: entry step Inr)
    have "ut_trade_id t \<notin> ut_trade_id ` set new" if "t \<in> set more" for t
      using more(4) that by (simp add: known)
    then have apart: "ut_trade_id ` set new \<inter> ut_trade_id ` set more = {}"
      by (auto simp: image_iff dest: sym)
    show ?thesis
    proof (intro exI [of _ "new @ more"] conjI)
      show "stores (w_env W) owner (new @ more) st
          (snd (for_each (sync_trade_group W gw fills) (entry # groups) st))"
        unfolding run using new(2) more(1) by (rule stores_trans)
      show "distinct (map ut_trade_id (new @ more))"
        using d(1) more(2) apart by simp
      show "set (new @ more) \<subseteq> (\<Union>(k, ts) \<in> set (entry # groups). set ts)"
        using d(2) more(3) by (simp add: entry) blast
      show "\<forall>t \<in> set (new @ more). ut_trade_id t \<notin> set (ts_known st)
          \<and> exchange_trade_fill_id (ut_trade_id t) \<notin> set fills"
        using d(3) more(4) unfolding known by (simp add: ball_Un)
    qed
  qed
qed

text \<open>C23: However a trade sync ends, with a result or with an error part of the way, the history of
  trades only grows, by trades the exchange listed, each of them once, and by none whose id was in
  the owner's history or among the fills of the strategy before: no trade is ever recorded twice.
  The strategies of the store are not written.\<close>

theorem trade_history_grows_once:
  assumes "tg_user_trades gw (market_scope (st_market s)) (st_symbol s) 100 g = (Inr trades, g')"
    and "distinct (map ut_trade_id trades)"
  shows "\<exists>new. es_exchange_trade_history (ts_db (snd (sync_strategy_trades W gw s db g))) =
      es_exchange_trade_history db @ map (owned_record (w_env W) (st_owner_email s)) new
    \<and> distinct (map ut_trade_id new) \<and> set new \<subseteq> set trades
    \<and> (\<forall>t \<in> set new.
        ut_trade_id t \<notin> th_trade_id ` set (list_exchange_trade_history db (st_owner_email s))
        \<and> exchange_trade_fill_id (ut_trade_id t) \<notin> fi_fill_id ` set (rt_fills (st_runtime s)))
    \<and> es_strategies (ts_db (snd (sync_strategy_trades W gw s db g))) = es_strategies db"
proof -
  define fills where "fills = map fi_fill_id (rt_fills (st_runtime s))"
  define st where "st = \<lparr>ts_strategy = s,
    ts_known = map th_trade_id (list_exchange_trade_history db (st_owner_email s)), ts_new_fills = 0,
    ts_db = db, ts_gateway = g'\<rparr>"
  have members: "ts = filter (\<lambda>t. ut_order_id t = Some k) trades" if "(k, ts) \<in> set (group_trades trades)" for k ts
    using group_trades_members that .
  have "snd (sync_strategy_trades W gw s db g)
      = snd (for_each (sync_trade_group W gw fills) (group_trades trades) st)"
    using assms(1) by (simp add: sync_strategy_trades_def Let_def fills_def st_def split: prod.split sum.split)
  moreover have "st_owner_email (ts_strategy st) = st_owner_email s" by (simp add: st_def)
  moreover have "distinct (map ut_trade_id ts)" if "(k, ts) \<in> set (group_trades trades)" for k ts
    using assms(2) members [OF that] by (simp add: distinct_map_filter)
  moreover have "(\<Union>(k, ts) \<in> set (group_trades trades). set ts) \<subseteq> set trades"
    using members by fastforce
  moreover obtain new where "stores (w_env W) (st_owner_email s) new st
      (snd (for_each (sync_trade_group W gw fills) (group_trades trades) st))"
    "distinct (map ut_trade_id new)" "set new \<subseteq> (\<Union>(k, ts) \<in> set (group_trades trades). set ts)"
    "\<forall>t \<in> set new. ut_trade_id t \<notin> set (ts_known st) \<and> exchange_trade_fill_id (ut_trade_id t) \<notin> set fills"
    using for_each_stores [OF calculation(2), of "group_trades trades" W gw fills] calculation(3) by blast
  ultimately have "stores (w_env W) (st_owner_email s) new st (snd (sync_strategy_trades W gw s db g))"
    "distinct (map ut_trade_id new)" "set new \<subseteq> set trades"
    "\<forall>t \<in> set new. ut_trade_id t \<notin> set (ts_known st) \<and> exchange_trade_fill_id (ut_trade_id t) \<notin> set fills"
    by auto
  then show ?thesis
    by (intro exI [of _ new]) (simp add: stores_def st_def fills_def)
qed

subsection \<open>Merged and single reports\<close>

definition demo_trade :: "string \<Rightarrow> int \<Rightarrow> BinanceUserTrade" where
  "demo_trade i t =
     \<lparr>ut_market = ''usdm'', ut_trade_id = i, ut_order_id = Some ''77'', ut_symbol = ''BTCUSDT'', ut_side = ''BUY'',
      ut_price = ''100'', ut_quantity = ''1'', ut_fee_amount = None, ut_fee_asset = None,
      ut_realized_profit = None, ut_traded_at_ms = t\<rparr>"

definition demo_trades :: "unit BinanceTradeGateway" where
  "demo_trades =
     \<lparr>tg_user_trades = (\<lambda>_ _ _ g. (Inr [demo_trade ''t1'' 1, demo_trade ''t2'' 2], g)),
      tg_get_order = (\<lambda>m sym i g. (Inr (demo_response m sym None ''PARTIALLY_FILLED''), g))\<rparr>"

definition demo_filling :: Strategy where
  "demo_filling = demo_strategy Running FuturesUsdM FuturesLong
     (default_runtime\<lparr>rt_orders := [(demo_order ''s1-order-0'' ''Buy'' (Some ''77'') ''Placed'')\<lparr>ro_level_index := None\<rparr>]\<rparr>)"

lemma demo_parses: "parse_usize ''1'' = Some 1"
  by (simp add: parse_usize_def)

lemma demo_shows: "show_int 100 = ''100''" "show_int 2 = ''2''"
  by code_simp+

definition demo_merged :: AggregatedTradeGroup where
  "demo_merged =
     \<lparr>ag_market = ''usdm'', ag_trade_id = ''t2'', ag_symbol = ''BTCUSDT'', ag_side = ''BUY'', ag_price = ''100'',
      ag_quantity = ''2'', ag_fee_amount = None, ag_fee_asset = None, ag_realized_profit = None,
      ag_traded_at_ms = 2\<rparr>"

lemma demo_merge: "aggregate_trade_group demo_world [demo_trade ''t1'' 1, demo_trade ''t2'' 2] = Inr demo_merged"
  by (simp add: aggregate_trade_group_def add_trade_def demo_trade_def demo_world_def parse_decimal_def
      demo_parses demo_parse demo_shows demo_merged_def)

lemma demo_groups: "group_trades [demo_trade ''t1'' 1, demo_trade ''t2'' 2] = [(''77'', [demo_trade ''t1'' 1, demo_trade ''t2'' 2])]"
  by (simp add: group_trades_def push_group_def demo_trade_def)

definition demo_recovered :: "nat result \<times> (demo_json, unit) trade_sync_state" where
  "demo_recovered = sync_strategy_trades demo_world demo_trades demo_filling (demo_store [demo_filling]) ()"

lemma demo_upper: "to_ascii_uppercase ''PARTIALLY_FILLED'' = ''PARTIALLY_FILLED''" by (simp add: ascii_case_defs)

text \<open>Evaluation of the recovery in three stages: the listing, the group, its report.\<close>

lemmas listing_eval = demo_recovered_def sync_strategy_trades_def demo_trades_def demo_groups Let_def

lemmas group_eval = sync_trade_group_def demo_filling_def demo_strategy_def demo_order_def default_runtime_def
  new_trades_of_def exchange_trade_fill_id_def list_exchange_trade_history_def demo_store_def empty_state_def
  demo_merge demo_response_def demo_upper

lemmas report_eval = trade_report_def demo_merged_def execution_eval demo_parses demo_shows
  advance_grid_cycle_after_fill_def record_group_def parse_decimal_def demo_world_def
  finalize_strategy_after_close_def

lemma demo_recovered_fills:
  "map fi_quantity (rt_fills (st_runtime (ts_strategy (snd demo_recovered)))) = [2]"
  by (simp add: listing_eval, simp add: group_eval, simp add: report_eval)

lemma demo_late_fills:
  "map fi_quantity (rt_fills (st_runtime (snd (apply_execution_update plain_env
     (demo_update ''s1-order-0'' ''PARTIALLY_FILLED'' ''1'') (ts_strategy (snd demo_recovered)))))) = [2, 1]"
  by (simp add: listing_eval, simp add: group_eval, simp add: report_eval)

theorem aggregate_conserves_trades_witness:
  "ag_quantity demo_merged = show_int \<lfloor>sum_list (map (\<lambda>u. parsed demo_world (ut_quantity u))
     [demo_trade ''t1'' 1, demo_trade ''t2'' 2])\<rfloor>"
  using aggregate_conserves_trades [OF _ demo_merge] exact_env.exact_decimal_axioms
  by (simp add: Let_def demo_world_def)

theorem trade_history_grows_once_witness:
  "\<exists>new. es_exchange_trade_history (ts_db (snd demo_recovered)) = map (owned_record plain_env ''a@b.c'') new
     \<and> distinct (map ut_trade_id new)"
proof -
  have "tg_user_trades demo_trades m sym 100 () = (Inr [demo_trade ''t1'' 1, demo_trade ''t2'' 2], ())" for m sym
    by (simp add: demo_trades_def)
  from trade_history_grows_once [OF this, where s = demo_filling and W = demo_world and db = "demo_store [demo_filling]"]
  show ?thesis
    by (auto simp: demo_recovered_def demo_trade_def demo_store_def empty_state_def demo_world_def
          demo_filling_def demo_strategy_def)
qed

text \<open>The two ways a fill reaches a strategy do not agree on its identity: the recovery records the
  trades \<open>t1\<close> and \<open>t2\<close> of an order, one unit each, as one fill of two units under the id of \<open>t2\<close>, and
  when the report of \<open>t1\<close> arrives on the stream afterwards it is recorded as a new fill, so the
  strategy holds three units of the two that were traded.\<close>

theorem late_report_counts_again:
  "fst (tg_user_trades demo_trades ''usdm'' ''BTCUSDT'' 100 ()) = Inr [demo_trade ''t1'' 1, demo_trade ''t2'' 2]
   \<and> map (\<lambda>t. (ut_trade_id t, ut_quantity t)) [demo_trade ''t1'' 1, demo_trade ''t2'' 2] = [(''t1'', ''1''), (''t2'', ''1'')]
   \<and> demo_recovered = sync_strategy_trades demo_world demo_trades demo_filling (demo_store [demo_filling]) ()
   \<and> map fi_quantity (rt_fills (st_runtime (ts_strategy (snd demo_recovered)))) = [2]
   \<and> map fi_quantity (rt_fills (st_runtime (snd (apply_execution_update plain_env
       (demo_update ''s1-order-0'' ''PARTIALLY_FILLED'' ''1'') (ts_strategy (snd demo_recovered)))))) = [2, 1]"
  using demo_recovered_fills demo_late_fills
  by (simp add: demo_trades_def demo_trade_def demo_recovered_def)

end
