(* ===== verification/Billing.thy ===== *)
theory Billing
  imports Lifecycle
begin

text \<open>
  \<^verbatim>\<open>src/apps/billing-chain-listener/src\<close>: amounts in canonical form (\<^verbatim>\<open>order_matcher.rs\<close>), the pool of
  deposit addresses (\<^verbatim>\<open>address_pool.rs\<close>), and the processing of transfers observed on a chain
  (\<^verbatim>\<open>processor.rs\<close>): a transfer that matches exactly one open order, address, asset, amount and
  time, pays it and extends the membership; everything else is recorded for review.
\<close>

subsection \<open>Amounts\<close>

text \<open>\<open>str::split_once\<close> of a character and \<open>trim_start_matches\<close> of a character.\<close>

fun split_once :: "char \<Rightarrow> string \<Rightarrow> (string \<times> string) option" where
  "split_once c [] = None"
| "split_once c (d # s) =
     (if d = c then Some ([], s) else map_option (\<lambda>(a, b). (d # a, b)) (split_once c s))"

definition trim_start_matches :: "char \<Rightarrow> string \<Rightarrow> string" where
  "trim_start_matches c s = dropWhile (\<lambda>d. d = c) s"

definition is_ascii_digit :: "char \<Rightarrow> bool" where
  "is_ascii_digit c \<longleftrightarrow> 48 \<le> (of_char c :: nat) \<and> (of_char c :: nat) \<le> 57"

text \<open>\<open>while normalized_fractional.len() < 8 { push('0') }\<close>.\<close>

function pad_fractional :: "string \<Rightarrow> string" where
  "pad_fractional s = (if length s < 8 then pad_fractional (s @ ''0'') else s)"
  by pat_completeness auto
termination
  by (relation "measure (\<lambda>s. 8 - length s)") auto

declare pad_fractional.simps [simp del]

definition canonicalize_amount :: "string \<Rightarrow> string option" where
  "canonicalize_amount amount =
     (let trimmed = str_trim amount
      in if trimmed = [] then None
         else
           let (whole, fractional) =
                 (case split_once CHR ''.'' trimmed of Some p \<Rightarrow> p | None \<Rightarrow> (trimmed, []))
           in if whole = [] \<or> \<not> list_all is_ascii_digit whole \<or> \<not> list_all is_ascii_digit fractional
                 \<or> length fractional > 8 then None
              else
                let normalized_integer = trim_start_matches CHR ''0'' whole;
                    integer_part = (if normalized_integer = [] then ''0'' else normalized_integer)
                in Some (integer_part @ ''.'' @ pad_fractional fractional))"

record ObservedTransfer =
  ot_chain :: string
  ot_address :: string
  ot_amount :: string
  ot_tx_hash :: string
  ot_observed_at :: datetime

definition matches_assignment :: "AddressAssignment \<Rightarrow> string \<Rightarrow> ObservedTransfer \<Rightarrow> bool option" where
  "matches_assignment assignment expected_amount transfer =
     (if aa_chain assignment = ot_chain transfer \<and> aa_address assignment = ot_address transfer
      then (case canonicalize_amount expected_amount of
              None \<Rightarrow> None
            | Some a \<Rightarrow> (case canonicalize_amount (ot_amount transfer) of
                          None \<Rightarrow> None | Some b \<Rightarrow> Some (a = b)))
      else Some False)"

subsection \<open>The address pool\<close>

record AddressPool =
  ap_chain :: string
  ap_addresses :: "string list"
  ap_next_index :: nat
  ap_lease_duration :: int
  ap_active_leases :: "(string \<times> datetime) list"

definition address_pool_new :: "string \<Rightarrow> string list \<Rightarrow> int \<Rightarrow> AddressPool" where
  "address_pool_new chain addresses lease_duration =
     \<lparr>ap_chain = chain, ap_addresses = addresses, ap_next_index = 0, ap_lease_duration = lease_duration,
      ap_active_leases = []\<rparr>"

definition assign :: "datetime \<Rightarrow> AddressPool \<Rightarrow> AddressAssignment option \<times> AddressPool" where
  "assign requested_at pool =
     (if ap_addresses pool = [] then (None, pool)
      else
        let pool = pool\<lparr>ap_active_leases :=
                     filter (\<lambda>(_, expires_at). expires_at > requested_at) (ap_active_leases pool)\<rparr>;
            total = length (ap_addresses pool)
        in case find (\<lambda>offset. ap_addresses pool ! ((ap_next_index pool + offset) mod total)
                                 \<notin> fst ` set (ap_active_leases pool)) [0..<total] of
             None \<Rightarrow> (None, pool)
           | Some offset \<Rightarrow>
               let index = (ap_next_index pool + offset) mod total;
                   address = ap_addresses pool ! index;
                   expires_at = requested_at + ap_lease_duration pool
               in (Some \<lparr>aa_chain = ap_chain pool, aa_address = address, aa_expires_at = expires_at\<rparr>,
                   pool\<lparr>ap_active_leases := AList.update address expires_at (ap_active_leases pool),
                        ap_next_index := (index + 1) mod total\<rparr>))"

subsection \<open>Transfers\<close>

datatype ProcessorError = InvalidRequest string | Storage string

record ObservedChainTransfer =
  ct_chain :: string
  ct_asset :: string
  ct_address :: string
  ct_amount :: string
  ct_tx_hash :: string
  ct_confirmations :: "u32 option"
  ct_observed_at :: datetime

record ListenerMatchResult =
  lm_matched :: bool
  lm_reason :: "string option"
  lm_deposit_status :: string
  lm_order_id :: "u64 option"

definition duplicate_result :: ListenerMatchResult where
  "duplicate_result =
     \<lparr>lm_matched = False, lm_reason = Some ''duplicate_transaction'',
      lm_deposit_status = ''duplicate_ignored'', lm_order_id = None\<rparr>"

definition find_existing_deposit :: "'j EphemeralState \<Rightarrow> string \<Rightarrow> string \<Rightarrow> DepositTransactionRecord option" where
  "find_existing_deposit db chain tx_hash =
     find (\<lambda>r. dt_chain r = chain \<and> dt_tx_hash r = tx_hash) (list_deposit_transactions db)"

definition normalize_chain_address :: "string \<Rightarrow> string \<Rightarrow> string" where
  "normalize_chain_address chain address =
     (if chain = ''ETH'' \<or> chain = ''BSC'' then to_ascii_lowercase (str_trim address) else str_trim address)"

definition normalize_chain_tx_hash :: "string \<Rightarrow> string \<Rightarrow> string" where
  "normalize_chain_tx_hash chain tx_hash =
     (if chain = ''ETH'' \<or> chain = ''BSC'' then to_ascii_lowercase (str_trim tx_hash) else str_trim tx_hash)"

definition amounts_match :: "string \<Rightarrow> string \<Rightarrow> bool" where
  "amounts_match left right =
     (case (canonicalize_amount left, canonicalize_amount right) of
        (Some l, Some r) \<Rightarrow> l = r | _ \<Rightarrow> False)"

definition read_required_confirmations :: "'j world \<Rightarrow> 'j EphemeralState \<Rightarrow> string \<Rightarrow> u32" where
  "read_required_confirmations W db chain =
     (case (if chain = ''ETH'' then Some ''confirmations.eth''
            else if chain = ''BSC'' then Some ''confirmations.bsc''
            else if chain = ''SOL'' then Some ''confirmations.sol'' else None) of
        None \<Rightarrow> 12
      | Some key \<Rightarrow>
          (case get_system_config db key of
             None \<Rightarrow> 12
           | Some record \<Rightarrow>
               (case Option.bind (j_get W (sc_config_value record) ''value'') (j_u64 W) of
                  None \<Rightarrow> 12
                | Some value \<Rightarrow> if value > 0 \<and> unat value < 2 ^ 32 then of_nat (unat value) else 12)))"

definition entitlement_window ::
  "MembershipRecord option \<Rightarrow> MembershipPlanRecord \<Rightarrow> datetime \<Rightarrow> datetime \<times> datetime" where
  "entitlement_window current plan paid_at =
     (let base =
            (case Option.bind current mr_active_until of
               None \<Rightarrow> paid_at
             | Some active_until \<Rightarrow>
                 if (case Option.bind current mr_grace_until of
                       None \<Rightarrow> False | Some grace_until \<Rightarrow> paid_at \<le> grace_until)
                    \<or> active_until \<ge> paid_at
                 then active_until else paid_at);
          active_until = base + days (sint (mp_duration_days plan))
      in (active_until, active_until + hours 48))"

definition is_address_candidate ::
  "string \<Rightarrow> string \<Rightarrow> datetime \<Rightarrow> BillingOrderRecord \<Rightarrow> bool" where
  "is_address_candidate chain address observed_at order \<longleftrightarrow>
     bo_paid_at order = None \<and> bo_requested_at order \<le> observed_at \<and> bo_chain order = chain
     \<and> (case bo_assignment order of
          None \<Rightarrow> False
        | Some assignment \<Rightarrow> normalize_chain_address chain (aa_address assignment) = address)"

definition is_valid_candidate ::
  "string \<Rightarrow> string \<Rightarrow> datetime \<Rightarrow> BillingOrderRecord \<Rightarrow> bool" where
  "is_valid_candidate asset amount observed_at order \<longleftrightarrow>
     bo_asset order = asset \<and> amounts_match (bo_amount order) amount
     \<and> (case bo_assignment order of None \<Rightarrow> False | Some assignment \<Rightarrow> observed_at \<le> aa_expires_at assignment)"

text \<open>Why a transfer that matches no order, or several, goes to review, and for which order.\<close>

definition review_reason ::
  "string \<Rightarrow> string \<Rightarrow> datetime \<Rightarrow> BillingOrderRecord list \<Rightarrow> BillingOrderRecord list \<Rightarrow> string \<times> u64 option" where
  "review_reason asset amount observed_at address_candidates valid_candidates =
     (if length valid_candidates > 1 then (''ambiguous_match'', None)
      else if length address_candidates > 1 \<and> valid_candidates = [] then
        let reason =
              (if list_ex (\<lambda>order. bo_asset order \<noteq> asset) address_candidates then ''wrong_asset''
               else if list_all (\<lambda>order. case bo_assignment order of
                        None \<Rightarrow> False | Some assignment \<Rightarrow> observed_at > aa_expires_at assignment) address_candidates
               then ''order_expired''
               else ''exact_amount_required'')
        in (reason, if reason = ''order_expired''
                    then map_option bo_order_id (case address_candidates of [] \<Rightarrow> None | o' # _ \<Rightarrow> Some o')
                    else None)
      else
        (case address_candidates of
           order # _ \<Rightarrow>
             if bo_asset order \<noteq> asset then (''wrong_asset'', Some (bo_order_id order))
             else if \<not> amounts_match (bo_amount order) amount
             then (''exact_amount_required'', Some (bo_order_id order))
             else (''order_expired'', Some (bo_order_id order))
         | [] \<Rightarrow> (''order_not_found'', None)))"

definition u64_text :: "u64 \<Rightarrow> string" where
  "u64_text n = show_nat (unat n)"

definition notify_deposit ::
  "'j world \<Rightarrow> BillingOrderRecord \<Rightarrow> string \<Rightarrow> datetime \<Rightarrow> 'j EphemeralState
   \<Rightarrow> (ProcessorError + unit) \<times> 'j EphemeralState" where
  "notify_deposit W order tx_hash observed_at db =
     (let binding = find_telegram_binding W db (bo_email order);
          title = ''Deposit confirmed'';
          message = bo_chain order @ '' '' @ bo_asset order @ '' deposit matched billing order ''
                      @ u64_text (bo_order_id order) @ ''.'';
          telegram_delivered =
            (case (binding, bot_token W) of
               (Some b, Some token) \<Rightarrow> bot_send W token (tb_telegram_chat_id b) title message
             | _ \<Rightarrow> False);
          record = \<lparr>nr_event = \<lparr>ne_email = bo_email order, ne_kind = DepositConfirmed, ne_title = title,
                                ne_message = message,
                                ne_payload = [(''order_id'', u64_text (bo_order_id order)), (''tx_hash'', tx_hash)]\<rparr>,
                    nr_telegram_delivered = telegram_delivered, nr_in_app_delivered = True,
                    nr_show_expiry_popup = False\<rparr>
      in case j_of_record W record of
           None \<Rightarrow> (Inl (Storage ''serialization''), db)
         | Some payload \<Rightarrow>
             (let entry = (\<lambda>channel status delivered_at.
                    \<lparr>nl_user_email = bo_email order, nl_channel = channel,
                     nl_template_key = Some ''DepositConfirmed'', nl_title = title, nl_body = message,
                     nl_status = status, nl_payload = payload, nl_created_at = observed_at,
                     nl_delivered_at = delivered_at\<rparr>);
                  db = insert_notification_log (entry ''in_app'' ''delivered'' (Some observed_at)) db
              in (Inr (),
                  if binding \<noteq> None
                  then insert_notification_log
                         (entry ''telegram'' (if telegram_delivered then ''delivered'' else ''failed'')
                            (if telegram_delivered then Some observed_at else None)) db
                  else db)))"

text \<open>The branch of a transfer that matches exactly one order.\<close>

definition settle_order ::
  "'j world \<Rightarrow> string \<Rightarrow> string \<Rightarrow> string \<Rightarrow> string \<Rightarrow> string \<Rightarrow> u32 \<Rightarrow> datetime \<Rightarrow> BillingOrderRecord
   \<Rightarrow> 'j EphemeralState \<Rightarrow> (ProcessorError + ListenerMatchResult) \<times> 'j EphemeralState" where
  "settle_order W chain asset address amount tx_hash confirmations observed_at order db =
     (let required = read_required_confirmations W db chain;
          db = upsert_deposit_transaction
                 \<lparr>dt_tx_hash = tx_hash, dt_chain = chain, dt_asset = asset, dt_address = address,
                  dt_amount = amount, dt_observed_at = observed_at, dt_order_id = Some (bo_order_id order),
                  dt_status = ''confirming'', dt_review_reason = Some ''awaiting_confirmations'',
                  dt_processed_at = None, dt_matched_order_id = None\<rparr> db
      in if confirmations < required
         then (Inr \<lparr>lm_matched = False, lm_reason = Some ''awaiting_confirmations'',
                     lm_deposit_status = ''confirming'', lm_order_id = Some (bo_order_id order)\<rparr>, db)
         else
           case find (\<lambda>plan. mp_code plan = bo_plan_code order) (list_membership_plans db) of
             None \<Rightarrow> (Inl (InvalidRequest ''plan not configured''), db)
           | Some plan \<Rightarrow>
               let (active_until, grace_until) =
                     entitlement_window (find_membership_record W db (bo_email order)) plan observed_at;
                   db = apply_membership_payment W (bo_order_id order) (bo_chain order) tx_hash observed_at
                          (bo_email order) active_until grace_until db
               in case notify_deposit W order tx_hash observed_at db of
                    (Inl e, db) \<Rightarrow> (Inl e, db)
                  | (Inr _, db) \<Rightarrow>
                      (Inr \<lparr>lm_matched = True, lm_reason = None, lm_deposit_status = ''matched'',
                            lm_order_id = Some (bo_order_id order)\<rparr>, db))"

definition process_observed_transfer ::
  "'j world \<Rightarrow> ObservedChainTransfer \<Rightarrow> 'j EphemeralState
   \<Rightarrow> (ProcessorError + ListenerMatchResult) \<times> 'j EphemeralState" where
  "process_observed_transfer W transfer db =
     (let chain = w_upper W (str_trim (ct_chain transfer));
          asset = w_upper W (str_trim (ct_asset transfer));
          address = normalize_chain_address chain (str_trim (ct_address transfer));
          tx_hash = normalize_chain_tx_hash chain (str_trim (ct_tx_hash transfer));
          observed_at = ct_observed_at transfer
      in if chain = [] then (Inl (InvalidRequest ''invalid chain''), db)
         else if asset = [] then (Inl (InvalidRequest ''invalid asset''), db)
         else if address = [] then (Inl (InvalidRequest ''invalid address''), db)
         else if tx_hash = [] then (Inl (InvalidRequest ''invalid tx_hash''), db)
         else
           case canonicalize_amount (ct_amount transfer) of
             None \<Rightarrow> (Inl (InvalidRequest ''invalid amount''), db)
           | Some amount \<Rightarrow>
               let confirmations = (case ct_confirmations transfer of Some n \<Rightarrow> n | None \<Rightarrow> 0);
                   existing = find_existing_deposit db chain tx_hash
               in if (case existing of None \<Rightarrow> False | Some record \<Rightarrow> dt_status record \<noteq> ''confirming'')
                  then (Inr duplicate_result, db)
                  else
                    let address_candidates =
                          filter (is_address_candidate chain address observed_at) (list_billing_orders db);
                        valid_candidates =
                          filter (is_valid_candidate asset amount observed_at) address_candidates
                    in case valid_candidates of
                         [order] \<Rightarrow>
                           settle_order W chain asset address amount tx_hash confirmations observed_at order db
                       | _ \<Rightarrow>
                           if existing \<noteq> None then (Inr duplicate_result, db)
                           else
                             let (reason, order_id) =
                                   review_reason asset amount observed_at address_candidates valid_candidates
                             in (Inr \<lparr>lm_matched = False, lm_reason = Some reason,
                                      lm_deposit_status = ''manual_review_required'', lm_order_id = order_id\<rparr>,
                                 upsert_deposit_transaction
                                   \<lparr>dt_tx_hash = tx_hash, dt_chain = chain, dt_asset = asset, dt_address = address,
                                    dt_amount = amount, dt_observed_at = observed_at, dt_order_id = order_id,
                                    dt_status = ''manual_review_required'', dt_review_reason = Some reason,
                                    dt_processed_at = None, dt_matched_order_id = None\<rparr> db))"

subsection \<open>Promoting queued orders\<close>

definition distinct_chains :: "BillingOrderRecord list \<Rightarrow> string list" where
  "distinct_chains orders =
     fold (\<lambda>order chains. if bo_chain order \<in> set chains then chains else chains @ [bo_chain order]) orders []"

definition queued_orders :: "string \<Rightarrow> BillingOrderRecord list \<Rightarrow> BillingOrderRecord list" where
  "queued_orders chain orders =
     sort_key (\<lambda>order. case bo_enqueued_at order of Some t \<Rightarrow> t | None \<Rightarrow> bo_requested_at order)
       (filter (\<lambda>order. bo_chain order = chain \<and> bo_paid_at order = None \<and> bo_status order = ''queued'') orders)"

definition promote_order ::
  "datetime \<Rightarrow> string \<Rightarrow> BillingOrderRecord \<Rightarrow> nat \<times> 'j EphemeralState \<Rightarrow> nat \<times> 'j EphemeralState" where
  "promote_order now chain order st =
     (let (promoted, db) = st;
          (assignment, db) = allocate_or_queue_billing_order (bo_order_id order) chain now db
      in (if assignment \<noteq> None then Suc promoted else promoted, db))"

definition promote_due_orders :: "datetime \<Rightarrow> 'j EphemeralState \<Rightarrow> nat \<times> 'j EphemeralState" where
  "promote_due_orders now db =
     (let orders = list_billing_orders db
      in fold (\<lambda>chain st. fold (promote_order now chain) (queued_orders chain orders) st)
           (distinct_chains orders) (0, db))"

end
