(* ===== verification/BillingAmounts.thy ===== *)
theory BillingAmounts
  imports Billing
begin

text \<open>
  Amounts of the listener: two amounts match exactly when they are the same number of units of
  \<open>10 ^ -8\<close>, and the canonical form is a fixed point of the normalisation.
\<close>

subsection \<open>Trimming\<close>

lemma ws_prefix_none: "bs = a # r \<Longrightarrow> 32 < a \<Longrightarrow> a < 128 \<Longrightarrow> ws_prefix bs = 0"
  by (auto simp: ws_prefix.simps split: list.splits)

lemma ws_prefix_ascii: "list_all (\<lambda>a. a < 128) bs \<Longrightarrow> ws_prefix bs \<le> 1"
  by (cases bs rule: ws_prefix.cases) (auto simp: ws_prefix.simps split: list.splits)

lemma ws_suffix_none:
  assumes "bs = a # r" "32 < a" "list_all (\<lambda>a. a < 128) bs"
  shows "ws_suffix bs = 0"
proof -
  have "ws_prefix (rev (take n bs)) \<le> 1" for n
    using assms(3) by (intro ws_prefix_ascii) (auto simp: list_all_iff dest: in_set_takeD)
  from this [of 2] this [of 3] show ?thesis
    using assms by (auto simp: ws_suffix_def ws_prefix_none)
qed

lemma str_trim_ascii:
  assumes "list_all (\<lambda>c. of_char c < (128 :: nat)) s" "s = c # r" "32 < (of_char c :: nat)"
    "32 < (of_char (last s) :: nat)"
  shows "str_trim s = s"
proof -
  let ?b = "map of_char s :: nat list"
  have "ws_prefix ?b = 0" using assms by (intro ws_prefix_none [of _ "of_char c" "map of_char r"]) auto
  then have p: "trim_by ws_prefix ?b = ?b" by (simp add: trim_by.simps)
  obtain a q where q: "rev ?b = a # q" "a = of_char (last s)"
    using assms(2) by (metis last_map list.distinct(1) list.map_disc_iff rev_is_Nil_conv hd_rev list.exhaust_sel)
  have "list_all (\<lambda>a. a < 128) (rev ?b)" using assms(1) by (auto simp: list_all_iff)
  then have "ws_suffix (rev ?b) = 0"
    using assms(4) q by (intro ws_suffix_none [of _ a q]) simp_all
  then have "trim_by ws_suffix (rev ?b) = rev ?b" by (simp add: trim_by.simps)
  with p show ?thesis by (simp add: str_trim_def o_def)
qed

subsection \<open>Digits\<close>

definition digits_value :: "string \<Rightarrow> nat" where
  "digits_value s = foldl (\<lambda>acc c. acc * 10 + (of_char c - 48)) 0 s"

lemma digits_value_Nil [simp]: "digits_value [] = 0"
  by (simp add: digits_value_def)

lemma digits_value_snoc: "digits_value (s @ [c]) = digits_value s * 10 + (of_char c - 48)"
  by (simp add: digits_value_def)

lemma digits_value_append: "digits_value (s @ t) = digits_value s * 10 ^ length t + digits_value t"
  by (induction t rule: rev_induct)
    (simp_all add: digits_value_snoc algebra_simps flip: append_assoc)

lemma digit_value: "is_ascii_digit c \<Longrightarrow> of_char c - 48 \<le> (9 :: nat)"
  unfolding is_ascii_digit_def by linarith

lemma digits_value_bound: "list_all is_ascii_digit s \<Longrightarrow> digits_value s < 10 ^ length s"
proof (induction s rule: rev_induct)
  case (snoc c s)
  then have "digits_value s + 1 \<le> 10 ^ length s" "of_char c - 48 \<le> (9 :: nat)"
    by (auto simp: digit_value)
  then have "digits_value s * 10 + 10 \<le> 10 ^ length s * 10" by linarith
  with \<open>of_char c - 48 \<le> (9 :: nat)\<close> show ?case by (simp add: digits_value_snoc)
qed simp

lemma ascii_digit_inject:
  assumes "is_ascii_digit c" "is_ascii_digit d" "of_char c - 48 = (of_char d - 48 :: nat)"
  shows "c = d"
proof -
  have "of_char c = (of_char d :: nat)" using assms unfolding is_ascii_digit_def by linarith
  then show ?thesis by simp
qed

lemma div_mod_unique:
  "a * 10 + x = b * 10 + y \<Longrightarrow> x \<le> 9 \<Longrightarrow> y \<le> 9 \<Longrightarrow> a = b \<and> x = y" for a b x y :: nat
  by presburger

lemma digits_value_inject:
  "list_all is_ascii_digit s \<Longrightarrow> list_all is_ascii_digit t \<Longrightarrow> length s = length t
   \<Longrightarrow> digits_value s = digits_value t \<Longrightarrow> s = t"
proof (induction s arbitrary: t rule: rev_induct)
  case (snoc c s)
  obtain d t' where t: "t = t' @ [d]" using snoc.prems(3) by (cases t rule: rev_cases) auto
  have c: "is_ascii_digit c" and d: "is_ascii_digit d" using snoc t by auto
  have "digits_value s * 10 + (of_char c - 48) = digits_value t' * 10 + (of_char d - 48)"
    using snoc.prems(4) by (simp add: t digits_value_snoc)
  from div_mod_unique [OF this digit_value [OF c] digit_value [OF d]]
  have "digits_value s = digits_value t' \<and> of_char c - 48 = (of_char d - 48 :: nat)" .
  then have "c = d" "digits_value s = digits_value t'" using ascii_digit_inject [OF c d] by blast+
  with snoc.IH [of t'] snoc.prems t show ?case by simp
qed simp

lemma digits_value_lead:
  assumes "is_ascii_digit c" "c \<noteq> CHR ''0''"
  shows "10 ^ length s \<le> digits_value (c # s)"
proof -
  have "digits_value (c # s) = digits_value [c] * 10 ^ length s + digits_value s"
    using digits_value_append [of "[c]" s] by simp
  moreover have "1 \<le> digits_value [c]"
    using assms ascii_digit_inject [of c "CHR ''0''"]
    by (cases "of_char c - (48 :: nat)") (auto simp: digits_value_def is_ascii_digit_def)
  ultimately show ?thesis by (metis mult_1 mult_le_mono1 le_add1 order_trans)
qed

lemma digits_value_trim [simp]: "digits_value (trim_start_matches CHR ''0'' s) = digits_value s"
proof (induction s)
  case (Cons c s)
  have "digits_value (CHR ''0'' # s) = digits_value s"
    using digits_value_append [of "''0''" s] by (simp add: digits_value_def)
  with Cons show ?case by (simp add: trim_start_matches_def)
qed (simp add: trim_start_matches_def)

subsection \<open>Canonical amounts\<close>

text \<open>The amount a string stands for, in units of \<open>10 ^ -8\<close>.\<close>

definition amount_units :: "string \<Rightarrow> nat option" where
  "amount_units s =
     (let (whole, fraction) =
            (case split_once CHR ''.'' (str_trim s) of Some p \<Rightarrow> p | None \<Rightarrow> (str_trim s, []))
      in if whole \<noteq> [] \<and> list_all is_ascii_digit (whole @ fraction) \<and> length fraction \<le> 8
         then Some (digits_value whole * 10 ^ 8 + digits_value fraction * 10 ^ (8 - length fraction))
         else None)"

definition plain :: "string \<Rightarrow> bool" where
  "plain w \<longleftrightarrow> w = ''0'' \<or> w \<noteq> [] \<and> hd w \<noteq> CHR ''0''"

inductive canonical :: "string \<Rightarrow> nat \<Rightarrow> bool" where
  "list_all is_ascii_digit whole \<Longrightarrow> list_all is_ascii_digit fraction \<Longrightarrow> length fraction = 8
   \<Longrightarrow> plain whole
   \<Longrightarrow> canonical (whole @ ''.'' @ fraction) (digits_value whole * 10 ^ 8 + digits_value fraction)"

lemma pad_fractional_eq: "pad_fractional s = s @ replicate (8 - length s) CHR ''0''"
proof (induction s rule: pad_fractional.induct)
  case (1 s)
  show ?case
  proof (cases "length s < 8")
    case True
    then have "8 - length s = Suc (8 - length (s @ ''0''))" by simp
    with 1 [OF True] True show ?thesis by (subst pad_fractional.simps) simp
  qed (simp add: pad_fractional.simps)
qed

lemma digits_value_zeros [simp]: "digits_value (replicate n CHR ''0'') = 0"
  by (induction n) (simp_all add: digits_value_snoc replicate_append_same [symmetric])

lemma zero_digit [simp]: "is_ascii_digit CHR ''0''"
  by (simp add: is_ascii_digit_def)

lemma dot_not_digit: "list_all is_ascii_digit s \<Longrightarrow> CHR ''.'' \<notin> set s"
  by (auto simp: list_all_iff is_ascii_digit_def)

lemma split_once_append: "c \<notin> set s \<Longrightarrow> split_once c (s @ c # t) = Some (s, t)"
  by (induction s) auto

lemma canonicalize_canonical:
  "canonicalize_amount s = Some c \<Longrightarrow> \<exists>u. amount_units s = Some u \<and> canonical c u"
proof -
  assume a: "canonicalize_amount s = Some c"
  obtain whole fraction where p:
    "(case split_once CHR ''.'' (str_trim s) of Some p \<Rightarrow> p | None \<Rightarrow> (str_trim s, [])) = (whole, fraction)"
    by (meson surj_pair)
  let ?z = "trim_start_matches CHR ''0'' whole" and ?f = "pad_fractional fraction"
  let ?w = "if ?z = [] then ''0'' else ?z"
  from a p have w: "whole \<noteq> []" "list_all is_ascii_digit whole" "list_all is_ascii_digit fraction"
      "length fraction \<le> 8" and c: "c = ?w @ ''.'' @ ?f"
    by (auto simp: canonicalize_amount_def Let_def split: if_splits)
  have z: "list_all is_ascii_digit ?z" "?z = [] \<or> hd ?z \<noteq> CHR ''0''"
    using w(2) hd_dropWhile [of "\<lambda>d. d = CHR ''0''" whole]
    by (auto simp: trim_start_matches_def list_all_iff dest: set_dropWhileD)
  have v: "digits_value ?w = digits_value whole"
    using digits_value_trim [of whole] by (cases "?z = []") (simp_all add: digits_value_def)
  have f: "digits_value ?f = digits_value fraction * 10 ^ (8 - length fraction)"
    by (simp add: pad_fractional_eq digits_value_append)
  have "canonical c (digits_value ?w * 10 ^ 8 + digits_value ?f)"
    unfolding c using z w by (intro canonical.intros) (auto simp: pad_fractional_eq list_all_iff plain_def)
  moreover have "amount_units s = Some (digits_value ?w * 10 ^ 8 + digits_value ?f)"
    using p w by (simp only: v f) (simp add: amount_units_def)
  ultimately show ?thesis by blast
qed

lemma canonicalize_none: "canonicalize_amount s = None \<longleftrightarrow> amount_units s = None"
proof (cases "str_trim s = []")
  case True
  then show ?thesis by (simp add: canonicalize_amount_def amount_units_def)
next
  case False
  then show ?thesis
    by (auto simp: canonicalize_amount_def amount_units_def Let_def split: prod.splits)
qed

lemma plain_length:
  assumes "plain w" "list_all is_ascii_digit w"
  shows "w = ''0'' \<and> digits_value w = 0 \<or> 10 ^ (length w - 1) \<le> digits_value w"
  using assms digits_value_lead [of "hd w" "tl w"]
  by (cases w) (auto simp: plain_def digits_value_def)

lemma plain_unique:
  assumes "plain w" "plain w'" "list_all is_ascii_digit w" "list_all is_ascii_digit w'"
    and e: "digits_value w = digits_value w'"
  shows "w = w'"
proof (rule digits_value_inject [OF assms(3,4) _ e])
  have len: "length x \<le> length y"
    if "plain x" "list_all is_ascii_digit x" "list_all is_ascii_digit y" "y \<noteq> []"
      "digits_value x = digits_value y" for x y
  proof -
    note y = digits_value_bound [OF that(3)]
    from plain_length [OF that(1,2)] have "length x \<le> 1 \<or> length x - 1 < length y"
    proof
      assume "10 ^ (length x - 1) \<le> digits_value x"
      with y that(5) have "(10 :: nat) ^ (length x - 1) < 10 ^ length y" by linarith
      then show ?thesis by (simp only: power_strict_increasing_iff [of "10 :: nat"]) simp
    qed auto
    then show ?thesis using that(4) by (cases y) auto
  qed
  have "w \<noteq> []" "w' \<noteq> []" using assms by (auto simp: plain_def)
  with len [of w w'] len [of w' w] assms show "length w = length w'" by force
qed

lemma canonical_unique: "canonical c u \<Longrightarrow> canonical d u \<Longrightarrow> c = d"
proof (elim canonical.cases, goal_cases)
  case (1 w f w' f')
  have b: "digits_value f < 10 ^ 8" "digits_value f' < 10 ^ 8"
    using 1 digits_value_bound [of f] digits_value_bound [of f'] by simp_all
  then have e: "digits_value w = digits_value w'" "digits_value f = digits_value f'"
    using 1 by (metis (no_types, opaque_lifting) add.commute div_less div_mult_self1 add_cancel_right_left mod_less mod_mult_self1 power_not_zero zero_neq_numeral)+
  then have "f = f'" using 1 digits_value_inject [of f f'] by simp
  moreover have "w = w'" using 1 e by (intro plain_unique)
  ultimately show ?case using 1 by simp
qed

lemma canonical_det: "canonical c u \<Longrightarrow> canonical c v \<Longrightarrow> u = v"
  by (elim canonical.cases) (force dest: split_once_append [OF dot_not_digit])

lemma canonical_fixed: "canonical c u \<Longrightarrow> canonicalize_amount c = Some c"
proof (elim canonical.cases, goal_cases)
  case (1 w f)
  have ne: "w \<noteq> []" "f \<noteq> []" using 1 by (auto simp: plain_def)
  have "str_trim c = c"
  proof (rule str_trim_ascii)
    show "list_all (\<lambda>c. of_char c < (128 :: nat)) c"
      using 1 by (fastforce simp: list_all_iff is_ascii_digit_def)
    show "c = hd w # tl w @ ''.'' @ f" using 1 ne by simp
    show "32 < (of_char (hd w) :: nat)" using 1 ne by (cases w) (auto simp: is_ascii_digit_def)
    have "is_ascii_digit (last f)" using 1 ne by (simp add: list_all_iff)
    then show "32 < (of_char (last c) :: nat)" using 1 ne by (auto simp: is_ascii_digit_def)
  qed
  moreover have "split_once CHR ''.'' c = Some (w, f)"
    using 1 split_once_append [OF dot_not_digit, of w f] by simp
  moreover have "(if trim_start_matches CHR ''0'' w = [] then ''0'' else trim_start_matches CHR ''0'' w) = w"
    using 1 by (cases w) (auto simp: plain_def trim_start_matches_def)
  ultimately show ?case
    using 1 ne by (simp add: canonicalize_amount_def pad_fractional_eq Let_def)
qed

lemma match_units: "amounts_match l r \<longleftrightarrow> amount_units l \<noteq> None \<and> amount_units l = amount_units r"
  using canonicalize_canonical [of l] canonicalize_canonical [of r]
    canonicalize_none [of l] canonicalize_none [of r]
  by (auto simp: amounts_match_def split: option.splits dest: canonical_unique canonical_det)

text \<open>Payments are matched by value: two amount strings match exactly when both are well-formed and
  stand for the same number of units of \<open>10 ^ -8\<close>, whatever leading zeros, missing digits or
  spaces they have; normalising a normalised amount changes nothing.\<close>

theorem amounts_match_by_value:
  "(amounts_match l r \<longleftrightarrow> amount_units l \<noteq> None \<and> amount_units l = amount_units r)
   \<and> Option.bind (canonicalize_amount l) canonicalize_amount = canonicalize_amount l"
proof
  show "amounts_match l r \<longleftrightarrow> amount_units l \<noteq> None \<and> amount_units l = amount_units r"
    by (rule match_units)
  show "Option.bind (canonicalize_amount l) canonicalize_amount = canonicalize_amount l"
    using canonicalize_canonical [of l] canonical_fixed by (cases "canonicalize_amount l") auto
qed

end
