(* ===== verification/BillingRuns.thy ===== *)
theory BillingRuns
  imports BillingAmounts
begin

text \<open>
  Runs of the deposit listener over the store. What one observed transfer may do is the relation
  \<open>transfer_effect\<close>, to which \<open>process_observed_transfer\<close> is reduced once; a transaction that was
  matched or sent to review is final, and an order that is paid is never paid again.
\<close>

subsection \<open>Tables\<close>

lemma list_all_modify_key:
  "list_all P xs \<Longrightarrow> (\<And>v. P (k, v) \<Longrightarrow> P (k, f v)) \<Longrightarrow> list_all P (modify_key k f xs)"
  by (induction xs) (auto simp: modify_key_def)

lemma list_all_AList_update: "list_all P xs \<Longrightarrow> P (k, v) \<Longrightarrow> list_all P (AList.update k v xs)"
  by (induction xs) auto

subsection \<open>Well-keyed stores\<close>

definition orders_keyed :: "'j EphemeralState \<Rightarrow> bool" where
  "orders_keyed db \<longleftrightarrow> distinct (map fst (es_billing_orders db))
     \<and> list_all (\<lambda>(k, order). bo_order_id order = k) (es_billing_orders db)"

definition plain_chain :: "string \<Rightarrow> bool" where
  "plain_chain chain \<longleftrightarrow> CHR '':'' \<notin> set chain"

definition deposits_keyed :: "'j EphemeralState \<Rightarrow> bool" where
  "deposits_keyed db \<longleftrightarrow> distinct (map fst (es_deposit_transactions db))
     \<and> list_all (\<lambda>(k, d). k = deposit_key (dt_chain d) (dt_tx_hash d) \<and> plain_chain (dt_chain d))
         (es_deposit_transactions db)"

lemma deposit_key_inject:
  assumes "plain_chain c" "plain_chain c'"
  shows "deposit_key c h = deposit_key c' h' \<longleftrightarrow> c = c' \<and> h = h'"
proof
  assume "deposit_key c h = deposit_key c' h'"
  then have "split_once CHR '':'' (c @ CHR '':'' # h) = split_once CHR '':'' (c' @ CHR '':'' # h')"
    by (simp add: deposit_key_def)
  moreover have "split_once CHR '':'' (c @ CHR '':'' # h) = Some (c, h)"
      "split_once CHR '':'' (c' @ CHR '':'' # h') = Some (c', h')"
    using assms by (auto simp: plain_chain_def intro: split_once_append)
  ultimately show "c = c' \<and> h = h'" by simp
qed simp

lemma existing_map_of:
  assumes "deposits_keyed db" "plain_chain chain"
  shows "find_existing_deposit db chain h = map_of (es_deposit_transactions db) (deposit_key chain h)"
proof -
  have "list_all (\<lambda>(k, d). k = deposit_key (dt_chain d) (dt_tx_hash d) \<and> plain_chain (dt_chain d)) xs
     \<Longrightarrow> find (\<lambda>r. dt_chain r = chain \<and> dt_tx_hash r = h) (map snd xs) = map_of xs (deposit_key chain h)"
    for xs :: "(string \<times> DepositTransactionRecord) list"
    using assms(2) by (induction xs) (auto simp: deposit_key_inject)
  from this [of "es_deposit_transactions db"] assms(1) show ?thesis
    by (simp add: find_existing_deposit_def list_deposit_transactions_def deposits_keyed_def)
qed

lemma order_map_of:
  "orders_keyed db \<Longrightarrow> order \<in> set (list_billing_orders db)
   \<longleftrightarrow> map_of (es_billing_orders db) (bo_order_id order) = Some order"
  unfolding orders_keyed_def list_billing_orders_def
  by (auto simp: list_all_iff intro!: map_of_is_SomeI dest!: map_of_SomeD intro: rev_image_eqI)

subsection \<open>One transfer\<close>

definition transfer_chain :: "'j world \<Rightarrow> ObservedChainTransfer \<Rightarrow> string" where
  "transfer_chain W t = w_upper W (str_trim (ct_chain t))"

definition transfer_hash :: "'j world \<Rightarrow> ObservedChainTransfer \<Rightarrow> string" where
  "transfer_hash W t = normalize_chain_tx_hash (transfer_chain W t) (str_trim (ct_tx_hash t))"

definition paid_order :: "ProcessorError + ListenerMatchResult \<Rightarrow> u64 option" where
  "paid_order res = (case res of Inl _ \<Rightarrow> None | Inr r \<Rightarrow> if lm_matched r then lm_order_id r else None)"

definition settled :: "'j EphemeralState \<Rightarrow> string \<Rightarrow> string \<Rightarrow> bool" where
  "settled db chain h \<longleftrightarrow>
     (case find_existing_deposit db chain h of None \<Rightarrow> False | Some d \<Rightarrow> dt_status d \<noteq> ''confirming'')"

text \<open>The orders a transfer could pay.\<close>

definition candidates :: "'j world \<Rightarrow> ObservedChainTransfer \<Rightarrow> 'j EphemeralState \<Rightarrow> BillingOrderRecord list" where
  "candidates W t db =
     filter (\<lambda>order. is_address_candidate (transfer_chain W t)
               (normalize_chain_address (transfer_chain W t) (str_trim (ct_address t))) (ct_observed_at t) order
             \<and> is_valid_candidate (w_upper W (str_trim (ct_asset t))) (ct_amount t) (ct_observed_at t) order)
       (list_billing_orders db)"

text \<open>The store after the order of a transfer was paid.\<close>

definition pay ::
  "'j world \<Rightarrow> ObservedChainTransfer \<Rightarrow> DepositTransactionRecord \<Rightarrow> MembershipPlanRecord \<Rightarrow> BillingOrderRecord
   \<Rightarrow> 'j EphemeralState \<Rightarrow> 'j EphemeralState" where
  "pay W t d plan order db =
     (let (active_until, grace_until) =
            entitlement_window (find_membership_record W db (bo_email order)) plan (ct_observed_at t)
      in apply_membership_payment W (bo_order_id order) (bo_chain order) (transfer_hash W t) (ct_observed_at t)
           (bo_email order) active_until grace_until (upsert_deposit_transaction d db))"

inductive transfer_effect ::
  "'j world \<Rightarrow> ObservedChainTransfer \<Rightarrow> 'j EphemeralState
   \<Rightarrow> ProcessorError + ListenerMatchResult \<Rightarrow> 'j EphemeralState \<Rightarrow> bool" for W t db where
  ignored: "paid_order res = None \<Longrightarrow> transfer_effect W t db res db"
| recorded: "paid_order res = None \<Longrightarrow> \<not> settled db (transfer_chain W t) (transfer_hash W t)
    \<Longrightarrow> dt_chain d = transfer_chain W t \<Longrightarrow> dt_tx_hash d = transfer_hash W t
    \<Longrightarrow> transfer_effect W t db res (upsert_deposit_transaction d db)"
| paid: "paid_order res = Some (bo_order_id order) \<or> (\<exists>e. res = Inl (Storage e))
    \<Longrightarrow> \<not> settled db (transfer_chain W t) (transfer_hash W t)
    \<Longrightarrow> candidates W t db = [order]
    \<Longrightarrow> read_required_confirmations W db (transfer_chain W t) \<le> (case ct_confirmations t of Some n \<Rightarrow> n | None \<Rightarrow> 0)
    \<Longrightarrow> plan \<in> set (list_membership_plans db) \<Longrightarrow> mp_code plan = bo_plan_code order
    \<Longrightarrow> dt_chain d = transfer_chain W t \<Longrightarrow> dt_tx_hash d = transfer_hash W t
    \<Longrightarrow> transfer_effect W t db res ((pay W t d plan order db)\<lparr>es_notification_logs := logs\<rparr>)"

lemma canonicalize_fixed: "canonicalize_amount s = Some c \<Longrightarrow> canonicalize_amount c = Some c"
  using canonicalize_canonical canonical_fixed by blast

lemma canonical_amount_match:
  "canonicalize_amount s = Some c \<Longrightarrow> amounts_match x c = amounts_match x s"
  by (simp add: amounts_match_def canonicalize_fixed)

lemma valid_candidates_eq:
  "canonicalize_amount (ct_amount t) = Some amount
   \<Longrightarrow> filter (is_valid_candidate (w_upper W (str_trim (ct_asset t))) amount (ct_observed_at t))
         (filter (is_address_candidate (transfer_chain W t)
            (normalize_chain_address (transfer_chain W t) (str_trim (ct_address t))) (ct_observed_at t))
           (list_billing_orders db)) = candidates W t db"
  by (simp add: candidates_def is_valid_candidate_def canonical_amount_match conj_commute cong: filter_cong)

definition only_logs :: "'j EphemeralState \<Rightarrow> 'j EphemeralState \<Rightarrow> bool" where
  "only_logs db db' \<longleftrightarrow> db' = db\<lparr>es_notification_logs := es_notification_logs db'\<rparr>"

lemma only_logs_refl [simp]: "only_logs db db"
  by (simp add: only_logs_def)

lemma only_logs_insert [simp]: "only_logs db (insert_notification_log r db') \<longleftrightarrow> only_logs db db'"
  by (cases db; cases db') (auto simp: only_logs_def insert_notification_log_def)

lemma notify_deposit_logs: "only_logs db (snd (notify_deposit W order h t db))"
  by (simp add: notify_deposit_def Let_def split: option.split)

lemma notify_deposit_error: "fst (notify_deposit W order h t db) = Inl e \<Longrightarrow> \<exists>s. e = Storage s"
  by (auto simp: notify_deposit_def Let_def split: option.splits)

lemma settle_order_effect:
  assumes c: "candidates W t db = [order]" and s: "\<not> settled db (transfer_chain W t) (transfer_hash W t)"
    and p: "settle_order W (transfer_chain W t) asset address amount (transfer_hash W t)
              conf (ct_observed_at t) order db = (res, db')"
    and conf: "conf = (case ct_confirmations t of Some n \<Rightarrow> n | None \<Rightarrow> 0)"
  shows "transfer_effect W t db res db'"
proof -
  let ?d = "\<lparr>dt_tx_hash = transfer_hash W t, dt_chain = transfer_chain W t, dt_asset = asset, dt_address = address,
     dt_amount = amount, dt_observed_at = ct_observed_at t, dt_order_id = Some (bo_order_id order),
     dt_status = ''confirming'', dt_review_reason = Some ''awaiting_confirmations'',
     dt_processed_at = None, dt_matched_order_id = None\<rparr>"
  have u: "list_membership_plans (upsert_deposit_transaction ?d db) = list_membership_plans db"
    "find_membership_record W (upsert_deposit_transaction ?d db) e = find_membership_record W db e" for e
    by (simp_all add: list_membership_plans_def find_membership_record_def upsert_deposit_transaction_def)
  consider "paid_order res = None" "db' = upsert_deposit_transaction ?d db"
    | plan where "paid_order res = Some (bo_order_id order) \<or> (\<exists>e. res = Inl (Storage e))"
        "read_required_confirmations W db (transfer_chain W t) \<le> conf"
        "find (\<lambda>plan. mp_code plan = bo_plan_code order) (list_membership_plans db) = Some plan"
        "db' = snd (notify_deposit W order (transfer_hash W t) (ct_observed_at t) (pay W t ?d plan order db))"
  proof (cases "conf < read_required_confirmations W db (transfer_chain W t)")
    case True
    then show ?thesis using p that(1) by (auto simp: settle_order_def paid_order_def Let_def)
  next
    case False
    show ?thesis
    proof (cases "find (\<lambda>plan. mp_code plan = bo_plan_code order) (list_membership_plans db)")
      case None
      with False show ?thesis using p that(1) by (simp add: settle_order_def u paid_order_def Let_def) auto
    next
      case (Some plan)
      with False p have "db' = snd (notify_deposit W order (transfer_hash W t) (ct_observed_at t) (pay W t ?d plan order db))"
        "paid_order res = Some (bo_order_id order) \<or> (\<exists>e. res = Inl (Storage e))"
        by (auto simp: settle_order_def u pay_def paid_order_def Let_def split_beta notify_deposit_error
            split: sum.splits)
      with Some False show ?thesis using that(2) by simp
    qed
  qed
  then show ?thesis
  proof cases
    case 1
    then show ?thesis using s by (auto intro: recorded)
  next
    case (2 plan)
    have "db' = (pay W t ?d plan order db)\<lparr>es_notification_logs := es_notification_logs db'\<rparr>"
      using notify_deposit_logs [of "pay W t ?d plan order db"] unfolding 2(4) only_logs_def .
    moreover have "plan \<in> set (list_membership_plans db)" "mp_code plan = bo_plan_code order"
      using 2(3) by (auto simp: find_Some_iff)
    ultimately show ?thesis
      using paid [of res order db W t plan ?d "es_notification_logs db'"] 2(1,2) s c conf by simp
  qed
qed

lemma process_effect:
  assumes "process_observed_transfer W t db = (res, db')"
  shows "transfer_effect W t db res db'"
proof -
  let ?ch = "transfer_chain W t" and ?h = "transfer_hash W t"
  let ?asset = "w_upper W (str_trim (ct_asset t))"
  let ?addr = "normalize_chain_address ?ch (str_trim (ct_address t))"
  let ?conf = "case ct_confirmations t of Some n \<Rightarrow> n | None \<Rightarrow> 0"
  have none: "paid_order (Inl e) = None" "paid_order (Inr duplicate_result) = None"
    "lm_matched r = False \<Longrightarrow> paid_order (Inr r) = None" for e r
    by (simp_all add: paid_order_def duplicate_result_def)
  show ?thesis
  proof (cases "?ch = [] \<or> ?asset = [] \<or> ?addr = [] \<or> ?h = [] \<or> canonicalize_amount (ct_amount t) = None
      \<or> settled db ?ch ?h")
    case True
    then have "db' = db \<and> paid_order res = None"
      using assms by (auto simp: process_observed_transfer_def Let_def transfer_chain_def transfer_hash_def
          settled_def none split: if_splits option.splits)
    then show ?thesis by (auto intro: ignored)
  next
    case False
    then obtain amount where amount: "canonicalize_amount (ct_amount t) = Some amount" by auto
    from False amount assms have eq:
      "(case candidates W t db of
          [order] \<Rightarrow> settle_order W ?ch ?asset ?addr amount ?h ?conf (ct_observed_at t) order db
        | _ \<Rightarrow> if find_existing_deposit db ?ch ?h \<noteq> None then (Inr duplicate_result, db)
               else let (reason, order_id) = review_reason ?asset amount (ct_observed_at t)
                          (filter (is_address_candidate ?ch ?addr (ct_observed_at t)) (list_billing_orders db))
                          (candidates W t db)
                    in (Inr \<lparr>lm_matched = False, lm_reason = Some reason,
                          lm_deposit_status = ''manual_review_required'', lm_order_id = order_id\<rparr>,
                        upsert_deposit_transaction
                          \<lparr>dt_tx_hash = ?h, dt_chain = ?ch, dt_asset = ?asset, dt_address = ?addr,
                           dt_amount = amount, dt_observed_at = ct_observed_at t, dt_order_id = order_id,
                           dt_status = ''manual_review_required'', dt_review_reason = Some reason,
                           dt_processed_at = None, dt_matched_order_id = None\<rparr> db)) = (res, db')"
      unfolding process_observed_transfer_def settled_def
      by (simp add: Let_def valid_candidates_eq [OF amount, symmetric] transfer_chain_def transfer_hash_def
          cong: list.case_cong if_cong)
    consider order where "candidates W t db = [order]"
        "settle_order W ?ch ?asset ?addr amount ?h ?conf (ct_observed_at t) order db = (res, db')"
      | "db' = db" "paid_order res = None"
      | d where "paid_order res = None" "db' = upsert_deposit_transaction d db" "dt_chain d = ?ch" "dt_tx_hash d = ?h"
      using eq by (cases "candidates W t db" rule: remdups_adj.cases)
        (auto simp: none split_beta split: if_splits)
    then show ?thesis
    proof cases
      case (1 order)
      then show ?thesis using False settle_order_effect by blast
    next
      case (3 d)
      then show ?thesis using False by (auto intro: recorded)
    qed (auto intro: ignored)
  qed
qed

subsection \<open>What a transfer keeps\<close>

definition order_paid :: "'j EphemeralState \<Rightarrow> u64 \<Rightarrow> bool" where
  "order_paid db k \<longleftrightarrow>
     (case map_of (es_billing_orders db) k of None \<Rightarrow> False | Some order \<Rightarrow> bo_paid_at order \<noteq> None)"

lemma upsert_deposit_tables [simp]:
  "es_billing_orders (upsert_deposit_transaction d db) = es_billing_orders db"
  "es_deposit_transactions (upsert_deposit_transaction d db)
   = AList.update (deposit_key (dt_chain d) (dt_tx_hash d)) d (es_deposit_transactions db)"
  by (simp_all add: upsert_deposit_transaction_def)

lemma pay_tables:
  "es_billing_orders (pay W t d plan order db) = modify_key (bo_order_id order)
     (\<lambda>order. order\<lparr>bo_paid_at := Some (ct_observed_at t), bo_tx_hash := Some (transfer_hash W t),
        bo_status := ''paid'', bo_enqueued_at := None\<rparr>) (es_billing_orders db)"
  "es_deposit_transactions (pay W t d plan order db) = modify_key (deposit_key (bo_chain order) (transfer_hash W t))
     (\<lambda>deposit. deposit\<lparr>dt_order_id := Some (bo_order_id order), dt_matched_order_id := Some (bo_order_id order),
        dt_status := ''matched''\<rparr>)
     (AList.update (deposit_key (dt_chain d) (dt_tx_hash d)) d (es_deposit_transactions db))"
  by (simp_all add: pay_def apply_membership_payment_def split_beta)

lemma candidate_order:
  assumes "candidates W t db = [order]"
  shows "order \<in> set (list_billing_orders db)" "bo_paid_at order = None" "bo_chain order = transfer_chain W t"
proof -
  have "order \<in> set (candidates W t db)" using assms by simp
  then show "order \<in> set (list_billing_orders db)" "bo_paid_at order = None" "bo_chain order = transfer_chain W t"
    by (auto simp: candidates_def is_address_candidate_def)
qed

lemma effect_keyed:
  assumes "transfer_effect W t db res db'" "plain_chain (transfer_chain W t)"
    "deposits_keyed db" "orders_keyed db"
  shows "deposits_keyed db' \<and> orders_keyed db'"
  using assms(1)
proof cases
  case (paid order plan d logs)
  note o = candidate_order [OF paid(4)]
  show ?thesis
    using assms paid(8,9) o(3) unfolding paid(1) deposits_keyed_def orders_keyed_def
    by (auto simp: pay_tables distinct_update intro!: list_all_modify_key list_all_AList_update)
qed (use assms in \<open>auto simp: deposits_keyed_def orders_keyed_def distinct_update intro!: list_all_AList_update\<close>)

lemma effect_keeps_paid: "transfer_effect W t db res db' \<Longrightarrow> order_paid db k \<Longrightarrow> order_paid db' k"
  by (erule transfer_effect.cases)
    (auto simp: order_paid_def pay_tables map_of_modify_key split: option.splits)

lemma effect_keeps_settled:
  assumes e: "transfer_effect W t db res db'" and "plain_chain (transfer_chain W t)" "plain_chain chain"
    and k: "deposits_keyed db" "orders_keyed db" and s: "settled db chain h"
  shows "settled db' chain h"
  using e
proof cases
  case (paid order plan d logs)
  note o = candidate_order [OF paid(4)]
  have "\<not> (transfer_chain W t = chain \<and> transfer_hash W t = h)" using paid(3) s by auto
  then have "map_of (es_deposit_transactions db') (deposit_key chain h)
      = map_of (es_deposit_transactions db) (deposit_key chain h)"
    using assms(2,3) o(3) unfolding paid(1)
    by (auto simp: pay_tables map_of_modify_key update_conv deposit_key_inject paid(8,9))
  with s effect_keyed [OF e assms(2) k] assms(3) k show ?thesis
    by (simp add: settled_def existing_map_of)
next
  case (recorded d)
  have "\<not> (transfer_chain W t = chain \<and> transfer_hash W t = h)" using recorded(3) s by auto
  then have "map_of (es_deposit_transactions db') (deposit_key chain h)
      = map_of (es_deposit_transactions db) (deposit_key chain h)"
    using assms(2,3) unfolding recorded(1)
    by (auto simp: update_conv deposit_key_inject recorded(4,5))
  with s effect_keyed [OF e assms(2) k] assms(3) k show ?thesis
    by (simp add: settled_def existing_map_of)
qed (use s in simp)

lemma effect_pays:
  assumes e: "transfer_effect W t db res db'" and p: "plain_chain (transfer_chain W t)"
    and k: "deposits_keyed db" "orders_keyed db" and m: "paid_order res = Some m"
  shows "\<not> settled db (transfer_chain W t) (transfer_hash W t) \<and> \<not> order_paid db m
    \<and> settled db' (transfer_chain W t) (transfer_hash W t) \<and> order_paid db' m"
  using e
proof cases
  case (paid order plan d logs)
  note o = candidate_order [OF paid(4)]
  have m: "m = bo_order_id order" using m paid(2) by (auto simp: paid_order_def)
  have "map_of (es_billing_orders db) m = Some order" using o(1) k(2) order_map_of m by blast
  then have "\<not> order_paid db m" "order_paid db' m" using o(2) m unfolding paid(1)
    by (simp_all add: order_paid_def pay_tables map_of_modify_key)
  moreover have "settled db' (transfer_chain W t) (transfer_hash W t)"
    using effect_keyed [OF e p k] p o(3) paid(8,9)
    by (simp add: settled_def existing_map_of) (simp add: paid(1) pay_tables map_of_modify_key update_conv)
  ultimately show ?thesis using paid(3) by blast
qed (use m in auto)

subsection \<open>Runs\<close>

primrec process_transfers ::
  "'j world \<Rightarrow> ObservedChainTransfer list \<Rightarrow> 'j EphemeralState \<Rightarrow> (ProcessorError + ListenerMatchResult) list" where
  "process_transfers W [] db = []"
| "process_transfers W (t # ts) db =
     (case process_observed_transfer W t db of (res, db) \<Rightarrow> res # process_transfers W ts db)"

lemma later_not_paid:
  assumes "deposits_keyed db" "orders_keyed db" "list_all (\<lambda>t. plain_chain (transfer_chain W t)) ts"
    and "i < length ts" "paid_order (process_transfers W ts db ! i) = Some n"
  shows "\<not> settled db (transfer_chain W (ts ! i)) (transfer_hash W (ts ! i)) \<and> \<not> order_paid db n"
  using assms
proof (induction ts arbitrary: db i)
  case (Cons t ts)
  obtain res db' where p: "process_observed_transfer W t db = (res, db')" by fastforce
  note e = process_effect [OF p]
  have plain: "plain_chain (transfer_chain W t)" using Cons.prems(3) by simp
  show ?case
  proof (cases i)
    case 0
    then show ?thesis using effect_pays [OF e plain Cons.prems(1,2)] Cons.prems(5) p by simp
  next
    case (Suc j)
    have "\<not> settled db' (transfer_chain W (ts ! j)) (transfer_hash W (ts ! j)) \<and> \<not> order_paid db' n"
      using Cons.prems Suc p effect_keyed [OF e plain Cons.prems(1,2)] by (intro Cons.IH) auto
    moreover have "plain_chain (transfer_chain W (ts ! j))"
      using Cons.prems(3,4) Suc by (auto simp: list_all_length)
    ultimately show ?thesis
      using effect_keeps_settled [OF e plain _ Cons.prems(1,2)] effect_keeps_paid [OF e] Suc by auto
  qed
qed simp

end
