(* ===== verification/Leases.thy ===== *)
theory Leases
  imports BillingRuns LifecycleProps
begin

text \<open>
  Leases of deposit addresses: the steps of the store and the listener that touch billing orders, and
  the address pool.
\<close>

subsection \<open>Leases\<close>

text \<open>An unpaid order leases its address for the hour before its expiry. Allocations happen at times the
  caller supplies, in any order, so leases are compared by these hours and not by a clock.\<close>

definition lease_of :: "string \<Rightarrow> datetime \<Rightarrow> u64 \<times> BillingOrderRecord \<Rightarrow> string option" where
  "lease_of chain t entry =
     (if bo_chain (snd entry) = chain \<and> bo_paid_at (snd entry) = None
      then (case bo_assignment (snd entry) of
              None \<Rightarrow> None
            | Some lease \<Rightarrow>
                if aa_expires_at lease - hours 1 \<le> t \<and> t < aa_expires_at lease then Some (aa_address lease) else None)
      else None)"

definition leased_at :: "'j EphemeralState \<Rightarrow> string \<Rightarrow> datetime \<Rightarrow> string list" where
  "leased_at db chain t = List.map_filter (lease_of chain t) (es_billing_orders db)"

lemma map_filter_simps:
  "List.map_filter f [] = []"
  "List.map_filter f (x # xs) = (case f x of None \<Rightarrow> List.map_filter f xs | Some y \<Rightarrow> y # List.map_filter f xs)"
  by (simp_all add: map_filter_def split: option.split)

text \<open>An address that is leased at \<open>t\<close> is occupied for an allocation at any earlier time.\<close>

lemma leased_occupied:
  assumes "at_time \<le> t"
  shows "set (leased_at db chain t) \<subseteq> set (occupied_addresses db chain at_time)"
proof -
  have "set (List.map_filter (lease_of chain t) xs) \<subseteq> set (List.map_filter
      (\<lambda>order. case bo_assignment order of None \<Rightarrow> None
         | Some lease \<Rightarrow> if aa_expires_at lease > at_time then Some (aa_address lease) else None)
      (filter (\<lambda>order. bo_chain order = chain \<and> bo_paid_at order = None) (map snd xs)))" for xs
    using assms by (induction xs) (auto simp: map_filter_simps lease_of_def split: option.splits if_splits)
  then show ?thesis by (simp add: occupied_addresses_def leased_at_def)
qed

lemma in_map_filter: "y \<in> set (List.map_filter f xs) \<longleftrightarrow> (\<exists>x \<in> set xs. f x = Some y)"
  by (induction xs) (auto simp: map_filter_simps split: option.splits)

lemma set_modify_key: "x \<in> set (modify_key k f xs) \<Longrightarrow> x \<in> set xs \<or> (\<exists>v. (k, v) \<in> set xs \<and> x = (k, f v))"
  by (induction xs) (auto simp: modify_key_def split: if_splits)

text \<open>One entry of the table changes: its lease is dropped, kept, or a free address.\<close>

lemma distinct_modify_key:
  assumes "distinct (List.map_filter g xs)"
    and "\<And>v. (k, v) \<in> set xs \<Longrightarrow>
      g (k, f v) = None \<or> g (k, f v) = g (k, v) \<or> (\<exists>a. g (k, f v) = Some a \<and> a \<notin> set (List.map_filter g xs))"
  shows "distinct (List.map_filter g (modify_key k f xs))"
  using assms
proof (induction xs)
  case (Cons x xs)
  obtain k' v where x: "x = (k', v)" by fastforce
  show ?case
  proof (cases "k' = k")
    case True
    then have "modify_key k f (x # xs) = (k, f v) # xs" by (simp add: x modify_key_def)
    then show ?thesis
      using Cons.prems(1) Cons.prems(2) [of v] True by (auto simp: x map_filter_simps split: option.splits if_splits)
  next
    case False
    then have m: "modify_key k f (x # xs) = x # modify_key k f xs" by (simp add: x modify_key_def)
    have d: "distinct (List.map_filter g (modify_key k f xs))"
      using Cons.prems by (intro Cons.IH) (fastforce simp: map_filter_simps split: option.splits)+
    have "y \<notin> set (List.map_filter g (modify_key k f xs))" if "g x = Some y" for y
    proof
      assume "y \<in> set (List.map_filter g (modify_key k f xs))"
      then obtain z where z: "z \<in> set (modify_key k f xs)" "g z = Some y" by (auto simp: in_map_filter)
      have y: "y \<notin> set (List.map_filter g xs)" using Cons.prems(1) that by (simp add: map_filter_simps)
      then have "z \<notin> set xs" using z(2) by (auto simp: in_map_filter)
      then obtain w where w: "(k, w) \<in> set xs" "z = (k, f w)" using set_modify_key [OF z(1)] by auto
      then have "g (k, w) \<noteq> Some y" using y by (auto simp: in_map_filter)
      then show False using Cons.prems(2) [of w] w z(2) that by (auto simp: map_filter_simps)
    qed
    with d show ?thesis by (simp add: m map_filter_simps split: option.split)
  qed
qed (simp add: modify_key_def map_filter_simps)

subsection \<open>Steps\<close>

definition chain_of :: "'j EphemeralState \<Rightarrow> u64 \<Rightarrow> string option" where
  "chain_of db k = map_option bo_chain (map_of (es_billing_orders db) k)"

inductive billing_step :: "'j world \<Rightarrow> 'j EphemeralState \<Rightarrow> 'j EphemeralState \<Rightarrow> bool" for W where
  place: "chain_of db (bo_order_id order) = None \<Longrightarrow> bo_assignment order = None
    \<Longrightarrow> billing_step W db (insert_billing_order order db)"
| allocate: "chain_of db k = Some chain
    \<Longrightarrow> billing_step W db (snd (allocate_or_queue_billing_order k chain requested_at db))"
| transfer: "billing_step W db (snd (process_observed_transfer W t db))"
| promote: "billing_step W db (snd (promote_due_orders at_time db))"

inductive_cases billing_stepE: "billing_step W db db'"

definition exclusive_leases :: "'j EphemeralState \<Rightarrow> bool" where
  "exclusive_leases db \<longleftrightarrow> orders_keyed db \<and> (\<forall>chain t. distinct (leased_at db chain t))"

lemma btree_insert_new:
  "map_of xs k = None \<Longrightarrow> f (k, v) = None
   \<Longrightarrow> List.map_filter f (btree_insert k v xs) = List.map_filter f xs"
  by (induction k v xs rule: btree_insert.induct) (auto simp: map_filter_simps split: option.splits if_splits)

lemma btree_insert_keyed:
  assumes "distinct (map fst xs)" "list_all P xs" "P (k, v)" "k \<notin> fst ` set xs"
  shows "set (map fst (btree_insert k v xs)) = insert k (set (map fst xs))
    \<and> distinct (map fst (btree_insert k v xs)) \<and> list_all P (btree_insert k v xs)"
  using assms by (induction k v xs rule: btree_insert.induct) auto

lemma insert_exclusive:
  assumes "chain_of db (bo_order_id order) = None" "bo_assignment order = None" "exclusive_leases db"
  shows "exclusive_leases (insert_billing_order order db)"
proof -
  have n: "map_of (es_billing_orders db) (bo_order_id order) = None" using assms(1) by (simp add: chain_of_def)
  have "leased_at (insert_billing_order order db) chain t = leased_at db chain t" for chain t
    unfolding leased_at_def insert_billing_order_def
    using btree_insert_new [OF n, of "lease_of chain t"] assms(2) by (simp add: lease_of_def)
  moreover have "orders_keyed (insert_billing_order order db)"
    using assms(3) n btree_insert_keyed [of "es_billing_orders db" "\<lambda>(k, order). bo_order_id order = k"
      "bo_order_id order" order]
    by (simp add: exclusive_leases_def orders_keyed_def insert_billing_order_def map_of_eq_None_iff)
  ultimately show ?thesis using assms(3) by (simp add: exclusive_leases_def)
qed

text \<open>The table with one order changed.\<close>

definition change_order ::
  "u64 \<Rightarrow> (BillingOrderRecord \<Rightarrow> BillingOrderRecord) \<Rightarrow> 'j EphemeralState \<Rightarrow> 'j EphemeralState" where
  "change_order k f db = db\<lparr>es_billing_orders := modify_key k f (es_billing_orders db)\<rparr>"

lemma change_chain_of: "(\<And>v. bo_chain (f v) = bo_chain v) \<Longrightarrow> chain_of (change_order k f db) = chain_of db"
  by (rule ext) (auto simp: chain_of_def change_order_def map_of_modify_key option.map_comp o_def)

lemma change_exclusive:
  assumes "exclusive_leases db" "\<And>v. bo_order_id (f v) = bo_order_id v"
    and "\<And>chain t v. map_of (es_billing_orders db) k = Some v \<Longrightarrow>
      lease_of chain t (k, f v) = None \<or> lease_of chain t (k, f v) = lease_of chain t (k, v)
      \<or> (\<exists>a. lease_of chain t (k, f v) = Some a \<and> a \<notin> set (leased_at db chain t))"
  shows "exclusive_leases (change_order k f db)"
proof -
  have k: "distinct (map fst (es_billing_orders db))" using assms(1) by (simp add: exclusive_leases_def orders_keyed_def)
  have "distinct (leased_at (change_order k f db) chain t)" for chain t
  proof -
    have "distinct (leased_at db chain t)" using assms(1) by (simp add: exclusive_leases_def)
    moreover have "lease_of chain t (k, f v) = None \<or> lease_of chain t (k, f v) = lease_of chain t (k, v)
        \<or> (\<exists>a. lease_of chain t (k, f v) = Some a \<and> a \<notin> set (leased_at db chain t))"
      if "(k, v) \<in> set (es_billing_orders db)" for v
      using assms(3) that k by simp
    ultimately show ?thesis
      unfolding leased_at_def change_order_def by (simp add: distinct_modify_key)
  qed
  moreover have "orders_keyed (change_order k f db)"
    using assms(1,2) by (auto simp: exclusive_leases_def orders_keyed_def change_order_def intro: list_all_modify_key)
  ultimately show ?thesis by (simp add: exclusive_leases_def)
qed

lemma allocate_change:
  obtains f where "snd (allocate_or_queue_billing_order k chain at_time db) = change_order k f db"
    "\<And>v. bo_order_id (f v) = bo_order_id v" "\<And>v. bo_chain (f v) = bo_chain v"
    "\<And>v. bo_assignment (f v) = None \<or> (\<exists>lease. bo_assignment (f v) = Some lease
       \<and> aa_expires_at lease = at_time + hours 1 \<and> aa_address lease \<notin> set (occupied_addresses db chain at_time))"
proof (cases "find (\<lambda>address. address \<notin> set (occupied_addresses db chain at_time)) (candidate_addresses db chain)")
  case None
  then show thesis
    by (intro that [of "\<lambda>order. order\<lparr>bo_assignment := None, bo_status := ''queued'', bo_enqueued_at := Some at_time\<rparr>"])
      (simp_all add: allocate_or_queue_billing_order_def change_order_def)
next
  case (Some address)
  then have "address \<notin> set (occupied_addresses db chain at_time)" by (auto simp: find_Some_iff)
  with Some show thesis
    by (intro that [of "\<lambda>order. order\<lparr>bo_assignment := Some \<lparr>aa_chain = chain, aa_address = address,
            aa_expires_at = at_time + hours 1\<rparr>, bo_status := ''pending'', bo_enqueued_at := None\<rparr>"])
      (simp_all add: allocate_or_queue_billing_order_def change_order_def Let_def)
qed

lemma allocate_exclusive:
  assumes "chain_of db k = Some chain" "exclusive_leases db"
  shows "exclusive_leases (snd (allocate_or_queue_billing_order k chain at_time db))
    \<and> chain_of (snd (allocate_or_queue_billing_order k chain at_time db)) = chain_of db"
proof (rule allocate_change [of k chain at_time db])
  fix f
  assume f: "snd (allocate_or_queue_billing_order k chain at_time db) = change_order k f db"
    "\<And>v. bo_order_id (f v) = bo_order_id v" "\<And>v. bo_chain (f v) = bo_chain v"
    "\<And>v. bo_assignment (f v) = None \<or> (\<exists>lease. bo_assignment (f v) = Some lease
       \<and> aa_expires_at lease = at_time + hours 1 \<and> aa_address lease \<notin> set (occupied_addresses db chain at_time))"
  have "exclusive_leases (change_order k f db)"
  proof (rule change_exclusive [OF assms(2) f(2)])
    fix chain' t v
    assume "map_of (es_billing_orders db) k = Some v"
    then have "bo_chain (f v) = chain" using assms(1) f(3) by (auto simp: chain_of_def)
    then have "lease_of chain' t (k, f v) = None
      \<or> chain' = chain \<and> at_time \<le> t \<and> (\<exists>lease. bo_assignment (f v) = Some lease
          \<and> lease_of chain' t (k, f v) = Some (aa_address lease))"
      using f(4) [of v] by (auto simp: lease_of_def split: option.splits)
    then show "lease_of chain' t (k, f v) = None \<or> lease_of chain' t (k, f v) = lease_of chain' t (k, v)
      \<or> (\<exists>a. lease_of chain' t (k, f v) = Some a \<and> a \<notin> set (leased_at db chain' t))"
      using f(4) [of v] leased_occupied [of at_time t db chain] by (elim disjE exE conjE) auto
  qed
  then show ?thesis using f(1) change_chain_of [OF f(3)] by simp
qed

lemma transfer_exclusive:
  assumes "exclusive_leases db"
  shows "exclusive_leases (snd (process_observed_transfer W t db))"
proof -
  obtain res db' where p: "process_observed_transfer W t db = (res, db')" by fastforce
  have same: "exclusive_leases db1 \<longleftrightarrow> exclusive_leases db2"
    if "es_billing_orders db1 = es_billing_orders db2" for db1 db2 :: "'a EphemeralState"
    using that by (simp add: exclusive_leases_def leased_at_def orders_keyed_def)
  from process_effect [OF p] have "exclusive_leases db'"
  proof cases
    case (paid order plan d logs)
    let ?f = "\<lambda>order. order\<lparr>bo_paid_at := Some (ct_observed_at t), bo_tx_hash := Some (transfer_hash W t),
        bo_status := ''paid'', bo_enqueued_at := None\<rparr>"
    have "exclusive_leases (change_order (bo_order_id order) ?f db)"
      by (rule change_exclusive [OF assms]) (simp_all add: lease_of_def)
    then show ?thesis by (rule same [THEN iffD1, rotated]) (simp add: paid(1) pay_tables change_order_def)
  next
    case (recorded d)
    from assms show ?thesis by (rule same [THEN iffD1, rotated]) (simp add: recorded(1))
  qed (use assms in simp)
  then show ?thesis by (simp add: p)
qed

lemma promote_exclusive:
  assumes "exclusive_leases db"
  shows "exclusive_leases (snd (promote_due_orders at_time db))"
proof -
  let ?I = "\<lambda>st :: nat \<times> 'a EphemeralState. exclusive_leases (snd st) \<and> chain_of (snd st) = chain_of db"
  have one: "?I (promote_order at_time chain order st)"
    if "order \<in> set (queued_orders chain (list_billing_orders db))" "?I st" for chain order st
  proof -
    have "order \<in> set (list_billing_orders db)" "bo_chain order = chain"
      using that(1) by (auto simp: queued_orders_def)
    then have "chain_of (snd st) (bo_order_id order) = Some chain"
      using that(2) assms order_map_of [of db order] by (auto simp: chain_of_def exclusive_leases_def)
    from allocate_exclusive [OF this] that(2) show ?thesis
      by (simp add: promote_order_def split_beta)
  qed
  have "?I (fold (promote_order at_time chain) (queued_orders chain (list_billing_orders db)) st)" if "?I st" for chain st
    by (rule fold_invariant [where P = ?I and Q = "\<lambda>order. order \<in> set (queued_orders chain (list_billing_orders db))"])
      (use that one in auto)
  then have "?I (fold (\<lambda>chain st. fold (promote_order at_time chain) (queued_orders chain (list_billing_orders db)) st)
      chains (0, db))" for chains
    by (rule_tac fold_invariant [where P = ?I and Q = "\<lambda>_. True"]) (use assms in auto)
  then show ?thesis by (simp add: promote_due_orders_def Let_def)
qed

lemma step_exclusive: "billing_step W db db' \<Longrightarrow> exclusive_leases db \<Longrightarrow> exclusive_leases db'"
  by (elim billing_stepE) (auto simp: insert_exclusive allocate_exclusive transfer_exclusive promote_exclusive)

end
