(* ===== verification/BillingProps.thy ===== *)
theory BillingProps
  imports Leases
begin

text \<open>
  The theorems about deposits: which order a transfer pays and when, that neither a transaction
  nor an order is settled twice, that leases of one deposit address never overlap, and what happens
  to a deposit whose order is no longer unique when it has enough confirmations.
\<close>

subsection \<open>Settlement\<close>

text \<open>C26: A transfer pays an order only when it is the single open order on its chain and address with
  the same asset and the same amount, requested before the transfer and with a lease that had not expired,
  and the transfer has the required confirmations. The order is then marked as paid with the hash of the
  transaction and the membership of its owner runs to the end of the entitlement window. A transfer
  that pays nothing changes neither orders nor memberships.\<close>

theorem deposit_pays_exact_order:
  assumes p: "process_observed_transfer W t db = (res, db')"
  shows "case paid_order res of
      Some m \<Rightarrow> (\<exists>order plan lease.
          filter (\<lambda>order. is_address_candidate (transfer_chain W t)
                    (normalize_chain_address (transfer_chain W t) (str_trim (ct_address t))) (ct_observed_at t) order
                  \<and> is_valid_candidate (w_upper W (str_trim (ct_asset t))) (ct_amount t) (ct_observed_at t) order)
            (list_billing_orders db) = [order]
          \<and> bo_order_id order = m \<and> bo_paid_at order = None \<and> bo_chain order = transfer_chain W t
          \<and> bo_asset order = w_upper W (str_trim (ct_asset t))
          \<and> amount_units (bo_amount order) = amount_units (ct_amount t)
          \<and> bo_assignment order = Some lease
          \<and> bo_requested_at order \<le> ct_observed_at t \<and> ct_observed_at t \<le> aa_expires_at lease
          \<and> read_required_confirmations W db (transfer_chain W t)
              \<le> (case ct_confirmations t of Some n \<Rightarrow> n | None \<Rightarrow> 0)
          \<and> es_billing_orders db' = modify_key m
              (\<lambda>order. order\<lparr>bo_paid_at := Some (ct_observed_at t), bo_tx_hash := Some (transfer_hash W t),
                 bo_status := ''paid'', bo_enqueued_at := None\<rparr>) (es_billing_orders db)
          \<and> mp_code plan = bo_plan_code order \<and> plan \<in> set (list_membership_plans db)
          \<and> find_membership_record W db' (bo_email order) = Some
              (case entitlement_window (find_membership_record W db (bo_email order)) plan (ct_observed_at t) of
                 (active_until, grace_until) \<Rightarrow>
                   \<lparr>mr_activated_at = Some (ct_observed_at t), mr_active_until = Some active_until,
                    mr_grace_until = Some grace_until, mr_override_status = None\<rparr>))
    | None \<Rightarrow> (\<exists>e. res = Inl (Storage e))
        \<or> es_billing_orders db' = es_billing_orders db \<and> es_membership_records db' = es_membership_records db"
  using process_effect [OF p]
proof cases
  case (paid order plan d logs)
  show ?thesis
  proof (cases "paid_order res")
    case None
    then show ?thesis using paid(2) by auto
  next
    case (Some m)
    then have m: "m = bo_order_id order" using paid(2) by (auto simp: paid_order_def)
    have "order \<in> set (candidates W t db)" using paid(4) by simp
    then obtain lease where c: "bo_paid_at order = None" "bo_chain order = transfer_chain W t"
        "bo_asset order = w_upper W (str_trim (ct_asset t))" "amounts_match (bo_amount order) (ct_amount t)"
        "bo_assignment order = Some lease" "bo_requested_at order \<le> ct_observed_at t"
        "ct_observed_at t \<le> aa_expires_at lease"
      by (auto simp: candidates_def is_address_candidate_def is_valid_candidate_def split: option.splits)
    have "amount_units (bo_amount order) = amount_units (ct_amount t)"
      using c(4) match_units by blast
    moreover have "find_membership_record W db' (bo_email order) = Some
        (case entitlement_window (find_membership_record W db (bo_email order)) plan (ct_observed_at t) of
           (active_until, grace_until) \<Rightarrow>
             \<lparr>mr_activated_at = Some (ct_observed_at t), mr_active_until = Some active_until,
              mr_grace_until = Some grace_until, mr_override_status = None\<rparr>)"
      unfolding paid(1) by (simp add: pay_def apply_membership_payment_def find_membership_record_def
          update_conv split_beta)
    moreover have "es_billing_orders db' = modify_key m
        (\<lambda>order. order\<lparr>bo_paid_at := Some (ct_observed_at t), bo_tx_hash := Some (transfer_hash W t),
           bo_status := ''paid'', bo_enqueued_at := None\<rparr>) (es_billing_orders db)"
      unfolding paid(1) by (simp add: pay_tables m)
    ultimately show ?thesis
      unfolding Some option.case
      using paid(4-7) c m unfolding candidates_def by (intro exI [of _ order] exI [of _ plan] exI [of _ lease]) simp
  qed
qed (auto simp: upsert_deposit_transaction_def)

text \<open>C24: In every sequence of observed transfers, two transfers that pay are different transactions and
  pay different orders: a transaction is credited at most once and an order is paid at most once, however
  often it is observed.\<close>

theorem deposits_pay_once:
  assumes "deposits_keyed db" "orders_keyed db" "list_all (\<lambda>t. plain_chain (transfer_chain W t)) ts"
    and "i < j" "j < length ts"
    and "paid_order (process_transfers W ts db ! i) = Some m" "paid_order (process_transfers W ts db ! j) = Some n"
  shows "(transfer_chain W (ts ! i), transfer_hash W (ts ! i)) \<noteq> (transfer_chain W (ts ! j), transfer_hash W (ts ! j))
    \<and> m \<noteq> n"
  using assms
proof (induction ts arbitrary: db i j)
  case (Cons t ts)
  obtain res db' where p: "process_observed_transfer W t db = (res, db')" by fastforce
  note e = process_effect [OF p]
  have plain: "plain_chain (transfer_chain W t)" "list_all (\<lambda>t. plain_chain (transfer_chain W t)) ts"
    using Cons.prems(3) by simp_all
  note k = effect_keyed [OF e plain(1) Cons.prems(1,2)]
  obtain j' where j: "j = Suc j'" using Cons.prems(4) by (cases j) auto
  show ?case
  proof (cases i)
    case 0
    then have "settled db' (transfer_chain W t) (transfer_hash W t)" "order_paid db' m"
      using effect_pays [OF e plain(1) Cons.prems(1,2)] Cons.prems(6) p by simp_all
    moreover have "\<not> settled db' (transfer_chain W (ts ! j')) (transfer_hash W (ts ! j'))" "\<not> order_paid db' n"
      using later_not_paid [of db' W ts j' n] k plain Cons.prems(5,7) p j by simp_all
    ultimately show ?thesis using 0 j by auto
  next
    case (Suc i')
    then show ?thesis using Cons.IH [of db' i' j'] k plain Cons.prems(4-7) p j by simp
  qed
qed simp

subsection \<open>Leases\<close>

text \<open>C25: Leases of a deposit address never overlap. An unpaid order that was given an address leases it for
  the hour that begins at the time of the allocation. Whatever the order of new orders, allocations and
  promotions of queued orders at whatever times their callers supply, and observed transfers, at every
  instant the leases of a chain that cover the instant are of distinct addresses. (Leases that have ended stay
  recorded in unpaid orders and are not compared.)\<close>

theorem open_orders_hold_distinct_addresses:
  assumes "(billing_step W)\<^sup>*\<^sup>* db db'" "orders_keyed db" "\<And>chain t. distinct (leased_at db chain t)"
  shows "distinct (leased_at db' chain t)"
proof -
  have "exclusive_leases db'"
    using assms(1)
  proof (induction rule: rtranclp_induct)
    case base
    then show ?case using assms(2,3) by (simp add: exclusive_leases_def)
  qed (rule step_exclusive)
  then show ?thesis by (simp add: exclusive_leases_def)
qed

subsection \<open>A concrete store\<close>

definition demo_bill :: "u64 \<Rightarrow> datetime \<Rightarrow> AddressAssignment option \<Rightarrow> BillingOrderRecord" where
  "demo_bill k requested lease =
     \<lparr>bo_order_id = k, bo_email = ''a@b.c'', bo_chain = ''BSC'', bo_asset = ''USDT'', bo_plan_code = ''monthly'',
      bo_amount = ''20'', bo_requested_at = requested, bo_assignment = lease, bo_paid_at = None,
      bo_tx_hash = None, bo_status = (if lease = None then ''queued'' else ''pending''), bo_enqueued_at = None\<rparr>"

definition demo_lease :: "datetime \<Rightarrow> AddressAssignment" where
  "demo_lease expires = \<lparr>aa_chain = ''BSC'', aa_address = ''0xa'', aa_expires_at = expires\<rparr>"

definition demo_billing :: "demo_json EphemeralState" where
  "demo_billing = empty_state\<lparr>
     es_billing_orders := [(1, demo_bill 1 0 (Some (demo_lease 100))), (2, demo_bill 2 5 None)],
     es_membership_plans := [(''monthly'', \<lparr>mp_code = ''monthly'', mp_name = ''Monthly'', mp_duration_days = 30,
        mp_is_active = True\<rparr>)],
     es_deposit_addresses := [((''BSC'', ''0xa''), \<lparr>da_chain = ''BSC'', da_address = ''0xa'', da_is_enabled = True\<rparr>)]\<rparr>"

definition demo_transfer :: "string \<Rightarrow> u32 \<Rightarrow> datetime \<Rightarrow> ObservedChainTransfer" where
  "demo_transfer tx confirmations observed_at =
     \<lparr>ct_chain = ''bsc'', ct_asset = ''USDT'', ct_address = ''0xA'', ct_amount = '' 20.0'', ct_tx_hash = tx,
      ct_confirmations = Some confirmations, ct_observed_at = observed_at\<rparr>"

lemma demo_billing_keyed: "deposits_keyed demo_billing" "orders_keyed demo_billing"
  by code_simp+

theorem deposit_pays_exact_order_witness:
  "process_observed_transfer demo_world (demo_transfer ''0xT'' 12 50) demo_billing
     = (fst (process_observed_transfer demo_world (demo_transfer ''0xT'' 12 50) demo_billing),
        snd (process_observed_transfer demo_world (demo_transfer ''0xT'' 12 50) demo_billing))
   \<and> paid_order (fst (process_observed_transfer demo_world (demo_transfer ''0xT'' 12 50) demo_billing)) = Some 1
   \<and> es_billing_orders (snd (process_observed_transfer demo_world (demo_transfer ''0xT'' 12 50) demo_billing))
     = modify_key 1 (\<lambda>order. order\<lparr>bo_paid_at := Some (ct_observed_at (demo_transfer ''0xT'' 12 50)),
         bo_tx_hash := Some (transfer_hash demo_world (demo_transfer ''0xT'' 12 50)),
         bo_status := ''paid'', bo_enqueued_at := None\<rparr>) (es_billing_orders demo_billing)"
proof -
  have p: "paid_order (fst (process_observed_transfer demo_world (demo_transfer ''0xT'' 12 50) demo_billing)) = Some 1"
    by code_simp
  from deposit_pays_exact_order [OF prod.collapse [symmetric],
      of demo_world "demo_transfer ''0xT'' 12 50" demo_billing, unfolded p option.case]
  show ?thesis using p by auto
qed

theorem deposits_pay_once_witness:
  "(transfer_chain demo_world (demo_transfer ''0xT'' 12 50), transfer_hash demo_world (demo_transfer ''0xT'' 12 50))
     \<noteq> (transfer_chain demo_world (demo_transfer ''0xU'' 12 120), transfer_hash demo_world (demo_transfer ''0xU'' 12 120))
   \<and> (1 :: u64) \<noteq> 2"
proof -
  let ?db = "insert_billing_order (demo_bill 2 60 (Some (demo_lease 200))) demo_billing"
  let ?ts = "[demo_transfer ''0xT'' 12 50, demo_transfer ''0xT'' 12 50, demo_transfer ''0xU'' 12 120]"
  have "deposits_keyed ?db" "orders_keyed ?db" "list_all (\<lambda>t. plain_chain (transfer_chain demo_world t)) ?ts"
    by code_simp+
  moreover have "paid_order (process_transfers demo_world ?ts ?db ! 0) = Some 1"
    "paid_order (process_transfers demo_world ?ts ?db ! 2) = Some 2"
    by code_simp+
  ultimately show ?thesis
    using deposits_pay_once [of ?db demo_world ?ts 0 2 1 2] by simp
qed

theorem open_orders_hold_distinct_addresses_witness:
  "distinct (leased_at (snd (promote_due_orders 101
     (snd (process_observed_transfer demo_world (demo_transfer ''0xT'' 1 50) demo_billing)))) ''BSC'' 101)
   \<and> orders_keyed demo_billing"
proof -
  let ?t = "snd (process_observed_transfer demo_world (demo_transfer ''0xT'' 1 50) demo_billing)"
  have "billing_step demo_world demo_billing ?t" by (rule billing_step.transfer)
  moreover have "billing_step demo_world ?t (snd (promote_due_orders 101 ?t))" by (rule billing_step.promote)
  ultimately have "(billing_step demo_world)\<^sup>*\<^sup>* demo_billing (snd (promote_due_orders 101 ?t))"
    by (meson converse_rtranclp_into_rtranclp r_into_rtranclp)
  moreover have "distinct (leased_at demo_billing chain t)" for chain t
    by (simp add: leased_at_def demo_billing_def map_filter_simps lease_of_def demo_bill_def demo_lease_def)
  ultimately show ?thesis
    using open_orders_hold_distinct_addresses [of demo_world demo_billing] demo_billing_keyed(2) by blast
qed

text \<open>The time of an allocation is taken from the request, so a request dated an hour ahead is given an
  address whose present lease has not ended, and keeps it from every allocation until its own date.\<close>

lemma dated_request_takes_leased_address:
  "map_option aa_address (fst (allocate_or_queue_billing_order 2 ''BSC'' 100 demo_billing)) = Some ''0xa''
   \<and> leased_at demo_billing ''BSC'' 50 = [''0xa'']
   \<and> fst (allocate_or_queue_billing_order 1 ''BSC'' 200 (snd (allocate_or_queue_billing_order 2 ''BSC'' 5000 demo_billing)))
       = None"
  by code_simp

subsection \<open>Deposits that stay unconfirmed\<close>

text \<open>A deposit that matched an order can be lost while it waits for confirmations. When the lease of
  its order ends and an earlier queued order of the same price receives the address, the confirmed
  transfer fits both orders; the deposit is already recorded, so it is answered as a duplicate: no order is paid,
  nothing is sent to review, and every later observation gives the same answer.\<close>

theorem confirming_deposit_is_dropped:
  "case process_observed_transfer demo_world (demo_transfer ''0xT'' 1 50) demo_billing of
     (first, db) \<Rightarrow>
       (case process_observed_transfer demo_world (demo_transfer ''0xT'' 12 50) (snd (promote_due_orders 101 db)) of
          (second, db') \<Rightarrow>
            first = Inr \<lparr>lm_matched = False, lm_reason = Some ''awaiting_confirmations'',
              lm_deposit_status = ''confirming'', lm_order_id = Some 1\<rparr>
            \<and> second = Inr duplicate_result \<and> db' = snd (promote_due_orders 101 db)
            \<and> map (map_option dt_status) [find_existing_deposit db' ''BSC'' ''0xt''] = [Some ''confirming'']
            \<and> map bo_paid_at (list_billing_orders db') = [None, None])"
  by code_simp

end
