(* ===== verification/F64.thy ===== *)
theory F64
  imports Prelude "HOL-Library.Log_Nat"
begin

text \<open>
  Rust's \<open>f64\<close>: IEEE 754 binary64 with round to nearest, ties to even. A value is a rational
  number, an infinity or \<open>NaN\<close>; the sign of a zero is not kept (the sources never divide by a zero
  they have not excluded). Arithmetic computes the exact result and rounds it.
\<close>

datatype f64 = Fin rat | PInf | NInf | NaN

subsection \<open>Rounding\<close>

definition round_half_even :: "rat \<Rightarrow> int" where
  "round_half_even x =
     (let f = \<lfloor>x\<rfloor>; d = x - of_int f
      in if d < 1 / 2 \<or> d = 1 / 2 \<and> even f then f else f + 1)"

text \<open>\<open>\<lfloor>log2 x\<rfloor>\<close> of a positive rational.\<close>

definition ilog2 :: "rat \<Rightarrow> int" where
  "ilog2 x =
     (let (p, q) = quotient_of x; k = bitlen p - bitlen q
      in if power_int 2 k \<le> x then k else k - 1)"

definition f_round :: "rat \<Rightarrow> f64" where
  "f_round x =
     (if x = 0 then Fin 0
      else
        let unit = power_int 2 (max (ilog2 \<bar>x\<bar> - 52) (- 1074));
            y = of_int (round_half_even (x / unit)) * unit
        in if \<bar>y\<bar> < 2 ^ 1024 then Fin y else if 0 < x then PInf else NInf)"

definition f_max_value :: f64 where
  "f_max_value = Fin (2 ^ 1024 - 2 ^ 971)"

subsection \<open>Operations\<close>

fun is_finite :: "f64 \<Rightarrow> bool" where
  "is_finite (Fin _) = True"
| "is_finite _ = False"

fun f_neg :: "f64 \<Rightarrow> f64" where
  "f_neg (Fin x) = Fin (- x)"
| "f_neg PInf = NInf"
| "f_neg NInf = PInf"
| "f_neg NaN = NaN"

fun f_add :: "f64 \<Rightarrow> f64 \<Rightarrow> f64" where
  "f_add (Fin x) (Fin y) = f_round (x + y)"
| "f_add NaN _ = NaN"
| "f_add _ NaN = NaN"
| "f_add PInf NInf = NaN"
| "f_add NInf PInf = NaN"
| "f_add PInf _ = PInf"
| "f_add NInf _ = NInf"
| "f_add _ y = y"

definition f_sub :: "f64 \<Rightarrow> f64 \<Rightarrow> f64" where
  "f_sub x y = f_add x (f_neg y)"

fun f_sign :: "f64 \<Rightarrow> int" where
  "f_sign (Fin x) = (if 0 < x then 1 else if x < 0 then - 1 else 0)"
| "f_sign PInf = 1"
| "f_sign NInf = - 1"
| "f_sign NaN = 0"

definition f_inf :: "int \<Rightarrow> f64" where
  "f_inf s = (if 0 < s then PInf else if s < 0 then NInf else NaN)"

fun f_mul :: "f64 \<Rightarrow> f64 \<Rightarrow> f64" where
  "f_mul (Fin x) (Fin y) = f_round (x * y)"
| "f_mul NaN _ = NaN"
| "f_mul _ NaN = NaN"
| "f_mul x y = f_inf (f_sign x * f_sign y)"

fun f_div :: "f64 \<Rightarrow> f64 \<Rightarrow> f64" where
  "f_div (Fin x) (Fin y) = (if y = 0 then f_inf (f_sign (Fin x)) else f_round (x / y))"
| "f_div NaN _ = NaN"
| "f_div _ NaN = NaN"
| "f_div (Fin _) _ = Fin 0"
| "f_div x (Fin y) = f_inf (f_sign x * (if y < 0 then - 1 else 1))"
| "f_div _ _ = NaN"

text \<open>Comparisons are false on \<open>NaN\<close>.\<close>

fun f_lt :: "f64 \<Rightarrow> f64 \<Rightarrow> bool" where
  "f_lt (Fin x) (Fin y) = (x < y)"
| "f_lt (Fin _) PInf = True"
| "f_lt NInf (Fin _) = True"
| "f_lt NInf PInf = True"
| "f_lt _ _ = False"

definition f_le :: "f64 \<Rightarrow> f64 \<Rightarrow> bool" where
  "f_le x y \<longleftrightarrow> f_lt x y \<or> x = y \<and> x \<noteq> NaN"

text \<open>\<open>f64::max\<close>, \<open>f64::min\<close> (the other argument when one is \<open>NaN\<close>), and \<open>clamp\<close> for bounds in order.\<close>

definition f_max :: "f64 \<Rightarrow> f64 \<Rightarrow> f64" where
  "f_max x y = (if x = NaN then y else if y = NaN then x else if f_lt x y then y else x)"

definition f_min :: "f64 \<Rightarrow> f64 \<Rightarrow> f64" where
  "f_min x y = (if x = NaN then y else if y = NaN then x else if f_lt y x then y else x)"

definition f_clamp :: "f64 \<Rightarrow> f64 \<Rightarrow> f64 \<Rightarrow> f64" where
  "f_clamp x lo hi = (if f_lt x lo then lo else if f_lt hi x then hi else x)"

definition f_of_nat :: "nat \<Rightarrow> f64" where
  "f_of_nat n = f_round (of_nat n)"

definition f_of_u32 :: "u32 \<Rightarrow> f64" where
  "f_of_u32 n = Fin (of_nat (unat n))"

definition f_sum :: "f64 list \<Rightarrow> f64" where
  "f_sum xs = foldl f_add (Fin 0) xs"

text \<open>
  What the sources use of \<open>rust_decimal\<close> and of the platform: conversions between \<open>Decimal\<close> and
  \<open>f64\<close>, \<open>powi\<close> (whose precision the standard library leaves open) and the text of a number.
\<close>

record fenv =
  to_f64 :: "decimal \<Rightarrow> f64 option"
  of_f64 :: "f64 \<Rightarrow> decimal option"
  f_powi :: "f64 \<Rightarrow> int \<Rightarrow> f64"
  f_show :: "f64 \<Rightarrow> string"

subsection \<open>Facts\<close>

lemma is_finite_iff: "is_finite x \<longleftrightarrow> (\<exists>q. x = Fin q)"
  by (cases x) auto

lemma f_le_Fin [simp]: "f_le (Fin x) (Fin y) \<longleftrightarrow> x \<le> y"
  by (auto simp: f_le_def)

lemma f_max_Fin [simp]: "f_max (Fin x) (Fin y) = Fin (max x y)"
  by (auto simp: f_max_def)

lemma f_min_Fin [simp]: "f_min (Fin x) (Fin y) = Fin (min x y)"
  by (auto simp: f_min_def)

end
