(* ===== verification/Martingale.thy ===== *)
theory Martingale
  imports F64 Domain
begin

text \<open>
  Martingale portfolios: the data of \<^verbatim>\<open>shared-domain/src/martingale.rs\<close> with its validation, and the
  order series of \<^verbatim>\<open>backtest-engine/src/martingale/rules.rs\<close> and \<^verbatim>\<open>exit_rules.rs\<close>, on which the
  live engine relies. A constructor of an enum has a prefix of its enum where names collide.
\<close>

subsection \<open>Configuration\<close>

datatype MartingaleMarketKind = MgSpot | MgUsdMFutures
datatype MartingaleDirection = MgLong | MgShort
datatype MartingaleDirectionMode = LongOnly | ShortOnly | LongAndShort | IndicatorSelected
datatype MartingaleMarginMode = MgIsolated | MgCross

datatype MartingaleSpacingModel =
  SpFixedPercent (step_bps: u32)
| SpMultiplier (first_step_bps: u32) (sp_multiplier: decimal)
| SpAtr (sp_atr_multiplier: decimal) (min_step_bps: u32) (max_step_bps: u32)
| SpCustomSequence (steps_bps: "u32 list")
| SpMixed (sp_phases: "MartingaleSpacingModel list")

datatype MartingaleSizingModel =
  SzMultiplier decimal decimal u32
| SzCustomSequence "decimal list"
| SzBudgetScaled decimal decimal u32 decimal

datatype MartingaleTakeProfitModel =
  TpPercent u32
| TpAmount decimal
| TpAtr decimal
| TpTrailing u32 u32
| TpMixed "MartingaleTakeProfitModel list"

datatype MartingaleStopLossModel =
  SlPriceRange decimal decimal
| SlAtr decimal
| SlIndicator string
| SlStrategyDrawdownPct u32
| SlSymbolDrawdownAmount decimal
| SlGlobalDrawdownAmount decimal

datatype MartingaleIndicatorConfig =
  IcAtr u32
| IcSma u32
| IcEma u32
| IcRsi u32 decimal decimal
| IcBollinger u32 decimal
| IcAdx u32

datatype MartingaleEntryTrigger =
  EtImmediate
| EtIndicatorExpression string
| EtPriceRange decimal decimal
| EtTimeWindow string string
| EtCooldown u64
| EtCapacity u32

record MartingaleRiskLimits =
  rl_max_active_cycles :: "u32 option"
  rl_max_global_budget_quote :: "decimal option"
  rl_max_symbol_budget_quote :: "decimal option"
  rl_max_direction_budget_quote :: "decimal option"
  rl_max_strategy_budget_quote :: "decimal option"
  rl_max_global_drawdown_quote :: "decimal option"
  rl_new_cycle_drawdown_pause_pct :: "f64 option"
  rl_new_cycle_atr_pause_pct :: "f64 option"
  rl_safety_skip_adx_threshold :: "f64 option"

definition default_limits :: MartingaleRiskLimits where
  "default_limits =
     \<lparr>rl_max_active_cycles = None, rl_max_global_budget_quote = None, rl_max_symbol_budget_quote = None,
      rl_max_direction_budget_quote = None, rl_max_strategy_budget_quote = None,
      rl_max_global_drawdown_quote = None, rl_new_cycle_drawdown_pause_pct = None,
      rl_new_cycle_atr_pause_pct = None, rl_safety_skip_adx_threshold = None\<rparr>"

record MartingaleStrategyConfig =
  ms_strategy_id :: string
  ms_symbol :: string
  ms_market :: MartingaleMarketKind
  ms_direction :: MartingaleDirection
  ms_direction_mode :: MartingaleDirectionMode
  ms_margin_mode :: "MartingaleMarginMode option"
  ms_leverage :: "u32 option"
  ms_spacing :: MartingaleSpacingModel
  ms_sizing :: MartingaleSizingModel
  ms_take_profit :: MartingaleTakeProfitModel
  ms_stop_loss :: "MartingaleStopLossModel option"
  ms_indicators :: "MartingaleIndicatorConfig list"
  ms_entry_triggers :: "MartingaleEntryTrigger list"
  ms_risk_limits :: MartingaleRiskLimits

record MartingalePortfolioConfig =
  pf_direction_mode :: MartingaleDirectionMode
  pf_strategies :: "MartingaleStrategyConfig list"
  pf_risk_limits :: MartingaleRiskLimits

subsection \<open>Validation\<close>

definition validate_strategy_config :: "MartingaleStrategyConfig \<Rightarrow> unit result" where
  "validate_strategy_config c =
     (if str_trim (ms_symbol c) = [] then Inl ''symbol cannot be empty''
      else if str_trim (ms_symbol c) \<noteq> ms_symbol c
      then Inl (''symbol '' @ ms_symbol c @ '' cannot contain outer whitespace'')
      else
        case ms_market c of
          MgSpot \<Rightarrow>
            if ms_margin_mode c \<noteq> None \<or> ms_leverage c \<noteq> None
            then Inl ''spot strategy cannot use margin_mode or leverage'' else Inr ()
        | MgUsdMFutures \<Rightarrow>
            if ms_margin_mode c = None
            then Inl (''USDT-M futures strategy '' @ ms_symbol c @ '' requires margin_mode'')
            else
              (case ms_leverage c of
                 Some l \<Rightarrow> if l = 0 then Inl (ms_symbol c @ '' leverage cannot be 0'') else Inr ()
               | None \<Rightarrow> Inl (''USDT-M futures strategy '' @ ms_symbol c @ '' requires leverage'')))"

text \<open>One pass of the loop over the strategies; the map holds the margin mode of a futures symbol. The
  \<open>expect\<close> on the margin mode cannot fail after the validation of the strategy.\<close>

definition validate_in_portfolio ::
  "(string \<Rightarrow> string) \<Rightarrow> MartingaleStrategyConfig \<Rightarrow> (string \<rightharpoonup> MartingaleMarginMode)
   \<Rightarrow> (string \<rightharpoonup> MartingaleMarginMode) result" where
  "validate_in_portfolio upper c modes =
     (case validate_strategy_config c of
        Inl e \<Rightarrow> Inl e
      | Inr _ \<Rightarrow>
          if ms_market c = MgUsdMFutures
          then
            let key = upper (str_trim (ms_symbol c))
            in case (ms_margin_mode c, modes key) of
                 (Some mode, Some existing) \<Rightarrow>
                   if existing \<noteq> mode
                   then Inl (ms_symbol c @ '' margin_mode conflict for USDT-M futures strategies'')
                   else Inr modes
               | (Some mode, None) \<Rightarrow> Inr (modes(key \<mapsto> mode))
               | (None, _) \<Rightarrow> Inl ''validated futures strategy must have margin_mode''
          else Inr modes)"

definition validate_portfolio :: "(string \<Rightarrow> string) \<Rightarrow> MartingalePortfolioConfig \<Rightarrow> unit result" where
  "validate_portfolio upper p =
     bind_res (fold_res (validate_in_portfolio upper) (pf_strategies p) (\<lambda>_. None)) (\<lambda>_. Inr ())"

subsection \<open>Checks on numbers\<close>

definition validate_finite :: "string \<Rightarrow> f64 \<Rightarrow> unit result" where
  "validate_finite name v = (if is_finite v then Inr () else Inl (name @ '' must be finite''))"

definition validate_positive_f64 :: "string \<Rightarrow> f64 \<Rightarrow> unit result" where
  "validate_positive_f64 name v =
     bind_res (validate_finite name v)
       (\<lambda>_. if f_le v (Fin 0) then Inl (name @ '' must be positive'') else Inr ())"

definition validate_non_negative_f64 :: "string \<Rightarrow> f64 \<Rightarrow> unit result" where
  "validate_non_negative_f64 name v =
     bind_res (validate_finite name v)
       (\<lambda>_. if f_lt v (Fin 0) then Inl (name @ '' must be non-negative'') else Inr ())"

definition decimal_to_f64 :: "fenv \<Rightarrow> string \<Rightarrow> decimal \<Rightarrow> f64 result" where
  "decimal_to_f64 F name v =
     (case to_f64 F v of
        Some x \<Rightarrow> if is_finite x then Inr x else Inl (name @ '' cannot be represented as f64'')
      | None \<Rightarrow> Inl (name @ '' cannot be represented as f64''))"

definition sum_values :: "f64 list \<Rightarrow> f64 result" where
  "sum_values values =
     (let total = f_sum values in bind_res (validate_finite ''total notional'' total) (\<lambda>_. Inr total))"

fun validate_min_notional :: "fenv \<Rightarrow> f64 list \<Rightarrow> f64 \<Rightarrow> unit result" where
  "validate_min_notional F [] minimum = Inr ()"
| "validate_min_notional F (notional # rest) minimum =
     bind_res (validate_finite ''notional'' notional)
       (\<lambda>_. if f_lt notional minimum
            then Inl (''leg notional '' @ f_show F notional @ '' is below exchange minimum notional '' @ f_show F minimum)
            else validate_min_notional F rest minimum)"

subsection \<open>Notionals of the legs\<close>

fun series_from :: "nat \<Rightarrow> f64 \<Rightarrow> f64 \<Rightarrow> f64 list result" where
  "series_from 0 current multiplier = Inr []"
| "series_from (Suc n) current multiplier =
     bind_res (validate_finite ''notional'' current)
       (\<lambda>_. bind_res (series_from n (f_mul current multiplier) multiplier) (\<lambda>rest. Inr (current # rest)))"

definition geometric_series :: "fenv \<Rightarrow> decimal \<Rightarrow> decimal \<Rightarrow> u32 \<Rightarrow> f64 list result" where
  "geometric_series F first_order_quote multiplier max_legs =
     bind_res (decimal_to_f64 F ''first_order_quote'' first_order_quote)
       (\<lambda>first. bind_res (decimal_to_f64 F ''multiplier'' multiplier)
         (\<lambda>m. bind_res (validate_non_negative_f64 ''first_order_quote'' first)
           (\<lambda>_. bind_res (validate_positive_f64 ''multiplier'' m)
             (\<lambda>_. series_from (unat max_legs) first m))))"

definition scale_to_budget :: "f64 \<Rightarrow> f64 list \<Rightarrow> f64 list result" where
  "scale_to_budget budget values =
     bind_res (sum_values values)
       (\<lambda>total. Inr (if f_lt budget total \<and> f_lt (Fin 0) total
                     then map (\<lambda>v. f_mul v (f_div budget total)) values else values))"

definition compute_leg_notionals :: "fenv \<Rightarrow> MartingaleSizingModel \<Rightarrow> f64 \<Rightarrow> f64 \<Rightarrow> f64 list result" where
  "compute_leg_notionals F sizing portfolio_budget_quote exchange_min_notional =
     bind_res (validate_non_negative_f64 ''portfolio_budget_quote'' portfolio_budget_quote)
      (\<lambda>_. bind_res (validate_non_negative_f64 ''exchange_min_notional'' exchange_min_notional)
        (\<lambda>_. bind_res
           (case sizing of
              SzMultiplier first m legs \<Rightarrow>
                bind_res (geometric_series F first m legs) (\<lambda>values. Inr (values, True))
            | SzCustomSequence notionals \<Rightarrow>
                bind_res (collect_res (map (decimal_to_f64 F ''notional'') notionals)) (\<lambda>values. Inr (values, True))
            | SzBudgetScaled first m legs max_budget \<Rightarrow>
                bind_res (geometric_series F first m legs)
                  (\<lambda>values. bind_res (decimal_to_f64 F ''max_budget_quote'' max_budget)
                    (\<lambda>cap. let budget = f_min cap portfolio_budget_quote
                           in bind_res (validate_non_negative_f64 ''budget'' budget)
                                (\<lambda>_. bind_res (scale_to_budget budget values) (\<lambda>values. Inr (values, False))))))
           (\<lambda>(notionals, enforce_budget).
              bind_res (validate_min_notional F notionals exchange_min_notional)
                (\<lambda>_. if enforce_budget
                     then bind_res (sum_values notionals)
                            (\<lambda>total. if f_lt portfolio_budget_quote total
                               then Inl (''total notional '' @ f_show F total @ '' exceeds portfolio budget ''
                                           @ f_show F portfolio_budget_quote)
                               else Inr notionals)
                     else Inr notionals))))"

subsection \<open>Trigger prices of the legs\<close>

text \<open>The legs a phase of a mixed spacing contributes: an infinite phase gives one leg, the last phase
  all that remain.\<close>

fun phase_leg_limit :: "MartingaleSpacingModel \<Rightarrow> nat \<Rightarrow> bool \<Rightarrow> nat"
  and phases_legs :: "MartingaleSpacingModel list \<Rightarrow> nat \<Rightarrow> nat" where
  "phase_leg_limit (SpCustomSequence steps) remaining is_last = min (length steps) remaining"
| "phase_leg_limit (SpMixed phases) remaining is_last = min (phases_legs phases remaining) remaining"
| "phase_leg_limit (SpFixedPercent _) remaining is_last = min (if is_last then remaining else 1) remaining"
| "phase_leg_limit (SpMultiplier _ _) remaining is_last = min (if is_last then remaining else 1) remaining"
| "phase_leg_limit (SpAtr _ _ _) remaining is_last = min (if is_last then remaining else 1) remaining"
| "phases_legs [] remaining = 0"
| "phases_legs (phase # phases) remaining =
     phase_leg_limit phase remaining (phases = []) + phases_legs phases remaining"

fun multiplier_steps :: "nat \<Rightarrow> f64 \<Rightarrow> f64 \<Rightarrow> f64 list result" where
  "multiplier_steps 0 step multiplier = Inr []"
| "multiplier_steps (Suc n) step multiplier =
     bind_res (validate_non_negative_f64 ''distance_bps'' step)
       (\<lambda>_. if n = 0 then Inr [step]
            else let next = f_mul step multiplier
                 in bind_res (validate_finite ''distance_bps'' next)
                      (\<lambda>_. bind_res (multiplier_steps n next multiplier) (\<lambda>rest. Inr (step # rest))))"

definition atr_step ::
  "fenv \<Rightarrow> f64 \<Rightarrow> decimal \<Rightarrow> u32 \<Rightarrow> u32 \<Rightarrow> f64 option \<Rightarrow> f64 result" where
  "atr_step F anchor_price multiplier min_bps max_bps latest_atr =
     (case (case latest_atr of Some atr \<Rightarrow> if f_lt (Fin 0) atr then Some atr else None | None \<Rightarrow> None) of
        Some atr \<Rightarrow>
          bind_res (validate_positive_f64 ''latest_atr'' atr)
            (\<lambda>_. bind_res (decimal_to_f64 F ''multiplier'' multiplier)
              (\<lambda>m. bind_res (validate_positive_f64 ''multiplier'' m)
                (\<lambda>_. Inr (f_clamp (f_mul (f_div (f_mul atr m) anchor_price) (Fin 10000))
                            (f_of_u32 min_bps) (f_of_u32 max_bps)))))
      | None \<Rightarrow> Inr (f_of_u32 min_bps))"

fun expand_spacing_bps ::
  "fenv \<Rightarrow> f64 \<Rightarrow> MartingaleSpacingModel \<Rightarrow> f64 option \<Rightarrow> nat \<Rightarrow> f64 list result"
  and expand_phases ::
  "fenv \<Rightarrow> f64 \<Rightarrow> MartingaleSpacingModel list \<Rightarrow> f64 option \<Rightarrow> nat \<Rightarrow> f64 list \<Rightarrow> f64 list result" where
  "expand_spacing_bps F anchor (SpFixedPercent step) atr max_legs =
     Inr (map (\<lambda>leg. f_mul (f_of_u32 step) (f_of_nat leg)) [1..<Suc max_legs])"
| "expand_spacing_bps F anchor (SpMultiplier first m) atr max_legs =
     (if max_legs = 0 then Inr []
      else bind_res (decimal_to_f64 F ''multiplier'' m)
        (\<lambda>m. bind_res (validate_positive_f64 ''multiplier'' m)
          (\<lambda>_. multiplier_steps max_legs (f_of_u32 first) m)))"
| "expand_spacing_bps F anchor (SpAtr m min_bps max_bps) atr max_legs =
     (if max_legs = 0 then Inr []
      else if min_bps > max_bps
      then Inl (''min_step_bps '' @ show_u32 min_bps @ '' must be <= max_step_bps '' @ show_u32 max_bps)
      else bind_res (atr_step F anchor m min_bps max_bps atr)
        (\<lambda>step. bind_res (validate_non_negative_f64 ''distance_bps'' step)
          (\<lambda>_. collect_res (map (\<lambda>leg. let d = f_mul step (f_of_nat leg)
                                       in bind_res (validate_non_negative_f64 ''distance_bps'' d) (\<lambda>_. Inr d))
                              [1..<Suc max_legs]))))"
| "expand_spacing_bps F anchor (SpCustomSequence steps) atr max_legs =
     Inr (map f_of_u32 (take max_legs steps))"
| "expand_spacing_bps F anchor (SpMixed phases) atr max_legs =
     (if max_legs = 0 then Inr [] else expand_phases F anchor phases atr max_legs [])"
| "expand_phases F anchor [] atr max_legs distances = Inr distances"
| "expand_phases F anchor (phase # phases) atr max_legs distances =
     (if length distances = max_legs then Inr distances
      else bind_res (expand_spacing_bps F anchor phase atr
                       (phase_leg_limit phase (max_legs - length distances) (phases = [])))
        (\<lambda>ds. expand_phases F anchor phases atr max_legs (distances @ ds)))"

definition trigger_price :: "fenv \<Rightarrow> f64 \<Rightarrow> MartingaleDirection \<Rightarrow> f64 \<Rightarrow> f64 result" where
  "trigger_price F anchor_price direction distance_bps =
     bind_res (validate_non_negative_f64 ''distance_bps'' distance_bps)
       (\<lambda>_. let offset = f_div (f_mul anchor_price distance_bps) (Fin 10000)
            in bind_res (validate_finite ''offset'' offset)
                 (\<lambda>_. let price = (case direction of MgLong \<Rightarrow> f_sub anchor_price offset
                                                  | MgShort \<Rightarrow> f_add anchor_price offset)
                      in if \<not> is_finite price \<or> f_le price (Fin 0)
                         then Inl (''trigger price must be finite and positive, got '' @ f_show F price)
                         else Inr price))"

definition compute_leg_trigger_prices ::
  "fenv \<Rightarrow> f64 \<Rightarrow> MartingaleDirection \<Rightarrow> MartingaleSpacingModel \<Rightarrow> f64 option \<Rightarrow> u32 \<Rightarrow> f64 list result" where
  "compute_leg_trigger_prices F anchor_price direction spacing latest_atr max_legs =
     bind_res (validate_positive_f64 ''anchor_price'' anchor_price)
       (\<lambda>_. bind_res (expand_spacing_bps F anchor_price spacing latest_atr (unat max_legs))
         (\<lambda>distances. collect_res (map (trigger_price F anchor_price direction) distances)))"

subsection \<open>Exits\<close>

datatype ExitDecision = ExitNone | ExitTakeProfit | ExitStrategyStop | ExitSymbolStop | ExitGlobalStop

definition validate_exit_number :: "string \<Rightarrow> f64 \<Rightarrow> unit result" where
  "validate_exit_number name v =
     (if \<not> is_finite v \<or> f_le v (Fin 0) then Inl (name @ '' must be finite and > 0'') else Inr ())"

definition validate_positive_price :: "f64 \<Rightarrow> f64 result" where
  "validate_positive_price price = bind_res (validate_exit_number ''price'' price) (\<lambda>_. Inr price)"

definition away :: "MartingaleDirection \<Rightarrow> f64 \<Rightarrow> f64 \<Rightarrow> f64" where
  "away direction average_entry offset =
     (case direction of MgLong \<Rightarrow> f_add average_entry offset | MgShort \<Rightarrow> f_sub average_entry offset)"

fun martingale_take_profit_price ::
  "fenv \<Rightarrow> f64 \<Rightarrow> MartingaleDirection \<Rightarrow> MartingaleTakeProfitModel \<Rightarrow> f64 option \<Rightarrow> f64 result"
  and first_phase_price ::
  "fenv \<Rightarrow> f64 \<Rightarrow> MartingaleDirection \<Rightarrow> MartingaleTakeProfitModel list \<Rightarrow> f64 option \<Rightarrow> string option \<Rightarrow> f64 result"
where
  "martingale_take_profit_price F entry direction (TpPercent bps) atr =
     bind_res (validate_exit_number ''average_entry'' entry)
       (\<lambda>_. validate_positive_price (away direction entry (f_div (f_mul entry (f_of_u32 bps)) (Fin 10000))))"
| "martingale_take_profit_price F entry direction (TpAmount quote) atr =
     bind_res (validate_exit_number ''average_entry'' entry)
       (\<lambda>_. Inl ''amount take profit cannot be computed by take_profit_price without total quantity context'')"
| "martingale_take_profit_price F entry direction (TpAtr multiplier) atr =
     bind_res (validate_exit_number ''average_entry'' entry)
       (\<lambda>_. case atr of
              None \<Rightarrow> Inl ''latest_atr is required for ATR take profit''
            | Some a \<Rightarrow>
                bind_res (validate_exit_number ''latest_atr'' a)
                  (\<lambda>_. case to_f64 F multiplier of
                         None \<Rightarrow> Inl ''multiplier cannot be represented as f64''
                       | Some m \<Rightarrow>
                           bind_res (validate_exit_number ''multiplier'' m)
                             (\<lambda>_. validate_positive_price (away direction entry (f_mul a m)))))"
| "martingale_take_profit_price F entry direction (TpTrailing activation_bps callback_bps) atr =
     bind_res (validate_exit_number ''average_entry'' entry)
       (\<lambda>_. if callback_bps = 0 then Inl ''callback_bps must be > 0 for trailing take profit''
            else validate_positive_price (away direction entry (f_div (f_mul entry (f_of_u32 activation_bps)) (Fin 10000))))"
| "martingale_take_profit_price F entry direction (TpMixed phases) atr =
     bind_res (validate_exit_number ''average_entry'' entry)
       (\<lambda>_. first_phase_price F entry direction phases atr None)"
| "first_phase_price F entry direction [] atr last_error =
     Inl (case last_error of Some e \<Rightarrow> e | None \<Rightarrow> ''mixed take profit requires at least one computable phase'')"
| "first_phase_price F entry direction (phase # phases) atr last_error =
     (case martingale_take_profit_price F entry direction phase atr of
        Inr price \<Rightarrow> Inr price
      | Inl e \<Rightarrow> first_phase_price F entry direction phases atr (Some e))"

record MartingaleLegState =
  lg_leg_index :: u32
  lg_price :: f64
  lg_quantity :: f64
  lg_margin_quote :: f64
  lg_notional_quote :: f64
  lg_fee_quote :: f64
  lg_slippage_quote :: f64

fun weigh_legs :: "MartingaleLegState list \<Rightarrow> f64 \<times> f64 \<Rightarrow> (f64 \<times> f64) result" where
  "weigh_legs [] acc = Inr acc"
| "weigh_legs (leg # legs) (weighted_price, total_quantity) =
     bind_res (validate_exit_number ''leg.price'' (lg_price leg))
       (\<lambda>_. bind_res (validate_exit_number ''leg.quantity'' (lg_quantity leg))
         (\<lambda>_. weigh_legs legs (f_add weighted_price (f_mul (lg_price leg) (lg_quantity leg)),
                               f_add total_quantity (lg_quantity leg))))"

definition weighted_average_entry :: "MartingaleLegState list \<Rightarrow> f64 result" where
  "weighted_average_entry legs =
     bind_res (weigh_legs legs (Fin 0, Fin 0))
       (\<lambda>(weighted_price, total_quantity).
          bind_res (validate_exit_number ''total_quantity'' total_quantity)
            (\<lambda>_. validate_positive_price (f_div weighted_price total_quantity)))"

definition evaluate_exit_priority :: "bool \<Rightarrow> bool \<Rightarrow> bool \<Rightarrow> bool \<Rightarrow> ExitDecision" where
  "evaluate_exit_priority global_stop symbol_stop strategy_stop take_profit =
     (if global_stop then ExitGlobalStop else if symbol_stop then ExitSymbolStop
      else if strategy_stop then ExitStrategyStop else if take_profit then ExitTakeProfit else ExitNone)"

end
