(* ===== verification/MartingaleCapital.thy ===== *)
theory MartingaleCapital
  imports Martingale SharedDb
begin

text \<open>
  \<^verbatim>\<open>src/apps/backtest-engine/src/martingale/capital.rs\<close>, the capital model shared by the live engine
  (\<^verbatim>\<open>martingale_budget.rs\<close> only delegates to it): margin and notional of the legs, the projection of
  strategies under margin caps, and the caps of the strategies of a portfolio.
\<close>

subsection \<open>Series\<close>

definition effective_leverage :: "MartingaleMarketKind \<Rightarrow> u32 option \<Rightarrow> f64" where
  "effective_leverage market leverage =
     (case market of
        MgSpot \<Rightarrow> Fin 1
      | MgUsdMFutures \<Rightarrow> (case leverage of Some v \<Rightarrow> f_max (f_of_u32 v) (Fin 1) | None \<Rightarrow> Fin 1))"

definition leg_notional_series :: "fenv \<Rightarrow> MartingaleSizingModel \<Rightarrow> f64 \<Rightarrow> f64 list result" where
  "leg_notional_series F sizing exchange_min_notional =
     compute_leg_notionals F sizing f_max_value exchange_min_notional"

definition leg_margin_series ::
  "fenv \<Rightarrow> MartingaleSizingModel \<Rightarrow> MartingaleMarketKind \<Rightarrow> u32 option \<Rightarrow> f64 \<Rightarrow> f64 list result" where
  "leg_margin_series F sizing market leverage exchange_min_notional =
     bind_res (leg_notional_series F sizing exchange_min_notional)
       (\<lambda>notionals. Inr (map (\<lambda>n. f_div n (effective_leverage market leverage)) notionals))"

definition planned_notional_quote :: "fenv \<Rightarrow> MartingaleSizingModel \<Rightarrow> f64 \<Rightarrow> f64 result" where
  "planned_notional_quote F sizing exchange_min_notional =
     bind_res (leg_notional_series F sizing exchange_min_notional) (\<lambda>notionals. Inr (f_sum notionals))"

definition planned_margin_quote ::
  "fenv \<Rightarrow> MartingaleSizingModel \<Rightarrow> MartingaleMarketKind \<Rightarrow> u32 option \<Rightarrow> f64 \<Rightarrow> f64 result" where
  "planned_margin_quote F sizing market leverage exchange_min_notional =
     bind_res (leg_margin_series F sizing market leverage exchange_min_notional) (\<lambda>margins. Inr (f_sum margins))"

definition order_quantity :: "f64 \<Rightarrow> f64 \<Rightarrow> f64" where
  "order_quantity notional_quote price =
     (if f_lt (Fin 0) price \<and> is_finite notional_quote then f_div notional_quote price else Fin 0)"

text \<open>The literal \<open>1e-9\<close>.\<close>

definition cap_eps :: f64 where
  "cap_eps = f_round (1 / 10 ^ 9)"

subsection \<open>Projection under margin caps\<close>

record LegCapitalProjection =
  lc_leg_index :: u32
  lc_notional_quote :: f64
  lc_margin_quote :: f64
  lc_accepted :: bool
  lc_skip_reason :: "string option"

record StrategyCapitalProjection =
  sc_strategy_id :: string
  sc_leverage :: f64
  sc_strategy_margin_cap_quote :: f64
  sc_full_series_margin_quote :: f64
  sc_full_series_notional_quote :: f64
  sc_budget_capped_margin_quote :: f64
  sc_budget_capped_notional_quote :: f64
  sc_first_leg_margin_quote :: f64
  sc_first_leg_notional_quote :: f64
  sc_first_leg_accepted :: bool
  sc_legs :: "LegCapitalProjection list"

record PortfolioCapitalProjection =
  pp_global_margin_cap_quote :: f64
  pp_strategies :: "StrategyCapitalProjection list"
  pp_full_series_margin_quote :: f64
  pp_full_series_notional_quote :: f64
  pp_budget_capped_margin_quote :: f64
  pp_budget_capped_notional_quote :: f64
  pp_first_leg_margin_quote :: f64
  pp_first_leg_notional_quote :: f64
  pp_projected_fee_quote :: f64
  pp_required_with_buffer_quote :: f64
  pp_all_strategies_can_start :: bool

definition first_leg_margin_quote ::
  "fenv \<Rightarrow> MartingaleSizingModel \<Rightarrow> MartingaleMarketKind \<Rightarrow> u32 option \<Rightarrow> f64 result" where
  "first_leg_margin_quote F sizing market leverage =
     bind_res (leg_notional_series F sizing (Fin 0))
       (\<lambda>notionals. Inr (case notionals of [] \<Rightarrow> Fin 0 | n # _ \<Rightarrow> f_div n (effective_leverage market leverage)))"

text \<open>The walk over the legs: once a leg is rejected, every later one is.\<close>

fun walk_legs ::
  "f64 \<Rightarrow> f64 \<Rightarrow> f64 \<Rightarrow> nat \<Rightarrow> bool \<Rightarrow> f64 \<Rightarrow> (f64 \<times> f64) list \<Rightarrow> LegCapitalProjection list" where
  "walk_legs cap available minimum i broken cum [] = []"
| "walk_legs cap available minimum i broken cum ((notional, margin) # rest) =
     (let (accepted, reason, broken, cum') =
            (if broken then (False, Some ''prior leg not accepted'', True, cum)
             else if f_lt notional minimum then (False, Some ''below exchange min notional'', True, cum)
             else if f_le (f_add cum margin) (f_add cap cap_eps)
                     \<and> f_le (f_add cum margin) (f_add available cap_eps)
             then (True, None, False, f_add cum margin)
             else (False, Some ''exceeds margin cap'', True, cum))
      in \<lparr>lc_leg_index = of_nat i, lc_notional_quote = notional, lc_margin_quote = margin,
          lc_accepted = accepted, lc_skip_reason = reason\<rparr>
         # walk_legs cap available minimum (Suc i) broken cum' rest)"

definition project_strategy_capital ::
  "fenv \<Rightarrow> string \<Rightarrow> MartingaleSizingModel \<Rightarrow> MartingaleMarketKind \<Rightarrow> u32 option \<Rightarrow> f64 \<Rightarrow> f64 \<Rightarrow> f64
   \<Rightarrow> StrategyCapitalProjection result" where
  "project_strategy_capital F strategy_id sizing market leverage cap available minimum =
     (let lev = effective_leverage market leverage
      in bind_res (leg_notional_series F sizing (Fin 0))
       (\<lambda>notionals.
          if notionals = []
          then Inr \<lparr>sc_strategy_id = strategy_id, sc_leverage = lev, sc_strategy_margin_cap_quote = cap,
                    sc_full_series_margin_quote = Fin 0, sc_full_series_notional_quote = Fin 0,
                    sc_budget_capped_margin_quote = Fin 0, sc_budget_capped_notional_quote = Fin 0,
                    sc_first_leg_margin_quote = Fin 0, sc_first_leg_notional_quote = Fin 0,
                    sc_first_leg_accepted = False, sc_legs = []\<rparr>
          else
            let margins = map (\<lambda>n. f_div n lev) notionals;
                legs = walk_legs cap available minimum 0 False (Fin 0) (zip notionals margins);
                prefix_legs = takeWhile lc_accepted legs
            in Inr \<lparr>sc_strategy_id = strategy_id, sc_leverage = lev, sc_strategy_margin_cap_quote = cap,
                    sc_full_series_margin_quote = f_sum margins,
                    sc_full_series_notional_quote = f_sum notionals,
                    sc_budget_capped_margin_quote = f_sum (map lc_margin_quote prefix_legs),
                    sc_budget_capped_notional_quote = f_sum (map lc_notional_quote prefix_legs),
                    sc_first_leg_margin_quote = hd margins, sc_first_leg_notional_quote = hd notionals,
                    sc_first_leg_accepted = lc_accepted (hd legs), sc_legs = legs\<rparr>))"

definition project_next ::
  "fenv \<Rightarrow> (string \<Rightarrow> f64 option) \<Rightarrow> f64 \<Rightarrow> f64 \<Rightarrow> f64 \<Rightarrow> MartingaleStrategyConfig
   \<Rightarrow> f64 \<times> StrategyCapitalProjection list \<Rightarrow> (f64 \<times> StrategyCapitalProjection list) result" where
  "project_next F weights equal global_margin_cap minimum strategy st =
     (let (remaining, projections) = st;
          wf = (case weights (ms_strategy_id strategy) of
                  Some w \<Rightarrow> if f_lt (Fin 0) w then w else equal | None \<Rightarrow> equal)
      in bind_res (first_leg_margin_quote F (ms_sizing strategy) (ms_market strategy) (ms_leverage strategy))
        (\<lambda>flm. bind_res (project_strategy_capital F (ms_strategy_id strategy) (ms_sizing strategy)
                  (ms_market strategy) (ms_leverage strategy) (f_max (f_mul global_margin_cap wf) flm) remaining minimum)
          (\<lambda>proj. Inr (f_max (f_sub remaining (sc_budget_capped_margin_quote proj)) (Fin 0),
                       projections @ [proj]))))"

definition project_portfolio_capital ::
  "fenv \<Rightarrow> MartingaleStrategyConfig list \<Rightarrow> (string \<Rightarrow> f64 option) \<Rightarrow> f64 \<Rightarrow> f64 \<Rightarrow> f64 \<Rightarrow> f64
   \<Rightarrow> PortfolioCapitalProjection result" where
  "project_portfolio_capital F strategies weights global_margin_cap minimum entry_fee_bps fee_buffer_pct =
     (if strategies = []
      then Inr \<lparr>pp_global_margin_cap_quote = global_margin_cap, pp_strategies = [],
                pp_full_series_margin_quote = Fin 0, pp_full_series_notional_quote = Fin 0,
                pp_budget_capped_margin_quote = Fin 0, pp_budget_capped_notional_quote = Fin 0,
                pp_first_leg_margin_quote = Fin 0, pp_first_leg_notional_quote = Fin 0,
                pp_projected_fee_quote = Fin 0, pp_required_with_buffer_quote = Fin 0,
                pp_all_strategies_can_start = True\<rparr>
      else
        bind_res (fold_res (project_next F weights (f_div (Fin 1) (f_of_nat (length strategies)))
                    global_margin_cap minimum) strategies (global_margin_cap, []))
          (\<lambda>(_, projections).
             let started = filter sc_first_leg_accepted projections;
                 capped_margin = f_sum (map sc_budget_capped_margin_quote projections);
                 capped_notional = f_sum (map sc_budget_capped_notional_quote projections);
                 fee = f_div (f_mul capped_notional entry_fee_bps) (Fin 10000)
             in Inr \<lparr>pp_global_margin_cap_quote = global_margin_cap, pp_strategies = projections,
                     pp_full_series_margin_quote = f_sum (map sc_full_series_margin_quote projections),
                     pp_full_series_notional_quote = f_sum (map sc_full_series_notional_quote projections),
                     pp_budget_capped_margin_quote = capped_margin,
                     pp_budget_capped_notional_quote = capped_notional,
                     pp_first_leg_margin_quote = f_sum (map sc_first_leg_margin_quote started),
                     pp_first_leg_notional_quote = f_sum (map sc_first_leg_notional_quote started),
                     pp_projected_fee_quote = fee,
                     pp_required_with_buffer_quote =
                       f_add (f_mul capped_margin (f_add (Fin 1) (f_div fee_buffer_pct (Fin 100)))) fee,
                     pp_all_strategies_can_start = list_all sc_first_leg_accepted projections\<rparr>))"

subsection \<open>Caps of a portfolio\<close>

definition max_one :: "u32 option \<Rightarrow> u32" where
  "max_one leverage = max (case leverage of Some l \<Rightarrow> l | None \<Rightarrow> 1) 1"

definition first_leg_margin_for_strategy :: "env \<Rightarrow> MartingaleStrategyConfig \<Rightarrow> decimal option" where
  "first_leg_margin_for_strategy E strategy =
     Option.bind
       (case ms_sizing strategy of
          SzMultiplier first _ _ \<Rightarrow> Some first
        | SzBudgetScaled first _ _ _ \<Rightarrow> Some first
        | SzCustomSequence notionals \<Rightarrow> (case notionals of [] \<Rightarrow> None | n # _ \<Rightarrow> Some n))
       (\<lambda>first_notional.
          if first_notional \<le> 0 then None
          else Some (d_div E first_notional
                 (case ms_market strategy of
                    MgSpot \<Rightarrow> 1 | MgUsdMFutures \<Rightarrow> d_of_u32 (max_one (ms_leverage strategy)))))"

definition cap_optional_budget_limit_decimal :: "decimal \<Rightarrow> decimal option \<Rightarrow> decimal option" where
  "cap_optional_budget_limit_decimal budget_cap limit =
     Some (case limit of
             Some current \<Rightarrow> if current > 0 then min current budget_cap else budget_cap
           | None \<Rightarrow> budget_cap)"

definition cap_strategy_budget_decimal ::
  "env \<Rightarrow> decimal \<Rightarrow> MartingaleStrategyConfig \<Rightarrow> MartingaleStrategyConfig" where
  "cap_strategy_budget_decimal E budget_cap strategy =
     (if budget_cap \<le> 0 then strategy
      else
        let effective =
              (case first_leg_margin_for_strategy E strategy of
                 Some v \<Rightarrow> if v > 0 then max budget_cap v else budget_cap
               | None \<Rightarrow> budget_cap)
        in strategy\<lparr>ms_risk_limits := (ms_risk_limits strategy)\<lparr>rl_max_strategy_budget_quote :=
             cap_optional_budget_limit_decimal effective
               (rl_max_strategy_budget_quote (ms_risk_limits strategy))\<rparr>\<rparr>)"

definition apply_global_budget_allocations_decimal ::
  "env \<Rightarrow> (string \<Rightarrow> decimal option) \<Rightarrow> MartingalePortfolioConfig \<Rightarrow> MartingalePortfolioConfig" where
  "apply_global_budget_allocations_decimal E weights config =
     (case rl_max_global_budget_quote (pf_risk_limits config) of
        None \<Rightarrow> config
      | Some global_budget \<Rightarrow>
          if global_budget \<le> 0 \<or> pf_strategies config = [] then config
          else
            let equal_cap = d_div E global_budget (of_nat (length (pf_strategies config)))
            in config\<lparr>pf_strategies := map (\<lambda>strategy.
                 cap_strategy_budget_decimal E
                   (case weights (ms_strategy_id strategy) of
                      Some w \<Rightarrow> if w > 0 then d_mul E global_budget w else equal_cap
                    | None \<Rightarrow> equal_cap) strategy) (pf_strategies config)\<rparr>)"

text \<open>Weights in the raw configuration; \<open>j_f64\<close> is \<open>Value::as_f64\<close>, through which integers go as well.\<close>

definition decimal_from_json ::
  "'j world \<Rightarrow> fenv \<Rightarrow> ('j \<Rightarrow> f64 option) \<Rightarrow> 'j \<Rightarrow> decimal option" where
  "decimal_from_json W F j_f64 value =
     (case Option.bind (j_str W value) (\<lambda>text. if text = [] then None else d_parse (w_env W) text) of
        Some d \<Rightarrow> Some d
      | None \<Rightarrow> Option.bind (j_f64 value) (of_f64 F))"

fun extract_weights ::
  "'j world \<Rightarrow> fenv \<Rightarrow> ('j \<Rightarrow> f64 option) \<Rightarrow> 'j list \<Rightarrow> (string \<rightharpoonup> decimal) \<Rightarrow> (string \<rightharpoonup> decimal) result" where
  "extract_weights W F j_f64 [] weights = Inr weights"
| "extract_weights W F j_f64 (strategy # rest) weights =
     (case Option.bind (j_get W strategy ''strategy_id'') (j_str W) of
        None \<Rightarrow> extract_weights W F j_f64 rest weights
      | Some strategy_id \<Rightarrow>
          (case Option.bind
                  (case j_get W strategy ''portfolio_weight_pct'' of
                     Some v \<Rightarrow> Some v | None \<Rightarrow> j_get W strategy ''weight_pct'')
                  (decimal_from_json W F j_f64) of
             None \<Rightarrow> extract_weights W F j_f64 rest weights
           | Some weight_pct \<Rightarrow>
               if weight_pct \<le> 0
               then Inl (''portfolio weight for '' @ strategy_id @ '' must be positive'')
               else extract_weights W F j_f64 rest
                      (weights(strategy_id \<mapsto> d_div (w_env W) weight_pct 100))))"

definition extract_portfolio_weight_factors ::
  "'j world \<Rightarrow> fenv \<Rightarrow> ('j \<Rightarrow> f64 option) \<Rightarrow> 'j \<Rightarrow> (string \<rightharpoonup> decimal) result" where
  "extract_portfolio_weight_factors W F j_f64 raw =
     (case Option.bind (j_get W raw ''strategies'') (j_array W) of
        None \<Rightarrow> Inr (\<lambda>_. None)
      | Some strategies \<Rightarrow> extract_weights W F j_f64 strategies (\<lambda>_. None))"

definition apply_portfolio_weight_margin_caps ::
  "'j world \<Rightarrow> fenv \<Rightarrow> ('j \<Rightarrow> f64 option) \<Rightarrow> 'j \<Rightarrow> MartingalePortfolioConfig
   \<Rightarrow> MartingalePortfolioConfig result" where
  "apply_portfolio_weight_margin_caps W F j_f64 raw config =
     bind_res (extract_portfolio_weight_factors W F j_f64 raw)
       (\<lambda>weights. Inr (apply_global_budget_allocations_decimal (w_env W) weights config))"

end
