(* ===== verification/MartingaleRuntime.thy ===== *)
theory MartingaleRuntime
  imports MartingaleCapital
begin

text \<open>
  \<^verbatim>\<open>src/apps/trading-engine/src/martingale_runtime.rs\<close>: the runtime of a martingale portfolio. One
  definition per method of \<open>MartingaleRuntime\<close>; a method that returns a \<open>Result\<close> gives the result and the
  new state. The context of the technical indicators (\<^verbatim>\<open>backtest-engine/src/martingale/indicator_runtime.rs\<close>)
  is an abstract state \<open>'c\<close> with the operations the runtime calls; \<open>IndicatorRuntime\<close> defines them.
\<close>

record KlineBar =
  kb_symbol :: string
  kb_open_time_ms :: int
  kb_open :: f64
  kb_high :: f64
  kb_low :: f64
  kb_close :: f64
  kb_volume :: f64

text \<open>
  \<open>ind_last_close\<close> is the close of the last bar of a symbol, \<open>ind_bar_count\<close> the number of its bars.
  \<open>leg_hash\<close> is the value of the standard \<open>DefaultHasher\<close> on the parts of an order id.
\<close>

record 'c mg_world =
  mg_env :: env
  mg_fenv :: fenv
  mg_upper :: "string \<Rightarrow> string"
  leg_hash :: "string \<Rightarrow> string \<Rightarrow> string \<Rightarrow> string \<Rightarrow> u32 \<Rightarrow> u64"
  ind_default :: 'c
  ind_push_bar :: "KlineBar \<Rightarrow> 'c \<Rightarrow> 'c"
  ind_evaluate :: "string \<Rightarrow> string \<Rightarrow> 'c \<Rightarrow> bool option result \<times> 'c"
  ind_latest_atr :: "MartingaleStrategyConfig \<Rightarrow> 'c \<Rightarrow> f64 option \<times> 'c"
  ind_latest_adx :: "string \<Rightarrow> nat \<Rightarrow> 'c \<Rightarrow> f64 option \<times> 'c"
  ind_last_close :: "string \<Rightarrow> 'c \<Rightarrow> f64 option"
  ind_bar_count :: "string \<Rightarrow> 'c \<Rightarrow> nat option"

subsection \<open>State\<close>

record MartingaleRuntimeConfig =
  rc_portfolio_id :: string
  rc_strategy_instance_id :: string
  rc_portfolio :: MartingalePortfolioConfig
  rc_portfolio_budget_quote :: decimal
  rc_exchange_min_notional :: decimal

record MartingaleRuntimeContext =
  cx_pause_new_entries :: bool
  cx_strategy_status :: StrategyStatus
  cx_global_drawdown_quote :: decimal
  cx_now_ms :: "int option"
  cx_last_cycle_closed_at_ms :: "int option"
  cx_portfolio_drawdown_pct :: "f64 option"

definition default_context :: MartingaleRuntimeContext where
  "default_context =
     \<lparr>cx_pause_new_entries = False, cx_strategy_status = Running, cx_global_drawdown_quote = 0,
      cx_now_ms = None, cx_last_cycle_closed_at_ms = None, cx_portfolio_drawdown_pct = None\<rparr>"

datatype MartingaleRuntimeOrderStatus = MoWorking | MoPlaced | MoFilled | MoCanceled

record MartingaleRuntimeOrder =
  mo_client_order_id :: string
  mo_exchange_order_id :: "string option"
  mo_strategy_id :: string
  mo_symbol :: string
  mo_cycle_id :: string
  mo_direction :: MartingaleDirection
  mo_leg_index :: u32
  mo_side :: string
  mo_price :: decimal
  mo_quantity :: decimal
  mo_notional_quote :: decimal
  mo_margin_quote :: decimal
  mo_leverage :: u32
  mo_status :: MartingaleRuntimeOrderStatus

record MartingaleRecoveredPosition =
  rp_symbol :: string
  rp_quantity :: decimal
  rp_entry_price :: decimal

record CycleState =
  cy_cycle_id :: string
  cy_anchor_price :: decimal
  cy_next_leg_index :: u32

record RuntimeStrategy =
  rs_config :: MartingaleStrategyConfig
  rs_cycle :: "CycleState option"
  rs_paused_by_recovery :: bool
  rs_stopped :: bool

record 'c MartingaleRuntime =
  mr_portfolio_id :: string
  mr_strategy_instance_id :: string
  mr_portfolio_risk_limits :: MartingaleRiskLimits
  mr_portfolio_budget_quote :: decimal
  mr_exchange_min_notional :: decimal
  mr_strategies :: "(string \<times> RuntimeStrategy) list"
  mr_orders :: "MartingaleRuntimeOrder list"
  mr_recovered_positions :: "MartingaleRecoveredPosition list"
  mr_futures_preflight_passed :: bool
  mr_cycle_sequence :: u64
  mr_indicator_context :: 'c

record FuturesSymbolSettings =
  fs_margin_mode :: MartingaleMarginMode
  fs_leverage :: u32

record FuturesExchangeSettings =
  fx_hedge_mode :: bool
  fx_symbols :: "string \<Rightarrow> FuturesSymbolSettings option"

subsection \<open>Free functions\<close>

definition entry_side :: "MartingaleDirection \<Rightarrow> string" where
  "entry_side direction = (case direction of MgLong \<Rightarrow> ''BUY'' | MgShort \<Rightarrow> ''SELL'')"

definition direction_label :: "MartingaleDirection \<Rightarrow> string" where
  "direction_label direction = (case direction of MgLong \<Rightarrow> ''long'' | MgShort \<Rightarrow> ''short'')"

definition portfolio_direction_mode :: "MartingaleStrategyConfig list \<Rightarrow> MartingaleDirectionMode" where
  "portfolio_direction_mode strategies =
     (let has_long = list_ex (\<lambda>c. ms_direction c = MgLong) strategies;
          has_short = list_ex (\<lambda>c. ms_direction c = MgShort) strategies
      in if has_long \<and> has_short then LongAndShort
         else if \<not> has_long \<and> has_short then ShortOnly else LongOnly)"

definition enforce_limit :: "string \<Rightarrow> decimal option \<Rightarrow> decimal \<Rightarrow> unit result" where
  "enforce_limit name limit value =
     (case limit of
        Some l \<Rightarrow> if value > l then Inl (name @ '' exceeded before placing leg'') else Inr ()
      | None \<Rightarrow> Inr ())"

definition decimal_pow :: "fenv \<Rightarrow> decimal \<Rightarrow> u32 \<Rightarrow> decimal result" where
  "decimal_pow F value exponent =
     (case to_f64 F value of
        None \<Rightarrow> Inl ''decimal cannot be converted''
      | Some base \<Rightarrow>
          (case of_f64 F (f_powi F base (sint exponent)) of
             None \<Rightarrow> Inl ''decimal power overflow''
           | Some d \<Rightarrow> Inr d))"

definition max_legs :: "MartingaleSizingModel \<Rightarrow> u32" where
  "max_legs sizing =
     (case sizing of
        SzMultiplier _ _ legs \<Rightarrow> legs
      | SzBudgetScaled _ _ legs _ \<Rightarrow> legs
      | SzCustomSequence notionals \<Rightarrow> of_nat (length notionals))"

text \<open>\<open>saturating_sub(1)\<close>.\<close>

definition pred_leg :: "u32 \<Rightarrow> nat" where
  "pred_leg leg_index = unat leg_index - 1"

fun spacing_distance_bps :: "env \<Rightarrow> fenv \<Rightarrow> MartingaleSpacingModel \<Rightarrow> u32 \<Rightarrow> decimal result" where
  "spacing_distance_bps E F (SpFixedPercent step) leg_index = Inr (d_mul E (d_of_u32 step) (d_of_u32 leg_index))"
| "spacing_distance_bps E F (SpMultiplier first m) leg_index =
     bind_res (decimal_pow F m leg_index) (\<lambda>factor. Inr (d_mul E (d_of_u32 first) factor))"
| "spacing_distance_bps E F (SpCustomSequence steps) leg_index =
     (case vec_get steps (pred_leg leg_index) of
        Some step \<Rightarrow> Inr (d_of_u32 step) | None \<Rightarrow> Inl ''custom spacing leg not found'')"
| "spacing_distance_bps E F (SpAtr _ _ _) leg_index =
     Inl ''ATR spacing requires latest_atr to compute trigger prices; use compute_leg_trigger_prices path instead''"
| "spacing_distance_bps E F (SpMixed []) leg_index = Inl ''mixed spacing requires phases''"
| "spacing_distance_bps E F (SpMixed (phase # _)) leg_index = spacing_distance_bps E F phase leg_index"

definition leg_trigger_price ::
  "env \<Rightarrow> fenv \<Rightarrow> decimal \<Rightarrow> MartingaleDirection \<Rightarrow> MartingaleSpacingModel \<Rightarrow> u32 \<Rightarrow> f64 option \<Rightarrow> decimal result" where
  "leg_trigger_price E F anchor_price direction spacing leg_index latest_atr =
     (case (case (to_f64 F anchor_price, to_f64 F 1) of
              (Some anchor, Some _) \<Rightarrow>
                (case compute_leg_trigger_prices F anchor direction spacing latest_atr (max leg_index 1) of
                   Inr prices \<Rightarrow> vec_get prices (pred_leg leg_index)
                 | Inl _ \<Rightarrow> None)
            | _ \<Rightarrow> None) of
        Some price \<Rightarrow>
          (case of_f64 F price of Some d \<Rightarrow> Inr d | None \<Rightarrow> Inl ''computed price overflow'')
      | None \<Rightarrow>
          bind_res (spacing_distance_bps E F spacing leg_index)
            (\<lambda>distance_bps.
               let offset = d_div E (d_mul E anchor_price distance_bps) 10000;
                   price = (case direction of MgLong \<Rightarrow> d_sub E anchor_price offset
                                            | MgShort \<Rightarrow> d_add E anchor_price offset)
               in if price \<le> 0 then Inl ''computed leg trigger price must be positive'' else Inr price))"

definition leg_notional :: "env \<Rightarrow> fenv \<Rightarrow> MartingaleSizingModel \<Rightarrow> decimal \<Rightarrow> u32 \<Rightarrow> decimal result" where
  "leg_notional E F sizing exchange_min_notional leg_index =
     (case (case to_f64 F exchange_min_notional of
              Some minimum \<Rightarrow>
                (case compute_leg_notionals F sizing f_max_value minimum of
                   Inr notionals \<Rightarrow> vec_get notionals (unat leg_index)
                 | Inl _ \<Rightarrow> None)
            | None \<Rightarrow> None) of
        Some notional \<Rightarrow>
          (case of_f64 F notional of Some d \<Rightarrow> Inr d | None \<Rightarrow> Inl ''computed notional overflow'')
      | None \<Rightarrow>
          bind_res
            (let geometric = (\<lambda>first m legs.
                   if leg_index \<ge> legs then Inl ''leg index exceeds max legs''
                   else bind_res (decimal_pow F m leg_index) (\<lambda>factor. Inr (d_mul E first factor)))
             in case sizing of
                  SzMultiplier first m legs \<Rightarrow> geometric first m legs
                | SzBudgetScaled first m legs _ \<Rightarrow> geometric first m legs
                | SzCustomSequence notionals \<Rightarrow>
                    (case vec_get notionals (unat leg_index) of
                       Some n \<Rightarrow> Inr n | None \<Rightarrow> Inl ''custom notional leg not found''))
            (\<lambda>notional. if notional < exchange_min_notional
                        then Inl ''leg notional is below exchange minimum'' else Inr notional))"

definition martingale_client_order_id ::
  "'c mg_world \<Rightarrow> string \<Rightarrow> string \<Rightarrow> string \<Rightarrow> string \<Rightarrow> string \<Rightarrow> u32 \<Rightarrow> string" where
  "martingale_client_order_id G portfolio_id strategy_instance_id strategy_id cycle_id label leg_index =
     ''mg-'' @ show_hex16 (leg_hash G portfolio_id strategy_instance_id strategy_id cycle_id leg_index)
       @ ''-'' @ label @ ''-leg-'' @ show_u32 leg_index"

definition validate_symbol_settings ::
  "FuturesExchangeSettings \<Rightarrow> MartingaleStrategyConfig \<Rightarrow> unit \<Rightarrow> unit result" where
  "validate_symbol_settings exchange c _ =
     (case fx_symbols exchange (ms_symbol c) of
        None \<Rightarrow> Inl (''missing futures settings for '' @ ms_symbol c)
      | Some settings \<Rightarrow>
          if Some (fs_margin_mode settings) \<noteq> ms_margin_mode c
          then Inl (ms_symbol c @ '' margin mode conflicts with exchange settings'')
          else
            (case ms_leverage c of
               Some l \<Rightarrow> if fs_leverage settings < l
                         then Inl (ms_symbol c @ '' leverage conflicts with exchange settings'') else Inr ()
             | None \<Rightarrow> Inr ()))"

definition validate_futures_settings_before_start ::
  "MartingalePortfolioConfig \<Rightarrow> FuturesExchangeSettings \<Rightarrow> unit result" where
  "validate_futures_settings_before_start portfolio exchange =
     (let futures = filter (\<lambda>c. ms_market c = MgUsdMFutures) (pf_strategies portfolio);
          hedge = Inl ''long+short futures portfolio requires Hedge Mode''
      in if list_ex (\<lambda>c. ms_direction c = MgLong) futures \<and> list_ex (\<lambda>c. ms_direction c = MgShort) futures
            \<and> \<not> fx_hedge_mode exchange then hedge
         else bind_res (fold_res (validate_symbol_settings exchange) futures ())
           (\<lambda>_. if pf_direction_mode portfolio = LongAndShort \<and> \<not> fx_hedge_mode exchange then hedge else Inr ()))"

subsection \<open>Access\<close>

definition strategy_of :: "'c MartingaleRuntime \<Rightarrow> string \<Rightarrow> RuntimeStrategy result" where
  "strategy_of rt strategy_id =
     (case map_of (mr_strategies rt) strategy_id of None \<Rightarrow> Inl ''strategy not found'' | Some s \<Rightarrow> Inr s)"

definition update_strategy_of ::
  "string \<Rightarrow> (RuntimeStrategy \<Rightarrow> RuntimeStrategy) \<Rightarrow> 'c MartingaleRuntime \<Rightarrow> 'c MartingaleRuntime" where
  "update_strategy_of strategy_id f rt =
     rt\<lparr>mr_strategies := modify_key strategy_id f (mr_strategies rt)\<rparr>"

definition margin_exposure :: "env \<Rightarrow> (MartingaleRuntimeOrder \<Rightarrow> bool) \<Rightarrow> 'c MartingaleRuntime \<Rightarrow> decimal" where
  "margin_exposure E selected rt =
     foldl (d_add E) 0 (map mo_margin_quote (filter selected (mr_orders rt)))"

definition strategy_margin_exposure :: "env \<Rightarrow> 'c MartingaleRuntime \<Rightarrow> string \<Rightarrow> decimal" where
  "strategy_margin_exposure E rt strategy_id = margin_exposure E (\<lambda>order. mo_strategy_id order = strategy_id) rt"

definition symbol_margin_exposure :: "env \<Rightarrow> 'c MartingaleRuntime \<Rightarrow> string \<Rightarrow> decimal" where
  "symbol_margin_exposure E rt symbol = margin_exposure E (\<lambda>order. mo_symbol order = symbol) rt"

definition direction_margin_exposure :: "env \<Rightarrow> 'c MartingaleRuntime \<Rightarrow> MartingaleDirection \<Rightarrow> decimal" where
  "direction_margin_exposure E rt direction = margin_exposure E (\<lambda>order. mo_direction order = direction) rt"

definition global_margin_exposure :: "env \<Rightarrow> 'c MartingaleRuntime \<Rightarrow> decimal" where
  "global_margin_exposure E rt = margin_exposure E (\<lambda>_. True) rt"

definition portfolio_config :: "'c MartingaleRuntime \<Rightarrow> MartingalePortfolioConfig" where
  "portfolio_config rt =
     (let configs = map (\<lambda>(_, s). rs_config s) (mr_strategies rt)
      in \<lparr>pf_direction_mode = portfolio_direction_mode configs, pf_strategies = configs,
          pf_risk_limits = mr_portfolio_risk_limits rt\<rparr>)"

subsection \<open>Construction and indicators\<close>

definition martingale_new :: "'c mg_world \<Rightarrow> MartingaleRuntimeConfig \<Rightarrow> 'c MartingaleRuntime result" where
  "martingale_new G config =
     bind_res (validate_portfolio (mg_upper G) (rc_portfolio config))
       (\<lambda>_. if rc_portfolio_budget_quote config < 0 then Inl ''portfolio budget quote cannot be negative''
            else if rc_exchange_min_notional config < 0 then Inl ''exchange minimum notional cannot be negative''
            else Inr
              \<lparr>mr_portfolio_id = rc_portfolio_id config,
               mr_strategy_instance_id = rc_strategy_instance_id config,
               mr_portfolio_risk_limits = pf_risk_limits (rc_portfolio config),
               mr_portfolio_budget_quote = rc_portfolio_budget_quote config,
               mr_exchange_min_notional = rc_exchange_min_notional config,
               mr_strategies = fold (\<lambda>c. AList.update (ms_strategy_id c)
                 \<lparr>rs_config = c, rs_cycle = None, rs_paused_by_recovery = False, rs_stopped = False\<rparr>)
                 (pf_strategies (rc_portfolio config)) [],
               mr_orders = [], mr_recovered_positions = [], mr_futures_preflight_passed = False,
               mr_cycle_sequence = 0, mr_indicator_context = ind_default G\<rparr>)"

definition warmup_indicators_from_bars :: "'c mg_world \<Rightarrow> KlineBar list \<Rightarrow> 'c MartingaleRuntime \<Rightarrow> 'c MartingaleRuntime" where
  "warmup_indicators_from_bars G bars rt =
     rt\<lparr>mr_indicator_context := fold (ind_push_bar G) bars (mr_indicator_context rt)\<rparr>"

definition set_indicator_context :: "'c \<Rightarrow> 'c MartingaleRuntime \<Rightarrow> 'c MartingaleRuntime" where
  "set_indicator_context ctx rt = rt\<lparr>mr_indicator_context := ctx\<rparr>"

definition sat_i64 :: "int \<Rightarrow> int" where
  "sat_i64 x = max (- (2 ^ 63)) (min (2 ^ 63 - 1) x)"

definition cooldown_over :: "MartingaleRuntimeContext \<Rightarrow> u64 \<Rightarrow> bool" where
  "cooldown_over context seconds =
     (case (cx_now_ms context, cx_last_cycle_closed_at_ms context) of
        (Some now_ms, Some closed_at_ms) \<Rightarrow> \<not> sat_i64 (now_ms - closed_at_ms) < sat_i64 (sint seconds * 1000)
      | _ \<Rightarrow> True)"

fun check_triggers ::
  "'c mg_world \<Rightarrow> string \<Rightarrow> MartingaleRuntimeContext \<Rightarrow> MartingaleEntryTrigger list \<Rightarrow> ('c, bool) stateful" where
  "check_triggers G symbol context [] c = (Inr True, c)"
| "check_triggers G symbol context (EtIndicatorExpression expression # triggers) c =
     (case ind_evaluate G symbol expression c of
        (Inl e, c) \<Rightarrow> if starts_with e ''no indicator bars'' then (Inr False, c) else (Inl e, c)
      | (Inr satisfied, c) \<Rightarrow>
          if satisfied \<noteq> Some True then (Inr False, c) else check_triggers G symbol context triggers c)"
| "check_triggers G symbol context (EtCooldown seconds # triggers) c =
     (if cooldown_over context seconds then check_triggers G symbol context triggers c else (Inr False, c))"
| "check_triggers G symbol context (_ # triggers) c = check_triggers G symbol context triggers c"

definition with_indicators :: "('c, 'a) stateful \<Rightarrow> ('c MartingaleRuntime, 'a) stateful" where
  "with_indicators f rt =
     (case f (mr_indicator_context rt) of (r, c) \<Rightarrow> (r, rt\<lparr>mr_indicator_context := c\<rparr>))"

definition evaluate_entry_triggers ::
  "'c mg_world \<Rightarrow> MartingaleStrategyConfig \<Rightarrow> MartingaleRuntimeContext \<Rightarrow> ('c MartingaleRuntime, bool) stateful" where
  "evaluate_entry_triggers G config context =
     with_indicators (check_triggers G (ms_symbol config) context (ms_entry_triggers config))"

definition indicator_latest_atr ::
  "'c mg_world \<Rightarrow> MartingaleStrategyConfig \<Rightarrow> ('c MartingaleRuntime, f64 option) stateful" where
  "indicator_latest_atr G config =
     with_indicators (\<lambda>c. case ind_latest_atr G config c of (atr, c) \<Rightarrow> (Inr atr, c))"

definition has_indicator_warmup_for :: "'c mg_world \<Rightarrow> string \<Rightarrow> nat \<Rightarrow> 'c MartingaleRuntime \<Rightarrow> bool" where
  "has_indicator_warmup_for G symbol period rt =
     (case ind_bar_count G symbol (mr_indicator_context rt) of Some n \<Rightarrow> n \<ge> period | None \<Rightarrow> False)"

definition evaluate_strategy_take_profit ::
  "'c mg_world \<Rightarrow> string \<Rightarrow> f64 \<Rightarrow> ('c MartingaleRuntime, (f64 \<times> ExitDecision) option) stateful" where
  "evaluate_strategy_take_profit G strategy_id average_entry rt =
     (case strategy_of rt strategy_id of
        Inl e \<Rightarrow> (Inl e, rt)
      | Inr s \<Rightarrow>
          andthen (case ms_take_profit (rs_config s) of
                     TpAtr _ \<Rightarrow> indicator_latest_atr G (rs_config s) | _ \<Rightarrow> ret None)
            (\<lambda>latest_atr rt.
               case martingale_take_profit_price (mg_fenv G) average_entry (ms_direction (rs_config s))
                      (ms_take_profit (rs_config s)) latest_atr of
                 Inl e \<Rightarrow> (Inl e, rt)
               | Inr price \<Rightarrow>
                   (Inr (if is_finite price \<and> f_lt (Fin 0) price then Some (price, ExitTakeProfit) else None), rt)) rt)"

subsection \<open>Guards\<close>

definition atr_guard :: "'c mg_world \<Rightarrow> MartingaleStrategyConfig \<Rightarrow> ('c MartingaleRuntime, unit) stateful" where
  "atr_guard G config rt =
     andthen (indicator_latest_atr G config)
       (\<lambda>latest_atr rt.
          let threshold = (case rl_new_cycle_atr_pause_pct (mr_portfolio_risk_limits rt) of
                             Some v \<Rightarrow> v | None \<Rightarrow> Fin 2)
          in case (latest_atr, ind_last_close G (ms_symbol config) (mr_indicator_context rt)) of
               (Some atr, Some close) \<Rightarrow>
                 if f_lt (Fin 0) close \<and> f_lt threshold (f_mul (f_div atr close) (Fin 100))
                 then (Inl ''atr volatility above threshold pauses new cycle'', rt) else (Inr (), rt)
             | _ \<Rightarrow> (Inr (), rt)) rt"

definition new_cycle_guards ::
  "'c mg_world \<Rightarrow> MartingaleStrategyConfig \<Rightarrow> MartingaleRuntimeContext \<Rightarrow> ('c MartingaleRuntime, unit) stateful" where
  "new_cycle_guards G config context rt =
     (let threshold = (case rl_new_cycle_drawdown_pause_pct (mr_portfolio_risk_limits rt) of
                         Some v \<Rightarrow> v | None \<Rightarrow> Fin 6)
      in if (case cx_portfolio_drawdown_pct context of Some dd \<Rightarrow> f_lt threshold dd | None \<Rightarrow> False)
         then (Inl ''portfolio drawdown above threshold pauses new entries'', rt)
         else atr_guard G config rt)"

definition enforce_new_entry_controls ::
  "'c mg_world \<Rightarrow> string \<Rightarrow> MartingaleRuntimeContext \<Rightarrow> bool \<Rightarrow> ('c MartingaleRuntime, unit) stateful" where
  "enforce_new_entry_controls G strategy_id context new_cycle rt =
     (case strategy_of rt strategy_id of
        Inl e \<Rightarrow> (Inl e, rt)
      | Inr s \<Rightarrow>
          if rs_stopped s \<or> cx_strategy_status context = Stopped then (Inl ''strategy is stopped'', rt)
          else if rs_paused_by_recovery s then (Inl ''recovery incomplete blocks new legs'', rt)
          else if cx_pause_new_entries context then (Inl ''portfolio paused new entries'', rt)
          else if cx_strategy_status context \<in> {Paused, ErrorPaused, Stopping} then (Inl ''strategy is paused'', rt)
          else if (case rl_max_global_drawdown_quote (mr_portfolio_risk_limits rt) of
                     Some limit \<Rightarrow> cx_global_drawdown_quote context \<ge> limit | None \<Rightarrow> False)
          then (Inl ''global drawdown pauses new entries'', rt)
          else
            andthen (if new_cycle then new_cycle_guards G (rs_config s) context else ret ())
              (\<lambda>_. andthen (evaluate_entry_triggers G (rs_config s) context)
                (\<lambda>satisfied. if satisfied then ret () else fail ''entry triggers are not satisfied'')) rt)"

definition enforce_preflight_before_start :: "string \<Rightarrow> 'c MartingaleRuntime \<Rightarrow> unit result" where
  "enforce_preflight_before_start strategy_id rt =
     bind_res (strategy_of rt strategy_id)
       (\<lambda>s. if ms_market (rs_config s) = MgUsdMFutures \<and> \<not> mr_futures_preflight_passed rt
            then Inl ''futures preflight must pass before start'' else Inr ())"

definition leg_margin :: "'c mg_world \<Rightarrow> MartingaleStrategyConfig \<Rightarrow> decimal \<Rightarrow> decimal" where
  "leg_margin G config notional = d_div (mg_env G) notional (d_of_u32 (max_one (ms_leverage config)))"

definition enforce_budget_for_next_leg ::
  "'c mg_world \<Rightarrow> string \<Rightarrow> u32 \<Rightarrow> 'c MartingaleRuntime \<Rightarrow> unit result" where
  "enforce_budget_for_next_leg G strategy_id leg_index rt =
     (let E = mg_env G in
      bind_res (strategy_of rt strategy_id)
       (\<lambda>s. let config = rs_config s; limits = ms_risk_limits config in
         bind_res (leg_notional E (mg_fenv G) (ms_sizing config) (mr_exchange_min_notional rt) leg_index)
          (\<lambda>notional. let margin = leg_margin G config notional in
            bind_res (enforce_limit ''strategy budget'' (rl_max_strategy_budget_quote limits)
                        (d_add E (strategy_margin_exposure E rt strategy_id) margin))
             (\<lambda>_. bind_res (enforce_limit ''symbol budget'' (rl_max_symbol_budget_quote limits)
                        (d_add E (symbol_margin_exposure E rt (ms_symbol config)) margin))
              (\<lambda>_. bind_res (enforce_limit ''direction budget'' (rl_max_direction_budget_quote limits)
                        (d_add E (direction_margin_exposure E rt (ms_direction config)) margin))
               (\<lambda>_. enforce_limit ''global budget'' (Some (mr_portfolio_budget_quote rt))
                        (d_add E (global_margin_exposure E rt) margin)))))))"

subsection \<open>Cycles and legs\<close>

definition place_leg ::
  "'c mg_world \<Rightarrow> string \<Rightarrow> MartingaleDirection \<Rightarrow> string \<Rightarrow> u32 \<Rightarrow> decimal \<Rightarrow> ('c MartingaleRuntime, unit) stateful" where
  "place_leg G strategy_id direction cycle_id leg_index price rt =
     (case bind_res (strategy_of rt strategy_id)
             (\<lambda>s. bind_res (leg_notional (mg_env G) (mg_fenv G) (ms_sizing (rs_config s))
                               (mr_exchange_min_notional rt) leg_index) (\<lambda>notional. Inr (rs_config s, notional))) of
        Inl e \<Rightarrow> (Inl e, rt)
      | Inr (config, notional) \<Rightarrow>
          (Inr (), rt\<lparr>mr_orders := mr_orders rt @
             [\<lparr>mo_client_order_id = martingale_client_order_id G (mr_portfolio_id rt)
                 (mr_strategy_instance_id rt) strategy_id cycle_id (direction_label direction) leg_index,
               mo_exchange_order_id = None, mo_strategy_id = strategy_id, mo_symbol = ms_symbol config,
               mo_cycle_id = cycle_id, mo_direction = direction, mo_leg_index = leg_index,
               mo_side = entry_side direction, mo_price = price,
               mo_quantity = d_div (mg_env G) notional price, mo_notional_quote = notional,
               mo_margin_quote = leg_margin G config notional,
               mo_leverage = max_one (ms_leverage config), mo_status = MoWorking\<rparr>]\<rparr>))"

definition lift_res :: "('s \<Rightarrow> 'a result) \<Rightarrow> ('s, 'a) stateful" where
  "lift_res f s = (f s, s)"

definition preflight_start :: "FuturesExchangeSettings \<Rightarrow> ('c MartingaleRuntime, unit) stateful" where
  "preflight_start exchange rt =
     (case validate_futures_settings_before_start (portfolio_config rt) exchange of
        Inl e \<Rightarrow> (Inl e, rt)
      | Inr _ \<Rightarrow> (Inr (), rt\<lparr>mr_futures_preflight_passed := True\<rparr>))"

definition open_cycle ::
  "'c mg_world \<Rightarrow> string \<Rightarrow> decimal \<Rightarrow> ('c MartingaleRuntime, unit) stateful" where
  "open_cycle G strategy_id anchor_price rt =
     (case strategy_of rt strategy_id of
        Inl e \<Rightarrow> (Inl e, rt)
      | Inr s \<Rightarrow>
          if rs_cycle s \<noteq> None then (Inr (), rt)
          else
            let sequence = mr_cycle_sequence rt + 1;
                cycle_id = ''cycle-'' @ show_nat (unat sequence);
                rt = update_strategy_of strategy_id
                       (\<lambda>s. s\<lparr>rs_cycle := Some \<lparr>cy_cycle_id = cycle_id, cy_anchor_price = anchor_price,
                                                cy_next_leg_index = 0\<rparr>\<rparr>) (rt\<lparr>mr_cycle_sequence := sequence\<rparr>)
            in place_leg G strategy_id (ms_direction (rs_config s)) cycle_id 0 anchor_price rt)"

definition start_cycle ::
  "'c mg_world \<Rightarrow> string \<Rightarrow> decimal \<Rightarrow> MartingaleRuntimeContext \<Rightarrow> ('c MartingaleRuntime, unit) stateful" where
  "start_cycle G strategy_id anchor_price context =
     andthen (enforce_new_entry_controls G strategy_id context True)
      (\<lambda>_. andthen (lift_res (enforce_preflight_before_start strategy_id))
       (\<lambda>_. if anchor_price \<le> 0 then fail ''anchor price must be positive''
            else andthen (lift_res (enforce_budget_for_next_leg G strategy_id 0))
              (\<lambda>_. open_cycle G strategy_id anchor_price)))"

definition start_cycle_with_futures_preflight ::
  "'c mg_world \<Rightarrow> FuturesExchangeSettings \<Rightarrow> string \<Rightarrow> decimal \<Rightarrow> MartingaleRuntimeContext
   \<Rightarrow> ('c MartingaleRuntime, unit) stateful" where
  "start_cycle_with_futures_preflight G exchange strategy_id anchor_price context =
     andthen (preflight_start exchange) (\<lambda>_. start_cycle G strategy_id anchor_price context)"

definition adx_period :: "MartingaleStrategyConfig \<Rightarrow> nat option" where
  "adx_period config =
     find_map (\<lambda>i. case i of IcAdx period \<Rightarrow> Some (unat period) | _ \<Rightarrow> None) (ms_indicators config)"

definition adx_skips :: "'c mg_world \<Rightarrow> MartingaleStrategyConfig \<Rightarrow> ('c MartingaleRuntime, bool) stateful" where
  "adx_skips G config =
     with_indicators (\<lambda>c.
       case adx_period config of
         None \<Rightarrow> (Inr False, c)
       | Some period \<Rightarrow>
           (case ind_latest_adx G (ms_symbol config) period c of
              (adx, c) \<Rightarrow>
                (Inr (case adx of
                        None \<Rightarrow> False
                      | Some a \<Rightarrow> f_lt (case rl_safety_skip_adx_threshold (ms_risk_limits config) of
                                         Some v \<Rightarrow> v | None \<Rightarrow> Fin 45) a), c)))"

definition next_leg ::
  "'c mg_world \<Rightarrow> string \<Rightarrow> MartingaleDirection \<Rightarrow> CycleState \<Rightarrow> MartingaleStrategyConfig \<Rightarrow> u32
   \<Rightarrow> ('c MartingaleRuntime, unit) stateful" where
  "next_leg G strategy_id direction cycle config next_leg_index rt =
     (let rt = update_strategy_of strategy_id
            (\<lambda>s. s\<lparr>rs_cycle := map_option (cy_next_leg_index_update (\<lambda>_. next_leg_index)) (rs_cycle s)\<rparr>) rt
      in if next_leg_index \<ge> max_legs (ms_sizing config) then (Inr (), rt)
         else andthen (lift_res (enforce_budget_for_next_leg G strategy_id next_leg_index))
          (\<lambda>_. andthen (indicator_latest_atr G config)
           (\<lambda>latest_atr. andthen (lift_res (\<lambda>_. leg_trigger_price (mg_env G) (mg_fenv G) (cy_anchor_price cycle)
                           direction (ms_spacing config) next_leg_index latest_atr))
            (\<lambda>price. place_leg G strategy_id direction (cy_cycle_id cycle) next_leg_index price))) rt)"

definition fill_leg :: "string \<Rightarrow> MartingaleDirection \<Rightarrow> u32 \<Rightarrow> string \<Rightarrow> 'c MartingaleRuntime \<Rightarrow> 'c MartingaleRuntime" where
  "fill_leg strategy_id direction leg_index cycle_id rt =
     rt\<lparr>mr_orders := update_first (\<lambda>order. mo_strategy_id order = strategy_id \<and> mo_direction order = direction
            \<and> mo_leg_index order = leg_index \<and> mo_cycle_id order = cycle_id)
          (\<lambda>order. order\<lparr>mo_status := MoFilled\<rparr>) (mr_orders rt)\<rparr>"

text \<open>In \<open>leg_index + 1\<close> the word wraps, as in a release build.\<close>

definition mark_leg_filled_with_context ::
  "'c mg_world \<Rightarrow> string \<Rightarrow> MartingaleDirection \<Rightarrow> u32 \<Rightarrow> MartingaleRuntimeContext
   \<Rightarrow> ('c MartingaleRuntime, unit) stateful" where
  "mark_leg_filled_with_context G strategy_id direction leg_index context =
     andthen (enforce_new_entry_controls G strategy_id context False)
      (\<lambda>_ rt. case strategy_of rt strategy_id of
         Inl e \<Rightarrow> (Inl e, rt)
       | Inr s \<Rightarrow>
           if ms_direction (rs_config s) \<noteq> direction then (Inl ''direction does not match strategy'', rt)
           else
             case rs_cycle s of
               None \<Rightarrow> (Inl ''cycle is not active'', rt)
             | Some cycle \<Rightarrow>
                 if leg_index + 1 < cy_next_leg_index cycle then (Inr (), rt)
                 else
                   andthen (adx_skips G (rs_config s))
                     (\<lambda>skip. if skip then ret ()
                        else next_leg G strategy_id direction cycle (rs_config s) (leg_index + 1))
                     (fill_leg strategy_id direction leg_index (cy_cycle_id cycle) rt))"

definition mark_leg_filled ::
  "'c mg_world \<Rightarrow> string \<Rightarrow> MartingaleDirection \<Rightarrow> u32 \<Rightarrow> ('c MartingaleRuntime, unit) stateful" where
  "mark_leg_filled G strategy_id direction leg_index =
     mark_leg_filled_with_context G strategy_id direction leg_index default_context"

subsection \<open>Recovery and control\<close>

definition replace_recovered_positions ::
  "MartingaleRecoveredPosition list \<Rightarrow> 'c MartingaleRuntime \<Rightarrow> 'c MartingaleRuntime" where
  "replace_recovered_positions positions rt = rt\<lparr>mr_recovered_positions := positions\<rparr>"

definition orders_for :: "string \<Rightarrow> MartingaleDirection \<Rightarrow> 'c MartingaleRuntime \<Rightarrow> MartingaleRuntimeOrder list" where
  "orders_for strategy_id direction rt =
     filter (\<lambda>order. mo_strategy_id order = strategy_id \<and> mo_direction order = direction) (mr_orders rt)"

definition known_client_order_ids :: "'c MartingaleRuntime \<Rightarrow> string list" where
  "known_client_order_ids rt = map mo_client_order_id (mr_orders rt)"

definition mark_order_placed :: "string \<Rightarrow> string \<Rightarrow> 'c MartingaleRuntime \<Rightarrow> bool \<times> 'c MartingaleRuntime" where
  "mark_order_placed client_order_id exchange_order_id rt =
     (if list_ex (\<lambda>order. mo_client_order_id order = client_order_id) (mr_orders rt)
      then (True, rt\<lparr>mr_orders := update_first (\<lambda>order. mo_client_order_id order = client_order_id)
              (\<lambda>order. order\<lparr>mo_exchange_order_id := Some exchange_order_id, mo_status := MoPlaced\<rparr>)
              (mr_orders rt)\<rparr>)
      else (False, rt))"

definition pause_strategy_for_recovery :: "string \<Rightarrow> 'c MartingaleRuntime \<Rightarrow> 'c MartingaleRuntime" where
  "pause_strategy_for_recovery strategy_id =
     update_strategy_of strategy_id (\<lambda>s. s\<lparr>rs_paused_by_recovery := True\<rparr>)"

definition pause_all_for_recovery :: "'c MartingaleRuntime \<Rightarrow> 'c MartingaleRuntime" where
  "pause_all_for_recovery rt =
     rt\<lparr>mr_strategies := map (\<lambda>(k, s). (k, s\<lparr>rs_paused_by_recovery := True\<rparr>)) (mr_strategies rt)\<rparr>"

definition is_strategy_paused :: "'c MartingaleRuntime \<Rightarrow> string \<Rightarrow> bool" where
  "is_strategy_paused rt strategy_id =
     (case map_of (mr_strategies rt) strategy_id of None \<Rightarrow> False | Some s \<Rightarrow> rs_paused_by_recovery s)"

definition mg_stop_strategy :: "string \<Rightarrow> 'c MartingaleRuntime \<Rightarrow> 'c MartingaleRuntime" where
  "mg_stop_strategy strategy_id = update_strategy_of strategy_id (\<lambda>s. s\<lparr>rs_stopped := True\<rparr>)"

definition strategy_id_for_client_order :: "'c MartingaleRuntime \<Rightarrow> string \<Rightarrow> string option" where
  "strategy_id_for_client_order rt client_order_id =
     map_option mo_strategy_id (find (\<lambda>order. mo_client_order_id order = client_order_id) (mr_orders rt))"

end
