(* ===== verification/MartingaleRecovery.thy ===== *)
theory MartingaleRecovery
  imports MartingaleRuntime
begin

text \<open>
  \<^verbatim>\<open>src/apps/trading-engine/src/martingale_recovery.rs\<close>: matching the orders, positions and trades an
  exchange reports with a runtime after a restart; \<^verbatim>\<open>martingale_candle.rs\<close>: candles from ticks;
  \<^verbatim>\<open>martingale_exit.rs\<close>: the drawdown of a strategy on its margin.
\<close>

subsection \<open>Recovery\<close>

record RecoveryOpenOrder =
  oo_symbol :: string
  oo_exchange_order_id :: string
  oo_client_order_id :: "string option"
  oo_price :: decimal
  oo_quantity :: decimal

record RecoveryPosition =
  ps_symbol :: string
  ps_quantity :: decimal
  ps_entry_price :: decimal

record RecoveryTrade =
  tr_trade_id :: string
  tr_client_order_id :: "string option"
  tr_price :: decimal
  tr_quantity :: decimal

record MartingaleRecoveryInput =
  in_positions :: "RecoveryPosition list"
  in_open_orders :: "RecoveryOpenOrder list"
  in_trades :: "RecoveryTrade list"

record MartingaleRecoveryReport =
  rr_complete :: bool
  rr_matched_orders :: nat
  rr_positions :: "RecoveryPosition list"
  rr_orphan_orders :: "RecoveryOpenOrder list"
  rr_orphan_trades :: "RecoveryTrade list"
  rr_ambiguous :: "string list"

definition orphan_order :: "RecoveryOpenOrder \<Rightarrow> MartingaleRecoveryReport \<Rightarrow> MartingaleRecoveryReport" where
  "orphan_order order report =
     report\<lparr>rr_complete := False, rr_orphan_orders := rr_orphan_orders report @ [order]\<rparr>"

definition ambiguous_order ::
  "RecoveryOpenOrder \<Rightarrow> string \<Rightarrow> MartingaleRecoveryReport \<Rightarrow> MartingaleRecoveryReport" where
  "ambiguous_order order client_order_id report =
     report\<lparr>rr_complete := False, rr_ambiguous := rr_ambiguous report @ [client_order_id],
            rr_orphan_orders := rr_orphan_orders report @ [order]\<rparr>"

definition placed_elsewhere :: "RecoveryOpenOrder \<Rightarrow> string \<Rightarrow> 'c MartingaleRuntime \<Rightarrow> bool" where
  "placed_elsewhere open_order client_order_id rt \<longleftrightarrow>
     list_ex (\<lambda>order. mo_client_order_id order = client_order_id
        \<and> mo_exchange_order_id order \<noteq> Some (oo_exchange_order_id open_order)
        \<and> mo_exchange_order_id order \<noteq> None) (mr_orders rt)"

definition recover_order ::
  "string list \<Rightarrow> RecoveryOpenOrder \<Rightarrow> MartingaleRecoveryReport \<times> 'c MartingaleRuntime
   \<Rightarrow> MartingaleRecoveryReport \<times> 'c MartingaleRuntime" where
  "recover_order known open_order st =
     (let (report, rt) = st
      in case oo_client_order_id open_order of
           None \<Rightarrow> (orphan_order open_order report, rt)
         | Some client_order_id \<Rightarrow>
             if client_order_id \<notin> set known then (orphan_order open_order report, rt)
             else if placed_elsewhere open_order client_order_id rt
             then (ambiguous_order open_order client_order_id report, rt)
             else
               case mark_order_placed client_order_id (oo_exchange_order_id open_order) rt of
                 (True, rt) \<Rightarrow> (report\<lparr>rr_matched_orders := rr_matched_orders report + 1\<rparr>, rt)
               | (False, rt) \<Rightarrow> (ambiguous_order open_order client_order_id report, rt))"

definition recover_trade :: "string list \<Rightarrow> RecoveryTrade \<Rightarrow> MartingaleRecoveryReport \<Rightarrow> MartingaleRecoveryReport" where
  "recover_trade known trade report =
     (if (case tr_client_order_id trade of None \<Rightarrow> True | Some c \<Rightarrow> c \<notin> set known)
      then report\<lparr>rr_complete := False, rr_orphan_trades := rr_orphan_trades report @ [trade]\<rparr> else report)"

definition pause_affected :: "MartingaleRecoveryReport \<Rightarrow> 'c MartingaleRuntime \<Rightarrow> 'c MartingaleRuntime" where
  "pause_affected report rt =
     (if rr_complete report then rt
      else
        let affected = List.map_filter (strategy_id_for_client_order rt) (rr_ambiguous report)
        in if affected = [] then pause_all_for_recovery rt
           else fold pause_strategy_for_recovery affected rt)"

definition recover_martingale_runtime ::
  "MartingaleRecoveryInput \<Rightarrow> 'c MartingaleRuntime \<Rightarrow> MartingaleRecoveryReport \<times> 'c MartingaleRuntime" where
  "recover_martingale_runtime input rt =
     (let known = known_client_order_ids rt;
          report = \<lparr>rr_complete = (in_positions input = []), rr_matched_orders = 0,
                    rr_positions = in_positions input, rr_orphan_orders = [], rr_orphan_trades = [],
                    rr_ambiguous = []\<rparr>;
          rt = replace_recovered_positions
                 (map (\<lambda>p. \<lparr>rp_symbol = ps_symbol p, rp_quantity = ps_quantity p, rp_entry_price = ps_entry_price p\<rparr>)
                    (in_positions input)) rt;
          rt = (if in_positions input \<noteq> [] then pause_all_for_recovery rt else rt);
          (report, rt) = fold (recover_order known) (in_open_orders input) (report, rt);
          report = fold (recover_trade known) (in_trades input) report
      in (report, pause_affected report rt))"

subsection \<open>Candles\<close>

record MarketTick =
  tk_symbol :: string
  tk_market :: string
  tk_price :: decimal
  tk_event_time_ms :: int

record LiveCandleBucket =
  bk_open_time_ms :: int
  bk_open :: f64
  bk_high :: f64
  bk_low :: f64
  bk_close :: f64

definition bucket_new :: "int \<Rightarrow> f64 \<Rightarrow> LiveCandleBucket" where
  "bucket_new open_time_ms price =
     \<lparr>bk_open_time_ms = open_time_ms, bk_open = price, bk_high = price, bk_low = price, bk_close = price\<rparr>"

definition bucket_update :: "f64 \<Rightarrow> LiveCandleBucket \<Rightarrow> LiveCandleBucket" where
  "bucket_update price b =
     b\<lparr>bk_high := f_max (bk_high b) price, bk_low := f_min (bk_low b) price, bk_close := price\<rparr>"

definition into_bar :: "string \<Rightarrow> LiveCandleBucket \<Rightarrow> KlineBar" where
  "into_bar symbol b =
     \<lparr>kb_symbol = symbol, kb_open_time_ms = bk_open_time_ms b, kb_open = bk_open b, kb_high = bk_high b,
      kb_low = bk_low b, kb_close = bk_close b, kb_volume = Fin 0\<rparr>"

definition tick_price :: "fenv \<Rightarrow> MarketTick \<Rightarrow> f64 option" where
  "tick_price F tick =
     (case to_f64 F (tk_price tick) of
        Some p \<Rightarrow> if is_finite p \<and> f_lt (Fin 0) p then Some p else None | None \<Rightarrow> None)"

definition complete_bar ::
  "fenv \<Rightarrow> int \<Rightarrow> MarketTick \<Rightarrow> KlineBar list \<times> (string \<rightharpoonup> LiveCandleBucket)
   \<Rightarrow> KlineBar list \<times> (string \<rightharpoonup> LiveCandleBucket)" where
  "complete_bar F bucket_ms tick st =
     (let (completed, buckets) = st
      in if tk_market tick \<notin> {''usdm'', ''futures'', ''usd_m_futures''} then st
         else
           case tick_price F tick of
             None \<Rightarrow> st
           | Some price \<Rightarrow>
               let open_ms = tk_event_time_ms tick div bucket_ms * bucket_ms; symbol = tk_symbol tick
               in case buckets symbol of
                    None \<Rightarrow> (completed, buckets(symbol \<mapsto> bucket_new open_ms price))
                  | Some b \<Rightarrow>
                      if bk_open_time_ms b = open_ms then (completed, buckets(symbol \<mapsto> bucket_update price b))
                      else if bk_open_time_ms b < open_ms
                      then (completed @ [into_bar symbol b], buckets(symbol \<mapsto> bucket_new open_ms price))
                      else st)"

definition complete_bars ::
  "fenv \<Rightarrow> int \<Rightarrow> MarketTick list \<Rightarrow> (string \<rightharpoonup> LiveCandleBucket)
   \<Rightarrow> KlineBar list \<times> (string \<rightharpoonup> LiveCandleBucket)" where
  "complete_bars F bucket_ms ticks buckets = fold (complete_bar F bucket_ms) ticks ([], buckets)"

subsection \<open>Drawdown\<close>

definition fee_and_slippage_bps :: f64 where
  "fee_and_slippage_bps = f_add (f_round (9 / 2)) (f_round 2)"

definition martingale_strategy_drawdown_pct ::
  "fenv \<Rightarrow> MartingaleStrategyConfig \<Rightarrow> decimal \<Rightarrow> decimal \<Rightarrow> decimal \<Rightarrow> decimal \<Rightarrow> decimal \<Rightarrow> f64 option" where
  "martingale_strategy_drawdown_pct F config quantity average_entry_price current_price realized_pnl entry_fees =
     (case ms_stop_loss config of
        Some (SlStrategyDrawdownPct _) \<Rightarrow>
          (let leverage = (if ms_market config = MgSpot then Fin 1 else f_of_u32 (max_one (ms_leverage config)))
           in case (to_f64 F \<bar>quantity\<bar>, to_f64 F average_entry_price, to_f64 F current_price) of
                (Some qty, Some avg, Some price) \<Rightarrow>
                  if f_le leverage (Fin 0) \<or> f_le qty (Fin 0) \<or> f_le avg (Fin 0) then None
                  else
                    let invested = f_div (f_mul qty avg) leverage;
                        dir_sign = (if ms_direction config = MgLong then Fin 1 else Fin (- 1));
                        unrealized = f_mul (f_mul (f_sub price avg) qty) dir_sign;
                        zero = (\<lambda>d. case to_f64 F d of Some v \<Rightarrow> v | None \<Rightarrow> Fin 0);
                        exit_cost = f_div (f_mul (f_mul qty price) fee_and_slippage_bps) (Fin 10000);
                        net = f_sub (f_sub (f_add (zero realized_pnl) unrealized) (zero entry_fees)) exit_cost
                    in Some (f_mul (f_div (f_max (f_neg net) (Fin 0)) invested) (Fin 100))
              | _ \<Rightarrow> None)
      | _ \<Rightarrow> None)"

end
