(* ===== verification/F64Round.thy ===== *)
theory F64Round
  imports F64
begin

text \<open>
  Rounding to \<open>f64\<close> is monotone, and so are the operations in the arguments the sources vary. The
  order of prices and distances computed in floating point rests on this.
\<close>

subsection \<open>Rounding to an integer\<close>

lemma round_half_even_floor:
  "round_half_even x = \<lfloor>x\<rfloor> \<or> round_half_even x = \<lfloor>x\<rfloor> + 1"
  by (simp add: round_half_even_def Let_def)

lemma round_half_even_mono:
  assumes "x \<le> y"
  shows "round_half_even x \<le> round_half_even y"
proof (cases "\<lfloor>x\<rfloor> = \<lfloor>y\<rfloor>")
  case True
  with assms show ?thesis by (auto simp: round_half_even_def Let_def)
next
  case False
  with floor_mono [OF assms] have "\<lfloor>x\<rfloor> + 1 \<le> \<lfloor>y\<rfloor>" by simp
  with round_half_even_floor [of x] round_half_even_floor [of y] show ?thesis by auto
qed

lemma round_half_even_int [simp]: "round_half_even (of_int n) = n"
  by (simp add: round_half_even_def)

lemma round_half_even_minus: "round_half_even (- x) = - round_half_even x"
proof (cases "x = of_int \<lfloor>x\<rfloor>")
  case True
  then obtain n where x: "x = of_int n" by blast
  then have "- x = of_int (- n)" by simp
  then show ?thesis using x by (metis round_half_even_int)
next
  case False
  define f where "f = \<lfloor>x\<rfloor>"
  have lo: "of_int f < x" and hi: "x < of_int f + 1"
    using False of_int_floor_le [of x] floor_correct [of x] by (auto simp: f_def order_less_le)
  have fm: "\<lfloor>- x\<rfloor> = - f - 1" using lo hi by (simp add: floor_eq_iff)
  show ?thesis
    unfolding round_half_even_def fm f_def [symmetric] Let_def using lo hi by auto
qed

subsection \<open>The binary exponent\<close>

lemma power_int_nat: "0 \<le> k \<Longrightarrow> power_int (2 :: rat) k = of_int (2 ^ nat k)"
  by (simp add: power_int_def)

lemma bitlen_power_bounds:
  assumes "0 < (n :: int)"
  shows "power_int (2 :: rat) (bitlen n - 1) \<le> of_int n" and "of_int n < power_int (2 :: rat) (bitlen n)"
proof -
  from bitlen_bounds [OF assms] have "2 ^ nat (bitlen n - 1) \<le> n" and hi: "n < 2 ^ nat (bitlen n)" by auto
  then have lo: "of_int (2 ^ nat (bitlen n - 1)) \<le> (of_int n :: rat)" by (subst of_int_le_iff)
  have "0 < bitlen n" using assms bitlen_nonneg [of n] bitlen_eq_zero_iff [of n] by linarith
  then have pos: "0 \<le> bitlen n - 1" "0 \<le> bitlen n" by simp_all
  show "power_int (2 :: rat) (bitlen n - 1) \<le> of_int n"
    unfolding power_int_nat [OF pos(1)] by (rule lo)
  show "of_int n < power_int (2 :: rat) (bitlen n)"
    unfolding power_int_nat [OF pos(2)] of_int_less_iff by (rule hi)
qed

lemma ilog2_bounds:
  assumes "0 < x"
  shows "power_int 2 (ilog2 x) \<le> x" and "x < power_int 2 (ilog2 x + 1)"
proof -
  obtain p q where pq: "quotient_of x = (p, q)" by (cases "quotient_of x")
  have q: "0 < q" by (rule quotient_of_denom_pos [OF pq])
  have x: "x = of_int p / of_int q" by (rule quotient_of_div [OF pq])
  with assms q have p: "0 < p" by (simp add: zero_less_divide_iff)
  define k where "k = bitlen p - bitlen q"
  note bp = bitlen_power_bounds [OF p] and bq = bitlen_power_bounds [OF q]
  have "x < power_int 2 (bitlen p) / power_int 2 (bitlen q - 1)"
    unfolding x using bp(2) bq(1) p q by (intro frac_less) auto
  then have hi: "x < power_int 2 (k + 1)"
    by (simp add: k_def power_int_diff power_int_add field_simps)
  have "power_int 2 (bitlen p - 1) / power_int 2 (bitlen q) < x"
    unfolding x using bp(1) bq(2) p q by (intro frac_less2) auto
  then have lo: "power_int 2 (k - 1) < x"
    by (simp add: k_def power_int_diff power_int_add field_simps)
  have "ilog2 x = (if power_int 2 k \<le> x then k else k - 1)"
    by (simp add: ilog2_def pq k_def)
  with lo hi show "power_int 2 (ilog2 x) \<le> x" and "x < power_int 2 (ilog2 x + 1)" by auto
qed

lemma ilog2_mono:
  assumes "0 < x" and "x \<le> y"
  shows "ilog2 x \<le> ilog2 y"
proof (rule ccontr)
  assume "\<not> ilog2 x \<le> ilog2 y"
  then have "power_int (2 :: rat) (ilog2 y + 1) \<le> power_int 2 (ilog2 x)" by (simp add: power_int_increasing)
  with ilog2_bounds(1) [OF assms(1)] ilog2_bounds(2) [of y] assms show False by linarith
qed


subsection \<open>Rounding to a float\<close>

definition f_unit :: "rat \<Rightarrow> rat" where
  "f_unit x = power_int 2 (max (ilog2 \<bar>x\<bar> - 52) (- 1074))"

text \<open>The rounded value before the check for overflow.\<close>

definition rounded :: "rat \<Rightarrow> rat" where
  "rounded x = (if x = 0 then 0 else of_int (round_half_even (x / f_unit x)) * f_unit x)"

lemma f_unit_pos [simp]: "0 < f_unit x"
  by (simp add: f_unit_def)

lemma f_round_rounded:
  "f_round x = (if \<bar>rounded x\<bar> < 2 ^ 1024 then Fin (rounded x) else if 0 < x then PInf else NInf)"
  by (simp add: f_round_def rounded_def f_unit_def Let_def)

lemma rounded_minus: "rounded (- x) = - rounded x"
  by (simp add: rounded_def f_unit_def round_half_even_minus)

lemma rounded_nonneg: "0 \<le> x \<Longrightarrow> 0 \<le> rounded x"
  using round_half_even_mono [of 0 "x / f_unit x"] round_half_even_int [of 0] f_unit_pos [of x]
  by (simp add: rounded_def less_imp_le)

lemma rounded_le_multiple:
  assumes "x \<noteq> 0" "x \<le> of_int n * f_unit x"
  shows "rounded x \<le> of_int n * f_unit x"
proof -
  have "x / f_unit x \<le> of_int n" using assms(2) by (simp add: pos_divide_le_eq)
  from round_half_even_mono [OF this] show ?thesis using assms(1) by (simp add: rounded_def)
qed

lemma rounded_ge_multiple:
  assumes "x \<noteq> 0" "of_int n * f_unit x \<le> x"
  shows "of_int n * f_unit x \<le> rounded x"
proof -
  have "of_int n \<le> x / f_unit x" using assms(2) by (simp add: pos_le_divide_eq)
  from round_half_even_mono [OF this] show ?thesis using assms(1) by (simp add: rounded_def)
qed

lemma power_multiple:
  assumes "k \<le> e"
  shows "\<exists>n. power_int (2 :: rat) e = of_int n * power_int 2 k"
proof -
  have "power_int (2 :: rat) e = power_int 2 (e - k) * power_int 2 k" by (simp add: power_int_add [symmetric])
  also have "power_int (2 :: rat) (e - k) = of_int (2 ^ nat (e - k))" using assms by (simp add: power_int_def)
  finally show ?thesis by blast
qed

lemma rounded_mono_pos:
  assumes "0 < x" "x \<le> y"
  shows "rounded x \<le> rounded y"
proof (cases "f_unit x = f_unit y")
  case True
  have "x / f_unit x \<le> y / f_unit x" using assms by (simp add: divide_right_mono less_imp_le)
  from round_half_even_mono [OF this] assms show ?thesis
    by (simp add: rounded_def True mult_right_mono less_imp_le)
next
  case False
  let ?ex = "ilog2 x" and ?ey = "ilog2 y"
  have "?ex \<le> ?ey" by (rule ilog2_mono [OF assms])
  moreover have "?ex \<noteq> ?ey" using False assms by (auto simp: f_unit_def)
  ultimately have e: "?ex + 1 \<le> ?ey" by linarith
  have ey: "- 1074 < ?ey - 52"
    using False assms \<open>?ex \<le> ?ey\<close> by (auto simp: f_unit_def max_def split: if_splits)
  have "power_int (2 :: rat) (?ex + 1) \<le> power_int 2 ?ey" using e by (simp add: power_int_increasing)
  then have below: "x \<le> power_int 2 ?ey" using ilog2_bounds(2) [OF assms(1)] by linarith
  obtain n where n: "power_int (2 :: rat) ?ey = of_int n * f_unit x"
    using power_multiple [of "max (?ex - 52) (- 1074)" ?ey] e ey assms by (auto simp: f_unit_def)
  obtain m where m: "power_int (2 :: rat) ?ey = of_int m * f_unit y"
    using power_multiple [of "max (?ey - 52) (- 1074)" ?ey] ey assms by (auto simp: f_unit_def)
  have "rounded x \<le> power_int 2 ?ey"
    using rounded_le_multiple [of x n] below n assms by simp
  also have "\<dots> \<le> rounded y"
    using rounded_ge_multiple [of y m] ilog2_bounds(1) [of y] m assms by simp
  finally show ?thesis .
qed

lemma rounded_mono: "x \<le> y \<Longrightarrow> rounded x \<le> rounded y"
proof -
  assume le: "x \<le> y"
  consider "0 < x" | "x \<le> 0" "0 \<le> y" | "y < 0" using le by linarith
  then show ?thesis
  proof cases
    case 1
    with le show ?thesis by (rule rounded_mono_pos [rotated -1])
  next
    case 2
    then show ?thesis using rounded_nonneg [of "- x"] rounded_nonneg [of y] by (simp add: rounded_minus)
  next
    case 3
    with le rounded_mono_pos [of "- y" "- x"] show ?thesis by (simp add: rounded_minus)
  qed
qed

lemma f_round_mono: "x \<le> y \<Longrightarrow> f_le (f_round x) (f_round y)"
  using rounded_mono [of x y] rounded_nonneg [of x] rounded_nonneg [of "- y"]
  by (auto simp: f_round_rounded f_le_def rounded_minus)


subsection \<open>Order\<close>

lemma f_le_refl [simp]: "f_le x x \<longleftrightarrow> x \<noteq> NaN"
  by (cases x) (auto simp: f_le_def)

lemma f_le_trans: "f_le x y \<Longrightarrow> f_le y z \<Longrightarrow> f_le x z"
  by (cases x; cases y; cases z) (auto simp: f_le_def)

lemma f_le_finite_below: "f_le x (Fin q) \<Longrightarrow> x = NInf \<or> (\<exists>p. x = Fin p \<and> p \<le> q)"
  by (cases x) (auto simp: f_le_def)

lemma f_round_0 [simp]: "f_round 0 = Fin 0"
  by (simp add: f_round_def)

lemma f_round_nonneg: "0 \<le> x \<Longrightarrow> f_le (Fin 0) (f_round x)"
  using f_round_mono [of 0 x] by simp

lemma f_mul_mono:
  "0 \<le> a \<Longrightarrow> x \<le> y \<Longrightarrow> f_le (f_mul (Fin a) (Fin x)) (f_mul (Fin a) (Fin y))"
  by (simp add: f_round_mono mult_left_mono)

lemma f_div_mono:
  "0 < c \<Longrightarrow> x \<le> y \<Longrightarrow> f_le (f_div (Fin x) (Fin c)) (f_div (Fin y) (Fin c))"
  by (simp add: f_round_mono divide_right_mono)

lemma f_sub_antimono: "x \<le> y \<Longrightarrow> f_le (f_sub (Fin a) (Fin y)) (f_sub (Fin a) (Fin x))"
  by (simp add: f_sub_def f_round_mono)

lemma f_add_mono: "x \<le> y \<Longrightarrow> f_le (f_add (Fin a) (Fin x)) (f_add (Fin a) (Fin y))"
  by (simp add: f_round_mono)

text \<open>A float is a value that rounding leaves alone.\<close>

definition representable :: "f64 \<Rightarrow> bool" where
  "representable x \<longleftrightarrow> (case x of Fin q \<Rightarrow> f_round q = Fin q | _ \<Rightarrow> True)"

lemma f_sub_below: "representable (Fin a) \<Longrightarrow> 0 \<le> x \<Longrightarrow> f_le (f_sub (Fin a) (Fin x)) (Fin a)"
  using f_sub_antimono [of 0 x a] by (simp add: f_sub_def representable_def)

lemma f_add_above: "representable (Fin a) \<Longrightarrow> 0 \<le> x \<Longrightarrow> f_le (Fin a) (f_add (Fin a) (Fin x))"
  using f_add_mono [of 0 x a] by (simp add: representable_def)


subsection \<open>Small integers\<close>

lemma rounded_int:
  assumes "\<bar>n\<bar> < 2 ^ 53"
  shows "rounded (of_int n) = of_int n"
proof (cases "n = 0")
  case False
  let ?x = "of_int n :: rat"
  have pos: "0 < \<bar>?x\<bar>" using False by simp
  have "\<bar>?x\<bar> < power_int 2 53" using assms by (simp add: power_int_def flip: of_int_abs)
  moreover have "power_int 2 (ilog2 \<bar>?x\<bar>) \<le> \<bar>?x\<bar>" by (rule ilog2_bounds(1) [OF pos])
  ultimately have "power_int 2 (ilog2 \<bar>?x\<bar>) < power_int (2 :: rat) 53" by linarith
  then have "ilog2 \<bar>?x\<bar> < 53" using power_int_increasing [of 53 "ilog2 \<bar>?x\<bar>" "2 :: rat"] by linarith
  then obtain m where m: "power_int (2 :: rat) 0 = of_int m * f_unit ?x"
    using power_multiple [of "max (ilog2 \<bar>?x\<bar> - 52) (- 1074)" 0] by (auto simp: f_unit_def)
  then have x: "?x = of_int (n * m) * f_unit ?x" by (metis mult.assoc mult.right_neutral of_int_mult power_int_0_right)
  have "rounded ?x \<le> of_int (n * m) * f_unit ?x" "of_int (n * m) * f_unit ?x \<le> rounded ?x"
    using False rounded_le_multiple [OF _ eq_refl [OF x]] rounded_ge_multiple [OF _ eq_refl [OF x [symmetric]]] by simp_all
  then show ?thesis using x by simp
qed (simp add: rounded_def)

lemma f_round_int: "\<bar>n\<bar> < 2 ^ 53 \<Longrightarrow> f_round (of_int n) = Fin (of_int n)"
proof -
  assume n: "\<bar>n\<bar> < 2 ^ 53"
  then have "\<bar>n\<bar> < 2 ^ 1024" by (rule order_less_trans) simp
  then have "\<bar>of_int n :: rat\<bar> < of_int (2 ^ 1024)" unfolding of_int_abs [symmetric] of_int_less_iff .
  with n show ?thesis by (simp add: f_round_rounded rounded_int)
qed

text \<open>Evaluation takes the short way on small integers, and computes powers of two as integers.\<close>

definition f_top :: int where
  "f_top = 2 ^ 1024"

lemma f_top_code [code]: "f_top = (let s = (\<lambda>x. x * x) in s (s (s (s (s (s (s (s (s (s 2))))))))))"
  by (simp add: f_top_def)

definition pow2 :: "int \<Rightarrow> rat" where
  "pow2 k = power_int 2 k"

lemma pow2_code [code]: "pow2 k = (if 0 \<le> k then of_int (2 ^ nat k) else Fract 1 (2 ^ nat (- k)))"
  by (simp add: pow2_def power_int_def Fract_of_int_quotient power_one_over)

lemma ilog2_code [code]:
  "ilog2 x = (let (p, q) = quotient_of x; k = bitlen p - bitlen q in if pow2 k \<le> x then k else k - 1)"
  by (simp add: ilog2_def pow2_def)

lemma f_max_value_code [code]: "f_max_value = Fin (of_int (f_top - 2 ^ 971))"
  by (simp add: f_max_value_def f_top_def)

definition f_round_general :: "rat \<Rightarrow> f64" where
  "f_round_general = f_round"

lemma f_round_general_code [code]:
  "f_round_general x =
     (if x = 0 then Fin 0
      else
        let unit = pow2 (max (ilog2 \<bar>x\<bar> - 52) (- 1074));
            y = of_int (round_half_even (x / unit)) * unit
        in if \<bar>y\<bar> < of_int f_top then Fin y else if 0 < x then PInf else NInf)"
  by (simp add: f_round_general_def f_round_def pow2_def f_top_def)

lemma f_round_code [code]:
  "f_round x =
     (let (p, q) = quotient_of x
      in if q = 1 \<and> \<bar>p\<bar> < 2 ^ 53 then Fin x else f_round_general x)"
proof (cases "quotient_of x")
  case (Pair p q)
  then show ?thesis
    using quotient_of_div [OF Pair] f_round_int [of p] by (auto simp: f_round_general_def)
qed

end
