(* ===== verification/MartingaleDemo.thy ===== *)
theory MartingaleDemo
  imports MartingaleRecovery F64Round
begin

text \<open>
  A concrete environment for the martingale component: exact decimals, conversions to \<open>f64\<close> that round,
  an indicator state without bars, and a futures portfolio with one long strategy.
\<close>

definition plain_fenv :: fenv where
  "plain_fenv =
     \<lparr>to_f64 = (\<lambda>d. Some (f_round d)),
      of_f64 = (\<lambda>x. case x of Fin q \<Rightarrow> Some q | _ \<Rightarrow> None),
      f_powi = (\<lambda>x n. if 0 \<le> n then (f_mul x ^^ nat n) (Fin 1) else f_div (Fin 1) ((f_mul x ^^ nat (- n)) (Fin 1))),
      f_show = (\<lambda>_. ''?'')\<rparr>"

definition demo_mg :: "unit mg_world" where
  "demo_mg =
     \<lparr>mg_env = plain_env, mg_fenv = plain_fenv, mg_upper = id, leg_hash = (\<lambda>_ _ _ _ n. ucast n),
      ind_default = (), ind_push_bar = (\<lambda>_ _. ()), ind_evaluate = (\<lambda>_ _ c. (Inl ''no indicator bars'', c)),
      ind_latest_atr = (\<lambda>_ c. (None, c)), ind_latest_adx = (\<lambda>_ _ c. (None, c)),
      ind_last_close = (\<lambda>_ _. None), ind_bar_count = (\<lambda>_ _. None)\<rparr>"

definition demo_leg_config :: MartingaleStrategyConfig where
  "demo_leg_config =
     \<lparr>ms_strategy_id = ''s1'', ms_symbol = ''BTCUSDT'', ms_market = MgUsdMFutures, ms_direction = MgLong,
      ms_direction_mode = LongOnly, ms_margin_mode = Some MgCross, ms_leverage = Some 2,
      ms_spacing = SpFixedPercent 100, ms_sizing = SzMultiplier 10 2 3, ms_take_profit = TpPercent 50,
      ms_stop_loss = None, ms_indicators = [], ms_entry_triggers = [EtImmediate],
      ms_risk_limits = default_limits\<lparr>rl_max_strategy_budget_quote := Some 28\<rparr>\<rparr>"

definition demo_mg_config :: MartingaleRuntimeConfig where
  "demo_mg_config =
     \<lparr>rc_portfolio_id = ''p'', rc_strategy_instance_id = ''i'',
      rc_portfolio = \<lparr>pf_direction_mode = LongOnly, pf_strategies = [demo_leg_config], pf_risk_limits = default_limits\<rparr>,
      rc_portfolio_budget_quote = 30, rc_exchange_min_notional = 5\<rparr>"

definition demo_settings :: FuturesExchangeSettings where
  "demo_settings =
     \<lparr>fx_hedge_mode = False,
      fx_symbols = (\<lambda>s. if s = ''BTCUSDT'' then Some \<lparr>fs_margin_mode = MgCross, fs_leverage = 5\<rparr> else None)\<rparr>"

definition demo_rt :: "unit MartingaleRuntime" where
  "demo_rt = (case martingale_new demo_mg demo_mg_config of Inr rt \<Rightarrow> rt | Inl _ \<Rightarrow> undefined)"

text \<open>The runtime after the first leg, and after its fill.\<close>

definition demo_mg_started :: "unit MartingaleRuntime" where
  "demo_mg_started = snd (start_cycle_with_futures_preflight demo_mg demo_settings ''s1'' 100 default_context demo_rt)"

definition demo_mg_second :: "unit MartingaleRuntime" where
  "demo_mg_second = snd (mark_leg_filled demo_mg ''s1'' MgLong 0 demo_mg_started)"


text \<open>Two of the three legs a ladder asks for are open; the exchange reports both, one without a known id.\<close>

definition demo_open_order :: "string option \<Rightarrow> string \<Rightarrow> RecoveryOpenOrder" where
  "demo_open_order cid eid =
     \<lparr>oo_symbol = ''BTCUSDT'', oo_exchange_order_id = eid, oo_client_order_id = cid, oo_price = 100, oo_quantity = 1\<rparr>"

definition demo_recovery :: MartingaleRecoveryInput where
  "demo_recovery =
     \<lparr>in_positions = [],
      in_open_orders = [demo_open_order (Some ''mg-0000000000000000-long-leg-0'') ''77'', demo_open_order None ''78''],
      in_trades = []\<rparr>"

definition demo_tick :: "int \<Rightarrow> decimal \<Rightarrow> MarketTick" where
  "demo_tick t price =
     \<lparr>tk_symbol = ''BTCUSDT'', tk_market = ''usdm'', tk_price = price, tk_event_time_ms = t\<rparr>"

end
