(* ===== verification/MartingaleBook.thy ===== *)
theory MartingaleBook
  imports MartingaleDemo
begin

text \<open>
  The margin ledger of a martingale portfolio: an abstract specification of what the runtime of
  \<^verbatim>\<open>martingale_runtime.rs\<close> may do to the margin it commits, and the step relation of the runtime over
  all its methods that take \<open>&mut self\<close>.
\<close>

named_theorems ledger_simps \<open>operations that leave the margin ledger alone\<close>

subsection \<open>Specification\<close>

text \<open>An entry is the strategy, symbol, direction and margin of a leg. The ledger only grows, and an entry
  is added only when no limit of its strategy and not the budget of the portfolio is exceeded.\<close>

type_synonym margin_entry = "string \<times> string \<times> MartingaleDirection \<times> decimal"

record margin_ledger =
  ml_budget :: decimal
  ml_configs :: "(string \<times> MartingaleStrategyConfig) list"
  ml_entries :: "margin_entry list"

definition committed :: "env \<Rightarrow> (margin_entry \<Rightarrow> bool) \<Rightarrow> margin_entry list \<Rightarrow> decimal" where
  "committed E selected entries = foldl (d_add E) 0 (map (\<lambda>(_, _, _, m). m) (filter selected entries))"

definition limit_holds :: "decimal option \<Rightarrow> decimal \<Rightarrow> bool" where
  "limit_holds limit value = (case limit of None \<Rightarrow> True | Some l \<Rightarrow> value \<le> l)"

definition limits_hold :: "env \<Rightarrow> MartingaleStrategyConfig \<Rightarrow> string \<Rightarrow> margin_ledger \<Rightarrow> bool" where
  "limits_hold E c sid ledger \<longleftrightarrow>
     limit_holds (rl_max_strategy_budget_quote (ms_risk_limits c))
       (committed E (\<lambda>(s, _). s = sid) (ml_entries ledger))
     \<and> limit_holds (rl_max_symbol_budget_quote (ms_risk_limits c))
       (committed E (\<lambda>(_, symbol, _). symbol = ms_symbol c) (ml_entries ledger))
     \<and> limit_holds (rl_max_direction_budget_quote (ms_risk_limits c))
       (committed E (\<lambda>(_, _, d, _). d = ms_direction c) (ml_entries ledger))
     \<and> committed E (\<lambda>_. True) (ml_entries ledger) \<le> ml_budget ledger"

inductive ledger_step :: "env \<Rightarrow> margin_ledger \<Rightarrow> margin_ledger \<Rightarrow> bool" for E where
  ledger_keeps: "ledger_step E l l"
| ledger_enters:
    "map_of (ml_configs l) sid = Some c \<Longrightarrow>
     l' = l\<lparr>ml_entries := ml_entries l @ [(sid, ms_symbol c, ms_direction c, m)]\<rparr> \<Longrightarrow>
     limits_hold E c sid l' \<Longrightarrow> ledger_step E l l'"

inductive_simps ledger_step_simp: "ledger_step E l l'"

text \<open>The invariant of the specification: the portfolio stays within its budget and every strategy that has
  an entry within its own.\<close>

definition ledger_ok :: "env \<Rightarrow> margin_ledger \<Rightarrow> bool" where
  "ledger_ok E l \<longleftrightarrow>
     committed E (\<lambda>_. True) (ml_entries l) \<le> ml_budget l
     \<and> (\<forall>sid c. map_of (ml_configs l) sid = Some c \<longrightarrow> sid \<in> fst ` set (ml_entries l) \<longrightarrow>
          limit_holds (rl_max_strategy_budget_quote (ms_risk_limits c))
            (committed E (\<lambda>(s, _). s = sid) (ml_entries l)))"

lemma committed_other: "\<not> selected x \<Longrightarrow> committed E selected (xs @ [x]) = committed E selected xs"
  by (simp add: committed_def)

lemma ledger_step_ok:
  assumes "ledger_step E l l'" and ok: "ledger_ok E l"
  shows "ledger_ok E l'"
  using assms(1)
proof cases
  case (ledger_enters sid c m)
  have "limit_holds (rl_max_strategy_budget_quote (ms_risk_limits c'))
          (committed E (\<lambda>(s, _). s = sid') (ml_entries l'))"
    if "map_of (ml_configs l') sid' = Some c'" "sid' \<in> fst ` set (ml_entries l')" for sid' c'
  proof (cases "sid' = sid")
    case True
    with that ledger_enters show ?thesis by (simp add: limits_hold_def)
  next
    case False
    with that ledger_enters ok show ?thesis
      by (simp add: ledger_ok_def committed_other)
  qed
  with ledger_enters show ?thesis by (simp add: ledger_ok_def limits_hold_def)
qed (use ok in simp)

subsection \<open>The ledger of a runtime\<close>

definition order_entry :: "MartingaleRuntimeOrder \<Rightarrow> margin_entry" where
  "order_entry order = (mo_strategy_id order, mo_symbol order, mo_direction order, mo_margin_quote order)"

definition ledger_of :: "'c MartingaleRuntime \<Rightarrow> margin_ledger" where
  "ledger_of rt =
     \<lparr>ml_budget = mr_portfolio_budget_quote rt,
      ml_configs = map (\<lambda>(k, s). (k, rs_config s)) (mr_strategies rt),
      ml_entries = map order_entry (mr_orders rt)\<rparr>"

lemma ledger_of_cong:
  "mr_portfolio_budget_quote rt' = mr_portfolio_budget_quote rt \<Longrightarrow>
   map (\<lambda>(k, s). (k, rs_config s)) (mr_strategies rt') = map (\<lambda>(k, s). (k, rs_config s)) (mr_strategies rt) \<Longrightarrow>
   map order_entry (mr_orders rt') = map order_entry (mr_orders rt) \<Longrightarrow> ledger_of rt' = ledger_of rt"
  by (simp add: ledger_of_def)

lemma map_of_configs:
  "map_of (ml_configs (ledger_of rt)) sid = map_option rs_config (map_of (mr_strategies rt) sid)"
  by (simp add: ledger_of_def map_of_map [where f = rs_config, simplified])

lemma margin_exposure_committed:
  "strategy_margin_exposure E rt sid = committed E (\<lambda>(s, _). s = sid) (ml_entries (ledger_of rt))"
  "symbol_margin_exposure E rt symbol = committed E (\<lambda>(_, s, _). s = symbol) (ml_entries (ledger_of rt))"
  "direction_margin_exposure E rt d = committed E (\<lambda>(_, _, d', _). d' = d) (ml_entries (ledger_of rt))"
  "global_margin_exposure E rt = committed E (\<lambda>_. True) (ml_entries (ledger_of rt))"
  by (simp_all add: strategy_margin_exposure_def symbol_margin_exposure_def direction_margin_exposure_def
        global_margin_exposure_def margin_exposure_def committed_def ledger_of_def filter_map comp_def
        order_entry_def)

subsection \<open>Operations that keep the ledger\<close>

lemma map_modify_key:
  "(\<And>x. g (f x) = g x) \<Longrightarrow> map (\<lambda>(k, s). (k, g s)) (modify_key key f xs) = map (\<lambda>(k, s). (k, g s)) xs"
  unfolding modify_key_def by (rule map_update_first) auto

lemma ledger_update_strategy [ledger_simps]:
  "(\<And>s. rs_config (f s) = rs_config s) \<Longrightarrow> ledger_of (update_strategy_of sid f rt) = ledger_of rt"
  by (simp add: ledger_of_def update_strategy_of_def map_modify_key)

lemma ledger_with_indicators [ledger_simps]: "ledger_of (snd (with_indicators f rt)) = ledger_of rt"
  by (simp add: with_indicators_def ledger_of_def split: prod.splits)

lemma ledger_fields [ledger_simps]:
  "ledger_of (rt\<lparr>mr_indicator_context := c\<rparr>) = ledger_of rt"
  "ledger_of (rt\<lparr>mr_futures_preflight_passed := b\<rparr>) = ledger_of rt"
  "ledger_of (rt\<lparr>mr_recovered_positions := ps\<rparr>) = ledger_of rt"
  "ledger_of (rt\<lparr>mr_cycle_sequence := n\<rparr>) = ledger_of rt"
  by (simp_all add: ledger_of_def)

lemma ledger_update_first [ledger_simps]:
  "(\<And>x. order_entry (f x) = order_entry x) \<Longrightarrow>
   ledger_of (rt\<lparr>mr_orders := update_first P f (mr_orders rt)\<rparr>) = ledger_of rt"
  by (simp add: ledger_of_def map_update_first)

lemma ledger_andthen:
  assumes "ledger_of (snd (m rt)) = ledger_of rt"
    and "\<And>x rt'. m rt = (Inr x, rt') \<Longrightarrow> ledger_of (snd (f x rt')) = ledger_of rt'"
  shows "ledger_of (snd (andthen m f rt)) = ledger_of rt"
  using assms by (cases "m rt"; cases "fst (m rt)") (auto simp: andthen_def)

lemma ledger_keeping [ledger_simps]:
  "ledger_of (warmup_indicators_from_bars G bars rt) = ledger_of rt"
  "ledger_of (set_indicator_context ctx rt) = ledger_of rt"
  "ledger_of (snd (preflight_start exchange rt)) = ledger_of rt"
  "ledger_of (replace_recovered_positions ps rt) = ledger_of rt"
  "ledger_of (snd (mark_order_placed cid eid rt)) = ledger_of rt"
  "ledger_of (pause_strategy_for_recovery sid rt) = ledger_of rt"
  "ledger_of (mg_stop_strategy sid rt) = ledger_of rt"
  "ledger_of (fill_leg sid direction leg cid rt) = ledger_of rt"
  "ledger_of (snd (indicator_latest_atr G c rt)) = ledger_of rt"
  "ledger_of (snd (evaluate_entry_triggers G c context rt)) = ledger_of rt"
  "ledger_of (snd (adx_skips G c rt)) = ledger_of rt"
  by (simp_all add: warmup_indicators_from_bars_def set_indicator_context_def preflight_start_def replace_recovered_positions_def
        mark_order_placed_def pause_strategy_for_recovery_def mg_stop_strategy_def fill_leg_def
        indicator_latest_atr_def evaluate_entry_triggers_def adx_skips_def order_entry_def ledger_simps
        split: sum.splits)

lemma ledger_pause_all [ledger_simps]: "ledger_of (pause_all_for_recovery rt) = ledger_of rt"
  by (simp add: ledger_of_def pause_all_for_recovery_def comp_def case_prod_beta)

lemma ledger_atr_guard [ledger_simps]: "ledger_of (snd (atr_guard G c rt)) = ledger_of rt"
  unfolding atr_guard_def by (rule ledger_andthen) (auto simp: ledger_simps Let_def split: option.splits)

lemma ledger_entry_controls [ledger_simps]:
  "ledger_of (snd (enforce_new_entry_controls G sid context new_cycle rt)) = ledger_of rt"
proof -
  have "ledger_of (snd (new_cycle_guards G c context rt)) = ledger_of rt" for c
    by (simp add: new_cycle_guards_def Let_def ledger_simps)
  then show ?thesis
    by (auto simp: enforce_new_entry_controls_def ledger_simps split: sum.splits
             intro!: ledger_andthen)
qed

lemma ledger_take_profit [ledger_simps]:
  "ledger_of (snd (evaluate_strategy_take_profit G sid average_entry rt)) = ledger_of rt"
  by (auto simp: evaluate_strategy_take_profit_def ledger_simps
           split: sum.splits MartingaleTakeProfitModel.splits intro!: ledger_andthen)


subsection \<open>Operations that place a leg\<close>

lemma enforce_limit_ok: "enforce_limit name limit value = Inr () \<longleftrightarrow> limit_holds limit value"
  by (auto simp: enforce_limit_def limit_holds_def split: option.splits)

text \<open>What the budget check establishes is what the ledger asks of the entry it is about.\<close>

lemma budget_check_enters:
  assumes "enforce_budget_for_next_leg G sid leg rt = Inr ()"
    and "strategy_of rt sid = Inr s"
    and "leg_notional (mg_env G) (mg_fenv G) (ms_sizing (rs_config s)) (mr_exchange_min_notional rt) leg = Inr n"
  shows "limits_hold (mg_env G) (rs_config s) sid
           ((ledger_of rt)\<lparr>ml_entries := ml_entries (ledger_of rt) @
              [(sid, ms_symbol (rs_config s), ms_direction (rs_config s), leg_margin G (rs_config s) n)]\<rparr>)"
proof -
  have budget: "ml_budget (ledger_of rt) = mr_portfolio_budget_quote rt" by (simp add: ledger_of_def)
  have "limit_holds (Some b) x \<longleftrightarrow> x \<le> b" for b x by (simp add: limit_holds_def)
  then show ?thesis
    using assms by (auto simp: enforce_budget_for_next_leg_def bind_res_eq_Inr enforce_limit_ok limits_hold_def
        margin_exposure_committed committed_def budget Let_def)
qed

lemma place_leg_ledger:
  assumes "enforce_budget_for_next_leg G sid leg rt0 = Inr ()"
    and same: "ledger_of rt = ledger_of rt0" "mr_exchange_min_notional rt = mr_exchange_min_notional rt0"
    and direction: "\<And>c. map_of (ml_configs (ledger_of rt0)) sid = Some c \<Longrightarrow> ms_direction c = direction"
  shows "ledger_step (mg_env G) (ledger_of rt0) (ledger_of (snd (place_leg G sid direction cid leg price rt)))"
proof -
  obtain s0 n where s0: "strategy_of rt0 sid = Inr s0"
    and n: "leg_notional (mg_env G) (mg_fenv G) (ms_sizing (rs_config s0)) (mr_exchange_min_notional rt0) leg = Inr n"
    using assms(1) by (auto simp: enforce_budget_for_next_leg_def bind_res_eq_Inr Let_def)
  then have "map_option rs_config (map_of (mr_strategies rt0) sid) = Some (rs_config s0)"
    by (auto simp: strategy_of_def split: option.splits)
  then have c0: "map_of (ml_configs (ledger_of rt0)) sid = Some (rs_config s0)"
    by (simp add: map_of_configs)
  then obtain s where s: "map_of (mr_strategies rt) sid = Some s" and c: "rs_config s = rs_config s0"
    using map_of_configs [of rt sid] same(1) by (metis (no_types, lifting) map_option_eq_Some)
  have "ledger_of (snd (place_leg G sid direction cid leg price rt)) =
          (ledger_of rt0)\<lparr>ml_entries := ml_entries (ledger_of rt0) @
             [(sid, ms_symbol (rs_config s0), ms_direction (rs_config s0), leg_margin G (rs_config s0) n)]\<rparr>"
    using s c n direction [OF c0] same
    by (auto simp: place_leg_def strategy_of_def same(1) [symmetric] ledger_of_def order_entry_def)
  then show ?thesis
    using ledger_enters [OF c0 refl budget_check_enters [OF assms(1) s0 n]] by simp
qed

lemma ledger_andthen_check:
  "ledger_of (snd (m rt)) = ledger_of rt \<Longrightarrow>
   (\<And>x rt'. m rt = (Inr x, rt') \<Longrightarrow> ledger_of rt' = ledger_of rt \<Longrightarrow> ledger_step E (ledger_of rt') (ledger_of (snd (f x rt')))) \<Longrightarrow>
   ledger_step E (ledger_of rt) (ledger_of (snd (andthen m f rt)))"
  by (cases "m rt"; cases "fst (m rt)") (auto simp: andthen_def intro: ledger_keeps)

lemma ledger_andthen_step:
  "ledger_of (snd (m rt)) = ledger_of rt \<Longrightarrow>
   (\<And>x rt'. m rt = (Inr x, rt') \<Longrightarrow> ledger_step E (ledger_of rt') (ledger_of (snd (f x rt')))) \<Longrightarrow>
   ledger_step E (ledger_of rt) (ledger_of (snd (andthen m f rt)))"
  by (rule ledger_andthen_check)

lemma open_cycle_ledger:
  assumes "enforce_budget_for_next_leg G sid 0 rt = Inr ()"
  shows "ledger_step (mg_env G) (ledger_of rt) (ledger_of (snd (open_cycle G sid anchor rt)))"
proof (cases "strategy_of rt sid")
  case (Inr s)
  then have "\<And>c. map_of (ml_configs (ledger_of rt)) sid = Some c \<Longrightarrow> ms_direction c = ms_direction (rs_config s)"
    by (auto simp: strategy_of_def map_of_configs split: option.splits)
  then show ?thesis
    using Inr by (auto simp: open_cycle_def Let_def ledger_simps intro!: ledger_keeps
        place_leg_ledger [OF assms]) (simp add: update_strategy_of_def)
qed (simp add: open_cycle_def ledger_keeps)

lemma checked_open_ledger:
  "ledger_step (mg_env G) (ledger_of rt)
     (ledger_of (snd (andthen (lift_res (enforce_budget_for_next_leg G sid 0)) (\<lambda>_. open_cycle G sid anchor) rt)))"
  by (rule ledger_andthen_step) (auto simp: lift_res_def open_cycle_ledger)

lemma start_cycle_ledger:
  "ledger_step (mg_env G) (ledger_of rt) (ledger_of (snd (start_cycle G sid anchor context rt)))"
  unfolding start_cycle_def
  by (intro ledger_andthen_step) (simp_all add: ledger_simps lift_res_def ledger_keeps checked_open_ledger)

lemma start_with_preflight_ledger:
  "ledger_step (mg_env G) (ledger_of rt)
     (ledger_of (snd (start_cycle_with_futures_preflight G exchange sid anchor context rt)))"
  unfolding start_cycle_with_futures_preflight_def
  by (rule ledger_andthen_step) (simp_all add: ledger_simps start_cycle_ledger)

text \<open>The price of a leg and its placement, after the check of its budget.\<close>

definition priced_leg ::
  "'c mg_world \<Rightarrow> string \<Rightarrow> MartingaleDirection \<Rightarrow> CycleState \<Rightarrow> MartingaleStrategyConfig \<Rightarrow> u32
   \<Rightarrow> ('c MartingaleRuntime, unit) stateful" where
  "priced_leg G sid direction cycle config leg =
     andthen (indicator_latest_atr G config)
      (\<lambda>latest_atr. andthen (lift_res (\<lambda>_. leg_trigger_price (mg_env G) (mg_fenv G) (cy_anchor_price cycle)
                      direction (ms_spacing config) leg latest_atr))
       (\<lambda>price. place_leg G sid direction (cy_cycle_id cycle) leg price))"

lemma priced_leg_ledger:
  assumes ok: "enforce_budget_for_next_leg G sid leg rt = Inr ()"
    and direction: "\<And>c. map_of (ml_configs (ledger_of rt)) sid = Some c \<Longrightarrow> ms_direction c = direction"
  shows "ledger_step (mg_env G) (ledger_of rt) (ledger_of (snd (priced_leg G sid direction cycle config leg rt)))"
  unfolding priced_leg_def
proof (rule ledger_andthen_check)
  fix atr rt'
  assume a: "indicator_latest_atr G config rt = (Inr atr, rt')" and l: "ledger_of rt' = ledger_of rt"
  have "mr_exchange_min_notional rt' = mr_exchange_min_notional rt"
    using a by (auto simp: indicator_latest_atr_def with_indicators_def split: prod.splits)
  then have "ledger_step (mg_env G) (ledger_of rt')
      (ledger_of (snd (place_leg G sid direction (cy_cycle_id cycle) leg price rt')))" for price
    using place_leg_ledger [OF ok l _ direction] l by simp
  then show "ledger_step (mg_env G) (ledger_of rt') (ledger_of (snd (andthen (lift_res (\<lambda>_. leg_trigger_price
      (mg_env G) (mg_fenv G) (cy_anchor_price cycle) direction (ms_spacing config) leg atr))
      (\<lambda>price. place_leg G sid direction (cy_cycle_id cycle) leg price) rt')))"
    by (intro ledger_andthen_step) (auto simp: lift_res_def)
qed (simp add: ledger_simps)

lemma next_leg_ledger:
  assumes direction: "\<And>c. map_of (ml_configs (ledger_of rt)) sid = Some c \<Longrightarrow> ms_direction c = direction"
  shows "ledger_step (mg_env G) (ledger_of rt) (ledger_of (snd (next_leg G sid direction cycle config leg rt)))"
proof -
  define rt1 where "rt1 = update_strategy_of sid
    (\<lambda>s. s\<lparr>rs_cycle := map_option (cy_next_leg_index_update (\<lambda>_. leg)) (rs_cycle s)\<rparr>) rt"
  have l1: "ledger_of rt1 = ledger_of rt" by (simp add: rt1_def ledger_simps)
  have "ledger_step (mg_env G) (ledger_of rt1) (ledger_of (snd (andthen
      (lift_res (enforce_budget_for_next_leg G sid leg)) (\<lambda>_. priced_leg G sid direction cycle config leg) rt1)))"
    using priced_leg_ledger [of G sid leg rt1 direction cycle config] direction
    by (intro ledger_andthen_step) (auto simp: lift_res_def l1)
  then show ?thesis
    by (simp add: next_leg_def rt1_def [symmetric] l1 ledger_keeps priced_leg_def)
qed

lemma mark_leg_filled_ledger:
  "ledger_step (mg_env G) (ledger_of rt) (ledger_of (snd (mark_leg_filled_with_context G sid direction leg context rt)))"
  unfolding mark_leg_filled_with_context_def
proof (rule ledger_andthen_step)
  fix x :: unit and rt'
  let ?advance = "\<lambda>s cycle. andthen (adx_skips G (rs_config s)) (\<lambda>skip. if skip then ret ()
     else next_leg G sid direction cycle (rs_config s) (leg + 1)) (fill_leg sid direction leg (cy_cycle_id cycle) rt')"
  have "ledger_step (mg_env G) (ledger_of rt') (ledger_of (snd (?advance s cycle)))"
    if "strategy_of rt' sid = Inr s" "ms_direction (rs_config s) = direction" for s cycle
  proof -
    have "\<And>c. map_of (ml_configs (ledger_of rt')) sid = Some c \<Longrightarrow> ms_direction c = direction"
      using that by (auto simp: strategy_of_def map_of_configs split: option.splits)
    then have "ledger_step (mg_env G) (ledger_of (fill_leg sid direction leg (cy_cycle_id cycle) rt'))
        (ledger_of (snd (?advance s cycle)))"
    proof (intro ledger_andthen_check)
      fix skip and rt2 :: "'a MartingaleRuntime"
      assume "ledger_of rt2 = ledger_of (fill_leg sid direction leg (cy_cycle_id cycle) rt')"
      then have "\<And>c. map_of (ml_configs (ledger_of rt2)) sid = Some c \<Longrightarrow> ms_direction c = direction"
        using \<open>\<And>c. map_of (ml_configs (ledger_of rt')) sid = Some c \<Longrightarrow> ms_direction c = direction\<close>
        by (simp add: ledger_simps)
      then show "ledger_step (mg_env G) (ledger_of rt2) (ledger_of (snd ((if skip then ret ()
         else next_leg G sid direction cycle (rs_config s) (leg + 1)) rt2)))"
        by (simp add: next_leg_ledger ledger_keeps)
    qed (simp add: ledger_simps)
    then show ?thesis by (simp add: ledger_simps)
  qed
  then show "ledger_step (mg_env G) (ledger_of rt') (ledger_of (snd (case strategy_of rt' sid of
         Inl e \<Rightarrow> (Inl e, rt')
       | Inr s \<Rightarrow>
           if ms_direction (rs_config s) \<noteq> direction then (Inl ''direction does not match strategy'', rt')
           else case rs_cycle s of None \<Rightarrow> (Inl ''cycle is not active'', rt')
             | Some cycle \<Rightarrow> if leg + 1 < cy_next_leg_index cycle then (Inr (), rt') else ?advance s cycle)))"
    by (auto simp: ledger_keeps split: sum.splits option.splits)
qed (simp add: ledger_simps)


lemma ledger_recover_order [ledger_simps]:
  "ledger_of (snd (recover_order known order st)) = ledger_of (snd st)"
  using ledger_keeping(5) [of "the (oo_client_order_id order)" "oo_exchange_order_id order" "snd st"]
  by (cases st) (auto simp: recover_order_def split: option.splits prod.splits bool.splits)

lemma ledger_recover_orders:
  "ledger_of (snd (fold (recover_order known) orders st)) = ledger_of (snd st)"
  by (induction orders arbitrary: st) (simp_all add: ledger_simps)

lemma ledger_pause_each: "ledger_of (fold pause_strategy_for_recovery sids rt) = ledger_of rt"
  by (induction sids arbitrary: rt) (simp_all add: ledger_simps)

lemma ledger_pause_affected: "ledger_of (pause_affected report rt) = ledger_of rt"
  by (simp add: pause_affected_def Let_def ledger_simps ledger_pause_each)

lemma ledger_recover [ledger_simps]: "ledger_of (snd (recover_martingale_runtime input rt)) = ledger_of rt"
  by (simp add: recover_martingale_runtime_def Let_def case_prod_beta ledger_pause_affected ledger_recover_orders
        ledger_simps)

subsection \<open>Runs\<close>

inductive mg_step :: "'c mg_world \<Rightarrow> 'c MartingaleRuntime \<Rightarrow> 'c MartingaleRuntime \<Rightarrow> bool" for G where
  "mg_step G rt (snd (start_cycle G sid anchor context rt))"
| "mg_step G rt (snd (start_cycle_with_futures_preflight G exchange sid anchor context rt))"
| "mg_step G rt (snd (mark_leg_filled_with_context G sid direction leg context rt))"
| "mg_step G rt (warmup_indicators_from_bars G bars rt)"
| "mg_step G rt (set_indicator_context ctx rt)"
| "mg_step G rt (snd (preflight_start exchange rt))"
| "mg_step G rt (snd (evaluate_strategy_take_profit G sid average_entry rt))"
| "mg_step G rt (replace_recovered_positions positions rt)"
| "mg_step G rt (snd (mark_order_placed client_order_id exchange_order_id rt))"
| "mg_step G rt (pause_strategy_for_recovery sid rt)"
| "mg_step G rt (pause_all_for_recovery rt)"
| "mg_step G rt (mg_stop_strategy sid rt)"
| "mg_step G rt (snd (recover_martingale_runtime input rt))"

text \<open>The states a runtime of a configuration can be in.\<close>

inductive mg_reachable :: "'c mg_world \<Rightarrow> MartingaleRuntimeConfig \<Rightarrow> 'c MartingaleRuntime \<Rightarrow> bool" for G config where
  mg_new: "martingale_new G config = Inr rt \<Longrightarrow> mg_reachable G config rt"
| mg_next: "mg_reachable G config rt \<Longrightarrow> mg_step G rt rt' \<Longrightarrow> mg_reachable G config rt'"

lemma mg_step_ledger: "mg_step G rt rt' \<Longrightarrow> ledger_step (mg_env G) (ledger_of rt) (ledger_of rt')"
  by (induction rule: mg_step.induct)
     (simp_all add: ledger_simps ledger_keeps start_cycle_ledger start_with_preflight_ledger
        mark_leg_filled_ledger)

lemma martingale_new_ledger:
  assumes "martingale_new G config = Inr rt"
  shows "ledger_ok E (ledger_of rt)" and "ml_budget (ledger_of rt) = rc_portfolio_budget_quote config"
  using assms by (auto simp: martingale_new_def bind_res_eq_Inr ledger_ok_def ledger_of_def committed_def
      split: if_splits)

lemma ledger_step_budget: "ledger_step E l l' \<Longrightarrow> ml_budget l' = ml_budget l \<and> ml_configs l' = ml_configs l"
  by (auto elim: ledger_step.cases)

lemma mg_reachable_ledger:
  "mg_reachable G config rt \<Longrightarrow>
     ledger_ok (mg_env G) (ledger_of rt) \<and> ml_budget (ledger_of rt) = rc_portfolio_budget_quote config"
  by (induction rule: mg_reachable.induct)
     (auto simp: martingale_new_ledger dest: mg_step_ledger intro: ledger_step_ok dest!: ledger_step_budget)


text \<open>C14: The runtime implements the margin ledger. Whatever operation is called, with whatever arguments
  and context, and whether it succeeds or stops at an error, the ledger of the margins committed either
  stays as it is or gains the one entry of a leg that respects the limits of its strategy on the
  strategy, its symbol and its direction, and the budget of the portfolio.
\<close>

theorem martingale_runtime_refines_ledger:
  "mg_step G rt rt' \<Longrightarrow> ledger_step (mg_env G) (ledger_of rt) (ledger_of rt')"
  by (rule mg_step_ledger)

theorem martingale_runtime_refines_ledger_witness:
  "ledger_step plain_env (ledger_of demo_mg_started) (ledger_of demo_mg_second)"
  using martingale_runtime_refines_ledger 
    [OF mg_step.intros(3) [of demo_mg demo_mg_started "''s1''" MgLong 0 default_context]]
  by (simp add: demo_mg_second_def mark_leg_filled_def demo_mg_def)

text \<open>C13: In every state a runtime can reach from a valid configuration the margin committed by all its
  legs is within the budget of the portfolio, and the margin of every strategy that has a leg within the
  budget of that strategy, when it has one. The sums are those the code computes, rounding included.
\<close>

theorem martingale_margin_within_budget:
  assumes "mg_reachable G config rt"
  shows "global_margin_exposure (mg_env G) rt \<le> rc_portfolio_budget_quote config
    \<and> (\<forall>sid s limit. strategy_of rt sid = Inr s \<longrightarrow> orders_for sid (ms_direction (rs_config s)) rt \<noteq> [] \<longrightarrow>
         rl_max_strategy_budget_quote (ms_risk_limits (rs_config s)) = Some limit \<longrightarrow>
         strategy_margin_exposure (mg_env G) rt sid \<le> limit)"
proof -
  note ok = mg_reachable_ledger [OF assms]
  have "strategy_margin_exposure (mg_env G) rt sid \<le> limit"
    if s: "strategy_of rt sid = Inr s" "orders_for sid (ms_direction (rs_config s)) rt \<noteq> []"
      "rl_max_strategy_budget_quote (ms_risk_limits (rs_config s)) = Some limit" for sid s limit
  proof -
    have "map_of (ml_configs (ledger_of rt)) sid = Some (rs_config s)"
      using s(1) by (auto simp: strategy_of_def map_of_configs split: option.splits)
    moreover have "sid \<in> fst ` set (ml_entries (ledger_of rt))"
      using s(2) by (force simp: orders_for_def filter_empty_conv ledger_of_def order_entry_def)
    ultimately have "limit_holds (Some limit) (strategy_margin_exposure (mg_env G) rt sid)"
      using ok s(3) unfolding ledger_ok_def margin_exposure_committed by metis
    then show ?thesis by (simp add: limit_holds_def)
  qed
  with ok show ?thesis by (auto simp: ledger_ok_def margin_exposure_committed)
qed

lemma demo_mg_new: "martingale_new demo_mg demo_mg_config = Inr demo_rt"
proof -
  have "case martingale_new demo_mg demo_mg_config of Inr rt \<Rightarrow> True | Inl _ \<Rightarrow> False" by code_simp
  then show ?thesis by (simp add: demo_rt_def split: sum.splits)
qed

lemma demo_mg_second_reachable: "mg_reachable demo_mg demo_mg_config demo_mg_second"
  unfolding demo_mg_second_def demo_mg_started_def mark_leg_filled_def
  by (rule mg_next [OF mg_next [OF mg_new [OF demo_mg_new] mg_step.intros(2)] mg_step.intros(3)])

theorem martingale_margin_within_budget_witness:
  "global_margin_exposure plain_env demo_mg_second \<le> 30 \<and> strategy_margin_exposure plain_env demo_mg_second ''s1'' \<le> 28
     \<and> map mo_margin_quote (mr_orders demo_mg_second) = [5, 10]"
proof -
  have env: "mg_env demo_mg = plain_env" "rc_portfolio_budget_quote demo_mg_config = 30"
    by (simp_all add: demo_mg_def demo_mg_config_def)
  have "case strategy_of demo_mg_second ''s1'' of Inl _ \<Rightarrow> False | Inr s \<Rightarrow>
      orders_for ''s1'' (ms_direction (rs_config s)) demo_mg_second \<noteq> []
      \<and> rl_max_strategy_budget_quote (ms_risk_limits (rs_config s)) = Some 28"
    by code_simp
  then have "strategy_margin_exposure plain_env demo_mg_second ''s1'' \<le> 28" "global_margin_exposure plain_env demo_mg_second \<le> 30"
    using martingale_margin_within_budget [OF demo_mg_second_reachable] by (auto simp: env split: sum.splits)
  moreover have "map mo_margin_quote (mr_orders demo_mg_second) = [5, 10]" by code_simp
  ultimately show ?thesis by simp
qed

text \<open>
  The guard that skips a repeated report of a fill compares \<open>leg_index + 1 < next_leg_index\<close>, which is
  false for the leg filled last: its second report places the next leg again, under the same client id.
\<close>

lemma repeated_fill_places_leg_twice:
  "map mo_leg_index (mr_orders (snd (mark_leg_filled demo_mg ''s1'' MgLong 0 demo_mg_second))) = [0, 1, 1]"
  by code_simp

end
