(* ===== verification/MartingaleProps.thy ===== *)
theory MartingaleProps
  imports MartingaleBook
begin

text \<open>
  What the martingale component guarantees: validation against a reference predicate, the series of
  notionals and trigger prices, the margin budget of every reachable runtime, recovery after a restart
  and the candles the indicators are fed with.
\<close>

subsection \<open>Validation\<close>

definition config_valid :: "MartingaleStrategyConfig \<Rightarrow> bool" where
  "config_valid c \<longleftrightarrow>
     ms_symbol c \<noteq> [] \<and> str_trim (ms_symbol c) = ms_symbol c
     \<and> (case ms_market c of
          MgSpot \<Rightarrow> ms_margin_mode c = None \<and> ms_leverage c = None
        | MgUsdMFutures \<Rightarrow> ms_margin_mode c \<noteq> None \<and> ms_leverage c \<notin> {None, Some 0})"

definition modes_agree :: "(string \<Rightarrow> string) \<Rightarrow> MartingaleStrategyConfig list \<Rightarrow> bool" where
  "modes_agree upper cs \<longleftrightarrow>
     (\<forall>c \<in> set cs. \<forall>d \<in> set cs. ms_market c = MgUsdMFutures \<longrightarrow> ms_market d = MgUsdMFutures
        \<longrightarrow> upper (ms_symbol c) = upper (ms_symbol d) \<longrightarrow> ms_margin_mode c = ms_margin_mode d)"

lemma validate_strategy_config_iff: "validate_strategy_config c = Inr () \<longleftrightarrow> config_valid c"
  by (auto simp: validate_strategy_config_def config_valid_def split: MartingaleMarketKind.splits option.splits)

text \<open>The map the loop carries holds exactly the margin modes of the futures strategies seen so far.\<close>

definition modes_of :: "(string \<Rightarrow> string) \<Rightarrow> MartingaleStrategyConfig list \<Rightarrow> (string \<rightharpoonup> MartingaleMarginMode) \<Rightarrow> bool" where
  "modes_of upper cs modes \<longleftrightarrow>
     (\<forall>key mode. modes key = Some mode \<longleftrightarrow>
        (\<exists>c \<in> set cs. ms_market c = MgUsdMFutures \<and> upper (ms_symbol c) = key \<and> ms_margin_mode c = Some mode))"

lemma config_valid_mode:
  "config_valid c \<Longrightarrow> ms_market c = MgUsdMFutures \<Longrightarrow> \<exists>mode. ms_margin_mode c = Some mode"
  by (cases "ms_margin_mode c") (auto simp: config_valid_def)

lemma modes_ofD:
  assumes "modes_of upper cs modes" and "modes_agree upper cs" and "list_all config_valid cs"
    and "c \<in> set cs" and "ms_market c = MgUsdMFutures"
  shows "modes (upper (ms_symbol c)) = ms_margin_mode c"
proof -
  obtain mode where "ms_margin_mode c = Some mode"
    using assms(3-5) config_valid_mode by (auto simp: list_all_iff)
  then show ?thesis using assms by (auto simp: modes_of_def)
qed

lemma modes_agree_append:
  "modes_agree upper (seen @ [c]) \<longleftrightarrow> modes_agree upper seen \<and>
     (ms_market c = MgUsdMFutures \<longrightarrow> (\<forall>d \<in> set seen. ms_market d = MgUsdMFutures \<longrightarrow>
        upper (ms_symbol d) = upper (ms_symbol c) \<longrightarrow> ms_margin_mode d = ms_margin_mode c))"
  unfolding modes_agree_def set_append list.set ball_Un ball_simps by (blast intro: sym)

lemma modes_agree_snoc:
  assumes inv: "modes_of upper seen modes" "modes_agree upper seen" "list_all config_valid seen"
    and fut: "ms_market c = MgUsdMFutures" and mode: "ms_margin_mode c = Some mode"
  shows "modes_agree upper (seen @ [c]) \<longleftrightarrow> modes (upper (ms_symbol c)) \<in> {None, Some mode}"
proof
  assume "modes_agree upper (seen @ [c])"
  then show "modes (upper (ms_symbol c)) \<in> {None, Some mode}"
    using inv(1) mode fut by (cases "modes (upper (ms_symbol c))") (auto simp: modes_of_def modes_agree_def)
next
  assume seen: "modes (upper (ms_symbol c)) \<in> {None, Some mode}"
  have "ms_margin_mode d = Some mode"
    if "d \<in> set seen" "ms_market d = MgUsdMFutures" "upper (ms_symbol d) = upper (ms_symbol c)" for d
  proof -
    have "ms_margin_mode d \<noteq> None" using inv(3) that(1,2) config_valid_mode by (auto simp: list_all_iff)
    with modes_ofD [OF inv that(1,2)] that(3) seen show ?thesis by auto
  qed
  then show "modes_agree upper (seen @ [c])"
    using inv(2) mode by (simp add: modes_agree_append)
qed

lemma modes_of_snoc:
  assumes "modes_of upper seen modes" "ms_market c = MgUsdMFutures" "ms_margin_mode c = Some mode"
    and "modes (upper (ms_symbol c)) \<in> {None, Some mode}"
  shows "modes_of upper (seen @ [c]) (modes(upper (ms_symbol c) \<mapsto> mode))"
  unfolding modes_of_def
proof (intro allI)
  fix key m
  show "(modes(upper (ms_symbol c) \<mapsto> mode)) key = Some m \<longleftrightarrow>
     (\<exists>d \<in> set (seen @ [c]). ms_market d = MgUsdMFutures \<and> upper (ms_symbol d) = key \<and> ms_margin_mode d = Some m)"
  proof (cases "key = upper (ms_symbol c)")
    case True
    have "m = mode" if "modes key = Some m" using that assms(4) True by auto
    with True assms(1-3) show ?thesis by (auto simp: modes_of_def)
  next
    case False
    with assms(1) show ?thesis by (auto simp: modes_of_def)
  qed
qed

lemma validate_next:
  assumes inv: "modes_of upper seen modes" "modes_agree upper seen" "list_all config_valid seen"
  shows "case validate_in_portfolio upper c modes of
           Inl _ \<Rightarrow> \<not> (config_valid c \<and> modes_agree upper (seen @ [c]))
         | Inr modes' \<Rightarrow> config_valid c \<and> modes_agree upper (seen @ [c]) \<and> modes_of upper (seen @ [c]) modes'"
proof (cases "config_valid c")
  case valid: True
  show ?thesis
  proof (cases "ms_market c")
    case MgSpot
    with valid inv show ?thesis
      by (simp add: validate_in_portfolio_def validate_strategy_config_iff [symmetric] modes_agree_append modes_of_def)
  next
    case fut: MgUsdMFutures
    let ?key = "upper (ms_symbol c)"
    obtain mode where mode: "ms_margin_mode c = Some mode"
      using config_valid_mode [OF valid fut] by blast
    have agree: "modes_agree upper (seen @ [c]) \<longleftrightarrow> modes ?key \<in> {None, Some mode}"
      by (rule modes_agree_snoc [OF inv fut mode])
    have result: "validate_in_portfolio upper c modes =
        (case modes ?key of
           Some existing \<Rightarrow> if existing \<noteq> mode
             then Inl (ms_symbol c @ '' margin_mode conflict for USDT-M futures strategies'') else Inr modes
         | None \<Rightarrow> Inr (modes(?key \<mapsto> mode)))"
    proof -
      have "str_trim (ms_symbol c) = ms_symbol c" using valid by (simp add: config_valid_def)
      then show ?thesis using valid fut mode
        by (auto simp: validate_in_portfolio_def validate_strategy_config_iff [symmetric] split: option.splits)
    qed
    have "modes_of upper (seen @ [c]) (modes(?key \<mapsto> mode))" if "modes ?key \<in> {None, Some mode}"
      by (rule modes_of_snoc [OF inv(1) fut mode that])
    moreover have "modes(?key \<mapsto> mode) = modes" if "modes ?key = Some mode"
      using that by auto
    ultimately show ?thesis
      using agree valid unfolding result by (cases "modes ?key") auto
  qed
next
  case False
  then obtain e where "validate_strategy_config c = Inl e"
    by (cases "validate_strategy_config c") (auto simp: validate_strategy_config_iff [symmetric])
  then show ?thesis using False by (simp add: validate_in_portfolio_def)
qed

lemma validate_all:
  assumes "modes_of upper seen modes" "modes_agree upper seen" "list_all config_valid seen"
  shows "(\<exists>modes'. fold_res (validate_in_portfolio upper) cs modes = Inr modes')
           \<longleftrightarrow> list_all config_valid cs \<and> modes_agree upper (seen @ cs)"
  using assms
proof (induction cs arbitrary: seen modes)
  case (Cons c cs)
  note next_one = validate_next [OF Cons.prems, of c]
  show ?case
  proof (cases "validate_in_portfolio upper c modes")
    case (Inl e)
    with next_one have "\<not> (config_valid c \<and> modes_agree upper (seen @ c # cs))"
      by (auto simp: modes_agree_def)
    with Inl show ?thesis by auto
  next
    case (Inr modes')
    with next_one Cons.prems(3) Cons.IH [of "seen @ [c]" modes'] show ?thesis by auto
  qed
qed simp

text \<open>A portfolio passes its validation exactly when every strategy is valid on its own (a symbol
  without outer blanks; neither margin mode nor leverage on spot, both and a leverage that is not zero on
  futures) and no two futures strategies on the same symbol, up to case, ask for different margin modes.
\<close>

theorem validate_portfolio_iff:
  "validate_portfolio upper p = Inr () \<longleftrightarrow>
     list_all config_valid (pf_strategies p) \<and> modes_agree upper (pf_strategies p)"
proof -
  have "modes_of upper [] (\<lambda>_. None)" "modes_agree upper []"
    by (simp_all add: modes_of_def modes_agree_def)
  then show ?thesis
    using validate_all [of upper "[]" "\<lambda>_. None" "pf_strategies p"]
    by (auto simp: validate_portfolio_def bind_res_eq_Inr)
qed

theorem validate_portfolio_iff_witness:
  "config_valid demo_leg_config \<and> modes_agree id [demo_leg_config]"
proof -
  have "validate_portfolio id (rc_portfolio demo_mg_config) = Inr ()" by code_simp
  then show ?thesis
    unfolding validate_portfolio_iff by (simp add: demo_mg_config_def)
qed

subsection \<open>Notionals\<close>

lemma validate_ok:
  "validate_finite name v = Inr () \<longleftrightarrow> is_finite v"
  "validate_positive_f64 name v = Inr () \<longleftrightarrow> is_finite v \<and> f_lt (Fin 0) v"
  "validate_non_negative_f64 name v = Inr () \<longleftrightarrow> is_finite v \<and> \<not> f_lt v (Fin 0)"
  by (cases v; auto simp: validate_finite_def validate_positive_f64_def validate_non_negative_f64_def)+

lemma validate_min_notional_ok:
  "validate_min_notional F ns minimum = Inr () \<longleftrightarrow> list_all (\<lambda>n. is_finite n \<and> \<not> f_lt n minimum) ns"
  by (induction ns) (auto simp: bind_res_eq_Inr validate_ok)

lemma series_from_ok:
  "series_from n x m = Inr xs \<Longrightarrow> length xs = n \<and> (\<forall>i. Suc i < n \<longrightarrow> xs ! Suc i = f_mul (xs ! i) m) \<and> (0 < n \<longrightarrow> hd xs = x)"
proof (induction n arbitrary: x xs)
  case (Suc n)
  then obtain rest where rest: "series_from n (f_mul x m) m = Inr rest" and xs: "xs = x # rest"
    by (auto simp: bind_res_eq_Inr)
  note IH = Suc.IH [OF rest]
  have "xs ! Suc i = f_mul (xs ! i) m" if "Suc i < Suc n" for i
    using IH that by (cases i) (auto simp: xs hd_conv_nth)
  with IH show ?case by (simp add: xs)
qed simp


definition legs_of :: "MartingaleSizingModel \<Rightarrow> nat" where
  "legs_of sizing =
     (case sizing of
        SzMultiplier _ _ legs \<Rightarrow> unat legs
      | SzBudgetScaled _ _ legs _ \<Rightarrow> unat legs
      | SzCustomSequence notionals \<Rightarrow> length notionals)"

lemma collect_res_length: "collect_res rs = Inr xs \<Longrightarrow> length xs = length rs"
  by (induction rs arbitrary: xs) (auto simp: bind_res_eq_Inr)

lemma collect_res_elem: "collect_res (map f xs) = Inr ys \<Longrightarrow> y \<in> set ys \<Longrightarrow> \<exists>x \<in> set xs. f x = Inr y"
  by (induction xs arbitrary: ys) (auto simp: bind_res_eq_Inr)

lemma geometric_series_length: "geometric_series F first m legs = Inr xs \<Longrightarrow> length xs = unat legs"
  by (auto simp: geometric_series_def bind_res_eq_Inr dest!: series_from_ok)

lemma scale_to_budget_length: "scale_to_budget b xs = Inr ys \<Longrightarrow> length ys = length xs"
  by (auto simp: scale_to_budget_def bind_res_eq_Inr split: if_splits)

text \<open>The common end of the computation of notionals.\<close>

lemma compute_leg_notionals_ok:
  assumes "compute_leg_notionals F sizing budget minimum = Inr ns"
  shows "length ns = legs_of sizing"
    and "list_all (\<lambda>n. is_finite n \<and> \<not> f_lt n minimum) ns"
    and "case sizing of SzBudgetScaled _ _ _ _ \<Rightarrow> True | _ \<Rightarrow> is_finite (f_sum ns) \<and> \<not> f_lt budget (f_sum ns)"
  using assms
  by (cases sizing; auto simp: compute_leg_notionals_def legs_of_def bind_res_eq_Inr validate_min_notional_ok
      sum_values_def validate_ok Let_def dest!: geometric_series_length scale_to_budget_length collect_res_length
      split: if_splits)+

text \<open>The legs of a geometric sizing grow by the multiplier, until a budget scales them.\<close>

lemma geometric_notionals:
  assumes "compute_leg_notionals F (SzMultiplier first m legs) budget minimum = Inr ns"
  obtains x y where "to_f64 F first = Some x" "to_f64 F m = Some y"
    "\<And>i. Suc i < length ns \<Longrightarrow> ns ! Suc i = f_mul (ns ! i) y" "ns \<noteq> [] \<Longrightarrow> hd ns = x"
proof -
  have "geometric_series F first m legs = Inr ns"
    using assms by (auto simp: compute_leg_notionals_def bind_res_eq_Inr split: if_splits)
  then obtain x y where "to_f64 F first = Some x" "to_f64 F m = Some y" and s: "series_from (unat legs) x y = Inr ns"
    by (auto simp: geometric_series_def bind_res_eq_Inr decimal_to_f64_def split: option.splits if_splits)
  with that series_from_ok [OF s] show ?thesis by (auto simp: length_greater_0_conv [symmetric] simp del: length_greater_0_conv)
qed

text \<open>The notionals of the legs. When the computation succeeds there is one notional for every leg of
  the sizing, each is finite and at least the minimum notional of the exchange; for a geometric or custom
  sizing their sum is finite and within the budget; and the legs of a geometric sizing start at the first
  order and grow by the multiplier.
\<close>

theorem leg_notionals_respect_limits:
  assumes "compute_leg_notionals F sizing budget minimum = Inr ns"
  shows "length ns = legs_of sizing \<and> list_all (\<lambda>n. is_finite n \<and> \<not> f_lt n minimum) ns
    \<and> (case sizing of
         SzBudgetScaled _ _ _ _ \<Rightarrow> True
       | SzCustomSequence _ \<Rightarrow> is_finite (f_sum ns) \<and> \<not> f_lt budget (f_sum ns)
       | SzMultiplier first m _ \<Rightarrow> is_finite (f_sum ns) \<and> \<not> f_lt budget (f_sum ns)
           \<and> (\<exists>y. to_f64 F m = Some y \<and> (\<forall>i. Suc i < length ns \<longrightarrow> ns ! Suc i = f_mul (ns ! i) y))
           \<and> (ns \<noteq> [] \<longrightarrow> to_f64 F first = Some (hd ns)))"
proof (cases sizing)
  case (SzMultiplier first m legs)
  from geometric_notionals [OF assms [unfolded SzMultiplier]] show ?thesis
    using compute_leg_notionals_ok [OF assms] SzMultiplier by auto
qed (use compute_leg_notionals_ok [OF assms] in auto)

theorem leg_notionals_respect_limits_witness:
  "compute_leg_notionals plain_fenv (SzMultiplier 10 2 3) (Fin 100) (Fin 5) = Inr [Fin 10, Fin 20, Fin 40]
   \<and> \<not> f_lt (Fin 100) (f_sum [Fin 10, Fin 20, Fin 40])"
proof -
  have eq: "compute_leg_notionals plain_fenv (SzMultiplier 10 2 3) (Fin 100) (Fin 5) = Inr [Fin 10, Fin 20, Fin 40]"
    by code_simp
  from leg_notionals_respect_limits [OF eq] eq show ?thesis by simp
qed

subsection \<open>Trigger prices\<close>

lemma phase_leg_limit_le: "phase_leg_limit phase remaining is_last \<le> remaining"
  by (cases phase) simp_all

lemma multiplier_steps_length: "multiplier_steps n step m = Inr ds \<Longrightarrow> length ds = n"
  by (induction n arbitrary: step ds) (auto simp: bind_res_eq_Inr Let_def split: if_splits)

lemma expand_length:
  "expand_spacing_bps F anchor spacing atr n = Inr ds \<Longrightarrow> length ds \<le> n"
  "expand_phases F anchor phases atr n acc = Inr ds \<Longrightarrow> length acc \<le> n \<Longrightarrow> length ds \<le> n"
proof (induction F anchor spacing atr n and F anchor phases atr n acc arbitrary: ds and ds
       rule: expand_spacing_bps_expand_phases.induct)
  case (7 F anchor phase phases atr n acc)
  show ?case
  proof (cases "length acc = n")
    case False
    with "7.prems" obtain ds1 where
      one: "expand_spacing_bps F anchor phase atr (phase_leg_limit phase (n - length acc) (phases = [])) = Inr ds1"
      and rest: "expand_phases F anchor phases atr n (acc @ ds1) = Inr ds"
      by (auto simp: bind_res_eq_Inr)
    have "length ds1 \<le> n - length acc"
      using "7.IH"(1) [OF False one] phase_leg_limit_le [of phase "n - length acc"] by (rule order_trans)
    with "7.IH"(2) [OF False rest] "7.prems"(2) show ?thesis by simp
  qed (use 7 in simp)
qed (auto simp: bind_res_eq_Inr Let_def dest!: multiplier_steps_length collect_res_length split: if_splits)

lemma trigger_price_ok:
  "trigger_price F anchor direction d = Inr price \<Longrightarrow> is_finite price \<and> f_lt (Fin 0) price"
  by (cases price) (auto simp: trigger_price_def bind_res_eq_Inr Let_def split: if_splits)

lemma compute_leg_trigger_prices_ok:
  assumes "compute_leg_trigger_prices F anchor direction spacing atr legs = Inr prices"
  shows "length prices \<le> unat legs" and "list_all (\<lambda>p. is_finite p \<and> f_lt (Fin 0) p) prices"
proof -
  obtain ds where ds: "expand_spacing_bps F anchor spacing atr (unat legs) = Inr ds"
    and prices: "collect_res (map (trigger_price F anchor direction) ds) = Inr prices"
    using assms by (auto simp: compute_leg_trigger_prices_def bind_res_eq_Inr)
  show "length prices \<le> unat legs"
    using expand_length(1) [OF ds] collect_res_length [OF prices] by simp
  show "list_all (\<lambda>p. is_finite p \<and> f_lt (Fin 0) p) prices"
    using trigger_price_ok by (auto simp: list_all_iff dest!: collect_res_elem [OF prices])
qed


subsection \<open>Recovery\<close>

text \<open>An open order is matched when the runtime has recorded its exchange id under its client id.\<close>

definition order_matched :: "'c MartingaleRuntime \<Rightarrow> RecoveryOpenOrder \<Rightarrow> bool" where
  "order_matched rt oo \<longleftrightarrow>
     (\<exists>order \<in> set (mr_orders rt). oo_client_order_id oo = Some (mo_client_order_id order)
        \<and> mo_exchange_order_id order = Some (oo_exchange_order_id oo) \<and> mo_status order = MoPlaced)"

text \<open>What the loop over the open orders keeps: the orders handled so far are accounted for.\<close>

definition recovery_inv ::
  "bool \<Rightarrow> RecoveryOpenOrder list \<Rightarrow> MartingaleRecoveryReport \<times> 'c MartingaleRuntime \<Rightarrow> bool" where
  "recovery_inv start handled st \<longleftrightarrow>
     (case st of (report, rt) \<Rightarrow>
       (rr_complete report \<longleftrightarrow> start \<and> rr_orphan_orders report = [])
       \<and> rr_orphan_trades report = []
       \<and> rr_matched_orders report + length (rr_orphan_orders report) = length handled
       \<and> set (rr_orphan_orders report) \<subseteq> set handled
       \<and> (\<forall>oo \<in> set handled. oo \<in> set (rr_orphan_orders report) \<or> order_matched rt oo))"

lemma update_first_other: "x \<in> set xs \<Longrightarrow> \<not> P x \<Longrightarrow> x \<in> set (update_first P f xs)"
  by (induction xs) auto

lemma mark_order_placed_matches:
  assumes "oo_client_order_id oo = Some cid" and "mark_order_placed cid (oo_exchange_order_id oo) rt = (True, rt')"
  shows "order_matched rt' oo"
proof -
  let ?place = "\<lambda>order. order\<lparr>mo_exchange_order_id := Some (oo_exchange_order_id oo), mo_status := MoPlaced\<rparr>"
  have rt': "mr_orders rt' = update_first (\<lambda>order. mo_client_order_id order = cid) ?place (mr_orders rt)"
    and "list_ex (\<lambda>order. mo_client_order_id order = cid) (mr_orders rt)"
    using assms(2) by (auto simp: mark_order_placed_def split: if_splits)
  then obtain order where "mo_client_order_id order = cid" "?place order \<in> set (mr_orders rt')"
    using update_first_set [of "\<lambda>order. mo_client_order_id order = cid" "mr_orders rt" ?place] by auto
  then show ?thesis
    using assms(1) unfolding order_matched_def by (intro bexI [of _ "?place order"]) auto
qed

lemma mark_order_placed_keeps:
  assumes "order_matched rt other" and "\<not> placed_elsewhere oo cid rt"
    and "oo_client_order_id oo = Some cid" and placed: "mark_order_placed cid (oo_exchange_order_id oo) rt = (True, rt')"
  shows "order_matched rt' other"
proof -
  obtain order where order: "order \<in> set (mr_orders rt)" "oo_client_order_id other = Some (mo_client_order_id order)"
      "mo_exchange_order_id order = Some (oo_exchange_order_id other)" "mo_status order = MoPlaced"
    using assms(1) by (auto simp: order_matched_def)
  show ?thesis
  proof (cases "mo_client_order_id order = cid")
    case True
    with order assms(2) have "oo_exchange_order_id other = oo_exchange_order_id oo"
      by (auto simp: placed_elsewhere_def list_ex_iff)
    with mark_order_placed_matches [OF assms(3) placed] True order(2) assms(3) show ?thesis
      by (simp add: order_matched_def)
  next
    case False
    with order placed show ?thesis
      by (auto simp: order_matched_def mark_order_placed_def split: if_splits intro!: bexI [of _ order] update_first_other)
  qed
qed

lemma recover_order_cases:
  obtains (orphan) report' where "recover_order known oo (report, rt) = (report', rt)"
      "rr_complete report' = False" "rr_orphan_orders report' = rr_orphan_orders report @ [oo]"
      "rr_matched_orders report' = rr_matched_orders report" "rr_orphan_trades report' = rr_orphan_trades report"
  | (matched) cid rt' where "oo_client_order_id oo = Some cid" "\<not> placed_elsewhere oo cid rt"
      "mark_order_placed cid (oo_exchange_order_id oo) rt = (True, rt')"
      "recover_order known oo (report, rt) = (report\<lparr>rr_matched_orders := rr_matched_orders report + 1\<rparr>, rt')"
proof (cases "oo_client_order_id oo")
  case None
  show ?thesis
    by (rule orphan [of "orphan_order oo report"]) (simp_all add: recover_order_def None orphan_order_def)
next
  case (Some cid)
  show ?thesis
  proof (cases "cid \<notin> set known \<or> placed_elsewhere oo cid rt")
    case True
    show ?thesis
      by (rule orphan [of "if cid \<notin> set known then orphan_order oo report else ambiguous_order oo cid report"])
         (use True Some in \<open>auto simp: recover_order_def orphan_order_def ambiguous_order_def\<close>)
  next
    case False
    show ?thesis
    proof (cases "mark_order_placed cid (oo_exchange_order_id oo) rt")
      case (Pair b rt')
      show ?thesis
      proof (cases b)
        case True
        then show ?thesis using matched [OF Some] False Pair Some by (simp add: recover_order_def)
      next
        case b: False
        then have "rt' = rt" using Pair by (auto simp: mark_order_placed_def split: if_splits)
        show ?thesis
          by (rule orphan [of "ambiguous_order oo cid report"])
             (use b \<open>rt' = rt\<close> False Pair Some in \<open>simp_all add: recover_order_def ambiguous_order_def\<close>)
      qed
    qed
  qed
qed

lemma recover_order_inv:
  assumes "recovery_inv start handled (report, rt)"
  shows "recovery_inv start (handled @ [oo]) (recover_order known oo (report, rt))"
proof (cases rule: recover_order_cases [of known oo report rt])
  case (orphan report')
  with assms show ?thesis by (auto simp: recovery_inv_def)
next
  case (matched cid rt')
  have "order_matched rt' other" if "order_matched rt other" for other
    using mark_order_placed_keeps [OF that matched(2,1,3)] .
  with assms mark_order_placed_matches [OF matched(1,3)] show ?thesis
    unfolding matched(4) by (auto simp: recovery_inv_def)
qed

lemma recover_orders_inv:
  "recovery_inv start handled st \<Longrightarrow> recovery_inv start (handled @ oos) (fold (recover_order known) oos st)"
proof (induction oos arbitrary: handled st)
  case (Cons oo oos)
  obtain report rt where "st = (report, rt)" by (cases st)
  with Cons.IH [OF recover_order_inv [of start handled report rt oo known]] Cons.prems show ?case by simp
qed simp


definition trade_known :: "string list \<Rightarrow> RecoveryTrade \<Rightarrow> bool" where
  "trade_known known trade \<longleftrightarrow> (case tr_client_order_id trade of None \<Rightarrow> False | Some c \<Rightarrow> c \<in> set known)"

lemma recover_trades:
  "fold (recover_trade known) trades report =
     report\<lparr>rr_complete := (rr_complete report \<and> list_all (trade_known known) trades),
            rr_orphan_trades := rr_orphan_trades report @ filter (\<lambda>t. \<not> trade_known known t) trades\<rparr>"
  by (induction trades arbitrary: report) (auto simp: recover_trade_def trade_known_def split: option.splits)

lemma orders_pause:
  "mr_orders (pause_strategy_for_recovery sid rt) = mr_orders rt"
  "mr_orders (pause_all_for_recovery rt) = mr_orders rt"
  by (simp_all add: pause_strategy_for_recovery_def update_strategy_of_def pause_all_for_recovery_def)

lemma orders_pause_affected: "mr_orders (pause_affected report rt) = mr_orders rt"
proof -
  have "mr_orders (fold pause_strategy_for_recovery sids r) = mr_orders r" for sids and r :: "'a MartingaleRuntime"
    by (induction sids arbitrary: r) (simp_all add: orders_pause)
  then show ?thesis by (simp add: pause_affected_def Let_def orders_pause)
qed

lemma pause_all_paused:
  "sid \<in> fst ` set (mr_strategies rt) \<Longrightarrow> is_strategy_paused (pause_all_for_recovery rt) sid"
  by (force simp: is_strategy_paused_def pause_all_for_recovery_def map_of_map [where f = "rs_paused_by_recovery_update (\<lambda>_. True)", simplified]
      dest: weak_map_of_SomeI split: option.splits)

text \<open>The state before the final pause, and the report.\<close>

lemma recover_shape:
  fixes rt :: "'c MartingaleRuntime"
  assumes "recover_martingale_runtime input rt = (report, rt')"
  obtains report1 and rt1 :: "'c MartingaleRuntime" where "recovery_inv (in_positions input = []) (in_open_orders input) (report1, rt1)"
    and "report = report1\<lparr>rr_complete := (rr_complete report1 \<and> list_all (trade_known (known_client_order_ids rt)) (in_trades input)),
            rr_orphan_trades := filter (\<lambda>t. \<not> trade_known (known_client_order_ids rt) t) (in_trades input)\<rparr>"
    and "rt' = pause_affected report rt1"
proof -
  let ?known = "known_client_order_ids rt"
  let ?report0 = "\<lparr>rr_complete = (in_positions input = []), rr_matched_orders = 0, rr_positions = in_positions input,
    rr_orphan_orders = [], rr_orphan_trades = [], rr_ambiguous = []\<rparr>"
  let ?rt0 = "replace_recovered_positions
    (map (\<lambda>p. \<lparr>rp_symbol = ps_symbol p, rp_quantity = ps_quantity p, rp_entry_price = ps_entry_price p\<rparr>)
       (in_positions input)) rt"
  let ?rt0' = "if in_positions input \<noteq> [] then pause_all_for_recovery ?rt0 else ?rt0"
  obtain report1 rt1 where fold: "fold (recover_order ?known) (in_open_orders input) (?report0, ?rt0') = (report1, rt1)"
    by (cases "fold (recover_order ?known) (in_open_orders input) (?report0, ?rt0')")
  have "recovery_inv (in_positions input = []) [] (?report0, ?rt0')"
    by (simp add: recovery_inv_def)
  from recover_orders_inv [OF this, of "in_open_orders input" ?known]
  have inv: "recovery_inv (in_positions input = []) (in_open_orders input) (report1, rt1)"
    by (simp add: fold)
  then have "rr_orphan_trades report1 = []" by (simp add: recovery_inv_def)
  with that [OF inv] assms fold show ?thesis
    by (auto simp: recover_martingale_runtime_def Let_def recover_trades)
qed

lemma recovery_accounts:
  assumes "recover_martingale_runtime input rt = (report, rt')"
  shows "rr_matched_orders report + length (rr_orphan_orders report) = length (in_open_orders input)"
    and "rr_complete report \<longleftrightarrow> in_positions input = [] \<and> rr_orphan_orders report = [] \<and> rr_orphan_trades report = []"
    and "oo \<in> set (in_open_orders input) \<Longrightarrow> oo \<in> set (rr_orphan_orders report) \<or> order_matched rt' oo"
proof -
  obtain report1 rt1 where inv: "recovery_inv (in_positions input = []) (in_open_orders input) (report1, rt1)"
    and report: "report = report1\<lparr>rr_complete := (rr_complete report1 \<and> list_all (trade_known (known_client_order_ids rt)) (in_trades input)),
            rr_orphan_trades := filter (\<lambda>t. \<not> trade_known (known_client_order_ids rt) t) (in_trades input)\<rparr>"
    and rt': "rt' = pause_affected report rt1"
    using recover_shape [OF assms] .
  have fields: "rr_matched_orders report = rr_matched_orders report1" "rr_orphan_orders report = rr_orphan_orders report1"
    "rr_complete report = (rr_complete report1 \<and> rr_orphan_trades report = [])"
    by (auto simp: report filter_empty_conv list_all_iff)
  have "order_matched rt' = order_matched rt1"
    by (simp add: fun_eq_iff order_matched_def rt' orders_pause_affected)
  with inv fields show "rr_matched_orders report + length (rr_orphan_orders report) = length (in_open_orders input)"
    and "rr_complete report \<longleftrightarrow> in_positions input = [] \<and> rr_orphan_orders report = [] \<and> rr_orphan_trades report = []"
    and "oo \<in> set (in_open_orders input) \<Longrightarrow> oo \<in> set (rr_orphan_orders report) \<or> order_matched rt' oo"
    by (simp_all add: recovery_inv_def)
qed

lemma recovery_pauses_all:
  assumes "recover_martingale_runtime input rt = (report, rt')"
    and "\<not> rr_complete report" and "rr_ambiguous report = []"
    and "sid \<in> fst ` set (mr_strategies rt')"
  shows "is_strategy_paused rt' sid"
proof -
  obtain rt1 where "rt' = pause_affected report rt1" using recover_shape [OF assms(1)] by blast
  then have rt': "rt' = pause_all_for_recovery rt1"
    using assms(2,3) by (simp add: pause_affected_def List.map_filter_def)
  with assms(4) have "sid \<in> fst ` set (mr_strategies rt1)"
    by (force simp: pause_all_for_recovery_def)
  with rt' show ?thesis by (simp add: pause_all_paused)
qed


text \<open>C27: Recovery accounts for every open order the exchange reports: an order is either matched, and then
  the runtime holds its exchange id under its client id as placed, or reported as an orphan, and the two
  counts add up. Recovery is complete exactly when there is no position and no orphan. When it is not
  complete and no order was ambiguous, every strategy is paused, so that no new leg is placed.
\<close>

theorem recovery_accounts_for_orders:
  assumes "recover_martingale_runtime input rt = (report, rt')"
  shows "rr_matched_orders report + length (rr_orphan_orders report) = length (in_open_orders input)
    \<and> list_all (\<lambda>oo. oo \<in> set (rr_orphan_orders report) \<or> order_matched rt' oo) (in_open_orders input)
    \<and> (rr_complete report \<longleftrightarrow>
         in_positions input = [] \<and> rr_orphan_orders report = [] \<and> rr_orphan_trades report = [])
    \<and> (\<not> rr_complete report \<longrightarrow> rr_ambiguous report = [] \<longrightarrow>
         list_all (\<lambda>(sid, _). is_strategy_paused rt' sid) (mr_strategies rt'))"
proof -
  have "list_all (\<lambda>(sid, _). is_strategy_paused rt' sid) (mr_strategies rt')"
    if "\<not> rr_complete report" "rr_ambiguous report = []"
    using recovery_pauses_all [OF assms that] by (force simp: list_all_iff)
  then show ?thesis using recovery_accounts [OF assms] by (auto simp: list_all_iff)
qed

theorem recovery_accounts_for_orders_witness:
  "rr_matched_orders (fst (recover_martingale_runtime demo_recovery demo_mg_started)) = 1
   \<and> list_all (\<lambda>(sid, _). is_strategy_paused (snd (recover_martingale_runtime demo_recovery demo_mg_started)) sid)
       (mr_strategies (snd (recover_martingale_runtime demo_recovery demo_mg_started)))"
proof -
  obtain report rt' where eq: "recover_martingale_runtime demo_recovery demo_mg_started = (report, rt')"
    by (cases "recover_martingale_runtime demo_recovery demo_mg_started")
  have "(rr_matched_orders (fst (recover_martingale_runtime demo_recovery demo_mg_started)),
         rr_complete (fst (recover_martingale_runtime demo_recovery demo_mg_started)),
         rr_ambiguous (fst (recover_martingale_runtime demo_recovery demo_mg_started))) = (1, False, [])"
    by code_simp
  with recovery_accounts_for_orders [OF eq] eq show ?thesis by simp
qed


text \<open>
  One ambiguous order is enough to keep the other strategies running: an orphan then pauses only the
  strategies of the ambiguous orders, while an orphan alone pauses them all.
\<close>

lemma pause_each_other: "sid \<notin> set sids \<Longrightarrow> is_strategy_paused (fold pause_strategy_for_recovery sids rt) sid = is_strategy_paused rt sid"
  by (induction sids arbitrary: rt)
     (simp_all add: is_strategy_paused_def pause_strategy_for_recovery_def update_strategy_of_def map_of_modify_key)

lemma recover_orders_strategies: "mr_strategies (snd (fold (recover_order known) oos st)) = mr_strategies (snd st)"
proof (induction oos arbitrary: st)
  case (Cons oo oos)
  have "mr_strategies (snd (recover_order known oo (report, rt))) = mr_strategies rt" for report and rt :: "'a MartingaleRuntime"
    by (cases rule: recover_order_cases [of known oo report rt]) (auto simp: mark_order_placed_def split: if_splits)
  then show ?case using Cons.IH by (cases st) simp
qed simp

lemma ambiguous_recovery_pauses_affected_only:
  assumes "recover_martingale_runtime input rt = (report, rt')" and "in_positions input = []"
    and "sid \<notin> set affected" "affected = List.map_filter (strategy_id_for_client_order rt') (rr_ambiguous report)" "affected \<noteq> []"
  shows "is_strategy_paused rt' sid = is_strategy_paused rt sid"
proof -
  let ?known = "known_client_order_ids rt"
  obtain report0 rt1 where rt1: "rt1 = snd (fold (recover_order ?known) (in_open_orders input) (report0, replace_recovered_positions [] rt))"
    and rt': "rt' = pause_affected report rt1"
    using assms(1,2) by (auto simp: recover_martingale_runtime_def Let_def case_prod_beta)
  have "strategy_id_for_client_order rt1 = strategy_id_for_client_order rt'"
    by (simp add: fun_eq_iff strategy_id_for_client_order_def rt' orders_pause_affected)
  then have "rt' = (if rr_complete report then rt1 else fold pause_strategy_for_recovery affected rt1)"
    using assms(4,5) by (simp add: rt' pause_affected_def)
  then have "is_strategy_paused rt' sid = is_strategy_paused rt1 sid"
    using assms(3) by (simp add: pause_each_other)
  also have "\<dots> = is_strategy_paused rt sid"
    by (simp add: is_strategy_paused_def rt1 recover_orders_strategies replace_recovered_positions_def)
  finally show ?thesis .
qed

end
