(* ===== verification/MartingalePrices.thy ===== *)
theory MartingalePrices
  imports MartingaleProps F64Round
begin

text \<open>
  The prices of a martingale ladder and of its exits, computed in \<open>f64\<close>: on which side of the anchor
  and of the average entry they lie, and in which order. Everything follows from the monotonicity of
  rounding.
\<close>

subsection \<open>Trigger prices\<close>

definition beyond :: "MartingaleDirection \<Rightarrow> f64 \<Rightarrow> f64 \<Rightarrow> bool" where
  "beyond direction p q = (case direction of MgLong \<Rightarrow> f_le q p | MgShort \<Rightarrow> f_le p q)"

lemma trigger_price_cases:
  assumes "trigger_price F (Fin a) direction d = Inr price"
  obtains x r where "d = Fin x" "0 \<le> x" "f_div (f_mul (Fin a) (Fin x)) (Fin 10000) = Fin r"
    "price = (case direction of MgLong \<Rightarrow> f_sub (Fin a) (Fin r) | MgShort \<Rightarrow> f_add (Fin a) (Fin r))"
proof -
  have d: "is_finite d" "\<not> f_lt d (Fin 0)" and fin: "is_finite (f_div (f_mul (Fin a) d) (Fin 10000))"
    and price: "price = (case direction of MgLong \<Rightarrow> f_sub (Fin a) (f_div (f_mul (Fin a) d) (Fin 10000))
                                         | MgShort \<Rightarrow> f_add (Fin a) (f_div (f_mul (Fin a) d) (Fin 10000)))"
    using assms by (auto simp: trigger_price_def bind_res_eq_Inr validate_ok Let_def split: if_splits)
  from d obtain x where x: "d = Fin x" "0 \<le> x" by (cases d) auto
  from fin obtain r where "f_div (f_mul (Fin a) d) (Fin 10000) = Fin r" by (auto simp: is_finite_iff)
  with that [OF x, of r] price show ?thesis
    unfolding x(1) by (cases direction) (simp_all del: f_add.simps f_mul.simps f_div.simps)
qed

text \<open>A longer distance does not give an earlier price.\<close>

lemma offset_mono:
  assumes "0 \<le> a" "x \<le> y" "f_div (f_mul (Fin a) (Fin x)) (Fin 10000) = Fin r"
    and "f_div (f_mul (Fin a) (Fin y)) (Fin 10000) = Fin r'"
  shows "r \<le> r'"
proof -
  obtain m m' where m: "f_mul (Fin a) (Fin x) = Fin m" "f_mul (Fin a) (Fin y) = Fin m'"
    using assms(3,4) by (cases "f_mul (Fin a) (Fin x)"; cases "f_mul (Fin a) (Fin y)") (auto simp: f_inf_def split: if_splits)
  then have "m \<le> m'" using f_mul_mono [OF assms(1,2)] by simp
  then have "f_le (f_div (Fin m) (Fin 10000)) (f_div (Fin m') (Fin 10000))" by (intro f_div_mono) simp_all
  with assms(3,4) m show ?thesis by simp
qed

lemma trigger_price_mono:
  assumes "0 \<le> a" "f_le d d'" "trigger_price F (Fin a) direction d = Inr price"
    and "trigger_price F (Fin a) direction d' = Inr price'"
  shows "beyond direction price price'"
proof -
  from assms(3) obtain x r where x: "d = Fin x" "f_div (f_mul (Fin a) (Fin x)) (Fin 10000) = Fin r"
    "price = (case direction of MgLong \<Rightarrow> f_sub (Fin a) (Fin r) | MgShort \<Rightarrow> f_add (Fin a) (Fin r))"
    by (rule trigger_price_cases)
  from assms(4) obtain y r' where y: "d' = Fin y" "f_div (f_mul (Fin a) (Fin y)) (Fin 10000) = Fin r'"
    "price' = (case direction of MgLong \<Rightarrow> f_sub (Fin a) (Fin r') | MgShort \<Rightarrow> f_add (Fin a) (Fin r'))"
    by (rule trigger_price_cases)
  have "r \<le> r'" using offset_mono [OF assms(1) _ x(2) y(2)] assms(2) x(1) y(1) by simp
  then show ?thesis
    by (cases direction) (simp_all add: beyond_def x(3) y(3) f_sub_antimono f_add_mono del: f_add.simps)
qed

lemma trigger_price_side:
  assumes "0 \<le> a" "representable (Fin a)" "trigger_price F (Fin a) direction d = Inr price"
  shows "beyond direction (Fin a) price"
proof -
  from assms(3) obtain x r where x: "0 \<le> x" "f_div (f_mul (Fin a) (Fin x)) (Fin 10000) = Fin r"
    "price = (case direction of MgLong \<Rightarrow> f_sub (Fin a) (Fin r) | MgShort \<Rightarrow> f_add (Fin a) (Fin r))"
    by (rule trigger_price_cases)
  have "0 \<le> r" using offset_mono [OF assms(1) x(1) _ x(2), of 0] by simp
  then show ?thesis
    using assms(2) by (cases direction) (simp_all add: beyond_def x(3) f_sub_below f_add_above del: f_add.simps)
qed

lemma fixed_distance_mono:
  assumes "i \<le> j" and "is_finite (f_mul (f_of_u32 s) (f_of_nat j))" "is_finite (f_mul (f_of_u32 s) (f_of_nat i))"
  shows "f_le (f_mul (f_of_u32 s) (f_of_nat i)) (f_mul (f_of_u32 s) (f_of_nat j))"
proof -
  have le: "f_le (f_of_nat i) (f_of_nat j)" using assms(1) by (simp add: f_of_nat_def f_round_mono)
  obtain x y where xy: "f_of_nat i = Fin x" "f_of_nat j = Fin y"
    using assms(2,3) by (cases "f_of_nat i"; cases "f_of_nat j") (auto simp: f_of_u32_def f_inf_def split: if_splits)
  then have "x \<le> y" using le by simp
  then show ?thesis unfolding xy f_of_u32_def by (intro f_mul_mono of_nat_0_le_iff)
qed

lemma collect_res_nth: "collect_res (map f xs) = Inr ys \<Longrightarrow> i < length xs \<Longrightarrow> f (xs ! i) = Inr (ys ! i)"
proof (induction xs arbitrary: ys i)
  case (Cons x xs)
  then show ?case by (cases i) (auto simp: bind_res_eq_Inr)
qed simp

text \<open>Every trigger price that \<open>compute_leg_trigger_prices\<close> returns is finite and positive, and there are
  at most as many as legs were asked for. When the anchor is a float, every price of a long lies at or
  below the anchor and every price of a short at or above it, in spite of rounding.
\<close>

theorem trigger_prices_lie_beyond_anchor:
  assumes "compute_leg_trigger_prices F (Fin a) direction spacing atr legs = Inr prices"
    and "representable (Fin a)"
  shows "length prices \<le> unat legs
    \<and> list_all (\<lambda>p. is_finite p \<and> f_lt (Fin 0) p \<and> beyond direction (Fin a) p) prices"
proof -
  obtain ds where prices: "collect_res (map (trigger_price F (Fin a) direction) ds) = Inr prices" and "0 < a"
    using assms(1) by (auto simp: compute_leg_trigger_prices_def bind_res_eq_Inr validate_ok)
  then show ?thesis
    using compute_leg_trigger_prices_ok [OF assms(1)] trigger_price_side [OF _ assms(2)]
    by (fastforce simp: list_all_iff dest!: collect_res_elem [OF prices])
qed

lemma representable_100: "representable (Fin 100)"
  using f_round_int [of 100] by (simp add: representable_def)

lemma demo_ladder:
  "compute_leg_trigger_prices plain_fenv (Fin 100) MgLong (SpFixedPercent 100) None 2 = Inr [Fin 99, Fin 98]"
  by code_simp

theorem trigger_prices_lie_beyond_anchor_witness:
  "compute_leg_trigger_prices plain_fenv (Fin 100) MgLong (SpFixedPercent 100) None 2 = Inr [Fin 99, Fin 98]
   \<and> beyond MgLong (Fin 100) (Fin 98)"
  using trigger_prices_lie_beyond_anchor [OF demo_ladder representable_100] demo_ladder by simp

text \<open>With a fixed percentage spacing the ladder is ordered: no leg triggers before an earlier one, that
  is, the prices of a long never rise and those of a short never fall from leg to leg.
\<close>

theorem fixed_spacing_ladder_ordered:
  assumes "compute_leg_trigger_prices F (Fin a) direction (SpFixedPercent step) atr legs = Inr prices"
  shows "sorted_wrt (beyond direction) prices"
proof -
  let ?d = "\<lambda>leg. f_mul (f_of_u32 step) (f_of_nat leg)"
  have prices: "collect_res (map (trigger_price F (Fin a) direction) (map ?d [1..<Suc (unat legs)])) = Inr prices"
    and a: "0 \<le> a"
    using assms by (auto simp: compute_leg_trigger_prices_def bind_res_eq_Inr validate_ok simp del: upt_Suc)
  have len: "length prices = unat legs"
    using collect_res_length [OF prices] by simp
  have price: "trigger_price F (Fin a) direction (?d (Suc i)) = Inr (prices ! i)" if "i < unat legs" for i
    using collect_res_nth [OF prices, of i] that by (simp del: upt_Suc add: nth_upt)
  have finite: "is_finite (?d (Suc i))" if "i < unat legs" for i
    using price [OF that] by (rule trigger_price_cases) simp
  have "beyond direction (prices ! i) (prices ! j)" if "i < j" "j < length prices" for i j
    using that len
    by (intro trigger_price_mono [OF a fixed_distance_mono price price]) (auto intro: finite)
  then show ?thesis by (simp add: sorted_wrt_iff_nth_less)
qed

theorem fixed_spacing_ladder_ordered_witness:
  "sorted_wrt (beyond MgLong) [Fin 99, Fin 98]
   \<and> compute_leg_trigger_prices plain_fenv (Fin 100) MgLong (SpFixedPercent 100) None 2 = Inr [Fin 99, Fin 98]"
  using fixed_spacing_ladder_ordered [OF demo_ladder] demo_ladder by blast

subsection \<open>Take profit\<close>

lemma validate_exit_ok: "validate_exit_number name v = Inr () \<longleftrightarrow> is_finite v \<and> f_lt (Fin 0) v"
  by (cases v) (auto simp: validate_exit_number_def)

lemma validate_price_ok: "validate_positive_price v = Inr p \<longleftrightarrow> p = v \<and> is_finite v \<and> f_lt (Fin 0) v"
  by (auto simp: validate_positive_price_def bind_res_eq_Inr validate_exit_ok)

definition profitable :: "MartingaleDirection \<Rightarrow> f64 \<Rightarrow> f64 \<Rightarrow> bool" where
  "profitable direction entry price \<longleftrightarrow>
     is_finite price \<and> f_lt (Fin 0) price
     \<and> (case direction of MgLong \<Rightarrow> f_le entry price | MgShort \<Rightarrow> f_le price entry)"

lemma away_profitable:
  assumes "representable entry" "is_finite entry" "f_le (Fin 0) offset"
    and "validate_positive_price (away direction entry offset) = Inr price"
  shows "profitable direction entry price"
proof -
  obtain q where entry: "entry = Fin q" using assms(2) by (auto simp: is_finite_iff)
  have p: "price = away direction entry offset" "is_finite price" "f_lt (Fin 0) price"
    using assms(4) by (auto simp: validate_price_ok)
  then obtain r where "offset = Fin r" "0 \<le> r"
    using assms(3) entry by (cases offset; cases direction) (auto simp: away_def f_sub_def f_le_def)
  then show ?thesis
    using p entry assms(1) f_sub_below [of q r] f_add_above [of q r]
    by (cases direction) (simp_all add: profitable_def away_def)
qed

lemma bps_offset_nonneg:
  assumes "f_lt (Fin 0) entry" "is_finite entry"
  shows "f_le (Fin 0) (f_div (f_mul entry (f_of_u32 bps)) (Fin 10000))"
proof -
  obtain q where q: "entry = Fin q" "0 < q" using assms by (auto simp: is_finite_iff)
  have "f_le (Fin 0) (f_round (q * of_nat (unat bps)))" using q(2) by (intro f_round_nonneg mult_nonneg_nonneg of_nat_0_le_iff less_imp_le)
  then have "f_le (Fin 0) (f_mul entry (f_of_u32 bps))" by (simp only: q f_of_u32_def f_mul.simps)
  then show ?thesis
  proof (cases "f_mul entry (f_of_u32 bps)")
    case (Fin m)
    with \<open>f_le (Fin 0) (f_mul entry (f_of_u32 bps))\<close> show ?thesis by (simp add: f_round_nonneg)
  qed (auto simp: f_le_def f_inf_def)
qed

lemma atr_offset_nonneg: "is_finite a \<Longrightarrow> f_lt (Fin 0) a \<Longrightarrow> is_finite m \<Longrightarrow> f_lt (Fin 0) m \<Longrightarrow> f_le (Fin 0) (f_mul a m)"
  by (auto simp: is_finite_iff f_round_nonneg)

lemma take_profit_side:
  "martingale_take_profit_price F entry direction model atr = Inr price \<Longrightarrow> representable entry \<Longrightarrow>
     profitable direction entry price"
  "first_phase_price F entry direction phases atr err = Inr price \<Longrightarrow> representable entry \<Longrightarrow>
     profitable direction entry price"
proof (induction F entry direction model atr and F entry direction phases atr err
       arbitrary: price and price rule: martingale_take_profit_price_first_phase_price.induct)
  case (3 F entry direction multiplier atr)
  then obtain a m where "is_finite a" "f_lt (Fin 0) a" "is_finite m" "f_lt (Fin 0) m" "is_finite entry"
    "validate_positive_price (away direction entry (f_mul a m)) = Inr price"
    by (auto simp: bind_res_eq_Inr validate_exit_ok split: option.splits)
  then show ?case using "3.prems"(2) by (intro away_profitable [OF _ _ atr_offset_nonneg])
qed (auto simp: bind_res_eq_Inr validate_exit_ok intro!: away_profitable [OF _ _ bps_offset_nonneg]
          split: if_splits sum.splits)

text \<open>C28: A take profit the runtime reports for a strategy is on the profitable side: with an average entry
  that is a float, the price is finite and positive, at or above the entry for a long and at or below it
  for a short, whatever the model (percentage, ATR, trailing or mixed) and the state of the indicators.
\<close>

theorem reported_take_profit_is_profitable:
  assumes "evaluate_strategy_take_profit G sid entry rt = (Inr (Some (price, decision)), rt')"
    and "representable entry"
  shows "decision = ExitTakeProfit
    \<and> (\<exists>s. strategy_of rt sid = Inr s \<and> profitable (ms_direction (rs_config s)) entry price)"
  using assms
  by (auto simp: evaluate_strategy_take_profit_def andthen_def
      split: sum.splits prod.splits if_splits intro: take_profit_side(1))


theorem reported_take_profit_is_profitable_witness:
  "fst (evaluate_strategy_take_profit demo_mg ''s1'' (Fin 200) demo_mg_started) = Inr (Some (Fin 201, ExitTakeProfit))
   \<and> profitable MgLong (Fin 200) (Fin 201)"
proof -
  obtain r rt' where eq: "evaluate_strategy_take_profit demo_mg ''s1'' (Fin 200) demo_mg_started = (r, rt')"
    by (cases "evaluate_strategy_take_profit demo_mg ''s1'' (Fin 200) demo_mg_started")
  have r: "fst (evaluate_strategy_take_profit demo_mg ''s1'' (Fin 200) demo_mg_started) = Inr (Some (Fin 201, ExitTakeProfit))"
    by code_simp
  have long: "case strategy_of demo_mg_started ''s1'' of Inl _ \<Rightarrow> False | Inr s \<Rightarrow> ms_direction (rs_config s) = MgLong"
    by code_simp
  have "representable (Fin 200)" using f_round_int [of 200] by (simp add: representable_def)
  with reported_take_profit_is_profitable [of demo_mg "''s1''" "Fin 200" demo_mg_started "Fin 201" ExitTakeProfit rt'] r eq long
  show ?thesis by (auto split: sum.splits)
qed

end
