(* ===== verification/MartingaleCandles.thy ===== *)
theory MartingaleCandles
  imports MartingaleDemo
begin

text \<open>
  The candles of \<^verbatim>\<open>martingale_candle.rs\<close>: whatever the ticks and their order, the bars of a symbol come
  out in strictly increasing time, aligned with the interval, and every bar is a candle.
\<close>

definition candle :: "f64 \<Rightarrow> f64 \<Rightarrow> f64 \<Rightarrow> f64 \<Rightarrow> bool" where
  "candle op hi lo cl \<longleftrightarrow>
     f_lt (Fin 0) lo \<and> is_finite hi \<and> f_le lo op \<and> f_le op hi \<and> f_le lo cl \<and> f_le cl hi"

definition bar_ok :: "KlineBar \<Rightarrow> bool" where
  "bar_ok b \<longleftrightarrow> candle (kb_open b) (kb_high b) (kb_low b) (kb_close b)"

definition bucket_ok :: "int \<Rightarrow> LiveCandleBucket \<Rightarrow> bool" where
  "bucket_ok bucket_ms b \<longleftrightarrow>
     candle (bk_open b) (bk_high b) (bk_low b) (bk_close b) \<and> bucket_ms dvd bk_open_time_ms b"

definition times_of :: "string \<Rightarrow> KlineBar list \<Rightarrow> int list" where
  "times_of symbol bars = map kb_open_time_ms (filter (\<lambda>b. kb_symbol b = symbol) bars)"

definition candles_inv :: "int \<Rightarrow> KlineBar list \<times> (string \<rightharpoonup> LiveCandleBucket) \<Rightarrow> bool" where
  "candles_inv bucket_ms st \<longleftrightarrow>
     (case st of (bars, buckets) \<Rightarrow>
       (\<forall>symbol b. buckets symbol = Some b \<longrightarrow> bucket_ok bucket_ms b)
       \<and> (\<forall>b \<in> set bars. bar_ok b \<and> bucket_ms dvd kb_open_time_ms b)
       \<and> (\<forall>symbol. sorted_wrt (<) (times_of symbol bars)
            \<and> (times_of symbol bars \<noteq> [] \<longrightarrow>
                 (\<exists>b. buckets symbol = Some b \<and> last (times_of symbol bars) < bk_open_time_ms b))))"

lemma times_of_snoc:
  "times_of symbol (bars @ [b]) = times_of symbol bars @ (if kb_symbol b = symbol then [kb_open_time_ms b] else [])"
  by (simp add: times_of_def)

lemma tick_price_Some: "tick_price F tick = Some p \<Longrightarrow> \<exists>q. p = Fin q \<and> 0 < q"
  by (cases p) (auto simp: tick_price_def split: option.splits if_splits)

lemma candle_new: "0 < q \<Longrightarrow> candle (Fin q) (Fin q) (Fin q) (Fin q)"
  by (simp add: candle_def)

lemma candle_update:
  "candle op hi lo cl \<Longrightarrow> 0 < q \<Longrightarrow> candle op (f_max hi (Fin q)) (f_min lo (Fin q)) (Fin q)"
  by (cases op; cases hi; cases lo) (auto simp: candle_def f_le_def)

lemma sorted_snoc_last:
  "sorted_wrt (<) (ts @ [t]) \<longleftrightarrow> sorted_wrt (<) ts \<and> (ts \<noteq> [] \<longrightarrow> last ts < (t :: int))"
  by (cases ts rule: rev_cases) (auto simp: sorted_wrt_append)

lemma complete_bar_inv:
  assumes "candles_inv bucket_ms st"
  shows "candles_inv bucket_ms (complete_bar F bucket_ms tick st)"
proof -
  obtain bars buckets where st: "st = (bars, buckets)" by (cases st)
  show ?thesis
  proof (cases "tk_market tick \<notin> {''usdm'', ''futures'', ''usd_m_futures''} \<or> tick_price F tick = None")
    case True
    with assms show ?thesis by (auto simp: complete_bar_def st)
  next
    case False
    then obtain price q where price: "tick_price F tick = Some price" "price = Fin q" "0 < q"
      using tick_price_Some [of F tick] by (cases "tick_price F tick") auto
    define open_ms where "open_ms = tk_event_time_ms tick div bucket_ms * bucket_ms"
    have new: "bucket_ok bucket_ms (bucket_new open_ms price)"
      using price by (simp add: bucket_ok_def bucket_new_def candle_new open_ms_def)
    show ?thesis
    proof (cases "buckets (tk_symbol tick)")
      case None
      then have "times_of (tk_symbol tick) bars = []"
        using assms by (auto simp: candles_inv_def st)
      with assms new None False price(1) show ?thesis
        by (auto simp: complete_bar_def st Let_def candles_inv_def open_ms_def)
    next
      case (Some b)
      then have b: "bucket_ok bucket_ms b" using assms by (auto simp: candles_inv_def st)
      have update: "bucket_ok bucket_ms (bucket_update price b)"
        using b price by (auto simp: bucket_ok_def bucket_update_def intro: candle_update)
      have bar: "bar_ok (into_bar (tk_symbol tick) b)" "bucket_ms dvd kb_open_time_ms (into_bar (tk_symbol tick) b)"
        using b by (simp_all add: bar_ok_def into_bar_def bucket_ok_def)
      consider (same) "bk_open_time_ms b = open_ms" | (later) "bk_open_time_ms b < open_ms" | (earlier) "open_ms < bk_open_time_ms b"
        by linarith
      then show ?thesis
      proof cases
        case same
        with assms update Some False price(1) show ?thesis
          by (auto simp: complete_bar_def st Let_def candles_inv_def open_ms_def [symmetric] bucket_update_def)
      next
        case later
        with assms new bar Some False price(1) show ?thesis
          by (auto simp: complete_bar_def st Let_def candles_inv_def open_ms_def [symmetric] times_of_snoc
              sorted_snoc_last into_bar_def bucket_new_def)
      next
        case earlier
        with assms Some False price(1) show ?thesis
          by (auto simp: complete_bar_def st Let_def open_ms_def [symmetric])
      qed
    qed
  qed
qed

lemma complete_bars_inv:
  "candles_inv bucket_ms st \<Longrightarrow> candles_inv bucket_ms (fold (complete_bar F bucket_ms) ticks st)"
  by (induction ticks arbitrary: st) (simp_all add: complete_bar_inv)

text \<open>The candles of one call, from buckets that are candles themselves: every completed bar is a
  candle (its low is positive and at most its open and close, its high finite and at least both) that
  opens on a multiple of the interval, and the bars of a symbol open at strictly increasing times, each
  before the bucket that stays open; the buckets left behind are candles again. Late and out-of-order
  ticks cannot break the order.
\<close>

theorem completed_bars_are_ordered_candles:
  assumes "complete_bars F bucket_ms ticks buckets = (bars, buckets')"
    and "\<And>symbol b. buckets symbol = Some b \<Longrightarrow> bucket_ok bucket_ms b"
  shows "list_all (\<lambda>b. bar_ok b \<and> bucket_ms dvd kb_open_time_ms b) bars
    \<and> sorted_wrt (<) (times_of symbol bars)
    \<and> (\<forall>b. buckets' symbol = Some b \<longrightarrow>
         bucket_ok bucket_ms b \<and> list_all (\<lambda>t. t < bk_open_time_ms b) (times_of symbol bars))"
proof -
  have "candles_inv bucket_ms ([], buckets)"
    using assms(2) by (simp add: candles_inv_def times_of_def)
  from complete_bars_inv [OF this, of F ticks]
  have inv: "candles_inv bucket_ms (bars, buckets')"
    using assms(1) by (simp add: complete_bars_def)
  have "t < bk_open_time_ms b" if "buckets' symbol = Some b" "t \<in> set (times_of symbol bars)" for b t
  proof -
    have "sorted_wrt (<) (times_of symbol bars)" "last (times_of symbol bars) < bk_open_time_ms b"
      using inv that by (auto simp: candles_inv_def dest!: spec [of _ symbol])
    with that(2) show ?thesis
      by (cases "times_of symbol bars" rule: rev_cases) (auto simp: sorted_wrt_append)
  qed
  with inv show ?thesis by (auto simp: candles_inv_def list_all_iff)
qed


text \<open>The tick at \<open>59 s\<close> that arrives after the one at \<open>60 s\<close> belongs to a closed minute and is dropped.\<close>

theorem completed_bars_are_ordered_candles_witness:
  "times_of ''BTCUSDT'' (fst (complete_bars plain_fenv 60000
      [demo_tick 1000 100, demo_tick 2000 97, demo_tick 60000 101, demo_tick 59000 90, demo_tick 120000 99] (\<lambda>_. None))) = [0, 60000]
   \<and> sorted_wrt (<) (times_of ''BTCUSDT'' (fst (complete_bars plain_fenv 60000
      [demo_tick 1000 100, demo_tick 2000 97, demo_tick 60000 101, demo_tick 59000 90, demo_tick 120000 99] (\<lambda>_. None))))"
proof -
  let ?ticks = "[demo_tick 1000 100, demo_tick 2000 97, demo_tick 60000 101, demo_tick 59000 90, demo_tick 120000 99]"
  obtain bars buckets where eq: "complete_bars plain_fenv 60000 ?ticks (\<lambda>_. None) = (bars, buckets)"
    by (cases "complete_bars plain_fenv 60000 ?ticks (\<lambda>_. None)")
  have "times_of ''BTCUSDT'' (fst (complete_bars plain_fenv 60000 ?ticks (\<lambda>_. None))) = [0, 60000]" by code_simp
  with completed_bars_are_ordered_candles [OF eq, of "''BTCUSDT''"] show ?thesis by (simp add: eq)
qed

end
