(* ===== verification/Auth.thy ===== *)
theory Auth
  imports RustString
begin

unbundle bit_operations_syntax

text \<open>
  The crate \<^verbatim>\<open>shared-auth\<close>: one-time passwords (\<^verbatim>\<open>totp.rs\<close>), session tokens (\<^verbatim>\<open>session_token.rs\<close>) and
  email codes (\<^verbatim>\<open>email_code.rs\<close>). The cryptographic functions, base64 and the JSON form of the claims are
  parameters (\<open>auth_crypto\<close>); the base32 code is the source's own.
\<close>

type_synonym u8 = "8 word"
type_synonym u16 = "16 word"

record SessionClaims =
  cl_email :: string
  cl_is_admin :: bool
  cl_sid :: u64

datatype SessionTokenError = InvalidFormat | InvalidPayload | InvalidSignature

text \<open>
  \<open>hmac_sha1\<close> gives the 20 bytes of the digest by their index; \<open>sha256\<close> is called on the 8 bytes of a
  seed. \<open>argon_hash\<close> takes the number of the call, which stands for its random salt.
\<close>

record auth_crypto =
  hmac_sha1 :: "u8 list \<Rightarrow> u8 list \<Rightarrow> (nat \<Rightarrow> u8) option"
  sha256 :: "u8 list \<Rightarrow> u8 list"
  hmac_sha256 :: "string \<Rightarrow> string \<Rightarrow> string option"
  b64_encode :: "string \<Rightarrow> string"
  b64_decode :: "string \<Rightarrow> string option"
  claims_json :: "SessionClaims \<Rightarrow> string option"
  claims_of_json :: "string \<Rightarrow> SessionClaims option"
  argon_hash :: "nat \<Rightarrow> string \<Rightarrow> string"
  argon_verify :: "string \<Rightarrow> string \<Rightarrow> bool"

subsection \<open>Formatting\<close>

text \<open>\<open>{:06}\<close>.\<close>

definition show_padded6 :: "nat \<Rightarrow> string" where
  "show_padded6 n = (let s = show_nat n in replicate (6 - length s) CHR ''0'' @ s)"

definition issue_email_code :: "u64 \<Rightarrow> string" where
  "issue_email_code seed = show_padded6 (unat seed mod 1000000)"

definition verify_email_code :: "string \<Rightarrow> string \<Rightarrow> bool" where
  "verify_email_code expected actual \<longleftrightarrow> expected = actual"

definition to_be_bytes :: "u64 \<Rightarrow> u8 list" where
  "to_be_bytes w = map (\<lambda>i. ucast (drop_bit (8 * (7 - i)) w)) [0..<8]"

subsection \<open>Base32\<close>

definition BASE32_ALPHABET :: string where
  "BASE32_ALPHABET = ''ABCDEFGHIJKLMNOPQRSTUVWXYZ234567''"

text \<open>The inner loop \<open>while bits >= 5\<close>: the digits it pushes and the bits left.\<close>

function emit_digits :: "u16 \<Rightarrow> u8 \<Rightarrow> string \<times> u8" where
  "emit_digits buffer bits =
     (if bits \<ge> 5
      then
        let digit = BASE32_ALPHABET ! unat (drop_bit (unat (bits - 5)) buffer AND 0x1f);
            (rest, bits) = emit_digits buffer (bits - 5)
        in (digit # rest, bits)
      else ([], bits))"
  by pat_completeness auto
termination
  by (relation "measure (\<lambda>(_, bits). unat bits)") (auto simp: unat_sub word_le_nat_alt)

declare emit_digits.simps [simp del]

fun encode_bytes :: "u8 list \<Rightarrow> u16 \<Rightarrow> u8 \<Rightarrow> string" where
  "encode_bytes [] buffer bits =
     (if bits > 0 then [BASE32_ALPHABET ! unat (push_bit (unat (5 - bits)) buffer AND 0x1f)] else [])"
| "encode_bytes (byte # bytes) buffer bits =
     (let buffer = push_bit 8 buffer OR ucast byte;
          (digits, bits) = emit_digits buffer (bits + 8)
      in digits @ encode_bytes bytes buffer bits)"

definition encode_base32 :: "u8 list \<Rightarrow> string" where
  "encode_base32 bytes = encode_bytes bytes 0 0"

text \<open>The value of a character; every character outside ASCII gives \<open>None\<close>, as bytes above 127 do here.\<close>

definition base32_value :: "nat \<Rightarrow> u8 option" where
  "base32_value c =
     (let u = (if 97 \<le> c \<and> c \<le> 122 then c - 32 else c)
      in if 65 \<le> u \<and> u \<le> 90 then Some (of_nat (u - 65))
         else if 50 \<le> u \<and> u \<le> 55 then Some (of_nat (c - 50) + 26)
         else None)"

function emit_bytes :: "u32 \<Rightarrow> u8 \<Rightarrow> u8 list \<times> u8" where
  "emit_bytes buffer bits =
     (if bits \<ge> 8
      then
        let byte = ucast (drop_bit (unat (bits - 8)) buffer AND 0xff);
            (rest, bits) = emit_bytes buffer (bits - 8)
        in (byte # rest, bits)
      else ([], bits))"
  by pat_completeness auto
termination
  by (relation "measure (\<lambda>(_, bits). unat bits)") (auto simp: unat_sub word_le_nat_alt)

declare emit_bytes.simps [simp del]

function decode_chars :: "nat list \<Rightarrow> u32 \<Rightarrow> u8 \<Rightarrow> u8 list option" where
  "decode_chars cs buffer bits =
     (case cs of
        [] \<Rightarrow> Some []
      | c # rest \<Rightarrow>
          if ws_prefix cs \<noteq> 0 then decode_chars (drop (ws_prefix cs) cs) buffer bits
          else
            case base32_value c of
              None \<Rightarrow> None
            | Some v \<Rightarrow>
                let buffer = push_bit 5 buffer OR ucast v;
                    (bytes, bits) = emit_bytes buffer (bits + 5)
                in map_option (\<lambda>more_bytes. bytes @ more_bytes) (decode_chars rest buffer bits))"
  by pat_completeness auto
termination
  by (relation "measure (\<lambda>(cs, _, _). length cs)") auto

declare decode_chars.simps [simp del]

definition decode_base32 :: "string \<Rightarrow> u8 list option" where
  "decode_base32 secret = decode_chars (map of_char secret) 0 0"

subsection \<open>One-time passwords\<close>

definition generate_secret :: "auth_crypto \<Rightarrow> u64 \<Rightarrow> string" where
  "generate_secret C seed = encode_base32 (take 20 (sha256 C (to_be_bytes seed)))"

text \<open>\<open>u32::from_be_bytes\<close> of four bytes, the first without its sign bit.\<close>

definition truncated :: "(nat \<Rightarrow> u8) \<Rightarrow> u32" where
  "truncated digest =
     (let i = unat (digest 19 AND 0x0f)
      in push_bit 24 (ucast (digest i AND 0x7f)) OR push_bit 16 (ucast (digest (i + 1)))
         OR push_bit 8 (ucast (digest (i + 2))) OR ucast (digest (i + 3)))"

definition current_code_at :: "auth_crypto \<Rightarrow> string \<Rightarrow> u64 \<Rightarrow> string option" where
  "current_code_at C secret unix_time =
     Option.bind (decode_base32 secret)
       (\<lambda>key. map_option (\<lambda>digest. show_padded6 (unat (truncated digest) mod 1000000))
                (hmac_sha1 C key (to_be_bytes (unix_time div 30))))"

definition current_code :: "auth_crypto \<Rightarrow> u64 \<Rightarrow> string \<Rightarrow> string" where
  "current_code C unix_time secret =
     (case current_code_at C secret unix_time of Some c \<Rightarrow> c | None \<Rightarrow> ''000000'')"

text \<open>\<open>saturating_sub(30)\<close> and \<open>saturating_add(30)\<close>.\<close>

definition verify_code :: "auth_crypto \<Rightarrow> u64 \<Rightarrow> string \<Rightarrow> string \<Rightarrow> bool" where
  "verify_code C unix_time secret code =
     list_ex (\<lambda>candidate. current_code_at C secret candidate = Some code)
       [if unix_time < 30 then 0 else unix_time - 30, unix_time,
        if unix_time > - 31 then - 1 else unix_time + 30]"

subsection \<open>Session tokens\<close>

definition sign_token :: "auth_crypto \<Rightarrow> string \<Rightarrow> string \<Rightarrow> SessionTokenError + string" where
  "sign_token C secret value =
     (case hmac_sha256 C secret value of None \<Rightarrow> Inl InvalidSignature | Some mac \<Rightarrow> Inr (b64_encode C mac))"

definition issue_session_token :: "auth_crypto \<Rightarrow> string \<Rightarrow> SessionClaims \<Rightarrow> SessionTokenError + string" where
  "issue_session_token C secret claims =
     (case claims_json C claims of
        None \<Rightarrow> Inl InvalidPayload
      | Some payload \<Rightarrow>
          let signed_value = ''v1.'' @ b64_encode C payload
          in case sign_token C secret signed_value of
               Inl e \<Rightarrow> Inl e
             | Inr signature \<Rightarrow> Inr (signed_value @ ''.'' @ signature))"

definition verify_session_token :: "auth_crypto \<Rightarrow> string \<Rightarrow> string \<Rightarrow> SessionTokenError + SessionClaims" where
  "verify_session_token C secret token =
     (case str_split CHR ''.'' token of
        version # payload # signature # rest \<Rightarrow>
          if rest \<noteq> [] \<or> version \<noteq> ''v1'' then Inl InvalidFormat
          else
            (case sign_token C secret (version @ ''.'' @ payload) of
               Inl e \<Rightarrow> Inl e
             | Inr expected \<Rightarrow>
                 if expected \<noteq> signature then Inl InvalidSignature
                 else
                   (case b64_decode C payload of
                      None \<Rightarrow> Inl InvalidPayload
                    | Some bytes \<Rightarrow>
                        (case claims_of_json C bytes of None \<Rightarrow> Inl InvalidPayload | Some claims \<Rightarrow> Inr claims)))
      | _ \<Rightarrow> Inl InvalidFormat)"

end
