(* ===== verification/Identity.thy ===== *)
theory Identity
  imports Auth SharedDb
begin

text \<open>
  The identity tables of the store (\<^verbatim>\<open>shared-db/src/lib.rs\<close>, the in-memory backend): users, sessions,
  administrators, the audit log and the named sequences. Hash maps that are only read by key are
  functions to options. \<open>lower\<close> is the Unicode lower-casing of the standard library, under which
  every email is stored.
\<close>

record AuthUserRecord =
  au_user_id :: u64
  au_email :: string
  au_password_hash :: string
  au_email_verified :: bool
  au_verification_code :: "string option"
  au_reset_code :: "string option"
  au_totp_secret :: "string option"

record AdminUserRecord =
  ad_email :: string
  ad_role :: string
  ad_totp_required :: bool
  ad_created_at :: datetime

text \<open>The values of the audit payloads, \<open>json!\<close> objects of the program's own values.\<close>

datatype audit_value =
  AuditNull | AuditBool bool | AuditStr string | AuditInt int | AuditTime datetime
| AuditList "audit_value list" | AuditObject "(string \<times> audit_value) list"

record AuditLogRecord =
  al_actor_email :: string
  al_action :: string
  al_target_type :: string
  al_target_id :: string
  al_payload :: "(string \<times> audit_value) list"
  al_created_at :: datetime

record identity_db =
  sequences :: "string \<rightharpoonup> u64"
  auth_users :: "string \<rightharpoonup> AuthUserRecord"
  admin_users :: "string \<rightharpoonup> AdminUserRecord"
  auth_sessions :: "string \<rightharpoonup> string"
  audit_logs :: "AuditLogRecord list"

definition empty_identity :: identity_db where
  "empty_identity = \<lparr>sequences = Map.empty, auth_users = Map.empty, admin_users = Map.empty,
     auth_sessions = Map.empty, audit_logs = []\<rparr>"

text \<open>\<open>*next += 1\<close> on an unsigned 64-bit counter.\<close>

definition next_sequence :: "string \<Rightarrow> identity_db \<Rightarrow> u64 \<times> identity_db" where
  "next_sequence name db =
     (let next = (case sequences db name of Some n \<Rightarrow> n | None \<Rightarrow> 0) + 1
      in (next, db\<lparr>sequences := (sequences db)(name \<mapsto> next)\<rparr>))"

definition find_auth_user :: "(string \<Rightarrow> string) \<Rightarrow> identity_db \<Rightarrow> string \<Rightarrow> AuthUserRecord option" where
  "find_auth_user lower db email = auth_users db (lower email)"

definition insert_auth_user :: "(string \<Rightarrow> string) \<Rightarrow> AuthUserRecord \<Rightarrow> identity_db \<Rightarrow> identity_db" where
  "insert_auth_user lower record db =
     db\<lparr>auth_users := (auth_users db)(lower (au_email record) \<mapsto> record)\<rparr>"

text \<open>The \<open>.._with_audit\<close> operations return 0 and write nothing, not even the audit, when there is no
  such user.\<close>

definition update_user_with_audit ::
  "(string \<Rightarrow> string) \<Rightarrow> string \<Rightarrow> (AuthUserRecord \<Rightarrow> AuthUserRecord) \<Rightarrow> (identity_db \<Rightarrow> identity_db) \<Rightarrow>
   AuditLogRecord \<Rightarrow> identity_db \<Rightarrow> nat \<times> identity_db" where
  "update_user_with_audit lower email f also_do audit db =
     (case auth_users db (lower email) of
        None \<Rightarrow> (0, db)
      | Some user \<Rightarrow>
          let db = also_do (db\<lparr>auth_users := (auth_users db)(lower email \<mapsto> f user)\<rparr>)
          in (1, db\<lparr>audit_logs := audit_logs db @ [audit]\<rparr>))"

definition revoke_ephemeral_sessions :: "string \<Rightarrow> identity_db \<Rightarrow> identity_db" where
  "revoke_ephemeral_sessions email db =
     db\<lparr>auth_sessions := (\<lambda>token. if auth_sessions db token = Some email then None else auth_sessions db token)\<rparr>"

definition update_auth_email_verification_with_audit ::
  "(string \<Rightarrow> string) \<Rightarrow> string \<Rightarrow> bool \<Rightarrow> string option \<Rightarrow> AuditLogRecord \<Rightarrow> identity_db \<Rightarrow> nat \<times> identity_db" where
  "update_auth_email_verification_with_audit lower email email_verified verification_code =
     update_user_with_audit lower email
       (\<lambda>user. user\<lparr>au_email_verified := email_verified, au_verification_code := verification_code\<rparr>) id"

definition set_auth_reset_code_with_audit ::
  "(string \<Rightarrow> string) \<Rightarrow> string \<Rightarrow> string option \<Rightarrow> AuditLogRecord \<Rightarrow> identity_db \<Rightarrow> nat \<times> identity_db" where
  "set_auth_reset_code_with_audit lower email reset_code =
     update_user_with_audit lower email (\<lambda>user. user\<lparr>au_reset_code := reset_code\<rparr>) id"

definition update_auth_password_with_audit ::
  "(string \<Rightarrow> string) \<Rightarrow> string \<Rightarrow> string \<Rightarrow> bool \<Rightarrow> AuditLogRecord \<Rightarrow> identity_db \<Rightarrow> nat \<times> identity_db" where
  "update_auth_password_with_audit lower email password_hash revoke_sessions =
     update_user_with_audit lower email
       (\<lambda>user. user\<lparr>au_password_hash := password_hash, au_reset_code := None\<rparr>)
       (if revoke_sessions then revoke_ephemeral_sessions (lower email) else id)"

definition set_auth_totp_secret_with_audit ::
  "(string \<Rightarrow> string) \<Rightarrow> string \<Rightarrow> string option \<Rightarrow> bool \<Rightarrow> AuditLogRecord \<Rightarrow> identity_db \<Rightarrow> nat \<times> identity_db" where
  "set_auth_totp_secret_with_audit lower email totp_secret revoke_sessions =
     update_user_with_audit lower email (\<lambda>user. user\<lparr>au_totp_secret := totp_secret\<rparr>)
       (if revoke_sessions then revoke_ephemeral_sessions (lower email) else id)"

text \<open>The session identifier \<open>sid\<close> is stored by the PostgreSQL backend only.\<close>

definition insert_auth_session ::
  "(string \<Rightarrow> string) \<Rightarrow> string \<Rightarrow> string \<Rightarrow> identity_db \<Rightarrow> unit result \<times> identity_db" where
  "insert_auth_session lower session_token email db =
     (if auth_users db (lower email) = None
      then (Inl ''cannot create session for missing user'', db)
      else (Inr (), db\<lparr>auth_sessions := (auth_sessions db)(session_token \<mapsto> lower email)\<rparr>))"

definition upsert_admin_user ::
  "(string \<Rightarrow> string) \<Rightarrow> datetime \<Rightarrow> string \<Rightarrow> string \<Rightarrow> bool \<Rightarrow> identity_db \<Rightarrow> identity_db" where
  "upsert_admin_user lower now email role totp_required db =
     db\<lparr>admin_users := (admin_users db)(lower email \<mapsto>
        \<lparr>ad_email = lower email, ad_role = role, ad_totp_required = totp_required, ad_created_at = now\<rparr>)\<rparr>"

definition find_auth_session_email :: "identity_db \<Rightarrow> string \<Rightarrow> string option" where
  "find_auth_session_email db session_token = auth_sessions db session_token"

subsection \<open>Facts\<close>

lemma next_sequence_simps [simp]:
  "auth_users (snd (next_sequence n db)) = auth_users db"
  "auth_sessions (snd (next_sequence n db)) = auth_sessions db"
  "admin_users (snd (next_sequence n db)) = admin_users db"
  "audit_logs (snd (next_sequence n db)) = audit_logs db"
  "sequences (snd (next_sequence n db)) n = Some (fst (next_sequence n db))"
  "n \<noteq> m \<Longrightarrow> sequences (snd (next_sequence n db)) m = sequences db m"
  by (simp_all add: next_sequence_def Let_def)

lemma next_sequence_again:
  "sequences db n = Some k \<Longrightarrow> fst (next_sequence n db) = k + 1"
  by (simp add: next_sequence_def Let_def)

lemma revoke_simps [simp]:
  "auth_users (revoke_ephemeral_sessions e db) = auth_users db"
  "sequences (revoke_ephemeral_sessions e db) = sequences db"
  "auth_sessions (revoke_ephemeral_sessions e db) t =
     (if auth_sessions db t = Some e then None else auth_sessions db t)"
  by (simp_all add: revoke_ephemeral_sessions_def)

lemma update_user_some:
  assumes "auth_users db (lower email) = Some user"
  shows "update_user_with_audit lower email f g audit db =
    (1, (g (db\<lparr>auth_users := (auth_users db)(lower email \<mapsto> f user)\<rparr>))
          \<lparr>audit_logs := audit_logs (g (db\<lparr>auth_users := (auth_users db)(lower email \<mapsto> f user)\<rparr>)) @ [audit]\<rparr>)"
  using assms by (simp add: update_user_with_audit_def Let_def)

lemmas identity_ops =
  find_auth_user_def insert_auth_user_def update_auth_email_verification_with_audit_def
  set_auth_reset_code_with_audit_def update_auth_password_with_audit_def
  set_auth_totp_secret_with_audit_def insert_auth_session_def upsert_admin_user_def
  find_auth_session_email_def

end
