(* ===== verification/AuthService.thy ===== *)
theory AuthService
  imports Identity
begin

text \<open>
  \<^verbatim>\<open>api-server/src/services/auth_service.rs\<close>, \<^verbatim>\<open>routes/auth_guard.rs\<close> and the handlers of \<^verbatim>\<open>routes/security.rs\<close> and
  \<^verbatim>\<open>routes/profile.rs\<close>: registration, login, password reset, one-time passwords, sessions and the
  roles of administrators. The delivery of an email over HTTP or SMTP is a parameter that says
  whether it succeeded.
\<close>

subsection \<open>Types\<close>

datatype AdminRole = SuperAdmin | OperatorAdmin

record HttpEmailConfig =
  http_url :: string
  http_bearer_token :: "string option"
  http_from :: string

record SmtpEmailConfig =
  smtp_host :: string
  smtp_port :: nat
  smtp_helo_name :: string
  smtp_from :: string
  smtp_auth_username :: "string option"
  smtp_auth_password :: "string option"

datatype AuthEmailDelivery = CaptureEmail | HttpEmail HttpEmailConfig | SmtpEmail SmtpEmailConfig

record EmailMessage =
  em_to :: string
  em_subject :: string
  em_body :: string

record AuthConfig =
  admin_roles :: "string \<rightharpoonup> AdminRole"
  session_token_secret :: string
  email_delivery :: AuthEmailDelivery

record AdminPermissions =
  can_manage_memberships :: bool
  can_manage_plans :: bool
  can_manage_address_pools :: bool
  can_manage_templates :: bool
  can_manage_sweeps :: bool
  can_manage_system :: bool

datatype StatusCode = BAD_REQUEST | CONFLICT | NOT_FOUND | UNAUTHORIZED | FORBIDDEN | INTERNAL_SERVER_ERROR

record AuthError =
  err_status :: StatusCode
  err_message :: string

type_synonym 'a auth_result = "AuthError + 'a"

record RegisterUserResponse =
  ru_user_id :: u64
  ru_code_delivery :: string
  ru_verification_code :: "string option"

record PasswordResetRequestResponse =
  pr_code_delivery :: string
  pr_reset_code :: "string option"

record TotpResponse =
  tr_secret :: string
  tr_code :: string

record ProfileResponse =
  pf_email :: string
  pf_email_verified :: bool
  pf_totp_enabled :: bool
  pf_admin_totp_required :: bool
  pf_admin_access_granted :: bool
  pf_admin_role :: "AdminRole option"
  pf_admin_permissions :: "AdminPermissions option"

record AuthenticatedSession =
  as_email :: string
  as_is_admin :: bool
  as_admin_role :: "AdminRole option"
  as_sid :: u64

text \<open>What a request sees of the outside: the cryptographic functions, the lower-casing of the standard
  library, the clock (an instant and its whole seconds), the number of the salt it draws, and the delivery
  of emails.\<close>

record auth_env =
  ae_crypto :: auth_crypto
  ae_lower :: "string \<Rightarrow> string"
  ae_now :: datetime
  ae_unix_time :: u64
  ae_salt :: nat
  ae_send_http :: "HttpEmailConfig \<Rightarrow> EmailMessage \<Rightarrow> bool"
  ae_send_smtp :: "SmtpEmailConfig \<Rightarrow> EmailMessage \<Rightarrow> bool"

definition auth_err :: "StatusCode \<Rightarrow> string \<Rightarrow> AuthError" where
  "auth_err status message = \<lparr>err_status = status, err_message = message\<rparr>"

definition auth_storage_error :: AuthError where
  "auth_storage_error = auth_err INTERNAL_SERVER_ERROR ''internal storage error''"

fun role_str :: "AdminRole \<Rightarrow> string" where
  "role_str SuperAdmin = ''super_admin''"
| "role_str OperatorAdmin = ''operator_admin''"

fun for_role :: "AdminRole \<Rightarrow> AdminPermissions" where
  "for_role SuperAdmin =
     \<lparr>can_manage_memberships = True, can_manage_plans = True, can_manage_address_pools = True,
      can_manage_templates = True, can_manage_sweeps = True, can_manage_system = True\<rparr>"
| "for_role OperatorAdmin =
     \<lparr>can_manage_memberships = False, can_manage_plans = False, can_manage_address_pools = False,
      can_manage_templates = False, can_manage_sweeps = False, can_manage_system = False\<rparr>"

subsection \<open>Helpers\<close>

definition security_audit ::
  "auth_env \<Rightarrow> string \<Rightarrow> string \<Rightarrow> (string \<times> audit_value) list \<Rightarrow> AuditLogRecord" where
  "security_audit E actor_email action payload =
     \<lparr>al_actor_email = actor_email, al_action = action, al_target_type = ''user'',
      al_target_id = actor_email, al_payload = payload, al_created_at = ae_now E\<rparr>"

definition normalize_email :: "(string \<Rightarrow> string) \<Rightarrow> string \<Rightarrow> string" where
  "normalize_email lower email = lower (str_trim email)"

definition DEFAULT_OPERATOR_ADMIN_EMAILS :: "string list" where
  "DEFAULT_OPERATOR_ADMIN_EMAILS = [''admin@example.com'']"

definition DEFAULT_SUPER_ADMIN_EMAILS :: "string list" where
  "DEFAULT_SUPER_ADMIN_EMAILS = [''super-admin@example.com'']"

definition DEFAULT_SESSION_TOKEN_SECRET :: string where
  "DEFAULT_SESSION_TOKEN_SECRET = ''grid-binance-dev-session-secret''"

definition resolved_admin_role :: "auth_env \<Rightarrow> AuthConfig \<Rightarrow> string \<Rightarrow> AdminRole option" where
  "resolved_admin_role E config email =
     (let email = normalize_email (ae_lower E) email
      in case admin_roles config email of
           Some role \<Rightarrow> Some role
         | None \<Rightarrow>
             if list_ex (\<lambda>candidate. normalize_email (ae_lower E) candidate = email) DEFAULT_SUPER_ADMIN_EMAILS
             then Some SuperAdmin
             else if list_ex (\<lambda>candidate. normalize_email (ae_lower E) candidate = email) DEFAULT_OPERATOR_ADMIN_EMAILS
             then Some OperatorAdmin
             else None)"

definition validate_password :: "string \<Rightarrow> unit auth_result" where
  "validate_password password =
     (if password = [] then Inl (auth_err BAD_REQUEST ''email and password are required'') else Inr ())"

definition hash_password :: "auth_env \<Rightarrow> string \<Rightarrow> string" where
  "hash_password E password = argon_hash (ae_crypto E) (ae_salt E) password"

definition verify_password :: "auth_env \<Rightarrow> string \<Rightarrow> string \<Rightarrow> bool" where
  "verify_password E password stored_hash = argon_verify (ae_crypto E) password stored_hash"

fun capture_code :: "AuthEmailDelivery \<Rightarrow> string option \<Rightarrow> string option" where
  "capture_code CaptureEmail code = code"
| "capture_code (HttpEmail _) code = None"
| "capture_code (SmtpEmail _) code = None"

fun send_email :: "auth_env \<Rightarrow> AuthEmailDelivery \<Rightarrow> EmailMessage \<Rightarrow> bool" where
  "send_email E CaptureEmail message = True"
| "send_email E (HttpEmail config) message = ae_send_http E config message"
| "send_email E (SmtpEmail config) message = ae_send_smtp E config message"

definition reset_subject :: string where
  "reset_subject = ''Grid Binance password reset code''"

definition reset_body :: "string \<Rightarrow> string" where
  "reset_body code =
     ''Your Grid Binance password reset code is '' @ code @ ''.\<newline>\<newline>Enter this code on the password reset page to choose a new password.\<newline>If you did not request a reset, you can ignore this email.''"

definition send_email_code :: "auth_env \<Rightarrow> AuthConfig \<Rightarrow> string \<Rightarrow> string \<Rightarrow> unit auth_result" where
  "send_email_code E config email code =
     (if send_email E (email_delivery config)
           \<lparr>em_to = email, em_subject = reset_subject, em_body = reset_body code\<rparr>
      then Inr () else Inl (auth_err INTERNAL_SERVER_ERROR ''password reset email delivery failed''))"

subsection \<open>Registration and login\<close>

definition register ::
  "auth_env \<Rightarrow> AuthConfig \<Rightarrow> string \<Rightarrow> string \<Rightarrow> identity_db \<Rightarrow> RegisterUserResponse auth_result \<times> identity_db" where
  "register E config request_email password db =
     (let email = normalize_email (ae_lower E) request_email
      in if email = [] then (Inl (auth_err BAD_REQUEST ''email and password are required''), db)
         else case validate_password password of
           Inl e \<Rightarrow> (Inl e, db)
         | Inr _ \<Rightarrow>
             (case find_auth_user (ae_lower E) db email of
                Some existing \<Rightarrow>
                  (Inr \<lparr>ru_user_id = au_user_id existing, ru_code_delivery = ''none'',
                        ru_verification_code = capture_code (email_delivery config) (au_verification_code existing)\<rparr>, db)
              | None \<Rightarrow>
                  let (user_id, db) = next_sequence ''auth_user_id'' db;
                      (verification_seed, db) = next_sequence ''auth_seed'' db;
                      verification_code = issue_email_code verification_seed;
                      db = insert_auth_user (ae_lower E)
                             \<lparr>au_user_id = user_id, au_email = email, au_password_hash = hash_password E password,
                              au_email_verified = True, au_verification_code = Some verification_code,
                              au_reset_code = None, au_totp_secret = None\<rparr> db
                  in (Inr \<lparr>ru_user_id = user_id, ru_code_delivery = ''none'',
                           ru_verification_code = capture_code (email_delivery config) (Some verification_code)\<rparr>, db)))"

definition verify_email ::
  "auth_env \<Rightarrow> AuthConfig \<Rightarrow> string \<Rightarrow> string \<Rightarrow> identity_db \<Rightarrow> bool auth_result \<times> identity_db" where
  "verify_email E config request_email code db =
     (let email = normalize_email (ae_lower E) request_email;
          refused = auth_err UNAUTHORIZED ''invalid verification code''
      in case find_auth_user (ae_lower E) db email of
           None \<Rightarrow> (Inl refused, db)
         | Some user \<Rightarrow>
             (case au_verification_code user of
                None \<Rightarrow> (Inl refused, db)
              | Some expected \<Rightarrow>
                  if \<not> verify_email_code expected code then (Inl refused, db)
                  else (Inr True,
                        snd (update_auth_email_verification_with_audit (ae_lower E) email True None
                          (security_audit E email ''auth.email_verified'' [(''email_verified'', AuditBool True)]) db))))"

text \<open>The checks of \<open>login\<close> before it writes: the role and whether a one-time password is set.\<close>

definition login_checks ::
  "auth_env \<Rightarrow> AuthConfig \<Rightarrow> string \<Rightarrow> string \<Rightarrow> string option \<Rightarrow> identity_db \<Rightarrow> (AdminRole option \<times> bool) auth_result" where
  "login_checks E config email password totp_code db =
     (case find_auth_user (ae_lower E) db email of
        None \<Rightarrow> Inl (auth_err UNAUTHORIZED ''invalid credentials'')
      | Some user \<Rightarrow>
          if \<not> au_email_verified user then Inl (auth_err UNAUTHORIZED ''invalid credentials'')
          else if \<not> verify_password E password (au_password_hash user)
          then Inl (auth_err UNAUTHORIZED ''invalid credentials'')
          else
            let admin_role = resolved_admin_role E config email
            in if admin_role \<noteq> None \<and> au_totp_secret user = None
               then Inl (auth_err UNAUTHORIZED ''admin totp setup required'')
               else
                 (case au_totp_secret user of
                    None \<Rightarrow> Inr (admin_role, False)
                  | Some secret \<Rightarrow>
                      (case totp_code of
                         None \<Rightarrow> Inl (auth_err UNAUTHORIZED ''totp code required'')
                       | Some code \<Rightarrow>
                           if \<not> verify_code (ae_crypto E) (ae_unix_time E) secret code
                           then Inl (auth_err UNAUTHORIZED ''invalid totp code'')
                           else Inr (admin_role, True))))"

definition login ::
  "auth_env \<Rightarrow> AuthConfig \<Rightarrow> string \<Rightarrow> string \<Rightarrow> string option \<Rightarrow> identity_db \<Rightarrow> string auth_result \<times> identity_db" where
  "login E config request_email password totp_code db =
     (let email = normalize_email (ae_lower E) request_email
      in case login_checks E config email password totp_code db of
           Inl e \<Rightarrow> (Inl e, db)
         | Inr (admin_role, totp_set) \<Rightarrow>
             let db = (case admin_role of
                         Some role \<Rightarrow> upsert_admin_user (ae_lower E) (ae_now E) email (role_str role) True db
                       | None \<Rightarrow> db);
                 is_admin = (admin_role \<noteq> None \<and> totp_set);
                 (sid, db) = next_sequence ''auth_seed'' db
             in case issue_session_token (ae_crypto E) (session_token_secret config)
                       \<lparr>cl_email = email, cl_is_admin = is_admin, cl_sid = sid\<rparr> of
                  Inl _ \<Rightarrow> (Inl (auth_err UNAUTHORIZED ''valid session token required''), db)
                | Inr session_token \<Rightarrow>
                    (case insert_auth_session (ae_lower E) session_token email db of
                       (Inl _, db) \<Rightarrow> (Inl auth_storage_error, db)
                     | (Inr _, db) \<Rightarrow> (Inr session_token, db)))"

subsection \<open>Password reset and change\<close>

definition request_password_reset ::
  "auth_env \<Rightarrow> AuthConfig \<Rightarrow> string \<Rightarrow> identity_db \<Rightarrow> PasswordResetRequestResponse auth_result \<times> identity_db" where
  "request_password_reset E config request_email db =
     (let email = normalize_email (ae_lower E) request_email
      in case find_auth_user (ae_lower E) db email of
           None \<Rightarrow> (Inr \<lparr>pr_code_delivery = ''email'', pr_reset_code = None\<rparr>, db)
         | Some _ \<Rightarrow>
             let (reset_seed, db) = next_sequence ''auth_seed'' db;
                 reset_code = issue_email_code reset_seed;
                 (_, db) = set_auth_reset_code_with_audit (ae_lower E) email (Some reset_code)
                   (security_audit E email ''auth.password_reset_requested'' [(''reset_requested'', AuditBool True)]) db
             in case send_email_code E config email reset_code of
                  Inl e \<Rightarrow> (Inl e, db)
                | Inr _ \<Rightarrow> (Inr \<lparr>pr_code_delivery = ''email'',
                                 pr_reset_code = capture_code (email_delivery config) (Some reset_code)\<rparr>, db))"

definition confirm_password_reset ::
  "auth_env \<Rightarrow> string \<Rightarrow> string \<Rightarrow> string \<Rightarrow> identity_db \<Rightarrow> bool auth_result \<times> identity_db" where
  "confirm_password_reset E request_email code new_password db =
     (let email = normalize_email (ae_lower E) request_email;
          refused = auth_err UNAUTHORIZED ''invalid reset code''
      in case find_auth_user (ae_lower E) db email of
           None \<Rightarrow> (Inl refused, db)
         | Some user \<Rightarrow>
             (case au_reset_code user of
                None \<Rightarrow> (Inl refused, db)
              | Some expected \<Rightarrow>
                  if \<not> verify_email_code expected code then (Inl refused, db)
                  else case validate_password new_password of
                    Inl e \<Rightarrow> (Inl e, db)
                  | Inr _ \<Rightarrow>
                      (Inr True,
                       snd (update_auth_password_with_audit (ae_lower E) email (hash_password E new_password) True
                         (security_audit E email ''auth.password_reset_confirmed''
                            [(''reset_completed'', AuditBool True)]) db))))"

definition change_password ::
  "auth_env \<Rightarrow> string \<Rightarrow> string \<Rightarrow> string \<Rightarrow> identity_db \<Rightarrow> bool auth_result \<times> identity_db" where
  "change_password E session_email current_password new_password db =
     (let email = normalize_email (ae_lower E) session_email
      in case find_auth_user (ae_lower E) db email of
           None \<Rightarrow> (Inl (auth_err NOT_FOUND ''user not found''), db)
         | Some user \<Rightarrow>
             if \<not> verify_password E current_password (au_password_hash user)
             then (Inl (auth_err UNAUTHORIZED ''invalid credentials''), db)
             else case validate_password new_password of
               Inl e \<Rightarrow> (Inl e, db)
             | Inr _ \<Rightarrow>
                 (Inr True,
                  snd (update_auth_password_with_audit (ae_lower E) email (hash_password E new_password) True
                    (security_audit E email ''profile.password_changed'' [(''password_changed'', AuditBool True)]) db)))"

subsection \<open>One-time passwords\<close>

definition bootstrap_admin_totp ::
  "auth_env \<Rightarrow> AuthConfig \<Rightarrow> string \<Rightarrow> string \<Rightarrow> identity_db \<Rightarrow> TotpResponse auth_result \<times> identity_db" where
  "bootstrap_admin_totp E config request_email password db =
     (let email = normalize_email (ae_lower E) request_email
      in case find_auth_user (ae_lower E) db email of
           None \<Rightarrow> (Inl (auth_err UNAUTHORIZED ''admin totp bootstrap requires a verified admin account''), db)
         | Some user \<Rightarrow>
             (case resolved_admin_role E config email of
                None \<Rightarrow> (Inl (auth_err FORBIDDEN ''admin totp bootstrap is only available for configured admin accounts''), db)
              | Some admin_role \<Rightarrow>
                  if \<not> au_email_verified user
                  then (Inl (auth_err UNAUTHORIZED ''admin totp bootstrap requires a verified admin account''), db)
                  else if \<not> verify_password E password (au_password_hash user)
                  then (Inl (auth_err UNAUTHORIZED ''invalid credentials''), db)
                  else if au_totp_secret user \<noteq> None
                  then (Inl (auth_err CONFLICT ''admin totp is already enabled''), db)
                  else
                    let (totp_seed, db) = next_sequence ''auth_seed'' db;
                        secret = generate_secret (ae_crypto E) totp_seed;
                        code = current_code (ae_crypto E) (ae_unix_time E) secret;
                        (_, db) = set_auth_totp_secret_with_audit (ae_lower E) email (Some secret) False
                          (security_audit E email ''security.admin_totp_bootstrapped''
                             [(''admin_role'', AuditStr (role_str admin_role)), (''totp_enabled'', AuditBool True)]) db
                    in (Inr \<lparr>tr_secret = secret, tr_code = code\<rparr>, db)))"

definition enable_totp ::
  "auth_env \<Rightarrow> string \<Rightarrow> string \<Rightarrow> identity_db \<Rightarrow> TotpResponse auth_result \<times> identity_db" where
  "enable_totp E request_email session_email db =
     (let email = normalize_email (ae_lower E) request_email
      in if normalize_email (ae_lower E) session_email \<noteq> email
         then (Inl (auth_err FORBIDDEN ''session does not match user''), db)
         else case find_auth_user (ae_lower E) db email of
           None \<Rightarrow> (Inl (auth_err NOT_FOUND ''user not found''), db)
         | Some user \<Rightarrow>
             let (totp_seed, db) = next_sequence ''auth_seed'' db;
                 secret = generate_secret (ae_crypto E) totp_seed;
                 code = current_code (ae_crypto E) (ae_unix_time E) secret
             in if \<not> au_email_verified user then (Inl (auth_err UNAUTHORIZED ''email not verified''), db)
                else
                  let (_, db) = set_auth_totp_secret_with_audit (ae_lower E) email (Some secret) False
                    (security_audit E email ''security.totp_enabled'' [(''totp_enabled'', AuditBool True)]) db
                  in (Inr \<lparr>tr_secret = secret, tr_code = code\<rparr>, db))"

definition disable_totp ::
  "auth_env \<Rightarrow> AuthConfig \<Rightarrow> string \<Rightarrow> string \<Rightarrow> identity_db \<Rightarrow> bool auth_result \<times> identity_db" where
  "disable_totp E config request_email session_email db =
     (let email = normalize_email (ae_lower E) request_email
      in if normalize_email (ae_lower E) session_email \<noteq> email
         then (Inl (auth_err FORBIDDEN ''session does not match user''), db)
         else case find_auth_user (ae_lower E) db email of
           None \<Rightarrow> (Inl (auth_err NOT_FOUND ''user not found''), db)
         | Some user \<Rightarrow>
             if resolved_admin_role E config email \<noteq> None
             then (Inl (auth_err FORBIDDEN ''configured admin accounts cannot disable totp via the shared security flow''), db)
             else if au_totp_secret user = None then (Inl (auth_err BAD_REQUEST ''totp is not enabled''), db)
             else
               (Inr True,
                snd (set_auth_totp_secret_with_audit (ae_lower E) email None True
                  (security_audit E email ''security.totp_disabled'' [(''totp_enabled'', AuditBool False)]) db)))"

subsection \<open>Sessions and profiles\<close>

definition profile :: "auth_env \<Rightarrow> AuthConfig \<Rightarrow> identity_db \<Rightarrow> string \<Rightarrow> bool \<Rightarrow> ProfileResponse auth_result" where
  "profile E config db session_email admin_access_granted =
     (let email = normalize_email (ae_lower E) session_email
      in case find_auth_user (ae_lower E) db email of
           None \<Rightarrow> Inl (auth_err NOT_FOUND ''user not found'')
         | Some user \<Rightarrow>
             let resolved_role = resolved_admin_role E config email;
                 admin_role = (if admin_access_granted then resolved_role else None)
             in Inr \<lparr>pf_email = au_email user, pf_email_verified = au_email_verified user,
                     pf_totp_enabled = (au_totp_secret user \<noteq> None),
                     pf_admin_totp_required = (resolved_role \<noteq> None),
                     pf_admin_access_granted = admin_access_granted, pf_admin_role = admin_role,
                     pf_admin_permissions = map_option for_role admin_role\<rparr>)"

definition session_claims :: "auth_env \<Rightarrow> AuthConfig \<Rightarrow> identity_db \<Rightarrow> string \<Rightarrow> SessionClaims auth_result" where
  "session_claims E config db session_token =
     (let refused = auth_err UNAUTHORIZED ''valid session token required''
      in case verify_session_token (ae_crypto E) (session_token_secret config) session_token of
           Inl _ \<Rightarrow> Inl refused
         | Inr claims \<Rightarrow>
             let email = normalize_email (ae_lower E) (cl_email claims)
             in if email = [] then Inl refused
                else case find_auth_session_email db session_token of
                  None \<Rightarrow> Inl refused
                | Some session_email \<Rightarrow>
                    if session_email \<noteq> email then Inl refused
                    else
                      let totp_enabled = (case find_auth_user (ae_lower E) db email of
                            Some user \<Rightarrow> au_totp_secret user \<noteq> None | None \<Rightarrow> False)
                      in Inr \<lparr>cl_email = email,
                              cl_is_admin = (cl_is_admin claims \<and> resolved_admin_role E config email \<noteq> None \<and> totp_enabled),
                              cl_sid = cl_sid claims\<rparr>)"

definition str_strip_prefix :: "string \<Rightarrow> string \<Rightarrow> string option" where
  "str_strip_prefix p s = (if take (length p) s = p then Some (drop (length p) s) else None)"

text \<open>\<open>authorization\<close> is the text of the header, if there is one and it is visible ASCII.\<close>

definition bearer_token :: "string option \<Rightarrow> string option" where
  "bearer_token authorization = Option.bind authorization (str_strip_prefix ''Bearer '')"

definition require_user_session ::
  "auth_env \<Rightarrow> AuthConfig \<Rightarrow> identity_db \<Rightarrow> string option \<Rightarrow> AuthenticatedSession auth_result" where
  "require_user_session E config db authorization =
     (case bearer_token authorization of
        None \<Rightarrow> Inl (auth_err UNAUTHORIZED ''valid session token required'')
      | Some session_token \<Rightarrow>
          (case session_claims E config db session_token of
             Inl e \<Rightarrow> Inl e
           | Inr claims \<Rightarrow>
               let admin_role = (if cl_is_admin claims then resolved_admin_role E config (cl_email claims) else None)
               in Inr \<lparr>as_email = cl_email claims, as_is_admin = (admin_role \<noteq> None),
                       as_admin_role = admin_role, as_sid = cl_sid claims\<rparr>))"

definition require_admin_session ::
  "auth_env \<Rightarrow> AuthConfig \<Rightarrow> identity_db \<Rightarrow> string option \<Rightarrow> AuthenticatedSession auth_result" where
  "require_admin_session E config db authorization =
     (case require_user_session E config db authorization of
        Inl e \<Rightarrow> Inl e
      | Inr session \<Rightarrow>
          if \<not> as_is_admin session then Inl (auth_err FORBIDDEN ''admin access required'') else Inr session)"

definition require_super_admin_session ::
  "auth_env \<Rightarrow> AuthConfig \<Rightarrow> identity_db \<Rightarrow> string option \<Rightarrow> AuthenticatedSession auth_result" where
  "require_super_admin_session E config db authorization =
     (case require_admin_session E config db authorization of
        Inl e \<Rightarrow> Inl e
      | Inr session \<Rightarrow>
          if as_admin_role session \<noteq> Some SuperAdmin
          then Inl (auth_err FORBIDDEN ''super admin access required'') else Inr session)"

definition require_session_email :: "auth_env \<Rightarrow> AuthenticatedSession \<Rightarrow> string \<Rightarrow> unit auth_result" where
  "require_session_email E session email =
     (if as_email session \<noteq> ae_lower E (str_trim email)
      then Inl (auth_err FORBIDDEN ''session does not match user'') else Inr ())"

subsection \<open>Routes behind a session\<close>

definition route_enable_totp ::
  "auth_env \<Rightarrow> AuthConfig \<Rightarrow> string option \<Rightarrow> string \<Rightarrow> identity_db \<Rightarrow> TotpResponse auth_result \<times> identity_db" where
  "route_enable_totp E config authorization request_email db =
     (case require_user_session E config db authorization of
        Inl e \<Rightarrow> (Inl e, db)
      | Inr session \<Rightarrow>
          (case require_session_email E session request_email of
             Inl e \<Rightarrow> (Inl e, db)
           | Inr _ \<Rightarrow> enable_totp E request_email (as_email session) db))"

definition route_disable_totp ::
  "auth_env \<Rightarrow> AuthConfig \<Rightarrow> string option \<Rightarrow> string \<Rightarrow> identity_db \<Rightarrow> bool auth_result \<times> identity_db" where
  "route_disable_totp E config authorization request_email db =
     (case require_user_session E config db authorization of
        Inl e \<Rightarrow> (Inl e, db)
      | Inr session \<Rightarrow>
          (case require_session_email E session request_email of
             Inl e \<Rightarrow> (Inl e, db)
           | Inr _ \<Rightarrow> disable_totp E config request_email (as_email session) db))"

definition read_profile ::
  "auth_env \<Rightarrow> AuthConfig \<Rightarrow> string option \<Rightarrow> identity_db \<Rightarrow> ProfileResponse auth_result" where
  "read_profile E config authorization db =
     (case require_user_session E config db authorization of
        Inl e \<Rightarrow> Inl e
      | Inr session \<Rightarrow> profile E config db (as_email session) (as_is_admin session))"

definition route_change_password ::
  "auth_env \<Rightarrow> AuthConfig \<Rightarrow> string option \<Rightarrow> string \<Rightarrow> string \<Rightarrow> identity_db \<Rightarrow> bool auth_result \<times> identity_db" where
  "route_change_password E config authorization current_password new_password db =
     (case require_user_session E config db authorization of
        Inl e \<Rightarrow> (Inl e, db)
      | Inr session \<Rightarrow> change_password E (as_email session) current_password new_password db)"

subsection \<open>Configuration from the process environment\<close>

definition optional_env :: "(string \<rightharpoonup> string) \<Rightarrow> string \<Rightarrow> string option" where
  "optional_env vars name =
     (case vars name of None \<Rightarrow> None | Some value \<Rightarrow> if str_trim value = [] then None else Some (str_trim value))"

definition missing_env :: "string \<Rightarrow> string" where
  "missing_env name = name @ '' must be set for persistent runtime auth''"

definition required_env :: "(string \<rightharpoonup> string) \<Rightarrow> string \<Rightarrow> string result" where
  "required_env vars name = (case optional_env vars name of Some v \<Rightarrow> Inr v | None \<Rightarrow> Inl (missing_env name))"

text \<open>The loops over a comma-separated list of emails.\<close>

definition insert_roles ::
  "(string \<Rightarrow> string) \<Rightarrow> AdminRole \<Rightarrow> string \<Rightarrow> (string \<rightharpoonup> AdminRole) \<Rightarrow> (string \<rightharpoonup> AdminRole)" where
  "insert_roles lower role emails roles =
     foldl (\<lambda>roles email. roles(email \<mapsto> role)) roles
       (filter (\<lambda>email. email \<noteq> []) (map (normalize_email lower) (str_split CHR '','' emails)))"

definition env_or_empty :: "(string \<rightharpoonup> string) \<Rightarrow> string \<Rightarrow> string" where
  "env_or_empty vars name = (case vars name of Some v \<Rightarrow> v | None \<Rightarrow> [])"

definition load_admin_roles :: "(string \<Rightarrow> string) \<Rightarrow> (string \<rightharpoonup> string) \<Rightarrow> (string \<rightharpoonup> AdminRole)" where
  "load_admin_roles lower vars =
     (let roles = foldl (\<lambda>roles email. roles(email \<mapsto> OperatorAdmin)) Map.empty
                    (map (normalize_email lower) DEFAULT_OPERATOR_ADMIN_EMAILS);
          roles = foldl (\<lambda>roles email. roles(email \<mapsto> SuperAdmin)) roles
                    (map (normalize_email lower) DEFAULT_SUPER_ADMIN_EMAILS);
          roles = insert_roles lower OperatorAdmin (env_or_empty vars ''ADMIN_EMAILS'') roles
      in insert_roles lower SuperAdmin (env_or_empty vars ''SUPER_ADMIN_EMAILS'') roles)"

text \<open>\<open>roles.is_empty()\<close> is decided by whether any email was inserted.\<close>

definition load_admin_roles_strict ::
  "(string \<Rightarrow> string) \<Rightarrow> (string \<rightharpoonup> string) \<Rightarrow> (string \<rightharpoonup> AdminRole) result" where
  "load_admin_roles_strict lower vars =
     bind_res (required_env vars ''ADMIN_EMAILS'')
       (\<lambda>admin_emails.
          let emails = (\<lambda>s. filter (\<lambda>email. email \<noteq> []) (map (normalize_email lower) (str_split CHR '','' s)));
              roles = insert_roles lower SuperAdmin (env_or_empty vars ''SUPER_ADMIN_EMAILS'')
                        (insert_roles lower OperatorAdmin admin_emails Map.empty)
          in if emails admin_emails = [] \<and> emails (env_or_empty vars ''SUPER_ADMIN_EMAILS'') = []
             then Inl (missing_env ''ADMIN_EMAILS'') else Inr roles)"

definition parse_port :: "string \<Rightarrow> nat result" where
  "parse_port value =
     (case parse_usize value of
        Some n \<Rightarrow> if n < 65536 then Inr n else Inl ''AUTH_EMAIL_SMTP_PORT must be a valid u16 port number''
      | None \<Rightarrow> Inl ''AUTH_EMAIL_SMTP_PORT must be a valid u16 port number'')"

definition load_smtp_delivery :: "(string \<rightharpoonup> string) \<Rightarrow> AuthEmailDelivery result" where
  "load_smtp_delivery vars =
     bind_res (required_env vars ''AUTH_EMAIL_FROM'')
       (\<lambda>from.
          let auth_password = optional_env vars ''AUTH_EMAIL_PASSWORD'';
              auth_username = (case optional_env vars ''AUTH_EMAIL_SMTP_USERNAME'' of
                                 Some u \<Rightarrow> Some u | None \<Rightarrow> map_option (\<lambda>_. from) auth_password)
          in bind_res (required_env vars ''AUTH_EMAIL_SMTP_HOST'')
               (\<lambda>host. bind_res (case optional_env vars ''AUTH_EMAIL_SMTP_PORT'' of
                                   None \<Rightarrow> Inr 25 | Some value \<Rightarrow> parse_port value)
                  (\<lambda>port. Inr (SmtpEmail
                     \<lparr>smtp_host = host, smtp_port = port,
                      smtp_helo_name = (case optional_env vars ''AUTH_EMAIL_SMTP_HELO_NAME'' of
                                          Some h \<Rightarrow> h | None \<Rightarrow> ''localhost''),
                      smtp_from = from, smtp_auth_username = auth_username,
                      smtp_auth_password = auth_password\<rparr>))))"

definition load_auth_email_delivery :: "(string \<rightharpoonup> string) \<Rightarrow> bool \<Rightarrow> AuthEmailDelivery result" where
  "load_auth_email_delivery vars strict_runtime =
     (case optional_env vars ''AUTH_EMAIL_DELIVERY'' of
        None \<Rightarrow> if strict_runtime then Inl (missing_env ''AUTH_EMAIL_DELIVERY'') else Inr CaptureEmail
      | Some mode \<Rightarrow>
          if mode = ''capture'' \<and> \<not> strict_runtime then Inr CaptureEmail
          else if mode = ''capture''
          then Inl ''AUTH_EMAIL_DELIVERY must be smtp or http for persistent runtime auth''
          else if mode = ''http''
          then bind_res (required_env vars ''AUTH_EMAIL_HTTP_URL'')
                 (\<lambda>url. bind_res (required_env vars ''AUTH_EMAIL_FROM'')
                    (\<lambda>from. Inr (HttpEmail
                       \<lparr>http_url = url, http_bearer_token = optional_env vars ''AUTH_EMAIL_HTTP_BEARER_TOKEN'',
                        http_from = from\<rparr>)))
          else if mode = ''smtp'' then load_smtp_delivery vars
          else Inl ''AUTH_EMAIL_DELIVERY must be one of: capture, smtp, http'')"

definition secret_or_default :: "(string \<rightharpoonup> string) \<Rightarrow> string" where
  "secret_or_default vars =
     (case optional_env vars ''SESSION_TOKEN_SECRET'' of Some s \<Rightarrow> s | None \<Rightarrow> DEFAULT_SESSION_TOKEN_SECRET)"

definition config_capture :: "(string \<Rightarrow> string) \<Rightarrow> (string \<rightharpoonup> string) \<Rightarrow> AuthConfig" where
  "config_capture lower vars =
     \<lparr>admin_roles = load_admin_roles lower vars, session_token_secret = secret_or_default vars,
      email_delivery = CaptureEmail\<rparr>"

text \<open>\<open>None\<close> is the panic on an invalid email delivery.\<close>

definition config_from_env :: "(string \<Rightarrow> string) \<Rightarrow> (string \<rightharpoonup> string) \<Rightarrow> AuthConfig option" where
  "config_from_env lower vars =
     (case load_auth_email_delivery vars False of
        Inl _ \<Rightarrow> None
      | Inr delivery \<Rightarrow>
          Some \<lparr>admin_roles = load_admin_roles lower vars, session_token_secret = secret_or_default vars,
                email_delivery = delivery\<rparr>)"

definition config_from_env_strict :: "(string \<Rightarrow> string) \<Rightarrow> (string \<rightharpoonup> string) \<Rightarrow> AuthConfig result" where
  "config_from_env_strict lower vars =
     bind_res (load_admin_roles_strict lower vars)
       (\<lambda>roles. bind_res (required_env vars ''SESSION_TOKEN_SECRET'')
          (\<lambda>secret. bind_res (load_auth_email_delivery vars True)
             (\<lambda>delivery. Inr \<lparr>admin_roles = roles, session_token_secret = secret, email_delivery = delivery\<rparr>)))"

end
