(* ===== verification/Base32.thy ===== *)
theory Base32
  imports Auth
begin

text \<open>
  Base32 on bit lists. Both loops of \<^verbatim>\<open>totp.rs\<close> keep pending bits in the low end of a machine word; the
  lemmas here replace the word by the list of those bits, on which encoding and decoding are the
  grouping of one bit list into fives and eights.
\<close>

subsection \<open>Bits of a number\<close>

fun bits_of :: "nat \<Rightarrow> nat \<Rightarrow> bool list" where
  "bits_of 0 n = []"
| "bits_of (Suc k) n = bits_of k (n div 2) @ [odd n]"

definition val :: "bool list \<Rightarrow> nat" where
  "val bs = foldl (\<lambda>a b. 2 * a + of_bool b) 0 bs"

lemma val_simps [simp]: "val [] = 0" "val (bs @ [b]) = 2 * val bs + of_bool b"
  by (simp_all add: val_def)

lemma length_bits_of [simp]: "length (bits_of k n) = k"
  by (induction k arbitrary: n) simp_all

lemma val_append: "val (xs @ ys) = val xs * 2 ^ length ys + val ys"
  by (induction ys rule: rev_induct) (simp_all flip: append_assoc add: algebra_simps)

lemma val_less: "val bs < 2 ^ length bs"
  by (induction bs rule: rev_induct) (auto simp: of_bool_def)

lemma val_bits_of: "val (bits_of k n) = n mod 2 ^ k"
proof (induction k arbitrary: n)
  case (Suc k)
  have "n mod 2 ^ Suc k = 2 * (n div 2 mod 2 ^ k) + n mod 2"
    by (simp add: mod_mult2_eq [of n 2 "2 ^ k"])
  then show ?case by (simp add: Suc mod_2_eq_odd)
qed simp

lemma bits_of_val: "bits_of (length bs) (val bs) = bs"
  by (induction bs rule: rev_induct) auto

lemma val_take: "k \<le> length bs \<Longrightarrow> val (take k bs) = val bs div 2 ^ (length bs - k)"
  using val_append [of "take k bs" "drop k bs"] val_less [of "drop k bs"]
  by (simp add: min_def)

lemma val_drop: "k \<le> length bs \<Longrightarrow> val (drop k bs) = val bs mod 2 ^ (length bs - k)"
  using val_append [of "take k bs" "drop k bs"] val_less [of "drop k bs"]
  by (simp add: min_def)

subsection \<open>Pending bits of a word\<close>

definition pending :: "'a :: len word \<Rightarrow> nat \<Rightarrow> bool list \<Rightarrow> bool" where
  "pending buffer n bs \<longleftrightarrow> length bs = n \<and> unat buffer mod 2 ^ n = val bs"

lemma or_shifted:
  fixes a b :: "'a :: len word"
  assumes "take_bit k b = b"
  shows "push_bit k a OR b = push_bit k a + b"
proof -
  have low: "n < k" if "bit b n" for n
    using that bit_take_bit_iff [of k b n] by (simp only: assms) simp
  have "push_bit k a AND b = 0"
  proof (rule bit_eqI)
    fix n
    show "bit (push_bit k a AND b) n \<longleftrightarrow> bit (0 :: 'a word) n"
      using low [of n] by (auto simp: bit_and_iff bit_push_bit_iff)
  qed
  then show ?thesis by (rule disjunctive_add_eq_or [symmetric])
qed

lemma unat_push_bit: "unat (push_bit k (a :: 'a :: len word)) = unat a * 2 ^ k mod 2 ^ LENGTH('a)"
  by (simp only: unsigned_push_bit_eq) (simp add: push_bit_eq_mult take_bit_eq_mod)

lemma pending_push:
  fixes buffer b :: "'a :: len word"
  assumes p: "pending buffer n bs" and b: "take_bit k b = b" and fits: "n + k \<le> LENGTH('a)"
  shows "pending (push_bit k buffer OR b) (n + k) (bs @ bits_of k (unat b))"
proof -
  have bk: "unat b < 2 ^ k"
    using unsigned_take_bit_eq [of k b, where 'a = nat] b take_bit_nat_less_exp [of k "unat b"] by simp
  have dvd: "(2 :: nat) ^ (n + k) dvd 2 ^ LENGTH('a)" using fits by (rule le_imp_power_dvd)
  have "unat (push_bit k buffer OR b) mod 2 ^ (n + k) = (unat buffer * 2 ^ k + unat b) mod 2 ^ (n + k)"
    unfolding or_shifted [OF b] unat_word_ariths(1) unat_push_bit
    by (simp add: mod_mod_cancel [OF dvd] mod_add_left_eq)
  also have "\<dots> = (unat buffer mod 2 ^ n) * 2 ^ k + unat b"
  proof -
    have "(unat buffer * 2 ^ k + unat b) mod (2 ^ k * 2 ^ n) = 2 ^ k * ((unat buffer * 2 ^ k + unat b) div 2 ^ k mod 2 ^ n) + (unat buffer * 2 ^ k + unat b) mod 2 ^ k"
      by (rule mod_mult2_eq)
    then show ?thesis using bk by (simp add: power_add mult.commute)
  qed
  finally show ?thesis
    using p bk by (simp add: pending_def val_append val_bits_of)
qed

lemma pending_shift:
  assumes "pending buffer n bs" and "k \<le> n" and "m = n - k"
  shows "(unat buffer div 2 ^ m) mod 2 ^ k = val (take k bs)" and "pending buffer m (drop k bs)"
proof -
  have len: "length bs = n" and v: "unat buffer mod 2 ^ n = val bs"
    using assms(1) by (simp_all add: pending_def)
  have n: "n = m + k" using assms(2,3) by simp
  have "unat buffer mod (2 ^ m * 2 ^ k) = 2 ^ m * (unat buffer div 2 ^ m mod 2 ^ k) + unat buffer mod 2 ^ m"
    by (rule mod_mult2_eq)
  then have split: "val bs = 2 ^ m * (unat buffer div 2 ^ m mod 2 ^ k) + unat buffer mod 2 ^ m"
    using v by (simp add: n power_add)
  have "val bs div 2 ^ m = unat buffer div 2 ^ m mod 2 ^ k" unfolding split by simp
  then show "(unat buffer div 2 ^ m) mod 2 ^ k = val (take k bs)"
    using val_take [of k bs] assms(2) len n by simp
  have "val bs mod 2 ^ m = unat buffer mod 2 ^ m" unfolding split by simp
  then show "pending buffer m (drop k bs)"
    using val_drop [of k bs] assms(2) len n by (simp add: pending_def)
qed


subsection \<open>Groups of bits\<close>

function groups_of :: "nat \<Rightarrow> bool list \<Rightarrow> nat list" where
  "groups_of k bs = (if k = 0 \<or> length bs < k then [] else val (take k bs) # groups_of k (drop k bs))"
  by pat_completeness auto
termination by (relation "measure (\<lambda>(_, bs). length bs)") auto

declare groups_of.simps [simp del]

definition left_over :: "nat \<Rightarrow> bool list \<Rightarrow> bool list" where
  "left_over k bs = drop (k * (length bs div k)) bs"

lemma left_over_short [simp]: "length bs < k \<Longrightarrow> left_over k bs = bs"
  by (simp add: left_over_def)

lemma left_over_long: "0 < k \<Longrightarrow> k \<le> length bs \<Longrightarrow> left_over k (drop k bs) = left_over k bs"
proof -
  assume k: "0 < k" "k \<le> length bs"
  then have "length bs div k = Suc ((length bs - k) div k)" by (simp add: le_div_geq)
  then show ?thesis by (simp add: left_over_def add.commute)
qed

lemma groups_of_append:
  "0 < k \<Longrightarrow> groups_of k (bs @ ys) = groups_of k bs @ groups_of k (left_over k bs @ ys)"
proof (induction k bs rule: groups_of.induct)
  case (1 k bs)
  show ?case
  proof (cases "length bs < k")
    case True
    then show ?thesis by (simp add: groups_of.simps [of k bs])
  next
    case False
    then show ?thesis
      using 1 by (simp add: groups_of.simps [of k bs] groups_of.simps [of k "bs @ ys"] left_over_long)
  qed
qed

lemma groups_of_bytes: "groups_of 8 (concat (map (bits_of 8) ns) @ replicate j False) = map (\<lambda>n. n mod 256) ns"
  if "j < 8" for ns
  using that by (induction ns) (simp_all add: groups_of.simps val_bits_of)

lemma concat_groups: "0 < k \<Longrightarrow> k dvd length bs \<Longrightarrow> concat (map (bits_of k) (groups_of k bs)) = bs"
proof (induction k bs rule: groups_of.induct)
  case (1 k bs)
  show ?case
  proof (cases "length bs < k")
    case True
    with 1 have "bs = []" by (auto dest: dvd_imp_le)
    then show ?thesis by (simp add: groups_of.simps)
  next
    case False
    then have "k dvd length (drop k bs)" using 1 by simp
    moreover have "bits_of k (val (take k bs)) = take k bs"
      using bits_of_val [of "take k bs"] False by simp
    ultimately show ?thesis using 1 False by (simp add: groups_of.simps [of k bs])
  qed
qed

lemma groups_of_bound: "v \<in> set (groups_of k bs) \<Longrightarrow> v < 2 ^ k"
proof (induction k bs rule: groups_of.induct)
  case (1 k bs)
  then show ?case
    using val_less [of "take k bs"] by (subst (asm) groups_of.simps) (auto split: if_splits)
qed

subsection \<open>The loops on groups\<close>

lemma of_nat_u8_le: "n < 256 \<Longrightarrow> (of_nat k :: u8) \<le> of_nat n \<longleftrightarrow> k \<le> n" if "k < 256"
  using that by (simp add: word_le_nat_alt unat_of_nat)

lemma unat_low_bits: "unat (drop_bit m w AND mask k) = unat w div 2 ^ m mod 2 ^ k"
  unfolding take_bit_eq_mask [symmetric] unsigned_take_bit_eq unat_drop_bit_eq
  by (simp only: take_bit_eq_mod drop_bit_eq_div)

lemma mask_5: "(0x1f :: u16) = mask 5" and mask_8: "(0xff :: u32) = mask 8"
  by (simp_all add: mask_eq_exp_minus_1)

lemma emit_digits_groups:
  assumes "pending buffer n bs" "n < 256"
  shows "emit_digits buffer (of_nat n) = (map (\<lambda>v. BASE32_ALPHABET ! v) (groups_of 5 bs), of_nat (n mod 5))
    \<and> pending buffer (n mod 5) (left_over 5 bs)"
  using assms
proof (induction n arbitrary: bs rule: less_induct)
  case (less n)
  have len: "length bs = n" using less.prems by (simp add: pending_def)
  show ?case
  proof (cases "5 \<le> n")
    case True
    have minus: "(of_nat n :: u8) - 5 = of_nat (n - 5)" using True by (simp add: of_nat_diff)
    have ge: "(5 :: u8) \<le> of_nat n" using of_nat_u8_le [of 5 n] True less.prems(2) by simp
    note shift = pending_shift [OF less.prems(1) True refl]
    have u: "unat (of_nat (n - 5) :: u8) = n - 5" using less.prems(2) by (simp add: unat_of_nat)
    have idx: "unat (drop_bit (n - 5) buffer AND 0x1f) = val (take 5 bs)"
      using shift(1) unfolding mask_5 by (simp only: unat_low_bits)
    have IH: "emit_digits buffer (of_nat (n - 5)) = (map (\<lambda>v. BASE32_ALPHABET ! v) (groups_of 5 (drop 5 bs)), of_nat ((n - 5) mod 5))
       \<and> pending buffer ((n - 5) mod 5) (left_over 5 (drop 5 bs))"
      using less.IH [OF _ shift(2)] True less.prems(2) by simp
    have "(n - 5) mod 5 = n mod 5" using True by (simp add: le_mod_geq)
    with IH show ?thesis
      using True len unfolding emit_digits.simps [of buffer "of_nat n"] minus u idx
      by (simp add: ge groups_of.simps [of 5 bs] left_over_long del: of_nat_diff)
  next
    case False
    have "\<not> (5 :: u8) \<le> of_nat n" using of_nat_u8_le [of 5 n] False by simp
    with False len less.prems(1) show ?thesis
      by (subst emit_digits.simps) (simp add: groups_of.simps [of 5 bs])
  qed
qed


lemma emit_bytes_groups:
  assumes "pending buffer n bs" "n < 256"
  shows "emit_bytes buffer (of_nat n) = (map of_nat (groups_of 8 bs), of_nat (n mod 8))
    \<and> pending buffer (n mod 8) (left_over 8 bs)"
  using assms
proof (induction n arbitrary: bs rule: less_induct)
  case (less n)
  have len: "length bs = n" using less.prems by (simp add: pending_def)
  show ?case
  proof (cases "8 \<le> n")
    case True
    have minus: "(of_nat n :: u8) - 8 = of_nat (n - 8)" using True by (simp add: of_nat_diff)
    have ge: "(8 :: u8) \<le> of_nat n" using of_nat_u8_le [of 8 n] True less.prems(2) by simp
    note shift = pending_shift [OF less.prems(1) True refl]
    have u: "unat (of_nat (n - 8) :: u8) = n - 8" using less.prems(2) by (simp add: unat_of_nat)
    have idx: "(ucast (drop_bit (n - 8) buffer AND 0xff) :: u8) = of_nat (val (take 8 bs))"
    proof -
      have "unat (drop_bit (n - 8) buffer AND mask 8) = val (take 8 bs)" using shift(1) by (simp only: unat_low_bits)
      from arg_cong [OF this, of "of_nat :: nat \<Rightarrow> u8"] show ?thesis by (simp only: mask_8 of_nat_unat)
    qed
    have IH: "emit_bytes buffer (of_nat (n - 8)) = (map of_nat (groups_of 8 (drop 8 bs)), of_nat ((n - 8) mod 8))
       \<and> pending buffer ((n - 8) mod 8) (left_over 8 (drop 8 bs))"
      using less.IH [OF _ shift(2)] True less.prems(2) by simp
    have "(n - 8) mod 8 = n mod 8" using True by (simp add: le_mod_geq)
    with IH show ?thesis
      using True len unfolding emit_bytes.simps [of buffer "of_nat n"] minus u idx
      by (simp add: ge groups_of.simps [of 8 bs] left_over_long del: of_nat_diff)
  next
    case False
    have "\<not> (8 :: u8) \<le> of_nat n" using of_nat_u8_le [of 8 n] False by simp
    with False len less.prems(1) show ?thesis
      by (subst emit_bytes.simps) (simp add: groups_of.simps [of 8 bs])
  qed
qed

subsection \<open>Encoding and decoding\<close>

definition byte_bits :: "u8 list \<Rightarrow> bool list" where
  "byte_bits bytes = concat (map (\<lambda>b. bits_of 8 (unat b)) bytes)"

definition padded :: "bool list \<Rightarrow> bool list" where
  "padded bs = bs @ replicate ((5 - length bs mod 5) mod 5) False"

lemma padding_mod: "(n + (5 - n mod 5) mod 5) mod 5 = (0 :: nat)"
proof -
  define m where "m = n mod 5"
  then have "m < 5" by simp
  then have m: "m \<in> {0, 1, 2, 3, 4}" by auto
  have "(n + (5 - n mod 5) mod 5) mod 5 = (m + (5 - m) mod 5) mod 5"
    unfolding m_def by (rule mod_add_left_eq [symmetric])
  with m show ?thesis by auto
qed

lemma padded_dvd: "5 dvd length (padded bs)"
  using padding_mod [of "length bs"] by (simp only: padded_def length_append length_replicate mod_eq_0_iff_dvd)

lemma length_left_over: "0 < k \<Longrightarrow> length (left_over k bs) = length bs mod k"
  by (simp add: left_over_def minus_mult_div_eq_mod)

lemma padded_groups: "groups_of 5 (padded (as @ ys)) = groups_of 5 as @ groups_of 5 (padded (left_over 5 as @ ys))"
proof -
  have "(length as + length ys) mod 5 = (length (left_over 5 as) + length ys) mod 5"
    by (simp add: length_left_over mod_add_left_eq)
  then show ?thesis by (simp add: padded_def groups_of_append [of 5 as])
qed

lemma val_zeros [simp]: "val (bs @ replicate j False) = val bs * 2 ^ j"
proof -
  have "val (replicate j False) = 0"
    by (induction j) (simp_all add: val_def)
  then show ?thesis by (simp add: val_append)
qed

lemma encode_last:
  assumes "pending buffer n bs" "n < 5"
  shows "encode_bytes [] buffer (of_nat n) = map (\<lambda>v. BASE32_ALPHABET ! v) (groups_of 5 (padded bs))"
proof (cases "n = 0")
  case True
  with assms show ?thesis by (simp add: pending_def padded_def groups_of.simps)
next
  case False
  have len: "length bs = n" using assms(1) by (simp add: pending_def)
  have minus: "unat ((5 :: u8) - of_nat n) = 5 - n"
  proof -
    have "(5 :: u8) - of_nat n = of_nat (5 - n)"
      using of_nat_diff [of n 5, where 'a = u8] assms(2) by simp
    then show ?thesis using assms(2) by (simp add: unat_of_nat del: of_nat_diff)
  qed
  have "unat (push_bit (5 - n) buffer AND mask 5) = unat (push_bit (5 - n) buffer) mod 2 ^ 5"
    using unat_low_bits [of 0 "push_bit (5 - n) buffer" 5] by (simp del: mask_numeral)
  also have "\<dots> = unat buffer * 2 ^ (5 - n) mod 2 ^ 5"
    unfolding unat_push_bit by (rule mod_mod_cancel) (simp add: le_imp_power_dvd)
  also have "\<dots> = (unat buffer mod 2 ^ n) * 2 ^ (5 - n)"
    using assms(2) mod_mult_mult2 [of "unat buffer" "2 ^ (5 - n)" "2 ^ n"] by (simp add: power_add [symmetric])
  also have "\<dots> = val bs * 2 ^ (5 - n)" using assms(1) by (simp add: pending_def)
  finally have idx: "unat (push_bit (5 - n) buffer AND 0x1f) = val bs * 2 ^ (5 - n)" by (simp only: mask_5)
  have pos: "(0 :: u8) < of_nat n"
    using False assms(2) by (simp add: word_less_nat_alt unat_of_nat)
  have "(5 - n mod 5) mod 5 = 5 - n" using False assms(2) by simp
  then have p: "padded bs = bs @ replicate (5 - n) False" by (simp add: padded_def len)
  then have "groups_of 5 (padded bs) = [val bs * 2 ^ (5 - n)]"
    using len assms(2) by (simp add: groups_of.simps)
  with pos minus idx show ?thesis by simp
qed

lemma encode_groups:
  assumes "pending buffer n bs" "n < 5"
  shows "encode_bytes bytes buffer (of_nat n) = map (\<lambda>v. BASE32_ALPHABET ! v) (groups_of 5 (padded (bs @ byte_bits bytes)))"
  using assms
proof (induction bytes arbitrary: buffer n bs)
  case Nil
  then show ?case using encode_last [of buffer n bs] by (simp add: byte_bits_def)
next
  case (Cons byte bytes)
  let ?buffer = "push_bit 8 buffer OR ucast byte"
  have low: "take_bit 8 (ucast byte :: u16) = ucast byte"
    by (rule bit_eqI) (auto simp: bit_simps dest: bit_imp_le_length)
  have "unat byte < 2 ^ 16" using unsigned_less [where 'a = nat and w = byte] by simp
  then have "unat (ucast byte :: u16) = unat byte" by (simp add: unsigned_ucast_eq take_bit_nat_eq_self)
  then have pend: "pending ?buffer (n + 8) (bs @ bits_of 8 (unat byte))"
    using pending_push [OF Cons.prems(1) low] Cons.prems(2) by simp
  have bits: "(of_nat n :: u8) + 8 = of_nat (n + 8)" by simp
  note emit = emit_digits_groups [OF pend] 
  have "encode_bytes bytes ?buffer (of_nat ((n + 8) mod 5)) =
      map (\<lambda>v. BASE32_ALPHABET ! v) (groups_of 5 (padded (left_over 5 (bs @ bits_of 8 (unat byte)) @ byte_bits bytes)))"
    using emit Cons.prems(2) by (intro Cons.IH) simp_all
  then have "encode_bytes (byte # bytes) buffer (of_nat n) =
      map (\<lambda>v. BASE32_ALPHABET ! v) (groups_of 5 (padded ((bs @ bits_of 8 (unat byte)) @ byte_bits bytes)))"
    using emit Cons.prems(2) padded_groups [of "bs @ bits_of 8 (unat byte)" "byte_bits bytes"]
    unfolding encode_bytes.simps Let_def bits by simp
  then show ?case by (simp add: byte_bits_def)
qed


lemma printable_no_ws: "50 \<le> a \<Longrightarrow> a \<le> 90 \<Longrightarrow> ws_prefix (a # cs) = 0"
  by (subst ws_prefix.simps) (simp split: list.splits)

text \<open>Every digit of the alphabet is read back as its index and is no white space.\<close>

lemma alphabet_value:
  assumes "d < 32"
  shows "base32_value (of_char (BASE32_ALPHABET ! d)) = Some (of_nat d)"
    and "ws_prefix (of_char (BASE32_ALPHABET ! d) # cs) = 0"
proof -
  have "list_all (\<lambda>d. base32_value (of_char (BASE32_ALPHABET ! d)) = Some (of_nat d)
          \<and> 50 \<le> (of_char (BASE32_ALPHABET ! d) :: nat) \<and> (of_char (BASE32_ALPHABET ! d) :: nat) \<le> 90) [0..<32]"
    by (simp add: BASE32_ALPHABET_def base32_value_def upt_conv_Cons)
  then have d: "base32_value (of_char (BASE32_ALPHABET ! d)) = Some (of_nat d)
      \<and> 50 \<le> (of_char (BASE32_ALPHABET ! d) :: nat) \<and> (of_char (BASE32_ALPHABET ! d) :: nat) \<le> 90"
    using assms unfolding list_all_iff by (elim bspec) simp
  show "base32_value (of_char (BASE32_ALPHABET ! d)) = Some (of_nat d)" using d by (rule conjunct1)
  show "ws_prefix (of_char (BASE32_ALPHABET ! d) # cs) = 0"
    using d by (intro printable_no_ws) blast+
qed

lemma decode_groups:
  assumes "pending buffer n bs" "n < 8" "list_all (\<lambda>d. d < 32) ds"
  shows "decode_chars (map (\<lambda>d. of_char (BASE32_ALPHABET ! d)) ds) buffer (of_nat n)
    = Some (map of_nat (groups_of 8 (bs @ concat (map (bits_of 5) ds))))"
  using assms
proof (induction ds arbitrary: buffer n bs)
  case Nil
  then show ?case by (simp add: decode_chars.simps groups_of.simps pending_def)
next
  case (Cons d ds)
  then have d: "d < 32" by simp
  let ?buffer = "push_bit 5 buffer OR ucast (of_nat d :: u8) :: u32"
  have ud: "unat (ucast (of_nat d :: u8) :: u32) = d"
    using d by (simp add: unsigned_ucast_eq unat_of_nat take_bit_nat_eq_self)
  have low: "take_bit 5 (ucast (of_nat d :: u8) :: u32) = ucast (of_nat d :: u8)"
    by (rule unsigned_word_eqI [where 'a = nat]) (use d in \<open>simp only: unsigned_take_bit_eq ud, simp add: take_bit_nat_eq_self\<close>)
  have pend: "pending ?buffer (n + 5) (bs @ bits_of 5 d)"
    using pending_push [OF Cons.prems(1) low] Cons.prems(2) ud by simp
  have bits: "(of_nat n :: u8) + 5 = of_nat (n + 5)" by simp
  note emit = emit_bytes_groups [OF pend]
  have "decode_chars (map (\<lambda>d. of_char (BASE32_ALPHABET ! d)) ds) ?buffer (of_nat ((n + 5) mod 8)) =
      Some (map of_nat (groups_of 8 (left_over 8 (bs @ bits_of 5 d) @ concat (map (bits_of 5) ds))))"
    using emit Cons.prems by (intro Cons.IH) simp_all
  moreover have "groups_of 8 (bs @ concat (map (bits_of 5) (d # ds))) = groups_of 8 (bs @ bits_of 5 d)
      @ groups_of 8 (left_over 8 (bs @ bits_of 5 d) @ concat (map (bits_of 5) ds))"
    using groups_of_append [of 8 "bs @ bits_of 5 d" "concat (map (bits_of 5) ds)"] by simp
  moreover have "emit_bytes ?buffer (of_nat n + 5) = (map of_nat (groups_of 8 (bs @ bits_of 5 d)), of_nat ((n + 5) mod 8))"
    using emit Cons.prems(2) unfolding bits by simp
  ultimately show ?case
    unfolding decode_chars.simps [of "map _ (d # ds)"] by (simp only: list.simps list.case alphabet_value [OF d] option.case Let_def prod.case) simp
qed

lemma base32_decode_encode: "decode_base32 (encode_base32 bytes) = Some bytes"
proof -
  have start: "pending (0 :: 'a :: len word) 0 []" by (simp add: pending_def)
  let ?ds = "groups_of 5 (padded (byte_bits bytes))"
  have enc: "encode_base32 bytes = map (\<lambda>v. BASE32_ALPHABET ! v) ?ds"
    using encode_groups [OF start, of bytes] by (simp add: encode_base32_def)
  have small: "list_all (\<lambda>d. d < 32) ?ds"
    using groups_of_bound [of _ 5] by (fastforce simp: list_all_iff)
  have "decode_base32 (encode_base32 bytes) = Some (map of_nat (groups_of 8 (concat (map (bits_of 5) ?ds))))"
    using decode_groups [OF start _ small] by (simp add: enc decode_base32_def comp_def)
  also have "concat (map (bits_of 5) ?ds) = padded (byte_bits bytes)"
    using concat_groups [OF _ padded_dvd] by simp
  also have "groups_of 8 (padded (byte_bits bytes)) = map (\<lambda>n. n mod 256) (map unat bytes)"
    using groups_of_bytes [of "(5 - length (byte_bits bytes) mod 5) mod 5" "map unat bytes"]
    by (simp add: padded_def byte_bits_def comp_def)
  also have "map of_nat (map (\<lambda>n. n mod 256) (map unat bytes)) = bytes"
  proof -
    have "of_nat (unat b mod 256) = b" for b :: u8
      using unsigned_less [where 'a = nat and w = b] by simp
    then show ?thesis by (simp add: comp_def)
  qed
  finally show ?thesis .
qed

text \<open>C34: Secrets survive their text form. Decoding the base32 text of any byte string gives the byte
  string back, although the encoder keeps only the 16 low bits of its buffer and the last digit is
  padded: the secret a one-time password is computed from is the one that was generated.\<close>

theorem base32_roundtrip: "decode_base32 (encode_base32 bytes) = Some bytes"
  by (rule base32_decode_encode)

end
