(* ===== verification/AuthProps.thy ===== *)
theory AuthProps
  imports AuthService Base32 BillingAmounts
begin

text \<open>
  What the authentication service guarantees: tokens and one-time passwords round-trip, a login is
  granted exactly on the credentials, a live session goes back to a granted login that no later
  password change has revoked, and sessions that such a change ended stay ended. The last part states what the service gives away: reset codes that
  can be computed and a default administrator that anyone may register.
\<close>

subsection \<open>The outside\<close>

text \<open>What the documentation of base64, serde and HMAC promises: decoding inverts encoding, the
  base64 alphabet has no dot, HMAC accepts keys and messages of every length, a password verifies
  against its own hash.\<close>

definition lawful_crypto :: "auth_crypto \<Rightarrow> bool" where
  "lawful_crypto C \<longleftrightarrow>
     (\<forall>s. b64_decode C (b64_encode C s) = Some s) \<and>
     (\<forall>s. CHR ''.'' \<notin> set (b64_encode C s)) \<and>
     (\<forall>c. \<exists>s. claims_json C c = Some s \<and> claims_of_json C s = Some c) \<and>
     (\<forall>k m. hmac_sha256 C k m \<noteq> None) \<and>
     (\<forall>k m. hmac_sha1 C k m \<noteq> None) \<and>
     (\<forall>n p. argon_verify C p (argon_hash C n p))"

definition account_key :: "auth_env \<Rightarrow> string \<Rightarrow> string" where
  "account_key E email = ae_lower E (normalize_email (ae_lower E) email)"

subsection \<open>Tokens\<close>

lemma str_split_not_Nil [simp]: "str_split c s \<noteq> []"
  by (induction s) (auto split: list.splits)

lemma str_split_last: "c \<notin> set s \<Longrightarrow> str_split c s = [s]"
  by (induction s) auto

lemma str_split_append: "c \<notin> set s \<Longrightarrow> str_split c (s @ c # t) = s # str_split c t"
  by (induction s) (auto split: list.splits)

lemma str_split_join: "str_split c s = [p] \<Longrightarrow> s = p \<and> c \<notin> set p"
proof (induction s arbitrary: p)
  case (Cons d s)
  then show ?case
    by (cases "str_split c s") (auto split: if_splits)
qed simp

lemma str_split_Cons: "str_split c s = p # ps \<Longrightarrow> ps \<noteq> [] \<Longrightarrow> \<exists>t. s = p @ c # t \<and> c \<notin> set p \<and> str_split c t = ps"
proof (induction s arbitrary: p)
  case (Cons d s)
  show ?case
  proof (cases "d = c")
    case True
    then show ?thesis using Cons.prems by auto
  next
    case False
    then obtain q where q: "str_split c s = q # ps" "p = d # q"
      using Cons.prems(1) by (cases "str_split c s") auto
    from Cons.IH [OF q(1) Cons.prems(2)] obtain t where "s = q @ c # t" "c \<notin> set q" "str_split c t = ps" by auto
    then show ?thesis using q(2) False by (intro exI [of _ t]) simp
  qed
qed simp

lemma token_issued: "lawful_crypto C \<Longrightarrow> \<exists>token. issue_session_token C secret claims = Inr token"
proof -
  assume C: "lawful_crypto C"
  obtain s where "claims_json C claims = Some s" using C unfolding lawful_crypto_def by blast
  moreover obtain mac where "hmac_sha256 C secret (''v1.'' @ b64_encode C s) = Some mac"
    using C unfolding lawful_crypto_def by blast
  ultimately show ?thesis by (simp add: issue_session_token_def sign_token_def)
qed

lemma token_accepted:
  assumes "lawful_crypto C" and "issue_session_token C secret claims = Inr token"
  shows "verify_session_token C secret token = Inr claims"
proof -
  obtain s where s: "claims_json C claims = Some s" "claims_of_json C s = Some claims"
    using assms(1) unfolding lawful_crypto_def by blast
  let ?v = "''v1.'' @ b64_encode C s"
  obtain sig where sig: "sign_token C secret ?v = Inr sig" and token: "token = ?v @ ''.'' @ sig"
    using assms(2) s(1) by (auto simp: issue_session_token_def Let_def split: sum.splits)
  obtain mac where mac: "sig = b64_encode C mac"
    using sig by (auto simp: sign_token_def split: option.splits)
  have dots: "CHR ''.'' \<notin> set (b64_encode C x)" for x using assms(1) unfolding lawful_crypto_def by blast
  have "str_split CHR ''.'' token = [''v1'', b64_encode C s, sig]"
    using str_split_append [of "CHR ''.''" "''v1''" "b64_encode C s @ ''.'' @ sig"]
      str_split_append [OF dots [of s], of sig] str_split_last [OF dots [of mac]]
    by (simp add: token mac)
  then show ?thesis
    using sig s(2) assms(1) by (simp add: verify_session_token_def lawful_crypto_def)
qed

text \<open>The token that is issued for some claims is accepted and gives back the claims, whatever they
  are.\<close>

theorem session_token_roundtrip:
  assumes "lawful_crypto C"
  shows "\<exists>token. issue_session_token C secret claims = Inr token \<and> verify_session_token C secret token = Inr claims"
  using token_issued [OF assms] token_accepted [OF assms] by blast

text \<open>An accepted token consists of the version, a payload and the signature of both.\<close>

lemma verified_token_is_signed:
  assumes "verify_session_token C secret token = Inr claims"
  shows "\<exists>payload sig. token = ''v1.'' @ payload @ ''.'' @ sig
    \<and> sign_token C secret (''v1.'' @ payload) = Inr sig
    \<and> Option.bind (b64_decode C payload) (claims_of_json C) = Some claims"
proof -
  obtain payload sig where parts: "str_split CHR ''.'' token = [''v1'', payload, sig]"
    and sign: "sign_token C secret (''v1.'' @ payload) = Inr sig"
    and claims: "Option.bind (b64_decode C payload) (claims_of_json C) = Some claims"
    using assms by (auto simp: verify_session_token_def split: list.splits if_splits sum.splits option.splits)
  from str_split_Cons [OF parts] obtain t where t: "token = ''v1'' @ CHR ''.'' # t" "str_split CHR ''.'' t = [payload, sig]" by auto
  from str_split_Cons [OF t(2)] obtain u where u: "t = payload @ CHR ''.'' # u" "str_split CHR ''.'' u = [sig]" by auto
  from str_split_join [OF u(2)] show ?thesis using t(1) u(1) sign claims by auto
qed

subsection \<open>One-time passwords\<close>

text \<open>The code a response shows for a new secret is accepted during the same interval: the secret is
  decoded from the very text it was encoded to.\<close>

lemma generated_secret_verifies:
  assumes "lawful_crypto C"
  shows "verify_code C t (generate_secret C seed) (current_code C t (generate_secret C seed))"
proof -
  obtain d where "hmac_sha1 C (take 20 (sha256 C (to_be_bytes seed))) (to_be_bytes (t div 30)) = Some d"
    using assms unfolding lawful_crypto_def by blast
  then have "current_code_at C (generate_secret C seed) t = Some (current_code C t (generate_secret C seed))"
    by (simp add: current_code_def current_code_at_def generate_secret_def base32_decode_encode)
  then show ?thesis by (simp add: verify_code_def)
qed

subsection \<open>Login\<close>

definition credentials_ok ::
  "auth_env \<Rightarrow> AuthConfig \<Rightarrow> string \<Rightarrow> string \<Rightarrow> string option \<Rightarrow> identity_db \<Rightarrow> bool" where
  "credentials_ok E config email password totp_code db \<longleftrightarrow>
     (\<exists>user. auth_users db (account_key E email) = Some user \<and> au_email_verified user
        \<and> verify_password E password (au_password_hash user)
        \<and> (resolved_admin_role E config (normalize_email (ae_lower E) email) \<noteq> None \<longrightarrow> au_totp_secret user \<noteq> None)
        \<and> (\<forall>secret. au_totp_secret user = Some secret \<longrightarrow>
              (\<exists>code. totp_code = Some code \<and> verify_code (ae_crypto E) (ae_unix_time E) secret code)))"

lemma login_checks_ok:
  "(\<exists>r. login_checks E config (normalize_email (ae_lower E) email) password totp_code db = Inr r)
    \<longleftrightarrow> credentials_ok E config email password totp_code db"
  by (auto simp: login_checks_def credentials_ok_def find_auth_user_def account_key_def Let_def
      split: option.splits if_splits)

lemma login_checks_Inr:
  assumes "login_checks E config email password totp_code db = Inr (role, totp)"
  shows "role = resolved_admin_role E config email" and "auth_users db (ae_lower E email) \<noteq> None"
    and "role \<noteq> None \<Longrightarrow> totp"
  using assms by (auto simp: login_checks_def find_auth_user_def Let_def split: option.splits if_splits)

lemma upsert_admin_simps [simp]:
  "auth_users (upsert_admin_user l n e r b db) = auth_users db"
  "auth_sessions (upsert_admin_user l n e r b db) = auth_sessions db"
  "sequences (upsert_admin_user l n e r b db) = sequences db"
  by (simp_all add: upsert_admin_user_def)

text \<open>What a granted login leaves behind.\<close>

lemma login_granted:
  assumes "login E config email password totp_code db = (Inr token, db')"
  shows "auth_sessions db' = (auth_sessions db)(token \<mapsto> account_key E email)"
    and "auth_users db' = auth_users db"
    and "\<exists>sid. sequences db' ''auth_seed'' = Some sid \<and>
      issue_session_token (ae_crypto E) (session_token_secret config)
        \<lparr>cl_email = normalize_email (ae_lower E) email,
         cl_is_admin = (resolved_admin_role E config (normalize_email (ae_lower E) email) \<noteq> None), cl_sid = sid\<rparr> = Inr token"
    and "credentials_ok E config email password totp_code db"
proof -
  let ?email = "normalize_email (ae_lower E) email"
  obtain role totp where checks: "login_checks E config ?email password totp_code db = Inr (role, totp)"
    using assms by (auto simp: login_def Let_def split: sum.splits)
  note r = login_checks_Inr [OF checks]
  let ?db = "case role of Some role \<Rightarrow> upsert_admin_user (ae_lower E) (ae_now E) ?email (role_str role) True db | None \<Rightarrow> db"
  have users: "auth_users ?db = auth_users db" and sessions: "auth_sessions ?db = auth_sessions db"
    by (simp_all split: option.splits)
  have admin: "(role \<noteq> None \<and> totp) = (resolved_admin_role E config ?email \<noteq> None)"
    using r by auto
  from assms r(2) users sessions admin
  show "auth_sessions db' = (auth_sessions db)(token \<mapsto> account_key E email)"
    "auth_users db' = auth_users db"
    "\<exists>sid. sequences db' ''auth_seed'' = Some sid \<and>
      issue_session_token (ae_crypto E) (session_token_secret config)
        \<lparr>cl_email = ?email, cl_is_admin = (resolved_admin_role E config ?email \<noteq> None), cl_sid = sid\<rparr> = Inr token"
    by (auto simp: login_def checks Let_def insert_auth_session_def account_key_def split_beta
        split: sum.splits if_splits)
  show "credentials_ok E config email password totp_code db"
    using checks login_checks_ok by blast
qed

lemma login_refused:
  assumes "login E config email password totp_code db = (Inl e, db')"
  shows "auth_sessions db' = auth_sessions db" "auth_users db' = auth_users db"
  using assms by (auto simp: login_def Let_def insert_auth_session_def split_beta
      split: sum.splits if_splits option.splits prod.splits)

lemma login_granted_iff:
  assumes "lawful_crypto (ae_crypto E)"
  shows "(\<exists>token. fst (login E config email password totp_code db) = Inr token)
      \<longleftrightarrow> credentials_ok E config email password totp_code db"
proof
  assume "\<exists>token. fst (login E config email password totp_code db) = Inr token"
  then show "credentials_ok E config email password totp_code db"
    using login_granted(4) by (metis prod.collapse)
next
  assume "credentials_ok E config email password totp_code db"
  then obtain role totp where checks:
    "login_checks E config (normalize_email (ae_lower E) email) password totp_code db = Inr (role, totp)"
    using login_checks_ok by fastforce
  note r = login_checks_Inr [OF checks]
  show "\<exists>token. fst (login E config email password totp_code db) = Inr token"
    using r(2) token_issued [OF assms, of "session_token_secret config"]
    by (auto simp: login_def checks Let_def insert_auth_session_def split_beta
        split: sum.splits option.splits) (metis Inr_not_Inl)+
qed


text \<open>C33: A login is granted exactly when the account exists and is verified, the password matches, a
  configured administrator has a one-time password set, and a code that is valid now is given whenever one
  is set. Every other request leaves users and sessions as they are.\<close>

theorem login_iff:
  assumes "lawful_crypto (ae_crypto E)"
  shows "(case login E config email password totp_code db of
      (Inr token, db') \<Rightarrow> credentials_ok E config email password totp_code db
        \<and> auth_sessions db' = (auth_sessions db)(token \<mapsto> account_key E email) \<and> auth_users db' = auth_users db
    | (Inl e, db') \<Rightarrow> \<not> credentials_ok E config email password totp_code db
        \<and> auth_sessions db' = auth_sessions db \<and> auth_users db' = auth_users db)"
proof (cases "login E config email password totp_code db")
  case (Pair r db')
  show ?thesis
  proof (cases r)
    case (Inl e)
    then show ?thesis using Pair login_refused [of E config email password totp_code db e db'] login_granted_iff [OF assms, of config email password totp_code db]
      by simp
  next
    case (Inr token)
    then show ?thesis using Pair login_granted [of E config email password totp_code db token db'] by simp
  qed
qed

subsection \<open>Runs of requests\<close>

text \<open>The requests of the authentication routes, each answered in its own environment (clock, salt,
  delivery).\<close>

datatype auth_request =
  Register string string
| VerifyEmail string string
| Login string string "string option"
| RequestReset string
| ConfirmReset string string string
| Bootstrap string string
| ChangePassword "string option" string string
| EnableTotp "string option" string
| DisableTotp "string option" string

fun handle :: "AuthConfig \<Rightarrow> auth_env \<times> auth_request \<Rightarrow> identity_db \<Rightarrow> identity_db" where
  "handle config (E, Register email password) db = snd (register E config email password db)"
| "handle config (E, VerifyEmail email code) db = snd (verify_email E config email code db)"
| "handle config (E, Login email password totp) db = snd (login E config email password totp db)"
| "handle config (E, RequestReset email) db = snd (request_password_reset E config email db)"
| "handle config (E, ConfirmReset email code password) db = snd (confirm_password_reset E email code password db)"
| "handle config (E, Bootstrap email password) db = snd (bootstrap_admin_totp E config email password db)"
| "handle config (E, ChangePassword auth old new) db = snd (route_change_password E config auth old new db)"
| "handle config (E, EnableTotp auth email) db = snd (route_enable_totp E config auth email db)"
| "handle config (E, DisableTotp auth email) db = snd (route_disable_totp E config auth email db)"

definition run :: "AuthConfig \<Rightarrow> (auth_env \<times> auth_request) list \<Rightarrow> identity_db \<Rightarrow> identity_db" where
  "run config requests db = fold (handle config) requests db"

text \<open>The accounts whose credentials a request replaced, by their keys: successful resets, password
  changes and removals of a one-time password.\<close>

definition succeeded :: "'a auth_result \<times> identity_db \<Rightarrow> bool" where
  "succeeded r = (case fst r of Inl _ \<Rightarrow> False | Inr _ \<Rightarrow> True)"

definition session_key :: "AuthConfig \<Rightarrow> auth_env \<Rightarrow> string option \<Rightarrow> identity_db \<Rightarrow> string option" where
  "session_key config E auth db =
     (case require_user_session E config db auth of
        Inl _ \<Rightarrow> None | Inr session \<Rightarrow> Some (account_key E (as_email session)))"

fun replaced :: "AuthConfig \<Rightarrow> auth_env \<times> auth_request \<Rightarrow> identity_db \<Rightarrow> string option" where
  "replaced config (E, ConfirmReset email code password) db =
     (if succeeded (confirm_password_reset E email code password db) then Some (account_key E email) else None)"
| "replaced config (E, ChangePassword auth old new) db =
     (if succeeded (route_change_password E config auth old new db) then session_key config E auth db else None)"
| "replaced config (E, DisableTotp auth email) db =
     (if succeeded (route_disable_totp E config auth email db) then Some (account_key E email) else None)"
| "replaced config _ db = None"

lemma update_user_sessions:
  "auth_sessions (snd (update_user_with_audit lower email f id audit db)) = auth_sessions db"
  by (simp add: update_user_with_audit_def Let_def split: option.splits)

lemma update_user_revokes:
  "auth_sessions (snd (update_user_with_audit lower email f (revoke_ephemeral_sessions (lower email)) audit db)) t
     = Some e \<Longrightarrow> auth_sessions db t = Some e \<and> (auth_users db (lower email) = None \<or> e \<noteq> lower email)"
  by (auto simp: update_user_with_audit_def Let_def split: option.splits if_splits)

lemmas audit_ops =
  update_auth_email_verification_with_audit_def set_auth_reset_code_with_audit_def
  update_auth_password_with_audit_def set_auth_totp_secret_with_audit_def

lemma confirm_sessions:
  "auth_sessions (snd (confirm_password_reset E email code password db)) t = Some e \<Longrightarrow>
     auth_sessions db t = Some e \<and>
     (succeeded (confirm_password_reset E email code password db) \<longrightarrow> e \<noteq> account_key E email)"
  by (auto simp: confirm_password_reset_def Let_def succeeded_def find_auth_user_def account_key_def audit_ops
      dest!: update_user_revokes split: option.splits if_splits sum.splits)

lemma change_sessions:
  "auth_sessions (snd (change_password E email old new db)) t = Some e \<Longrightarrow>
     auth_sessions db t = Some e \<and> (succeeded (change_password E email old new db) \<longrightarrow> e \<noteq> account_key E email)"
  by (auto simp: change_password_def Let_def succeeded_def find_auth_user_def account_key_def audit_ops
      dest!: update_user_revokes split: option.splits if_splits sum.splits)

lemma disable_sessions:
  "auth_sessions (snd (disable_totp E config email session db)) t = Some e \<Longrightarrow>
     auth_sessions db t = Some e \<and> (succeeded (disable_totp E config email session db) \<longrightarrow> e \<noteq> account_key E email)"
  by (auto simp: disable_totp_def Let_def succeeded_def find_auth_user_def account_key_def audit_ops
      dest!: update_user_revokes split: option.splits if_splits)

lemma other_sessions:
  "auth_sessions (snd (register E config email password db)) = auth_sessions db"
  "auth_sessions (snd (verify_email E config email code db)) = auth_sessions db"
  "auth_sessions (snd (request_password_reset E config email db)) = auth_sessions db"
  "auth_sessions (snd (bootstrap_admin_totp E config email password db)) = auth_sessions db"
  "auth_sessions (snd (enable_totp E email session db)) = auth_sessions db"
  by (simp_all add: register_def verify_email_def request_password_reset_def bootstrap_admin_totp_def
      enable_totp_def Let_def split_beta insert_auth_user_def audit_ops update_user_sessions
      split: option.splits sum.splits)

lemma route_disable_cases:
  "(\<exists>session. route_disable_totp E config auth email db = disable_totp E config email session db)
    \<or> (\<exists>err. route_disable_totp E config auth email db = (Inl err, db))"
  by (cases "require_user_session E config db auth")
    (auto simp: route_disable_totp_def split: sum.splits)

text \<open>One request: a session afterwards was there before and not revoked, or it is the one that
  a granted login created.\<close>

definition granted :: "AuthConfig \<Rightarrow> auth_env \<times> auth_request \<Rightarrow> identity_db \<Rightarrow> string \<Rightarrow> string \<Rightarrow> bool" where
  "granted config req db token e \<longleftrightarrow>
     (case req of
        (E, Login email password totp) \<Rightarrow>
          fst (login E config email password totp db) = Inr token
          \<and> credentials_ok E config email password totp db \<and> e = account_key E email
      | _ \<Rightarrow> False)"

lemma handle_sessions:
  assumes "auth_sessions (handle config req db) t = Some e"
  shows "granted config req db t e \<or> (auth_sessions db t = Some e \<and> replaced config req db \<noteq> Some e)"
proof (cases req)
  case (Pair E r)
  show ?thesis
  proof (cases r)
    case (Login email password totp)
    obtain x db' where x: "login E config email password totp db = (x, db')" by fastforce
    show ?thesis
    proof (cases x)
      case (Inl err)
      then show ?thesis using assms x login_refused(1) [of E config email password totp db err db']
        by (simp add: Pair Login)
    next
      case (Inr token)
      note g = login_granted [OF x [unfolded Inr]]
      have "((auth_sessions db)(token \<mapsto> account_key E email)) t = Some e"
        using assms g(1) x by (simp add: Pair Login)
      then consider "t = token" "e = account_key E email" | "auth_sessions db t = Some e"
        by (cases "t = token") simp_all
      then show ?thesis
      proof cases
        case 1
        have "fst (login E config email password totp db) = Inr token" by (simp only: x Inr fst_conv)
        with 1 g(4) have "granted config req db t e" unfolding granted_def Pair Login by simp
        then show ?thesis by (rule disjI1)
      qed (simp add: Pair Login)
    qed
  next
    case (ConfirmReset email code password)
    have s: "auth_sessions (snd (confirm_password_reset E email code password db)) t = Some e"
      using assms by (simp add: Pair ConfirmReset)
    from confirm_sessions [OF s] show ?thesis by (auto simp: Pair ConfirmReset)
  next
    case (ChangePassword auth old new)
    show ?thesis
    proof (cases "require_user_session E config db auth")
      case (Inr session)
      have s: "auth_sessions (snd (change_password E (as_email session) old new db)) t = Some e"
        using assms by (simp add: Pair ChangePassword route_change_password_def Inr)
      from change_sessions [OF s] show ?thesis
        by (auto simp: Pair ChangePassword route_change_password_def session_key_def Inr)
    qed (use assms in \<open>simp add: Pair ChangePassword route_change_password_def succeeded_def\<close>)
  next
    case (DisableTotp auth email)
    consider session where "route_disable_totp E config auth email db = disable_totp E config email session db"
      | err where "route_disable_totp E config auth email db = (Inl err, db)"
      using route_disable_cases by blast
    then show ?thesis
    proof cases
      case 1
      have s: "auth_sessions (snd (disable_totp E config email session db)) t = Some e"
        using assms by (simp add: Pair DisableTotp 1)
      from disable_sessions [OF s] show ?thesis by (auto simp: Pair DisableTotp 1)
    qed (use assms in \<open>simp add: Pair DisableTotp succeeded_def\<close>)
  qed (use assms in \<open>simp_all add: Pair other_sessions route_enable_totp_def split: sum.splits\<close>)
qed

lemma run_snoc [simp]: "run config (reqs @ [r]) db = handle config r (run config reqs db)"
  by (simp add: run_def)

text \<open>C31: Where a session comes from. From an empty store, a token that is live after any run of requests was
  issued by one login of the run whose password and, where set, one-time code were right at that moment,
  and no request after it replaced the credentials of that account.\<close>

theorem live_session_has_login:
  assumes "auth_sessions (run config reqs empty_identity) token = Some e"
  shows "\<exists>pre req post. reqs = pre @ req # post
    \<and> granted config req (run config pre empty_identity) token e
    \<and> list_all (\<lambda>k. replaced config (post ! k) (run config (pre @ req # take k post) empty_identity) \<noteq> Some e)
        [0..<length post]"
  using assms
proof (induction reqs rule: rev_induct)
  case Nil
  then show ?case by (simp add: run_def empty_identity_def)
next
  case (snoc r reqs)
  from handle_sessions [OF snoc.prems [unfolded run_snoc]] show ?case
  proof
    assume "granted config r (run config reqs empty_identity) token e"
    then show ?thesis by (intro exI [of _ reqs] exI [of _ r] exI [of _ "[]"]) simp
  next
    assume k: "auth_sessions (run config reqs empty_identity) token = Some e
      \<and> replaced config r (run config reqs empty_identity) \<noteq> Some e"
    with snoc.IH obtain pre req post where ih: "reqs = pre @ req # post"
      "granted config req (run config pre empty_identity) token e"
      "list_all (\<lambda>k. replaced config (post ! k) (run config (pre @ req # take k post) empty_identity) \<noteq> Some e) [0..<length post]"
      by blast
    have "list_all (\<lambda>k. replaced config ((post @ [r]) ! k) (run config (pre @ req # take k (post @ [r])) empty_identity) \<noteq> Some e)
        [0..<length (post @ [r])]"
      using ih(3) k by (auto simp: list_all_iff nth_append ih(1))
    with ih show ?thesis by (intro exI [of _ pre] exI [of _ req] exI [of _ "post @ [r]"]) simp
  qed
qed


subsection \<open>Revocation\<close>

lemma unlisted_token_refused:
  "auth_sessions db token = None \<Longrightarrow>
     session_claims E config db token = Inl (auth_err UNAUTHORIZED ''valid session token required'')"
  by (simp add: session_claims_def find_auth_session_email_def Let_def split: sum.splits)

lemma replaced_sessions:
  assumes "replaced config req db = Some e" "auth_sessions db token = Some e'"
  shows "auth_sessions (handle config req db) token = (if e' = e then None else Some e')"
proof -
  have upd: "auth_sessions (snd (update_user_with_audit lower email f
      (revoke_ephemeral_sessions (lower email)) audit db)) token = (if e' = lower email then None else Some e')"
    if "auth_users db (lower email) \<noteq> None" for lower email f audit
    using that assms(2) by (auto simp: update_user_with_audit_def Let_def)
  show ?thesis
    using assms upd
    by (cases "(config, req, db)" rule: replaced.cases)
      (auto simp: confirm_password_reset_def route_change_password_def change_password_def route_disable_totp_def
        disable_totp_def session_key_def succeeded_def find_auth_user_def account_key_def audit_ops Let_def
        split: option.splits if_splits sum.splits)
qed

text \<open>A token that is not listed stays so until a login issues that very token.\<close>

lemma unlisted_stays:
  assumes "auth_sessions db token = None"
    and "\<And>k e. k < length reqs \<Longrightarrow> \<not> granted config (reqs ! k) (run config (take k reqs) db) token e"
  shows "auth_sessions (run config reqs db) token = None"
  using assms(2)
proof (induction reqs rule: rev_induct)
  case Nil
  then show ?case using assms(1) by (simp add: run_def)
next
  case (snoc r reqs)
  have "auth_sessions (run config reqs db) token = None"
  proof (rule snoc.IH)
    fix k e
    assume "k < length reqs"
    then show "\<not> granted config (reqs ! k) (run config (take k reqs) db) token e"
      using snoc.prems [of k e] by (simp add: nth_append)
  qed
  moreover have "\<not> granted config r (run config reqs db) token e" for e
    using snoc.prems [of "length reqs" e] by simp
  ultimately show ?case
    using handle_sessions [of config r "run config reqs db" token] by (cases "auth_sessions (run config (reqs @ [r]) db) token") auto
qed

text \<open>C32: A successful password change, confirmed password reset or removal of the one-time password ends every
  session of the account: each of its tokens is refused after the request and after any further requests,
  at whatever time it is presented, unless one of them is a login that issues that very token again; the
  sessions of the other accounts stay as they were. (Setting up a one-time password again, which replaces
  the secret, is not among these requests.)\<close>

theorem replaced_credentials_end_sessions:
  assumes "replaced config req db = Some e" and "auth_sessions db token = Some e'"
  shows "(e' = e \<and> list_all (\<lambda>k. \<forall>e. \<not> granted config (reqs ! k) (run config (take k reqs) (handle config req db)) token e)
               [0..<length reqs]
           \<longrightarrow> session_claims E config (run config reqs (handle config req db)) token
             = Inl (auth_err UNAUTHORIZED ''valid session token required''))
    \<and> (e' \<noteq> e \<longrightarrow> auth_sessions (handle config req db) token = Some e')"
proof -
  have kept: "auth_sessions (handle config req db) token = (if e' = e then None else Some e')"
    by (rule replaced_sessions [OF assms])
  moreover have "auth_sessions (run config reqs (handle config req db)) token = None"
    if "e' = e" "list_all (\<lambda>k. \<forall>e. \<not> granted config (reqs ! k) (run config (take k reqs) (handle config req db)) token e)
      [0..<length reqs]"
    using kept that by (intro unlisted_stays) (auto simp: list_all_iff)
  ultimately show ?thesis by (auto simp: unlisted_token_refused)
qed

subsection \<open>Codes that can be computed\<close>

text \<open>Reset codes are counters. Anyone who can log in reads the number of the last code from the session
  token; the reset code of another account, requested next, is the code of the following number, and it
  is accepted: the account is taken over without its mailbox.\<close>

theorem reset_code_predictable:
  assumes "lawful_crypto (ae_crypto E)"
    and login: "login E config attacker password totp db = (Inr token, db1)"
    and victim: "auth_users db (account_key E' victim) = Some user"
    and lower: "ae_lower E'' = ae_lower E'" and new: "new_password \<noteq> []"
  shows "\<exists>claims. verify_session_token (ae_crypto E) (session_token_secret config) token = Inr claims
    \<and> fst (confirm_password_reset E'' victim (issue_email_code (cl_sid claims + 1)) new_password
        (snd (request_password_reset E' config victim db1))) = Inr True"
proof -
  from login_granted(3) [OF login] obtain sid
    where seq: "sequences db1 ''auth_seed'' = Some sid"
      and iss: "issue_session_token (ae_crypto E) (session_token_secret config)
        \<lparr>cl_email = normalize_email (ae_lower E) attacker,
         cl_is_admin = (resolved_admin_role E config (normalize_email (ae_lower E) attacker) \<noteq> None), cl_sid = sid\<rparr>
        = Inr token"
    by blast
  obtain claims where tok: "issue_session_token (ae_crypto E) (session_token_secret config) claims = Inr token"
    and sid: "sequences db1 ''auth_seed'' = Some (cl_sid claims)"
    using that [OF iss] seq by simp
  let ?email = "normalize_email (ae_lower E') victim" and ?seq = "next_sequence ''auth_seed'' db1"
  have user: "auth_users (snd ?seq) (ae_lower E' ?email) = Some user"
    using victim login_granted(2) [OF login] by (simp add: account_key_def)
  have seed: "fst ?seq = cl_sid claims + 1" by (rule next_sequence_again [OF sid])
  have "find_auth_user (ae_lower E') (snd (request_password_reset E' config victim db1)) ?email
      = Some (user\<lparr>au_reset_code := Some (issue_email_code (cl_sid claims + 1))\<rparr>)"
    using user unfolding request_password_reset_def
    by (simp add: Let_def split_beta audit_ops update_user_some [where user = user] find_auth_user_def seed
        split: sum.splits)
  then have "fst (confirm_password_reset E'' victim (issue_email_code (cl_sid claims + 1)) new_password
        (snd (request_password_reset E' config victim db1))) = Inr True"
    using new by (simp add: confirm_password_reset_def lower verify_email_code_def validate_password_def Let_def)
  moreover have "verify_session_token (ae_crypto E) (session_token_secret config) token = Inr claims"
    using assms(1) tok by (rule token_accepted)
  ultimately show ?thesis by blast
qed

subsection \<open>The default administrator\<close>

definition default_super_admin :: string where
  "default_super_admin = ''super-admin@example.com''"

lemma default_super_admin_role:
  assumes "admin_roles config default_super_admin = None" "ae_lower E default_super_admin = default_super_admin"
  shows "resolved_admin_role E config default_super_admin = Some SuperAdmin"
    and "normalize_email (ae_lower E) default_super_admin = default_super_admin"
proof -
  have "str_trim default_super_admin = default_super_admin" by code_simp
  then show n: "normalize_email (ae_lower E) default_super_admin = default_super_admin"
    using assms(2) by (simp add: normalize_email_def)
  have "list_ex (\<lambda>candidate. normalize_email (ae_lower E) candidate = default_super_admin) DEFAULT_SUPER_ADMIN_EMAILS"
    using n by (simp add: DEFAULT_SUPER_ADMIN_EMAILS_def default_super_admin_def)
  then show "resolved_admin_role E config default_super_admin = Some SuperAdmin"
    using assms(1) by (simp add: resolved_admin_role_def n)
qed

text \<open>The default administrator is a back door of every deployment. Under a strict configuration that
  names other administrators only, whoever first registers the default address can set its one-time
  password, log in with the code the response shows, and pass the check for super administrators.\<close>

theorem default_admin_takeover:
  assumes law: "lawful_crypto (ae_crypto E)"
    and "config_from_env_strict (ae_lower E) vars = Inr config"
    and role: "admin_roles config default_super_admin = None"
    and low: "ae_lower E default_super_admin = default_super_admin"
    and free: "auth_users db default_super_admin = None" and pw: "password \<noteq> []"
    and reg: "db1 = snd (register E config default_super_admin password db)"
    and boot: "bootstrap_admin_totp E config default_super_admin password db1 = (r, db2)"
  shows "\<exists>totp token session. r = Inr totp
    \<and> fst (login E config default_super_admin password (Some (tr_code totp)) db2) = Inr token
    \<and> require_super_admin_session E config
        (snd (login E config default_super_admin password (Some (tr_code totp)) db2)) (Some (''Bearer '' @ token)) = Inr session"
proof -
  let ?m = default_super_admin
  note admin = default_super_admin_role [OF role low]
  have "?m \<noteq> []" by (simp add: default_super_admin_def)
  then obtain user where user: "auth_users db1 ?m = Some user" "au_email_verified user"
      "au_password_hash user = hash_password E password" "au_totp_secret user = None"
    using free pw by (auto simp: reg register_def admin validate_password_def find_auth_user_def low Let_def split_beta
        insert_auth_user_def)
  have ver: "verify_password E password (au_password_hash user)"
    using law unfolding user(3) by (simp add: verify_password_def hash_password_def lawful_crypto_def)
  let ?secret = "generate_secret (ae_crypto E) (fst (next_sequence ''auth_seed'' db1))"
  have r: "r = Inr \<lparr>tr_secret = ?secret, tr_code = current_code (ae_crypto E) (ae_unix_time E) ?secret\<rparr>"
    and user2: "auth_users db2 ?m = Some (user\<lparr>au_totp_secret := Some ?secret\<rparr>)"
    using boot user ver
    by (auto simp: bootstrap_admin_totp_def admin find_auth_user_def low Let_def split_beta audit_ops
        update_user_some [where user = user])
  let ?code = "current_code (ae_crypto E) (ae_unix_time E) ?secret"
  have "credentials_ok E config ?m password (Some ?code) db2"
    using user user2 ver generated_secret_verifies [OF law] by (simp add: credentials_ok_def account_key_def admin low)
  then obtain token db3 where login: "login E config ?m password (Some ?code) db2 = (Inr token, db3)"
    using login_granted_iff [OF law] by (metis prod.collapse)
  note g = login_granted [OF login]
  obtain sid where tok: "issue_session_token (ae_crypto E) (session_token_secret config)
      \<lparr>cl_email = ?m, cl_is_admin = True, cl_sid = sid\<rparr> = Inr token"
    using g(3) by (auto simp: admin)
  have "session_claims E config db3 token = Inr \<lparr>cl_email = ?m, cl_is_admin = True, cl_sid = sid\<rparr>"
    using token_accepted [OF law tok] g(1,2) user2 \<open>?m \<noteq> []\<close>
    by (simp add: session_claims_def admin find_auth_session_email_def find_auth_user_def account_key_def low Let_def)
  then have "\<exists>session. require_super_admin_session E config db3 (Some (''Bearer '' @ token)) = Inr session"
    by (simp add: require_super_admin_session_def require_admin_session_def require_user_session_def
        bearer_token_def str_strip_prefix_def admin Let_def)
  then show ?thesis using r login by auto
qed

end
