(* ===== verification/AuthDemo.thy ===== *)
theory AuthDemo
  imports AuthProps
begin

text \<open>A concrete outside world and a small history, at which the theorems on authentication apply.\<close>

definition demo_escape :: "string \<Rightarrow> string" where
  "demo_escape s = concat (map (\<lambda>c. if c = CHR ''.'' then ''~0'' else if c = CHR ''~'' then ''~1'' else [c]) s)"

fun demo_unescape :: "string \<Rightarrow> string option" where
  "demo_unescape [] = Some []"
| "demo_unescape (c # s) =
     (if c = CHR ''~'' then
        (case s of
           [] \<Rightarrow> None
         | d # s \<Rightarrow> map_option (\<lambda>t. (if d = CHR ''0'' then CHR ''.'' else CHR ''~'') # t) (demo_unescape s))
      else map_option (\<lambda>t. c # t) (demo_unescape s))"

definition demo_claims_json :: "SessionClaims \<Rightarrow> string" where
  "demo_claims_json c = show_nat (unat (cl_sid c)) @ (if cl_is_admin c then ''+'' else ''-'') @ cl_email c"

definition demo_claims_of_json :: "string \<Rightarrow> SessionClaims option" where
  "demo_claims_of_json s =
     (let d = takeWhile (\<lambda>c. c \<noteq> CHR ''+'' \<and> c \<noteq> CHR ''-'') s
      in case drop (length d) s of
           [] \<Rightarrow> None
         | m # email \<Rightarrow>
             map_option (\<lambda>n. \<lparr>cl_email = email, cl_is_admin = (m = CHR ''+''), cl_sid = of_nat n\<rparr>) (parse_digits 0 d))"

definition demo_crypto :: auth_crypto where
  "demo_crypto =
     \<lparr>hmac_sha1 = (\<lambda>k m. Some (\<lambda>i. 0)), sha256 = (\<lambda>s. s), hmac_sha256 = (\<lambda>k m. Some (k @ m)),
      b64_encode = demo_escape, b64_decode = demo_unescape, claims_json = (\<lambda>c. Some (demo_claims_json c)),
      claims_of_json = demo_claims_of_json, argon_hash = (\<lambda>n p. p), argon_verify = (=)\<rparr>"

lemma demo_escape_Cons:
  "demo_escape (c # s) = (if c = CHR ''.'' then ''~0'' else if c = CHR ''~'' then ''~1'' else [c]) @ demo_escape s"
  by (simp add: demo_escape_def)

lemma demo_unescape_escape: "demo_unescape (demo_escape s) = Some s"
proof (induction s)
  case Nil
  show ?case by (simp add: demo_escape_def)
qed (simp add: demo_escape_Cons)

lemma demo_escape_no_dot: "CHR ''.'' \<notin> set (demo_escape s)"
  by (induction s) (auto simp: demo_escape_def)

lemma demo_claims_roundtrip: "demo_claims_of_json (demo_claims_json c) = Some c"
proof -
  let ?d = "show_nat (unat (cl_sid c))" and ?m = "if cl_is_admin c then CHR ''+'' else CHR ''-''"
  have "takeWhile (\<lambda>c. c \<noteq> CHR ''+'' \<and> c \<noteq> CHR ''-'') (?d @ ?m # cl_email c) = ?d"
    using dash_notin_show_nat [of "unat (cl_sid c)"] plus_notin_show_nat [of "unat (cl_sid c)"]
    by (subst takeWhile_append2) auto
  moreover have "demo_claims_json c = ?d @ ?m # cl_email c" by (simp add: demo_claims_json_def)
  ultimately show ?thesis by (simp add: demo_claims_of_json_def parse_digits_show_nat Let_def)
qed

lemma demo_lawful: "lawful_crypto demo_crypto"
  by (simp add: lawful_crypto_def demo_crypto_def demo_unescape_escape demo_escape_no_dot demo_claims_roundtrip)

definition demo_auth_env :: auth_env where
  "demo_auth_env =
     \<lparr>ae_crypto = demo_crypto, ae_lower = (\<lambda>s. s), ae_now = 0, ae_unix_time = 1700000000, ae_salt = 0,
      ae_send_http = (\<lambda>_ _. True), ae_send_smtp = (\<lambda>_ _. True)\<rparr>"

definition demo_vars :: "string \<rightharpoonup> string" where
  "demo_vars = [''ADMIN_EMAILS'' \<mapsto> ''o'', ''SESSION_TOKEN_SECRET'' \<mapsto> ''k'',
     ''AUTH_EMAIL_DELIVERY'' \<mapsto> ''http'', ''AUTH_EMAIL_HTTP_URL'' \<mapsto> ''u'', ''AUTH_EMAIL_FROM'' \<mapsto> ''f'']"

definition demo_auth_config :: AuthConfig where
  "demo_auth_config = projr (config_from_env_strict (\<lambda>s. s) demo_vars)"

definition demo_history :: "(auth_env \<times> auth_request) list" where
  "demo_history = [(demo_auth_env, Register ''e'' ''eve''), (demo_auth_env, Register ''b'' ''bob''),
     (demo_auth_env, Login ''b'' ''bob'' None)]"

definition demo_identity :: identity_db where
  "demo_identity = run demo_auth_config demo_history empty_identity"

definition demo_claims :: SessionClaims where
  "demo_claims = \<lparr>cl_email = ''b'', cl_is_admin = False, cl_sid = 3\<rparr>"

definition demo_token :: string where
  "demo_token = projr (issue_session_token demo_crypto ''k'' demo_claims)"

definition demo_user :: "u64 \<Rightarrow> string \<Rightarrow> string \<Rightarrow> AuthUserRecord" where
  "demo_user n email password =
     \<lparr>au_user_id = n, au_email = email, au_password_hash = password, au_email_verified = True,
      au_verification_code = Some (issue_email_code n), au_reset_code = None, au_totp_secret = None\<rparr>"

lemma demo_token_issued: "issue_session_token demo_crypto ''k'' demo_claims = Inr demo_token"
  using token_issued [OF demo_lawful, of "''k''" demo_claims] by (auto simp: demo_token_def)

lemma demo_auth_config_facts:
  "\<not> isl (config_from_env_strict (\<lambda>s. s) demo_vars)"
  "admin_roles demo_auth_config default_super_admin = None"
  "session_token_secret demo_auth_config = ''k''"
  "resolved_admin_role demo_auth_env demo_auth_config ''b'' = None"
  "resolved_admin_role demo_auth_env demo_auth_config ''e'' = None"
  by code_simp+

lemma demo_auth_env_simps [simp]:
  "ae_lower demo_auth_env = (\<lambda>s. s)" "ae_crypto demo_auth_env = demo_crypto"
  "verify_password demo_auth_env p h \<longleftrightarrow> p = h" "hash_password demo_auth_env p = p"
  by (simp_all add: demo_auth_env_def verify_password_def hash_password_def demo_crypto_def)

lemma demo_normalize: "normalize_email (\<lambda>s. s) ''b'' = ''b''" "normalize_email (\<lambda>s. s) ''e'' = ''e''"
  by code_simp+

lemmas demo_steps = find_auth_user_def validate_password_def next_sequence_def insert_auth_user_def Let_def
  account_key_def demo_normalize demo_auth_config_facts

lemma demo_registered:
  "run demo_auth_config (take 2 demo_history) empty_identity =
     empty_identity\<lparr>sequences := [''auth_user_id'' \<mapsto> 2, ''auth_seed'' \<mapsto> 2],
       auth_users := [''e'' \<mapsto> demo_user 1 ''e'' ''eve'', ''b'' \<mapsto> demo_user 2 ''b'' ''bob'']\<rparr>"
  by (simp add: run_def demo_history_def register_def demo_steps empty_identity_def demo_user_def fun_upd_twist)

lemma demo_logged_in:
  "demo_identity =
     empty_identity\<lparr>sequences := [''auth_user_id'' \<mapsto> 2, ''auth_seed'' \<mapsto> 3],
       auth_users := [''e'' \<mapsto> demo_user 1 ''e'' ''eve'', ''b'' \<mapsto> demo_user 2 ''b'' ''bob''],
       auth_sessions := [demo_token \<mapsto> ''b'']\<rparr>"
proof -
  have "demo_identity = handle demo_auth_config (demo_auth_env, Login ''b'' ''bob'' None)
      (run demo_auth_config (take 2 demo_history) empty_identity)"
    by (simp add: demo_identity_def demo_history_def run_def)
  also have "\<dots> = empty_identity\<lparr>sequences := [''auth_user_id'' \<mapsto> 2, ''auth_seed'' \<mapsto> 3],
       auth_users := [''e'' \<mapsto> demo_user 1 ''e'' ''eve'', ''b'' \<mapsto> demo_user 2 ''b'' ''bob''],
       auth_sessions := [demo_token \<mapsto> ''b'']\<rparr>"
    unfolding demo_registered
    by (simp add: login_def login_checks_def demo_steps demo_user_def insert_auth_session_def
        demo_token_issued [unfolded demo_claims_def] empty_identity_def fun_upd_twist)
  finally show ?thesis .
qed

lemma demo_facts:
  "auth_users demo_identity default_super_admin = None"
  "auth_sessions demo_identity demo_token = Some ''b''"
  "auth_users demo_identity (account_key demo_auth_env ''b'') = Some (demo_user 2 ''b'' ''bob'')"
  "credentials_ok demo_auth_env demo_auth_config ''e'' ''eve'' None demo_identity"
  by (simp_all add: demo_logged_in demo_steps empty_identity_def default_super_admin_def credentials_ok_def demo_user_def)

lemma demo_session: "require_user_session demo_auth_env demo_auth_config demo_identity (Some (''Bearer '' @ demo_token))
    = Inr \<lparr>as_email = ''b'', as_is_admin = False, as_admin_role = None, as_sid = 3\<rparr>"
  using token_accepted [OF demo_lawful demo_token_issued] demo_facts(2)
  by (simp add: require_user_session_def bearer_token_def str_strip_prefix_def session_claims_def demo_steps
      find_auth_session_email_def demo_claims_def)

lemma demo_replaced:
  "replaced demo_auth_config (demo_auth_env, ChangePassword (Some (''Bearer '' @ demo_token)) ''bob'' ''b0b'') demo_identity
     = Some ''b''"
  using demo_facts(3) demo_session
  by (simp add: succeeded_def route_change_password_def session_key_def change_password_def demo_steps demo_user_def)

theorem session_token_roundtrip_witness:
  "\<exists>token. issue_session_token demo_crypto ''k'' \<lparr>cl_email = ''a@b.c'', cl_is_admin = True, cl_sid = 7\<rparr> = Inr token
     \<and> verify_session_token demo_crypto ''k'' token = Inr \<lparr>cl_email = ''a@b.c'', cl_is_admin = True, cl_sid = 7\<rparr>"
  by (rule session_token_roundtrip [OF demo_lawful])

theorem login_iff_witness:
  "(case login demo_auth_env demo_auth_config ''e'' ''eve'' None demo_identity of
      (Inr token, db') \<Rightarrow> credentials_ok demo_auth_env demo_auth_config ''e'' ''eve'' None demo_identity
        \<and> auth_sessions db' = (auth_sessions demo_identity)(token \<mapsto> account_key demo_auth_env ''e'')
        \<and> auth_users db' = auth_users demo_identity
    | (Inl e, db') \<Rightarrow> \<not> credentials_ok demo_auth_env demo_auth_config ''e'' ''eve'' None demo_identity
        \<and> auth_sessions db' = auth_sessions demo_identity \<and> auth_users db' = auth_users demo_identity)
    \<and> credentials_ok demo_auth_env demo_auth_config ''e'' ''eve'' None demo_identity"
proof -
  have "lawful_crypto (ae_crypto demo_auth_env)" by (simp add: demo_lawful)
  from login_iff [OF this] demo_facts(4) show ?thesis by (rule conjI)
qed

theorem live_session_has_login_witness:
  "\<exists>pre req post. demo_history = pre @ req # post
    \<and> granted demo_auth_config req (run demo_auth_config pre empty_identity) demo_token ''b''
    \<and> list_all (\<lambda>k. replaced demo_auth_config (post ! k)
          (run demo_auth_config (pre @ req # take k post) empty_identity) \<noteq> Some ''b'')
        [0..<length post]"
  by (rule live_session_has_login) (use demo_facts(2) in \<open>simp add: demo_identity_def\<close>)

theorem replaced_credentials_end_sessions_witness:
  "session_claims demo_auth_env demo_auth_config
     (handle demo_auth_config (demo_auth_env, ChangePassword (Some (''Bearer '' @ demo_token)) ''bob'' ''b0b'') demo_identity)
     demo_token = Inl (auth_err UNAUTHORIZED ''valid session token required'')"
  using replaced_credentials_end_sessions [OF demo_replaced demo_facts(2), where reqs = "[]"] by (simp add: run_def)

theorem reset_code_predictable_witness:
  "\<exists>token claims. fst (login demo_auth_env demo_auth_config ''e'' ''eve'' None demo_identity) = Inr token
    \<and> verify_session_token (ae_crypto demo_auth_env) (session_token_secret demo_auth_config) token = Inr claims
    \<and> fst (confirm_password_reset demo_auth_env ''b'' (issue_email_code (cl_sid claims + 1)) ''mine''
        (snd (request_password_reset demo_auth_env demo_auth_config ''b''
          (snd (login demo_auth_env demo_auth_config ''e'' ''eve'' None demo_identity))))) = Inr True"
proof -
  have C: "lawful_crypto (ae_crypto demo_auth_env)" by (simp add: demo_lawful)
  obtain token where token: "fst (login demo_auth_env demo_auth_config ''e'' ''eve'' None demo_identity) = Inr token"
    using demo_facts(4) login_granted_iff [OF C] by blast
  then have l: "login demo_auth_env demo_auth_config ''e'' ''eve'' None demo_identity
      = (Inr token, snd (login demo_auth_env demo_auth_config ''e'' ''eve'' None demo_identity))"
    by (simp add: prod_eq_iff)
  from reset_code_predictable [OF C l demo_facts(3) refl, of "''mine''"] token show ?thesis by blast
qed

theorem default_admin_takeover_witness:
  "\<exists>totp token session.
     fst (bootstrap_admin_totp demo_auth_env demo_auth_config default_super_admin ''pw''
       (snd (register demo_auth_env demo_auth_config default_super_admin ''pw'' demo_identity))) = Inr totp
    \<and> require_super_admin_session demo_auth_env demo_auth_config
        (snd (login demo_auth_env demo_auth_config default_super_admin ''pw'' (Some (tr_code totp))
          (snd (bootstrap_admin_totp demo_auth_env demo_auth_config default_super_admin ''pw''
            (snd (register demo_auth_env demo_auth_config default_super_admin ''pw'' demo_identity))))))
        (Some (''Bearer '' @ token)) = Inr session"
proof -
  have C: "lawful_crypto (ae_crypto demo_auth_env)" by (simp add: demo_lawful)
  have "config_from_env_strict (ae_lower demo_auth_env) demo_vars = Inr demo_auth_config"
    using demo_auth_config_facts(1) by (simp add: demo_auth_config_def)
  from default_admin_takeover [OF C this demo_auth_config_facts(2) _ demo_facts(1) _ refl prod.collapse [symmetric], of "''pw''"]
  show ?thesis by (simp only: demo_auth_env_simps) blast
qed

end
