(* ===== verification/TimeSplits.thy ===== *)
theory TimeSplits
  imports RustString
begin

text \<open>
  \<^verbatim>\<open>backtest-engine/src/time_splits.rs\<close>: the windows a backtest is split into. An \<open>i64\<close> is an integer in its
  range and \<open>checked_add\<close> is written out. The loop of \<open>walk_forward_windows\<close> ends only if its start
  moves forward, so it is a partial function whose value \<open>None\<close> means that it never returns; that this
  never happens is a theorem.
\<close>

record TimeWindow =
  tw_name :: string
  tw_start_ms :: int
  tw_end_ms :: int

record WalkForwardWindow =
  wf_train :: TimeWindow
  wf_validate :: TimeWindow
  wf_test :: TimeWindow

record WalkForwardConfig =
  wc_start_ms :: int
  wc_end_ms :: int
  wc_train_ms :: int
  wc_validate_ms :: int
  wc_test_ms :: int
  wc_step_ms :: int

definition i64_checked_add :: "int \<Rightarrow> int \<Rightarrow> int option" where
  "i64_checked_add a b = (if - (2 ^ 63) \<le> a + b \<and> a + b < 2 ^ 63 then Some (a + b) else None)"

definition add_or :: "int \<Rightarrow> int \<Rightarrow> string \<Rightarrow> int result" where
  "add_or a b e = (case i64_checked_add a b of None \<Rightarrow> Inl e | Some c \<Rightarrow> Inr c)"

definition validate_positive :: "string \<Rightarrow> int \<Rightarrow> unit result" where
  "validate_positive name value = (if value \<le> 0 then Inl (name @ '' must be positive'') else Inr ())"

fun ordered_from :: "int option \<Rightarrow> TimeWindow list \<Rightarrow> unit result" where
  "ordered_from previous_end [] = Inr ()"
| "ordered_from previous_end (window # windows) =
     (if tw_start_ms window \<ge> tw_end_ms window then Inl (tw_name window @ '' start_ms must be before end_ms'')
      else if (case previous_end of Some end_ms \<Rightarrow> tw_start_ms window < end_ms | None \<Rightarrow> False)
      then Inl ''manual windows must be ordered and non-overlapping''
      else ordered_from (Some (tw_end_ms window)) windows)"

definition validate_ordered_windows :: "TimeWindow list \<Rightarrow> unit result" where
  "validate_ordered_windows windows = ordered_from None windows"

definition manual_windows :: "TimeWindow list \<Rightarrow> TimeWindow list result" where
  "manual_windows windows = bind_res (validate_ordered_windows windows) (\<lambda>_. Inr windows)"

definition wf_name :: "nat \<Rightarrow> string \<Rightarrow> string" where
  "wf_name n part = ''wf-'' @ show_nat n @ ''-'' @ part"

text \<open>The body of the loop behind its exit test: the window it pushes as number \<open>n\<close>.\<close>

definition push_window :: "WalkForwardConfig \<Rightarrow> int \<Rightarrow> nat \<Rightarrow> WalkForwardWindow result" where
  "push_window config start n =
     bind_res (add_or start (wc_train_ms config) ''walk-forward train window overflow'') (\<lambda>train_end.
     bind_res (add_or train_end (wc_validate_ms config) ''walk-forward validate window overflow'') (\<lambda>validate_end.
     bind_res (add_or validate_end (wc_test_ms config) ''walk-forward test window overflow'') (\<lambda>test_end.
       Inr \<lparr>wf_train = \<lparr>tw_name = wf_name n ''train'', tw_start_ms = start, tw_end_ms = train_end\<rparr>,
            wf_validate = \<lparr>tw_name = wf_name n ''validate'', tw_start_ms = train_end, tw_end_ms = validate_end\<rparr>,
            wf_test = \<lparr>tw_name = wf_name n ''test'', tw_start_ms = validate_end, tw_end_ms = test_end\<rparr>\<rparr>)))"

partial_function (option) walk_loop ::
  "WalkForwardConfig \<Rightarrow> int \<Rightarrow> int \<Rightarrow> WalkForwardWindow list \<Rightarrow> WalkForwardWindow list result option" where
  "walk_loop config span_ms start windows =
     (case add_or start span_ms ''walk-forward window overflow'' of
        Inl e \<Rightarrow> Some (Inl e)
      | Inr test_end_for_loop \<Rightarrow>
          if test_end_for_loop > wc_end_ms config then Some (Inr windows)
          else
            (case push_window config start (length windows + 1) of
               Inl e \<Rightarrow> Some (Inl e)
             | Inr window \<Rightarrow>
                 (case add_or start (wc_step_ms config) ''walk-forward step overflow'' of
                    Inl e \<Rightarrow> Some (Inl e)
                  | Inr start \<Rightarrow> walk_loop config span_ms start (windows @ [window]))))"

definition walk_forward_span :: "WalkForwardConfig \<Rightarrow> int result" where
  "walk_forward_span config =
     bind_res (validate_positive ''train_ms'' (wc_train_ms config)) (\<lambda>_.
     bind_res (validate_positive ''validate_ms'' (wc_validate_ms config)) (\<lambda>_.
     bind_res (validate_positive ''test_ms'' (wc_test_ms config)) (\<lambda>_.
     bind_res (validate_positive ''step_ms'' (wc_step_ms config)) (\<lambda>_.
       if wc_start_ms config \<ge> wc_end_ms config then Inl ''start_ms must be before end_ms''
       else
         bind_res (add_or (wc_train_ms config) (wc_validate_ms config) ''walk-forward span overflow'')
           (\<lambda>train_validate_ms. add_or train_validate_ms (wc_test_ms config) ''walk-forward span overflow'')))))"

definition walk_forward_windows :: "WalkForwardConfig \<Rightarrow> WalkForwardWindow list result option" where
  "walk_forward_windows config =
     (case walk_forward_span config of
        Inl e \<Rightarrow> Some (Inl e)
      | Inr span_ms \<Rightarrow> walk_loop config span_ms (wc_start_ms config) [])"

definition named_stress_windows :: "TimeWindow list" where
  "named_stress_windows =
     [\<lparr>tw_name = ''crash'', tw_start_ms = 1583020800000, tw_end_ms = 1585785600000\<rparr>,
      \<lparr>tw_name = ''melt_up'', tw_start_ms = 1609459200000, tw_end_ms = 1622419200000\<rparr>,
      \<lparr>tw_name = ''high_volatility_chop'', tw_start_ms = 1667692800000, tw_end_ms = 1670284800000\<rparr>,
      \<lparr>tw_name = ''low_volatility_range'', tw_start_ms = 1688169600000, tw_end_ms = 1696032000000\<rparr>,
      \<lparr>tw_name = ''long_unidirectional_trend'', tw_start_ms = 1699660800000, tw_end_ms = 1709596800000\<rparr>,
      \<lparr>tw_name = ''wick_spike'', tw_start_ms = 1617840000000, tw_end_ms = 1617926400000\<rparr>]"

definition stress_window_by_name :: "string \<Rightarrow> TimeWindow option" where
  "stress_window_by_name name = find (\<lambda>window. tw_name window = name) named_stress_windows"

subsection \<open>Ordered windows\<close>

definition follows :: "TimeWindow \<Rightarrow> TimeWindow \<Rightarrow> bool" where
  "follows a b \<longleftrightarrow> tw_end_ms a \<le> tw_start_ms b"

definition proper :: "TimeWindow \<Rightarrow> bool" where
  "proper w \<longleftrightarrow> tw_start_ms w < tw_end_ms w"

lemma ordered_from_iff:
  "ordered_from p ws = Inr () \<longleftrightarrow>
     list_all proper ws \<and> sorted_wrt follows ws \<and>
     (\<forall>e. p = Some e \<longrightarrow> list_all (\<lambda>w. e \<le> tw_start_ms w) ws)"
proof (induction ws arbitrary: p)
  case (Cons w ws)
  have "list_all (\<lambda>v. tw_end_ms w \<le> tw_start_ms v) ws \<longleftrightarrow> (\<forall>v \<in> set ws. follows w v)"
    by (simp add: list_all_iff follows_def)
  then show ?case
    by (auto simp: Cons.IH proper_def follows_def list_all_iff split: option.splits)
qed simp

text \<open>Windows given by hand are accepted, unchanged, exactly when each has a positive length and they lie
  one after the other.\<close>

lemma manual_windows_iff:
  "manual_windows ws = Inr ws \<longleftrightarrow> list_all proper ws \<and> sorted_wrt follows ws"
  by (cases "ordered_from None ws")
    (use ordered_from_iff [of None ws] in \<open>auto simp: manual_windows_def validate_ordered_windows_def\<close>)

lemma stress_windows_proper: "list_all proper named_stress_windows"
  by (simp add: named_stress_windows_def proper_def)

subsection \<open>Walking forward\<close>

lemma add_or_Inr: "add_or a b e = Inr c \<longleftrightarrow> - (2 ^ 63) \<le> a + b \<and> a + b < 2 ^ 63 \<and> c = a + b"
  by (auto simp: add_or_def i64_checked_add_def)

lemma walk_forward_span_Inr:
  "walk_forward_span c = Inr span_ms \<Longrightarrow>
     0 < wc_train_ms c \<and> 0 < wc_validate_ms c \<and> 0 < wc_test_ms c \<and> 0 < wc_step_ms c
     \<and> wc_start_ms c < wc_end_ms c \<and> span_ms = wc_train_ms c + wc_validate_ms c + wc_test_ms c \<and> span_ms < 2 ^ 63"
  by (auto simp: walk_forward_span_def validate_positive_def bind_res_eq_Inr add_or_Inr split: if_splits)

lemma walk_loop_returns:
  assumes "0 < wc_step_ms c" "0 \<le> span_ms"
  shows "\<exists>r. walk_loop c span_ms start ws = Some r"
proof (induction "nat (wc_end_ms c + 1 - start)" arbitrary: start ws rule: less_induct)
  case less
  show ?case
  proof (cases "\<exists>t. add_or start span_ms ''walk-forward window overflow'' = Inr t \<and> t \<le> wc_end_ms c")
    case True
    then have le: "start \<le> wc_end_ms c" using assms(2) by (auto simp: add_or_Inr)
    have next_start: "\<exists>r. walk_loop c span_ms s ws' = Some r"
      if "add_or start (wc_step_ms c) e = Inr s" for s ws' e
    proof (rule less)
      show "nat (wc_end_ms c + 1 - s) < nat (wc_end_ms c + 1 - start)"
        using that le assms(1) by (simp add: add_or_Inr)
    qed
    show ?thesis
      by (subst walk_loop.simps) (auto split: sum.splits intro: next_start)
  next
    case False
    then show ?thesis
      by (subst walk_loop.simps) (auto split: sum.splits)
  qed
qed

text \<open>C38: Splitting a time range always ends. For every configuration, sensible or not, the walk-forward loop
  returns windows or an error; it never runs on for ever, because a step that does not move forward is
  refused before the loop and every addition is checked.\<close>

theorem walk_forward_returns: "\<exists>r. walk_forward_windows config = Some r"
proof (cases "walk_forward_span config")
  case (Inr span_ms)
  from walk_forward_span_Inr [OF this] walk_loop_returns [of config span_ms] show ?thesis
    by (simp add: walk_forward_windows_def Inr)
qed (simp add: walk_forward_windows_def)

subsection \<open>The windows\<close>

definition window_at :: "WalkForwardConfig \<Rightarrow> nat \<Rightarrow> WalkForwardWindow" where
  "window_at c k =
     (let s = wc_start_ms c + int k * wc_step_ms c; t = s + wc_train_ms c; v = t + wc_validate_ms c
      in \<lparr>wf_train = \<lparr>tw_name = wf_name (k + 1) ''train'', tw_start_ms = s, tw_end_ms = t\<rparr>,
          wf_validate = \<lparr>tw_name = wf_name (k + 1) ''validate'', tw_start_ms = t, tw_end_ms = v\<rparr>,
          wf_test = \<lparr>tw_name = wf_name (k + 1) ''test'', tw_start_ms = v, tw_end_ms = v + wc_test_ms c\<rparr>\<rparr>)"

text \<open>The number of starts, one step apart, from which the whole span still ends within the range.\<close>

definition window_count :: "WalkForwardConfig \<Rightarrow> nat" where
  "window_count c =
     (let room = wc_end_ms c - wc_start_ms c - (wc_train_ms c + wc_validate_ms c + wc_test_ms c)
      in if room < 0 then 0 else nat (room div wc_step_ms c) + 1)"

lemma window_count_iff:
  assumes "0 < wc_step_ms c"
  shows "k < window_count c \<longleftrightarrow>
    wc_start_ms c + int k * wc_step_ms c + (wc_train_ms c + wc_validate_ms c + wc_test_ms c) \<le> wc_end_ms c"
proof -
  define room where "room = wc_end_ms c - wc_start_ms c - (wc_train_ms c + wc_validate_ms c + wc_test_ms c)"
  have "k < window_count c \<longleftrightarrow> 0 \<le> room \<and> int k \<le> room div wc_step_ms c"
  proof (cases "room < 0")
    case False
    then have "0 \<le> room div wc_step_ms c" using assms by (simp add: pos_imp_zdiv_nonneg_iff)
    then show ?thesis using False by (simp add: window_count_def Let_def room_def [symmetric]) linarith
  qed (simp add: window_count_def Let_def room_def [symmetric])
  also have "\<dots> \<longleftrightarrow> int k * wc_step_ms c \<le> room"
  proof -
    have "int k \<le> room div wc_step_ms c \<longleftrightarrow> int k * wc_step_ms c \<le> room"
    proof
      assume "int k \<le> room div wc_step_ms c"
      then have "int k * wc_step_ms c \<le> room div wc_step_ms c * wc_step_ms c"
        using assms by (intro mult_right_mono) simp_all
      also have "\<dots> \<le> room" using div_mult_mod_eq [of room "wc_step_ms c"] pos_mod_sign [OF assms, of room] by linarith
      finally show "int k * wc_step_ms c \<le> room" .
    next
      assume "int k * wc_step_ms c \<le> room"
      from zdiv_mono1 [OF this assms] show "int k \<le> room div wc_step_ms c" using assms by simp
    qed
    moreover have "0 \<le> int k * wc_step_ms c" using assms by simp
    ultimately show ?thesis by linarith
  qed
  finally show ?thesis by (simp add: room_def algebra_simps)
qed

lemma push_window_at:
  assumes pos: "0 < wc_train_ms c" "0 < wc_validate_ms c" "0 < wc_test_ms c"
    and s: "s = wc_start_ms c + int k * wc_step_ms c" "- (2 ^ 63) \<le> s"
    and fits: "s + (wc_train_ms c + wc_validate_ms c + wc_test_ms c) < 2 ^ 63"
  shows "push_window c s (k + 1) = Inr (window_at c k)"
  using assms
  by (simp add: push_window_def add_or_def i64_checked_add_def window_at_def Let_def)

lemma walk_loop_windows:
  assumes span_ms: "walk_forward_span c = Inr span_ms" and start: "- (2 ^ 63) \<le> wc_start_ms c"
    and room: "wc_start_ms c + int (window_count c) * wc_step_ms c + span_ms < 2 ^ 63"
    and k: "k \<le> window_count c"
  shows "walk_loop c span_ms (wc_start_ms c + int k * wc_step_ms c) (map (window_at c) [0..<k])
    = Some (Inr (map (window_at c) [0..<window_count c]))"
  using k
proof (induction "window_count c - k" arbitrary: k)
  case 0
  note c = walk_forward_span_Inr [OF span_ms]
  from 0 have k: "k = window_count c" by simp
  have past: "\<not> wc_start_ms c + int k * wc_step_ms c + span_ms \<le> wc_end_ms c"
    using window_count_iff [of c k] c k by simp
  have "0 \<le> int k * wc_step_ms c" using c by simp
  then have "- (2 ^ 63) \<le> wc_start_ms c + int k * wc_step_ms c + span_ms" using start c by linarith
  then have "add_or (wc_start_ms c + int k * wc_step_ms c) span_ms ''walk-forward window overflow''
      = Inr (wc_start_ms c + int k * wc_step_ms c + span_ms)"
    using room k by (simp add: add_or_Inr)
  with past show ?case by (subst walk_loop.simps) (simp add: k)
next
  case (Suc d)
  note c = walk_forward_span_Inr [OF span_ms]
  let ?s = "wc_start_ms c + int k * wc_step_ms c"
  have k: "k < window_count c" using Suc by simp
  have inside: "?s + span_ms \<le> wc_end_ms c"
    using window_count_iff [of c k] c k by simp
  have "(int k + 1) * wc_step_ms c \<le> int (window_count c) * wc_step_ms c"
    using k c by (intro mult_right_mono) simp_all
  then have up: "?s + wc_step_ms c + span_ms < 2 ^ 63" using room by (simp add: distrib_right)
  have "0 \<le> int k * wc_step_ms c" using c by simp
  then have low: "- (2 ^ 63) \<le> ?s" using start by simp
  have next_s: "?s + wc_step_ms c = wc_start_ms c + int (Suc k) * wc_step_ms c" by (simp add: distrib_right)
  have "add_or ?s span_ms ''walk-forward window overflow'' = Inr (?s + span_ms)"
    "add_or ?s (wc_step_ms c) ''walk-forward step overflow'' = Inr (?s + wc_step_ms c)"
    "push_window c ?s (length (map (window_at c) [0..<k]) + 1) = Inr (window_at c k)"
    using up low c push_window_at [of c ?s k] by (simp_all add: add_or_Inr)
  moreover have "walk_loop c span_ms (wc_start_ms c + int (Suc k) * wc_step_ms c) (map (window_at c) [0..<Suc k])
      = Some (Inr (map (window_at c) [0..<window_count c]))"
    using Suc k by (intro Suc.hyps(1)) simp_all
  ultimately show ?case
    using inside by (subst walk_loop.simps) (simp add: distrib_right algebra_simps)
qed

text \<open>C39: The windows are the ones the configuration describes. When the lengths are positive and the last step
  stays within \<open>i64\<close>, the loop produces, in order, every window that starts a whole number of steps after the
  start and ends within the range, and no other; each consists of a training, a validation and a test
  part that follow one another without a gap.\<close>

theorem walk_forward_windows_exact:
  assumes "walk_forward_span c = Inr span_ms" and "- (2 ^ 63) \<le> wc_start_ms c"
    and "wc_start_ms c + int (window_count c) * wc_step_ms c + span_ms < 2 ^ 63"
  shows "walk_forward_windows c = Some (Inr (map (window_at c) [0..<window_count c]))
    \<and> (\<forall>k. k < window_count c \<longleftrightarrow> wc_start_ms c + int k * wc_step_ms c + span_ms \<le> wc_end_ms c)
    \<and> (\<forall>k. manual_windows [wf_train (window_at c k), wf_validate (window_at c k), wf_test (window_at c k)]
          = Inr [wf_train (window_at c k), wf_validate (window_at c k), wf_test (window_at c k)])"
proof (intro conjI allI)
  note c = walk_forward_span_Inr [OF assms(1)]
  show "walk_forward_windows c = Some (Inr (map (window_at c) [0..<window_count c]))"
    using walk_loop_windows [OF assms, of 0] assms(1) by (simp add: walk_forward_windows_def)
  show "k < window_count c \<longleftrightarrow> wc_start_ms c + int k * wc_step_ms c + span_ms \<le> wc_end_ms c" for k
    using window_count_iff c by simp
  show "manual_windows [wf_train (window_at c k), wf_validate (window_at c k), wf_test (window_at c k)]
      = Inr [wf_train (window_at c k), wf_validate (window_at c k), wf_test (window_at c k)]" for k
    using c by (simp add: manual_windows_iff proper_def follows_def window_at_def Let_def)
qed

definition demo_walk :: WalkForwardConfig where
  "demo_walk = \<lparr>wc_start_ms = 0, wc_end_ms = 100, wc_train_ms = 30, wc_validate_ms = 10, wc_test_ms = 10, wc_step_ms = 20\<rparr>"

theorem walk_forward_windows_exact_witness:
  "walk_forward_windows demo_walk = Some (Inr (map (window_at demo_walk) [0..<3]))"
proof -
  have "walk_forward_span demo_walk = Inr 50" "window_count demo_walk = 3"
    by (simp_all add: walk_forward_span_def validate_positive_def add_or_def i64_checked_add_def demo_walk_def window_count_def)
  with walk_forward_windows_exact [of demo_walk 50] show ?thesis by (simp add: demo_walk_def)
qed

end
