(* ===== verification/Scheduler.thy ===== *)
theory Scheduler
  imports SharedDb
begin

text \<open>
  The jobs of \<^verbatim>\<open>src/apps/scheduler\<close>: \<^verbatim>\<open>jobs/membership_grace.rs\<close> pauses the strategies of members whose grace
  has run out, \<^verbatim>\<open>jobs/reminders.rs\<close> reminds members before they expire, \<^verbatim>\<open>jobs/symbol_sync.rs\<close> keeps counters.
  \<open>rfc\<close> stands for \<open>to_rfc3339\<close> of chrono. A job that stops on an error keeps what it wrote before.
\<close>

type_synonym ('j, 'a) job = "'j EphemeralState \<Rightarrow> 'a result \<times> 'j EphemeralState"

record MembershipSnapshot =
  ms_email :: string
  ms_status :: MembershipStatus
  ms_active_until :: "datetime option"
  ms_grace_until :: "datetime option"
  ms_override_status :: "MembershipStatus option"

record GracePauseAction =
  gp_email :: string
  gp_paused_at :: datetime

definition list_membership_records :: "'j EphemeralState \<Rightarrow> (string \<times> MembershipRecord) list" where
  "list_membership_records db = es_membership_records db"

definition list_notification_logs ::
  "'j EphemeralState \<Rightarrow> string \<Rightarrow> nat \<Rightarrow> 'j NotificationLogRecord list" where
  "list_notification_logs db user_email limit =
     (let items = sort_key nl_created_at
            (filter (\<lambda>record. eq_ignore_ascii_case (nl_user_email record) user_email) (es_notification_logs db))
      in drop (length items - limit) items)"

definition reached :: "datetime \<Rightarrow> datetime option \<Rightarrow> bool" where
  "reached now until = (case until of Some u \<Rightarrow> now \<ge> u | None \<Rightarrow> False)"

subsection \<open>Grace\<close>

definition due_grace_pauses :: "MembershipSnapshot list \<Rightarrow> datetime \<Rightarrow> GracePauseAction list" where
  "due_grace_pauses memberships now =
     map (\<lambda>m. \<lparr>gp_email = ms_email m, gp_paused_at = now\<rparr>)
       (filter (\<lambda>m. ms_status m = MGrace \<and> ms_override_status m = None \<and> reached now (ms_grace_until m)) memberships)"

definition pause_strategy_for_grace :: "datetime \<Rightarrow> Strategy \<Rightarrow> Strategy" where
  "pause_strategy_for_grace paused_at strategy =
     strategy\<lparr>st_status := Paused,
       st_runtime := (st_runtime strategy)\<lparr>
         rt_orders := map (\<lambda>order.
             if ro_status order \<in> set [''Working'', ''Placed'', ''Monitoring'', ''Armed'']
             then order\<lparr>ro_status := ''Canceled''\<rparr> else order) (rt_orders (st_runtime strategy)),
         rt_events := rt_events (st_runtime strategy) @
           [\<lparr>ev_event_type = ''membership_grace_paused'',
             ev_detail = ''strategy auto-paused after membership grace expired'',
             ev_price = None, ev_created_at = paused_at\<rparr>]\<rparr>\<rparr>"

text \<open>Both jobs write an in-app entry and, for a bound chat with a configured bot, one for the delivery.
  \<open>serde_error\<close> is the text of a serialisation error.\<close>

definition persist_expiry_notification ::
  "'j world \<Rightarrow> string \<Rightarrow> string \<Rightarrow> string \<Rightarrow> string \<Rightarrow> (string \<times> string) list \<Rightarrow> datetime \<Rightarrow> ('j, unit) job" where
  "persist_expiry_notification W serde_error email title message payload at_time db =
     (let binding = find_telegram_binding W db email;
          record = \<lparr>nr_event = \<lparr>ne_email = email, ne_kind = MembershipExpiring, ne_title = title,
                                ne_message = message, ne_payload = payload\<rparr>,
                    nr_telegram_delivered = (binding \<noteq> None), nr_in_app_delivered = True,
                    nr_show_expiry_popup = True\<rparr>
      in case j_of_record W record of
           None \<Rightarrow> (Inl serde_error, db)
         | Some value \<Rightarrow>
             (let entry = (\<lambda>channel status delivered_at.
                    \<lparr>nl_user_email = email, nl_channel = channel, nl_template_key = Some ''MembershipExpiring'',
                     nl_title = title, nl_body = message, nl_status = status, nl_payload = value,
                     nl_created_at = at_time, nl_delivered_at = delivered_at\<rparr>);
                  db = insert_notification_log (entry ''in_app'' ''delivered'' (Some at_time)) db
              in case (binding, bot_token W) of
                   (Some b, Some token) \<Rightarrow>
                     (let delivered = bot_send W token (tb_telegram_chat_id b) title message
                      in (Inr (), insert_notification_log
                            (entry ''telegram'' (if delivered then ''delivered'' else ''failed'')
                               (if delivered then Some at_time else None)) db))
                 | _ \<Rightarrow> (Inr (), db)))"

definition persist_grace_notification :: "'j world \<Rightarrow> string \<Rightarrow> string \<Rightarrow> string \<Rightarrow> datetime \<Rightarrow> ('j, unit) job" where
  "persist_grace_notification W serde_error email strategy_id at_time =
     persist_expiry_notification W serde_error email ''Membership grace expired''
       ''Strategy auto-paused after the 48-hour grace period expired.'' [(''strategy_id'', strategy_id)] at_time"

text \<open>The inner loop over the strategies of one member, listed before it starts.\<close>

fun grace_strategies ::
  "'j world \<Rightarrow> string \<Rightarrow> GracePauseAction \<Rightarrow> Strategy list \<Rightarrow> nat \<Rightarrow> ('j, nat) job" where
  "grace_strategies W e action [] paused db = (Inr paused, db)"
| "grace_strategies W e action (strategy # rest) paused db =
     (if st_status strategy \<noteq> Running then grace_strategies W e action rest paused db
      else
        let strategy = pause_strategy_for_grace (gp_paused_at action) strategy;
            db = snd (update_strategy strategy db)
        in case persist_grace_notification W e (gp_email action) (st_id strategy) (gp_paused_at action) db of
             (Inl err, db) \<Rightarrow> (Inl err, db)
           | (Inr _, db) \<Rightarrow> grace_strategies W e action rest (paused + 1) db)"

fun grace_actions :: "'j world \<Rightarrow> string \<Rightarrow> GracePauseAction list \<Rightarrow> nat \<Rightarrow> ('j, nat) job" where
  "grace_actions W e [] paused db = (Inr paused, db)"
| "grace_actions W e (action # actions) paused db =
     (case grace_strategies W e action (list_strategies db (gp_email action)) paused db of
        (Inl err, db) \<Rightarrow> (Inl err, db)
      | (Inr paused, db) \<Rightarrow> grace_actions W e actions paused db)"

definition grace_due :: "datetime \<Rightarrow> MembershipRecord \<Rightarrow> bool" where
  "grace_due now record \<longleftrightarrow> mr_override_status record = None \<and> reached now (mr_grace_until record)"

definition run_membership_grace_once :: "'j world \<Rightarrow> string \<Rightarrow> datetime \<Rightarrow> ('j, nat) job" where
  "run_membership_grace_once W e now db =
     grace_actions W e
       (map (\<lambda>(email, _). \<lparr>gp_email = email, gp_paused_at = now\<rparr>)
          (filter (\<lambda>(_, record). grace_due now record) (list_membership_records db))) 0 db"

subsection \<open>Reminders\<close>

datatype ReminderKind = Renewal | GraceEnding

record MembershipReminder =
  re_email :: string
  re_kind :: ReminderKind
  re_due_at :: datetime

definition due_within :: "datetime \<Rightarrow> datetime \<Rightarrow> datetime option \<Rightarrow> datetime option" where
  "due_within now until due = (case due of Some d \<Rightarrow> if d \<ge> now \<and> d \<le> until then Some d else None | None \<Rightarrow> None)"

definition due_reminder :: "datetime \<Rightarrow> datetime \<Rightarrow> MembershipSnapshot \<Rightarrow> MembershipReminder option" where
  "due_reminder now reminder_until m =
     (case (if ms_status m = MActive then due_within now reminder_until (ms_active_until m) else None) of
        Some d \<Rightarrow> Some \<lparr>re_email = ms_email m, re_kind = Renewal, re_due_at = d\<rparr>
      | None \<Rightarrow>
          map_option (\<lambda>d. \<lparr>re_email = ms_email m, re_kind = GraceEnding, re_due_at = d\<rparr>)
            (if ms_status m = MGrace then due_within now reminder_until (ms_grace_until m) else None))"

definition due_membership_reminders ::
  "MembershipSnapshot list \<Rightarrow> datetime \<Rightarrow> int \<Rightarrow> MembershipReminder list" where
  "due_membership_reminders memberships now lookahead =
     List.map_filter (due_reminder now (now + lookahead)) (filter (\<lambda>m. ms_override_status m = None) memberships)"

definition resolve_status :: "MembershipRecord \<Rightarrow> datetime \<Rightarrow> MembershipStatus" where
  "resolve_status record now =
     (case mr_override_status record of
        Some status \<Rightarrow> status
      | None \<Rightarrow>
          if (case mr_active_until record of Some u \<Rightarrow> now \<le> u | None \<Rightarrow> False) then MActive
          else if (case mr_grace_until record of Some u \<Rightarrow> now \<le> u | None \<Rightarrow> False) then MGrace
          else MExpired)"

definition log_due_at :: "'j world \<Rightarrow> 'j NotificationLogRecord \<Rightarrow> string option" where
  "log_due_at W record =
     Option.bind (j_get W (nl_payload record) ''event'') (\<lambda>event.
     Option.bind (j_get W event ''payload'') (\<lambda>payload.
     Option.bind (j_get W payload ''due_at'') (j_str W)))"

definition reminder_already_logged ::
  "'j world \<Rightarrow> (datetime \<Rightarrow> string) \<Rightarrow> 'j EphemeralState \<Rightarrow> MembershipReminder \<Rightarrow> bool" where
  "reminder_already_logged W rfc db reminder =
     list_ex (\<lambda>record. nl_template_key record = Some ''MembershipExpiring''
                 \<and> log_due_at W record = Some (rfc (re_due_at reminder)))
       (list_notification_logs db (re_email reminder) 50)"

fun reminder_message :: "ReminderKind \<Rightarrow> string \<times> string" where
  "reminder_message Renewal =
     (''Membership ending soon'',
      ''Membership is approaching expiry. Renew before grace begins to avoid strategy interruption.'')"
| "reminder_message GraceEnding =
     (''Grace period ending soon'',
      ''Membership grace is ending soon. Renew before grace expires to avoid auto-pause.'')"

fun send_reminders ::
  "'j world \<Rightarrow> string \<Rightarrow> (datetime \<Rightarrow> string) \<Rightarrow> datetime \<Rightarrow> MembershipReminder list \<Rightarrow> nat \<Rightarrow> ('j, nat) job" where
  "send_reminders W e rfc now [] inserted db = (Inr inserted, db)"
| "send_reminders W e rfc now (reminder # reminders) inserted db =
     (if reminder_already_logged W rfc db reminder then send_reminders W e rfc now reminders inserted db
      else
        let (title, message) = reminder_message (re_kind reminder)
        in case persist_expiry_notification W e (re_email reminder) title message
                  [(''due_at'', rfc (re_due_at reminder)),
                   (''kind'', case re_kind reminder of Renewal \<Rightarrow> ''renewal'' | GraceEnding \<Rightarrow> ''grace-ending'')] now db of
             (Inl err, db) \<Rightarrow> (Inl err, db)
           | (Inr _, db) \<Rightarrow> send_reminders W e rfc now reminders (inserted + 1) db)"

definition run_membership_reminders_once ::
  "'j world \<Rightarrow> string \<Rightarrow> (datetime \<Rightarrow> string) \<Rightarrow> datetime \<Rightarrow> int \<Rightarrow> ('j, nat) job" where
  "run_membership_reminders_once W e rfc now lookahead db =
     (let memberships = map (\<lambda>(email, record).
            \<lparr>ms_email = email, ms_status = resolve_status record now, ms_active_until = mr_active_until record,
             ms_grace_until = mr_grace_until record, ms_override_status = mr_override_status record\<rparr>)
            (list_membership_records db)
      in send_reminders W e rfc now (due_membership_reminders memberships now lookahead) 0 db)"

subsection \<open>Symbol synchronisation\<close>

record SymbolSyncRuntimeState =
  sy_run_count :: u64
  sy_failure_count :: u64
  sy_last_run_at :: "datetime option"
  sy_last_failure_at :: "datetime option"
  sy_last_synced_symbols :: nat
  sy_last_error :: "string option"

definition record_public_symbol_sync_result ::
  "datetime \<Rightarrow> 'sym list result \<Rightarrow> SymbolSyncRuntimeState \<Rightarrow> SymbolSyncRuntimeState" where
  "record_public_symbol_sync_result now result state =
     (let state = state\<lparr>sy_run_count := sy_run_count state + 1, sy_last_run_at := Some now\<rparr>
      in case result of
           Inr symbols \<Rightarrow> state\<lparr>sy_last_synced_symbols := length symbols, sy_last_error := None\<rparr>
         | Inl error \<Rightarrow> state\<lparr>sy_failure_count := sy_failure_count state + 1,
                            sy_last_failure_at := Some now, sy_last_error := Some error\<rparr>)"

text \<open>\<open>Vec::dedup_by\<close>: an element goes if it has the key of the last one kept.\<close>

fun dedup_by :: "('a \<Rightarrow> 'a \<Rightarrow> bool) \<Rightarrow> 'a list \<Rightarrow> 'a list" where
  "dedup_by same (x # y # zs) = (if same y x then dedup_by same (x # zs) else x # dedup_by same (y # zs))"
| "dedup_by same xs = xs"

definition sort_and_dedup_symbols :: "('sym \<Rightarrow> string) \<Rightarrow> ('sym \<Rightarrow> string) \<Rightarrow> 'sym list \<Rightarrow> 'sym list" where
  "sort_and_dedup_symbols symbol market symbols =
     dedup_by (\<lambda>left right. symbol left = symbol right \<and> market left = market right)
       (sort_key (\<lambda>s. (symbol s, market s)) symbols)"

end
