(* ===== verification/SchedulerProps.thy ===== *)
theory SchedulerProps
  imports Scheduler LifecycleProps
begin

text \<open>The grace job does what it promises: exactly the running strategies of members whose grace has run
  out are paused, once, and everything else stays as it was.\<close>

definition stored_key :: "Strategy \<Rightarrow> string \<times> string" where
  "stored_key s = (st_id s, st_owner_email s)"

definition strategies_distinct :: "'j EphemeralState \<Rightarrow> bool" where
  "strategies_distinct db \<longleftrightarrow> distinct (map (\<lambda>e. stored_key (snd e)) (es_strategies db))"

definition serializable :: "'j world \<Rightarrow> bool" where
  "serializable W \<longleftrightarrow> (\<forall>r. j_of_record W r \<noteq> None)"

lemma pause_keeps_key [simp]: "stored_key (pause_strategy_for_grace t s) = stored_key s"
  by (simp add: stored_key_def pause_strategy_for_grace_def)

lemma pause_status [simp]: "st_status (pause_strategy_for_grace t s) = Paused"
  by (simp add: pause_strategy_for_grace_def)

lemma update_first_only:
  "distinct (map f xs) \<Longrightarrow> x \<in> set xs \<Longrightarrow>
     update_first (\<lambda>y. f y = f x) g xs = map (\<lambda>y. if f y = f x then g y else y) xs"
proof (induction xs)
  case (Cons z xs)
  show ?case
  proof (cases "f z = f x")
    case True
    then have "f x \<notin> set (map f xs)" using Cons.prems(1) by simp
    then have "map (\<lambda>y. if f y = f x then g y else y) xs = xs" by (intro map_idI) (auto simp: rev_image_eqI)
    with True show ?thesis by simp
  next
    case False
    then have "x \<in> set xs" using Cons.prems(2) by auto
    with Cons False show ?thesis by simp
  qed
qed simp

text \<open>Writing a changed copy of a stored, unarchived strategy replaces it and nothing else.\<close>

lemma update_stored:
  assumes d: "strategies_distinct db" and s: "(k, s) \<in> set (es_strategies db)" "st_status s \<noteq> Archived"
    and key: "stored_key s' = stored_key s"
  shows "snd (update_strategy s' db) = db\<lparr>es_strategies :=
    map (\<lambda>(k, x). (k, if stored_key x = stored_key s then s' else x)) (es_strategies db)\<rparr>"
proof -
  have same: "same_strategy s' = (\<lambda>e. stored_key (snd e) = stored_key s)"
    using key by (auto simp: same_strategy_def stored_key_def fun_eq_iff)
  have dist: "distinct (map (\<lambda>e. stored_key (snd e)) (es_strategies db))"
    using d by (simp add: strategies_distinct_def)
  have "find (same_strategy s') (es_strategies db) = Some (k, s)"
  proof -
    have "find (same_strategy s') (es_strategies db) \<noteq> None"
      using s(1) by (auto simp: find_None_iff same)
    then obtain e where e: "find (same_strategy s') (es_strategies db) = Some e" by blast
    then have "e \<in> set (es_strategies db)" "stored_key (snd e) = stored_key s"
      by (auto simp: find_Some_iff same)
    moreover have "inj_on (\<lambda>e. stored_key (snd e)) (set (es_strategies db))"
      using dist by (simp add: distinct_map)
    ultimately have "e = (k, s)" using s(1) by (auto dest: inj_onD [where y = "(k, s)"])
    with e show ?thesis by simp
  qed
  moreover have "update_first (same_strategy s') (\<lambda>(k, _). (k, s')) (es_strategies db)
      = map (\<lambda>(k, x). (k, if stored_key x = stored_key s then s' else x)) (es_strategies db)"
    using update_first_only [OF dist s(1), of "\<lambda>(k, _). (k, s')"]
    by (simp add: same) (auto simp: split_beta)
  ultimately show ?thesis using s(2) by (simp add: update_strategy_def)
qed

lemma expiry_notification_total:
  assumes "serializable W"
  shows "\<exists>db'. persist_expiry_notification W e email title message payload t db = (Inr (), db')
    \<and> es_strategies db' = es_strategies db \<and> es_membership_records db' = es_membership_records db"
proof -
  obtain v where "j_of_record W \<lparr>nr_event = \<lparr>ne_email = email, ne_kind = MembershipExpiring, ne_title = title,
        ne_message = message, ne_payload = payload\<rparr>, nr_telegram_delivered = (find_telegram_binding W db email \<noteq> None),
        nr_in_app_delivered = True, nr_show_expiry_popup = True\<rparr> = Some v"
    using assms unfolding serializable_def by (meson not_None_eq)
  then show ?thesis
    by (auto simp: persist_expiry_notification_def Let_def insert_notification_log_def split: option.splits)
qed

definition paused_where :: "(Strategy \<Rightarrow> bool) \<Rightarrow> datetime \<Rightarrow> 'k \<times> Strategy \<Rightarrow> 'k \<times> Strategy" where
  "paused_where P t = (\<lambda>(k, s). (k, if st_status s = Running \<and> P s then pause_strategy_for_grace t s else s))"

lemma paused_where_key: "(\<lambda>e. stored_key (snd e)) (paused_where P t e) = (\<lambda>e. stored_key (snd e)) e"
  by (simp add: paused_where_def split_beta)

lemma paused_where_distinct:
  "strategies_distinct db \<Longrightarrow> strategies_distinct (db\<lparr>es_strategies := map (paused_where P t) (es_strategies db)\<rparr>)"
  by (simp add: strategies_distinct_def comp_def paused_where_key cong: map_cong)

lemma grace_strategies_spec:
  assumes W: "serializable W"
  shows "strategies_distinct db \<Longrightarrow> distinct (map stored_key ss) \<Longrightarrow> set ss \<subseteq> snd ` set (es_strategies db) \<Longrightarrow>
    \<exists>db'. grace_strategies W e a ss n db = (Inr (n + length (filter (\<lambda>s. st_status s = Running) ss)), db')
      \<and> es_strategies db' = map (paused_where (\<lambda>s. s \<in> set ss) (gp_paused_at a)) (es_strategies db)
      \<and> es_membership_records db' = es_membership_records db"
proof (induction ss arbitrary: n db)
  case Nil
  have "map (paused_where (\<lambda>s. s \<in> set []) (gp_paused_at a)) (es_strategies db) = es_strategies db"
    by (intro map_idI) (simp add: paused_where_def split_beta)
  then show ?case by simp
next
  case (Cons s ss)
  show ?case
  proof (cases "st_status s = Running")
    case False
    have "map (paused_where (\<lambda>x. x \<in> set (s # ss)) (gp_paused_at a)) (es_strategies db)
        = map (paused_where (\<lambda>x. x \<in> set ss) (gp_paused_at a)) (es_strategies db)"
      using False by (auto simp: paused_where_def)
    moreover obtain db' where "grace_strategies W e a ss n db = (Inr (n + length (filter (\<lambda>s. st_status s = Running) ss)), db')"
      "es_strategies db' = map (paused_where (\<lambda>x. x \<in> set ss) (gp_paused_at a)) (es_strategies db)"
      "es_membership_records db' = es_membership_records db"
      using Cons.IH [of db n] Cons.prems by auto
    ultimately show ?thesis using False by (intro exI [of _ db']) simp
  next
    case True
    let ?s = "pause_strategy_for_grace (gp_paused_at a) s"
    obtain k where k: "(k, s) \<in> set (es_strategies db)" using Cons.prems(3) by auto
    define db1 where "db1 = snd (update_strategy ?s db)"
    have db1: "db1 = db\<lparr>es_strategies := map (\<lambda>(k, x). (k, if stored_key x = stored_key s then ?s else x)) (es_strategies db)\<rparr>"
      unfolding db1_def using True by (intro update_stored [OF Cons.prems(1) k]) simp_all
    have keys: "map (\<lambda>e. stored_key (snd e)) (es_strategies db1) = map (\<lambda>e. stored_key (snd e)) (es_strategies db)"
      by (auto simp: db1 split_beta)
    then have d1: "strategies_distinct db1" using Cons.prems(1) by (simp add: strategies_distinct_def)
    have inj: "x = s" if x: "x \<in> snd ` set (es_strategies db)" "stored_key x = stored_key s" for x
    proof -
      obtain k' where "(k', x) \<in> set (es_strategies db)" using x(1) by auto
      moreover have "inj_on (\<lambda>e. stored_key (snd e)) (set (es_strategies db))"
        using Cons.prems(1) by (simp add: strategies_distinct_def distinct_map)
      ultimately have "(k', x) = (k, s)" using k x(2) inj_onD [of "\<lambda>e. stored_key (snd e)" "set (es_strategies db)" "(k', x)" "(k, s)"] by simp
      then show ?thesis by simp
    qed
    obtain db2 where p: "persist_grace_notification W e (gp_email a) (st_id ?s) (gp_paused_at a) db1 = (Inr (), db2)"
      and db2: "es_strategies db2 = es_strategies db1" "es_membership_records db2 = es_membership_records db1"
      using expiry_notification_total [OF W] unfolding persist_grace_notification_def by blast
    have "set ss \<subseteq> snd ` set (es_strategies db2)"
    proof
      fix x assume x: "x \<in> set ss"
      then have "stored_key x \<noteq> stored_key s" using Cons.prems(2) by (auto simp: rev_image_eqI)
      moreover obtain k' where "(k', x) \<in> set (es_strategies db)" using Cons.prems(3) x by auto
      ultimately show "x \<in> snd ` set (es_strategies db2)" by (force simp: db2 db1)
    qed
    moreover have "strategies_distinct db2" using d1 db2 by (simp add: strategies_distinct_def)
    ultimately obtain db' where r: "grace_strategies W e a ss (n + 1) db2
        = (Inr (n + 1 + length (filter (\<lambda>s. st_status s = Running) ss)), db')"
      "es_strategies db' = map (paused_where (\<lambda>s. s \<in> set ss) (gp_paused_at a)) (es_strategies db2)"
      "es_membership_records db' = es_membership_records db2"
      using Cons.IH [of db2 "n + 1"] Cons.prems(2) by auto
    have "es_strategies db' = map (paused_where (\<lambda>x. x \<in> set (s # ss)) (gp_paused_at a)) (es_strategies db)"
      unfolding r(2) db2 db1
      using True inj by (auto simp: paused_where_def split_beta rev_image_eqI)
    then show ?thesis
      using True p r db2 by (simp add: Let_def db1_def [symmetric]) (simp add: db1)
  qed
qed

lemma paused_where_twice: "paused_where P t (paused_where Q t e) = paused_where (\<lambda>s. Q s \<or> P s) t e"
  by (cases e) (auto simp: paused_where_def)

text \<open>Pausing the strategies of one owner first leaves the other owners' to count.\<close>

lemma count_paused:
  "length (filter (\<lambda>s. st_status s = Running) (filter (\<lambda>s. st_owner_email s = o1) (map snd xs)))
    + length (filter (\<lambda>(_, s). st_status s = Running \<and> P (st_owner_email s)) (map (paused_where (\<lambda>s. st_owner_email s = o1) t) xs))
    = length (filter (\<lambda>(_, s). st_status s = Running \<and> (st_owner_email s = o1 \<or> P (st_owner_email s))) xs)"
proof (induction xs)
  case (Cons x xs)
  obtain k s where x: "x = (k, s)" by (cases x)
  have "st_owner_email (pause_strategy_for_grace t s) = st_owner_email s" by (simp add: pause_strategy_for_grace_def)
  with Cons show ?case by (auto simp: x paused_where_def)
qed simp

lemma grace_actions_spec:
  assumes W: "serializable W"
  shows "strategies_distinct db \<Longrightarrow> list_all (\<lambda>a. gp_paused_at a = t) as \<Longrightarrow>
    \<exists>db'. grace_actions W e as n db
        = (Inr (n + length (filter (\<lambda>(_, s). st_status s = Running \<and> st_owner_email s \<in> gp_email ` set as) (es_strategies db))), db')
      \<and> es_strategies db' = map (paused_where (\<lambda>s. st_owner_email s \<in> gp_email ` set as) t) (es_strategies db)
      \<and> es_membership_records db' = es_membership_records db"
proof (induction as arbitrary: n db)
  case Nil
  have "map (paused_where (\<lambda>s. st_owner_email s \<in> gp_email ` set []) t) (es_strategies db) = es_strategies db"
    by (intro map_idI) (simp add: paused_where_def split_beta)
  then show ?case by simp
next
  case (Cons a as)
  let ?ss = "list_strategies db (gp_email a)" and ?own = "\<lambda>as s. st_owner_email s \<in> gp_email ` set as"
  have dist: "distinct (map stored_key ?ss)"
    using Cons.prems(1) unfolding strategies_distinct_def list_strategies_def filter_map map_map
    by (simp add: distinct_map_filter comp_def split_beta)
  have sub: "set ?ss \<subseteq> snd ` set (es_strategies db)" by (auto simp: list_strategies_def)
  have t: "gp_paused_at a = t" using Cons.prems(2) by simp
  obtain db1 where g: "grace_strategies W e a ?ss n db = (Inr (n + length (filter (\<lambda>s. st_status s = Running) ?ss)), db1)"
    "es_strategies db1 = map (paused_where (\<lambda>s. s \<in> set ?ss) t) (es_strategies db)"
    "es_membership_records db1 = es_membership_records db"
    using grace_strategies_spec [OF W Cons.prems(1) dist sub, of e a n] t by blast
  have es1: "es_strategies db1 = map (paused_where (\<lambda>s. st_owner_email s = gp_email a) t) (es_strategies db)"
    unfolding g(2) by (intro map_cong) (force simp: paused_where_def list_strategies_def split_beta)+
  have d1: "strategies_distinct db1"
    using paused_where_distinct [OF Cons.prems(1)] es1 by (simp add: strategies_distinct_def)
  obtain db' where r: "grace_actions W e as (n + length (filter (\<lambda>s. st_status s = Running) ?ss)) db1
      = (Inr (n + length (filter (\<lambda>s. st_status s = Running) ?ss)
          + length (filter (\<lambda>(_, s). st_status s = Running \<and> ?own as s) (es_strategies db1))), db')"
    "es_strategies db' = map (paused_where (?own as) t) (es_strategies db1)"
    "es_membership_records db' = es_membership_records db1"
    using Cons.IH [OF d1, of "n + length (filter (\<lambda>s. st_status s = Running) ?ss)"] Cons.prems(2) by auto
  have es': "es_strategies db' = map (paused_where (?own (a # as)) t) (es_strategies db)"
    unfolding r(2) es1 by (simp add: paused_where_twice comp_def)
  have count: "length (filter (\<lambda>s. st_status s = Running) ?ss)
      + length (filter (\<lambda>(_, s). st_status s = Running \<and> ?own as s) (es_strategies db1))
      = length (filter (\<lambda>(_, s). st_status s = Running \<and> ?own (a # as) s) (es_strategies db))"
    using count_paused [of "gp_email a" "es_strategies db" "\<lambda>x. x \<in> gp_email ` set as" t]
    unfolding es1 list_strategies_def by simp
  show ?case using g r es' count by (simp add: add.assoc)
qed

definition grace_ended :: "datetime \<Rightarrow> 'j EphemeralState \<Rightarrow> Strategy \<Rightarrow> bool" where
  "grace_ended now db s \<longleftrightarrow>
     (\<exists>record. (st_owner_email s, record) \<in> set (es_membership_records db) \<and> grace_due now record)"

text \<open>C36: The grace job. With one entry per strategy and a store that serialises, the job pauses exactly the
  running strategies of the members whose grace has ended and who have no override, and reports their
  number; no other strategy and no membership changes. A second run finds nothing left to pause.\<close>

theorem grace_job_exact:
  assumes "serializable W" and "strategies_distinct db"
  shows "\<exists>db'. run_membership_grace_once W e now db
        = (Inr (length (filter (\<lambda>(_, s). st_status s = Running \<and> grace_ended now db s) (es_strategies db))), db')
      \<and> es_strategies db' = map (paused_where (grace_ended now db) now) (es_strategies db)
      \<and> es_membership_records db' = es_membership_records db
      \<and> (\<exists>db''. run_membership_grace_once W e now db' = (Inr 0, db'') \<and> es_strategies db'' = es_strategies db')"
proof -
  let ?as = "\<lambda>db. map (\<lambda>(email, _). \<lparr>gp_email = email, gp_paused_at = now\<rparr>)
      (filter (\<lambda>(_, record). grace_due now record) (es_membership_records db))"
  have t: "list_all (\<lambda>a. gp_paused_at a = now) (?as db)" for db by (simp add: list_all_iff split_beta)
  have due: "st_owner_email s \<in> gp_email ` set (?as db) \<longleftrightarrow> grace_ended now db s" for s
    by (force simp: grace_ended_def image_iff)
  obtain db' where r: "run_membership_grace_once W e now db
        = (Inr (length (filter (\<lambda>(_, s). st_status s = Running \<and> grace_ended now db s) (es_strategies db))), db')"
    and es: "es_strategies db' = map (paused_where (grace_ended now db) now) (es_strategies db)"
    and ms: "es_membership_records db' = es_membership_records db"
    using grace_actions_spec [OF assms(1,2) t [of db], where e = e and n = 0]
    unfolding run_membership_grace_once_def list_membership_records_def due by auto
  have d': "strategies_distinct db'"
    using paused_where_distinct [OF assms(2)] es by (simp add: strategies_distinct_def)
  have none: "filter (\<lambda>(_, s). st_status s = Running \<and> grace_ended now db s) (es_strategies db') = []"
    by (auto simp: es paused_where_def filter_empty_conv split: if_splits)
  have keep: "map (paused_where (grace_ended now db) now) (es_strategies db') = es_strategies db'"
    using none by (intro map_idI) (auto simp: paused_where_def filter_empty_conv split_beta)
  obtain db'' where "run_membership_grace_once W e now db' = (Inr 0, db'')" "es_strategies db'' = es_strategies db'"
    using grace_actions_spec [OF assms(1) d' t [of db'], where e = e and n = 0] none keep
    unfolding run_membership_grace_once_def list_membership_records_def ms due by auto
  with r es ms show ?thesis by blast
qed


definition demo_grace_db :: "demo_json EphemeralState" where
  "demo_grace_db = empty_state
     \<lparr>es_strategies := [(1, demo_futures ''s1'' Running default_runtime), (2, demo_futures ''s2'' Stopped default_runtime)],
      es_membership_records := [(st_owner_email (demo_futures ''s1'' Running default_runtime),
        \<lparr>mr_activated_at = Some 0, mr_active_until = Some 3, mr_grace_until = Some 5, mr_override_status = None\<rparr>)]\<rparr>"

theorem grace_job_exact_witness:
  "fst (run_membership_grace_once demo_world ''e'' 10 demo_grace_db) = Inr 1"
proof -
  have W: "serializable demo_world" by (simp add: serializable_def demo_world_def)
  have d: "strategies_distinct demo_grace_db"
    by (simp add: strategies_distinct_def demo_grace_db_def stored_key_def demo_futures_def)
  have "length (filter (\<lambda>(_, s). st_status s = Running \<and> grace_ended 10 demo_grace_db s) (es_strategies demo_grace_db)) = 1"
    by (simp add: grace_ended_def demo_grace_db_def demo_futures_def demo_strategy_def grace_due_def reached_def)
  with grace_job_exact [OF W d, where e = "''e''" and now = 10] show ?thesis by auto
qed

end
