(* ===== verification/Membership.thy ===== *)
theory Membership
  imports AuthService Billing Scheduler
begin

text \<open>
  \<^verbatim>\<open>api-server/src/services/membership_service.rs\<close>: billing orders, the manual matching of deposits, the
  administration of memberships, plans, deposit addresses and sweeps. The store is the shared one with
  four more tables of the in-memory backend: sequences and audit log (in \<open>identity_db\<close>), plan prices,
  the set of transfers seen, and sweep jobs. The errors of this service have the form of those of
  authentication. Instants are unbounded, so the panic of chrono on dates beyond its range is not modelled.
\<close>

subsection \<open>State\<close>

record MembershipPlanPriceRecord =
  pp_plan_code :: string
  pp_chain :: string
  pp_asset :: string
  pp_amount :: string

record SweepTransferRecord =
  sw_from_address :: string
  sw_to_address :: string
  sw_amount :: string
  sw_tx_hash :: "string option"
  sw_status :: string
  sw_submitted_at :: "datetime option"
  sw_confirmed_at :: "datetime option"
  sw_failed_at :: "datetime option"
  sw_error_message :: "string option"

record SweepJobRecord =
  sj_sweep_job_id :: u64
  sj_chain :: string
  sj_asset :: string
  sj_status :: string
  sj_requested_by :: string
  sj_requested_at :: datetime
  sj_treasury_address :: string
  sj_submitted_at :: "datetime option"
  sj_completed_at :: "datetime option"
  sj_failed_at :: "datetime option"
  sj_last_error :: "string option"
  sj_attempt_count :: nat
  sj_transfers :: "SweepTransferRecord list"

record 'j service_db =
  sd_store :: "'j EphemeralState"
  sd_identity :: identity_db
  sd_plan_prices :: "((string \<times> string \<times> string) \<times> MembershipPlanPriceRecord) list"
  sd_seen_transfers :: "string list"
  sd_sweep_jobs :: "(u64 \<times> SweepJobRecord) list"

text \<open>\<open>me_production\<close> is whether \<open>APP_ENV\<close> names production, \<open>me_rfc3339\<close> is the text of an instant.\<close>

record 'j membership_env =
  me_world :: "'j world"
  me_rfc3339 :: "datetime \<Rightarrow> string"
  me_now :: datetime
  me_production :: bool

type_synonym ('j, 'a) service_op = "'j service_db \<Rightarrow> 'a auth_result \<times> 'j service_db"

definition on_store :: "('j EphemeralState \<Rightarrow> 'j EphemeralState) \<Rightarrow> 'j service_db \<Rightarrow> 'j service_db" where
  "on_store f db = db\<lparr>sd_store := f (sd_store db)\<rparr>"

definition push_audit :: "AuditLogRecord \<Rightarrow> 'j service_db \<Rightarrow> 'j service_db" where
  "push_audit audit db =
     db\<lparr>sd_identity := (sd_identity db)\<lparr>audit_logs := audit_logs (sd_identity db) @ [audit]\<rparr>\<rparr>"

definition service_sequence :: "string \<Rightarrow> 'j service_db \<Rightarrow> u64 \<times> 'j service_db" where
  "service_sequence name db =
     (let (n, identity) = next_sequence name (sd_identity db) in (n, db\<lparr>sd_identity := identity\<rparr>))"

definition billing_bad_request :: "string \<Rightarrow> AuthError" where
  "billing_bad_request message = auth_err BAD_REQUEST message"

definition billing_not_found :: "string \<Rightarrow> AuthError" where
  "billing_not_found message = auth_err NOT_FOUND message"

subsection \<open>Operations of the store\<close>

definition list_plan_prices :: "'j service_db \<Rightarrow> MembershipPlanPriceRecord list" where
  "list_plan_prices db = map snd (sd_plan_prices db)"

definition upsert_plan_price :: "MembershipPlanPriceRecord \<Rightarrow> 'j service_db \<Rightarrow> 'j service_db" where
  "upsert_plan_price price db =
     db\<lparr>sd_plan_prices := AList.update (pp_plan_code price, pp_chain price, pp_asset price) price (sd_plan_prices db)\<rparr>"

definition upsert_membership_plan_with_prices_and_audit ::
  "MembershipPlanRecord \<Rightarrow> MembershipPlanPriceRecord list \<Rightarrow> AuditLogRecord \<Rightarrow> 'j service_db \<Rightarrow> 'j service_db" where
  "upsert_membership_plan_with_prices_and_audit plan prices audit db =
     push_audit audit (fold upsert_plan_price prices (on_store (upsert_membership_plan plan) db))"

text \<open>\<open>HashSet::insert\<close>: whether the key is new.\<close>

definition record_seen_transfer :: "string \<Rightarrow> string \<Rightarrow> 'j service_db \<Rightarrow> bool \<times> 'j service_db" where
  "record_seen_transfer tx_hash chain db =
     (let key = deposit_key chain tx_hash
      in if key \<in> set (sd_seen_transfers db) then (False, db)
         else (True, db\<lparr>sd_seen_transfers := key # sd_seen_transfers db\<rparr>))"

definition find_order :: "'j service_db \<Rightarrow> u64 \<Rightarrow> BillingOrderRecord option" where
  "find_order db order_id = map_of (es_billing_orders (sd_store db)) order_id"

definition apply_exact_match_membership_payment_with_audit ::
  "'j world \<Rightarrow> u64 \<Rightarrow> string \<Rightarrow> string \<Rightarrow> datetime \<Rightarrow> string \<Rightarrow> datetime \<Rightarrow> datetime \<Rightarrow> AuditLogRecord \<Rightarrow>
   'j service_db \<Rightarrow> bool \<times> 'j service_db" where
  "apply_exact_match_membership_payment_with_audit W order_id chain tx_hash paid_at email active_until grace_until audit db =
     (case find_order db order_id of
        None \<Rightarrow> (False, db)
      | Some order \<Rightarrow>
          if bo_paid_at order \<noteq> None then (False, db)
          else
            (case record_seen_transfer tx_hash chain db of
               (False, db) \<Rightarrow> (False, db)
             | (True, db) \<Rightarrow>
                 (True, push_audit audit
                    (on_store (apply_membership_payment W order_id chain tx_hash paid_at email active_until grace_until) db))))"

definition apply_membership_payment_with_audit ::
  "'j world \<Rightarrow> u64 \<Rightarrow> string \<Rightarrow> string \<Rightarrow> datetime \<Rightarrow> string \<Rightarrow> datetime \<Rightarrow> datetime \<Rightarrow> AuditLogRecord \<Rightarrow>
   'j service_db \<Rightarrow> 'j service_db" where
  "apply_membership_payment_with_audit W order_id chain tx_hash paid_at email active_until grace_until audit db =
     push_audit audit
       (on_store (apply_membership_payment W order_id chain tx_hash paid_at email active_until grace_until) db)"

definition set_pending_deposit ::
  "DepositTransactionRecord \<Rightarrow> ('j service_db \<Rightarrow> 'j service_db) \<Rightarrow> AuditLogRecord \<Rightarrow> 'j service_db \<Rightarrow> bool \<times> 'j service_db" where
  "set_pending_deposit deposit f audit db =
     (case map_of (es_deposit_transactions (sd_store db)) (deposit_key (dt_chain deposit) (dt_tx_hash deposit)) of
        None \<Rightarrow> (False, db)
      | Some existing \<Rightarrow>
          if dt_status existing \<noteq> ''manual_review_required'' then (False, db)
          else (True, push_audit audit (f (on_store (upsert_deposit_transaction deposit) db))))"

definition update_pending_deposit_with_audit ::
  "DepositTransactionRecord \<Rightarrow> AuditLogRecord \<Rightarrow> 'j service_db \<Rightarrow> bool \<times> 'j service_db" where
  "update_pending_deposit_with_audit record audit db = set_pending_deposit record id audit db"

definition pay_order :: "'j world \<Rightarrow> u64 \<Rightarrow> string \<Rightarrow> datetime \<Rightarrow> string \<Rightarrow> datetime \<Rightarrow> datetime \<Rightarrow> 'j EphemeralState \<Rightarrow> 'j EphemeralState" where
  "pay_order W order_id tx_hash paid_at email active_until grace_until db =
     db\<lparr>es_billing_orders := modify_key order_id
          (\<lambda>order. order\<lparr>bo_paid_at := Some paid_at, bo_tx_hash := Some tx_hash, bo_status := ''paid'',
             bo_enqueued_at := None\<rparr>) (es_billing_orders db),
        es_membership_records := AList.update (w_lower W email)
          \<lparr>mr_activated_at = Some paid_at, mr_active_until = Some active_until,
           mr_grace_until = Some grace_until, mr_override_status = None\<rparr> (es_membership_records db)\<rparr>"

definition apply_membership_payment_with_claimed_pending_deposit_and_audit ::
  "'j world \<Rightarrow> u64 \<Rightarrow> string \<Rightarrow> datetime \<Rightarrow> string \<Rightarrow> datetime \<Rightarrow> datetime \<Rightarrow> DepositTransactionRecord \<Rightarrow> AuditLogRecord \<Rightarrow>
   'j service_db \<Rightarrow> bool \<times> 'j service_db" where
  "apply_membership_payment_with_claimed_pending_deposit_and_audit W order_id tx_hash paid_at email active_until grace_until deposit audit db =
     (case find_order db order_id of
        None \<Rightarrow> (False, db)
      | Some order \<Rightarrow>
          if bo_paid_at order \<noteq> None then (False, db)
          else set_pending_deposit deposit
                 (on_store (pay_order W order_id tx_hash paid_at email active_until grace_until)) audit db)"

subsection \<open>Helpers\<close>

definition DEFAULT_PLAN_CONFIG :: "(string \<times> string \<times> 32 word \<times> string) list" where
  "DEFAULT_PLAN_CONFIG =
     [(''monthly'', ''Monthly'', 30, ''20.00000000''), (''quarterly'', ''Quarterly'', 90, ''54.00000000''),
      (''yearly'', ''Yearly'', 365, ''180.00000000'')]"

definition DEFAULT_CHAIN_CODES :: "string list" where
  "DEFAULT_CHAIN_CODES = [''ETH'', ''BSC'', ''SOL'']"

definition DEFAULT_ASSETS :: "string list" where
  "DEFAULT_ASSETS = [''USDT'', ''USDC'']"

definition placeholder_addresses :: "(string \<times> string list) list" where
  "placeholder_addresses =
     [(''ETH'', [''eth-addr-1'', ''eth-addr-2'', ''eth-addr-3'', ''eth-addr-4'', ''eth-addr-5'']),
      (''BSC'', [''bsc-addr-1'', ''bsc-addr-2'', ''bsc-addr-3'', ''bsc-addr-4'', ''bsc-addr-5'']),
      (''SOL'', [''sol-addr-1'', ''sol-addr-2'', ''sol-addr-3'', ''sol-addr-4'', ''sol-addr-5''])]"

definition normalize_upper :: "'j world \<Rightarrow> string \<Rightarrow> string" where
  "normalize_upper W s = w_upper W (str_trim s)"

definition normalize_code :: "'j world \<Rightarrow> string \<Rightarrow> string" where
  "normalize_code W s = w_lower W (str_trim s)"

definition service_status :: "MembershipRecord \<Rightarrow> datetime option \<Rightarrow> MembershipStatus" where
  "service_status record at_time =
     (case (at_time, mr_active_until record, mr_grace_until record) of
        (Some t, Some active_until, grace) \<Rightarrow>
          if t \<le> active_until then MActive
          else (case grace of None \<Rightarrow> MPending | Some grace_until \<Rightarrow> if t \<le> grace_until then MGrace else MExpired)
      | (None, Some _, Some _) \<Rightarrow> MExpired
      | _ \<Rightarrow> MPending)"

definition snapshot_for ::
  "string \<Rightarrow> MembershipRecord option \<Rightarrow> datetime option \<Rightarrow> MembershipSnapshot" where
  "snapshot_for email record at_time =
     (let override_status = Option.bind record mr_override_status;
          status = (case override_status of
              Some status \<Rightarrow> status
            | None \<Rightarrow>
                (case record of
                   None \<Rightarrow> MPending
                 | Some r \<Rightarrow> service_status r (case at_time of Some t \<Rightarrow> Some t | None \<Rightarrow> mr_activated_at r)))
      in \<lparr>ms_email = email, ms_status = status, ms_active_until = Option.bind record mr_active_until,
          ms_grace_until = Option.bind record mr_grace_until, ms_override_status = override_status\<rparr>)"

definition optional_time_summary :: "(datetime \<Rightarrow> string) \<Rightarrow> datetime option \<Rightarrow> string" where
  "optional_time_summary rfc value = (case value of Some t \<Rightarrow> rfc t | None \<Rightarrow> ''-'')"

definition membership_record_summary ::
  "(datetime \<Rightarrow> string) \<Rightarrow> string \<Rightarrow> MembershipRecord option \<Rightarrow> datetime option \<Rightarrow> string" where
  "membership_record_summary rfc email record at_time =
     (let snapshot = snapshot_for email record at_time
      in ''status '' @ membership_status_to_str (ms_status snapshot)
         @ '' | active '' @ optional_time_summary rfc (ms_active_until snapshot)
         @ '' | grace '' @ optional_time_summary rfc (ms_grace_until snapshot)
         @ '' | override '' @ (case ms_override_status snapshot of
                                Some status \<Rightarrow> membership_status_to_str status | None \<Rightarrow> ''none''))"

definition audit_opt :: "('a \<Rightarrow> audit_value) \<Rightarrow> 'a option \<Rightarrow> audit_value" where
  "audit_opt f v = (case v of Some x \<Rightarrow> f x | None \<Rightarrow> AuditNull)"

definition audit_u64 :: "u64 \<Rightarrow> audit_value" where
  "audit_u64 n = AuditInt (int (unat n))"

text \<open>The fields every audit of an administrator carries.\<close>

definition admin_audit ::
  "string \<Rightarrow> string \<Rightarrow> string \<Rightarrow> string \<Rightarrow> (string \<times> audit_value) list \<Rightarrow> AdminRole option \<Rightarrow> u64 \<Rightarrow> string \<Rightarrow> string \<Rightarrow>
   datetime \<Rightarrow> AuditLogRecord" where
  "admin_audit actor_email action target_type target_id entries admin_role session_sid before_summary after_summary created_at =
     \<lparr>al_actor_email = actor_email, al_action = action, al_target_type = target_type, al_target_id = target_id,
      al_payload = entries @
        [(''session_role'', audit_opt (\<lambda>role. AuditStr (role_str role)) admin_role),
         (''session_sid'', audit_u64 session_sid), (''before_summary'', AuditStr before_summary),
         (''after_summary'', AuditStr after_summary)],
      al_created_at = created_at\<rparr>"

subsection \<open>Defaults and queue\<close>

definition seed_plan ::
  "MembershipPlanRecord list \<Rightarrow> MembershipPlanPriceRecord list \<Rightarrow> string \<times> string \<times> 32 word \<times> string \<Rightarrow>
   'j service_db \<Rightarrow> 'j service_db" where
  "seed_plan existing_plans existing_prices config db =
     (case config of (code, name, duration_days, amount) \<Rightarrow>
        let db = (if list_ex (\<lambda>plan. mp_code plan = code) existing_plans then db
                  else on_store (upsert_membership_plan
                         \<lparr>mp_code = code, mp_name = name, mp_duration_days = duration_days, mp_is_active = True\<rparr>) db)
        in fold (\<lambda>(chain, asset) db.
                   if list_ex (\<lambda>price. pp_plan_code price = code \<and> pp_chain price = chain \<and> pp_asset price = asset) existing_prices
                   then db
                   else upsert_plan_price \<lparr>pp_plan_code = code, pp_chain = chain, pp_asset = asset, pp_amount = amount\<rparr> db)
             (List.product DEFAULT_CHAIN_CODES DEFAULT_ASSETS) db)"

definition seed_addresses :: "DepositAddressPoolRecord list \<Rightarrow> 'j service_db \<Rightarrow> 'j service_db" where
  "seed_addresses existing db =
     fold (\<lambda>(chain, addresses) db.
        fold (\<lambda>address db.
           if list_ex (\<lambda>record. da_chain record = chain \<and> da_address record = address) existing then db
           else on_store (upsert_deposit_address \<lparr>da_chain = chain, da_address = address, da_is_enabled = True\<rparr>) db)
          addresses db) placeholder_addresses db"

definition bootstrap_defaults :: "'j membership_env \<Rightarrow> 'j service_db \<Rightarrow> 'j service_db" where
  "bootstrap_defaults M db =
     (let existing_plans = list_membership_plans (sd_store db);
          existing_prices = list_plan_prices db;
          existing_addresses = list_deposit_addresses (sd_store db);
          db = fold (seed_plan existing_plans existing_prices) DEFAULT_PLAN_CONFIG db
      in if me_production M then db else seed_addresses existing_addresses db)"

definition promotion_chains :: "BillingOrderRecord list \<Rightarrow> DepositAddressPoolRecord list \<Rightarrow> string list" where
  "promotion_chains orders addresses =
     (let add = (\<lambda>chain chains. if chain \<in> set chains then chains else chains @ [chain])
      in fold add (map da_chain addresses) (fold add (map bo_chain orders) []))"

definition promote_queued_orders :: "datetime \<Rightarrow> 'j service_db \<Rightarrow> 'j service_db" where
  "promote_queued_orders at_time db =
     (let orders = list_billing_orders (sd_store db)
      in fold (\<lambda>chain db.
           fold (\<lambda>order db. on_store (\<lambda>store.
                   snd (allocate_or_queue_billing_order (bo_order_id order) chain at_time store)) db)
             (queued_orders chain orders) db)
           (promotion_chains orders (list_deposit_addresses (sd_store db))) db)"

definition queue_position_for :: "u64 \<Rightarrow> string \<Rightarrow> BillingOrderRecord list \<Rightarrow> u64 option" where
  "queue_position_for order_id chain orders =
     map_option (\<lambda>index. of_nat index + 1)
       (find_index (\<lambda>order. bo_order_id order = order_id) (queued_orders chain orders))"

subsection \<open>Orders\<close>

record CreateBillingOrderRequest =
  co_email :: string
  co_chain :: string
  co_asset :: string
  co_plan_code :: string
  co_requested_at :: datetime

record CreateBillingOrderResponse =
  cr_order_id :: u64
  cr_chain :: string
  cr_asset :: string
  cr_address :: "string option"
  cr_amount :: string
  cr_expires_at :: "datetime option"
  cr_status :: MembershipStatus
  cr_queue_position :: "u64 option"

definition create_order ::
  "'j membership_env \<Rightarrow> CreateBillingOrderRequest \<Rightarrow> ('j, CreateBillingOrderResponse) service_op" where
  "create_order M request db =
     (let W = me_world M;
          db = bootstrap_defaults M db;
          email = w_lower W (str_trim (co_email request));
          chain = normalize_upper W (co_chain request);
          asset = normalize_upper W (co_asset request);
          plan_code = normalize_code W (co_plan_code request)
      in if email = [] \<or> chain = [] \<or> asset = [] \<or> plan_code = []
         then (Inl (billing_bad_request ''email, chain, asset, and plan_code are required''), db)
         else if chain \<notin> set DEFAULT_CHAIN_CODES then (Inl (billing_bad_request ''unsupported chain''), db)
         else if asset \<notin> set DEFAULT_ASSETS then (Inl (billing_bad_request ''unsupported asset''), db)
         else
           let db = promote_queued_orders (co_requested_at request) db
           in case find (\<lambda>plan. mp_code plan = plan_code \<and> mp_is_active plan) (list_membership_plans (sd_store db)) of
                None \<Rightarrow> (Inl (billing_bad_request ''unknown plan_code''), db)
              | Some _ \<Rightarrow>
                  (case find (\<lambda>price. pp_plan_code price = plan_code \<and> pp_chain price = chain \<and> pp_asset price = asset)
                          (list_plan_prices db) of
                     None \<Rightarrow> (Inl (billing_bad_request ''price not configured for chain and asset''), db)
                   | Some price \<Rightarrow>
                       let (order_id, db) = service_sequence ''billing_order_id'' db;
                           db = on_store (insert_billing_order
                             \<lparr>bo_order_id = order_id, bo_email = email, bo_chain = chain, bo_asset = asset,
                              bo_plan_code = plan_code, bo_amount = pp_amount price,
                              bo_requested_at = co_requested_at request, bo_assignment = None, bo_paid_at = None,
                              bo_tx_hash = None, bo_status = ''queued'',
                              bo_enqueued_at = Some (co_requested_at request)\<rparr>) db;
                           (assignment, store) =
                             allocate_or_queue_billing_order order_id chain (co_requested_at request) (sd_store db);
                           db = db\<lparr>sd_store := store\<rparr>
                       in (Inr \<lparr>cr_order_id = order_id, cr_chain = chain, cr_asset = asset,
                                cr_address = map_option aa_address assignment, cr_amount = pp_amount price,
                                cr_expires_at = map_option aa_expires_at assignment, cr_status = MPending,
                                cr_queue_position = (if assignment = None
                                   then queue_position_for order_id chain (list_billing_orders (sd_store db)) else None)\<rparr>, db)))"

definition membership_entitlement_window ::
  "'j world \<Rightarrow> BillingOrderRecord \<Rightarrow> datetime \<Rightarrow> 'j EphemeralState \<Rightarrow> (datetime \<times> datetime) auth_result" where
  "membership_entitlement_window W order paid_at store =
     (case find (\<lambda>plan. mp_code plan = bo_plan_code order) (list_membership_plans store) of
        None \<Rightarrow> Inl (billing_bad_request ''plan not configured'')
      | Some plan \<Rightarrow> Inr (entitlement_window (find_membership_record W store (bo_email order)) plan paid_at))"

definition confirming_transaction_exists :: "'j service_db \<Rightarrow> string \<Rightarrow> string \<Rightarrow> bool" where
  "confirming_transaction_exists db chain tx_hash =
     list_ex (\<lambda>record. dt_chain record = chain \<and> normalize_chain_tx_hash chain (dt_tx_hash record) = tx_hash
                 \<and> dt_status record = ''confirming'') (list_deposit_transactions (sd_store db))"

definition payment_audit ::
  "string \<Rightarrow> BillingOrderRecord \<Rightarrow> string \<Rightarrow> string \<Rightarrow> string \<Rightarrow> datetime \<Rightarrow> datetime \<Rightarrow> (string \<times> audit_value) list \<Rightarrow>
   datetime \<Rightarrow> AuditLogRecord" where
  "payment_audit actor_email order tx_hash chain asset active_until grace_until extra paid_at =
     \<lparr>al_actor_email = actor_email, al_action = ''membership.payment_applied'', al_target_type = ''membership_order'',
      al_target_id = u64_text (bo_order_id order),
      al_payload = [(''tx_hash'', AuditStr tx_hash), (''chain'', AuditStr chain), (''asset'', AuditStr asset),
        (''active_until'', AuditTime active_until), (''grace_until'', AuditTime grace_until)] @ extra,
      al_created_at = paid_at\<rparr>"

definition apply_membership_entitlement ::
  "'j world \<Rightarrow> string \<Rightarrow> BillingOrderRecord \<Rightarrow> string \<Rightarrow> string \<Rightarrow> string \<Rightarrow> datetime \<Rightarrow> ('j, bool) service_op" where
  "apply_membership_entitlement W actor_email order tx_hash chain asset paid_at db =
     (case membership_entitlement_window W order paid_at (sd_store db) of
        Inl e \<Rightarrow> (Inl e, db)
      | Inr (active_until, grace_until) \<Rightarrow>
          let (applied, db) = apply_exact_match_membership_payment_with_audit W (bo_order_id order) (bo_chain order)
                tx_hash paid_at (bo_email order) active_until grace_until
                (payment_audit actor_email order tx_hash chain asset active_until grace_until [] paid_at) db
          in (Inr applied, db))"

definition promote_confirming_exact_match ::
  "'j world \<Rightarrow> string \<Rightarrow> BillingOrderRecord \<Rightarrow> string \<Rightarrow> string \<Rightarrow> string \<Rightarrow> datetime \<Rightarrow> ('j, unit) service_op" where
  "promote_confirming_exact_match W actor_email order tx_hash chain asset paid_at db =
     (case membership_entitlement_window W order paid_at (sd_store db) of
        Inl e \<Rightarrow> (Inl e, db)
      | Inr (active_until, grace_until) \<Rightarrow>
          (Inr (), apply_membership_payment_with_audit W (bo_order_id order) (bo_chain order) tx_hash paid_at
             (bo_email order) active_until grace_until
             (payment_audit actor_email order tx_hash chain asset active_until grace_until
                [(''from_status'', AuditStr ''confirming'')] paid_at) db))"

definition persist_deposit_confirmation_notification ::
  "'j world \<Rightarrow> BillingOrderRecord \<Rightarrow> string \<Rightarrow> datetime \<Rightarrow> ('j, unit) service_op" where
  "persist_deposit_confirmation_notification W order tx_hash at_time db =
     (case notify_deposit W order tx_hash at_time (sd_store db) of
        (Inl _, store) \<Rightarrow> (Inl auth_storage_error, db\<lparr>sd_store := store\<rparr>)
      | (Inr _, store) \<Rightarrow> (Inr (), db\<lparr>sd_store := store\<rparr>))"

record MatchBillingOrderResponse =
  mo_matched :: bool
  mo_reason :: "string option"
  mo_order_id :: "u64 option"
  mo_email :: "string option"
  mo_membership_status :: "MembershipStatus option"
  mo_active_until :: "datetime option"
  mo_grace_until :: "datetime option"
  mo_deposit_status :: string

definition unmatched_response :: "string \<Rightarrow> string \<Rightarrow> MatchBillingOrderResponse" where
  "unmatched_response reason deposit_status =
     \<lparr>mo_matched = False, mo_reason = Some reason, mo_order_id = None, mo_email = None, mo_membership_status = None,
      mo_active_until = None, mo_grace_until = None, mo_deposit_status = deposit_status\<rparr>"

definition duplicate_match_response :: MatchBillingOrderResponse where
  "duplicate_match_response = unmatched_response ''duplicate_transaction'' ''duplicate_ignored''"

text \<open>The address filter of the service compares the stored address as it is.\<close>

definition is_service_candidate :: "string \<Rightarrow> string \<Rightarrow> datetime \<Rightarrow> BillingOrderRecord \<Rightarrow> bool" where
  "is_service_candidate chain address observed_at order \<longleftrightarrow>
     bo_paid_at order = None \<and> bo_requested_at order \<le> observed_at \<and> bo_chain order = chain
     \<and> (case bo_assignment order of None \<Rightarrow> False | Some assignment \<Rightarrow> aa_address assignment = address)"

definition is_service_match :: "string \<Rightarrow> string \<Rightarrow> datetime \<Rightarrow> BillingOrderRecord \<Rightarrow> bool" where
  "is_service_match asset amount observed_at order \<longleftrightarrow>
     bo_asset order = asset \<and> canonicalize_amount (bo_amount order) = Some amount
     \<and> (case bo_assignment order of None \<Rightarrow> False | Some assignment \<Rightarrow> observed_at \<le> aa_expires_at assignment)"

text \<open>The branch with exactly one order that fits.\<close>

definition match_single ::
  "'j world \<Rightarrow> string \<Rightarrow> string \<Rightarrow> string \<Rightarrow> string \<Rightarrow> u32 \<Rightarrow> datetime \<Rightarrow> BillingOrderRecord \<Rightarrow>
   ('j, MatchBillingOrderResponse) service_op" where
  "match_single W actor_email chain asset tx_hash confirmations observed_at order db =
     (if \<not> confirming_transaction_exists db chain tx_hash
      then (Inl (billing_bad_request ''automatic exact matches must originate from chain listener''), db)
      else if confirmations < read_required_confirmations W (sd_store db) chain
      then (Inr \<lparr>mo_matched = False, mo_reason = Some ''awaiting_confirmations'', mo_order_id = Some (bo_order_id order),
                 mo_email = Some (bo_email order), mo_membership_status = None, mo_active_until = None,
                 mo_grace_until = None, mo_deposit_status = ''confirming''\<rparr>, db)
      else
        (case apply_membership_entitlement W actor_email order tx_hash chain asset observed_at db of
           (Inl e, db) \<Rightarrow> (Inl e, db)
         | (Inr applied, db) \<Rightarrow>
             (case (if applied then (Inr (), db)
                    else promote_confirming_exact_match W actor_email order tx_hash chain asset observed_at db) of
                (Inl e, db) \<Rightarrow> (Inl e, db)
              | (Inr _, db) \<Rightarrow>
                  (case persist_deposit_confirmation_notification W order tx_hash observed_at db of
                     (Inl e, db) \<Rightarrow> (Inl e, db)
                   | (Inr _, db) \<Rightarrow>
                       let snapshot = snapshot_for (bo_email order)
                             (find_membership_record W (sd_store db) (bo_email order)) (Some observed_at)
                       in (Inr \<lparr>mo_matched = True, mo_reason = None, mo_order_id = Some (bo_order_id order),
                                mo_email = Some (bo_email order), mo_membership_status = Some (ms_status snapshot),
                                mo_active_until = ms_active_until snapshot, mo_grace_until = ms_grace_until snapshot,
                                mo_deposit_status = ''matched''\<rparr>, db)))))"

text \<open>Why the rest goes to review; the single candidate is compared by the text of its amount.\<close>

definition service_review ::
  "string \<Rightarrow> string \<Rightarrow> datetime \<Rightarrow> BillingOrderRecord list \<Rightarrow> BillingOrderRecord list \<Rightarrow> string \<times> u64 option" where
  "service_review asset amount observed_at address_candidates valid_candidates =
     (let expired = (\<lambda>order. case bo_assignment order of
            None \<Rightarrow> False | Some assignment \<Rightarrow> observed_at > aa_expires_at assignment)
      in if length valid_candidates > 1 then (''ambiguous_match'', None)
         else if length address_candidates > 1 \<and> valid_candidates = [] then
           (if list_ex (\<lambda>order. bo_asset order \<noteq> asset) address_candidates then (''wrong_asset'', None)
            else if list_all expired address_candidates
            then (''order_expired'', map_option bo_order_id (case address_candidates of [] \<Rightarrow> None | x # _ \<Rightarrow> Some x))
            else (''exact_amount_required'', None))
         else
           (case address_candidates of
              order # _ \<Rightarrow>
                if bo_asset order \<noteq> asset then (''wrong_asset'', Some (bo_order_id order))
                else if bo_amount order \<noteq> amount then (''exact_amount_required'', Some (bo_order_id order))
                else if expired order then (''order_expired'', Some (bo_order_id order))
                else (''order_not_found'', None)
            | [] \<Rightarrow> (''order_not_found'', None)))"

definition match_order ::
  "'j membership_env \<Rightarrow> string \<Rightarrow> ObservedChainTransfer \<Rightarrow> ('j, MatchBillingOrderResponse) service_op" where
  "match_order M actor_email request db =
     (let W = me_world M;
          db = bootstrap_defaults M db;
          chain = normalize_upper W (ct_chain request);
          asset = normalize_upper W (ct_asset request);
          address = normalize_chain_address chain (str_trim (ct_address request));
          tx_hash = normalize_chain_tx_hash chain (str_trim (ct_tx_hash request));
          observed_at = ct_observed_at request
      in case canonicalize_amount (ct_amount request) of
           None \<Rightarrow> (Inl (billing_bad_request ''invalid amount''), db)
         | Some amount \<Rightarrow>
             if chain = [] \<or> asset = [] \<or> address = [] \<or> tx_hash = []
             then (Inl (billing_bad_request ''chain, asset, address, amount, and tx_hash are required''), db)
             else
               let db = promote_queued_orders observed_at db;
                   address_candidates =
                     filter (is_service_candidate chain address observed_at) (list_billing_orders (sd_store db));
                   valid_candidates = filter (is_service_match asset amount observed_at) address_candidates
               in case valid_candidates of
                    [order] \<Rightarrow>
                      match_single W actor_email chain asset tx_hash
                        (case ct_confirmations request of Some n \<Rightarrow> n | None \<Rightarrow> 0) observed_at order db
                  | _ \<Rightarrow>
                      (case record_seen_transfer tx_hash chain db of
                         (False, db) \<Rightarrow> (Inr duplicate_match_response, db)
                       | (True, db) \<Rightarrow>
                           let (reason, order_id) =
                                 service_review asset amount observed_at address_candidates valid_candidates
                           in (Inr (unmatched_response reason ''manual_review_required''),
                               on_store (upsert_deposit_transaction
                                 \<lparr>dt_tx_hash = tx_hash, dt_chain = chain, dt_asset = asset, dt_address = address,
                                  dt_amount = amount, dt_observed_at = observed_at, dt_order_id = order_id,
                                  dt_status = ''manual_review_required'', dt_review_reason = Some reason,
                                  dt_processed_at = None, dt_matched_order_id = None\<rparr>) db)))"


subsection \<open>Memberships by hand\<close>

definition membership_status_op ::
  "'j membership_env \<Rightarrow> string \<Rightarrow> datetime \<Rightarrow> ('j, MembershipSnapshot) service_op" where
  "membership_status_op M request_email at_time db =
     (let W = me_world M; db = bootstrap_defaults M db; email = w_lower W (str_trim request_email)
      in if email = [] then (Inl (billing_bad_request ''email is required''), db)
         else (Inr (snapshot_for email (find_membership_record W (sd_store db) email) (Some at_time)), db))"

definition override_membership ::
  "'j membership_env \<Rightarrow> string \<Rightarrow> AdminRole option \<Rightarrow> u64 \<Rightarrow> string \<Rightarrow> MembershipStatus option \<Rightarrow> datetime option \<Rightarrow>
   ('j, MembershipSnapshot) service_op" where
  "override_membership M actor_email admin_role session_sid request_email status at_time db =
     (let W = me_world M; db = bootstrap_defaults M db; email = w_lower W (str_trim request_email)
      in if email = [] then (Inl (billing_bad_request ''email is required''), db)
         else if status \<notin> {None, Some MFrozen, Some MRevoked}
         then (Inl (billing_bad_request ''override only supports Frozen or Revoked''), db)
         else
           let before_record = find_membership_record W (sd_store db) email;
               effective_at = (case at_time of Some t \<Rightarrow> Some t | None \<Rightarrow> Option.bind before_record mr_activated_at);
               updated_record = (case before_record of Some r \<Rightarrow> r | None \<Rightarrow> default_membership)\<lparr>mr_override_status := status\<rparr>;
               audit = admin_audit actor_email ''membership.override_updated'' ''membership'' email
                 [(''override_status'', audit_opt (\<lambda>s. AuditStr (membership_status_to_str s)) status)]
                 admin_role session_sid
                 (membership_record_summary (me_rfc3339 M) email before_record effective_at)
                 (membership_record_summary (me_rfc3339 M) email (Some updated_record) effective_at)
                 (case at_time of Some t \<Rightarrow> t | None \<Rightarrow> me_now M);
               db = push_audit audit (on_store (update_membership_override W email status) db)
           in (Inr (snapshot_for email (find_membership_record W (sd_store db) email) effective_at), db))"

definition positive_duration_days :: "int option \<Rightarrow> int auth_result" where
  "positive_duration_days duration_days =
     (case duration_days of
        None \<Rightarrow> Inl (billing_bad_request ''duration_days is required'')
      | Some n \<Rightarrow> if n \<le> 0 then Inl (billing_bad_request ''duration_days must be greater than 0'') else Inr n)"

text \<open>The record an action of \<open>manage_membership\<close> leaves, with the name of its audit.\<close>

definition managed_record ::
  "string \<Rightarrow> MembershipRecord \<Rightarrow> int option \<Rightarrow> datetime \<Rightarrow> (MembershipRecord \<times> string) auth_result" where
  "managed_record action current duration_days at_time =
     (if action = ''open'' then
        (case positive_duration_days duration_days of
           Inl e \<Rightarrow> Inl e
         | Inr d \<Rightarrow> Inr (\<lparr>mr_activated_at = Some at_time, mr_active_until = Some (at_time + days d),
                        mr_grace_until = Some (at_time + days d + hours 48), mr_override_status = None\<rparr>,
                      ''membership.manual_opened''))
      else if action = ''extend'' then
        (case positive_duration_days duration_days of
           Inl e \<Rightarrow> Inl e
         | Inr d \<Rightarrow>
             let base =
                   (if (case mr_grace_until current of Some grace_until \<Rightarrow> at_time \<le> grace_until | None \<Rightarrow> False)
                    then (case mr_active_until current of Some until \<Rightarrow> until | None \<Rightarrow> at_time)
                    else (case mr_active_until current of
                            Some until \<Rightarrow> if until > at_time then until else at_time | None \<Rightarrow> at_time));
                 active_until = base + days d
             in Inr (\<lparr>mr_activated_at = (case mr_activated_at current of Some t \<Rightarrow> Some t | None \<Rightarrow> Some at_time),
                      mr_active_until = Some active_until, mr_grace_until = Some (active_until + hours 48),
                      mr_override_status = None\<rparr>, ''membership.manual_extended''))
      else if action = ''unfreeze''
      then Inr (current\<lparr>mr_override_status := None\<rparr>, ''membership.manual_unfrozen'')
      else Inl (billing_bad_request ''unsupported membership action''))"

definition manage_membership ::
  "'j membership_env \<Rightarrow> string \<Rightarrow> AdminRole option \<Rightarrow> u64 \<Rightarrow> string \<Rightarrow> string \<Rightarrow> int option \<Rightarrow> datetime \<Rightarrow>
   ('j, MembershipSnapshot) service_op" where
  "manage_membership M actor_email admin_role session_sid request_email request_action duration_days at_time db =
     (let W = me_world M; db = bootstrap_defaults M db;
          email = w_lower W (str_trim request_email); action = normalize_code W request_action
      in if email = [] then (Inl (billing_bad_request ''email is required''), db)
         else
           let current = (case find_membership_record W (sd_store db) email of Some r \<Rightarrow> r | None \<Rightarrow> default_membership);
               before_summary = membership_record_summary (me_rfc3339 M) email (Some current) (Some at_time)
           in case managed_record action current duration_days at_time of
                Inl e \<Rightarrow> (Inl e, db)
              | Inr (updated, action_name) \<Rightarrow>
                  let after_summary = membership_record_summary (me_rfc3339 M) email (Some updated) (Some at_time);
                      audit = admin_audit actor_email action_name ''membership'' email
                        [(''duration_days'', audit_opt AuditInt duration_days), (''at'', AuditTime at_time)]
                        admin_role session_sid before_summary after_summary at_time;
                      db = push_audit audit (on_store (upsert_membership_record W email updated) db)
                  in (Inr (snapshot_for email (find_membership_record W (sd_store db) email) (Some at_time)), db))"

subsection \<open>Plans and addresses\<close>

definition seen_price_step ::
  "'j world \<Rightarrow> string \<times> string \<times> string \<Rightarrow> (string \<times> string \<times> string) list \<Rightarrow> (string \<times> string \<times> string) list auth_result" where
  "seen_price_step W price prices =
     (case price of (c, a, amount) \<Rightarrow>
        let chain = normalize_upper W c; asset = normalize_upper W a
        in if chain \<notin> set DEFAULT_CHAIN_CODES \<or> asset \<notin> set DEFAULT_ASSETS
           then Inl (billing_bad_request ''unsupported chain or asset'')
           else if list_ex (\<lambda>(c, a, _). c = chain \<and> a = asset) prices
           then Inl (billing_bad_request ''complete price matrix is required'')
           else case canonicalize_amount amount of
             None \<Rightarrow> Inl (billing_bad_request ''invalid amount'')
           | Some amount \<Rightarrow>
               if amount = ''0.00000000'' then Inl (billing_bad_request ''price amount must be greater than 0'')
               else Inr (prices @ [(chain, asset, amount)]))"

fun collect_prices ::
  "'j world \<Rightarrow> (string \<times> string \<times> string) list \<Rightarrow> (string \<times> string \<times> string) list \<Rightarrow>
   (string \<times> string \<times> string) list auth_result" where
  "collect_prices W [] prices = Inr prices"
| "collect_prices W (price # rest) prices =
     (case seen_price_step W price prices of Inl e \<Rightarrow> Inl e | Inr prices \<Rightarrow> collect_prices W rest prices)"

definition join :: "string \<Rightarrow> string list \<Rightarrow> string" where
  "join sep parts = (case parts of [] \<Rightarrow> [] | p # ps \<Rightarrow> p @ concat (map (\<lambda>q. sep @ q) ps))"

definition bool_text :: "bool \<Rightarrow> string" where
  "bool_text b = (if b then ''true'' else ''false'')"

definition plan_config_summary ::
  "string \<Rightarrow> string \<Rightarrow> 32 word \<Rightarrow> bool \<Rightarrow> (string \<times> string \<times> string) list \<Rightarrow> string" where
  "plan_config_summary code name duration_days is_active prices =
     code @ '' '' @ name @ '' '' @ show_int (sint duration_days) @ ''d active '' @ bool_text is_active @ '' prices ''
     @ join '', '' (sort (map (\<lambda>(chain, asset, amount). chain @ ''/'' @ asset @ '' '' @ amount) prices))"

definition plan_config_summary_from_records ::
  "string \<Rightarrow> MembershipPlanRecord option \<Rightarrow> MembershipPlanPriceRecord list \<Rightarrow> string" where
  "plan_config_summary_from_records code plan prices =
     (case plan of
        Some p \<Rightarrow> plan_config_summary code (mp_name p) (mp_duration_days p) (mp_is_active p)
                    (map (\<lambda>price. (pp_chain price, pp_asset price, pp_amount price)) prices)
      | None \<Rightarrow> ''plan '' @ code @ '' absent'')"

record MembershipPlanConfigResponse =
  pc_code :: string
  pc_name :: string
  pc_duration_days :: "32 word"
  pc_is_active :: bool
  pc_prices :: "(string \<times> string \<times> string) list"

definition list_plan_configs :: "'j membership_env \<Rightarrow> ('j, MembershipPlanConfigResponse list) service_op" where
  "list_plan_configs M db =
     (let db = bootstrap_defaults M db
      in (Inr (map (\<lambda>plan. \<lparr>pc_code = mp_code plan, pc_name = mp_name plan, pc_duration_days = mp_duration_days plan,
                 pc_is_active = mp_is_active plan,
                 pc_prices = map (\<lambda>price. (pp_chain price, pp_asset price, pp_amount price))
                   (filter (\<lambda>price. pp_plan_code price = mp_code plan) (list_plan_prices db))\<rparr>)
             (list_membership_plans (sd_store db))), db))"

definition upsert_plan_config ::
  "'j membership_env \<Rightarrow> string \<Rightarrow> AdminRole option \<Rightarrow> u64 \<Rightarrow> string \<Rightarrow> string \<Rightarrow> 32 word \<Rightarrow> bool \<Rightarrow>
   (string \<times> string \<times> string) list \<Rightarrow> ('j, MembershipPlanConfigResponse) service_op" where
  "upsert_plan_config M actor_email admin_role session_sid request_code request_name duration_days is_active request_prices db =
     (let W = me_world M; db = bootstrap_defaults M db;
          code = normalize_code W request_code; name = str_trim request_name
      in if code = [] \<or> name = [] \<or> sint duration_days \<le> 0
         then (Inl (billing_bad_request ''code, name, and positive duration_days are required''), db)
         else if request_prices = [] then (Inl (billing_bad_request ''at least one price is required''), db)
         else case collect_prices W request_prices [] of
           Inl e \<Rightarrow> (Inl e, db)
         | Inr prices \<Rightarrow>
             if length request_prices \<noteq> length DEFAULT_CHAIN_CODES * length DEFAULT_ASSETS
                \<or> list_ex (\<lambda>(c, a). \<not> list_ex (\<lambda>(c', a', _). c' = c \<and> a' = a) prices)
                     (List.product DEFAULT_CHAIN_CODES DEFAULT_ASSETS)
             then (Inl (billing_bad_request ''complete price matrix is required''), db)
             else
               let before_summary = plan_config_summary_from_records code
                     (find (\<lambda>plan. mp_code plan = code) (list_membership_plans (sd_store db)))
                     (filter (\<lambda>price. pp_plan_code price = code) (list_plan_prices db));
                   after_summary = plan_config_summary code name duration_days is_active prices;
                   audit = admin_audit actor_email ''membership.plan_config_updated'' ''membership_plan'' code
                     [(''duration_days'', AuditInt (sint duration_days)), (''is_active'', AuditBool is_active),
                      (''price_count'', AuditInt (int (length prices))),
                      (''prices'', AuditList (map (\<lambda>(c, a, amount). AuditObject
                         [(''chain'', AuditStr c), (''asset'', AuditStr a), (''amount'', AuditStr amount)]) prices))]
                     admin_role session_sid before_summary after_summary (me_now M)
               in (Inr \<lparr>pc_code = code, pc_name = name, pc_duration_days = duration_days, pc_is_active = is_active,
                        pc_prices = prices\<rparr>,
                   upsert_membership_plan_with_prices_and_audit
                     \<lparr>mp_code = code, mp_name = name, mp_duration_days = duration_days, mp_is_active = is_active\<rparr>
                     (map (\<lambda>(c, a, amount). \<lparr>pp_plan_code = code, pp_chain = c, pp_asset = a, pp_amount = amount\<rparr>) prices)
                     audit db))"

definition address_pool_summary :: "string \<Rightarrow> string \<Rightarrow> bool option \<Rightarrow> string" where
  "address_pool_summary chain address is_enabled =
     chain @ '' '' @ address @
       (case is_enabled of Some True \<Rightarrow> '' enabled'' | Some False \<Rightarrow> '' disabled'' | None \<Rightarrow> '' absent'')"

definition list_address_pools :: "'j membership_env \<Rightarrow> ('j, DepositAddressPoolRecord list) service_op" where
  "list_address_pools M db =
     (let db = bootstrap_defaults M db
      in (Inr (sort_key (\<lambda>r. (da_chain r, da_address r)) (list_deposit_addresses (sd_store db))), db))"

definition upsert_address_pool_entry ::
  "'j membership_env \<Rightarrow> string \<Rightarrow> AdminRole option \<Rightarrow> u64 \<Rightarrow> string \<Rightarrow> string \<Rightarrow> bool \<Rightarrow>
   ('j, DepositAddressPoolRecord) service_op" where
  "upsert_address_pool_entry M actor_email admin_role session_sid request_chain request_address is_enabled db =
     (let W = me_world M; db = bootstrap_defaults M db;
          chain = normalize_upper W request_chain; address = str_trim request_address
      in if chain = [] \<or> address = [] then (Inl (billing_bad_request ''chain and address are required''), db)
         else if chain \<notin> set DEFAULT_CHAIN_CODES then (Inl (billing_bad_request ''unsupported chain''), db)
         else
           let before_summary = address_pool_summary chain address
                 (map_option da_is_enabled (find (\<lambda>r. da_chain r = chain \<and> da_address r = address)
                    (list_deposit_addresses (sd_store db))));
               after_summary = address_pool_summary chain address (Some is_enabled);
               audit = admin_audit actor_email ''billing.address_pool_updated'' ''deposit_address'' (chain @ '':'' @ address)
                 [(''is_enabled'', AuditBool is_enabled)] admin_role session_sid before_summary after_summary (me_now M);
               entry = \<lparr>da_chain = chain, da_address = address, da_is_enabled = is_enabled\<rparr>
           in (Inr entry, push_audit audit (on_store (upsert_deposit_address entry) db)))"

subsection \<open>Deposits in review\<close>

definition human_review_reason :: "string \<Rightarrow> string" where
  "human_review_reason reason =
     (if reason = ''awaiting_confirmations'' then ''Awaiting confirmations''
      else if reason = ''ambiguous_match'' then ''Ambiguous match''
      else if reason = ''wrong_asset'' then ''Wrong asset''
      else if reason = ''exact_amount_required'' then ''Exact amount required''
      else if reason = ''order_expired'' then ''Order expired''
      else if reason = ''order_not_found'' then ''Order not found''
      else if reason \<noteq> [] then reason
      else ''Unspecified'')"

definition abnormal_deposit_before_summary :: "DepositTransactionRecord \<Rightarrow> string" where
  "abnormal_deposit_before_summary deposit =
     (case dt_review_reason deposit of
        Some reason \<Rightarrow> if reason \<noteq> [] then dt_status deposit @ '' '' @ reason else dt_status deposit
      | None \<Rightarrow> dt_status deposit)"

definition abnormal_deposit_after_summary :: "string \<Rightarrow> string \<Rightarrow> u64 option \<Rightarrow> string" where
  "abnormal_deposit_after_summary status decision order_id =
     status @ '' '' @ decision @ (case order_id of Some n \<Rightarrow> '' order '' @ u64_text n | None \<Rightarrow> [])"

definition matches_manual_credit_confirmation :: "string \<Rightarrow> bool" where
  "matches_manual_credit_confirmation value \<longleftrightarrow>
     str_trim value = ''MANUAL_CREDIT_MEMBERSHIP'' \<or> str_trim value = ''confirm manual credit''"

definition manual_credit_target_consistent :: "DepositTransactionRecord \<Rightarrow> BillingOrderRecord \<Rightarrow> bool" where
  "manual_credit_target_consistent deposit order =
     (if dt_chain deposit \<noteq> bo_chain order \<or> bo_paid_at order \<noteq> None \<or> bo_requested_at order > dt_observed_at deposit
      then False
      else if dt_review_reason deposit = Some ''ambiguous_match'' \<or> dt_review_reason deposit = Some ''order_not_found''
      then dt_asset deposit = bo_asset order \<and> dt_amount deposit = bo_amount order
           \<and> (case bo_assignment order of
                None \<Rightarrow> False
              | Some assignment \<Rightarrow> dt_observed_at deposit \<le> aa_expires_at assignment \<and> aa_address assignment = dt_address deposit)
      else dt_order_id deposit = Some (bo_order_id order))"

definition manual_deposit_processing_conflict :: "string \<Rightarrow> string \<Rightarrow> u64 option \<Rightarrow> 'j service_db \<Rightarrow> AuthError" where
  "manual_deposit_processing_conflict chain tx_hash order_id db =
     (case find (\<lambda>d. dt_chain d = chain \<and> dt_tx_hash d = tx_hash) (list_deposit_transactions (sd_store db)) of
        Some d \<Rightarrow>
          if dt_status d \<noteq> ''manual_review_required'' then billing_bad_request ''deposit is not pending manual review''
          else if (case order_id of None \<Rightarrow> False
                   | Some n \<Rightarrow> (case find (\<lambda>order. bo_order_id order = n) (list_billing_orders (sd_store db)) of
                                 Some order \<Rightarrow> bo_paid_at order \<noteq> None | None \<Rightarrow> False))
          then billing_bad_request ''order already paid'' else billing_bad_request ''deposit is not pending manual review''
      | None \<Rightarrow>
          if (case order_id of None \<Rightarrow> False
              | Some n \<Rightarrow> (case find (\<lambda>order. bo_order_id order = n) (list_billing_orders (sd_store db)) of
                            Some order \<Rightarrow> bo_paid_at order \<noteq> None | None \<Rightarrow> False))
          then billing_bad_request ''order already paid'' else billing_bad_request ''deposit is not pending manual review'')"

record ProcessAbnormalDepositRequest =
  pa_chain :: string
  pa_tx_hash :: string
  pa_decision :: string
  pa_order_id :: "u64 option"
  pa_confirmation :: "string option"
  pa_justification :: "string option"
  pa_processed_at :: datetime

record ProcessAbnormalDepositResponse =
  pd_tx_hash :: string
  pd_deposit_status :: string
  pd_membership_status :: "MembershipStatus option"
  pd_order_id :: "u64 option"

definition non_blank :: "string option \<Rightarrow> string option" where
  "non_blank v = (case v of None \<Rightarrow> None | Some s \<Rightarrow> if str_trim s = [] then None else Some (str_trim s))"

text \<open>The checks of a manual credit: the order to pay and the texts of the audit.\<close>

definition manual_credit_checks ::
  "ProcessAbnormalDepositRequest \<Rightarrow> DepositTransactionRecord \<Rightarrow> 'j service_db \<Rightarrow>
   (BillingOrderRecord \<times> string \<times> string) auth_result" where
  "manual_credit_checks request deposit db =
     (case non_blank (pa_confirmation request) of
        None \<Rightarrow> Inl (billing_bad_request ''manual credit confirmation is required'')
      | Some confirmation \<Rightarrow>
          if \<not> matches_manual_credit_confirmation confirmation
          then Inl (billing_bad_request ''manual credit confirmation is required'')
          else (case non_blank (pa_justification request) of
             None \<Rightarrow> Inl (billing_bad_request ''manual credit justification is required'')
           | Some justification \<Rightarrow>
               (case (case pa_order_id request of Some n \<Rightarrow> Some n | None \<Rightarrow> dt_order_id deposit) of
                  None \<Rightarrow> Inl (billing_bad_request ''order_id is required'')
                | Some order_id \<Rightarrow>
                    (case find (\<lambda>order. bo_order_id order = order_id) (list_billing_orders (sd_store db)) of
                       None \<Rightarrow> Inl (billing_not_found ''order not found'')
                     | Some order \<Rightarrow>
                         if bo_paid_at order \<noteq> None then Inl (billing_bad_request ''order already paid'')
                         else if dt_order_id deposit \<noteq> None \<and> dt_order_id deposit \<noteq> Some order_id
                                 \<and> dt_review_reason deposit \<notin> {Some ''order_not_found'', Some ''ambiguous_match''}
                         then Inl (billing_bad_request ''manual credit cannot reassign this deposit to a different order'')
                         else if \<not> manual_credit_target_consistent deposit order
                         then Inl (billing_bad_request ''manual credit target order is inconsistent with deposit context'')
                         else Inr (order, confirmation, justification)))))"

definition credit_deposit ::
  "'j membership_env \<Rightarrow> string \<Rightarrow> AdminRole option \<Rightarrow> u64 \<Rightarrow> ProcessAbnormalDepositRequest \<Rightarrow> string \<Rightarrow> string \<Rightarrow> string \<Rightarrow>
   DepositTransactionRecord \<Rightarrow> ('j, ProcessAbnormalDepositResponse) service_op" where
  "credit_deposit M actor_email admin_role session_sid request chain tx_hash decision deposit db =
     (let W = me_world M; at_time = pa_processed_at request
      in case manual_credit_checks request deposit db of
           Inl e \<Rightarrow> (Inl e, db)
         | Inr (order, confirmation, justification) \<Rightarrow>
             (case membership_entitlement_window W order at_time (sd_store db) of
                Inl e \<Rightarrow> (Inl e, db)
              | Inr (active_until, grace_until) \<Rightarrow>
                  let order_id = bo_order_id order;
                      audit = admin_audit actor_email ''deposit.manual_credited'' ''deposit'' (chain @ '':'' @ tx_hash)
                        [(''order_id'', audit_u64 order_id), (''chain'', AuditStr chain), (''decision'', AuditStr decision),
                         (''confirmation'', AuditStr confirmation), (''justification'', AuditStr justification)]
                        admin_role session_sid (abnormal_deposit_before_summary deposit)
                        (abnormal_deposit_after_summary ''manual_approved'' decision (Some order_id)) at_time;
                      (applied, db) = apply_membership_payment_with_claimed_pending_deposit_and_audit W order_id tx_hash
                        at_time (bo_email order) active_until grace_until
                        (deposit\<lparr>dt_status := ''manual_approved'', dt_processed_at := Some at_time,
                           dt_order_id := Some order_id, dt_matched_order_id := Some order_id\<rparr>) audit db
                  in if \<not> applied then (Inl (manual_deposit_processing_conflict chain tx_hash (Some order_id) db), db)
                     else case persist_deposit_confirmation_notification W order tx_hash at_time db of
                       (Inl e, db) \<Rightarrow> (Inl e, db)
                     | (Inr _, db) \<Rightarrow>
                         (Inr \<lparr>pd_tx_hash = tx_hash, pd_deposit_status = ''manual_approved'',
                               pd_membership_status = Some (ms_status (snapshot_for (bo_email order)
                                 (find_membership_record W (sd_store db) (bo_email order)) (Some at_time))),
                               pd_order_id = Some order_id\<rparr>, db)))"

definition reject_deposit ::
  "string \<Rightarrow> AdminRole option \<Rightarrow> u64 \<Rightarrow> datetime \<Rightarrow> string \<Rightarrow> string \<Rightarrow> string \<Rightarrow> DepositTransactionRecord \<Rightarrow>
   ('j, ProcessAbnormalDepositResponse) service_op" where
  "reject_deposit actor_email admin_role session_sid at_time chain tx_hash decision deposit db =
     (let audit = admin_audit actor_email ''deposit.manual_rejected'' ''deposit'' (chain @ '':'' @ tx_hash)
            [(''decision'', AuditStr decision), (''chain'', AuditStr chain)] admin_role session_sid
            (abnormal_deposit_before_summary deposit)
            (abnormal_deposit_after_summary ''manual_rejected'' decision None) at_time;
          (updated, db) = update_pending_deposit_with_audit
            (deposit\<lparr>dt_status := ''manual_rejected'', dt_processed_at := Some at_time\<rparr>) audit db
      in if \<not> updated then (Inl (manual_deposit_processing_conflict chain tx_hash None db), db)
         else (Inr \<lparr>pd_tx_hash = tx_hash, pd_deposit_status = ''manual_rejected'', pd_membership_status = None,
                    pd_order_id = None\<rparr>, db))"

definition process_abnormal_deposit ::
  "'j membership_env \<Rightarrow> string \<Rightarrow> AdminRole option \<Rightarrow> u64 \<Rightarrow> ProcessAbnormalDepositRequest \<Rightarrow>
   ('j, ProcessAbnormalDepositResponse) service_op" where
  "process_abnormal_deposit M actor_email admin_role session_sid request db =
     (let W = me_world M; db = bootstrap_defaults M db;
          chain = normalize_upper W (pa_chain request); tx_hash = str_trim (pa_tx_hash request);
          decision = normalize_code W (pa_decision request)
      in case find (\<lambda>d. dt_chain d = chain \<and> dt_tx_hash d = tx_hash) (list_deposit_transactions (sd_store db)) of
           None \<Rightarrow> (Inl (billing_not_found ''deposit not found''), db)
         | Some deposit \<Rightarrow>
             if dt_status deposit \<noteq> ''manual_review_required''
             then (Inl (billing_bad_request ''deposit is not pending manual review''), db)
             else if decision = ''credit_membership''
             then credit_deposit M actor_email admin_role session_sid request chain tx_hash decision deposit db
             else if decision = ''reject''
             then reject_deposit actor_email admin_role session_sid (pa_processed_at request) chain tx_hash decision deposit db
             else (Inl (billing_bad_request ''unsupported decision''), db))"

subsection \<open>Sweeps\<close>

definition sweep_queue_summary :: "nat \<Rightarrow> string" where
  "sweep_queue_summary n =
     (if n = 0 then ''no prior sweep job'' else if n = 1 then ''1 prior sweep job''
      else show_nat n @ '' prior sweep jobs'')"

definition sweep_request_summary :: "string \<Rightarrow> string \<Rightarrow> string \<Rightarrow> nat \<Rightarrow> string" where
  "sweep_request_summary chain asset treasury_address transfer_count =
     chain @ '' '' @ asset @ '' '' @ treasury_address @ '' '' @ show_nat transfer_count @ '' ''
     @ (if transfer_count = 1 then ''transfer'' else ''transfers'')"

definition sweep_transfer ::
  "DepositAddressPoolRecord list \<Rightarrow> string \<Rightarrow> string \<Rightarrow> string \<times> string \<Rightarrow> SweepTransferRecord auth_result" where
  "sweep_transfer pool chain treasury_address transfer =
     (let from_address = str_trim (fst transfer)
      in if from_address = [] then Inl (billing_bad_request ''transfer from_address is required'')
         else if \<not> list_ex (\<lambda>r. da_chain r = chain \<and> da_is_enabled r \<and> da_address r = from_address) pool
         then Inl (billing_bad_request ''transfer from_address must belong to the address pool'')
         else case canonicalize_amount (snd transfer) of
           None \<Rightarrow> Inl (billing_bad_request ''invalid amount'')
         | Some amount \<Rightarrow>
             Inr \<lparr>sw_from_address = from_address, sw_to_address = treasury_address, sw_amount = amount,
                  sw_tx_hash = None, sw_status = ''pending'', sw_submitted_at = None, sw_confirmed_at = None,
                  sw_failed_at = None, sw_error_message = None\<rparr>)"

fun sweep_transfers ::
  "DepositAddressPoolRecord list \<Rightarrow> string \<Rightarrow> string \<Rightarrow> (string \<times> string) list \<Rightarrow> SweepTransferRecord list auth_result" where
  "sweep_transfers pool chain treasury [] = Inr []"
| "sweep_transfers pool chain treasury (t # ts) =
     (case sweep_transfer pool chain treasury t of
        Inl e \<Rightarrow> Inl e
      | Inr r \<Rightarrow> (case sweep_transfers pool chain treasury ts of Inl e \<Rightarrow> Inl e | Inr rs \<Rightarrow> Inr (r # rs)))"

record SweepJobResponse =
  sr_sweep_job_id :: u64
  sr_chain :: string
  sr_asset :: string
  sr_status :: string
  sr_requested_by :: string
  sr_transfer_count :: nat

definition create_sweep_job ::
  "'j membership_env \<Rightarrow> string \<Rightarrow> AdminRole option \<Rightarrow> u64 \<Rightarrow> string \<Rightarrow> string \<Rightarrow> string \<Rightarrow> datetime \<Rightarrow>
   (string \<times> string) list \<Rightarrow> ('j, SweepJobResponse) service_op" where
  "create_sweep_job M actor_email admin_role session_sid request_chain request_asset request_treasury requested_at request_transfers db =
     (let W = me_world M; db = bootstrap_defaults M db;
          chain = normalize_upper W request_chain; asset = normalize_upper W request_asset;
          treasury_address = str_trim request_treasury
      in if chain = [] \<or> asset = [] \<or> treasury_address = [] \<or> request_transfers = []
         then (Inl (billing_bad_request ''chain, asset, treasury_address, and transfers are required''), db)
         else if chain \<notin> set DEFAULT_CHAIN_CODES then (Inl (billing_bad_request ''unsupported chain''), db)
         else if asset \<notin> set DEFAULT_ASSETS then (Inl (billing_bad_request ''unsupported asset''), db)
         else
           let before_summary = sweep_queue_summary (length (sd_sweep_jobs db));
               (sweep_job_id, db) = service_sequence ''sweep_job_id'' db
           in case sweep_transfers (list_deposit_addresses (sd_store db)) chain treasury_address request_transfers of
                Inl e \<Rightarrow> (Inl e, db)
              | Inr transfers \<Rightarrow>
                  let job = \<lparr>sj_sweep_job_id = sweep_job_id, sj_chain = chain, sj_asset = asset, sj_status = ''pending'',
                        sj_requested_by = actor_email, sj_requested_at = requested_at,
                        sj_treasury_address = treasury_address, sj_submitted_at = None, sj_completed_at = None,
                        sj_failed_at = None, sj_last_error = None, sj_attempt_count = 0, sj_transfers = transfers\<rparr>;
                      audit = admin_audit actor_email ''treasury.sweep_requested'' ''sweep_job'' (u64_text sweep_job_id)
                        [(''chain'', AuditStr chain), (''asset'', AuditStr asset),
                         (''transfer_count'', AuditInt (int (length transfers))),
                         (''treasury_address'', AuditStr treasury_address)] admin_role session_sid before_summary
                        (sweep_request_summary chain asset treasury_address (length transfers)) requested_at
                  in (Inr \<lparr>sr_sweep_job_id = sweep_job_id, sr_chain = chain, sr_asset = asset, sr_status = ''pending'',
                           sr_requested_by = actor_email, sr_transfer_count = length transfers\<rparr>,
                      push_audit audit
                        (db\<lparr>sd_sweep_jobs := btree_insert sweep_job_id job (sd_sweep_jobs db)\<rparr>)))"

end
