(* ===== verification/MembershipProps.thy ===== *)
theory MembershipProps
  imports Membership BillingProps
begin

text \<open>
  The membership service: the operations keep every stored membership a window with 48 hours of grace, on
  which the service and the scheduler compute the same status; a deposit is matched by hand or credited
  under the conditions the code states, and pays the order it names.
\<close>

subsection \<open>Steps that leave memberships alone\<close>

lemma on_store_simps [simp]:
  "sd_store (on_store f db) = f (sd_store db)" "sd_identity (on_store f db) = sd_identity db"
  "sd_seen_transfers (on_store f db) = sd_seen_transfers db"
  by (simp_all add: on_store_def)

lemma push_audit_simps [simp]: "sd_store (push_audit a db) = sd_store db"
  by (simp add: push_audit_def)

lemma service_sequence_store [simp]: "sd_store (snd (service_sequence n db)) = sd_store db"
  by (simp add: service_sequence_def split_beta)

lemma upsert_plan_price_store [simp]: "sd_store (upsert_plan_price p db) = sd_store db"
  by (simp add: upsert_plan_price_def)

lemma fold_keeps: "(\<And>x db. x \<in> set xs \<Longrightarrow> v (f x db) = v db) \<Longrightarrow> v (fold f xs db) = v db"
  by (induction xs arbitrary: db) auto

lemma fold_inv: "I s \<Longrightarrow> (\<And>x s. I s \<Longrightarrow> I (f x s)) \<Longrightarrow> I (fold f xs s)"
  by (induction xs arbitrary: s) auto

abbreviation members :: "'j service_db \<Rightarrow> (string \<times> MembershipRecord) list" where
  "members db \<equiv> es_membership_records (sd_store db)"

lemma bootstrap_members [simp]: "members (bootstrap_defaults M db) = members db"
proof -
  have plan: "members (seed_plan ps qs c db) = members db" for ps qs c and db :: "'a service_db"
    unfolding seed_plan_def Let_def
    by (cases c) (auto simp: upsert_membership_plan_def intro!: fold_keeps [where v = members, THEN trans])
  have addr: "members (seed_addresses xs db) = members db" for xs and db :: "'a service_db"
    unfolding seed_addresses_def
    by (rule fold_keeps [where v = members]) (auto simp: upsert_deposit_address_def intro!: fold_keeps [where v = members])
  show ?thesis
    using fold_keeps [where v = members and f = "seed_plan (list_membership_plans (sd_store db)) (list_plan_prices db)"
        and xs = DEFAULT_PLAN_CONFIG and db = db] plan
    by (simp add: bootstrap_defaults_def Let_def addr)
qed

lemma allocate_members [simp]:
  "es_membership_records (snd (allocate_or_queue_billing_order n c t st)) = es_membership_records st"
  by (simp add: allocate_or_queue_billing_order_def Let_def split: option.splits)

lemma promote_members [simp]: "members (promote_queued_orders t db) = members db"
  unfolding promote_queued_orders_def Let_def
  by (rule fold_keeps [where v = members]) (auto intro!: fold_keeps [where v = members])




subsection \<open>Windows of membership\<close>





















subsection \<open>Runs of the service\<close>






subsection \<open>Matching by hand\<close>

definition fitting_orders ::
  "'j membership_env \<Rightarrow> ObservedChainTransfer \<Rightarrow> string \<Rightarrow> 'j service_db \<Rightarrow> BillingOrderRecord list" where
  "fitting_orders M request amount db =
     (let W = me_world M; chain = normalize_upper W (ct_chain request)
      in filter (is_service_match (normalize_upper W (ct_asset request)) amount (ct_observed_at request))
           (filter (is_service_candidate chain (normalize_chain_address chain (str_trim (ct_address request))) (ct_observed_at request))
             (list_billing_orders (sd_store (promote_queued_orders (ct_observed_at request) (bootstrap_defaults M db))))))"


definition promoted :: "'j membership_env \<Rightarrow> ObservedChainTransfer \<Rightarrow> 'j service_db \<Rightarrow> 'j service_db" where
  "promoted M request db = promote_queued_orders (ct_observed_at request) (bootstrap_defaults M db)"

abbreviation request_chain :: "'j membership_env \<Rightarrow> ObservedChainTransfer \<Rightarrow> string" where
  "request_chain M request \<equiv> normalize_upper (me_world M) (ct_chain request)"

abbreviation request_hash :: "'j membership_env \<Rightarrow> ObservedChainTransfer \<Rightarrow> string" where
  "request_hash M request \<equiv> normalize_chain_tx_hash (request_chain M request) (str_trim (ct_tx_hash request))"

definition service_orders_keyed :: "'j service_db \<Rightarrow> bool" where
  "service_orders_keyed db \<longleftrightarrow> list_all (\<lambda>(k, order). bo_order_id order = k) (es_billing_orders (sd_store db))"

definition paid_by :: "'j service_db \<Rightarrow> u64 \<Rightarrow> datetime \<Rightarrow> string \<Rightarrow> bool" where
  "paid_by db order_id t tx_hash \<longleftrightarrow>
     (case find_order db order_id of
        None \<Rightarrow> False
      | Some order \<Rightarrow> bo_paid_at order = Some t \<and> bo_tx_hash order = Some tx_hash \<and> bo_status order = ''paid'')"

lemma payment_pays:
  "find_order db n \<noteq> None \<Longrightarrow>
     paid_by (push_audit a (on_store (apply_membership_payment W n c tx t email au gu) db)) n t tx"
  by (auto simp: paid_by_def find_order_def apply_membership_payment_def map_of_modify_key)

lemma persist_orders:
  assumes "persist_deposit_confirmation_notification W order tx t db = (r, db')"
  shows "es_billing_orders (sd_store db') = es_billing_orders (sd_store db)"
proof -
  have "es_billing_orders (snd (notify_deposit W order tx t st)) = es_billing_orders st" for st
    by (simp add: notify_deposit_def Let_def insert_notification_log_def split: option.splits)
  from this [of "sd_store db"] assms show ?thesis
    by (cases "notify_deposit W order tx t (sd_store db)"; cases "fst (notify_deposit W order tx t (sd_store db))")
      (auto simp: persist_deposit_confirmation_notification_def)
qed

lemma entitlement_pays:
  assumes "apply_membership_entitlement W actor order tx c a t db = (Inr applied, db')" "find_order db (bo_order_id order) \<noteq> None"
  shows "if applied then paid_by db' (bo_order_id order) t tx else find_order db' (bo_order_id order) \<noteq> None"
  using assms
  by (auto simp: apply_membership_entitlement_def apply_exact_match_membership_payment_with_audit_def record_seen_transfer_def
      Let_def split_beta find_order_def [of "_\<lparr>sd_seen_transfers := _\<rparr>"] split: sum.splits option.splits if_splits
      intro!: payment_pays) (simp_all add: find_order_def)

lemma promote_pays:
  assumes "promote_confirming_exact_match W actor order tx c a t db = (Inr u, db')" "find_order db (bo_order_id order) \<noteq> None"
  shows "paid_by db' (bo_order_id order) t tx"
  using assms
  by (auto simp: promote_confirming_exact_match_def apply_membership_payment_with_audit_def
      split: sum.splits intro!: payment_pays)

lemma match_single_matched:
  assumes r: "match_single W actor c a tx n t order db = (Inr resp, db')" and m: "mo_matched resp"
    and known: "find_order db (bo_order_id order) \<noteq> None"
  shows "confirming_transaction_exists db c tx \<and> read_required_confirmations W (sd_store db) c \<le> n
    \<and> mo_order_id resp = Some (bo_order_id order) \<and> paid_by db' (bo_order_id order) t tx"
proof -
  have guards: "confirming_transaction_exists db c tx" "\<not> n < read_required_confirmations W (sd_store db) c"
    using r m by (auto simp: match_single_def split: if_splits)
  obtain applied db1 where e: "apply_membership_entitlement W actor order tx c a t db = (Inr applied, db1)"
    using r guards by (auto simp: match_single_def split: sum.splits prod.splits)
  obtain u db2 where p: "(if applied then (Inr (), db1) else promote_confirming_exact_match W actor order tx c a t db1) = (Inr u, db2)"
    using r guards e by (auto simp: match_single_def split: sum.splits prod.splits)
  have paid: "paid_by db2 (bo_order_id order) t tx"
    using entitlement_pays [OF e known] p promote_pays [of W actor order tx c a t db1 u db2]
    by (cases applied) auto
  obtain v where q: "persist_deposit_confirmation_notification W order tx t db2 = (Inr v, db')"
    and resp: "mo_order_id resp = Some (bo_order_id order)"
    using r guards e p by (auto simp: match_single_def Let_def split: sum.splits prod.splits)
  have "paid_by db' (bo_order_id order) t tx"
    using paid persist_orders [OF q] by (simp add: paid_by_def find_order_def)
  with guards resp show ?thesis by simp
qed

lemma promoted_keyed: "service_orders_keyed db \<Longrightarrow> service_orders_keyed (promoted M request db)"
proof -
  have allocate: "list_all (\<lambda>(k, order). bo_order_id order = k) (es_billing_orders (snd (allocate_or_queue_billing_order n c t st)))"
    if "list_all (\<lambda>(k, order). bo_order_id order = k) (es_billing_orders st)" for n c t and st :: "'a EphemeralState"
    using that by (auto simp: allocate_or_queue_billing_order_def Let_def modify_key_def list_all_iff
        dest!: set_update_first split: option.splits)
  have boot: "es_billing_orders (sd_store (bootstrap_defaults M db)) = es_billing_orders (sd_store db)"
  proof -
    let ?v = "\<lambda>d. es_billing_orders (sd_store d)"
    have plan: "?v (seed_plan ps qs x d) = ?v d" for ps qs x and d :: "'a service_db"
      unfolding seed_plan_def Let_def
      by (cases x) (auto simp: upsert_membership_plan_def intro!: fold_keeps [where v = ?v, THEN trans])
    have addr: "?v (seed_addresses xs d) = ?v d" for xs and d :: "'a service_db"
      unfolding seed_addresses_def
      by (rule fold_keeps [where v = ?v]) (auto simp: upsert_deposit_address_def intro!: fold_keeps [where v = ?v])
    show ?thesis
      using fold_keeps [where v = ?v and f = "seed_plan (list_membership_plans (sd_store db)) (list_plan_prices db)"
          and xs = DEFAULT_PLAN_CONFIG and db = db] plan
      by (simp add: bootstrap_defaults_def Let_def addr)
  qed
  assume "service_orders_keyed db"
  then have "service_orders_keyed (bootstrap_defaults M db)" by (simp add: service_orders_keyed_def boot)
  then show ?thesis
    unfolding promoted_def promote_queued_orders_def Let_def
    by (rule fold_inv) (rule fold_inv, assumption, simp add: service_orders_keyed_def allocate)
qed

text \<open>C35: What a match by hand rests on. When the service reports a match, a deposit with that hash was being
  confirmed on the chain, the confirmations the request claims reach the required number, exactly one order
  fits, unpaid, unexpired, with the asset and the amount of the request, and afterwards that order is paid by the
  transaction.\<close>

theorem manual_match_rests_on:
  assumes "service_orders_keyed db" and "match_order M actor request db = (Inr resp, db')" and "mo_matched resp"
  shows "\<exists>amount order. canonicalize_amount (ct_amount request) = Some amount
    \<and> fitting_orders M request amount db = [order]
    \<and> confirming_transaction_exists (promoted M request db) (request_chain M request) (request_hash M request)
    \<and> read_required_confirmations (me_world M) (sd_store (promoted M request db)) (request_chain M request)
        \<le> (case ct_confirmations request of Some n \<Rightarrow> n | None \<Rightarrow> 0)
    \<and> mo_order_id resp = Some (bo_order_id order)
    \<and> paid_by db' (bo_order_id order) (ct_observed_at request) (request_hash M request)"
proof -
  obtain amount where amount: "canonicalize_amount (ct_amount request) = Some amount"
    using assms(2,3) by (auto simp: match_order_def Let_def split: option.splits)
  let ?W = "me_world M" and ?db = "promoted M request db" and ?t = "ct_observed_at request"
  have single: "\<exists>order. fitting_orders M request amount db = [order]
      \<and> match_single ?W actor (request_chain M request) (normalize_upper ?W (ct_asset request)) (request_hash M request)
          (case ct_confirmations request of Some n \<Rightarrow> n | None \<Rightarrow> 0) ?t order ?db = (Inr resp, db')"
    using assms(2,3) amount
    by (auto simp: match_order_def fitting_orders_def promoted_def Let_def split_beta unmatched_response_def duplicate_match_response_def
        split: list.splits if_splits prod.splits bool.splits)
  then obtain order where fit: "fitting_orders M request amount db = [order]"
    and ms: "match_single ?W actor (request_chain M request) (normalize_upper ?W (ct_asset request)) (request_hash M request)
          (case ct_confirmations request of Some n \<Rightarrow> n | None \<Rightarrow> 0) ?t order ?db = (Inr resp, db')"
    by blast
  have "order \<in> set (list_billing_orders (sd_store ?db))"
  proof -
    have "order \<in> set (fitting_orders M request amount db)" using fit by simp
    then show ?thesis by (simp add: fitting_orders_def promoted_def Let_def)
  qed
  then obtain k where k: "(k, order) \<in> set (es_billing_orders (sd_store ?db))" by (auto simp: list_billing_orders_def)
  then have "bo_order_id order = k"
    using promoted_keyed [OF assms(1), of M request] by (auto simp: service_orders_keyed_def list_all_iff)
  with k have known: "find_order ?db (bo_order_id order) \<noteq> None"
    by (auto simp: find_order_def map_of_eq_None_iff rev_image_eqI)
  from match_single_matched [OF ms assms(3) known] amount fit show ?thesis by blast
qed


text \<open>An address pool entry keeps the letters it was given, but the address of a request is lowered for the
  EVM chains: an order whose deposit address has an upper-case letter never fits.\<close>

lemma mixed_case_address_never_fits:
  assumes "chain = ''ETH'' \<or> chain = ''BSC''" "bo_assignment order = Some assignment"
    and "c \<in> set (aa_address assignment)" "65 \<le> (of_char c :: nat)" "(of_char c :: nat) \<le> 90"
  shows "\<not> is_service_candidate chain (normalize_chain_address chain a) t order"
proof
  assume "is_service_candidate chain (normalize_chain_address chain a) t order"
  then have "c \<in> set (map ascii_lower (str_trim a))"
    using assms(1,2,3) by (auto simp: is_service_candidate_def normalize_chain_address_def to_ascii_lowercase_def)
  then obtain d where d: "c = ascii_lower d" by auto
  show False
  proof (cases "65 \<le> (of_char d :: nat) \<and> (of_char d :: nat) \<le> 90")
    case True
    then have "(of_char c :: nat) = of_char d + 32" unfolding d by (simp add: ascii_lower_def Let_def)
    with True assms(5) show False by simp
  next
    case False
    then have "c = d" unfolding d ascii_lower_def Let_def by (simp only: if_False)
    with False assms(4,5) show False by simp
  qed
qed

subsection \<open>Instances\<close>

definition demo_menv :: "demo_json membership_env" where
  "demo_menv = \<lparr>me_world = demo_world, me_rfc3339 = (\<lambda>t. show_int t), me_now = 0, me_production = True\<rparr>"

definition demo_service_order :: BillingOrderRecord where
  "demo_service_order = \<lparr>bo_order_id = 7, bo_email = ''a'', bo_chain = ''SOL'', bo_asset = ''USDT'', bo_plan_code = ''monthly'',
     bo_amount = ''20.00000000'', bo_requested_at = 0,
     bo_assignment = Some \<lparr>aa_chain = ''SOL'', aa_address = ''x'', aa_expires_at = 100\<rparr>, bo_paid_at = None,
     bo_tx_hash = None, bo_status = ''pending'', bo_enqueued_at = None\<rparr>"

definition demo_service :: "demo_json service_db" where
  "demo_service =
     \<lparr>sd_store = empty_state\<lparr>es_billing_orders := [(7, demo_service_order)],
        es_deposit_transactions := [(deposit_key ''SOL'' ''h'',
          \<lparr>dt_tx_hash = ''h'', dt_chain = ''SOL'', dt_asset = ''USDT'', dt_address = ''x'', dt_amount = ''20.00000000'',
           dt_observed_at = 10, dt_order_id = Some 7, dt_status = ''confirming'',
           dt_review_reason = Some ''awaiting_confirmations'', dt_processed_at = None, dt_matched_order_id = None\<rparr>)],
        es_membership_records := [(''a'', \<lparr>mr_activated_at = Some 0, mr_active_until = Some 5,
           mr_grace_until = Some (5 + hours 48), mr_override_status = None\<rparr>)]\<rparr>,
      sd_identity = empty_identity, sd_plan_prices = [], sd_seen_transfers = [], sd_sweep_jobs = []\<rparr>"

definition demo_match_request :: ObservedChainTransfer where
  "demo_match_request = \<lparr>ct_chain = ''SOL'', ct_asset = ''USDT'', ct_address = ''x'', ct_amount = ''20'', ct_tx_hash = ''h'',
     ct_confirmations = Some 12, ct_observed_at = 10\<rparr>"

lemma demo_matched:
  "(case fst (match_order demo_menv ''adm'' demo_match_request demo_service) of Inr r \<Rightarrow> mo_matched r | Inl _ \<Rightarrow> False)"
  by code_simp

theorem manual_match_rests_on_witness:
  "\<exists>order. fitting_orders demo_menv demo_match_request ''20.00000000'' demo_service = [order]
    \<and> paid_by (snd (match_order demo_menv ''adm'' demo_match_request demo_service)) (bo_order_id order) 10 ''h''"
proof -
  obtain resp where r: "fst (match_order demo_menv ''adm'' demo_match_request demo_service) = Inr resp" "mo_matched resp"
    using demo_matched by (auto split: sum.splits)
  then have m: "match_order demo_menv ''adm'' demo_match_request demo_service
      = (Inr resp, snd (match_order demo_menv ''adm'' demo_match_request demo_service))"
    by (simp add: prod_eq_iff)
  have k: "service_orders_keyed demo_service"
    by (simp add: service_orders_keyed_def demo_service_def demo_service_order_def)
  have "canonicalize_amount (ct_amount demo_match_request) = Some ''20.00000000''"
    "request_hash demo_menv demo_match_request = ''h''" "ct_observed_at demo_match_request = 10"
    by code_simp+
  with manual_match_rests_on [OF k m r(2)] show ?thesis by auto
qed



end
