(* ===== verification/Indicators.thy ===== *)
theory Indicators
  imports F64
begin

text \<open>
  \<^verbatim>\<open>src/apps/backtest-engine/src/indicators.rs\<close>: technical indicators of a series of candles. Each
  function returns one value per index, \<open>None\<close> while it warms up or where the series is not finite. A
  loop over indices that fills \<open>result\<close> is \<open>scan\<close>: the body takes the state to the value written and the
  new state.
\<close>

fun scan :: "('s \<Rightarrow> 'i \<Rightarrow> 'r \<times> 's) \<Rightarrow> 's \<Rightarrow> 'i list \<Rightarrow> 'r list" where
  "scan f s [] = []"
| "scan f s (i # is) = (case f s i of (r, s') \<Rightarrow> r # scan f s' is)"

definition run_to :: "('s \<Rightarrow> 'i \<Rightarrow> 'r \<times> 's) \<Rightarrow> 's \<Rightarrow> 'i list \<Rightarrow> 's" where
  "run_to f s is = fold (\<lambda>i s. snd (f s i)) is s"

text \<open>\<open>values[index + 1 - period..=index]\<close>.\<close>

definition trailing :: "'a list \<Rightarrow> nat \<Rightarrow> nat \<Rightarrow> 'a list" where
  "trailing values index period = drop (index + 1 - period) (take (index + 1) values)"

subsection \<open>Square root\<close>

text \<open>
  \<open>f64::sqrt\<close> rounds the exact root. \<open>root_bits\<close> scales the number so that its integer root has more
  than 54 bits; half a unit stands for a root that is not exact, which no tie of the rounding can hit.
\<close>

fun isqrt :: "nat \<Rightarrow> nat" where
  "isqrt n =
     (if n = 0 then 0
      else let r = 2 * isqrt (n div 4) in if (r + 1) * (r + 1) \<le> n then r + 1 else r)"

declare isqrt.simps [simp del]

fun f_sqrt :: "f64 \<Rightarrow> f64" where
  "f_sqrt (Fin x) =
     (if x < 0 then NaN
      else if x = 0 then Fin 0
      else
        let k = 56 - ilog2 x div 2; scaled = x * power_int 4 k; n = isqrt (nat \<lfloor>scaled\<rfloor>)
        in f_round ((of_nat n + (if of_nat (n * n) = scaled then 0 else 1 / 2)) / power_int 2 k))"
| "f_sqrt PInf = PInf"
| "f_sqrt NInf = NaN"
| "f_sqrt NaN = NaN"

fun f_abs :: "f64 \<Rightarrow> f64" where
  "f_abs (Fin x) = Fin \<bar>x\<bar>"
| "f_abs PInf = PInf"
| "f_abs NInf = PInf"
| "f_abs NaN = NaN"

subsection \<open>Candles\<close>

record IndicatorCandle =
  ic_high :: f64
  ic_low :: f64
  ic_close :: f64

record BollingerPoint =
  bp_middle :: f64
  bp_upper :: f64
  bp_lower :: f64
  bp_bandwidth :: f64

definition finite_option :: "f64 \<Rightarrow> f64 option" where
  "finite_option value = (if is_finite value then Some value else None)"

definition finite_average :: "f64 list \<Rightarrow> f64 option" where
  "finite_average values =
     (if values = [] \<or> list_ex (\<lambda>v. \<not> is_finite v) values then None
      else finite_option (f_div (f_sum values) (f_of_nat (length values))))"

definition finite_close :: "IndicatorCandle \<Rightarrow> f64 option" where
  "finite_close candle = finite_option (ic_close candle)"

definition is_valid_candle :: "IndicatorCandle \<Rightarrow> bool" where
  "is_valid_candle candle \<longleftrightarrow>
     is_finite (ic_high candle) \<and> is_finite (ic_low candle) \<and> is_finite (ic_close candle)
     \<and> f_le (ic_low candle) (ic_high candle)"

definition true_range :: "IndicatorCandle \<Rightarrow> f64 option \<Rightarrow> f64 option" where
  "true_range candle previous_close =
     (if \<not> is_valid_candle candle then None
      else
        let high_low = f_sub (ic_high candle) (ic_low candle);
            spread = (case Option.bind previous_close finite_option of
                       Some close \<Rightarrow>
                         f_max (f_max high_low (f_abs (f_sub (ic_high candle) close)))
                               (f_abs (f_sub (ic_low candle) close))
                     | None \<Rightarrow> high_low)
        in if is_finite spread then Some (f_max spread (Fin 0)) else None)"

definition directional_movement :: "IndicatorCandle \<Rightarrow> IndicatorCandle \<Rightarrow> (f64 \<times> f64 \<times> f64) option" where
  "directional_movement current previous =
     (if \<not> is_valid_candle current \<or> \<not> is_valid_candle previous then None
      else
        case true_range current (finite_close previous) of
          None \<Rightarrow> None
        | Some spread \<Rightarrow>
            (case finite_option (f_sub (ic_high current) (ic_high previous)) of
               None \<Rightarrow> None
             | Some up_move \<Rightarrow>
                 (case finite_option (f_sub (ic_low previous) (ic_low current)) of
                    None \<Rightarrow> None
                  | Some down_move \<Rightarrow>
                      let plus_dm = (if f_lt down_move up_move \<and> f_lt (Fin 0) up_move then up_move else Fin 0);
                          minus_dm = (if f_lt up_move down_move \<and> f_lt (Fin 0) down_move then down_move else Fin 0)
                      in Some (spread, plus_dm, minus_dm))))"

subsection \<open>Moving averages\<close>

definition sma :: "f64 list \<Rightarrow> nat \<Rightarrow> f64 option list" where
  "sma values period =
     (if period = 0 \<or> length values < period then replicate (length values) None
      else
        map (\<lambda>index.
          if index < period - 1 then None
          else
            let window = trailing values index period
            in if list_all is_finite window
               then finite_option (f_div (f_sum window) (f_of_nat period)) else None)
          [0..<length values])"

definition ema_step :: "f64 list \<Rightarrow> nat \<Rightarrow> f64 option \<Rightarrow> nat \<Rightarrow> f64 option \<times> f64 option" where
  "ema_step values period current index =
     (let value = values ! index; multiplier = f_div (Fin 2) (f_add (f_of_nat period) (Fin 1))
      in if \<not> is_finite value then (None, None)
         else
           let current =
                 (case current of
                    Some previous \<Rightarrow> finite_option (f_add (f_mul (f_sub value previous) multiplier) previous)
                  | None \<Rightarrow>
                      if index + 1 \<ge> period then finite_average (trailing values index period) else None)
           in (current, current))"

definition ema :: "f64 list \<Rightarrow> nat \<Rightarrow> f64 option list" where
  "ema values period =
     (if period = 0 \<or> length values < period then replicate (length values) None
      else scan (ema_step values period) None [0..<length values])"

subsection \<open>Average true range\<close>

record atr_loop =
  at_current :: "f64 option"
  at_warmup_ranges :: "f64 list"
  at_previous_candle :: "IndicatorCandle option"

definition wilder_average :: "nat \<Rightarrow> f64 \<Rightarrow> f64 \<Rightarrow> f64" where
  "wilder_average period previous value =
     f_div (f_add (f_mul previous (f_sub (f_of_nat period) (Fin 1))) value) (f_of_nat period)"

definition atr_range_step :: "nat \<Rightarrow> atr_loop \<Rightarrow> IndicatorCandle \<Rightarrow> f64 option \<times> atr_loop" where
  "atr_range_step period st candle =
     (if \<not> is_valid_candle candle
      then (None, \<lparr>at_current = None, at_warmup_ranges = [], at_previous_candle = None\<rparr>)
      else
        let spread = true_range candle (Option.bind (at_previous_candle st) finite_close);
            (current, warmup_ranges) =
              (case (at_current st, spread) of
                 (Some previous_atr, Some spread) \<Rightarrow>
                   (finite_option (wilder_average period previous_atr spread), at_warmup_ranges st)
               | (None, Some spread) \<Rightarrow>
                   let warmup = at_warmup_ranges st @ [spread]
                   in (if length warmup = period then finite_average warmup else None, warmup)
               | _ \<Rightarrow> (None, at_warmup_ranges st))
        in (current, \<lparr>at_current = current, at_warmup_ranges = warmup_ranges, at_previous_candle = Some candle\<rparr>))"

definition atr :: "IndicatorCandle list \<Rightarrow> nat \<Rightarrow> f64 option list" where
  "atr candles period =
     (if period = 0 \<or> length candles < period then replicate (length candles) None
      else scan (atr_range_step period) \<lparr>at_current = None, at_warmup_ranges = [], at_previous_candle = None\<rparr> candles)"

subsection \<open>Relative strength\<close>

definition close_delta :: "f64 \<Rightarrow> f64 \<Rightarrow> f64 option" where
  "close_delta previous current =
     (if is_finite previous \<and> is_finite current then finite_option (f_sub current previous) else None)"

fun seed_steps :: "f64 list \<Rightarrow> f64 \<Rightarrow> f64 \<Rightarrow> (f64 \<times> f64) option" where
  "seed_steps (a # b # rest) gain loss =
     (case finite_option (f_sub b a) of
        None \<Rightarrow> None
      | Some delta \<Rightarrow>
          (case finite_option (f_add gain (f_max delta (Fin 0))) of
             None \<Rightarrow> None
           | Some gain \<Rightarrow>
               (case finite_option (f_add loss (f_max (f_neg delta) (Fin 0))) of
                  None \<Rightarrow> None
                | Some loss \<Rightarrow> seed_steps (b # rest) gain loss)))"
| "seed_steps _ gain loss = Some (gain, loss)"

definition wilder_gain_loss_seed :: "f64 list \<Rightarrow> (f64 \<times> f64) option" where
  "wilder_gain_loss_seed values =
     (if length values < 2 \<or> list_ex (\<lambda>v. \<not> is_finite v) values then None
      else
        case seed_steps values (Fin 0) (Fin 0) of
          None \<Rightarrow> None
        | Some (gain, loss) \<Rightarrow>
            let period = f_of_nat (length values - 1)
            in case finite_option (f_div gain period) of
                 None \<Rightarrow> None
               | Some gain \<Rightarrow>
                   (case finite_option (f_div loss period) of
                      None \<Rightarrow> None
                    | Some loss \<Rightarrow> Some (gain, loss)))"

definition rsi_value :: "f64 \<Rightarrow> f64 \<Rightarrow> f64" where
  "rsi_value average_gain average_loss =
     (if average_loss = Fin 0 then (if average_gain = Fin 0 then Fin 50 else Fin 100)
      else f_sub (Fin 100) (f_div (Fin 100) (f_add (Fin 1) (f_div average_gain average_loss))))"

definition rsi_of :: "f64 option \<times> f64 option \<Rightarrow> f64 option" where
  "rsi_of averages =
     (case averages of
        (Some gain, Some loss) \<Rightarrow>
          if is_finite gain \<and> is_finite loss then finite_option (rsi_value gain loss) else None
      | _ \<Rightarrow> None)"

definition rsi_step ::
  "f64 list \<Rightarrow> nat \<Rightarrow> f64 option \<times> f64 option \<Rightarrow> nat \<Rightarrow> f64 option \<times> f64 option \<times> f64 option" where
  "rsi_step closes period averages index =
     (let averages =
        (case close_delta (closes ! (index - 1)) (closes ! index) of
           None \<Rightarrow> (None, None)
         | Some delta \<Rightarrow>
             (case averages of
                (Some previous_gain, Some previous_loss) \<Rightarrow>
                  (finite_option (wilder_average period previous_gain (f_max delta (Fin 0))),
                   finite_option (wilder_average period previous_loss (f_max (f_neg delta) (Fin 0))))
              | _ \<Rightarrow>
                  let seed = wilder_gain_loss_seed (drop (index - period) (take (index + 1) closes))
                  in (map_option fst seed, map_option snd seed)))
      in (rsi_of averages, averages))"

definition rsi :: "f64 list \<Rightarrow> nat \<Rightarrow> f64 option list" where
  "rsi closes period =
     (if period = 0 \<or> length closes \<le> period then replicate (length closes) None
      else replicate period None @ scan (rsi_step closes period) (None, None) [period..<length closes])"

subsection \<open>Bollinger bands\<close>

definition bollinger_point :: "fenv \<Rightarrow> f64 list \<Rightarrow> nat \<Rightarrow> f64 \<Rightarrow> f64 \<Rightarrow> BollingerPoint option" where
  "bollinger_point F window period stddev middle =
     (let variance = f_div (f_sum (map (\<lambda>v. f_powi F (f_sub v middle) 2) window)) (f_of_nat period)
      in case Option.bind (finite_option variance) (\<lambda>v. finite_option (f_mul (f_sqrt v) stddev)) of
           None \<Rightarrow> None
         | Some deviation \<Rightarrow>
             let upper = f_add middle deviation; lower = f_sub middle deviation;
                 bandwidth = f_div (f_sub upper lower) middle
             in if is_finite upper \<and> is_finite lower \<and> is_finite bandwidth
                then Some \<lparr>bp_middle = middle, bp_upper = upper, bp_lower = lower, bp_bandwidth = bandwidth\<rparr>
                else None)"

definition bollinger :: "fenv \<Rightarrow> f64 list \<Rightarrow> nat \<Rightarrow> f64 \<Rightarrow> BollingerPoint option list" where
  "bollinger F closes period stddev =
     (if period = 0 \<or> length closes < period \<or> \<not> is_finite stddev then replicate (length closes) None
      else
        map (\<lambda>index.
          if index < period - 1 then None
          else
            let window = trailing closes index period
            in case finite_average window of
                 None \<Rightarrow> None
               | Some middle \<Rightarrow>
                   if middle = Fin 0 \<or> \<not> is_finite middle then None
                   else bollinger_point F window period stddev middle)
          [0..<length closes])"

subsection \<open>Directional index\<close>

record AdxState =
  ax_previous_candle :: "IndicatorCandle option"
  ax_smoothed_tr :: "f64 option"
  ax_smoothed_plus_dm :: "f64 option"
  ax_smoothed_minus_dm :: "f64 option"
  ax_current_adx :: "f64 option"
  ax_tr_warmup :: "f64 list"
  ax_plus_dm_warmup :: "f64 list"
  ax_minus_dm_warmup :: "f64 list"
  ax_dx_seed :: "f64 list"

definition adx_new :: AdxState where
  "adx_new =
     \<lparr>ax_previous_candle = None, ax_smoothed_tr = None, ax_smoothed_plus_dm = None, ax_smoothed_minus_dm = None,
      ax_current_adx = None, ax_tr_warmup = [], ax_plus_dm_warmup = [], ax_minus_dm_warmup = [], ax_dx_seed = []\<rparr>"

definition adx_reset :: "AdxState \<Rightarrow> AdxState" where
  "adx_reset st = adx_new"

definition smooth_wilder_value :: "f64 option \<Rightarrow> f64 list \<Rightarrow> f64 \<Rightarrow> nat \<Rightarrow> f64 option \<times> f64 list" where
  "smooth_wilder_value previous warmup current period =
     (case previous of
        Some previous \<Rightarrow>
          (finite_option (f_add (f_sub previous (f_div previous (f_of_nat period))) current), warmup)
      | None \<Rightarrow>
          let warmup = warmup @ [current]
          in (if length warmup = period
              then Option.bind (finite_average warmup) (\<lambda>average. finite_option (f_mul average (f_of_nat period)))
              else None, warmup))"

definition directional_index :: "f64 option \<Rightarrow> f64 option \<Rightarrow> f64 option \<Rightarrow> f64 option" where
  "directional_index smoothed_tr smoothed_plus_dm smoothed_minus_dm =
     (case (smoothed_tr, smoothed_plus_dm, smoothed_minus_dm) of
        (Some tr, Some plus_dm, Some minus_dm) \<Rightarrow>
          if f_lt (Fin 0) tr then
            let plus_di = f_div (f_mul (Fin 100) plus_dm) tr; minus_di = f_div (f_mul (Fin 100) minus_dm) tr;
                denominator = f_add plus_di minus_di
            in if f_lt (Fin 0) denominator \<and> is_finite denominator
               then finite_option (f_div (f_mul (Fin 100) (f_abs (f_sub plus_di minus_di))) denominator)
               else Some (Fin 0)
          else None
      | _ \<Rightarrow> None)"

definition advance_dx :: "f64 option \<Rightarrow> nat \<Rightarrow> AdxState \<Rightarrow> AdxState" where
  "advance_dx dx period st =
     (case Option.bind dx finite_option of
        Some dx \<Rightarrow>
          let dx_seed = (if ax_current_adx st = None \<and> length (ax_dx_seed st) < period
                         then ax_dx_seed st @ [dx] else ax_dx_seed st);
              current_adx =
                (case ax_current_adx st of
                   Some previous \<Rightarrow> finite_option (wilder_average period previous dx)
                 | None \<Rightarrow>
                     if length dx_seed = period
                     then finite_option (f_div (f_sum dx_seed) (f_of_nat period)) else None)
          in st\<lparr>ax_dx_seed := dx_seed, ax_current_adx := current_adx\<rparr>
      | None \<Rightarrow> st\<lparr>ax_current_adx := None, ax_dx_seed := []\<rparr>)"

definition adx_advance :: "nat \<Rightarrow> AdxState \<Rightarrow> IndicatorCandle \<Rightarrow> f64 option \<times> AdxState" where
  "adx_advance period st candle =
     (if period = 0 then (None, st)
      else if \<not> is_valid_candle candle then (None, adx_reset st)
      else
        case ax_previous_candle st of
          None \<Rightarrow> (None, st\<lparr>ax_previous_candle := Some candle\<rparr>)
        | Some previous \<Rightarrow>
            (case directional_movement candle previous of
               None \<Rightarrow> (None, adx_reset st)
             | Some (spread, plus_dm, minus_dm) \<Rightarrow>
                 let (smoothed_tr, tr_warmup) = smooth_wilder_value (ax_smoothed_tr st) (ax_tr_warmup st) spread period;
                     (smoothed_plus_dm, plus_dm_warmup) =
                       smooth_wilder_value (ax_smoothed_plus_dm st) (ax_plus_dm_warmup st) plus_dm period;
                     (smoothed_minus_dm, minus_dm_warmup) =
                       smooth_wilder_value (ax_smoothed_minus_dm st) (ax_minus_dm_warmup st) minus_dm period;
                     st = advance_dx (directional_index smoothed_tr smoothed_plus_dm smoothed_minus_dm) period
                       (st\<lparr>ax_previous_candle := Some candle, ax_smoothed_tr := smoothed_tr, ax_tr_warmup := tr_warmup,
                           ax_smoothed_plus_dm := smoothed_plus_dm, ax_plus_dm_warmup := plus_dm_warmup,
                           ax_smoothed_minus_dm := smoothed_minus_dm, ax_minus_dm_warmup := minus_dm_warmup\<rparr>)
                 in (Option.bind (ax_current_adx st) finite_option, st)))"

definition adx :: "IndicatorCandle list \<Rightarrow> nat \<Rightarrow> f64 option list" where
  "adx candles period =
     (if period = 0 \<or> length candles \<le> period then replicate (length candles) None
      else scan (adx_advance period) adx_new candles)"

end
