(* ===== verification/IndicatorRuntime.thy ===== *)
theory IndicatorRuntime
  imports Indicators MartingaleRuntime
begin

text \<open>
  \<^verbatim>\<open>src/apps/backtest-engine/src/martingale/indicator_runtime.rs\<close>: the bars of every symbol, indicator
  states that are advanced bar by bar, and the expressions over them that gate entries and stops. The
  record \<open>ind_env\<close> holds what the file uses of the number formats of the standard library:
  \<open>str::parse::<f64>\<close> and \<open>{:.8}\<close>.
\<close>

record ind_env =
  ie_fenv :: fenv
  ie_parse_f64 :: "string \<Rightarrow> f64 option"
  ie_show_fixed8 :: "f64 \<Rightarrow> string"

type_synonym IndicatorKey = "string \<times> string \<times> nat"
type_synonym BollingerKey = "string \<times> nat \<times> string"

subsection \<open>Incremental states\<close>

definition push_window_value :: "f64 list \<Rightarrow> f64 \<Rightarrow> nat \<Rightarrow> f64 list" where
  "push_window_value window value max_len =
     (if max_len = 0 then []
      else let window = window @ [value] in if length window > max_len then tl window else window)"

record IncrementalIndicatorState =
  is_previous_candle :: "IndicatorCandle option"
  is_warmup_ranges :: "f64 list"
  is_current_value :: "f64 option"

definition default_incremental :: IncrementalIndicatorState where
  "default_incremental = \<lparr>is_previous_candle = None, is_warmup_ranges = [], is_current_value = None\<rparr>"

record SmaIndicatorState =
  sm_window :: "f64 list"
  sm_current_value :: "f64 option"

definition default_sma :: SmaIndicatorState where
  "default_sma = \<lparr>sm_window = [], sm_current_value = None\<rparr>"

definition sma_advance :: "nat \<Rightarrow> f64 \<Rightarrow> SmaIndicatorState \<Rightarrow> SmaIndicatorState" where
  "sma_advance period close st =
     (let window = push_window_value (sm_window st) close period
      in \<lparr>sm_window = window,
          sm_current_value =
            (if length window = period \<and> list_all is_finite window
             then finite_option (f_div (f_sum window) (f_of_nat period)) else None)\<rparr>)"

record EmaIndicatorState =
  em_index :: nat
  em_window :: "f64 list"
  em_current_value :: "f64 option"

definition default_ema :: EmaIndicatorState where
  "default_ema = \<lparr>em_index = 0, em_window = [], em_current_value = None\<rparr>"

definition ema_advance :: "nat \<Rightarrow> f64 \<Rightarrow> EmaIndicatorState \<Rightarrow> EmaIndicatorState" where
  "ema_advance period close st =
     (let index = em_index st; window = push_window_value (em_window st) close period;
          multiplier = f_div (Fin 2) (f_add (f_of_nat period) (Fin 1))
      in \<lparr>em_index = index + 1, em_window = window,
          em_current_value =
            (if \<not> is_finite close then None
             else
               case em_current_value st of
                 Some previous \<Rightarrow> finite_option (f_add (f_mul (f_sub close previous) multiplier) previous)
               | None \<Rightarrow>
                   if index + 1 \<ge> period \<and> length window = period \<and> list_all is_finite window
                   then finite_option (f_div (f_sum window) (f_of_nat period)) else None)\<rparr>)"

record RsiIndicatorState =
  ri_index :: nat
  ri_previous_close :: "f64 option"
  ri_window :: "f64 list"
  ri_average_gain :: "f64 option"
  ri_average_loss :: "f64 option"
  ri_current_value :: "f64 option"

definition default_rsi :: RsiIndicatorState where
  "default_rsi =
     \<lparr>ri_index = 0, ri_previous_close = None, ri_window = [], ri_average_gain = None, ri_average_loss = None,
      ri_current_value = None\<rparr>"

fun seed_sums :: "f64 list \<Rightarrow> f64 \<Rightarrow> f64 \<Rightarrow> f64 \<times> f64" where
  "seed_sums (a # b # rest) gain_seed loss_seed =
     (let delta = f_sub b a
      in seed_sums (b # rest) (f_add gain_seed (f_max delta (Fin 0))) (f_add loss_seed (f_max (f_neg delta) (Fin 0))))"
| "seed_sums _ gain_seed loss_seed = (gain_seed, loss_seed)"

definition rsi_averages :: "nat \<Rightarrow> f64 list \<Rightarrow> f64 option \<Rightarrow> f64 option \<times> f64 option \<Rightarrow> f64 option \<times> f64 option" where
  "rsi_averages period window delta averages =
     (case delta of
        None \<Rightarrow> (None, None)
      | Some delta \<Rightarrow>
          (case averages of
             (Some previous_gain, Some previous_loss) \<Rightarrow>
               (finite_option (wilder_average period previous_gain (f_max delta (Fin 0))),
                finite_option (wilder_average period previous_loss (f_max (f_neg delta) (Fin 0))))
           | _ \<Rightarrow>
               if length window = period + 1 \<and> list_all is_finite window
               then let (gain_seed, loss_seed) = seed_sums window (Fin 0) (Fin 0)
                    in (finite_option (f_div gain_seed (f_of_nat period)),
                        finite_option (f_div loss_seed (f_of_nat period)))
               else (None, None)))"

definition rsi_advance :: "nat \<Rightarrow> f64 \<Rightarrow> RsiIndicatorState \<Rightarrow> RsiIndicatorState" where
  "rsi_advance period close st =
     (let index = ri_index st; window = push_window_value (ri_window st) close (period + 1);
          st = st\<lparr>ri_index := index + 1, ri_window := window\<rparr>;
          st = (if index \<ge> period then
                  let delta = Option.bind (ri_previous_close st)
                        (\<lambda>previous. if is_finite previous \<and> is_finite close
                                    then finite_option (f_sub close previous) else None);
                      averages = rsi_averages period window delta (ri_average_gain st, ri_average_loss st)
                  in st\<lparr>ri_average_gain := fst averages, ri_average_loss := snd averages,
                         ri_current_value := rsi_of averages\<rparr>
                else st\<lparr>ri_current_value := None\<rparr>)
      in st\<lparr>ri_previous_close := Some close\<rparr>)"

record BollingerIndicatorState =
  bb_window :: "f64 list"
  bb_stddev :: f64
  bb_current_value :: "BollingerPoint option"

definition bollinger_new :: "f64 \<Rightarrow> BollingerIndicatorState" where
  "bollinger_new stddev = \<lparr>bb_window = [], bb_stddev = stddev, bb_current_value = None\<rparr>"

definition bollinger_advance :: "fenv \<Rightarrow> nat \<Rightarrow> f64 \<Rightarrow> BollingerIndicatorState \<Rightarrow> BollingerIndicatorState" where
  "bollinger_advance F period close st =
     (let window = push_window_value (bb_window st) close period
      in st\<lparr>bb_window := window,
            bb_current_value :=
              (if length window \<noteq> period \<or> \<not> list_all is_finite window then None
               else
                 case finite_option (f_div (f_sum window) (f_of_nat period)) of
                   None \<Rightarrow> None
                 | Some middle \<Rightarrow>
                     if middle = Fin 0 then None else bollinger_point F window period (bb_stddev st) middle)\<rparr>)"

text \<open>The average true range of one bar; the two callers differ in what a candle that is not finite does.\<close>

definition incremental_advance :: "nat \<Rightarrow> IndicatorCandle \<Rightarrow> IncrementalIndicatorState \<Rightarrow> IncrementalIndicatorState" where
  "incremental_advance period candle st =
     (let spread = true_range candle (Option.bind (map_option ic_close (is_previous_candle st)) finite_option);
          st = st\<lparr>is_previous_candle := Some candle\<rparr>
      in case Option.bind spread finite_option of
           None \<Rightarrow> st\<lparr>is_warmup_ranges := [], is_current_value := None\<rparr>
         | Some spread \<Rightarrow>
             (case is_current_value st of
                Some prev \<Rightarrow> st\<lparr>is_current_value := Some (wilder_average period prev spread)\<rparr>
              | None \<Rightarrow>
                  let warmup = is_warmup_ranges st @ [spread]
                  in if length warmup = period
                     then st\<lparr>is_warmup_ranges := [], is_current_value := Some (f_div (f_sum warmup) (f_of_nat period))\<rparr>
                     else st\<lparr>is_warmup_ranges := warmup, is_current_value := None\<rparr>))"

definition finite_candle :: "IndicatorCandle \<Rightarrow> bool" where
  "finite_candle candle \<longleftrightarrow> is_finite (ic_high candle) \<and> is_finite (ic_low candle) \<and> is_finite (ic_close candle)"

definition replay_atr_bar :: "nat \<Rightarrow> IndicatorCandle \<Rightarrow> IncrementalIndicatorState \<Rightarrow> IncrementalIndicatorState" where
  "replay_atr_bar period candle st =
     (if \<not> finite_candle candle then default_incremental else incremental_advance period candle st)"

subsection \<open>The context\<close>

record IndicatorRuntimeContext =
  bars_by_symbol :: "string \<rightharpoonup> KlineBar list"
  incremental :: "IndicatorKey \<rightharpoonup> IncrementalIndicatorState"
  incremental_adx :: "IndicatorKey \<rightharpoonup> AdxState"
  incremental_sma :: "IndicatorKey \<rightharpoonup> SmaIndicatorState"
  incremental_ema :: "IndicatorKey \<rightharpoonup> EmaIndicatorState"
  incremental_rsi :: "IndicatorKey \<rightharpoonup> RsiIndicatorState"
  incremental_bollinger :: "BollingerKey \<rightharpoonup> BollingerIndicatorState"

definition default_indicators :: IndicatorRuntimeContext where
  "default_indicators =
     \<lparr>bars_by_symbol = Map.empty, incremental = Map.empty, incremental_adx = Map.empty, incremental_sma = Map.empty,
      incremental_ema = Map.empty, incremental_rsi = Map.empty, incremental_bollinger = Map.empty\<rparr>"

definition indicator_candle :: "KlineBar \<Rightarrow> IndicatorCandle" where
  "indicator_candle bar = \<lparr>ic_high = kb_high bar, ic_low = kb_low bar, ic_close = kb_close bar\<rparr>"

text \<open>\<open>bars_by_symbol.get(symbol)\<close>, without bars for an unknown symbol.\<close>

definition bars_of :: "IndicatorRuntimeContext \<Rightarrow> string \<Rightarrow> KlineBar list" where
  "bars_of ctx symbol = (case bars_by_symbol ctx symbol of Some bars \<Rightarrow> bars | None \<Rightarrow> [])"

text \<open>The loop over the keys of a symbol; the states are independent of one another.\<close>

definition advance_symbol :: "string \<Rightarrow> (string \<times> 'k \<Rightarrow> 's \<Rightarrow> 's) \<Rightarrow> (string \<times> 'k \<rightharpoonup> 's) \<Rightarrow> (string \<times> 'k \<rightharpoonup> 's)" where
  "advance_symbol trading_symbol advance cache = (\<lambda>key. if fst key = trading_symbol then map_option (advance key) (cache key) else cache key)"

definition push_bar :: "fenv \<Rightarrow> KlineBar \<Rightarrow> IndicatorRuntimeContext \<Rightarrow> IndicatorRuntimeContext" where
  "push_bar F bar ctx =
     (let trading_symbol = kb_symbol bar; candle = indicator_candle bar; close = kb_close bar;
          ctx = ctx\<lparr>bars_by_symbol := (bars_by_symbol ctx)(trading_symbol \<mapsto> bars_of ctx trading_symbol @ [bar])\<rparr>;
          ctx = ctx\<lparr>incremental_sma := advance_symbol trading_symbol (\<lambda>(_, _, period). sma_advance period close) (incremental_sma ctx)\<rparr>;
          ctx = ctx\<lparr>incremental_ema := advance_symbol trading_symbol (\<lambda>(_, _, period). ema_advance period close) (incremental_ema ctx)\<rparr>;
          ctx = ctx\<lparr>incremental_rsi := advance_symbol trading_symbol (\<lambda>(_, _, period). rsi_advance period close) (incremental_rsi ctx)\<rparr>;
          ctx = ctx\<lparr>incremental_bollinger :=
                  advance_symbol trading_symbol (\<lambda>(_, period, _). bollinger_advance F period close) (incremental_bollinger ctx)\<rparr>
      in if finite_candle candle
         then ctx\<lparr>incremental := advance_symbol trading_symbol (\<lambda>(_, _, period). incremental_advance period candle) (incremental ctx),
                  incremental_adx := advance_symbol trading_symbol (\<lambda>(_, _, period) st. snd (adx_advance period st candle))
                    (incremental_adx ctx)\<rparr>
         else ctx)"

text \<open>\<open>ensure_.._cached\<close>: an unknown key starts with the state of all bars so far.\<close>

definition ensure_key :: "'k \<Rightarrow> 's \<Rightarrow> ('k \<rightharpoonup> 's) \<Rightarrow> ('k \<rightharpoonup> 's)" where
  "ensure_key key st cache = (if cache key \<noteq> None then cache else cache(key \<mapsto> st))"

definition ensure_adx_cached :: "string \<Rightarrow> nat \<Rightarrow> IndicatorRuntimeContext \<Rightarrow> IndicatorRuntimeContext" where
  "ensure_adx_cached symbol period ctx =
     ctx\<lparr>incremental_adx := ensure_key (symbol, ''adx'', period)
           (fold (\<lambda>bar st. snd (adx_advance period st (indicator_candle bar))) (bars_of ctx symbol) adx_new)
           (incremental_adx ctx)\<rparr>"

definition latest_adx :: "string \<Rightarrow> nat \<Rightarrow> IndicatorRuntimeContext \<Rightarrow> f64 option \<times> IndicatorRuntimeContext" where
  "latest_adx symbol period ctx =
     (let ctx = ensure_adx_cached symbol period ctx
      in (Option.bind (incremental_adx ctx (symbol, ''adx'', period)) ax_current_adx, ctx))"

definition ensure_atr_cached :: "string \<Rightarrow> nat \<Rightarrow> IndicatorRuntimeContext \<Rightarrow> IndicatorRuntimeContext" where
  "ensure_atr_cached symbol period ctx =
     ctx\<lparr>incremental := ensure_key (symbol, ''atr'', period)
           (fold (\<lambda>bar. replay_atr_bar period (indicator_candle bar)) (bars_of ctx symbol) default_incremental)
           (incremental ctx)\<rparr>"

definition latest_atr :: "string \<Rightarrow> nat \<Rightarrow> IndicatorRuntimeContext \<Rightarrow> f64 option \<times> IndicatorRuntimeContext" where
  "latest_atr symbol period ctx =
     (let ctx = ensure_atr_cached symbol period ctx
      in (Option.bind (incremental ctx (symbol, ''atr'', period)) is_current_value, ctx))"

definition ensure_sma_cached :: "string \<Rightarrow> nat \<Rightarrow> IndicatorRuntimeContext \<Rightarrow> IndicatorRuntimeContext" where
  "ensure_sma_cached symbol period ctx =
     ctx\<lparr>incremental_sma := ensure_key (symbol, ''sma'', period)
           (fold (\<lambda>bar. sma_advance period (kb_close bar)) (bars_of ctx symbol) default_sma) (incremental_sma ctx)\<rparr>"

definition latest_sma :: "string \<Rightarrow> nat \<Rightarrow> IndicatorRuntimeContext \<Rightarrow> f64 option \<times> IndicatorRuntimeContext" where
  "latest_sma symbol period ctx =
     (let ctx = ensure_sma_cached symbol period ctx
      in (Option.bind (incremental_sma ctx (symbol, ''sma'', period)) sm_current_value, ctx))"

definition ensure_ema_cached :: "string \<Rightarrow> nat \<Rightarrow> IndicatorRuntimeContext \<Rightarrow> IndicatorRuntimeContext" where
  "ensure_ema_cached symbol period ctx =
     ctx\<lparr>incremental_ema := ensure_key (symbol, ''ema'', period)
           (fold (\<lambda>bar. ema_advance period (kb_close bar)) (bars_of ctx symbol) default_ema) (incremental_ema ctx)\<rparr>"

definition latest_ema :: "string \<Rightarrow> nat \<Rightarrow> IndicatorRuntimeContext \<Rightarrow> f64 option \<times> IndicatorRuntimeContext" where
  "latest_ema symbol period ctx =
     (let ctx = ensure_ema_cached symbol period ctx
      in (Option.bind (incremental_ema ctx (symbol, ''ema'', period)) em_current_value, ctx))"

definition ensure_rsi_cached :: "string \<Rightarrow> nat \<Rightarrow> IndicatorRuntimeContext \<Rightarrow> IndicatorRuntimeContext" where
  "ensure_rsi_cached symbol period ctx =
     ctx\<lparr>incremental_rsi := ensure_key (symbol, ''rsi'', period)
           (fold (\<lambda>bar. rsi_advance period (kb_close bar)) (bars_of ctx symbol) default_rsi) (incremental_rsi ctx)\<rparr>"

definition latest_rsi :: "string \<Rightarrow> nat \<Rightarrow> IndicatorRuntimeContext \<Rightarrow> f64 option \<times> IndicatorRuntimeContext" where
  "latest_rsi symbol period ctx =
     (let ctx = ensure_rsi_cached symbol period ctx
      in (Option.bind (incremental_rsi ctx (symbol, ''rsi'', period)) ri_current_value, ctx))"

definition ensure_bollinger_cached :: "ind_env \<Rightarrow> string \<Rightarrow> nat \<Rightarrow> f64 \<Rightarrow> IndicatorRuntimeContext \<Rightarrow> IndicatorRuntimeContext" where
  "ensure_bollinger_cached I symbol period stddev ctx =
     ctx\<lparr>incremental_bollinger := ensure_key (symbol, period, ie_show_fixed8 I stddev)
           (fold (\<lambda>bar. bollinger_advance (ie_fenv I) period (kb_close bar)) (bars_of ctx symbol) (bollinger_new stddev))
           (incremental_bollinger ctx)\<rparr>"

definition latest_bollinger ::
  "ind_env \<Rightarrow> string \<Rightarrow> nat \<Rightarrow> f64 \<Rightarrow> IndicatorRuntimeContext \<Rightarrow> BollingerPoint option \<times> IndicatorRuntimeContext" where
  "latest_bollinger I symbol period stddev ctx =
     (let ctx = ensure_bollinger_cached I symbol period stddev ctx
      in (Option.bind (incremental_bollinger ctx (symbol, period, ie_show_fixed8 I stddev)) bb_current_value, ctx))"

subsection \<open>Expressions\<close>

fun split_comparison_by :: "string list \<Rightarrow> string \<Rightarrow> (string \<times> string \<times> string) option" where
  "split_comparison_by [] expression = None"
| "split_comparison_by (operator # rest) expression =
     (case split_first expression operator of
        Some (left, right) \<Rightarrow>
          if str_trim left \<noteq> [] \<and> str_trim right \<noteq> [] then Some (operator, left, right)
          else split_comparison_by rest expression
      | None \<Rightarrow> split_comparison_by rest expression)"

definition split_comparison :: "string \<Rightarrow> (string \<times> string \<times> string) option" where
  "split_comparison = split_comparison_by [''>='', ''<='', ''=='', ''!='', ''>'', ''<'']"

definition parse_indicator_call :: "string \<Rightarrow> (string \<times> string list) option result" where
  "parse_indicator_call operand =
     (let operand = to_ascii_lowercase (str_trim operand)
      in case split_first operand ''('' of
           None \<Rightarrow> Inr None
         | Some (before, rest) \<Rightarrow>
             if \<not> ends_with operand '')'' then Inl (''invalid indicator operand: '' @ operand)
             else Inr (Some (str_trim before,
                    filter (\<lambda>arg. arg \<noteq> []) (map str_trim (str_split CHR '','' (butlast rest))))))"

definition split_symbol_prefix :: "string \<Rightarrow> string \<times> string option" where
  "split_symbol_prefix name =
     (case split_first name ''.'' of
        None \<Rightarrow> (name, None)
      | Some (before, after) \<Rightarrow>
          let symbol = to_ascii_uppercase (str_trim before); indicator = str_trim after
          in if symbol = [] \<or> indicator = [] then (name, None) else (indicator, Some symbol))"

definition one_usize_arg :: "string \<Rightarrow> string list \<Rightarrow> nat result" where
  "one_usize_arg name args =
     (case args of
        [arg] \<Rightarrow>
          (case parse_usize arg of
             None \<Rightarrow> Inl (''invalid indicator period for '' @ name)
           | Some period \<Rightarrow>
               if period = 0 then Inl (''indicator period must be > 0 for '' @ name) else Inr period)
      | _ \<Rightarrow> Inl (name @ '' requires exactly one period argument''))"

definition validate_stddev :: "fenv \<Rightarrow> string \<Rightarrow> f64 \<Rightarrow> unit result" where
  "validate_stddev F label value =
     (if f_le value (Fin 0) then Inl (label @ '' must be positive, got '' @ f_show F value) else Inr ())"

definition bollinger_args :: "ind_env \<Rightarrow> string \<Rightarrow> string list \<Rightarrow> (nat \<times> f64) result" where
  "bollinger_args I name args =
     (if length args \<notin> {1, 2} then Inl (name @ '' requires period and optional stddev arguments'')
      else bind_res (one_usize_arg name (take 1 args))
        (\<lambda>period. bind_res (case args of
             [_, arg] \<Rightarrow>
               (case ie_parse_f64 I arg of
                  None \<Rightarrow> Inl (''invalid bollinger stddev for '' @ name) | Some stddev \<Rightarrow> Inr stddev)
           | _ \<Rightarrow> Inr (Fin 2))
          (\<lambda>stddev. bind_res (validate_stddev (ie_fenv I) ''bollinger.stddev'' stddev) (\<lambda>_. Inr (period, stddev)))))"

text \<open>A price of the last bar, when the operand names one: the field, and the symbol before a dot.\<close>

definition ohlc_reference :: "string \<Rightarrow> string option \<times> string option" where
  "ohlc_reference operand =
     (let lower = to_ascii_lowercase (str_trim operand)
      in case split_first lower ''.'' of
           Some (before, after) \<Rightarrow>
             let field = str_trim after
             in if field \<noteq> [] then (Some field, Some (to_ascii_uppercase before)) else (None, None)
         | None \<Rightarrow> (Some lower, None))"

definition bar_field :: "string \<Rightarrow> (KlineBar \<Rightarrow> f64) option" where
  "bar_field field =
     (if field = ''open'' then Some kb_open else if field = ''high'' then Some kb_high
      else if field = ''low'' then Some kb_low else if field = ''close'' then Some kb_close else None)"

definition last_bar_value :: "string \<Rightarrow> (KlineBar \<Rightarrow> f64) \<Rightarrow> IndicatorRuntimeContext \<Rightarrow> f64 option result" where
  "last_bar_value symbol value ctx =
     (case bars_by_symbol ctx symbol of
        None \<Rightarrow> Inl (''no indicator bars for symbol '' @ symbol)
      | Some bars \<Rightarrow>
          if bars = [] then Inl (''no indicator bars for symbol '' @ symbol) else Inr (Some (value (last bars))))"

text \<open>One arm of the match on the name of an indicator: the period is checked before the lookup.\<close>

definition with_period ::
  "string \<Rightarrow> string list \<Rightarrow> (nat \<Rightarrow> IndicatorRuntimeContext \<Rightarrow> f64 option \<times> IndicatorRuntimeContext) \<Rightarrow>
   (IndicatorRuntimeContext, f64 option) stateful" where
  "with_period name args lookup ctx =
     (case one_usize_arg name args of
        Inl e \<Rightarrow> (Inl e, ctx)
      | Inr period \<Rightarrow> (case lookup period ctx of (value, ctx) \<Rightarrow> (Inr value, ctx)))"

definition with_band ::
  "ind_env \<Rightarrow> string \<Rightarrow> string list \<Rightarrow> string \<Rightarrow> (BollingerPoint \<Rightarrow> f64) \<Rightarrow> (IndicatorRuntimeContext, f64 option) stateful" where
  "with_band I name args symbol value ctx =
     (case bollinger_args I name args of
        Inl e \<Rightarrow> (Inl e, ctx)
      | Inr (period, stddev) \<Rightarrow>
          (case latest_bollinger I symbol period stddev ctx of (point, ctx) \<Rightarrow> (Inr (map_option value point), ctx)))"

definition latest_atr_percent :: "string \<Rightarrow> nat \<Rightarrow> IndicatorRuntimeContext \<Rightarrow> f64 option \<times> IndicatorRuntimeContext" where
  "latest_atr_percent symbol period ctx =
     (case latest_atr symbol period ctx of
        (atr_value, ctx) \<Rightarrow>
          ((case (atr_value, if bars_of ctx symbol = [] then None else Some (kb_close (last (bars_of ctx symbol)))) of
              (Some atr_value, Some close) \<Rightarrow>
                if f_lt (Fin 0) close then Some (f_mul (f_div atr_value close) (Fin 100)) else None
            | _ \<Rightarrow> None), ctx))"

definition resolve_operand :: "ind_env \<Rightarrow> string \<Rightarrow> string \<Rightarrow> (IndicatorRuntimeContext, f64 option) stateful" where
  "resolve_operand I symbol operand ctx =
     (case ie_parse_f64 I operand of
        Some value \<Rightarrow> (Inr (Some value), ctx)
      | None \<Rightarrow>
          (case ohlc_reference operand of
             (field, ohlc_override) \<Rightarrow>
               (case Option.bind field bar_field of
                  Some value \<Rightarrow> (last_bar_value (case ohlc_override of Some s \<Rightarrow> s | None \<Rightarrow> symbol) value ctx, ctx)
                | None \<Rightarrow>
                    (case parse_indicator_call operand of
                       Inl e \<Rightarrow> (Inl e, ctx)
                     | Inr None \<Rightarrow> (Inl (''unsupported indicator operand: '' @ operand), ctx)
                     | Inr (Some (name, args)) \<Rightarrow>
                         (case split_symbol_prefix name of
                            (indicator_name, symbol_override) \<Rightarrow>
                              let s = (case symbol_override of Some s \<Rightarrow> s | None \<Rightarrow> symbol)
                              in if indicator_name = ''sma'' then with_period name args (latest_sma s) ctx
                                 else if indicator_name = ''ema'' then with_period name args (latest_ema s) ctx
                                 else if indicator_name = ''rsi'' then with_period name args (latest_rsi s) ctx
                                 else if indicator_name = ''atr'' then with_period name args (latest_atr s) ctx
                                 else if indicator_name = ''adx'' then with_period name args (latest_adx s) ctx
                                 else if indicator_name = ''bb_upper'' then with_band I name args s bp_upper ctx
                                 else if indicator_name = ''bb_middle'' then with_band I name args s bp_middle ctx
                                 else if indicator_name = ''bb_lower'' then with_band I name args s bp_lower ctx
                                 else if indicator_name = ''bb_bandwidth'' then with_band I name args s bp_bandwidth ctx
                                 else if indicator_name = ''atr_percent''
                                 then with_period name args (latest_atr_percent s) ctx
                                 else (Inl (''unsupported indicator operand: '' @ operand), ctx))))))"

definition f_epsilon :: f64 where
  "f_epsilon = Fin (1 / 2 ^ 52)"

definition compare_values :: "string \<Rightarrow> f64 \<Rightarrow> f64 \<Rightarrow> bool option result" where
  "compare_values operator left right =
     (if operator = ''>'' then Inr (Some (f_lt right left))
      else if operator = ''>='' then Inr (Some (f_le right left))
      else if operator = ''<'' then Inr (Some (f_lt left right))
      else if operator = ''<='' then Inr (Some (f_le left right))
      else if operator = ''=='' then Inr (Some (f_le (f_abs (f_sub left right)) f_epsilon))
      else if operator = ''!='' then Inr (Some (f_lt f_epsilon (f_abs (f_sub left right))))
      else Inl (''unsupported indicator operator: '' @ operator))"

definition evaluate_expression :: "ind_env \<Rightarrow> string \<Rightarrow> string \<Rightarrow> (IndicatorRuntimeContext, bool option) stateful" where
  "evaluate_expression I symbol expression ctx =
     (let expression = str_trim expression
      in case split_comparison expression of
           None \<Rightarrow> (Inl (''unsupported indicator expression: '' @ expression), ctx)
         | Some (operator, left, right) \<Rightarrow>
             (case resolve_operand I symbol (str_trim left) ctx of
                (Inl e, ctx) \<Rightarrow> (Inl e, ctx)
              | (Inr None, ctx) \<Rightarrow> (Inr None, ctx)
              | (Inr (Some left), ctx) \<Rightarrow>
                  (case resolve_operand I symbol (str_trim right) ctx of
                     (Inl e, ctx) \<Rightarrow> (Inl e, ctx)
                   | (Inr None, ctx) \<Rightarrow> (Inr None, ctx)
                   | (Inr (Some right), ctx) \<Rightarrow> (compare_values operator left right, ctx))))"

subsection \<open>Use by strategies\<close>

fun find_atr_period :: "MartingaleIndicatorConfig list \<Rightarrow> nat option" where
  "find_atr_period [] = None"
| "find_atr_period (IcAtr period # _) = Some (unat period)"
| "find_atr_period (_ # rest) = find_atr_period rest"

definition latest_atr_for_strategy ::
  "MartingaleStrategyConfig \<Rightarrow> IndicatorRuntimeContext \<Rightarrow> f64 option \<times> IndicatorRuntimeContext" where
  "latest_atr_for_strategy strategy ctx =
     latest_atr (ms_symbol strategy) (case find_atr_period (ms_indicators strategy) of Some p \<Rightarrow> p | None \<Rightarrow> 2) ctx"

definition extract_symbol_ref_from_operand :: "ind_env \<Rightarrow> string \<Rightarrow> string \<Rightarrow> string option" where
  "extract_symbol_ref_from_operand I operand strategy_symbol =
     (let operand = str_trim operand
      in if ie_parse_f64 I operand \<noteq> None then None
         else
           case split_first (to_ascii_lowercase operand) ''.'' of
             None \<Rightarrow> None
           | Some (before, _) \<Rightarrow>
               let before = to_ascii_uppercase (str_trim before)
               in if before \<noteq> [] \<and> before \<noteq> to_ascii_uppercase strategy_symbol then Some before else None)"

definition append_deps_from_expression :: "ind_env \<Rightarrow> string \<Rightarrow> string \<Rightarrow> string list" where
  "append_deps_from_expression I expression strategy_symbol =
     (case split_comparison (str_trim expression) of
        None \<Rightarrow> []
      | Some (_, left, right) \<Rightarrow>
          List.map_filter (\<lambda>operand. extract_symbol_ref_from_operand I operand strategy_symbol) [left, right])"

fun trigger_expression :: "MartingaleEntryTrigger \<Rightarrow> string option" where
  "trigger_expression (EtIndicatorExpression expression) = Some expression"
| "trigger_expression _ = None"

definition strategy_expressions :: "MartingaleStrategyConfig \<Rightarrow> string list" where
  "strategy_expressions strategy =
     List.map_filter trigger_expression (ms_entry_triggers strategy)
     @ (case ms_stop_loss strategy of Some (SlIndicator expression) \<Rightarrow> [expression] | _ \<Rightarrow> [])"

definition extract_symbol_dependencies :: "ind_env \<Rightarrow> MartingalePortfolioConfig \<Rightarrow> string list" where
  "extract_symbol_dependencies I config =
     (let own = (\<lambda>s. to_ascii_uppercase (str_trim (ms_symbol s)));
          deps = concat (map (\<lambda>s. concat (map (\<lambda>e. append_deps_from_expression I e (own s)) (strategy_expressions s)))
                   (pf_strategies config));
          own_symbols = map own (pf_strategies config)
      in sort (remdups (filter (\<lambda>trading_symbol. trading_symbol \<notin> set own_symbols) deps)))"

subsection \<open>The operations a martingale runtime calls\<close>

definition last_close :: "string \<Rightarrow> IndicatorRuntimeContext \<Rightarrow> f64 option" where
  "last_close symbol ctx = (if bars_of ctx symbol = [] then None else Some (kb_close (last (bars_of ctx symbol))))"

definition indicator_world ::
  "ind_env \<Rightarrow> env \<Rightarrow> (string \<Rightarrow> string) \<Rightarrow> (string \<Rightarrow> string \<Rightarrow> string \<Rightarrow> string \<Rightarrow> u32 \<Rightarrow> u64) \<Rightarrow>
   IndicatorRuntimeContext mg_world" where
  "indicator_world I E upper hash =
     \<lparr>mg_env = E, mg_fenv = ie_fenv I, mg_upper = upper, leg_hash = hash, ind_default = default_indicators,
      ind_push_bar = push_bar (ie_fenv I), ind_evaluate = evaluate_expression I,
      ind_latest_atr = latest_atr_for_strategy, ind_latest_adx = latest_adx, ind_last_close = last_close,
      ind_bar_count = (\<lambda>symbol ctx. map_option length (bars_by_symbol ctx symbol))\<rparr>"

end
