(* ===== verification/IndicatorReplay.thy ===== *)
theory IndicatorReplay
  imports IndicatorRuntime F64Round
begin

text \<open>
  The state an indicator reaches bar by bar is the one its batch form computes from the whole series:
  one lemma per indicator, by induction on the series.
\<close>

definition last_value :: "'a option list \<Rightarrow> 'a option" where
  "last_value xs = (if xs = [] then None else last xs)"

lemma length_scan [simp]: "length (scan f s is) = length is"
  by (induction "is" arbitrary: s) (auto split: prod.splits)

lemma last_value_scan: "last_value (scan f s (is @ [i])) = fst (f (run_to f s is) i)"
proof (induction "is" arbitrary: s)
  case Nil
  then show ?case by (simp add: last_value_def run_to_def split: prod.splits)
next
  case (Cons j js)
  obtain r s' where f: "f s j = (r, s')" by fastforce
  have "scan f s' (js @ [i]) \<noteq> []" by (metis length_scan append_is_Nil_conv length_0_conv not_Cons_self2)
  with Cons [of s'] f show ?case by (simp add: last_value_def run_to_def)
qed

lemma run_to_snoc: "run_to f s (is @ [i]) = snd (f (run_to f s is) i)"
  by (simp add: run_to_def)

lemma run_to_cong: "(\<And>s i. i \<in> set is \<Longrightarrow> f s i = g s i) \<Longrightarrow> run_to f s is = run_to g s is"
  unfolding run_to_def by (rule fold_cong) auto

lemma last_value_replicate [simp]: "last_value (replicate n None) = None"
  by (simp add: last_value_def)

lemma last_value_Cons_replicate [simp]: "last_value (None # replicate n None) = None"
  using last_value_replicate [of "Suc n"] by simp

lemma push_window_drop:
  "0 < p \<Longrightarrow> push_window_value (drop (length xs - p) xs) x p = drop (Suc (length xs) - p) (xs @ [x])"
  by (auto simp: push_window_value_def Let_def drop_Suc tl_drop Suc_diff_le not_less)

lemma length_trailing: "length (drop (length xs - p) xs) = min p (length xs)"
  by auto

lemma trailing_last: "trailing (xs @ [x]) (length xs) p = drop (Suc (length xs) - p) (xs @ [x])"
  by (simp add: trailing_def)

lemma trailing_prefix: "i < length xs \<Longrightarrow> trailing (xs @ ys) i p = trailing xs i p"
  by (simp add: trailing_def)

lemma not_list_ex_finite: "\<not> list_ex (\<lambda>v. \<not> is_finite v) xs \<longleftrightarrow> list_all is_finite xs"
  by (simp add: list_all_iff list_ex_iff)

lemma finite_average_iff:
  "xs \<noteq> [] \<Longrightarrow> finite_average xs = (if list_all is_finite xs then finite_option (f_div (f_sum xs) (f_of_nat (length xs))) else None)"
  by (auto simp: finite_average_def list_all_iff list_ex_iff)

subsection \<open>Simple and exponential averages\<close>

lemma sma_window: "0 < p \<Longrightarrow> sm_window (fold (sma_advance p) xs default_sma) = drop (length xs - p) xs"
  by (induction xs rule: rev_induct) (auto simp: default_sma_def sma_advance_def Let_def push_window_drop)

lemma sma_replay:
  assumes "0 < p"
  shows "sm_current_value (fold (sma_advance p) xs default_sma) = last_value (sma xs p)"
proof (cases xs rule: rev_cases)
  case Nil
  then show ?thesis by (simp add: default_sma_def sma_def last_value_def)
next
  case (snoc ys y)
  have window: "push_window_value (sm_window (fold (sma_advance p) ys default_sma)) y p = drop (Suc (length ys) - p) (ys @ [y])"
    using assms by (simp add: sma_window push_window_drop)
  show ?thesis
  proof (cases "length xs < p")
    case True
    then show ?thesis using assms window by (auto simp: snoc sma_def sma_advance_def Let_def)
  next
    case False
    then have "\<not> length ys < p - 1" using snoc by simp
    with False show ?thesis using assms window
      by (simp add: snoc sma_def sma_advance_def Let_def last_value_def trailing_last)
  qed
qed

definition ema_at :: "f64 list \<Rightarrow> nat \<Rightarrow> nat \<Rightarrow> f64 option" where
  "ema_at xs p k = run_to (ema_step xs p) None [0..<k]"

lemma ema_step_same: "fst (ema_step xs p c i) = snd (ema_step xs p c i)"
  by (auto simp: ema_step_def Let_def)

lemma ema_at_prefix: "k \<le> length xs \<Longrightarrow> ema_at (xs @ ys) p k = ema_at xs p k"
  unfolding ema_at_def
proof (rule run_to_cong)
  fix s i
  assume "k \<le> length xs" and "i \<in> set [0..<k]"
  then have "i < length xs" by auto
  then have "trailing (xs @ ys) i p = trailing xs i p" and "(xs @ ys) ! i = xs ! i"
    by (auto simp: trailing_prefix nth_append)
  then show "ema_step (xs @ ys) p s i = ema_step xs p s i" unfolding ema_step_def by (simp only:)
qed

lemma ema_at_snoc: "ema_at (xs @ [x]) p (Suc (length xs)) = snd (ema_step (xs @ [x]) p (ema_at xs p (length xs)) (length xs))"
  using ema_at_prefix [of "length xs" xs "[x]" p] by (simp add: ema_at_def run_to_snoc)

lemma ema_at_warmup: "length xs < p \<Longrightarrow> ema_at xs p (length xs) = None"
proof (induction xs rule: rev_induct)
  case Nil
  then show ?case by (simp add: ema_at_def run_to_def)
next
  case (snoc x xs)
  then show ?case by (simp add: ema_at_snoc ema_step_def Let_def)
qed

lemma ema_last: "0 < p \<Longrightarrow> last_value (ema xs p) = ema_at xs p (length xs)"
proof (cases xs rule: rev_cases)
  case Nil
  then show ?thesis by (simp add: ema_def last_value_def ema_at_def run_to_def)
next
  case (snoc ys y)
  assume "0 < p"
  then show ?thesis
    using ema_at_warmup [of xs p]
    by (auto simp: ema_def snoc last_value_scan ema_step_same ema_at_def run_to_snoc)
qed

lemma ema_step_last:
  assumes "0 < p" and window: "w = drop (Suc (length xs) - p) (xs @ [x])"
  shows "snd (ema_step (xs @ [x]) p c (length xs)) =
    (if \<not> is_finite x then None
     else case c of
       Some previous \<Rightarrow>
         finite_option (f_add (f_mul (f_sub x previous) (f_div (Fin 2) (f_add (f_of_nat p) (Fin 1)))) previous)
     | None \<Rightarrow>
         if length xs + 1 \<ge> p \<and> length w = p \<and> list_all is_finite w
         then finite_option (f_div (f_sum w) (f_of_nat p)) else None)"
proof (cases "p \<le> Suc (length xs)")
  case True
  then have "length w = p" "w \<noteq> []" using assms by auto
  then have avg: "finite_average w = (if list_all is_finite w then finite_option (f_div (f_sum w) (f_of_nat p)) else None)"
    by (simp add: finite_average_iff)
  have "trailing (xs @ [x]) (length xs) p = w" using window by (simp add: trailing_last)
  with True \<open>length w = p\<close> avg show ?thesis by (simp add: ema_step_def Let_def split: option.split)
qed (simp add: ema_step_def Let_def split: option.split)

lemma ema_state:
  assumes "0 < p"
  shows "fold (ema_advance p) xs default_ema =
    \<lparr>em_index = length xs, em_window = drop (length xs - p) xs, em_current_value = ema_at xs p (length xs)\<rparr>"
proof (induction xs rule: rev_induct)
  case Nil
  then show ?case by (simp add: default_ema_def ema_at_def run_to_def)
next
  case (snoc x xs)
  have "ema_advance p x \<lparr>em_index = length xs, em_window = drop (length xs - p) xs, em_current_value = c\<rparr> =
    \<lparr>em_index = Suc (length xs), em_window = drop (Suc (length xs) - p) (xs @ [x]),
     em_current_value = snd (ema_step (xs @ [x]) p c (length xs))\<rparr>" for c
    unfolding ema_step_last [OF assms refl] using assms
    by (simp only: ema_advance_def Let_def push_window_drop EmaIndicatorState.simps) simp
  then show ?case by (simp only: fold_append comp_apply snoc fold_simps length_append_singleton ema_at_snoc)
qed

lemma ema_replay: "0 < p \<Longrightarrow> em_current_value (fold (ema_advance p) xs default_ema) = last_value (ema xs p)"
  by (simp add: ema_state ema_last)


subsection \<open>Relative strength\<close>

text \<open>
  The batch form gives up both sums as soon as one overflows, the incremental form checks them at the
  end; an overflow shows in both as a pair that is not complete.
\<close>

lemma f_max_0_nonneg: "f_le (Fin 0) (f_max d (Fin 0))"
  by (cases d) (auto simp: f_max_def f_le_def)

lemma f_le_inf [simp]: "f_le (Fin x) PInf" "\<not> f_le (Fin x) NInf" "\<not> f_le (Fin x) NaN"
  by (auto simp: f_le_def)

lemma f_add_nonneg: "f_le (Fin 0) a \<Longrightarrow> f_le (Fin 0) b \<Longrightarrow> f_le (Fin 0) (f_add a b)"
  by (cases a; cases b) (auto simp: f_round_nonneg)

lemma f_add_PInf: "f_le (Fin 0) b \<Longrightarrow> f_add PInf b = PInf" "f_le (Fin 0) b \<Longrightarrow> f_add b PInf = PInf"
  by (cases b; auto simp: f_le_def)+

lemma nonneg_not_finite: "f_le (Fin 0) a \<Longrightarrow> \<not> is_finite a \<Longrightarrow> a = PInf"
  by (cases a) (auto simp: f_le_def)

lemma f_div_PInf: "\<not> is_finite (f_div PInf y)"
  by (cases y) (auto simp: f_inf_def)

lemma finite_option_simps [simp]:
  "finite_option (Fin x) = Some (Fin x)" "finite_option PInf = None" "finite_option NInf = None" "finite_option NaN = None"
  by (auto simp: finite_option_def)

lemma finite_option_div_PInf [simp]: "finite_option (f_div PInf y) = None"
  by (simp add: finite_option_def f_div_PInf)

lemma seed_sums_gain_PInf: "f_le (Fin 0) l \<Longrightarrow> fst (seed_sums xs PInf l) = PInf"
  by (induction xs PInf l rule: seed_sums.induct)
    (auto simp: Let_def f_add_PInf f_max_0_nonneg f_add_nonneg)

lemma seed_sums_loss_PInf: "f_le (Fin 0) g \<Longrightarrow> snd (seed_sums xs g PInf) = PInf"
  by (induction xs g PInf rule: seed_sums.induct)
    (auto simp: Let_def f_add_PInf f_max_0_nonneg f_add_nonneg)

lemma f_sub_Fin: "f_sub (Fin a) (Fin b) = f_round (a - b)"
  by (simp add: f_sub_def)

lemma f_round_not_NaN [simp]: "f_round x \<noteq> NaN" "NaN \<noteq> f_round x"
  by (auto simp: f_round_rounded)

lemma seed_steps_sums:
  assumes "list_all is_finite xs" "is_finite g" "is_finite l" "f_le (Fin 0) g" "f_le (Fin 0) l"
  shows "seed_steps xs g l = (case seed_sums xs g l of (a, b) \<Rightarrow> if is_finite a \<and> is_finite b then Some (a, b) else None)"
  using assms
proof (induction xs g l rule: seed_steps.induct)
  case (1 a b rest g l)
  let ?d = "f_sub b a"
  let ?g = "f_add g (f_max ?d (Fin 0))" and ?l = "f_add l (f_max (f_neg ?d) (Fin 0))"
  have nonneg: "f_le (Fin 0) ?g" "f_le (Fin 0) ?l" using "1.prems" by (auto intro: f_add_nonneg f_max_0_nonneg)
  obtain x y where "a = Fin x" "b = Fin y" using "1.prems"(1) by (auto simp: is_finite_iff)
  then have not_NaN: "?d \<noteq> NaN" by (simp add: f_sub_Fin)
  have overflow: "\<not> (is_finite (fst (seed_sums (a # b # rest) g l)) \<and> is_finite (snd (seed_sums (a # b # rest) g l)))"
    if "\<not> is_finite ?g \<or> \<not> is_finite ?l"
  proof -
    from that have "?g = PInf \<or> ?l = PInf" using nonneg nonneg_not_finite by blast
    then show ?thesis
      using seed_sums_gain_PInf [OF nonneg(2)] seed_sums_loss_PInf [OF nonneg(1)] by (auto simp: Let_def)
  qed
  show ?case
  proof (cases "is_finite ?d \<and> is_finite ?g \<and> is_finite ?l")
    case True
    then have "finite_option ?d = Some ?d" "finite_option ?g = Some ?g" "finite_option ?l = Some ?l"
      by (auto simp: finite_option_def)
    with "1.IH" [of ?d ?g ?l] "1.prems" nonneg True show ?thesis by (simp add: Let_def)
  next
    case False
    have "\<not> is_finite ?g \<or> \<not> is_finite ?l"
    proof (cases "is_finite ?d")
      case True
      with False show ?thesis by simp
    next
      case inf: False
      with not_NaN have "?d = PInf \<or> ?d = NInf" by (cases ?d) auto
      then show ?thesis using "1.prems" by (auto simp: f_max_def f_add_PInf)
    qed
    from overflow [OF this] False show ?thesis
      by (auto simp: finite_option_def split: prod.splits)
  qed
qed auto

definition related :: "f64 option \<times> f64 option \<Rightarrow> f64 option \<times> f64 option \<Rightarrow> bool" where
  "related a b \<longleftrightarrow> a = b \<or> b = (None, None) \<and> (fst a = None \<or> snd a = None)"

lemma related_None: "fst a = None \<or> snd a = None \<Longrightarrow> related a (None, None)"
  by (auto simp: related_def)

lemma rsi_of_related: "related a b \<Longrightarrow> rsi_of a = rsi_of b"
  by (auto simp: related_def rsi_of_def split: option.splits prod.splits)

definition seeded :: "nat \<Rightarrow> f64 list \<Rightarrow> f64 option \<times> f64 option" where
  "seeded p w =
     (if length w = p + 1 \<and> list_all is_finite w
      then let (gain_seed, loss_seed) = seed_sums w (Fin 0) (Fin 0)
           in (finite_option (f_div gain_seed (f_of_nat p)), finite_option (f_div loss_seed (f_of_nat p)))
      else (None, None))"

lemma seeded_related:
  assumes "0 < p" "length w = p + 1"
  shows "related (seeded p w) (map_option fst (wilder_gain_loss_seed w), map_option snd (wilder_gain_loss_seed w))"
proof (cases "list_all is_finite w")
  case False
  then have "list_ex (\<lambda>v. \<not> is_finite v) w" by (auto simp: list_all_iff list_ex_iff)
  with False show ?thesis by (simp add: seeded_def wilder_gain_loss_seed_def related_def)
next
  case True
  obtain a b where sums: "seed_sums w (Fin 0) (Fin 0) = (a, b)" by fastforce
  have steps: "seed_steps w (Fin 0) (Fin 0) = (if is_finite a \<and> is_finite b then Some (a, b) else None)"
    using seed_steps_sums [OF True, of "Fin 0" "Fin 0"] sums by simp
  have nonneg: "f_le (Fin 0) g \<Longrightarrow> f_le (Fin 0) l \<Longrightarrow>
      f_le (Fin 0) (fst (seed_sums xs g l)) \<and> f_le (Fin 0) (snd (seed_sums xs g l))" for xs g l
    by (induction xs g l rule: seed_sums.induct) (auto simp: Let_def f_add_nonneg f_max_0_nonneg)
  have inf: "a = PInf \<or> b = PInf" if "\<not> (is_finite a \<and> is_finite b)"
    using that nonneg [of "Fin 0" "Fin 0" w] sums nonneg_not_finite by auto
  have batch: "\<not> (length w < 2 \<or> list_ex (\<lambda>v. \<not> is_finite v) w)"
    using assms True by (auto simp: list_all_iff list_ex_iff)
  show ?thesis
  proof (cases "is_finite a \<and> is_finite b")
    case True
    with assms sums steps batch \<open>list_all is_finite w\<close> show ?thesis
      by (auto simp: seeded_def wilder_gain_loss_seed_def related_def Let_def split: option.splits)
  next
    case False
    with inf [OF False] assms sums steps batch \<open>list_all is_finite w\<close> show ?thesis
      by (auto simp: seeded_def wilder_gain_loss_seed_def related_def Let_def)
  qed
qed

definition rsi_at :: "f64 list \<Rightarrow> nat \<Rightarrow> nat \<Rightarrow> f64 option \<times> f64 option" where
  "rsi_at xs p k = run_to (rsi_step xs p) (None, None) [p..<k]"

lemma rsi_step_fst: "fst (rsi_step xs p a i) = rsi_of (snd (rsi_step xs p a i))"
  by (simp add: rsi_step_def Let_def)

lemma rsi_at_prefix: "k \<le> length xs \<Longrightarrow> rsi_at (xs @ ys) p k = rsi_at xs p k"
  unfolding rsi_at_def
proof (rule run_to_cong)
  fix s i
  assume "k \<le> length xs" and "i \<in> set [p..<k]"
  then have "i < length xs" by auto
  then have "(xs @ ys) ! i = xs ! i" "(xs @ ys) ! (i - 1) = xs ! (i - 1)"
    "drop (i - p) (take (i + 1) (xs @ ys)) = drop (i - p) (take (i + 1) xs)"
    by (auto simp: nth_append)
  then show "rsi_step (xs @ ys) p s i = rsi_step xs p s i" unfolding rsi_step_def by (simp only:)
qed

lemma rsi_at_early: "k \<le> p \<Longrightarrow> rsi_at xs p k = (None, None)"
  by (simp add: rsi_at_def run_to_def)

lemma rsi_at_snoc:
  assumes "p \<le> length xs"
  shows "rsi_at (xs @ [x]) p (Suc (length xs)) = snd (rsi_step (xs @ [x]) p (rsi_at xs p (length xs)) (length xs))"
proof -
  have "[p..<Suc (length xs)] = [p..<length xs] @ [length xs]" using assms by simp
  then show ?thesis
    using rsi_at_prefix [of "length xs" xs "[x]" p] by (simp only: rsi_at_def run_to_snoc)
qed

lemma rsi_last: "0 < p \<Longrightarrow> last_value (rsi xs p) = rsi_of (rsi_at xs p (length xs))"
proof (cases "length xs \<le> p")
  case True
  then show ?thesis by (simp add: rsi_def rsi_at_early rsi_of_def)
next
  case False
  assume "0 < p"
  from False obtain ys y where xs: "xs = ys @ [y]" by (cases xs rule: rev_cases) auto
  with False have "p \<le> length ys" and split: "[p..<length xs] = [p..<length ys] @ [length ys]" by auto
  let ?s = "scan (rsi_step xs p) (None, None) [p..<length xs]"
  have "?s \<noteq> []" using False by (metis length_scan length_0_conv length_upt not_le zero_less_diff less_numeral_extra(3))
  then have "last_value (rsi xs p) = last_value ?s"
    using False \<open>0 < p\<close> by (simp add: rsi_def last_value_def)
  also have "\<dots> = rsi_of (rsi_at xs p (length xs))"
    unfolding split last_value_scan rsi_step_fst
    using rsi_at_snoc [OF \<open>p \<le> length ys\<close>] rsi_at_prefix [of "length ys" ys "[y]" p]
    by (simp add: xs rsi_at_def)
  finally show ?thesis .
qed

lemma rsi_averages_seeded:
  "rsi_averages p w d a =
    (case d of
       None \<Rightarrow> (None, None)
     | Some delta \<Rightarrow>
         (case a of
            (Some g, Some l) \<Rightarrow>
              (finite_option (wilder_average p g (f_max delta (Fin 0))),
               finite_option (wilder_average p l (f_max (f_neg delta) (Fin 0))))
          | _ \<Rightarrow> seeded p w))"
  by (cases d; cases a; cases "fst a"; cases "snd a") (auto simp: rsi_averages_def seeded_def)

lemma rsi_averages_related:
  assumes "0 < p" "length w = p + 1" "related a b"
  shows "related (rsi_averages p w d a)
    (case d of
       None \<Rightarrow> (None, None)
     | Some delta \<Rightarrow>
         (case b of
            (Some g, Some l) \<Rightarrow>
              (finite_option (wilder_average p g (f_max delta (Fin 0))),
               finite_option (wilder_average p l (f_max (f_neg delta) (Fin 0))))
          | _ \<Rightarrow> (map_option fst (wilder_gain_loss_seed w), map_option snd (wilder_gain_loss_seed w))))"
  using assms(3) seeded_related [OF assms(1,2)]
  by (cases a; cases b; cases "fst a"; cases "snd a")
    (auto simp: rsi_averages_seeded related_def split: option.splits)

definition rsi_state_ok :: "nat \<Rightarrow> f64 list \<Rightarrow> RsiIndicatorState \<Rightarrow> bool" where
  "rsi_state_ok p xs st \<longleftrightarrow>
     ri_index st = length xs \<and> ri_window st = drop (length xs - (p + 1)) xs
     \<and> ri_previous_close st = (if xs = [] then None else Some (last xs))
     \<and> related (ri_average_gain st, ri_average_loss st) (rsi_at xs p (length xs))
     \<and> ri_current_value st = rsi_of (rsi_at xs p (length xs))"

lemma rsi_step_ok:
  assumes p: "0 < p" and ok: "rsi_state_ok p xs st"
  shows "rsi_state_ok p (xs @ [x]) (rsi_advance p x st)"
proof -
  let ?w = "drop (Suc (length xs) - (p + 1)) (xs @ [x])"
  have window: "push_window_value (ri_window st) x (p + 1) = ?w"
    using ok push_window_drop [of "p + 1" xs x] by (simp add: rsi_state_ok_def)
  show ?thesis
  proof (cases "p \<le> length xs")
    case False
    have "fst (ri_average_gain st, ri_average_loss st) = None \<or> snd (ri_average_gain st, ri_average_loss st) = None"
      using ok False rsi_at_early [of "length xs" p xs] by (auto simp: rsi_state_ok_def related_def)
    then have "related (ri_average_gain st, ri_average_loss st) (None, None)" by (rule related_None)
    moreover have "rsi_at (xs @ [x]) p (Suc (length xs)) = (None, None)" using False by (simp add: rsi_at_early)
    ultimately show ?thesis
      using False ok window by (simp add: rsi_state_ok_def rsi_advance_def Let_def rsi_of_def)
  next
    case True
    then have ne: "xs \<noteq> []" using p by auto
    let ?d = "close_delta (last xs) x"
    let ?a = "rsi_averages p ?w ?d (ri_average_gain st, ri_average_loss st)"
    have delta: "Option.bind (ri_previous_close st)
        (\<lambda>previous. if is_finite previous \<and> is_finite x then finite_option (f_sub x previous) else None) = ?d"
      using ok ne by (simp add: rsi_state_ok_def close_delta_def)
    have "length ?w = p + 1" using True by simp
    have parts: "drop (length xs - p) (take (length xs + 1) (xs @ [x])) = ?w" "(xs @ [x]) ! (length xs - 1) = last xs"
        "(xs @ [x]) ! length xs = x"
      using ne by (auto simp: nth_append last_conv_nth)
    have "related (ri_average_gain st, ri_average_loss st) (rsi_at xs p (length xs))"
      using ok by (simp add: rsi_state_ok_def)
    from rsi_averages_related [OF p \<open>length ?w = p + 1\<close> this]
    have rel: "related ?a (rsi_at (xs @ [x]) p (Suc (length xs)))"
      unfolding rsi_at_snoc [OF True] rsi_step_def parts by (simp only: Let_def snd_conv)
    then have "rsi_of ?a = rsi_of (rsi_at (xs @ [x]) p (Suc (length xs)))" by (rule rsi_of_related)
    moreover have "ri_index st = length xs" using ok by (simp add: rsi_state_ok_def)
    ultimately show ?thesis
      using True rel window delta by (simp add: rsi_state_ok_def rsi_advance_def Let_def)
  qed
qed

lemma rsi_replay:
  assumes "0 < p"
  shows "ri_current_value (fold (rsi_advance p) xs default_rsi) = last_value (rsi xs p)"
proof -
  have "rsi_state_ok p xs (fold (rsi_advance p) xs default_rsi)"
  proof (induction xs rule: rev_induct)
    case Nil
    then show ?case
      by (simp add: rsi_state_ok_def default_rsi_def rsi_at_early related_def rsi_of_def)
  next
    case (snoc x xs)
    then show ?case using rsi_step_ok [OF assms] by simp
  qed
  then show ?thesis using assms by (simp add: rsi_state_ok_def rsi_last)
qed

subsection \<open>Bollinger bands\<close>

lemma f_mul_not_finite: "\<not> is_finite b \<Longrightarrow> \<not> is_finite (f_mul a b)"
  by (cases a; cases b) (auto simp: f_inf_def)

lemma bollinger_point_not_finite: "\<not> is_finite stddev \<Longrightarrow> bollinger_point F w p stddev middle = None"
  by (simp add: bollinger_point_def Let_def finite_option_def f_mul_not_finite)

lemma bollinger_window:
  "0 < p \<Longrightarrow> bb_window (fold (bollinger_advance F p) xs (bollinger_new stddev)) = drop (length xs - p) xs
     \<and> bb_stddev (fold (bollinger_advance F p) xs (bollinger_new stddev)) = stddev"
  by (induction xs rule: rev_induct) (auto simp: bollinger_new_def bollinger_advance_def Let_def push_window_drop)

lemma bollinger_replay:
  assumes "0 < p"
  shows "bb_current_value (fold (bollinger_advance F p) xs (bollinger_new stddev)) = last_value (bollinger F xs p stddev)"
proof (cases xs rule: rev_cases)
  case Nil
  then show ?thesis by (simp add: bollinger_new_def bollinger_def last_value_def)
next
  case (snoc ys y)
  let ?st = "fold (bollinger_advance F p) ys (bollinger_new stddev)" and ?w = "drop (Suc (length ys) - p) (ys @ [y])"
  have window: "push_window_value (bb_window ?st) y p = ?w" and sd: "bb_stddev ?st = stddev"
    using assms by (simp_all add: bollinger_window push_window_drop)
  show ?thesis
  proof (cases "length xs < p")
    case True
    then have "length ?w \<noteq> p" using snoc by simp
    with True show ?thesis using window sd
      by (simp add: snoc bollinger_def bollinger_advance_def Let_def)
  next
    case False
    then have full: "length ?w = p" "?w \<noteq> []" "\<not> length ys < p - 1" using assms snoc by auto
    have "finite_average ?w = (if list_all is_finite ?w then finite_option (f_div (f_sum ?w) (f_of_nat p)) else None)"
      using full by (simp add: finite_average_iff)
    moreover have "is_finite m" if "finite_option v = Some m" for v m
      using that by (auto simp: finite_option_def split: if_splits)
    ultimately show ?thesis
      using False assms full window sd
      by (cases "is_finite stddev")
        (auto simp: snoc bollinger_def bollinger_advance_def Let_def last_value_def trailing_last
          bollinger_point_not_finite split: option.splits)
  qed
qed

subsection \<open>Directional index\<close>

text \<open>\<open>adx_counted n\<close>: after \<open>n\<close> candles nothing is known before more than \<open>p\<close> of them were seen.\<close>

definition adx_counted :: "nat \<Rightarrow> nat \<Rightarrow> AdxState \<Rightarrow> bool" where
  "adx_counted p n st \<longleftrightarrow>
     length (ax_tr_warmup st) \<le> n - 1 \<and> (ax_smoothed_tr st \<noteq> None \<longrightarrow> p < n)
     \<and> (n = 0 \<longrightarrow> ax_previous_candle st = None) \<and> (ax_current_adx st \<noteq> None \<longrightarrow> p < n)
     \<and> (ax_previous_candle st = None \<longrightarrow> ax_current_adx st = None)"

abbreviation adx_state_after :: "nat \<Rightarrow> IndicatorCandle list \<Rightarrow> AdxState" where
  "adx_state_after p cs \<equiv> fold (\<lambda>c st. snd (adx_advance p st c)) cs adx_new"

lemma adx_counted_new [simp]: "adx_counted p n adx_new"
  by (simp add: adx_counted_def adx_new_def)

lemma smooth_counted:
  assumes "smooth_wilder_value previous warmup v p = (smoothed, warmup')" "length warmup \<le> n - 1" "0 < n"
    "previous \<noteq> None \<longrightarrow> p < n"
  shows "length warmup' \<le> n" "smoothed \<noteq> None \<longrightarrow> p \<le> n"
  using assms by (auto simp: smooth_wilder_value_def Let_def split: option.splits if_splits)

lemma advance_dx_fields [simp]:
  "ax_previous_candle (advance_dx dx p st) = ax_previous_candle st"
  "ax_smoothed_tr (advance_dx dx p st) = ax_smoothed_tr st"
  "ax_tr_warmup (advance_dx dx p st) = ax_tr_warmup st"
  by (auto simp: advance_dx_def Let_def split: option.splits)

lemma directional_index_tr: "smoothed_tr = None \<Longrightarrow> directional_index smoothed_tr a b = None"
  by (simp add: directional_index_def)

lemma advance_dx_None: "ax_current_adx (advance_dx None p st) = None"
  by (simp add: advance_dx_def)

lemma adx_advance_counted:
  assumes "0 < p" "adx_counted p n st"
  shows "adx_counted p (Suc n) (snd (adx_advance p st c))"
proof (cases "is_valid_candle c")
  case False
  then show ?thesis using assms by (simp add: adx_advance_def adx_reset_def)
next
  case valid: True
  show ?thesis
  proof (cases "ax_previous_candle st")
    case None
    then show ?thesis using assms valid
      by (auto simp: adx_advance_def adx_counted_def)
  next
    case (Some previous)
    show ?thesis
    proof (cases "directional_movement c previous")
      case None
      then show ?thesis using assms valid Some by (simp add: adx_advance_def adx_reset_def)
    next
      case move: (Some move)
      obtain spread up down where m: "move = (spread, up, down)" by (cases move)
      obtain tr trw where tr: "smooth_wilder_value (ax_smoothed_tr st) (ax_tr_warmup st) spread p = (tr, trw)" by fastforce
      obtain pd pw where pd: "smooth_wilder_value (ax_smoothed_plus_dm st) (ax_plus_dm_warmup st) up p = (pd, pw)" by fastforce
      obtain md mw where md: "smooth_wilder_value (ax_smoothed_minus_dm st) (ax_minus_dm_warmup st) down p = (md, mw)" by fastforce
      have "0 < n" using assms(2) Some by (auto simp: adx_counted_def)
      then have "length trw \<le> n" "tr \<noteq> None \<longrightarrow> p \<le> n"
        using smooth_counted [OF tr] assms(2) by (auto simp: adx_counted_def)
      then show ?thesis
        using assms valid Some move m tr pd md
        by (cases tr) (auto simp: adx_advance_def adx_counted_def Let_def directional_index_tr advance_dx_None)
    qed
  qed
qed

lemma adx_state_counted: "0 < p \<Longrightarrow> adx_counted p (length cs) (adx_state_after p cs)"
  by (induction cs rule: rev_induct) (auto simp: adx_advance_counted)

lemma advance_dx_finite: "Option.bind (ax_current_adx (advance_dx dx p st)) finite_option = ax_current_adx (advance_dx dx p st)"
  by (auto simp: advance_dx_def Let_def finite_option_def split: option.splits)

lemma adx_advance_value:
  assumes "0 < p" "adx_counted p n st"
  shows "fst (adx_advance p st c) = ax_current_adx (snd (adx_advance p st c))"
  using assms
  by (auto simp: adx_advance_def adx_reset_def adx_new_def adx_counted_def Let_def advance_dx_finite
      split: option.splits prod.splits)

lemma adx_replay:
  assumes "0 < p"
  shows "ax_current_adx (adx_state_after p cs) = last_value (adx cs p)"
proof (cases cs rule: rev_cases)
  case Nil
  then show ?thesis by (simp add: adx_def adx_new_def last_value_def)
next
  case (snoc ds d)
  show ?thesis
  proof (cases "length cs \<le> p")
    case True
    then have "ax_current_adx (adx_state_after p cs) = None"
      using adx_state_counted [OF assms, of cs] by (auto simp: adx_counted_def)
    with True show ?thesis by (simp add: adx_def)
  next
    case False
    have run: "run_to (adx_advance p) adx_new ds = adx_state_after p ds" by (simp add: run_to_def)
    from False assms show ?thesis
      using adx_advance_value [OF assms adx_state_counted [OF assms, of ds], of d]
      by (simp add: snoc adx_def last_value_scan run)
  qed
qed

subsection \<open>Average true range\<close>

text \<open>
  The two forms treat an overflow differently, so they are compared on candles whose prices are so
  small that no range overflows.
\<close>

definition moderate :: "f64 \<Rightarrow> bool" where
  "moderate v \<longleftrightarrow> (\<exists>x. v = Fin x \<and> 0 \<le> x \<and> x \<le> 2 ^ 52)"

definition moderate_candle :: "IndicatorCandle \<Rightarrow> bool" where
  "moderate_candle c \<longleftrightarrow> moderate (ic_high c) \<and> moderate (ic_low c) \<and> moderate (ic_close c) \<and> f_le (ic_low c) (ic_high c)"

lemma f_round_power: "f_round (2 ^ 52) = Fin (2 ^ 52)"
  using f_round_int [of "2 ^ 52"] by simp

lemma f_round_moderate: "\<bar>x\<bar> \<le> 2 ^ 52 \<Longrightarrow> is_finite (f_round x)"
proof -
  assume "\<bar>x\<bar> \<le> 2 ^ 52"
  then have "f_le (f_round x) (f_round (2 ^ 52))" "f_le (f_round (- (2 ^ 52))) (f_round x)"
    by (auto intro!: f_round_mono)
  moreover have "is_finite (f_round (- (2 ^ 52)))"
    using f_round_power by (auto simp: f_round_rounded rounded_minus split: if_splits)
  ultimately show ?thesis
    unfolding f_round_power by (cases "f_round x"; cases "f_round (- (2 ^ 52))") (auto simp: f_le_def)
qed

lemma moderate_sub: "moderate a \<Longrightarrow> moderate b \<Longrightarrow> is_finite (f_sub a b)"
  by (auto simp: moderate_def f_sub_Fin intro!: f_round_moderate)

lemma finite_abs [simp]: "is_finite (f_abs a) = is_finite a"
  by (cases a) auto

lemma finite_max: "is_finite a \<Longrightarrow> is_finite b \<Longrightarrow> is_finite (f_max a b)"
  by (auto simp: is_finite_iff)

lemma moderate_finite: "moderate a \<Longrightarrow> is_finite a"
  by (auto simp: moderate_def)

lemma moderate_valid: "moderate_candle c \<Longrightarrow> is_valid_candle c"
  by (auto simp: moderate_candle_def is_valid_candle_def moderate_finite)

lemma true_range_moderate:
  assumes "moderate_candle c" "pc = None \<or> (\<exists>k. pc = Some k \<and> moderate k)"
  shows "\<exists>v. true_range c pc = Some v \<and> is_finite v"
proof -
  have hl: "is_finite (f_sub (ic_high c) (ic_low c))" using assms(1) by (auto simp: moderate_candle_def moderate_sub)
  from assms(2) show ?thesis
  proof
    assume "pc = None"
    then show ?thesis using assms(1) hl by (simp add: true_range_def moderate_valid finite_max)
  next
    assume "\<exists>k. pc = Some k \<and> moderate k"
    then obtain k where k: "pc = Some k" "moderate k" by blast
    then have "is_finite (f_sub (ic_high c) k)" "is_finite (f_sub (ic_low c) k)" "finite_option k = Some k"
      using assms(1) by (auto simp: moderate_candle_def moderate_sub finite_option_def moderate_finite)
    then show ?thesis using assms(1) hl k by (simp add: true_range_def moderate_valid finite_max)
  qed
qed

definition atr_start :: atr_loop where
  "atr_start = \<lparr>at_current = None, at_warmup_ranges = [], at_previous_candle = None\<rparr>"

definition atr_agree :: "nat \<Rightarrow> IndicatorCandle list \<Rightarrow> atr_loop \<Rightarrow> IncrementalIndicatorState \<Rightarrow> bool" where
  "atr_agree p cs b st \<longleftrightarrow>
     at_previous_candle b = (if cs = [] then None else Some (last cs)) \<and> is_previous_candle st = at_previous_candle b
     \<and> (if length cs < p
         then at_current b = None \<and> is_current_value st = None \<and> at_warmup_ranges b = is_warmup_ranges st
              \<and> length (at_warmup_ranges b) = length cs \<and> list_all is_finite (at_warmup_ranges b)
         else (\<exists>v. is_current_value st = Some v \<and> (at_current b = None \<or> at_current b = Some v))
              \<and> p \<le> length (at_warmup_ranges b))"

lemma atr_range_step_agree:
  assumes p: "0 < p" and agree: "atr_agree p cs b st" and all: "list_all moderate_candle (cs @ [c])"
  shows "atr_agree p (cs @ [c]) (snd (atr_range_step p b c)) (replay_atr_bar p c st)"
proof -
  have valid: "is_valid_candle c" and fc: "finite_candle c"
    using all moderate_valid by (auto simp: finite_candle_def is_valid_candle_def)
  let ?pc = "Option.bind (at_previous_candle b) finite_close"
  have "?pc = None \<or> (\<exists>k. ?pc = Some k \<and> moderate k)"
    using agree all
    by (auto simp: atr_agree_def finite_close_def finite_option_def moderate_candle_def list_all_iff)
  with all obtain v where v: "true_range c ?pc = Some v" "is_finite v"
    using true_range_moderate [of c ?pc] by auto
  have pc: "Option.bind (map_option ic_close (is_previous_candle st)) finite_option = ?pc"
    using agree by (auto simp: atr_agree_def finite_close_def)
  have fin: "Option.bind (Some v) finite_option = Some v" using v by (simp add: finite_option_def)
  note steps = atr_range_step_def replay_atr_bar_def incremental_advance_def
  show ?thesis
  proof (cases "length cs < p")
    case True
    then have same: "at_current b = None" "is_current_value st = None" "at_warmup_ranges b = is_warmup_ranges st"
      "length (is_warmup_ranges st) = length cs" "list_all is_finite (is_warmup_ranges st)"
      using agree by (auto simp: atr_agree_def)
    show ?thesis
    proof (cases "Suc (length cs) = p")
      case full: True
      let ?w = "is_warmup_ranges st @ [v]"
      have "finite_average ?w = finite_option (f_div (f_sum ?w) (f_of_nat p))"
        using same v full by (subst finite_average_iff) auto
      then show ?thesis
        using full same valid fc v fin pc
        by (auto simp: steps Let_def atr_agree_def finite_option_def)
    next
      case False
      with True have "Suc (length cs) < p" by simp
      then show ?thesis
        using same valid fc v fin pc by (auto simp: steps Let_def atr_agree_def)
    qed
  next
    case False
    then obtain u where u: "is_current_value st = Some u" "at_current b = None \<or> at_current b = Some u"
      and w: "p \<le> length (at_warmup_ranges b)"
      using agree by (auto simp: atr_agree_def)
    then show ?thesis
      using False valid fc v fin pc
      by (auto simp: steps Let_def atr_agree_def finite_option_def)
  qed
qed

lemma atr_states_agree:
  assumes "0 < p" "list_all moderate_candle cs"
  shows "atr_agree p cs (run_to (atr_range_step p) atr_start cs) (fold (replay_atr_bar p) cs default_incremental)"
  using assms(2)
proof (induction cs rule: rev_induct)
  case Nil
  then show ?case using assms(1) by (simp add: atr_agree_def run_to_def atr_start_def default_incremental_def)
next
  case (snoc c cs)
  then show ?case using atr_range_step_agree [OF assms(1) _ snoc.prems] by (simp add: run_to_snoc)
qed

lemma atr_range_step_value: "fst (atr_range_step p b c) = at_current (snd (atr_range_step p b c))"
  by (simp add: atr_range_step_def Let_def split: prod.splits)

lemma atr_last: "0 < p \<Longrightarrow> p \<le> length cs \<Longrightarrow> last_value (atr cs p) = at_current (run_to (atr_range_step p) atr_start cs)"
  by (cases cs rule: rev_cases) (auto simp: atr_def last_value_scan run_to_snoc atr_range_step_value atr_start_def)

lemma atr_replay:
  assumes "0 < p" "list_all moderate_candle cs"
  shows "last_value (atr cs p) = Some v \<Longrightarrow> is_current_value (fold (replay_atr_bar p) cs default_incremental) = Some v"
    and "is_current_value (fold (replay_atr_bar p) cs default_incremental) = None \<longleftrightarrow> length cs < p"
proof -
  note agree = atr_states_agree [OF assms, unfolded atr_agree_def]
  show "is_current_value (fold (replay_atr_bar p) cs default_incremental) = None \<longleftrightarrow> length cs < p"
    using agree by (auto split: if_splits)
  assume some: "last_value (atr cs p) = Some v"
  then have "p \<le> length cs" using assms(1) by (auto simp: atr_def not_less [symmetric])
  with some agree show "is_current_value (fold (replay_atr_bar p) cs default_incremental) = Some v"
    using atr_last [OF assms(1)] by auto
qed

end
