(* ===== verification/IndicatorProps.thy ===== *)
theory IndicatorProps
  imports IndicatorReplay
begin

text \<open>
  The context keeps one cache per kind of indicator. A cache entry that is created late is replayed from
  the stored bars, one that exists is advanced with every new bar; the locale \<open>indicator_cache\<close> says what
  both must agree on so that an entry always is the replay of the bars of its symbol.
\<close>

locale indicator_cache =
  fixes start :: "'k \<Rightarrow> 's \<Rightarrow> bool"
    and replay :: "'k \<Rightarrow> 'x \<Rightarrow> 's \<Rightarrow> 's"
    and push :: "'k \<Rightarrow> 'x \<Rightarrow> 's \<Rightarrow> 's"
    and ok :: "'x \<Rightarrow> bool"
  assumes same_step: "ok x \<Longrightarrow> push k x st = replay k x st"
begin

definition replayed :: "(string \<Rightarrow> 'x list) \<Rightarrow> (string \<times> 'k \<rightharpoonup> 's) \<Rightarrow> bool" where
  "replayed bars cache \<longleftrightarrow>
     (\<forall>s k st. cache (s, k) = Some st \<longrightarrow> list_all ok (bars s) \<longrightarrow>
        (\<exists>initial. start k initial \<and> st = fold (replay k) (bars s) initial))"

lemma replayed_empty: "replayed bars Map.empty"
  by (simp add: replayed_def)

lemma replayed_push:
  assumes "replayed bars cache"
  shows "replayed (bars(s := bars s @ [x])) (advance_symbol s (\<lambda>key. push (snd key) x) cache)"
  unfolding replayed_def
proof (intro allI impI)
  fix t k st
  assume st: "advance_symbol s (\<lambda>key. push (snd key) x) cache (t, k) = Some st"
    and all: "list_all ok ((bars(s := bars s @ [x])) t)"
  show "\<exists>initial. start k initial \<and> st = fold (replay k) ((bars(s := bars s @ [x])) t) initial"
  proof (cases "t = s")
    case True
    with st obtain st' where "cache (s, k) = Some st'" "st = push k x st'" by (auto simp: advance_symbol_def)
    then show ?thesis using assms all True same_step by (fastforce simp: replayed_def)
  next
    case False
    then show ?thesis using assms st all by (auto simp: replayed_def advance_symbol_def)
  qed
qed

lemma replayed_ensure:
  assumes "replayed bars cache" "start k initial"
  shows "replayed bars (ensure_key (s, k) (fold (replay k) (bars s) initial) cache)"
  using assms by (auto simp: replayed_def ensure_key_def)

lemma ensured_lookup:
  assumes "replayed bars cache" "start k initial" "list_all ok (bars s)"
  shows "\<exists>first. start k first \<and> ensure_key (s, k) (fold (replay k) (bars s) initial) cache (s, k) = Some (fold (replay k) (bars s) first)"
  using assms by (cases "cache (s, k)") (auto simp: replayed_def ensure_key_def)

end

definition bar_finite :: "KlineBar \<Rightarrow> bool" where
  "bar_finite bar \<longleftrightarrow> finite_candle (indicator_candle bar)"

definition band_start :: "ind_env \<Rightarrow> nat \<times> string \<Rightarrow> BollingerIndicatorState \<Rightarrow> bool" where
  "band_start I k st \<longleftrightarrow> (\<exists>stddev. ie_show_fixed8 I stddev = snd k \<and> st = bollinger_new stddev)"

definition adx_replay_bar :: "string \<times> nat \<Rightarrow> KlineBar \<Rightarrow> AdxState \<Rightarrow> AdxState" where
  "adx_replay_bar k bar = (\<lambda>st. snd (adx_advance (snd k) st (indicator_candle bar)))"

definition adx_push_bar :: "string \<times> nat \<Rightarrow> KlineBar \<Rightarrow> AdxState \<Rightarrow> AdxState" where
  "adx_push_bar k bar = (if bar_finite bar then adx_replay_bar k bar else (\<lambda>st. st))"

definition atr_replay_bar :: "string \<times> nat \<Rightarrow> KlineBar \<Rightarrow> IncrementalIndicatorState \<Rightarrow> IncrementalIndicatorState" where
  "atr_replay_bar k bar = replay_atr_bar (snd k) (indicator_candle bar)"

definition atr_push_bar :: "string \<times> nat \<Rightarrow> KlineBar \<Rightarrow> IncrementalIndicatorState \<Rightarrow> IncrementalIndicatorState" where
  "atr_push_bar k bar = (if bar_finite bar then incremental_advance (snd k) (indicator_candle bar) else (\<lambda>st. st))"

interpretation sma_cache: indicator_cache "\<lambda>_ st. st = default_sma" "\<lambda>k bar. sma_advance (snd k) (kb_close bar)"
    "\<lambda>k bar. sma_advance (snd k) (kb_close bar)" "\<lambda>_. True"
  by unfold_locales simp

interpretation ema_cache: indicator_cache "\<lambda>_ st. st = default_ema" "\<lambda>k bar. ema_advance (snd k) (kb_close bar)"
    "\<lambda>k bar. ema_advance (snd k) (kb_close bar)" "\<lambda>_. True"
  by unfold_locales simp

interpretation rsi_cache: indicator_cache "\<lambda>_ st. st = default_rsi" "\<lambda>k bar. rsi_advance (snd k) (kb_close bar)"
    "\<lambda>k bar. rsi_advance (snd k) (kb_close bar)" "\<lambda>_. True"
  by unfold_locales simp

interpretation band_cache: indicator_cache "band_start I" "\<lambda>k bar. bollinger_advance F (fst k) (kb_close bar)"
    "\<lambda>k bar. bollinger_advance F (fst k) (kb_close bar)" "\<lambda>_. True" for I F
  by unfold_locales simp

interpretation adx_cache: indicator_cache "\<lambda>_ st. st = adx_new" adx_replay_bar adx_push_bar bar_finite
  by unfold_locales (simp add: adx_push_bar_def)

interpretation atr_cache: indicator_cache "\<lambda>_ st. st = default_incremental" atr_replay_bar atr_push_bar bar_finite
  by unfold_locales (simp add: atr_push_bar_def atr_replay_bar_def replay_atr_bar_def bar_finite_def)

subsection \<open>The invariant of the context\<close>

definition context_ok :: "ind_env \<Rightarrow> IndicatorRuntimeContext \<Rightarrow> bool" where
  "context_ok I ctx \<longleftrightarrow>
     sma_cache.replayed (bars_of ctx) (incremental_sma ctx) \<and> ema_cache.replayed (bars_of ctx) (incremental_ema ctx)
     \<and> rsi_cache.replayed (bars_of ctx) (incremental_rsi ctx)
     \<and> band_cache.replayed I (ie_fenv I) (bars_of ctx) (incremental_bollinger ctx)
     \<and> adx_cache.replayed (bars_of ctx) (incremental_adx ctx) \<and> atr_cache.replayed (bars_of ctx) (incremental ctx)"

lemma bars_of_cong: "bars_by_symbol ctx = bars_by_symbol ctx' \<Longrightarrow> bars_of ctx = bars_of ctx'"
  by (rule ext) (simp add: bars_of_def)

lemma bars_of_push: "bars_of (push_bar F bar ctx) = (bars_of ctx)(kb_symbol bar := bars_of ctx (kb_symbol bar) @ [bar])"
  by (rule ext) (simp add: push_bar_def Let_def bars_of_def)

lemma advance_symbol_id: "advance_symbol s (\<lambda>key st. st) cache = cache"
  by (rule ext) (auto simp: advance_symbol_def option.map_ident)

lemma push_bar_caches:
  "incremental_sma (push_bar F bar ctx) =
     advance_symbol (kb_symbol bar) (\<lambda>key. sma_advance (snd (snd key)) (kb_close bar)) (incremental_sma ctx)"
  "incremental_ema (push_bar F bar ctx) =
     advance_symbol (kb_symbol bar) (\<lambda>key. ema_advance (snd (snd key)) (kb_close bar)) (incremental_ema ctx)"
  "incremental_rsi (push_bar F bar ctx) =
     advance_symbol (kb_symbol bar) (\<lambda>key. rsi_advance (snd (snd key)) (kb_close bar)) (incremental_rsi ctx)"
  "incremental_bollinger (push_bar F bar ctx) =
     advance_symbol (kb_symbol bar) (\<lambda>key. bollinger_advance F (fst (snd key)) (kb_close bar)) (incremental_bollinger ctx)"
  "incremental_adx (push_bar F bar ctx) =
     advance_symbol (kb_symbol bar) (\<lambda>key. adx_push_bar (snd key) bar) (incremental_adx ctx)"
  "incremental (push_bar F bar ctx) =
     advance_symbol (kb_symbol bar) (\<lambda>key. atr_push_bar (snd key) bar) (incremental ctx)"
  by (auto simp: push_bar_def Let_def case_prod_unfold adx_push_bar_def atr_push_bar_def adx_replay_bar_def
      bar_finite_def advance_symbol_id)

lemma push_bar_ok: "context_ok I ctx \<Longrightarrow> context_ok I (push_bar (ie_fenv I) bar ctx)"
  unfolding context_ok_def bars_of_push push_bar_caches
  by (intro conjI sma_cache.replayed_push ema_cache.replayed_push rsi_cache.replayed_push band_cache.replayed_push
      adx_cache.replayed_push atr_cache.replayed_push) auto


subsection \<open>Queries\<close>

text \<open>A query changes the context only by the entries it adds.\<close>

lemma ensure_ok:
  assumes "context_ok I ctx"
  shows "context_ok I (ensure_sma_cached s p ctx)" "context_ok I (ensure_ema_cached s p ctx)"
    "context_ok I (ensure_rsi_cached s p ctx)" "context_ok I (ensure_bollinger_cached I s p stddev ctx)"
    "context_ok I (ensure_adx_cached s p ctx)" "context_ok I (ensure_atr_cached s p ctx)"
proof -
  have same: "bars_of (ctx\<lparr>incremental_sma := a\<rparr>) = bars_of ctx" "bars_of (ctx\<lparr>incremental_ema := b\<rparr>) = bars_of ctx"
    "bars_of (ctx\<lparr>incremental_rsi := c\<rparr>) = bars_of ctx" "bars_of (ctx\<lparr>incremental_bollinger := d\<rparr>) = bars_of ctx"
    "bars_of (ctx\<lparr>incremental_adx := e\<rparr>) = bars_of ctx" "bars_of (ctx\<lparr>incremental := f\<rparr>) = bars_of ctx"
    for a b c d e f
    by (rule bars_of_cong; simp)+
  show "context_ok I (ensure_sma_cached s p ctx)"
    using assms sma_cache.replayed_ensure [OF _ refl, of "bars_of ctx" "incremental_sma ctx" s "(''sma'', p)"]
    by (simp add: context_ok_def ensure_sma_cached_def same)
  show "context_ok I (ensure_ema_cached s p ctx)"
    using assms ema_cache.replayed_ensure [OF _ refl, of "bars_of ctx" "incremental_ema ctx" s "(''ema'', p)"]
    by (simp add: context_ok_def ensure_ema_cached_def same)
  show "context_ok I (ensure_rsi_cached s p ctx)"
    using assms rsi_cache.replayed_ensure [OF _ refl, of "bars_of ctx" "incremental_rsi ctx" s "(''rsi'', p)"]
    by (simp add: context_ok_def ensure_rsi_cached_def same)
  show "context_ok I (ensure_bollinger_cached I s p stddev ctx)"
    using assms band_cache.replayed_ensure [of I "ie_fenv I" "bars_of ctx" "incremental_bollinger ctx"
        "(p, ie_show_fixed8 I stddev)" "bollinger_new stddev" s]
    by (auto simp: context_ok_def ensure_bollinger_cached_def same band_start_def)
  show "context_ok I (ensure_adx_cached s p ctx)"
    using assms adx_cache.replayed_ensure [OF _ refl, of "bars_of ctx" "incremental_adx ctx" s "(''adx'', p)"]
    by (simp add: context_ok_def ensure_adx_cached_def same adx_replay_bar_def [abs_def])
  show "context_ok I (ensure_atr_cached s p ctx)"
    using assms atr_cache.replayed_ensure [OF _ refl, of "bars_of ctx" "incremental ctx" s "(''atr'', p)"]
    by (simp add: context_ok_def ensure_atr_cached_def same atr_replay_bar_def [abs_def])
qed

definition queried :: "ind_env \<Rightarrow> (string \<rightharpoonup> KlineBar list) \<Rightarrow> IndicatorRuntimeContext \<Rightarrow> bool" where
  "queried I bars ctx \<longleftrightarrow> context_ok I ctx \<and> bars_by_symbol ctx = bars"

lemma ensure_queried:
  assumes "queried I bars ctx"
  shows "queried I bars (ensure_sma_cached s p ctx)" "queried I bars (ensure_ema_cached s p ctx)"
    "queried I bars (ensure_rsi_cached s p ctx)" "queried I bars (ensure_bollinger_cached I s p stddev ctx)"
    "queried I bars (ensure_adx_cached s p ctx)" "queried I bars (ensure_atr_cached s p ctx)"
  using assms ensure_ok [of I ctx]
  by (auto simp: queried_def ensure_sma_cached_def ensure_ema_cached_def ensure_rsi_cached_def
      ensure_bollinger_cached_def ensure_adx_cached_def ensure_atr_cached_def)

lemma latest_queried:
  assumes "queried I bars ctx"
  shows "queried I bars (snd (latest_sma s p ctx))" "queried I bars (snd (latest_ema s p ctx))"
    "queried I bars (snd (latest_rsi s p ctx))" "queried I bars (snd (latest_bollinger I s p stddev ctx))"
    "queried I bars (snd (latest_adx s p ctx))" "queried I bars (snd (latest_atr s p ctx))"
    "queried I bars (snd (latest_atr_percent s p ctx))"
  using ensure_queried [OF assms]
  by (auto simp: latest_sma_def latest_ema_def latest_rsi_def latest_bollinger_def latest_adx_def latest_atr_def
      latest_atr_percent_def Let_def)

lemma with_period_queried:
  "(\<And>p. queried I bars (snd (lookup p ctx))) \<Longrightarrow> queried I bars ctx \<Longrightarrow> queried I bars (snd (with_period name args lookup ctx))"
  by (auto simp: with_period_def split: sum.splits prod.splits) (metis snd_conv)

lemma with_band_queried: "queried I bars ctx \<Longrightarrow> queried I bars (snd (with_band I name args s f ctx))"
  using latest_queried(4) [of I bars ctx s] by (auto simp: with_band_def split: sum.splits prod.splits) (metis snd_conv)

lemma resolve_operand_queried: "queried I bars ctx \<Longrightarrow> queried I bars (snd (resolve_operand I s operand ctx))"
  by (simp add: resolve_operand_def Let_def with_period_queried with_band_queried latest_queried
      split: option.split sum.split prod.split)

lemma evaluate_queried:
  assumes "queried I bars ctx"
  shows "queried I bars (snd (evaluate_expression I s expression ctx))"
proof -
  have step: "queried I bars c \<Longrightarrow> resolve_operand I s x c = (r, c') \<Longrightarrow> queried I bars c'" for x c r c'
    using resolve_operand_queried [of I bars c s x] by simp
  show ?thesis
    using assms by (auto simp: evaluate_expression_def Let_def intro: step split: option.splits prod.splits sum.splits)
qed


subsection \<open>Histories\<close>

datatype indicator_call =
  PushBar KlineBar
| AskSma string nat
| AskEma string nat
| AskRsi string nat
| AskBollinger string nat f64
| AskAdx string nat
| AskAtr string nat
| AskExpression string string

fun indicator_step :: "ind_env \<Rightarrow> indicator_call \<Rightarrow> IndicatorRuntimeContext \<Rightarrow> IndicatorRuntimeContext" where
  "indicator_step I (PushBar bar) ctx = push_bar (ie_fenv I) bar ctx"
| "indicator_step I (AskSma s p) ctx = snd (latest_sma s p ctx)"
| "indicator_step I (AskEma s p) ctx = snd (latest_ema s p ctx)"
| "indicator_step I (AskRsi s p) ctx = snd (latest_rsi s p ctx)"
| "indicator_step I (AskBollinger s p stddev) ctx = snd (latest_bollinger I s p stddev ctx)"
| "indicator_step I (AskAdx s p) ctx = snd (latest_adx s p ctx)"
| "indicator_step I (AskAtr s p) ctx = snd (latest_atr s p ctx)"
| "indicator_step I (AskExpression s e) ctx = snd (evaluate_expression I s e ctx)"

definition indicator_history :: "ind_env \<Rightarrow> indicator_call list \<Rightarrow> IndicatorRuntimeContext" where
  "indicator_history I calls = fold (indicator_step I) calls default_indicators"

fun pushed_bar :: "indicator_call \<Rightarrow> KlineBar option" where
  "pushed_bar (PushBar bar) = Some bar"
| "pushed_bar _ = None"

definition pushed_bars :: "string \<Rightarrow> indicator_call list \<Rightarrow> KlineBar list" where
  "pushed_bars s calls = filter (\<lambda>bar. kb_symbol bar = s) (List.map_filter pushed_bar calls)"

lemma pushed_bars_snoc:
  "pushed_bars s (calls @ [call]) =
     pushed_bars s calls @ (case pushed_bar call of Some bar \<Rightarrow> if kb_symbol bar = s then [bar] else [] | None \<Rightarrow> [])"
  by (simp add: pushed_bars_def List.map_filter_def split: option.split)

lemma queried_self: "context_ok I ctx \<Longrightarrow> queried I (bars_by_symbol ctx) ctx"
  by (simp add: queried_def)

lemma call_ok:
  assumes "context_ok I ctx"
  shows "context_ok I (indicator_step I call ctx)"
    and "bars_of (indicator_step I call ctx) s =
      bars_of ctx s @ (case pushed_bar call of Some bar \<Rightarrow> if kb_symbol bar = s then [bar] else [] | None \<Rightarrow> [])"
proof -
  note q = queried_self [OF assms]
  have "queried I (bars_by_symbol ctx) (indicator_step I call ctx)" if "pushed_bar call = None"
    using that latest_queried [OF q] evaluate_queried [OF q] by (cases call) auto
  then show "context_ok I (indicator_step I call ctx)"
    using push_bar_ok [OF assms] by (cases call) (auto simp: queried_def)
  show "bars_of (indicator_step I call ctx) s =
      bars_of ctx s @ (case pushed_bar call of Some bar \<Rightarrow> if kb_symbol bar = s then [bar] else [] | None \<Rightarrow> [])"
  proof (cases "pushed_bar call")
    case None
    with \<open>pushed_bar call = None \<Longrightarrow> queried I (bars_by_symbol ctx) (indicator_step I call ctx)\<close>
    have "bars_by_symbol (indicator_step I call ctx) = bars_by_symbol ctx" by (simp add: queried_def)
    then have "bars_of (indicator_step I call ctx) = bars_of ctx" by (rule bars_of_cong)
    with None show ?thesis by simp
  next
    case (Some bar)
    then have "call = PushBar bar" by (cases call) auto
    then show ?thesis by (simp add: bars_of_push)
  qed
qed

lemma history_ok: "context_ok I (indicator_history I calls) \<and> bars_of (indicator_history I calls) s = pushed_bars s calls"
proof (induction calls arbitrary: s rule: rev_induct)
  case Nil
  then show ?case
    by (simp add: indicator_history_def context_ok_def default_indicators_def bars_of_def pushed_bars_def
        List.map_filter_def sma_cache.replayed_empty ema_cache.replayed_empty rsi_cache.replayed_empty
        band_cache.replayed_empty adx_cache.replayed_empty atr_cache.replayed_empty)
next
  case (snoc call calls)
  then have ok: "context_ok I (indicator_history I calls)" by blast
  have step: "indicator_history I (calls @ [call]) = indicator_step I call (indicator_history I calls)"
    by (simp add: indicator_history_def)
  from snoc have "bars_of (indicator_history I calls) s = pushed_bars s calls" by blast
  then show ?case using call_ok [OF ok, of call] by (simp add: step pushed_bars_snoc)
qed

lemma fold_map_close: "fold (\<lambda>bar. f (kb_close bar)) bars st = fold f (map kb_close bars) st"
  by (simp add: fold_map comp_def)

lemma fold_map_candle: "fold (\<lambda>bar. f (indicator_candle bar)) bars st = fold f (map indicator_candle bars) st"
  by (simp add: fold_map comp_def)

lemma latest_values:
  fixes s :: string
  assumes ok: "context_ok I ctx" and p: "0 < p"
  defines "closes \<equiv> map kb_close (bars_of ctx s)"
  shows "fst (latest_sma s p ctx) = last_value (sma closes p)" (is ?sma)
    and "fst (latest_ema s p ctx) = last_value (ema closes p)" (is ?ema)
    and "fst (latest_rsi s p ctx) = last_value (rsi closes p)" (is ?rsi)
    and "\<exists>sd. ie_show_fixed8 I sd = ie_show_fixed8 I stddev
           \<and> fst (latest_bollinger I s p stddev ctx) = last_value (bollinger (ie_fenv I) closes p sd)" (is ?band)
proof -
  show ?sma
    using ok sma_cache.ensured_lookup [of "bars_of ctx" "incremental_sma ctx" default_sma s "(''sma'', p)"] p
    by (auto simp: context_ok_def latest_sma_def ensure_sma_cached_def fold_map_close sma_replay closes_def list_all_iff)
  show ?ema
    using ok ema_cache.ensured_lookup [of "bars_of ctx" "incremental_ema ctx" default_ema s "(''ema'', p)"] p
    by (auto simp: context_ok_def latest_ema_def ensure_ema_cached_def fold_map_close ema_replay closes_def list_all_iff)
  show ?rsi
    using ok rsi_cache.ensured_lookup [of "bars_of ctx" "incremental_rsi ctx" default_rsi s "(''rsi'', p)"] p
    by (auto simp: context_ok_def latest_rsi_def ensure_rsi_cached_def fold_map_close rsi_replay closes_def list_all_iff)
  have "band_start I (p, ie_show_fixed8 I stddev) (bollinger_new stddev)" by (auto simp: band_start_def)
  from band_cache.ensured_lookup [OF _ this, of "ie_fenv I" "bars_of ctx" "incremental_bollinger ctx" s] ok
  obtain sd where "ie_show_fixed8 I sd = ie_show_fixed8 I stddev"
    and "incremental_bollinger (ensure_bollinger_cached I s p stddev ctx) (s, p, ie_show_fixed8 I stddev) =
      Some (fold (bollinger_advance (ie_fenv I) p) closes (bollinger_new sd))"
    by (auto simp: context_ok_def ensure_bollinger_cached_def fold_map_close band_start_def closes_def list_all_iff)
  then show ?band using p by (auto simp: latest_bollinger_def Let_def bollinger_replay)
qed

lemma latest_ranges:
  fixes s :: string
  assumes ok: "context_ok I ctx" and p: "0 < p"
  defines "candles \<equiv> map indicator_candle (bars_of ctx s)"
  assumes all: "list_all finite_candle candles"
  shows "fst (latest_adx s p ctx) = last_value (adx candles p)" (is ?adx)
    and "fst (latest_atr s p ctx) = is_current_value (fold (replay_atr_bar p) candles default_incremental)" (is ?atr)
proof -
  have bars: "list_all bar_finite (bars_of ctx s)" using all by (simp add: candles_def list_all_iff bar_finite_def)
  have adx_fold: "fold (adx_replay_bar (''adx'', p)) (bars_of ctx s) st = fold (\<lambda>c st. snd (adx_advance p st c)) candles st" for st
    by (simp add: adx_replay_bar_def [abs_def] candles_def fold_map comp_def)
  have atr_fold: "fold (atr_replay_bar (''atr'', p)) (bars_of ctx s) st = fold (replay_atr_bar p) candles st" for st
    by (simp add: atr_replay_bar_def [abs_def] candles_def fold_map comp_def)
  show ?adx
    using ok adx_cache.ensured_lookup [of "bars_of ctx" "incremental_adx ctx" adx_new s "(''adx'', p)"] p bars
      adx_replay [OF p, of candles]
    unfolding adx_fold
    by (auto simp: context_ok_def latest_adx_def ensure_adx_cached_def candles_def fold_map comp_def)
  show ?atr
    using ok atr_cache.ensured_lookup [of "bars_of ctx" "incremental ctx" default_incremental s "(''atr'', p)"] p bars
    unfolding atr_fold
    by (auto simp: context_ok_def latest_atr_def ensure_atr_cached_def candles_def fold_map comp_def)
qed


text \<open>C29: Cached indicators equal their batch forms. Whatever sequence of bars, lookups and expressions
  a context has seen, the average, exponential average and relative strength it reports for a symbol and
  a period are the last values of \<open>sma\<close>, \<open>ema\<close> and \<open>rsi\<close> on all closes pushed for the symbol; the
  Bollinger band is that of a width that prints the same to eight decimals; with finite candles the
  directional index is the last value of \<open>adx\<close>, and with ordered candles of moderate prices a value of
  \<open>atr\<close> is the one reported, which exists once there are as many bars as the period.\<close>

theorem cached_indicators_match_batch:
  assumes "0 < p"
  shows "let ctx = indicator_history I calls; bars = pushed_bars s calls;
             closes = map kb_close bars; candles = map indicator_candle bars
         in fst (latest_sma s p ctx) = last_value (sma closes p)
            \<and> fst (latest_ema s p ctx) = last_value (ema closes p)
            \<and> fst (latest_rsi s p ctx) = last_value (rsi closes p)
            \<and> (\<exists>sd. ie_show_fixed8 I sd = ie_show_fixed8 I stddev
                 \<and> fst (latest_bollinger I s p stddev ctx) = last_value (bollinger (ie_fenv I) closes p sd))
            \<and> (list_all finite_candle candles \<longrightarrow> fst (latest_adx s p ctx) = last_value (adx candles p))
            \<and> (list_all moderate_candle candles \<longrightarrow>
                 (last_value (atr candles p) = Some v \<longrightarrow> fst (latest_atr s p ctx) = Some v)
                 \<and> (fst (latest_atr s p ctx) = None \<longleftrightarrow> length bars < p))"
proof -
  let ?ctx = "indicator_history I calls" and ?bars = "pushed_bars s calls"
  let ?candles = "map indicator_candle ?bars"
  have ok: "context_ok I ?ctx" and bars: "bars_of ?ctx s = ?bars" using history_ok by auto
  have fin: "list_all finite_candle ?candles" if "list_all moderate_candle ?candles"
    using that by (auto simp: list_all_iff moderate_candle_def finite_candle_def moderate_finite)
  show ?thesis
    using latest_values [OF ok assms, where s = s, unfolded bars] latest_ranges [OF ok assms, where s = s, unfolded bars] fin
      atr_replay [OF assms, of ?candles]
    by (auto simp: Let_def)
qed

end
