(* ===== verification/IndicatorBounds.thy ===== *)
theory IndicatorBounds
  imports IndicatorProps MartingaleDemo
begin

text \<open>Bounds of the indicators that survive rounding and overflow, and a small series.\<close>

definition nonneg :: "f64 \<Rightarrow> bool" where
  "nonneg v \<longleftrightarrow> v = NaN \<or> f_le (Fin 0) v"

lemma nonneg_Fin [simp]: "nonneg (Fin x) \<longleftrightarrow> 0 \<le> x" "nonneg PInf" "\<not> nonneg NInf" "nonneg NaN"
  by (auto simp: nonneg_def)

lemma nonneg_round [simp]: "0 \<le> x \<Longrightarrow> nonneg (f_round x)"
  by (simp add: nonneg_def f_round_nonneg)

lemma nonneg_arith:
  assumes "nonneg a" "nonneg b"
  shows "nonneg (f_add a b)" "nonneg (f_mul a b)" "nonneg (f_div a b)"
  using assms by (cases a; cases b; auto simp: f_inf_def)+

lemma nonneg_of_nat: "1 \<le> p \<Longrightarrow> nonneg (f_sub (f_of_nat p) (Fin 1))" "nonneg (f_of_nat p)"
proof -
  show "nonneg (f_of_nat p)" by (simp add: f_of_nat_def)
  assume "1 \<le> p"
  then have "f_le (f_round 1) (f_round (of_nat p))" by (intro f_round_mono) simp
  then have "f_le (Fin 1) (f_round (of_nat p))" using f_round_int [of 1] by simp
  then show "nonneg (f_sub (f_of_nat p) (Fin 1))"
    by (cases "f_round (of_nat p)") (auto simp: f_of_nat_def f_sub_def)
qed

lemma nonneg_max [simp]: "nonneg (f_max v (Fin 0))"
  using f_max_0_nonneg by (simp add: nonneg_def)

lemma nonneg_wilder: "1 \<le> p \<Longrightarrow> nonneg a \<Longrightarrow> nonneg v \<Longrightarrow> nonneg (wilder_average p a v)"
  by (simp add: wilder_average_def nonneg_arith nonneg_of_nat)

subsection \<open>Relative strength\<close>

lemma rsi_value_bounds:
  assumes "0 \<le> g" "0 \<le> l"
  shows "f_le (Fin 0) (rsi_value (Fin g) (Fin l)) \<and> f_le (rsi_value (Fin g) (Fin l)) (Fin 100)"
proof (cases "l = 0")
  case True
  then show ?thesis by (simp add: rsi_value_def)
next
  case False
  have hundred: "f_round 100 = Fin 100" and one: "f_round 1 = Fin 1"
    using f_round_int [of 100] f_round_int [of 1] by simp_all
  let ?d = "f_add (Fin 1) (f_div (Fin g) (Fin l))"
  have "f_le (Fin 1) ?d"
  proof (cases "f_round (g / l)")
    case (Fin q)
    then have "0 \<le> q" using f_round_nonneg [of "g / l"] assms by simp
    then have "f_le (f_round 1) (f_round (1 + q))" by (intro f_round_mono) simp
    with Fin False one show ?thesis by simp
  qed (use False f_round_nonneg [of "g / l"] assms in auto)
  then consider d where "?d = Fin d" "1 \<le> d" | "?d = PInf" by (cases ?d) auto
  then have "\<exists>b. f_div (Fin 100) ?d = Fin b \<and> 0 \<le> b \<and> b \<le> 100"
  proof cases
    case (1 d)
    then have "0 \<le> 100 / d" "100 / d \<le> 100" by (auto simp: divide_le_eq)
    then have "f_le (f_round 0) (f_round (100 / d))" "f_le (f_round (100 / d)) (f_round 100)"
      by (auto intro: f_round_mono simp del: f_round_0)
    with 1 hundred show ?thesis by (cases "f_round (100 / d)") (auto simp: f_le_def)
  qed simp
  then obtain b where b: "f_div (Fin 100) ?d = Fin b" "0 \<le> b" "b \<le> 100" by blast
  then have "f_le (f_round 0) (f_round (100 - b))" "f_le (f_round (100 - b)) (f_round 100)"
    by (auto intro: f_round_mono simp del: f_round_0)
  then show ?thesis using False b hundred by (simp add: rsi_value_def f_sub_Fin)
qed

definition both_nonneg :: "f64 option \<times> f64 option \<Rightarrow> bool" where
  "both_nonneg a \<longleftrightarrow> pred_option (\<lambda>v. is_finite v \<and> nonneg v) (fst a) \<and> pred_option (\<lambda>v. is_finite v \<and> nonneg v) (snd a)"

lemma finite_option_nonneg: "nonneg v \<Longrightarrow> pred_option (\<lambda>v. is_finite v \<and> nonneg v) (finite_option v)"
  by (auto simp: finite_option_def)

lemma rsi_of_bounds: "both_nonneg a \<Longrightarrow> rsi_of a = Some v \<Longrightarrow> f_le (Fin 0) v \<and> f_le v (Fin 100)"
  using rsi_value_bounds
  by (cases a; cases "fst a"; cases "snd a")
    (auto simp: rsi_of_def both_nonneg_def is_finite_iff finite_option_def split: if_splits)

lemma seed_steps_nonneg: "nonneg g \<Longrightarrow> nonneg l \<Longrightarrow> seed_steps xs g l = Some (a, b) \<Longrightarrow> nonneg a \<and> nonneg b"
  by (induction xs g l rule: seed_steps.induct)
    (auto simp: finite_option_def nonneg_arith split: option.splits if_splits)

lemma wilder_seed_nonneg:
  "wilder_gain_loss_seed xs = Some (a, b) \<Longrightarrow> is_finite a \<and> nonneg a \<and> is_finite b \<and> nonneg b"
  by (auto simp: wilder_gain_loss_seed_def Let_def finite_option_def nonneg_arith nonneg_of_nat
      dest!: seed_steps_nonneg [rotated 2] split: option.splits if_splits)

lemma rsi_step_nonneg:
  assumes "1 \<le> p" "both_nonneg a"
  shows "both_nonneg (snd (rsi_step xs p a i))"
proof -
  have seed: "both_nonneg (map_option fst (wilder_gain_loss_seed w), map_option snd (wilder_gain_loss_seed w))" for w
    using wilder_seed_nonneg [of w] by (cases "wilder_gain_loss_seed w") (auto simp: both_nonneg_def)
  show ?thesis
    using assms seed [of "drop (i - p) (take (i + 1) xs)"]
    by (cases a; cases "fst a"; cases "snd a"; cases "close_delta (xs ! (i - 1)) (xs ! i)")
      (auto simp: rsi_step_def Let_def both_nonneg_def nonneg_wilder intro!: finite_option_nonneg)
qed

lemma scan_inv:
  assumes "\<And>s i. P s \<Longrightarrow> Q (fst (f s i)) \<and> P (snd (f s i))" "P s" "r \<in> set (scan f s is)"
  shows "Q r"
  using assms(2,3)
proof (induction "is" arbitrary: s)
  case (Cons i "is")
  then show ?case using assms(1) [of s i] by (cases "f s i") auto
qed simp

lemma rsi_bounds:
  assumes "Some v \<in> set (rsi closes p)"
  shows "f_le (Fin 0) v \<and> f_le v (Fin 100)"
proof -
  have "1 \<le> p" and mem: "Some v \<in> set (scan (rsi_step closes p) (None, None) [p..<length closes])"
    using assms by (auto simp: rsi_def split: if_splits)
  let ?Q = "\<lambda>r. \<forall>v. r = Some v \<longrightarrow> f_le (Fin 0) v \<and> f_le v (Fin 100)"
  have "?Q (Some v)"
  proof (rule scan_inv [where P = both_nonneg and Q = ?Q, OF _ _ mem])
    show "both_nonneg (None, None)" by (simp add: both_nonneg_def)
    fix a i
    assume "both_nonneg a"
    then have "both_nonneg (snd (rsi_step closes p a i))" by (rule rsi_step_nonneg [OF \<open>1 \<le> p\<close>])
    then show "?Q (fst (rsi_step closes p a i)) \<and> both_nonneg (snd (rsi_step closes p a i))"
      using rsi_of_bounds by (auto simp: rsi_step_fst)
  qed
  then show ?thesis by simp
qed


subsection \<open>Bands and ranges\<close>

lemma f_sqrt_nonneg: "nonneg (f_sqrt v)"
proof (cases v)
  case (Fin x)
  then show ?thesis by (auto simp: Let_def intro!: nonneg_round divide_nonneg_nonneg add_nonneg_nonneg)
qed auto

lemma bollinger_point_order:
  assumes "bollinger_point F w p sd m = Some b" "nonneg sd"
  shows "f_le (bp_lower b) (bp_upper b)"
proof -
  let ?v = "f_div (f_sum (map (\<lambda>v. f_powi F (f_sub v m) 2) w)) (f_of_nat p)"
  from assms(1) obtain d where "Option.bind (finite_option ?v) (\<lambda>v. finite_option (f_mul (f_sqrt v) sd)) = Some d"
    and b: "bp_lower b = f_sub m d" "bp_upper b = f_add m d" "is_finite (f_add m d)"
    by (auto simp: bollinger_point_def Let_def split: option.splits if_splits)
  then obtain v where d: "finite_option (f_mul (f_sqrt v) sd) = Some d" by (auto simp: bind_eq_Some_conv)
  have "nonneg d" using d assms(2) nonneg_arith(2) [OF f_sqrt_nonneg assms(2)] by (auto simp: finite_option_def split: if_splits)
  moreover have "is_finite d" using d by (auto simp: finite_option_def split: if_splits)
  ultimately obtain x where x: "d = Fin x" "0 \<le> x" by (auto simp: is_finite_iff)
  with b(3) obtain y where "m = Fin y" by (cases m) auto
  with x b show ?thesis by (simp add: f_sub_Fin f_round_mono)
qed

lemma bollinger_order:
  assumes "Some b \<in> set (bollinger F closes p sd)" "nonneg sd"
  shows "f_le (bp_lower b) (bp_upper b)"
  using assms bollinger_point_order [OF _ assms(2)]
  by (auto simp: bollinger_def Let_def split: if_splits option.splits)

lemma true_range_nonneg: "true_range c pc = Some v \<Longrightarrow> f_le (Fin 0) v"
  by (auto simp: true_range_def Let_def f_max_0_nonneg split: if_splits)

text \<open>C40: Bounds of the indicators. Every relative strength lies between 0 and 100, every lower
  Bollinger band lies below the upper one when the width is not negative, and no true range is negative,
  for all series, with rounding, overflow and gaps.\<close>

theorem indicator_bounds:
  "(Some r \<in> set (rsi closes p) \<longrightarrow> f_le (Fin 0) r \<and> f_le r (Fin 100))
   \<and> (Some b \<in> set (bollinger F closes p sd) \<and> f_le (Fin 0) sd \<longrightarrow> f_le (bp_lower b) (bp_upper b))
   \<and> (true_range c pc = Some v \<longrightarrow> f_le (Fin 0) v)"
  using rsi_bounds [of r closes p] bollinger_order [of b F closes p sd] true_range_nonneg [of c pc v]
  by (auto simp: nonneg_def)

subsection \<open>A small series\<close>

definition demo_ind :: ind_env where
  "demo_ind =
     \<lparr>ie_fenv = \<lparr>to_f64 = (\<lambda>x. Some (f_round x)), of_f64 = (\<lambda>_. None), f_powi = (\<lambda>x n. f_mul x x), f_show = (\<lambda>_. [])\<rparr>,
      ie_parse_f64 = (\<lambda>s. map_option (\<lambda>n. f_round (of_nat n)) (parse_usize s)), ie_show_fixed8 = (\<lambda>_. [])\<rparr>"

definition demo_price_bar :: "int \<Rightarrow> nat \<Rightarrow> KlineBar" where
  "demo_price_bar t c =
     \<lparr>kb_symbol = ''B'', kb_open_time_ms = t, kb_open = Fin (of_nat c), kb_high = Fin (of_nat (c + 2)),
      kb_low = Fin (of_nat (c - 2)), kb_close = Fin (of_nat c), kb_volume = Fin 1\<rparr>"

definition demo_calls :: "indicator_call list" where
  "demo_calls =
     [PushBar (demo_price_bar 0 100), AskEma ''B'' 2, AskAtr ''B'' 2, PushBar (demo_price_bar 1 102),
      AskExpression ''B'' ''close > sma(2)'', PushBar (demo_price_bar 2 101)]"

definition demo_closes :: "f64 list" where
  "demo_closes = [Fin 100, Fin 102, Fin 101]"

definition demo_candles :: "IndicatorCandle list" where
  "demo_candles =
     [\<lparr>ic_high = Fin 102, ic_low = Fin 98, ic_close = Fin 100\<rparr>, \<lparr>ic_high = Fin 104, ic_low = Fin 100, ic_close = Fin 102\<rparr>,
      \<lparr>ic_high = Fin 103, ic_low = Fin 99, ic_close = Fin 101\<rparr>]"

lemma demo_pushed:
  "map kb_close (pushed_bars ''B'' demo_calls) = demo_closes" "map indicator_candle (pushed_bars ''B'' demo_calls) = demo_candles"
  by (simp_all add: demo_calls_def pushed_bars_def List.map_filter_def demo_price_bar_def demo_closes_def demo_candles_def
      indicator_candle_def)

lemma demo_batch:
  "last_value (atr demo_candles 2) = Some (Fin 4)" "last_value (rsi demo_closes 2) = Some (f_sub (Fin 100) (f_div (Fin 100) (Fin 3)))"
  by code_simp+


lemma demo_moderate: "list_all moderate_candle demo_candles"
  by (auto simp: demo_candles_def moderate_candle_def moderate_def)

lemma demo_finite: "list_all finite_candle demo_candles"
  by (simp add: demo_candles_def finite_candle_def)

theorem cached_indicators_match_batch_witness:
  "fst (latest_sma ''B'' 2 (indicator_history demo_ind demo_calls)) = last_value (sma demo_closes 2)
   \<and> fst (latest_rsi ''B'' 2 (indicator_history demo_ind demo_calls)) = Some (f_sub (Fin 100) (f_div (Fin 100) (Fin 3)))
   \<and> fst (latest_adx ''B'' 2 (indicator_history demo_ind demo_calls)) = last_value (adx demo_candles 2)
   \<and> fst (latest_atr ''B'' 2 (indicator_history demo_ind demo_calls)) = Some (Fin 4)"
  using cached_indicators_match_batch [where p = 2 and I = demo_ind and calls = demo_calls and s = "''B''" and v = "Fin 4"]
    demo_moderate demo_finite
  by (simp add: Let_def demo_pushed demo_batch)

lemma demo_band: "bollinger plain_fenv [Fin 100, Fin 100] 2 (Fin 2) =
    [None, Some \<lparr>bp_middle = Fin 100, bp_upper = Fin 100, bp_lower = Fin 100, bp_bandwidth = Fin 0\<rparr>]"
  by code_simp

lemma demo_strength: "rsi demo_closes 2 = [None, None, Some (f_sub (Fin 100) (f_div (Fin 100) (Fin 3)))]"
  by code_simp

lemma demo_range: "true_range (hd demo_candles) None = Some (Fin 4)"
  by code_simp

theorem indicator_bounds_witness:
  "f_le (f_sub (Fin 100) (f_div (Fin 100) (Fin 3))) (Fin 100) \<and> f_le (Fin 0) (Fin 4) \<and> f_le (Fin 100) (Fin 100)"
  using indicator_bounds [where closes = demo_closes and p = 2 and r = "f_sub (Fin 100) (f_div (Fin 100) (Fin 3))"]
    indicator_bounds [where closes = "[Fin 100, Fin 100]" and p = 2 and F = plain_fenv and sd = "Fin 2"
      and b = "\<lparr>bp_middle = Fin 100, bp_upper = Fin 100, bp_lower = Fin 100, bp_bandwidth = Fin 0\<rparr>"]
    indicator_bounds [where c = "hd demo_candles" and pc = None and v = "Fin 4"]
  by (simp add: demo_strength demo_band demo_range)

end
