(* ===== verification/TrimFacts.thy ===== *)
theory TrimFacts
  imports RustString
begin

text \<open>Facts about \<open>str::trim\<close>, ASCII case and \<open>str::find\<close> that parsers of expressions rely on.\<close>

subsection \<open>White space at the front\<close>

lemma bytes_cases: obtains "bs = []" | a where "bs = [a]" | a b where "bs = [a, b]" | a b c r where "bs = a # b # c # r"
  by (metis list.exhaust)

lemma ws_prefix_append: "ws_prefix bs \<noteq> 0 \<Longrightarrow> ws_prefix (bs @ cs) = ws_prefix bs"
  by (cases bs rule: bytes_cases) (auto simp: ws_prefix.simps split: if_splits)

lemma ws_prefix_le: "ws_prefix bs \<le> length bs"
  by (cases bs rule: bytes_cases) (auto simp: ws_prefix.simps)

lemma ws_prefix_take: "ws_prefix bs \<noteq> 0 \<Longrightarrow> ws_prefix (take (ws_prefix bs) bs) = ws_prefix bs"
  by (cases bs rule: bytes_cases) (auto simp: ws_prefix.simps split: if_splits)

lemma ws_prefix_no_dot: "46 \<notin> set (take (ws_prefix bs) bs)"
  by (cases bs rule: bytes_cases) (auto simp: ws_prefix.simps split: if_splits)

inductive blank :: "nat list \<Rightarrow> bool" where
  blank_Nil: "blank []"
| blank_step: "ws_prefix w = length w \<Longrightarrow> w \<noteq> [] \<Longrightarrow> 46 \<notin> set w \<Longrightarrow> blank u \<Longrightarrow> blank (w @ u)"

lemma blank_no_dot: "blank u \<Longrightarrow> 46 \<notin> set u"
  by (induction rule: blank.induct) auto

lemma trim_by_split: "\<exists>u. bs = u @ trim_by w bs"
proof (induction w bs rule: trim_by.induct)
  case (1 w bs)
  show ?case
  proof (cases "w bs = 0 \<or> bs = []")
    case True
    then show ?thesis by (simp add: trim_by.simps [of w bs])
  next
    case False
    with 1 obtain u where "drop (w bs) bs = u @ trim_by w (drop (w bs) bs)" by auto
    then have "bs = (take (w bs) bs @ u) @ trim_by w (drop (w bs) bs)"
      by (metis append.assoc append_take_drop_id)
    moreover have "trim_by w bs = trim_by w (drop (w bs) bs)"
      using False trim_by.simps [of w bs] by (simp add: Let_def)
    ultimately show ?thesis by metis
  qed
qed

lemma trim_prefix_blank: "\<exists>u. blank u \<and> bs = u @ trim_by ws_prefix bs"
proof (induction bs rule: length_induct)
  case (1 bs)
  show ?case
  proof (cases "ws_prefix bs = 0 \<or> bs = []")
    case True
    then have "trim_by ws_prefix bs = bs" by (subst trim_by.simps) (simp add: Let_def)
    then show ?thesis by (intro exI [of _ "[]"]) (simp add: blank_Nil)
  next
    case False
    let ?n = "ws_prefix bs"
    from 1 False obtain u where u: "blank u" "drop ?n bs = u @ trim_by ws_prefix (drop ?n bs)"
      by (metis length_drop length_greater_0_conv diff_less not_gr_zero)
    have len: "length (take ?n bs) = ?n" using ws_prefix_le [of bs] by simp
    have "blank (take ?n bs @ u)"
      using False u(1) ws_prefix_take [of bs] ws_prefix_no_dot [of bs] len by (intro blank_step) auto
    moreover have "bs = (take ?n bs @ u) @ trim_by ws_prefix (drop ?n bs)"
      using u(2) by (metis append.assoc append_take_drop_id)
    moreover have "trim_by ws_prefix bs = trim_by ws_prefix (drop ?n bs)"
      using False by (subst trim_by.simps) (simp add: Let_def)
    ultimately show ?thesis by metis
  qed
qed

lemma trim_blank: "blank u \<Longrightarrow> trim_by ws_prefix (u @ x) = trim_by ws_prefix x"
proof (induction rule: blank.induct)
  case (blank_step w u)
  then have "ws_prefix (w @ u @ x) = length w" using ws_prefix_append [of w "u @ x"] by simp
  then have "trim_by ws_prefix ((w @ u) @ x) = trim_by ws_prefix (u @ x)"
    using blank_step.hyps by (subst trim_by.simps) (simp add: Let_def)
  with blank_step.IH show ?case by simp
qed simp

lemma trim_by_fixed: "w (trim_by w bs) = 0 \<or> trim_by w bs = []"
proof (induction w bs rule: trim_by.induct)
  case (1 w bs)
  then show ?case by (cases "w bs = 0 \<or> bs = []") (auto simp: trim_by.simps [of w bs] Let_def)
qed

lemma trim_by_id: "w bs = 0 \<or> bs = [] \<Longrightarrow> trim_by w bs = bs"
  by (subst trim_by.simps) (simp add: Let_def)

subsection \<open>trim\<close>

definition trim_bytes :: "nat list \<Rightarrow> nat list" where
  "trim_bytes bs = rev (trim_by ws_suffix (rev (trim_by ws_prefix bs)))"

lemma str_trim_bytes: "map of_char (str_trim s) = trim_bytes (map of_char s)"
proof -
  have small: "\<forall>b \<in> set (trim_bytes (map of_char s)). b < 256"
  proof
    fix b
    assume "b \<in> set (trim_bytes (map of_char s))"
    moreover obtain u where "rev (trim_by ws_prefix (map of_char s)) = u @ trim_by ws_suffix (rev (trim_by ws_prefix (map of_char s)))"
      using trim_by_split by blast
    then have "set (trim_bytes (map of_char s)) \<subseteq> set (trim_by ws_prefix (map of_char s))"
      unfolding trim_bytes_def by (metis set_rev set_append Un_upper2)
    moreover obtain v where "map of_char s = v @ trim_by ws_prefix (map of_char s)" using trim_by_split by blast
    then have "set (trim_by ws_prefix (map of_char s)) \<subseteq> set (map of_char s)" by (metis set_append Un_upper2)
    ultimately show "b < 256" by (auto simp: subset_iff)
  qed
  have "map of_char (str_trim s) = map (\<lambda>b. of_char (char_of b)) (trim_bytes (map of_char s))"
    by (simp add: str_trim_def trim_bytes_def)
  also have "\<dots> = trim_bytes (map of_char s)" using small by (intro map_idI) (auto simp: of_char_of)
  finally show ?thesis .
qed

lemma trim_bytes_idem: "trim_bytes (trim_bytes bs) = trim_bytes bs"
proof -
  let ?z = "trim_by ws_prefix bs" and ?y = "trim_bytes bs"
  obtain u where "rev ?z = u @ rev ?y" using trim_by_split unfolding trim_bytes_def rev_rev_ident by blast
  then have z: "?z = ?y @ rev u" by (metis rev_append rev_rev_ident)
  have "ws_prefix ?y = 0 \<or> ?y = []"
  proof (rule ccontr)
    assume "\<not> ?thesis"
    then have "ws_prefix ?z \<noteq> 0" "?z \<noteq> []" using z ws_prefix_append [of ?y "rev u"] by auto
    then show False using trim_by_fixed [of ws_prefix bs] by simp
  qed
  then have "trim_by ws_prefix ?y = ?y" by (rule trim_by_id)
  moreover have "trim_by ws_suffix (rev ?y) = rev ?y"
    using trim_by_fixed [of ws_suffix "rev ?z"] by (intro trim_by_id) (simp add: trim_bytes_def)
  ultimately show ?thesis by (simp add: trim_bytes_def [of ?y])
qed

lemma of_char_inj: "map of_char s = (map of_char t :: nat list) \<longleftrightarrow> s = t"
  by (rule inj_map_eq_map) (auto simp: inj_def)

lemma str_trim_idem [simp]: "str_trim (str_trim s) = str_trim s"
  using trim_bytes_idem [of "map of_char s"] by (simp add: str_trim_bytes flip: of_char_inj)

text \<open>What \<open>trim\<close> cuts off at the front does not change what a further \<open>trim\<close> makes of a prefix.\<close>

lemma str_trim_prefix:
  assumes "str_trim s = a @ CHR ''.'' # b"
  shows "\<exists>u v. s = u @ a @ CHR ''.'' # b @ v \<and> CHR ''.'' \<notin> set u \<and> str_trim (u @ a) = str_trim a"
proof -
  let ?bs = "map of_char s :: nat list"
  obtain u where u: "blank u" "?bs = u @ trim_by ws_prefix ?bs" using trim_prefix_blank by blast
  obtain v where "rev (trim_by ws_prefix ?bs) = v @ rev (trim_bytes ?bs)"
    using trim_by_split unfolding trim_bytes_def rev_rev_ident by blast
  then have "trim_by ws_prefix ?bs = trim_bytes ?bs @ rev v" by (metis rev_append rev_rev_ident)
  with u have bs: "?bs = u @ map of_char (str_trim s) @ rev v" by (simp add: str_trim_bytes)
  from map_eq_append_conv [THEN iffD1, OF this] obtain us r where "s = us @ r" and us: "u = map of_char us"
    and r: "map of_char (str_trim s) @ rev v = map of_char r" by blast
  moreover from map_eq_append_conv [THEN iffD1, OF r [symmetric]] obtain ms vs where "r = ms @ vs"
    and "map of_char (str_trim s) = (map of_char ms :: nat list)" by blast
  ultimately have s: "s = us @ str_trim s @ vs" by (simp only: of_char_inj)
  have "(of_char (CHR ''.'') :: nat) = 46" by simp
  then have "CHR ''.'' \<notin> set us" using blank_no_dot [OF u(1)] us by (metis image_eqI set_map)
  moreover have "str_trim (us @ a) = str_trim a"
    using trim_blank [OF u(1), of "map of_char a"] us by (simp add: str_trim_def)
  ultimately show ?thesis using s assms by (intro exI [of _ us] exI [of _ vs]) auto
qed

subsection \<open>Case\<close>

lemma upper_cases:
  obtains "ascii_upper c = c"
  | m n where "(of_char (ascii_upper c) :: nat) = m" "(of_char c :: nat) = n" "65 \<le> m" "m \<le> 90" "97 \<le> n" "n \<le> 122"
proof (cases "97 \<le> (of_char c :: nat) \<and> (of_char c :: nat) \<le> 122")
  case True
  then have "of_char c - 32 < (256 :: nat)" by linarith
  then have "(of_char c - 32) mod 256 = (of_char c - 32 :: nat)" by (rule mod_less)
  with True have "(of_char (ascii_upper c) :: nat) = of_char c - 32" by (simp add: ascii_upper_def)
  moreover from True have "65 \<le> of_char c - (32 :: nat)" "of_char c - (32 :: nat) \<le> 90" by linarith+
  ultimately show thesis using True that(2) by blast
next
  case False
  then show thesis by (intro that(1)) (auto simp: ascii_upper_def Let_def)
qed

lemma ws_prefix_letter: "65 \<le> m \<Longrightarrow> m \<le> 122 \<Longrightarrow> ws_prefix (m # r) = 0"
  by (auto simp: ws_prefix.simps split: list.split)

lemma ws_prefix_letter2: "65 \<le> m \<Longrightarrow> m \<le> 122 \<Longrightarrow> ws_prefix (a # m # r) = (if 9 \<le> a \<and> a \<le> 13 \<or> a = 32 then 1 else 0)"
  by (auto simp: ws_prefix.simps split: list.split)

lemma ws_prefix_letter3: "65 \<le> m \<Longrightarrow> m \<le> 122 \<Longrightarrow> ws_prefix (a # b # m # r) = ws_prefix [a, b]"
  by (auto simp: ws_prefix.simps)

lemma ws_prefix_more: "ws_prefix (a # b # c # r) = ws_prefix [a, b, c]"
  by (simp add: ws_prefix.simps)

lemma ws_prefix_upper: "ws_prefix (map of_char (map ascii_upper s)) = ws_prefix (map of_char s)"
proof (cases s)
  case (Cons x t)
  show ?thesis
  proof (cases rule: upper_cases [of x])
    case 1
    show ?thesis
    proof (cases t)
      case (Cons y r)
      show ?thesis
      proof (cases rule: upper_cases [of y])
        case y: 1
        show ?thesis
        proof (cases r)
          case Nil
          then show ?thesis by (simp add: \<open>s = x # t\<close> \<open>t = y # r\<close> 1 y)
        next
          case (Cons z q)
          show ?thesis
            by (cases rule: upper_cases [of z])
              (simp_all add: \<open>s = x # t\<close> \<open>t = y # r\<close> Cons 1 y ws_prefix_letter3 ws_prefix_more [of _ _ _ "map _ q"])
        qed
      next
        case (2 m n)
        then show ?thesis by (simp add: \<open>s = x # t\<close> Cons 1 ws_prefix_letter2)
      qed
    qed (simp add: Cons 1)
  next
    case (2 m n)
    then show ?thesis by (simp add: Cons ws_prefix_letter)
  qed
qed simp

lemma ws_suffix_upper: "ws_suffix (map of_char (map ascii_upper s)) = ws_suffix (map of_char s)"
  using ws_prefix_upper [of "take 1 s"] ws_prefix_upper [of "rev (take 2 s)"] ws_prefix_upper [of "rev (take 3 s)"]
  by (simp add: ws_suffix_def take_map rev_map)

lemma trim_by_upper:
  assumes "\<And>s. w (map of_char (map ascii_upper s)) = w (map of_char s)"
  shows "trim_by w (map of_char (map ascii_upper s)) = map (\<lambda>b. of_char (ascii_upper (char_of b))) (trim_by w (map of_char s))"
proof (induction s rule: length_induct)
  case (1 s)
  let ?n = "w (map of_char s)"
  show ?case
  proof (cases "?n = 0 \<or> s = []")
    case True
    then have "w (map of_char (map ascii_upper s)) = 0 \<or> map of_char (map ascii_upper s) = ([] :: nat list)" using assms by auto
    then have "trim_by w (map of_char (map ascii_upper s)) = map of_char (map ascii_upper s)" by (rule trim_by_id)
    moreover have "trim_by w (map of_char s) = map of_char s" using True by (intro trim_by_id) auto
    ultimately show ?thesis by simp
  next
    case False
    then have "length (drop ?n s) < length s" by simp
    with 1 have IH: "trim_by w (map of_char (map ascii_upper (drop ?n s))) =
        map (\<lambda>b. of_char (ascii_upper (char_of b))) (trim_by w (map of_char (drop ?n s)))" by blast
    have "trim_by w (map of_char (map ascii_upper s)) = trim_by w (map of_char (map ascii_upper (drop ?n s)))"
      using False assms [of s] by (subst trim_by.simps) (simp add: Let_def drop_map)
    also note IH
    also have "trim_by w (map of_char (drop ?n s)) = trim_by w (map of_char s)"
      using False by (subst (2) trim_by.simps) (simp add: Let_def drop_map)
    finally show ?thesis .
  qed
qed


lemma str_trim_upper: "str_trim (to_ascii_uppercase s) = to_ascii_uppercase (str_trim s)"
proof -
  obtain t where t: "trim_by ws_prefix (map of_char s) = map of_char t"
    using trim_by_split [of "map of_char s" ws_prefix] by (metis map_eq_append_conv)
  have front: "trim_by ws_prefix (map of_char (map ascii_upper s)) = map of_char (map ascii_upper t)"
    unfolding trim_by_upper [OF ws_prefix_upper] t by simp
  obtain q where q: "trim_by ws_suffix (rev (map of_char t)) = map of_char q"
    using trim_by_split [of "rev (map of_char t)" ws_suffix] by (metis map_eq_append_conv rev_map)
  have rear: "trim_by ws_suffix (rev (map of_char (map ascii_upper t))) = map of_char (map ascii_upper q)"
    using trim_by_upper [OF ws_suffix_upper, of "rev t"] q by (simp add: rev_map)
  have "str_trim (to_ascii_uppercase s) = map char_of (rev (map of_char (map ascii_upper q) :: nat list))"
    unfolding str_trim_def to_ascii_uppercase_def front rear ..
  also have "\<dots> = to_ascii_uppercase (str_trim s)"
    unfolding str_trim_def to_ascii_uppercase_def t q by (simp add: rev_map)
  finally show ?thesis .
qed

subsection \<open>find\<close>

lemma split_first_char: "split_first s [c] = Some (a, b) \<longleftrightarrow> s = a @ c # b \<and> c \<notin> set a"
proof (induction s arbitrary: a)
  case (Cons d s)
  show ?case
  proof (cases "d = c")
    case True
    then show ?thesis by (cases a) auto
  next
    case False
    then show ?thesis using Cons [of "tl a"] by (cases a) auto
  qed
qed simp

lemma split_first_None: "split_first s [c] = None \<longleftrightarrow> c \<notin> set s"
  by (induction s) auto

end
