(* ===== verification/IndicatorDeps.thy ===== *)
theory IndicatorDeps
  imports IndicatorBounds TrimFacts
begin

text \<open>
  The market data a portfolio subscribes to: its own symbols and the dependencies
  \<open>extract_symbol_dependencies\<close> finds in the text of its expressions. Nothing else can influence an
  expression.
\<close>

definition visible :: "string set \<Rightarrow> IndicatorRuntimeContext \<Rightarrow> IndicatorRuntimeContext \<Rightarrow> bool" where
  "visible S c d \<longleftrightarrow>
     (\<forall>s \<in> S. bars_by_symbol c s = bars_by_symbol d s
        \<and> (\<forall>k. incremental c (s, k) = incremental d (s, k) \<and> incremental_adx c (s, k) = incremental_adx d (s, k)
             \<and> incremental_sma c (s, k) = incremental_sma d (s, k) \<and> incremental_ema c (s, k) = incremental_ema d (s, k)
             \<and> incremental_rsi c (s, k) = incremental_rsi d (s, k))
        \<and> (\<forall>k. incremental_bollinger c (s, k) = incremental_bollinger d (s, k)))"

text \<open>Two lookups that show the same and leave contexts that look the same; bars stay.\<close>

definition alike :: "string set \<Rightarrow> (IndicatorRuntimeContext \<Rightarrow> 'a \<times> IndicatorRuntimeContext) \<Rightarrow> bool" where
  "alike S f \<longleftrightarrow>
     (\<forall>c d. visible S c d \<longrightarrow> fst (f c) = fst (f d) \<and> visible S (snd (f c)) (snd (f d))
        \<and> bars_by_symbol (snd (f c)) = bars_by_symbol c \<and> bars_by_symbol (snd (f d)) = bars_by_symbol d)"

lemma visible_bars: "visible S c d \<Longrightarrow> s \<in> S \<Longrightarrow> bars_of c s = bars_of d s"
  by (simp add: visible_def bars_of_def)

lemmas lookup_defs = Let_def ensure_key_def bars_of_def latest_sma_def ensure_sma_cached_def latest_ema_def ensure_ema_cached_def
  latest_rsi_def ensure_rsi_cached_def latest_adx_def ensure_adx_cached_def latest_atr_def ensure_atr_cached_def
  latest_bollinger_def ensure_bollinger_cached_def

lemma alike_lookups:
  assumes "s \<in> S"
  shows "alike S (latest_sma s p)" "alike S (latest_ema s p)" "alike S (latest_rsi s p)" "alike S (latest_adx s p)"
    "alike S (latest_atr s p)" "alike S (latest_bollinger I s p sd)"
  using assms by (auto simp: alike_def visible_def lookup_defs)

lemma alikeD:
  assumes "alike S f" "visible S c d"
  obtains r c' d' where "f c = (r, c')" "f d = (r, d')" "visible S c' d'"
    "bars_by_symbol c' = bars_by_symbol c" "bars_by_symbol d' = bars_by_symbol d"
  using assms unfolding alike_def by (metis prod.collapse)

lemma alikeI:
  assumes "\<And>c d. visible S c d \<Longrightarrow> \<exists>r c' d'. f c = (r, c') \<and> f d = (r, d') \<and> visible S c' d'
    \<and> bars_by_symbol c' = bars_by_symbol c \<and> bars_by_symbol d' = bars_by_symbol d"
  shows "alike S f"
  using assms unfolding alike_def by fastforce

lemma alike_atr_percent: "s \<in> S \<Longrightarrow> alike S (latest_atr_percent s p)"
proof (rule alikeI)
  fix c d
  assume s: "s \<in> S" and vis: "visible S c d"
  from alikeD [OF alike_lookups(5) [OF s, of p] vis] obtain r c' d' where
    "latest_atr s p c = (r, c')" "latest_atr s p d = (r, d')" "visible S c' d'"
    "bars_by_symbol c' = bars_by_symbol c" "bars_by_symbol d' = bars_by_symbol d" .
  moreover then have "bars_of c' s = bars_of d' s" using s visible_bars by blast
  ultimately show "\<exists>r c' d'. latest_atr_percent s p c = (r, c') \<and> latest_atr_percent s p d = (r, d') \<and> visible S c' d'
    \<and> bars_by_symbol c' = bars_by_symbol c \<and> bars_by_symbol d' = bars_by_symbol d"
    by (cases r) (simp_all add: latest_atr_percent_def)
qed

lemma alike_const: "alike S (\<lambda>c. (r, c))"
  by (simp add: alike_def)

lemma alike_with_period: "(\<And>p. alike S (lookup p)) \<Longrightarrow> alike S (with_period name args lookup)"
proof (rule alikeI)
  fix c d
  assume all: "\<And>p. alike S (lookup p)" and vis: "visible S c d"
  show "\<exists>r c' d'. with_period name args lookup c = (r, c') \<and> with_period name args lookup d = (r, d') \<and> visible S c' d'
    \<and> bars_by_symbol c' = bars_by_symbol c \<and> bars_by_symbol d' = bars_by_symbol d"
  proof (cases "one_usize_arg name args")
    case (Inl e)
    then show ?thesis using vis by (simp add: with_period_def)
  next
    case (Inr p)
    then show ?thesis using alikeD [OF all [of p] vis] by (fastforce simp: with_period_def)
  qed
qed

lemma alike_with_band: "s \<in> S \<Longrightarrow> alike S (with_band I name args s f)"
proof (rule alikeI)
  fix c d
  assume s: "s \<in> S" and vis: "visible S c d"
  show "\<exists>r c' d'. with_band I name args s f c = (r, c') \<and> with_band I name args s f d = (r, d') \<and> visible S c' d'
    \<and> bars_by_symbol c' = bars_by_symbol c \<and> bars_by_symbol d' = bars_by_symbol d"
  proof (cases "bollinger_args I name args")
    case (Inl e)
    then show ?thesis using vis by (simp add: with_band_def)
  next
    case (Inr a)
    obtain p sd where "a = (p, sd)" by fastforce
    with Inr show ?thesis using alikeD [OF alike_lookups(6) [OF s, of I p sd] vis] by (fastforce simp: with_band_def)
  qed
qed

subsection \<open>Operands\<close>

definition clean_symbols :: "IndicatorRuntimeContext \<Rightarrow> bool" where
  "clean_symbols c \<longleftrightarrow> (\<forall>s. bars_by_symbol c s \<noteq> None \<longrightarrow> s \<noteq> [] \<and> str_trim s = s)"

lemma last_bar_alike:
  assumes "t \<in> S \<or> bars_by_symbol c t = None \<and> bars_by_symbol d t = None" "visible S c d"
  shows "last_bar_value t f c = last_bar_value t f d"
  using assms by (auto simp: last_bar_value_def visible_def)

definition call_symbol :: "string \<Rightarrow> string \<Rightarrow> string" where
  "call_symbol symbol name = (case snd (split_symbol_prefix name) of Some s \<Rightarrow> s | None \<Rightarrow> symbol)"

definition call_value :: "ind_env \<Rightarrow> string \<Rightarrow> string \<Rightarrow> string \<Rightarrow> string list \<Rightarrow> (IndicatorRuntimeContext, f64 option) stateful" where
  "call_value I symbol operand name args =
     (let s = call_symbol symbol name; indicator_name = fst (split_symbol_prefix name)
      in if indicator_name = ''sma'' then with_period name args (latest_sma s)
         else if indicator_name = ''ema'' then with_period name args (latest_ema s)
         else if indicator_name = ''rsi'' then with_period name args (latest_rsi s)
         else if indicator_name = ''atr'' then with_period name args (latest_atr s)
         else if indicator_name = ''adx'' then with_period name args (latest_adx s)
         else if indicator_name = ''bb_upper'' then with_band I name args s bp_upper
         else if indicator_name = ''bb_middle'' then with_band I name args s bp_middle
         else if indicator_name = ''bb_lower'' then with_band I name args s bp_lower
         else if indicator_name = ''bb_bandwidth'' then with_band I name args s bp_bandwidth
         else if indicator_name = ''atr_percent'' then with_period name args (latest_atr_percent s)
         else (\<lambda>c. (Inl (''unsupported indicator operand: '' @ operand), c)))"

lemma alike_call_value: "call_symbol symbol name \<in> S \<Longrightarrow> alike S (call_value I symbol operand name args)"
  by (auto simp: call_value_def Let_def alike_with_period alike_with_band alike_lookups alike_atr_percent alike_const)

lemma resolve_operand_eq:
  "resolve_operand I symbol operand c =
     (case ie_parse_f64 I operand of
        Some value \<Rightarrow> (Inr (Some value), c)
      | None \<Rightarrow>
          (case Option.bind (fst (ohlc_reference operand)) bar_field of
             Some value \<Rightarrow>
               (last_bar_value (case snd (ohlc_reference operand) of Some s \<Rightarrow> s | None \<Rightarrow> symbol) value c, c)
           | None \<Rightarrow>
               (case parse_indicator_call operand of
                  Inl e \<Rightarrow> (Inl e, c)
                | Inr None \<Rightarrow> (Inl (''unsupported indicator operand: '' @ operand), c)
                | Inr (Some (name, args)) \<Rightarrow> call_value I symbol operand name args c)))"
  by (simp add: resolve_operand_def call_value_def call_symbol_def Let_def case_prod_unfold
      split: option.split sum.split)

lemma resolve_operand_alike:
  assumes vis: "visible S c d" and own: "symbol \<in> S"
    and ohlc: "\<And>t. snd (ohlc_reference operand) = Some t \<Longrightarrow>
      t \<in> S \<or> bars_by_symbol c t = None \<and> bars_by_symbol d t = None"
    and call: "\<And>name args. parse_indicator_call operand = Inr (Some (name, args)) \<Longrightarrow> call_symbol symbol name \<in> S"
  obtains r c' d' where "resolve_operand I symbol operand c = (r, c')" "resolve_operand I symbol operand d = (r, d')"
    "visible S c' d'" "bars_by_symbol c' = bars_by_symbol c" "bars_by_symbol d' = bars_by_symbol d"
proof -
  let ?t = "case snd (ohlc_reference operand) of Some s \<Rightarrow> s | None \<Rightarrow> symbol"
  have bar: "last_bar_value ?t f c = last_bar_value ?t f d" for f
    using last_bar_alike [OF _ vis, of ?t] own ohlc by (auto split: option.splits)
  have called: "\<exists>r c' d'. call_value I symbol operand name args c = (r, c') \<and> call_value I symbol operand name args d = (r, d')
      \<and> visible S c' d' \<and> bars_by_symbol c' = bars_by_symbol c \<and> bars_by_symbol d' = bars_by_symbol d"
    if "parse_indicator_call operand = Inr (Some (name, args))" for name args
    using alikeD [OF alike_call_value [OF call [OF that]] vis] by metis
  show thesis
  proof (cases "ie_parse_f64 I operand")
    case (Some v)
    then show thesis using that [of _ c d] vis by (simp add: resolve_operand_eq)
  next
    case number: None
    show thesis
    proof (cases "Option.bind (fst (ohlc_reference operand)) bar_field")
      case (Some f)
      then show thesis using that [of _ c d] vis number bar [of f] by (simp add: resolve_operand_eq)
    next
      case field: None
      show thesis
      proof (cases "parse_indicator_call operand")
        case (Inl e)
        then show thesis using that [of _ c d] vis number field by (simp add: resolve_operand_eq)
      next
        case (Inr parsed)
        show thesis
        proof (cases parsed)
          case None
          then show thesis using that [of _ c d] vis number field Inr by (simp add: resolve_operand_eq)
        next
          case (Some na)
          obtain name args where "na = (name, args)" by fastforce
          with Some Inr have parse: "parse_indicator_call operand = Inr (Some (name, args))" by simp
          from called [OF this] show thesis using that number field parse by (auto simp: resolve_operand_eq)
        qed
      qed
    qed
  qed
qed


subsection \<open>References in the text\<close>

lemma dotted_dependency:
  assumes "ie_parse_f64 I (str_trim raw) = None"
    and "to_ascii_lowercase (str_trim raw) = u @ CHR ''.'' # rest" "CHR ''.'' \<notin> set u"
    and "to_ascii_uppercase (str_trim u) = t" "t \<noteq> []"
  shows "t = to_ascii_uppercase own \<or> extract_symbol_ref_from_operand I raw own = Some t"
proof -
  have "split_first (to_ascii_lowercase (str_trim raw)) ''.'' = Some (u, rest)"
    using assms(2,3) by (simp add: split_first_char)
  then show ?thesis using assms(1,4,5) by (auto simp: extract_symbol_ref_from_operand_def Let_def)
qed

lemma call_symbol_dependency:
  assumes "ie_parse_f64 I (str_trim raw) = None"
    and call: "parse_indicator_call (str_trim raw) = Inr (Some (name, args))"
  shows "call_symbol symbol name = symbol \<or> call_symbol symbol name = to_ascii_uppercase own
    \<or> extract_symbol_ref_from_operand I raw own = Some (call_symbol symbol name)"
proof (cases "snd (split_symbol_prefix name)")
  case None
  then show ?thesis by (simp add: call_symbol_def)
next
  case (Some t)
  then obtain a b where dot: "split_first name ''.'' = Some (a, b)" and t: "t = to_ascii_uppercase (str_trim a)" "t \<noteq> []"
    by (auto simp: split_symbol_prefix_def Let_def split: option.splits prod.splits if_splits)
  let ?L = "to_ascii_lowercase (str_trim raw)"
  from call obtain bp rest where paren: "split_first ?L ''('' = Some (bp, rest)" and name: "name = str_trim bp"
    by (auto simp: parse_indicator_call_def Let_def split: option.splits if_splits)
  from dot have "name = a @ CHR ''.'' # b" "CHR ''.'' \<notin> set a" by (simp_all add: split_first_char)
  with name str_trim_prefix [of bp a b] obtain u v where bp: "bp = u @ a @ CHR ''.'' # b @ v"
    "CHR ''.'' \<notin> set u" "str_trim (u @ a) = str_trim a" by auto
  have L: "?L = (u @ a) @ CHR ''.'' # (b @ v @ CHR ''('' # rest)" using paren bp(1) by (simp add: split_first_char)
  have "CHR ''.'' \<notin> set (u @ a)" using bp(2) \<open>CHR ''.'' \<notin> set a\<close> by simp
  from dotted_dependency [OF assms(1) L this, of t own] bp(3) t
  have "t = to_ascii_uppercase own \<or> extract_symbol_ref_from_operand I raw own = Some t" by simp
  then show ?thesis using Some by (auto simp: call_symbol_def)
qed

lemma ohlc_dependency:
  assumes "ie_parse_f64 I (str_trim raw) = None" "snd (ohlc_reference (str_trim raw)) = Some t"
    and "str_trim t = t" "t \<noteq> []"
  shows "t = to_ascii_uppercase own \<or> extract_symbol_ref_from_operand I raw own = Some t"
proof -
  from assms(2) obtain u rest where "split_first (to_ascii_lowercase (str_trim raw)) ''.'' = Some (u, rest)"
    and t: "t = to_ascii_uppercase u"
    by (auto simp: ohlc_reference_def Let_def split: option.splits if_splits)
  moreover have "to_ascii_uppercase (str_trim u) = t" using assms(3) t by (simp add: str_trim_upper)
  ultimately show ?thesis using dotted_dependency [OF assms(1)] assms(4) by (simp add: split_first_char)
qed

definition own_symbol :: "MartingaleStrategyConfig \<Rightarrow> string" where
  "own_symbol strategy = to_ascii_uppercase (str_trim (ms_symbol strategy))"

lemma dependency_listed:
  assumes "strategy \<in> set (pf_strategies config)" "e \<in> set (strategy_expressions strategy)"
    and "split_comparison (str_trim e) = Some (op, left, right)" "raw \<in> {left, right}"
    and "extract_symbol_ref_from_operand I raw (own_symbol strategy) = Some t"
  shows "t \<in> own_symbol ` set (pf_strategies config) \<union> set (extract_symbol_dependencies I config)"
proof -
  have "t \<in> set (append_deps_from_expression I e (own_symbol strategy))"
    using assms(3-5) by (auto simp: append_deps_from_expression_def List.map_filter_def split: option.splits)
  then show ?thesis
    using assms(1,2) by (force simp: extract_symbol_dependencies_def Let_def own_symbol_def [symmetric])
qed

lemma to_ascii_uppercase_idem: "to_ascii_uppercase (to_ascii_uppercase s) = to_ascii_uppercase s"
proof -
  have "ascii_upper (ascii_upper c) = ascii_upper c" for c
    by (cases rule: upper_cases [of c]) (auto simp: ascii_upper_def [of "ascii_upper c"])
  then show ?thesis by (simp add: to_ascii_uppercase_def)
qed

text \<open>C30: A portfolio subscribes to everything its expressions read. An expression of a strategy, an
  entry trigger or an indicator stop, has the same outcome in two contexts that agree on the portfolio's
  own symbols and on the dependencies extracted from its text, whatever other symbols the contexts hold;
  symbols are upper case without outer white space, as the exchange reports them.\<close>

theorem dependencies_cover_expressions:
  assumes "strategy \<in> set (pf_strategies config)" "e \<in> set (strategy_expressions strategy)"
    and "own_symbol strategy = ms_symbol strategy"
    and "clean_symbols c" "clean_symbols d"
    and "visible (own_symbol ` set (pf_strategies config) \<union> set (extract_symbol_dependencies I config)) c d"
  shows "fst (evaluate_expression I (ms_symbol strategy) e c) = fst (evaluate_expression I (ms_symbol strategy) e d)"
proof (cases "split_comparison (str_trim e)")
  case None
  then show ?thesis by (simp add: evaluate_expression_def)
next
  case (Some parts)
  obtain op left right where parts: "split_comparison (str_trim e) = Some (op, left, right)"
    using Some by (cases parts) auto
  let ?S = "own_symbol ` set (pf_strategies config) \<union> set (extract_symbol_dependencies I config)"
  let ?own = "ms_symbol strategy"
  have own: "?own \<in> ?S" "to_ascii_uppercase (own_symbol strategy) = ?own"
    using assms(1,3) to_ascii_uppercase_idem by (auto simp: own_symbol_def image_iff) metis+
  have operand: "\<exists>r c2 d2. resolve_operand I ?own (str_trim raw) c1 = (r, c2) \<and> resolve_operand I ?own (str_trim raw) d1 = (r, d2)
      \<and> visible ?S c2 d2 \<and> bars_by_symbol c2 = bars_by_symbol c1 \<and> bars_by_symbol d2 = bars_by_symbol d1"
    if raw: "raw \<in> {left, right}" and vis: "visible ?S c1 d1"
      and bars: "bars_by_symbol c1 = bars_by_symbol c" "bars_by_symbol d1 = bars_by_symbol d" for raw c1 d1
  proof (cases "ie_parse_f64 I (str_trim raw)")
    case (Some v)
    then show ?thesis using vis by (simp add: resolve_operand_def)
  next
    case None
    have ohlc: "t \<in> ?S \<or> bars_by_symbol c1 t = None \<and> bars_by_symbol d1 t = None"
      if "snd (ohlc_reference (str_trim raw)) = Some t" for t
    proof (rule ccontr)
      assume no: "\<not> ?thesis"
      then have "str_trim t = t" "t \<noteq> []" using assms(4,5) bars by (auto simp: clean_symbols_def)
      from ohlc_dependency [OF None that this, of "own_symbol strategy"] no own
        dependency_listed [OF assms(1,2) parts raw, where I = I and t = t]
      show False by auto
    qed
    have call: "call_symbol ?own name \<in> ?S" if "parse_indicator_call (str_trim raw) = Inr (Some (name, args))" for name args
      using call_symbol_dependency [OF None that, of ?own "own_symbol strategy"] own
        dependency_listed [OF assms(1,2) parts raw, where I = I and t = "call_symbol ?own name"] by auto
    show ?thesis by (rule resolve_operand_alike [OF vis own(1) ohlc call, where I = I]) auto
  qed
  from operand [of left c d] assms(6) obtain r c2 d2 where left: "resolve_operand I ?own (str_trim left) c = (r, c2)"
    "resolve_operand I ?own (str_trim left) d = (r, d2)" "visible ?S c2 d2"
    "bars_by_symbol c2 = bars_by_symbol c" "bars_by_symbol d2 = bars_by_symbol d" by auto
  from operand [of right, OF _ left(3,4,5)] obtain q c3 d3 where
    "resolve_operand I ?own (str_trim right) c2 = (q, c3)" "resolve_operand I ?own (str_trim right) d2 = (q, d3)" by auto
  with left show ?thesis
    by (simp add: evaluate_expression_def parts split: sum.split option.split)
qed


subsection \<open>A gated strategy\<close>

definition demo_gated :: MartingaleStrategyConfig where
  "demo_gated = demo_leg_config\<lparr>ms_symbol := ''SOL'', ms_entry_triggers := [EtIndicatorExpression ''close > btc.ema(2)'']\<rparr>"

definition demo_portfolio :: MartingalePortfolioConfig where
  "demo_portfolio = \<lparr>pf_direction_mode = LongOnly, pf_strategies = [demo_gated], pf_risk_limits = default_limits\<rparr>"

definition demo_market :: "(string \<rightharpoonup> KlineBar list) \<Rightarrow> IndicatorRuntimeContext" where
  "demo_market other =
     default_indicators\<lparr>bars_by_symbol := other(''SOL'' \<mapsto> [demo_price_bar 0 90], ''BTC'' \<mapsto> [demo_price_bar 0 100])\<rparr>"

lemma demo_dependencies: "extract_symbol_dependencies demo_ind demo_portfolio = [''BTC'']"
  by code_simp

lemma demo_symbols: "str_trim ''SOL'' = ''SOL''" "str_trim ''BTC'' = ''BTC''" "str_trim ''ETH'' = ''ETH''" "to_ascii_uppercase ''SOL'' = ''SOL''"
  by code_simp+

theorem dependencies_cover_expressions_witness:
  "fst (evaluate_expression demo_ind ''SOL'' ''close > btc.ema(2)'' (demo_market Map.empty)) =
   fst (evaluate_expression demo_ind ''SOL'' ''close > btc.ema(2)'' (demo_market [''ETH'' \<mapsto> [demo_price_bar 0 7]]))"
proof -
  have "strategy_expressions demo_gated = [''close > btc.ema(2)'']"
    by (simp add: strategy_expressions_def demo_gated_def demo_leg_config_def List.map_filter_def)
  moreover have "own_symbol demo_gated = ''SOL''" "ms_symbol demo_gated = ''SOL''"
    by (simp_all add: own_symbol_def demo_gated_def demo_leg_config_def demo_symbols)
  moreover have "clean_symbols (demo_market Map.empty)" "clean_symbols (demo_market [''ETH'' \<mapsto> [demo_price_bar 0 7]])"
    by (auto simp: clean_symbols_def demo_market_def demo_symbols default_indicators_def split: if_splits)
  moreover have "visible {''BTC'', ''SOL''} (demo_market Map.empty) (demo_market [''ETH'' \<mapsto> [demo_price_bar 0 7]])"
    by (simp add: visible_def demo_market_def)
  moreover have "set (pf_strategies demo_portfolio) = {demo_gated}" by (simp add: demo_portfolio_def)
  ultimately show ?thesis
    using dependencies_cover_expressions [where strategy = demo_gated and config = demo_portfolio and I = demo_ind
        and e = "''close > btc.ema(2)''" and c = "demo_market Map.empty"
        and d = "demo_market [''ETH'' \<mapsto> [demo_price_bar 0 7]]"]
    by (simp add: demo_dependencies)
qed

text \<open>The dot of a number in an argument is taken for the dot after a symbol: a band of width 2.5 makes the
  portfolio depend on a symbol that does not exist.\<close>

lemma decimal_argument_becomes_dependency:
  "append_deps_from_expression demo_ind ''close > bb_upper(20,2.5)'' ''SOL'' = [''BB_UPPER(20,2'']"
  by code_simp

text \<open>A band whose width prints like an earlier one to eight decimals is answered with the earlier width.\<close>

lemma band_width_is_cached_by_text:
  assumes "ie_show_fixed8 I a = ie_show_fixed8 I b"
  shows "fst (latest_bollinger I s p b (snd (latest_bollinger I s p a c))) = fst (latest_bollinger I s p a c)"
  using assms by (simp add: latest_bollinger_def ensure_bollinger_cached_def ensure_key_def Let_def)

end
