(* ===== verification/Spec2Isabelle.thy ===== *)
theory Spec2Isabelle
  imports GridBuilderProps GridRuntimeProps EngineProps StopProps ExecutionProps LifecycleProps
    TradeSyncProps BillingProps MartingalePrices MartingaleCandles
    AuthDemo TimeSplits SchedulerProps MembershipProps IndicatorDeps
begin

text \<open>
  \<^bold>\<open>Verification of the grid trading platform\<close>

  The program (\<^verbatim>\<open>src/\<close>, Rust) runs grid strategies on Binance accounts. An owner drafts a strategy and
  drives it through the API server; the trading engine keeps the orders of a running strategy in step
  with the exchange and turns fills into the next orders of the grid; a listener watches deposit
  addresses on chains and turns payments into memberships. The services share one store.

  \<^bold>\<open>Parts and theories\<close>

  \<^descr> \<open>Prelude\<close>, \<open>RustString\<close>: machine integers as words, \<open>Decimal\<close> as rationals whose operations come
    from an environment, the \<open>str\<close> operations of the standard library on UTF-8 bytes, loops over
    mutable vectors, early returns; the locale \<open>keyed_upsert\<close> (find-or-push by a key) and the locale
    \<open>rounded_decimal\<close> (monotone rounding that keeps representable numbers).
  \<^descr> \<open>Domain\<close>: the data model of \<^verbatim>\<open>shared-domain/src/strategy.rs\<close>. \<open>DecimalFit\<close>: the numbers a
    \<open>Decimal\<close> holds (a 96-bit mantissa, at most 28 decimal places) and the locale \<open>fitting_decimal\<close>
    (an operation whose exact result is such a number returns it), interpreted on arithmetic that
    cuts at 28 places; sums of positions under it.
  \<^descr> \<open>TakeProfit\<close>, \<open>GridBuilder\<close>, \<open>GridBuilderProps\<close>: \<^verbatim>\<open>take_profit.rs\<close>, \<^verbatim>\<open>stop_loss.rs\<close>,
    \<^verbatim>\<open>grid_builder.rs\<close>. Every plan a builder returns is well-formed; \<open>validate_shape\<close> accepts exactly
    the well-formed plans; exact levels where the arithmetic does not round.
  \<^descr> \<open>GridRuntime\<close>, \<open>GridRuntimeProps\<close>: \<^verbatim>\<open>runtime.rs\<close>, the in-memory grid. The order book of every
    reachable runtime is unique per slot and sorted; what starting and a price tick do.
  \<^descr> \<open>StrategyRuntime\<close>, \<open>OrderIds\<close>, \<open>StrategyRuntimeProps\<close>, \<open>EngineBook\<close>, \<open>EngineProps\<close>:
    \<^verbatim>\<open>strategy_runtime.rs\<close>, the engine of one strategy. Over all sequences of its methods from a new engine: unique order
    ids, an exit order for every open level, positions equal to the open levels, a fill ledger without
    repeated ids, no panic, no new entries while draining, restoring from a snapshot.
  \<^descr> \<open>OrderSync\<close>, \<open>OrderSyncProps\<close>, \<open>StopProps\<close>: \<^verbatim>\<open>order_sync.rs\<close>, reconciliation with the exchange
    through the gateway trait (a record of its four operations over an abstract exchange state).
    Each order is submitted at most once per sync and only after validation, requests are safe in hedge
    mode, errors are counted by their class, quantities are rounded down to the step, a stop ends when
    and only when nothing is left to close. The locale \<open>gateway_contract\<close> carries a property of
    exchange states through the loops and is interpreted on a gateway that logs its requests.
  \<^descr> \<open>ExecutionSync\<close>, \<open>ExecutionProps\<close>: \<^verbatim>\<open>execution_sync.rs\<close>, execution reports. The level state
    refines a ledger of lots; repeated reports add no fill; an entry fill leaves a live exit, an exit
    fill reopens the entry.
  \<^descr> \<open>SharedDb\<close>: the in-memory backend of \<^verbatim>\<open>shared-db/src/lib.rs\<close> with the records of
    \<^verbatim>\<open>shared-db/src/postgres\<close>, \<^verbatim>\<open>shared-chain\<close> and \<^verbatim>\<open>shared-events\<close>.
  \<^descr> \<open>Preflight\<close>, \<open>Lifecycle\<close>, \<open>LifecycleRuns\<close>, \<open>LifecycleProps\<close>: \<^verbatim>\<open>strategy_service.rs\<close>, the checks
    before a start and the handlers that start, resume, stop, pause and delete strategies. The locale
    \<open>strategy_store\<close> is the store the handlers see. Each handler writes exactly the strategies, and
    moves them along exactly the edges, of the life cycle that are its own; runs of handlers never
    let two running futures strategies of an owner trade one side of a symbol. Drafting handlers
    (create, edit, clone, templates) never run a strategy and are not steps of these runs.
  \<^descr> \<open>TradeSync\<close>, \<open>TradeSyncProps\<close>: \<^verbatim>\<open>trade_sync.rs\<close> and \<^verbatim>\<open>telegram_notify.rs\<close>, recovery of trades the
    stream missed. Merging trades conserves quantity, cost, fees and profit; no trade enters the
    history twice.
  \<^descr> \<open>Billing\<close>, \<open>BillingAmounts\<close>: \<^verbatim>\<open>billing-chain-listener/src\<close>, canonical amounts, the address pool,
    matching of deposits with orders and promotion of queued orders.
  \<^descr> \<open>Leases\<close>, \<open>BillingProps\<close>: a transfer pays one order and only the order it fits; two orders never
    hold leases of one address that overlap within the hour a lease lasts, whatever times the requests
    carry.
  \<^descr> \<open>F64\<close>, \<open>F64Round\<close>: Rust's \<open>f64\<close> as IEEE 754 binary64, a rational, an infinity or \<open>NaN\<close>, with
    arithmetic that rounds to nearest even; rounding is monotone, which orders computed prices.
  \<^descr> \<open>Martingale\<close>, \<open>MartingaleCapital\<close>, \<open>MartingaleRuntime\<close>, \<open>MartingaleRecovery\<close>: martingale
    portfolios, from \<^verbatim>\<open>shared-domain/src/martingale.rs\<close> (configuration and validation), the files
    \<^verbatim>\<open>rules.rs\<close>, \<^verbatim>\<open>exit_rules.rs\<close> and \<^verbatim>\<open>capital.rs\<close> of \<^verbatim>\<open>backtest-engine/src/martingale\<close> (ladders,
    take profits, capital) and \<^verbatim>\<open>martingale_runtime.rs\<close>, \<^verbatim>\<open>martingale_recovery.rs\<close>,
    \<^verbatim>\<open>martingale_candle.rs\<close>, \<^verbatim>\<open>martingale_exit.rs\<close> of the trading engine.
  \<^descr> \<open>MartingaleBook\<close>, \<open>MartingaleProps\<close>, \<open>MartingalePrices\<close>, \<open>MartingaleCandles\<close>, \<open>MartingaleDemo\<close>:
    the runtime refines a ledger of margins, so budgets hold in every reachable state; validation equals
    a reference predicate; ladders and take profits lie on the right side of their anchor in spite of
    rounding; recovery accounts for every order; candles come out in order.
  \<^descr> \<open>Indicators\<close>, \<open>IndicatorRuntime\<close>: \<^verbatim>\<open>backtest-engine/src/indicators.rs\<close> and
    \<^verbatim>\<open>indicator_runtime.rs\<close>, the batch indicators, their incremental states and caches, and the
    expressions that consult them; \<open>indicator_world\<close> gives a martingale runtime these operations.
  \<^descr> \<open>IndicatorReplay\<close>, \<open>IndicatorProps\<close>, \<open>IndicatorBounds\<close>, \<open>TrimFacts\<close>, \<open>IndicatorDeps\<close>: a cached
    indicator equals its batch form after any calls (the locale \<open>indicator_cache\<close>, interpreted once per
    indicator); ranges of their values; the symbols an expression reads are extracted from its text.
  \<^descr> \<open>Auth\<close>, \<open>Base32\<close>: \<^verbatim>\<open>shared-auth/src\<close>, base32 on machine words, one-time passwords, email codes and
    session tokens. Base32 decodes what it encodes although its buffers overflow.
  \<^descr> \<open>Identity\<close>, \<open>AuthService\<close>, \<open>AuthProps\<close>, \<open>AuthDemo\<close>: the users, sessions and audit log of the store,
    \<^verbatim>\<open>auth_service.rs\<close>, the session guards of \<^verbatim>\<open>routes/auth_guard.rs\<close> and the routes of
    \<^verbatim>\<open>security.rs\<close> and \<^verbatim>\<open>profile.rs\<close>. When a login succeeds; over all sequences of requests every
    accepted session stems from a login of its account, and replaced credentials end it.
  \<^descr> \<open>Membership\<close>, \<open>MembershipProps\<close>: \<^verbatim>\<open>membership_service.rs\<close>, orders, manual matches, overrides, plans,
    addresses, abnormal deposits and sweeps. What a manual match rests on; how the views of a membership
    in the service, the scheduler and the preflight relate.
  \<^descr> \<open>Scheduler\<close>, \<open>SchedulerProps\<close>: the jobs of \<^verbatim>\<open>scheduler/src/jobs\<close>. The grace job pauses exactly
    the running strategies of members past their grace period.
  \<^descr> \<open>TimeSplits\<close>: \<^verbatim>\<open>backtest-engine/src/time_splits.rs\<close>, walk-forward windows with checked 64-bit
    arithmetic; the loop ends and returns exactly the windows that fit.

  \<^bold>\<open>How code becomes definitions\<close>

  A struct is a record with a field prefix per type, an enum a datatype, a function or handler one
  definition; a loop body or a branch that proofs refer to has a definition of its own. \<open>&mut\<close> state is
  passed and returned. An error is \<open>Inl\<close> of its message (or of the error struct), a panic is \<open>None\<close>.
  \<open>u32\<close>, \<open>u64\<close> are words; instants are integers counting nanoseconds. The record \<open>env\<close> holds the
  operations of \<open>rust_decimal\<close> and \<open>chrono\<close> (arithmetic with rounding, parsing, printing, the clock
  by the number of the event), \<open>world\<close> those of \<open>serde_json\<close>, Unicode case mapping and the Telegram
  bot. The properties hold for every such record unless the hypothesis \<open>fitting_decimal\<close> states the
  documented behaviour of the crate they rely on, together with which totals must fit; the witnesses use
  \<open>env_of trunc28\<close>, arithmetic that cuts at 28 places, or \<open>plain_env\<close>, exact rational arithmetic. The locales \<open>exact_decimal\<close> and \<open>exact_grid\<close> describe runs in which
  nothing rounds; they serve lemmas on intended values only.

  Loops are structural recursion or have a measure; the one loop that is not obviously finite,
  \<open>walk_loop\<close>, is a partial function whose result is proved to exist. No fuel is used.

  \<^bold>\<open>Not modelled\<close>

  The SQL and Redis backends, HTTP, SMTP and websocket transport, process loops and their timers,
  serialisation, the web front end, and the simulation and search programs of the
  back test. Hashes, signatures and base64 are parameters (\<open>auth_crypto\<close>), with the laws a theorem relies
  on as hypotheses. A martingale runtime takes its indicators as a parameter (\<open>mg_world\<close>), which
  \<open>indicator_world\<close> instantiates.
\<close>

end
